(* ===== verification/Prelude.thy ===== *)
theory Prelude
  imports Complex_Main "HOL-Library.AList"
begin

text \<open>
  Shared vocabulary of the development: the state-and-exception actions that every
  service and repository is written in, a locale for relations between the state before
  and after an action, the C character classes and integer conversions the sources use
  (\<^verbatim>\<open>std::isspace\<close>, \<^verbatim>\<open>std::to_string\<close>, \<^verbatim>\<open>std::from_chars\<close>), and generic lemmas on lists.
\<close>

named_theorems act_simps "unfolding rules of actions"
named_theorems keeps_intros "compositional rules for step relations"


section \<open>Actions: state passing with exceptions\<close>

text \<open>
  A C++ member function that may throw is an action: it maps the state to a result, either
  the exception (\<open>Inl\<close>) or the value (\<open>Inr\<close>), and the state it leaves behind. An exception
  does not undo the effects performed before it; only a database transaction does.
\<close>

type_synonym ('e, 's, 'a) action = "'s \<Rightarrow> ('e + 'a) \<times> 's"

definition ret :: "'a \<Rightarrow> ('e, 's, 'a) action" where
  "ret x = (\<lambda>s. (Inr x, s))"

definition throw :: "'e \<Rightarrow> ('e, 's, 'a) action" where
  "throw e = (\<lambda>s. (Inl e, s))"

definition seq :: "('e, 's, 'a) action \<Rightarrow> ('a \<Rightarrow> ('e, 's, 'b) action) \<Rightarrow> ('e, 's, 'b) action" where
  "seq m f = (\<lambda>s. case m s of (Inl e, s') \<Rightarrow> (Inl e, s') | (Inr x, s') \<Rightarrow> f x s')"

definition gets :: "('s \<Rightarrow> 'a) \<Rightarrow> ('e, 's, 'a) action" where
  "gets f = (\<lambda>s. (Inr (f s), s))"

definition modify :: "('s \<Rightarrow> 's) \<Rightarrow> ('e, 's, unit) action" where
  "modify f = (\<lambda>s. (Inr (), f s))"

definition require :: "bool \<Rightarrow> 'e \<Rightarrow> ('e, 's, unit) action" where
  "require b e = (if b then ret () else throw e)"

definition of_result :: "'e + 'a \<Rightarrow> ('e, 's, 'a) action" where
  "of_result r = (\<lambda>s. (r, s))"

definition catch :: "('e, 's, 'a) action \<Rightarrow> ('e \<Rightarrow> ('e, 's, 'a) action) \<Rightarrow> ('e, 's, 'a) action" where
  "catch m h = (\<lambda>s. case m s of (Inl e, s') \<Rightarrow> h e s' | (Inr x, s') \<Rightarrow> (Inr x, s'))"

fun for_each :: "'a list \<Rightarrow> ('a \<Rightarrow> ('e, 's, unit) action) \<Rightarrow> ('e, 's, unit) action" where
  "for_each [] f = ret ()"
| "for_each (x # xs) f = seq (f x) (\<lambda>_. for_each xs f)"

abbreviation succeeds :: "('e, 's, 'a) action \<Rightarrow> 's \<Rightarrow> 'a \<Rightarrow> 's \<Rightarrow> bool" where
  "succeeds m s x s' \<equiv> m s = (Inr x, s')"

abbreviation final :: "('e, 's, 'a) action \<Rightarrow> 's \<Rightarrow> 's" where
  "final m s \<equiv> snd (m s)"

lemma ret_apply [simp, act_simps]: "ret x s = (Inr x, s)"
  by (simp add: ret_def)

lemma throw_apply [simp, act_simps]: "throw e s = (Inl e, s)"
  by (simp add: throw_def)

lemma gets_apply [simp, act_simps]: "gets f s = (Inr (f s), s)"
  by (simp add: gets_def)

lemma modify_apply [simp, act_simps]: "modify f s = (Inr (), f s)"
  by (simp add: modify_def)

lemma of_result_apply [simp, act_simps]: "of_result r s = (r, s)"
  by (simp add: of_result_def)

lemma require_apply [act_simps]: "require b e s = (if b then (Inr (), s) else (Inl e, s))"
  by (simp add: require_def)

lemma seq_apply [act_simps]:
  "seq m f s = (case m s of (Inl e, s') \<Rightarrow> (Inl e, s') | (Inr x, s') \<Rightarrow> f x s')"
  by (simp add: seq_def)

lemma catch_apply [act_simps]:
  "catch m h s = (case m s of (Inl e, s') \<Rightarrow> h e s' | (Inr x, s') \<Rightarrow> (Inr x, s'))"
  by (simp add: catch_def)

lemma seq_Inr [simp]: "m s = (Inr x, s') \<Longrightarrow> seq m f s = f x s'"
  by (simp add: seq_def)

lemma seq_Inl [simp]: "m s = (Inl e, s') \<Longrightarrow> seq m f s = (Inl e, s')"
  by (simp add: seq_def)

lemma seq_succeedsE:
  assumes "seq m f s = (Inr y, t)"
  obtains x s' where "m s = (Inr x, s')" and "f x s' = (Inr y, t)"
  using assms by (auto simp: seq_def split: prod.splits sum.splits)

lemma require_succeeds [simp]: "require b e s = (Inr u, t) \<longleftrightarrow> b \<and> t = s"
  by (auto simp: require_apply)

lemma seq_assoc: "seq (seq m f) g = seq m (\<lambda>x. seq (f x) g)"
  by (auto simp: seq_def fun_eq_iff split: prod.splits sum.splits)


lemma for_each_succeeds:
  assumes "for_each xs f s = (Inr u, t)" "I s"
    and "\<And>x s s'. x \<in> set xs \<Longrightarrow> I s \<Longrightarrow> f x s = (Inr (), s') \<Longrightarrow> I s'"
  shows "I t"
  using assms
proof (induction xs arbitrary: s)
  case (Cons x xs)
  from Cons.prems(1) obtain s' where "f x s = (Inr (), s')" "for_each xs f s' = (Inr u, t)"
    by (auto elim: seq_succeedsE)
  then show ?case using Cons.IH [of s'] Cons.prems(2,3) by (meson list.set_intros)
qed simp


section \<open>Weakest preconditions\<close>

text \<open>
  \<open>wp m Q E s\<close>: started in \<open>s\<close>, the action ends in a state where \<open>Q\<close> holds of its result, or \<open>E\<close>
  of the exception it throws. The equations below compute it along the structure of an action.
\<close>

named_theorems wp_simps "weakest precondition of the action combinators"

definition wp ::
    "('e, 's, 'a) action \<Rightarrow> ('a \<Rightarrow> 's \<Rightarrow> bool) \<Rightarrow> ('e \<Rightarrow> 's \<Rightarrow> bool) \<Rightarrow> 's \<Rightarrow> bool" where
  "wp m Q E s = (case m s of (Inr x, s') \<Rightarrow> Q x s' | (Inl e, s') \<Rightarrow> E e s')"

lemma wp_ret [wp_simps]: "wp (ret x) Q E s = Q x s"
  by (simp add: wp_def)

lemma wp_throw [wp_simps]: "wp (throw e) Q E s = E e s"
  by (simp add: wp_def)

lemma wp_gets [wp_simps]: "wp (gets f) Q E s = Q (f s) s"
  by (simp add: wp_def)

lemma wp_modify [wp_simps]: "wp (modify f) Q E s = Q () (f s)"
  by (simp add: wp_def)

lemma wp_require [wp_simps]: "wp (require b e) Q E s = (if b then Q () s else E e s)"
  by (simp add: wp_def require_apply)

lemma wp_of_result [wp_simps]:
  "wp (of_result r) Q E s = (case r of Inr x \<Rightarrow> Q x s | Inl e \<Rightarrow> E e s)"
  by (simp add: wp_def split: sum.splits)

lemma wp_seq [wp_simps]: "wp (seq m f) Q E s = wp m (\<lambda>x s'. wp (f x) Q E s') E s"
  by (auto simp: wp_def seq_apply split: prod.splits sum.splits)

lemma wp_catch [wp_simps]: "wp (catch m h) Q E s = wp m Q (\<lambda>e s'. wp (h e) Q E s') s"
  by (auto simp: wp_def catch_apply split: prod.splits sum.splits)

lemma wp_mono:
  assumes "wp m Q E s" "\<And>x s'. Q x s' \<Longrightarrow> Q' x s'" "\<And>e s'. E e s' \<Longrightarrow> E' e s'"
  shows "wp m Q' E' s"
  using assms by (auto simp: wp_def split: prod.splits sum.splits)

lemma wp_conj: "wp m Q E s \<Longrightarrow> wp m Q' E' s \<Longrightarrow> wp m (\<lambda>x t. Q x t \<and> Q' x t) (\<lambda>e t. E e t \<and> E' e t) s"
  by (auto simp: wp_def split: prod.splits sum.splits)

lemma wpD_Inr: "wp m Q E s \<Longrightarrow> m s = (Inr x, s') \<Longrightarrow> Q x s'"
  by (simp add: wp_def)

lemma wpD_Inl: "wp m Q E s \<Longrightarrow> m s = (Inl e, s') \<Longrightarrow> E e s'"
  by (simp add: wp_def)

lemma wpI: "(\<And>x s'. m s = (Inr x, s') \<Longrightarrow> Q x s') \<Longrightarrow> (\<And>e s'. m s = (Inl e, s') \<Longrightarrow> E e s') \<Longrightarrow> wp m Q E s"
  by (auto simp: wp_def split: prod.splits sum.splits)

lemma wp_final: "wp m (\<lambda>_. P) (\<lambda>_. P) s \<longleftrightarrow> P (final m s)"
  by (auto simp: wp_def split: prod.splits sum.splits)


section \<open>Relations between the state before and after an action\<close>

text \<open>
  \<open>keeps R m\<close>: whatever \<open>m\<close> returns, and also when it throws, the state it leaves is
  related to the state it started in. For a reflexive and transitive \<open>R\<close> this composes;
  invariants, frame conditions and monotonicity are all instances.
\<close>

definition keeps :: "('s \<Rightarrow> 's \<Rightarrow> bool) \<Rightarrow> ('e, 's, 'a) action \<Rightarrow> bool" where
  "keeps R m \<longleftrightarrow> (\<forall>s. R s (snd (m s)))"

definition inv_rel :: "('s \<Rightarrow> bool) \<Rightarrow> 's \<Rightarrow> 's \<Rightarrow> bool" where
  "inv_rel I s t \<longleftrightarrow> (I s \<longrightarrow> I t)"

definition same_rel :: "('s \<Rightarrow> 'v) \<Rightarrow> 's \<Rightarrow> 's \<Rightarrow> bool" where
  "same_rel f s t \<longleftrightarrow> f t = f s"

lemma keepsI: "(\<And>s. R s (snd (m s))) \<Longrightarrow> keeps R m"
  by (simp add: keeps_def)

lemma keepsD: "keeps R m \<Longrightarrow> m s = (r, t) \<Longrightarrow> R s t"
  by (metis keeps_def snd_conv)

locale step_relation =
  fixes R :: "'s \<Rightarrow> 's \<Rightarrow> bool"
  assumes refl: "R s s"
    and trans: "R s t \<Longrightarrow> R t u \<Longrightarrow> R s u"
begin

lemma keeps_ret: "keeps R (ret x)"
  by (simp add: keeps_def refl)

lemma keeps_throw: "keeps R (throw e)"
  by (simp add: keeps_def refl)

lemma keeps_gets: "keeps R (gets f)"
  by (simp add: keeps_def refl)

lemma keeps_require: "keeps R (require b e)"
  by (simp add: keeps_def require_apply refl)

lemma keeps_of_result: "keeps R (of_result r)"
  by (simp add: keeps_def refl)

lemma keeps_modify: "(\<And>s. R s (f s)) \<Longrightarrow> keeps R (modify f)"
  by (simp add: keeps_def)

lemma keeps_seq:
  assumes "keeps R m" and "\<And>x. keeps R (f x)"
  shows "keeps R (seq m f)"
proof (rule keepsI)
  fix s
  obtain r s' where m: "m s = (r, s')" by (cases "m s")
  with assms(1) have "R s s'" by (rule keepsD)
  moreover have "R s' (snd (f x s'))" for x
    using assms(2) by (simp add: keeps_def)
  ultimately show "R s (snd (seq m f s))"
    using m by (auto simp: seq_apply split: sum.splits intro: trans)
qed

text \<open>The continuation may use what the first action returned and the state it reached.\<close>

lemma keeps_seq_strong:
  assumes "keeps R m" and "\<And>s x s'. m s = (Inr x, s') \<Longrightarrow> R s s' \<Longrightarrow> R s (snd (f x s'))"
  shows "keeps R (seq m f)"
proof (rule keepsI)
  fix s
  obtain r s' where m: "m s = (r, s')" by (cases "m s")
  with assms(1) have "R s s'" by (rule keepsD)
  then show "R s (snd (seq m f s))"
    using m assms(2) by (auto simp: seq_apply split: sum.splits)
qed

lemma keeps_catch:
  assumes "keeps R m" and "\<And>e. keeps R (h e)"
  shows "keeps R (catch m h)"
proof (rule keepsI)
  fix s
  obtain r s' where m: "m s = (r, s')" by (cases "m s")
  with assms(1) have "R s s'" by (rule keepsD)
  moreover have "R s' (snd (h e s'))" for e
    using assms(2) by (simp add: keeps_def)
  ultimately show "R s (snd (catch m h s))"
    using m by (auto simp: catch_apply split: sum.splits intro: trans)
qed

lemma keeps_for_each:
  assumes "\<And>x. x \<in> set xs \<Longrightarrow> keeps R (f x)"
  shows "keeps R (for_each xs f)"
  using assms by (induction xs) (simp_all add: keeps_ret keeps_seq)

lemma keeps_if: "(b \<Longrightarrow> keeps R m) \<Longrightarrow> (\<not> b \<Longrightarrow> keeps R n) \<Longrightarrow> keeps R (if b then m else n)"
  by simp

lemma keeps_option:
  "(x = None \<Longrightarrow> keeps R m) \<Longrightarrow> (\<And>y. x = Some y \<Longrightarrow> keeps R (f y)) \<Longrightarrow>
   keeps R (case x of None \<Rightarrow> m | Some y \<Rightarrow> f y)"
  by (cases x) simp_all

lemma keeps_prod: "(\<And>a b. p = (a, b) \<Longrightarrow> keeps R (f a b)) \<Longrightarrow> keeps R (case p of (a, b) \<Rightarrow> f a b)"
  by (cases p) simp

lemma keeps_let: "keeps R (f x) \<Longrightarrow> keeps R (let y = x in f y)"
  by simp

lemmas keeps_rules = keeps_ret keeps_throw keeps_gets keeps_require keeps_of_result
  keeps_seq keeps_for_each keeps_if keeps_option keeps_prod keeps_let

end

lemma keeps_wp: "(\<And>s. wp m (\<lambda>_. R s) (\<lambda>_. R s) s) \<Longrightarrow> keeps R m"
  by (simp add: keeps_def wp_final)

lemma keeps_wpD: "keeps R m \<Longrightarrow> wp m (\<lambda>_. R s) (\<lambda>_. R s) s"
  by (simp add: keeps_def wp_final)

text \<open>The two instances every component uses: invariants, and quantities that never change.\<close>

interpretation inv_step: step_relation "inv_rel I" for I
  by unfold_locales (auto simp: inv_rel_def)

interpretation same_step: step_relation "same_rel f" for f
  by unfold_locales (auto simp: same_rel_def)


lemma same_keeps_inv: "keeps (same_rel f) m \<Longrightarrow> keeps (inv_rel (\<lambda>s. I (f s))) m"
  by (simp add: keeps_def inv_rel_def same_rel_def)

lemma inv_wpI: "(\<And>s. I s \<Longrightarrow> wp m (\<lambda>_. I) (\<lambda>_. I) s) \<Longrightarrow> keeps (inv_rel I) m"
  by (simp add: keeps_def inv_rel_def wp_final)

lemma inv_wpD: "keeps (inv_rel I) m \<Longrightarrow> I s \<Longrightarrow> wp m (\<lambda>_. I) (\<lambda>_. I) s"
  by (simp add: keeps_def inv_rel_def wp_final)


lemma wp_require_seq: "(b \<Longrightarrow> wp (f ()) Q E s) \<Longrightarrow> E e s \<Longrightarrow> wp (seq (require b e) f) Q E s"
  by (simp add: wp_simps)

lemma wp_then_keeps:
  assumes "wp m (\<lambda>_. I) (\<lambda>_. I) s" "\<And>x. keeps (inv_rel I) (f x)"
  shows "wp (seq m f) (\<lambda>_. I) (\<lambda>_. I) s"
  unfolding wp_seq by (rule wp_mono [OF assms(1)]) (use inv_wpD [OF assms(2)] in auto)


section \<open>Character classes of the C locale\<close>

abbreviation byte_of :: "char \<Rightarrow> nat" where
  "byte_of c \<equiv> of_char c"

definition isdigit :: "char \<Rightarrow> bool" where
  "isdigit c \<longleftrightarrow> 48 \<le> byte_of c \<and> byte_of c \<le> 57"

definition isupper :: "char \<Rightarrow> bool" where
  "isupper c \<longleftrightarrow> 65 \<le> byte_of c \<and> byte_of c \<le> 90"

definition islower :: "char \<Rightarrow> bool" where
  "islower c \<longleftrightarrow> 97 \<le> byte_of c \<and> byte_of c \<le> 122"

definition isalnum :: "char \<Rightarrow> bool" where
  "isalnum c \<longleftrightarrow> isdigit c \<or> isupper c \<or> islower c"

definition isspace :: "char \<Rightarrow> bool" where
  "isspace c \<longleftrightarrow> byte_of c = 32 \<or> (9 \<le> byte_of c \<and> byte_of c \<le> 13)"

definition tolower :: "char \<Rightarrow> char" where
  "tolower c = (if isupper c then char_of (byte_of c + 32) else c)"

lemma tolower_not_upper [simp]: "\<not> isupper (tolower c)"
  by (auto simp: tolower_def isupper_def)

lemma tolower_idem [simp]: "tolower (tolower c) = tolower c"
  using tolower_not_upper [of c] by (simp only: tolower_def [of "tolower c"] if_False)

lemma isdigit_not_space: "isdigit c \<Longrightarrow> \<not> isspace c"
  by (auto simp: isdigit_def isspace_def)

lemma isalnum_not_space: "isalnum c \<Longrightarrow> \<not> isspace c"
  by (auto simp: isalnum_def isdigit_def isupper_def islower_def isspace_def)


section \<open>Substrings\<close>

text \<open>\<^verbatim>\<open>s.find(pat) != npos\<close>.\<close>

fun str_contains :: "string \<Rightarrow> string \<Rightarrow> bool" where
  "str_contains pat [] \<longleftrightarrow> pat = []"
| "str_contains pat (c # cs) \<longleftrightarrow> take (length pat) (c # cs) = pat \<or> str_contains pat cs"

lemma str_contains_iff: "str_contains pat s \<longleftrightarrow> (\<exists>a b. s = a @ pat @ b)"
proof (induction s)
  case (Cons c cs)
  show ?case
  proof
    assume "str_contains pat (c # cs)"
    then consider "take (length pat) (c # cs) = pat" | "\<exists>a b. cs = a @ pat @ b"
      using Cons.IH by auto
    then show "\<exists>a b. c # cs = a @ pat @ b"
    proof cases
      case 1
      then have "c # cs = [] @ pat @ drop (length pat) (c # cs)"
        by (metis append_Nil append_take_drop_id)
      then show ?thesis by blast
    next
      case 2
      then show ?thesis by (metis append_Cons)
    qed
  next
    assume "\<exists>a b. c # cs = a @ pat @ b"
    then obtain a b where ab: "c # cs = a @ pat @ b" by blast
    show "str_contains pat (c # cs)"
    proof (cases a)
      case Nil
      then have "take (length pat) (c # cs) = pat" by (simp add: ab)
      then show ?thesis by simp
    next
      case (Cons x xs)
      then have "\<exists>a b. cs = a @ pat @ b" using ab by auto
      then show ?thesis using Cons.IH by simp
    qed
  qed
qed simp


text \<open>Splitting at every occurrence of a separator; \<open>after_last\<close> is the part behind the last one.\<close>

fun split_on :: "char \<Rightarrow> string \<Rightarrow> string list" where
  "split_on c [] = [[]]"
| "split_on c (x # xs) =
     (if x = c then [] # split_on c xs
      else case split_on c xs of [] \<Rightarrow> [[x]] | p # ps \<Rightarrow> (x # p) # ps)"

definition after_last :: "char \<Rightarrow> string \<Rightarrow> string" where
  "after_last c s = rev (takeWhile (\<lambda>x. x \<noteq> c) (rev s))"

lemma split_on_not_Nil [simp]: "split_on c s \<noteq> []"
  by (induction s) (auto split: list.splits)

lemma split_on_plain: "c \<notin> set s \<Longrightarrow> split_on c s = [s]"
  by (induction s) auto

lemma split_on_append: "c \<notin> set p \<Longrightarrow> split_on c (p @ c # s) = p # split_on c s"
  by (induction p) auto

lemma split_on_parts: "p \<in> set (split_on c s) \<Longrightarrow> c \<notin> set p"
proof (induction s arbitrary: p)
  case (Cons x xs)
  then show ?case by (cases "split_on c xs") (auto split: if_splits)
qed simp

lemma after_last_free [simp]: "c \<notin> set (after_last c s)"
  by (auto simp: after_last_def dest: set_takeWhileD)


section \<open>Decimal conversions\<close>

definition digit_char :: "nat \<Rightarrow> char" where
  "digit_char n = char_of (48 + n)"

definition digit_val :: "char \<Rightarrow> nat" where
  "digit_val c = byte_of c - 48"

lemma byte_of_digit_char [simp]: "n < 10 \<Longrightarrow> byte_of (digit_char n) = 48 + n"
  by (simp add: digit_char_def)

lemma isdigit_digit_char [simp]: "n < 10 \<Longrightarrow> isdigit (digit_char n)"
  by (simp add: isdigit_def)

lemma digit_val_digit_char [simp]: "n < 10 \<Longrightarrow> digit_val (digit_char n) = n"
  by (simp add: digit_val_def)

text \<open>\<^verbatim>\<open>std::to_string\<close> on unsigned and signed integers.\<close>

fun nat_to_string :: "nat \<Rightarrow> string" where
  "nat_to_string n =
     (if n < 10 then [digit_char n] else nat_to_string (n div 10) @ [digit_char (n mod 10)])"

declare nat_to_string.simps [simp del]

definition to_string :: "int \<Rightarrow> string" where
  "to_string i = (if i < 0 then CHR ''-'' # nat_to_string (nat (- i)) else nat_to_string (nat i))"

definition digits_val :: "nat \<Rightarrow> string \<Rightarrow> nat" where
  "digits_val acc ds = foldl (\<lambda>a c. 10 * a + digit_val c) acc ds"

lemma digits_val_append [simp]: "digits_val acc (xs @ ys) = digits_val (digits_val acc xs) ys"
  by (simp add: digits_val_def)

lemma digits_val_single [simp]: "digits_val acc [c] = 10 * acc + digit_val c"
  by (simp add: digits_val_def)

lemma nat_to_string_digits: "\<forall>c \<in> set (nat_to_string n). isdigit c"
proof (induction n rule: nat_to_string.induct)
  case (1 n)
  then show ?case by (subst nat_to_string.simps) auto
qed

lemma nat_to_string_nonempty [simp]: "nat_to_string n \<noteq> []"
  by (subst nat_to_string.simps) simp

lemma digits_val_nat_to_string [simp]: "digits_val 0 (nat_to_string n) = n"
proof (induction n rule: nat_to_string.induct)
  case (1 n)
  then show ?case by (subst nat_to_string.simps) auto
qed

lemma nat_to_string_inj: "nat_to_string m = nat_to_string n \<longleftrightarrow> m = n"
  by (metis digits_val_nat_to_string)

text \<open>
  \<^verbatim>\<open>std::from_chars\<close> for a signed type with the given range: an optional minus sign and the
  longest run of digits. \<open>None\<close> is \<^verbatim>\<open>ec != std::errc{}\<close> (no digits, or out of range); otherwise
  the value and the unparsed rest (\<^verbatim>\<open>ptr\<close>).
\<close>

definition from_chars :: "int \<Rightarrow> int \<Rightarrow> string \<Rightarrow> (int \<times> string) option" where
  "from_chars lo hi s =
     (let (neg, body) = (case s of [] \<Rightarrow> (False, [])
                         | c # cs \<Rightarrow> if c = CHR ''-'' then (True, cs) else (False, s));
          ds = takeWhile isdigit body;
          v = (if neg then - int (digits_val 0 ds) else int (digits_val 0 ds))
      in if ds = [] \<or> v < lo \<or> hi < v then None else Some (v, dropWhile isdigit body))"

definition int64_min :: int where "int64_min = - 9223372036854775808"
definition int64_max :: int where "int64_max = 9223372036854775807"
definition int32_min :: int where "int32_min = - 2147483648"
definition int32_max :: int where "int32_max = 2147483647"

abbreviation from_chars_int64 :: "string \<Rightarrow> (int \<times> string) option" where
  "from_chars_int64 \<equiv> from_chars int64_min int64_max"

abbreviation from_chars_int :: "string \<Rightarrow> (int \<times> string) option" where
  "from_chars_int \<equiv> from_chars int32_min int32_max"

lemma takeWhile_digits_append:
  "\<forall>c \<in> set ds. P c \<Longrightarrow> rest = [] \<or> \<not> P (hd rest) \<Longrightarrow> takeWhile P (ds @ rest) = ds"
  by (cases rest) (auto simp: takeWhile_append)

lemma dropWhile_digits_append:
  "\<forall>c \<in> set ds. P c \<Longrightarrow> rest = [] \<or> \<not> P (hd rest) \<Longrightarrow> dropWhile P (ds @ rest) = rest"
  by (cases rest) (auto simp: dropWhile_append)

lemma nat_to_string_hd_digit: "isdigit (hd (nat_to_string n))"
  using nat_to_string_digits [of n] nat_to_string_nonempty [of n] by (meson hd_in_set)

lemma isdigit_not_minus: "isdigit c \<Longrightarrow> c \<noteq> CHR ''-''"
  by (auto simp: isdigit_def)

lemma from_chars_to_string:
  assumes "lo \<le> i" "i \<le> hi" "rest = [] \<or> \<not> isdigit (hd rest)"
  shows "from_chars lo hi (to_string i @ rest) = Some (i, rest)"
proof -
  let ?n = "nat (if i < 0 then - i else i)"
  obtain c cs where c: "nat_to_string ?n = c # cs"
    using nat_to_string_nonempty by (metis list.exhaust)
  then have "c \<noteq> CHR ''-''"
    using nat_to_string_hd_digit [of ?n] isdigit_not_minus by simp
  moreover have "takeWhile isdigit ((c # cs) @ rest) = c # cs"
    using takeWhile_digits_append [OF nat_to_string_digits [of ?n] assms(3)] c by simp
  moreover have "dropWhile isdigit ((c # cs) @ rest) = rest"
    using dropWhile_digits_append [OF nat_to_string_digits [of ?n] assms(3)] c by simp
  moreover have "int (digits_val 0 (c # cs)) = \<bar>i\<bar>"
    using digits_val_nat_to_string [of ?n] c by simp
  ultimately show ?thesis
    using c assms(1,2) by (auto simp: from_chars_def to_string_def Let_def split: if_splits)
qed

lemma to_string_inj [simp]: "to_string i = to_string j \<longleftrightarrow> i = j"
proof
  assume *: "to_string i = to_string j"
  have "from_chars (min i j) (max i j) (to_string i @ []) = Some (i, [])"
    by (rule from_chars_to_string) auto
  moreover have "from_chars (min i j) (max i j) (to_string j @ []) = Some (j, [])"
    by (rule from_chars_to_string) auto
  ultimately show "i = j" using * by simp
qed simp

lemma from_chars_range: "from_chars lo hi s = Some (v, rest) \<Longrightarrow> lo \<le> v \<and> v \<le> hi"
  by (auto simp: from_chars_def Let_def split: if_splits prod.splits)

end
