(* ===== verification/Errors.thy ===== *)
theory Errors
  imports Prelude
begin

text \<open>
  The error taxonomy (\<^verbatim>\<open>include/rtc/errors\<close>), the JSON values the service exchanges, the
  canonical error envelope, and the translation of exceptions to HTTP responses
  (\<^verbatim>\<open>ErrorMapper\<close>, \<^verbatim>\<open>run_guarded\<close>). The JSON printer \<^verbatim>\<open>nlohmann::json::dump\<close> is a third-party
  function and therefore a parameter of the definitions that call it.
\<close>


section \<open>JSON values\<close>

text \<open>
  The value type of \<^verbatim>\<open>nlohmann::json\<close>. An object keeps its members as an association list;
  \<open>jfind\<close> is \<^verbatim>\<open>json::find\<close>, which is \<^verbatim>\<open>end()\<close> on a value that is no object.
\<close>

datatype json =
    JNull
  | JBool bool
  | JInt int
  | JFloat rat
  | JStr string
  | JArr "json list"
  | JObj "(string \<times> json) list"

fun jfind :: "json \<Rightarrow> string \<Rightarrow> json option" where
  "jfind (JObj kvs) k = map_of kvs k"
| "jfind _ _ = None"

fun is_object :: "json \<Rightarrow> bool" where
  "is_object (JObj _) = True"
| "is_object _ = False"

fun opt_json :: "('a \<Rightarrow> json) \<Rightarrow> 'a option \<Rightarrow> json" where
  "opt_json f None = JNull"
| "opt_json f (Some x) = f x"

definition jids :: "int list \<Rightarrow> json" where
  "jids xs = JArr (map JInt xs)"


section \<open>Error types\<close>

datatype error_type =
    kValidation | kAuthentication | kAuthorization | kNotFound | kConflict
  | kPayloadTooLarge | kUnsupportedMedia | kRateLimited
  | kDatabase | kConfiguration | kInternal

fun http_status_for :: "error_type \<Rightarrow> int" where
  "http_status_for kValidation = 400"
| "http_status_for kAuthentication = 401"
| "http_status_for kAuthorization = 403"
| "http_status_for kNotFound = 404"
| "http_status_for kConflict = 409"
| "http_status_for kPayloadTooLarge = 413"
| "http_status_for kUnsupportedMedia = 415"
| "http_status_for kRateLimited = 429"
| "http_status_for kDatabase = 500"
| "http_status_for kConfiguration = 500"
| "http_status_for kInternal = 500"

fun code_for :: "error_type \<Rightarrow> string" where
  "code_for kValidation = ''validation_error''"
| "code_for kAuthentication = ''authentication_error''"
| "code_for kAuthorization = ''authorization_error''"
| "code_for kNotFound = ''not_found''"
| "code_for kConflict = ''conflict''"
| "code_for kPayloadTooLarge = ''payload_too_large''"
| "code_for kUnsupportedMedia = ''unsupported_media_type''"
| "code_for kRateLimited = ''rate_limited''"
| "code_for kDatabase = ''database_error''"
| "code_for kConfiguration = ''configuration_error''"
| "code_for kInternal = ''internal_error''"


section \<open>Exceptions\<close>

record app_exception =
  ex_type :: error_type
  ex_message :: string
  ex_details :: string

definition AppException :: "error_type \<Rightarrow> string \<Rightarrow> string \<Rightarrow> app_exception" where
  "AppException t m d = \<lparr>ex_type = t, ex_message = m, ex_details = d\<rparr>"

definition has_details :: "app_exception \<Rightarrow> bool" where
  "has_details ex \<longleftrightarrow> ex_details ex \<noteq> []"

definition ValidationException :: "string \<Rightarrow> string \<Rightarrow> app_exception" where
  "ValidationException = AppException kValidation"

definition AuthenticationException :: "string \<Rightarrow> string \<Rightarrow> app_exception" where
  "AuthenticationException = AppException kAuthentication"

definition AuthorizationException :: "string \<Rightarrow> string \<Rightarrow> app_exception" where
  "AuthorizationException = AppException kAuthorization"

definition NotFoundException :: "string \<Rightarrow> string \<Rightarrow> app_exception" where
  "NotFoundException = AppException kNotFound"

definition ConflictException :: "string \<Rightarrow> string \<Rightarrow> app_exception" where
  "ConflictException = AppException kConflict"

definition PayloadTooLargeException :: "string \<Rightarrow> string \<Rightarrow> app_exception" where
  "PayloadTooLargeException = AppException kPayloadTooLarge"

definition UnsupportedMediaTypeException :: "string \<Rightarrow> string \<Rightarrow> app_exception" where
  "UnsupportedMediaTypeException = AppException kUnsupportedMedia"

definition RateLimitException :: "string \<Rightarrow> string \<Rightarrow> app_exception" where
  "RateLimitException = AppException kRateLimited"

definition DatabaseException :: "string \<Rightarrow> string \<Rightarrow> app_exception" where
  "DatabaseException = AppException kDatabase"

definition ConfigException :: "string \<Rightarrow> string \<Rightarrow> app_exception" where
  "ConfigException = AppException kConfiguration"

definition InternalException :: "string \<Rightarrow> string \<Rightarrow> app_exception" where
  "InternalException = AppException kInternal"

lemmas exception_defs = AppException_def ValidationException_def AuthenticationException_def
  AuthorizationException_def NotFoundException_def ConflictException_def
  PayloadTooLargeException_def UnsupportedMediaTypeException_def RateLimitException_def
  DatabaseException_def ConfigException_def InternalException_def

type_synonym 'a result = "app_exception + 'a"

text \<open>What a handler can throw: an application exception, or any other \<^verbatim>\<open>std::exception\<close>
  with the text of its \<^verbatim>\<open>what()\<close>.\<close>

datatype thrown = AppThrown app_exception | StdThrown string


section \<open>The error envelope and the HTTP mapping\<close>

definition make_error_body :: "string \<Rightarrow> string \<Rightarrow> string \<Rightarrow> json" where
  "make_error_body code message details =
     JObj [(''error'',
       JObj ([(''code'', JStr code), (''message'', JStr message)] @
             (if details \<noteq> [] then [(''details'', JStr details)] else [])))]"

definition exception_body :: "app_exception \<Rightarrow> json" where
  "exception_body ex = make_error_body (code_for (ex_type ex)) (ex_message ex) (ex_details ex)"

record response =
  resp_code :: int
  resp_body :: string
  resp_headers :: "(string \<times> string) list"

definition build :: "(json \<Rightarrow> string) \<Rightarrow> int \<Rightarrow> json \<Rightarrow> response" where
  "build dump status body =
     \<lparr>resp_code = status, resp_body = dump body,
      resp_headers = [(''Content-Type'', ''application/json'')]\<rparr>"

definition internal_error_response :: "(json \<Rightarrow> string) \<Rightarrow> response" where
  "internal_error_response dump =
     build dump 500
       (make_error_body (code_for kInternal) ''An unexpected internal error occurred'' [])"

fun to_response :: "(json \<Rightarrow> string) \<Rightarrow> thrown \<Rightarrow> response" where
  "to_response dump (AppThrown ex) = build dump (http_status_for (ex_type ex)) (exception_body ex)"
| "to_response dump (StdThrown what) = internal_error_response dump"

text \<open>\<open>run_guarded\<close> returns the response and the line it writes to the log.\<close>

fun run_guarded :: "(json \<Rightarrow> string) \<Rightarrow> thrown + response \<Rightarrow> response \<times> string list" where
  "run_guarded dump (Inr r) = (r, [])"
| "run_guarded dump (Inl (AppThrown ex)) =
     (to_response dump (AppThrown ex),
      [''Request failed ['' @ code_for (ex_type ex) @ '']: '' @ ex_message ex @
       (if has_details ex then '' ('' @ ex_details ex @ '')'' else [])])"
| "run_guarded dump (Inl (StdThrown what)) =
     (to_response dump (StdThrown what), [''Unhandled exception in handler: '' @ what])"


section \<open>Properties\<close>

lemma code_for_inj: "code_for a = code_for b \<longleftrightarrow> a = b"
  by (cases a; cases b) simp_all

lemma http_status_for_range: "http_status_for t \<in> {400, 401, 403, 404, 409, 413, 415, 429, 500}"
  by (cases t) simp_all

text \<open>The envelope determines the exception's code, message and details.\<close>

lemma make_error_body_inj:
  "make_error_body c m d = make_error_body c' m' d' \<longleftrightarrow> c = c' \<and> m = m' \<and> d = d'"
  by (auto simp: make_error_body_def)

end
