(* ===== verification/Roles.thy ===== *)
theory Roles
  imports Prelude "HOL-Library.Word"
begin

text \<open>
  Role-based access control (\<^verbatim>\<open>include/rtc/security/role.hpp\<close>): roles, permissions, the grant
  bitmasks of the source as 32-bit words, and the lookups on them. The lemmas show that the
  bitmask table implements the tier policy the header describes.
\<close>

unbundle bit_operations_syntax


section \<open>Roles\<close>

datatype role = kUser | kModerator | kAdmin | kSuperAdmin

definition kDefaultRole :: role where
  "kDefaultRole = kUser"

definition kRoleCount :: nat where
  "kRoleCount = 4"

fun role_ord :: "role \<Rightarrow> nat" where
  "role_ord kUser = 0"
| "role_ord kModerator = 1"
| "role_ord kAdmin = 2"
| "role_ord kSuperAdmin = 3"

fun role_to_string :: "role \<Rightarrow> string" where
  "role_to_string kUser = ''user''"
| "role_to_string kModerator = ''moderator''"
| "role_to_string kAdmin = ''admin''"
| "role_to_string kSuperAdmin = ''super_admin''"

definition parse_role :: "string \<Rightarrow> role option" where
  "parse_role name =
     (if name = ''user'' then Some kUser
      else if name = ''moderator'' then Some kModerator
      else if name = ''admin'' then Some kAdmin
      else if name = ''super_admin'' then Some kSuperAdmin
      else None)"

lemma role_ord_inj: "role_ord a = role_ord b \<longleftrightarrow> a = b"
  by (cases a; cases b) simp_all

instantiation role :: linorder
begin

definition less_eq_role :: "role \<Rightarrow> role \<Rightarrow> bool" where
  "less_eq_role a b \<longleftrightarrow> role_ord a \<le> role_ord b"

definition less_role :: "role \<Rightarrow> role \<Rightarrow> bool" where
  "less_role a b \<longleftrightarrow> role_ord a < role_ord b"

instance
  by standard (auto simp: less_eq_role_def less_role_def role_ord_inj)

end


section \<open>Permissions\<close>

datatype permission =
    kDeleteAnyMessage | kEditAnyMessage | kViewAnyConversation
  | kManageGroups
  | kBanUsers | kManageUsers | kManageRoles
  | kViewSessions | kRevokeSessions
  | kViewAuditLogs | kViewSystemMetrics | kManageFeatureFlags
  | kCount

definition all_permissions :: "permission list" where
  "all_permissions =
     [kDeleteAnyMessage, kEditAnyMessage, kViewAnyConversation, kManageGroups, kBanUsers,
      kManageUsers, kManageRoles, kViewSessions, kRevokeSessions, kViewAuditLogs,
      kViewSystemMetrics, kManageFeatureFlags]"

fun permission_ord :: "permission \<Rightarrow> nat" where
  "permission_ord kDeleteAnyMessage = 0"
| "permission_ord kEditAnyMessage = 1"
| "permission_ord kViewAnyConversation = 2"
| "permission_ord kManageGroups = 3"
| "permission_ord kBanUsers = 4"
| "permission_ord kManageUsers = 5"
| "permission_ord kManageRoles = 6"
| "permission_ord kViewSessions = 7"
| "permission_ord kRevokeSessions = 8"
| "permission_ord kViewAuditLogs = 9"
| "permission_ord kViewSystemMetrics = 10"
| "permission_ord kManageFeatureFlags = 11"
| "permission_ord kCount = 12"

fun permission_to_string :: "permission \<Rightarrow> string" where
  "permission_to_string kDeleteAnyMessage = ''message.delete_any''"
| "permission_to_string kEditAnyMessage = ''message.edit_any''"
| "permission_to_string kViewAnyConversation = ''conversation.view_any''"
| "permission_to_string kManageGroups = ''group.manage''"
| "permission_to_string kBanUsers = ''user.ban''"
| "permission_to_string kManageUsers = ''user.manage''"
| "permission_to_string kManageRoles = ''user.manage_roles''"
| "permission_to_string kViewSessions = ''session.view''"
| "permission_to_string kRevokeSessions = ''session.revoke''"
| "permission_to_string kViewAuditLogs = ''audit.view''"
| "permission_to_string kViewSystemMetrics = ''system.metrics''"
| "permission_to_string kManageFeatureFlags = ''system.feature_flags''"
| "permission_to_string kCount = ''unknown''"

text \<open>The loop over the enumerators in ordinal order returns the first match.\<close>

definition parse_permission :: "string \<Rightarrow> permission option" where
  "parse_permission name = find (\<lambda>p. permission_to_string p = name) all_permissions"


section \<open>The grant table\<close>

definition bit :: "permission \<Rightarrow> 32 word" where
  "bit p = push_bit (permission_ord p) 1"

definition kUserGrants :: "32 word" where
  "kUserGrants = 0"

definition kModeratorGrants :: "32 word" where
  "kModeratorGrants = kUserGrants OR bit kDeleteAnyMessage OR bit kEditAnyMessage OR bit kManageGroups"

definition kAdminGrants :: "32 word" where
  "kAdminGrants = kModeratorGrants OR bit kViewAnyConversation OR bit kBanUsers OR bit kManageUsers
     OR bit kViewSessions OR bit kRevokeSessions OR bit kViewAuditLogs OR bit kViewSystemMetrics"

definition kSuperAdminGrants :: "32 word" where
  "kSuperAdminGrants = kAdminGrants OR bit kManageRoles OR bit kManageFeatureFlags"

definition kRoleGrants :: "32 word list" where
  "kRoleGrants = [kUserGrants, kModeratorGrants, kAdminGrants, kSuperAdminGrants]"

definition has_permission :: "role \<Rightarrow> permission \<Rightarrow> bool" where
  "has_permission r p =
     (let index = role_ord r
      in if index \<ge> kRoleCount \<or> p = kCount then False
         else (kRoleGrants ! index) AND bit p \<noteq> 0)"

definition can_assign_role :: "role \<Rightarrow> role \<Rightarrow> bool" where
  "can_assign_role actor target =
     (if \<not> has_permission actor kManageRoles then False
      else role_ord target \<le> role_ord actor)"


section \<open>The policy the table implements\<close>

text \<open>The least role that holds a permission, as the header's prose states it.\<close>

fun min_role :: "permission \<Rightarrow> role option" where
  "min_role kDeleteAnyMessage = Some kModerator"
| "min_role kEditAnyMessage = Some kModerator"
| "min_role kManageGroups = Some kModerator"
| "min_role kViewAnyConversation = Some kAdmin"
| "min_role kBanUsers = Some kAdmin"
| "min_role kManageUsers = Some kAdmin"
| "min_role kViewSessions = Some kAdmin"
| "min_role kRevokeSessions = Some kAdmin"
| "min_role kViewAuditLogs = Some kAdmin"
| "min_role kViewSystemMetrics = Some kAdmin"
| "min_role kManageRoles = Some kSuperAdmin"
| "min_role kManageFeatureFlags = Some kSuperAdmin"
| "min_role kCount = None"

lemmas grant_defs = kUserGrants_def kModeratorGrants_def kAdminGrants_def kSuperAdminGrants_def
  kRoleGrants_def kRoleCount_def bit_def has_permission_def

lemma has_permission_min_role:
  "has_permission r p \<longleftrightarrow> (case min_role p of None \<Rightarrow> False | Some m \<Rightarrow> m \<le> r)"
  by (cases r; cases p) (simp_all add: grant_defs less_eq_role_def)

lemma has_permission_kUser [simp]: "\<not> has_permission kUser p"
  by (cases p) (simp_all add: grant_defs)

lemma parse_role_to_string [simp]: "parse_role (role_to_string r) = Some r"
  by (cases r) (simp_all add: parse_role_def)

lemma parse_role_Some: "parse_role s = Some r \<longleftrightarrow> s = role_to_string r"
  by (cases r) (auto simp: parse_role_def)

lemma parse_permission_to_string:
  "p \<noteq> kCount \<Longrightarrow> parse_permission (permission_to_string p) = Some p"
  by (cases p) (simp_all add: parse_permission_def all_permissions_def)


lemma can_assign_role_iff: "can_assign_role r t \<longleftrightarrow> r = kSuperAdmin"
  by (cases r; cases t) (simp_all add: can_assign_role_def has_permission_min_role less_eq_role_def)

lemma has_permission_mono: "has_permission r p \<Longrightarrow> r \<le> r' \<Longrightarrow> has_permission r' p"
  by (auto simp: has_permission_min_role split: option.splits)


section \<open>Claims\<close>

text \<open>The bitmask table implements the tier policy: a role holds a permission exactly when
  it is at or above the least role the policy gives it to (so the tiers are monotone), the
  sentinel \<open>kCount\<close> is held by nobody, and only a super admin can assign a role, which may then
  be any role, its own included.\<close>

theorem rbac_policy:
  "(has_permission r p \<longleftrightarrow> (case min_role p of None \<Rightarrow> False | Some m \<Rightarrow> m \<le> r)) \<and>
   (can_assign_role r t \<longleftrightarrow> r = kSuperAdmin)"
  by (simp add: has_permission_min_role can_assign_role_iff)

end
