(* ===== verification/Calendar.thy ===== *)
theory Calendar
  imports Prelude "HOL-Library.Signed_Division"
begin

text \<open>
  Calendar arithmetic and timestamps (\<^verbatim>\<open>src/utils/time.cpp\<close>). A \<^verbatim>\<open>TimePoint\<close> is its number of
  seconds since the epoch. C++ integer division truncates, so it is \<open>sdiv\<close> here. The
  \<^verbatim>\<open>unsigned\<close> intermediates of the source are integers of the model; the bounds lemmas show
  that they stay within the ranges its comments state, so no unsigned wrap-around happens.
\<close>

type_synonym time_point = int


section \<open>Days and civil dates\<close>

definition days_from_civil :: "int \<Rightarrow> int \<Rightarrow> int \<Rightarrow> int" where
  "days_from_civil y0 m d =
     (let y = y0 - (if m \<le> 2 then 1 else 0);
          era = (if y \<ge> 0 then y else y - 399) sdiv 400;
          yoe = y - era * 400;
          doy = (153 * (if m > 2 then m - 3 else m + 9) + 2) sdiv 5 + d - 1;
          doe = yoe * 365 + yoe sdiv 4 - yoe sdiv 100 + doy
      in era * 146097 + doe - 719468)"

definition civil_from_days :: "int \<Rightarrow> int \<times> int \<times> int" where
  "civil_from_days z0 =
     (let z = z0 + 719468;
          era = (if z \<ge> 0 then z else z - 146096) sdiv 146097;
          doe = z - era * 146097;
          yoe = (doe - doe sdiv 1460 + doe sdiv 36524 - doe sdiv 146096) sdiv 365;
          y = yoe + era * 400;
          doy = doe - (365 * yoe + yoe sdiv 4 - yoe sdiv 100);
          mp = (5 * doy + 2) sdiv 153;
          d = doy - (153 * mp + 2) sdiv 5 + 1;
          m = (if mp < 10 then mp + 3 else mp - 9)
      in (y + (if m \<le> 2 then 1 else 0), m, d))"

definition floor_div :: "int \<Rightarrow> int \<Rightarrow> int" where
  "floor_div a b =
     (let q = a sdiv b
      in if a smod b \<noteq> 0 \<and> ((a smod b < 0) \<noteq> (b < 0)) then q - 1 else q)"


section \<open>Formatting and parsing\<close>

text \<open>\<^verbatim>\<open>%0wd\<close> of \<^verbatim>\<open>printf\<close>: zero padding to width \<open>w\<close>, after the sign.\<close>

definition printf_0d :: "nat \<Rightarrow> int \<Rightarrow> string" where
  "printf_0d w i =
     (let ds = nat_to_string (nat \<bar>i\<bar>); sign = (if i < 0 then ''-'' else [])
      in sign @ replicate (w - length sign - length ds) (CHR ''0'') @ ds)"

definition to_iso8601 :: "time_point \<Rightarrow> string" where
  "to_iso8601 secs =
     (let days = floor_div secs 86400;
          sod = secs - days * 86400;
          (year, month, day) = civil_from_days days;
          hour = sod sdiv 3600;
          minute = (sod smod 3600) sdiv 60;
          second = sod smod 60
      in printf_0d 4 year @ ''-'' @ printf_0d 2 month @ ''-'' @ printf_0d 2 day @ ''T'' @
         printf_0d 2 hour @ '':'' @ printf_0d 2 minute @ '':'' @ printf_0d 2 second @ ''Z'')"

text \<open>
  The conversions of \<^verbatim>\<open>sscanf\<close> the source uses: \<^verbatim>\<open>%d\<close> skips white space and reads an optional
  sign and digits, \<^verbatim>\<open>%*c\<close> drops one character, a literal must match. \<^verbatim>\<open>sscanf\<close> returns how
  many of the conversions succeeded; the source only asks whether all six did.
\<close>

definition scan_d :: "string \<Rightarrow> (int \<times> string) option" where
  "scan_d s =
     (let t = dropWhile isspace s;
          (neg, body) = (case t of [] \<Rightarrow> (False, [])
                         | c # cs \<Rightarrow> if c = CHR ''-'' then (True, cs)
                                     else if c = CHR ''+'' then (False, cs) else (False, t));
          ds = takeWhile isdigit body
      in if ds = [] then None
         else Some (if neg then - int (digits_val 0 ds) else int (digits_val 0 ds),
                    dropWhile isdigit body))"

fun scan_lit :: "char \<Rightarrow> string \<Rightarrow> string option" where
  "scan_lit c [] = None"
| "scan_lit c (x # xs) = (if x = c then Some xs else None)"

fun scan_any :: "string \<Rightarrow> string option" where
  "scan_any [] = None"
| "scan_any (x # xs) = Some xs"

definition scan_timestamp :: "string \<Rightarrow> (int \<times> int \<times> int \<times> int \<times> int \<times> int) option" where
  "scan_timestamp s =
     Option.bind (scan_d s) (\<lambda>(year, s).
     Option.bind (scan_lit (CHR ''-'') s) (\<lambda>s.
     Option.bind (scan_d s) (\<lambda>(month, s).
     Option.bind (scan_lit (CHR ''-'') s) (\<lambda>s.
     Option.bind (scan_d s) (\<lambda>(day, s).
     Option.bind (scan_any s) (\<lambda>s.
     Option.bind (scan_d s) (\<lambda>(hour, s).
     Option.bind (scan_lit (CHR '':'') s) (\<lambda>s.
     Option.bind (scan_d s) (\<lambda>(minute, s).
     Option.bind (scan_lit (CHR '':'') s) (\<lambda>s.
     Option.bind (scan_d s) (\<lambda>(second, s).
       Some (year, month, day, hour, minute, second))))))))))))"

definition parse_pg_timestamp :: "string \<Rightarrow> time_point option" where
  "parse_pg_timestamp value =
     (if value = [] then None
      else case scan_timestamp value of
        None \<Rightarrow> None
      | Some (year, month, day, hour, minute, second) \<Rightarrow>
          if month < 1 \<or> month > 12 \<or> day < 1 \<or> day > 31 then None
          else Some (days_from_civil year month day * 86400 + hour * 3600 + minute * 60 + second))"


section \<open>Truncating division where it agrees with the mathematical one\<close>

lemma sdiv_nonneg: "0 \<le> a \<Longrightarrow> 0 < b \<Longrightarrow> a sdiv b = a div b" for a b :: int
  by (simp add: signed_divide_int_def sgn_if)

lemma smod_nonneg: "0 \<le> a \<Longrightarrow> 0 < b \<Longrightarrow> a smod b = a mod b" for a b :: int
  by (simp add: signed_modulo_int_def sgn_if)

lemma sdiv_era:
  fixes y b c :: int
  assumes "0 < b" "c = b - 1"
  shows "(if y \<ge> 0 then y else y - c) sdiv b = y div b"
proof (cases "y \<ge> 0")
  case True
  then show ?thesis using assms by (simp add: sdiv_nonneg)
next
  case False
  let ?k = "b - 1 - y"
  have "y = b * (y div b) + y mod b" "0 \<le> y mod b" "y mod b < b"
    using assms by auto
  then have "?k div b = - (y div b)"
    by (intro int_div_pos_eq [where r = "b - 1 - y mod b"]) (auto simp: algebra_simps)
  moreover have "(y - c) sdiv b = - (?k div b)"
    using assms False by (simp add: signed_divide_int_def sgn_if)
  ultimately show ?thesis using False by simp
qed

lemma floor_div_eq:
  assumes "0 < b"
  shows "floor_div a b = a div b"
proof (cases "0 \<le> a")
  case True
  then show ?thesis
    using assms by (simp add: floor_div_def sdiv_nonneg smod_nonneg not_less [THEN iffD2])
next
  case False
  have "a div b = (if \<bar>a\<bar> mod b = 0 then - (\<bar>a\<bar> div b) else - (\<bar>a\<bar> div b) - 1)"
    using False zdiv_zminus1_eq_if [of b "- a"] assms by simp
  moreover have "\<bar>a\<bar> mod b \<noteq> 0 \<Longrightarrow> 0 < \<bar>a\<bar> mod b"
    using assms by (simp add: order_less_le)
  ultimately show ?thesis
    using False assms
    by (auto simp: floor_div_def signed_divide_int_def signed_modulo_int_def sgn_if)
qed


section \<open>The year of an era\<close>

text \<open>First day of year \<open>yoe\<close> in its 400-year era (years start on 1 March), and the source's
  closed formula for the year of a day of the era.\<close>

definition year_start :: "int \<Rightarrow> int" where
  "year_start yoe = 365 * yoe + yoe div 4 - yoe div 100"

definition year_end :: "int \<Rightarrow> int" where
  "year_end yoe = (if yoe = 399 then 146097 else year_start (yoe + 1))"

definition leap :: "int \<Rightarrow> bool" where
  "leap y \<longleftrightarrow> y mod 4 = 0 \<and> (y mod 100 \<noteq> 0 \<or> y mod 400 = 0)"

definition shifted_day :: "int \<Rightarrow> int" where
  "shifted_day doe = doe - doe div 1460 + doe div 36524 - doe div 146096"

lemma shifted_day_Suc: "shifted_day d \<le> shifted_day (d + 1)"
proof -
  have arith: "d - a + q - r \<le> d + 1 - a' + q' - r'"
    if "a' \<le> a + 1" "q' = q \<and> r' = r \<or> q' = q + 1 \<and> r' \<le> r + 1" for a a' q q' r r' :: int
    using that by auto
  have four: "x div 146096 = x div 36524 div 4" for x :: int
    using zdiv_zmult2_eq [of 4 x 36524] by simp
  have a: "(d + 1) div 1460 \<le> d div 1460 + 1"
    by linarith
  have q: "(d + 1) div 36524 = d div 36524 \<or> (d + 1) div 36524 = d div 36524 + 1"
    by linarith
  have r: "(k + 1) div 4 \<le> k div 4 + 1" for k :: int
    by linarith
  show ?thesis
    unfolding shifted_day_def by (rule arith [OF a]) (use q r [of "d div 36524"] four in auto)
qed

lemma shifted_day_mono: "d \<le> e \<Longrightarrow> shifted_day d \<le> shifted_day e"
proof (induction e rule: int_ge_induct [of d])
  case (step e)
  then show ?case using shifted_day_Suc [of e] by simp
qed simp_all

text \<open>At the first and the last day of each of the 400 years the formula is off by nothing.\<close>

lemma year_bounds_check:
  "list_all (\<lambda>y. 365 * y \<le> shifted_day (year_start y) \<and>
       shifted_day (year_end y - 1) < 365 * y + 365 \<and>
       year_end y = year_start y + (if leap (y + 1) then 366 else 365)) [0..399]"
  by code_simp

lemma year_bounds:
  assumes "0 \<le> y" "y < 400"
  shows "365 * y \<le> shifted_day (year_start y)" "shifted_day (year_end y - 1) < 365 * y + 365"
    "year_end y = year_start y + (if leap (y + 1) then 366 else 365)"
proof -
  have "y \<in> set [0..399]"
    unfolding set_upto atLeastAtMost_iff using assms by linarith
  note check = bspec [OF year_bounds_check [unfolded list_all_iff] this]
  from check show "365 * y \<le> shifted_day (year_start y)" ..
  from check show "shifted_day (year_end y - 1) < 365 * y + 365" by (elim conjE)
  from check show "year_end y = year_start y + (if leap (y + 1) then 366 else 365)" by (elim conjE)
qed

lemma year_of_day:
  assumes "0 \<le> y" "y < 400" "year_start y \<le> doe" "doe < year_end y"
  shows "shifted_day doe div 365 = y"
proof -
  have "365 * y \<le> shifted_day doe"
    using year_bounds(1) [OF assms(1,2)] shifted_day_mono [OF assms(3)] by simp
  moreover have "shifted_day doe < 365 * y + 365"
    using year_bounds(2) [OF assms(1,2)] shifted_day_mono [of doe "year_end y - 1"] assms(4) by simp
  ultimately show ?thesis
    by (intro int_div_pos_eq [where r = "shifted_day doe - 365 * y"]) auto
qed

lemma year_exists_below:
  assumes "0 \<le> doe" "n < 400" "doe < year_end (int n)"
  shows "\<exists>m\<le>n. year_start (int m) \<le> doe \<and> doe < year_end (int m)"
  using assms(2,3)
proof (induction n)
  case 0
  then show ?case using assms(1) by (auto simp: year_start_def)
next
  case (Suc n)
  show ?case
  proof (cases "doe < year_end (int n)")
    case True
    with Suc show ?thesis by (meson Suc_lessD le_SucI)
  next
    case False
    moreover have "year_end (int n) = year_start (int (Suc n))"
      using Suc.prems(1) by (simp add: year_end_def add.commute)
    ultimately show ?thesis using Suc.prems by (intro exI [of _ "Suc n"]) simp
  qed
qed

lemma year_exists:
  assumes "0 \<le> doe" "doe < 146097"
  obtains y where "0 \<le> y" "y < 400" "year_start y \<le> doe" "doe < year_end y"
proof -
  have "doe < year_end (int 399)"
    using assms(2) by (simp add: year_end_def)
  with assms(1) obtain m where "m \<le> 399" "year_start (int m) \<le> doe" "doe < year_end (int m)"
    using year_exists_below [of doe 399] by auto
  then show ?thesis by (intro that [of "int m"]) auto
qed


section \<open>Closed forms of the two conversions\<close>

lemma year_start_nonneg: "0 \<le> y \<Longrightarrow> 0 \<le> year_start y"
  unfolding year_start_def by linarith

lemma year_end_le: "0 \<le> y \<Longrightarrow> y < 400 \<Longrightarrow> year_end y \<le> 146097"
proof -
  assume y: "0 \<le> y" "y < 400"
  show ?thesis
  proof (cases "y = 399")
    case False
    with y have "y + 1 \<le> 399" by simp
    then have "(y + 1) div 4 \<le> 99" "0 \<le> (y + 1) div 100"
      using y by linarith+
    with False y show ?thesis by (simp add: year_end_def year_start_def)
  qed (simp add: year_end_def)
qed

definition month_of :: "int \<Rightarrow> int" where
  "month_of mp = (if mp < 10 then mp + 3 else mp - 9)"

lemma civil_from_days_eq:
  assumes y: "0 \<le> yoe" "yoe < 400" and d: "0 \<le> doy" "year_start yoe + doy < year_end yoe"
  defines "mp \<equiv> (5 * doy + 2) div 153"
  shows "civil_from_days (era * 146097 + (year_start yoe + doy) - 719468) =
    (yoe + era * 400 + (if month_of mp \<le> 2 then 1 else 0), month_of mp,
     doy - (153 * mp + 2) div 5 + 1)"
proof -
  let ?doe = "year_start yoe + doy"
  have doe: "0 \<le> ?doe" "?doe < 146097"
    using year_start_nonneg [OF y(1)] year_end_le [OF y] d by linarith+
  have era: "(if era * 146097 + ?doe \<ge> 0 then era * 146097 + ?doe
       else era * 146097 + ?doe - 146096) sdiv 146097 = era"
    using sdiv_era [of 146097 146096 "era * 146097 + ?doe"] doe by simp
  have yoe: "(?doe - ?doe sdiv 1460 + ?doe sdiv 36524 - ?doe sdiv 146096) sdiv 365 = yoe"
  proof -
    have shift: "?doe - ?doe sdiv 1460 + ?doe sdiv 36524 - ?doe sdiv 146096 = shifted_day ?doe"
      using doe by (simp add: sdiv_nonneg shifted_day_def)
    have "0 \<le> shifted_day ?doe"
      using shifted_day_mono [OF doe(1)] by (simp add: shifted_day_def)
    then show ?thesis
      unfolding shift using year_of_day [OF y, of ?doe] d by (simp add: sdiv_nonneg)
  qed
  have doy: "?doe - (365 * yoe + yoe sdiv 4 - yoe sdiv 100) = doy"
    using y by (simp add: sdiv_nonneg year_start_def)
  have mp: "(5 * doy + 2) sdiv 153 = mp" "0 \<le> mp"
    using d by (simp_all add: sdiv_nonneg mp_def)
  have "era * 146097 + ?doe - 719468 + 719468 = era * 146097 + ?doe" by simp
  then show ?thesis
    unfolding civil_from_days_def Let_def
    by (simp only: era) (simp add: yoe doy mp month_of_def sdiv_nonneg)
qed

lemma days_from_civil_eq:
  assumes y: "0 \<le> yoe" "yoe < 400" and mp: "0 \<le> mp" "mp < 12"
  shows "days_from_civil (yoe + era * 400 + (if month_of mp \<le> 2 then 1 else 0)) (month_of mp) d =
    era * 146097 + (year_start yoe + ((153 * mp + 2) div 5 + d - 1)) - 719468"
proof -
  have era: "(if yoe + era * 400 \<ge> 0 then yoe + era * 400 else yoe + era * 400 - 399) sdiv 400 = era"
    using sdiv_era [of 400 399 "yoe + era * 400"] y by simp
  have m: "(if month_of mp > 2 then month_of mp - 3 else month_of mp + 9) = mp"
    using mp by (auto simp: month_of_def)
  have "yoe + era * 400 + (if month_of mp \<le> 2 then 1 else 0) - (if month_of mp \<le> 2 then 1 else 0)
    = yoe + era * 400" by simp
  then show ?thesis
    unfolding days_from_civil_def Let_def
    by (simp only: era m) (use y mp in \<open>simp add: sdiv_nonneg year_start_def\<close>)
qed


section \<open>Months\<close>

definition month_len :: "int \<Rightarrow> int" where
  "month_len mp = (if mp = 11 then 29 else if mp \<in> {1, 3, 6, 8} then 30 else 31)"

lemma month_cases:
  assumes "0 \<le> mp" "mp < (12::int)"
  shows "mp \<in> {0, 1, 2, 3, 4, 5, 6, 7, 8, 9, 10, 11}"
  using assms by (simp only: insert_iff empty_iff) presburger

lemma month_of_doy:
  fixes doy :: int
  assumes "0 \<le> doy" "doy < 366"
  shows "0 \<le> (5 * doy + 2) div 153" "(5 * doy + 2) div 153 < 12"
    and "(153 * ((5 * doy + 2) div 153) + 2) div 5 \<le> doy"
    and "doy - (153 * ((5 * doy + 2) div 153) + 2) div 5 \<le> 30"
proof -
  show "0 \<le> (5 * doy + 2) div 153" "(5 * doy + 2) div 153 < 12"
    and "(153 * ((5 * doy + 2) div 153) + 2) div 5 \<le> doy"
    using assms by linarith+
  define q where "q = (5 * doy + 2) div 153"
  define p where "p = (153 * q + 2) div 5"
  have "5 * doy + 2 < 153 * q + 153" "153 * q - 2 \<le> 5 * p"
    unfolding q_def p_def by linarith+
  then have "doy - p \<le> 30" by linarith
  then show "doy - (153 * ((5 * doy + 2) div 153) + 2) div 5 \<le> 30"
    by (simp only: q_def p_def)
qed

lemma doy_of_month:
  assumes "0 \<le> mp" "mp < 12" "1 \<le> d" "d \<le> month_len mp"
  shows "(5 * ((153 * mp + 2) div 5 + d - 1) + 2) div 153 = mp"
    and "(153 * mp + 2) div 5 + d - 1 < 366"
    and "\<not> (mp = 11 \<and> d = 29) \<Longrightarrow> (153 * mp + 2) div 5 + d - 1 < 365"
  using month_cases [OF assms(1,2)] assms(3,4)
  by (auto simp: month_len_def intro!: int_div_pos_eq [where r = "5 * d - x" for x])


section \<open>The two conversions are inverse\<close>

lemma civil_from_days_cases:
  obtains era yoe doy mp where
    "0 \<le> yoe" "yoe < 400" "0 \<le> doy" "doy < 366" "mp = (5 * doy + 2) div 153"
    "z = era * 146097 + (year_start yoe + doy) - 719468"
    "civil_from_days z = (yoe + era * 400 + (if month_of mp \<le> 2 then 1 else 0), month_of mp,
       doy - (153 * mp + 2) div 5 + 1)"
proof -
  let ?era = "(z + 719468) div 146097" and ?doe = "(z + 719468) mod 146097"
  obtain yoe where y: "0 \<le> yoe" "yoe < 400" "year_start yoe \<le> ?doe" "?doe < year_end yoe"
    by (rule year_exists [of ?doe]) simp_all
  let ?doy = "?doe - year_start yoe"
  have doy: "0 \<le> ?doy" "?doy < 366"
    using y year_bounds(3) [OF y(1,2)] by (auto split: if_splits)
  have z: "z = ?era * 146097 + (year_start yoe + ?doy) - 719468"
    using div_mult_mod_eq [of "z + 719468" 146097] by linarith
  have "year_start yoe + ?doy < year_end yoe" using y(4) by simp
  from civil_from_days_eq [OF y(1,2) doy(1) this, of ?era] show ?thesis
    using that [OF y(1,2) doy HOL.refl z] z by simp
qed

lemma days_from_civil_from_days: "(case civil_from_days z of (y, m, d) \<Rightarrow> days_from_civil y m d) = z"
proof (rule civil_from_days_cases [of z])
  fix era yoe doy mp
  assume y: "0 \<le> yoe" "yoe < 400" and doy: "0 \<le> doy" "doy < 366" and mp: "mp = (5 * doy + 2) div 153"
    and z: "z = era * 146097 + (year_start yoe + doy) - 719468"
    and "civil_from_days z = (yoe + era * 400 + (if month_of mp \<le> 2 then 1 else 0), month_of mp,
       doy - (153 * mp + 2) div 5 + 1)"
  then show ?thesis
    using days_from_civil_eq [OF y month_of_doy(1,2) [OF doy], of era] by simp
qed

lemma civil_from_days_range: "case civil_from_days z of (y, m, d) \<Rightarrow> 1 \<le> m \<and> m \<le> 12 \<and> 1 \<le> d \<and> d \<le> 31"
proof (rule civil_from_days_cases [of z])
  fix era yoe doy mp
  assume doy: "0 \<le> doy" "doy < 366" and "mp = (5 * doy + 2) div 153"
    and "civil_from_days z = (yoe + era * 400 + (if month_of mp \<le> 2 then 1 else 0), month_of mp,
       doy - (153 * mp + 2) div 5 + 1)"
  then show ?thesis
    using month_of_doy [OF doy] by (simp add: month_of_def)
qed

definition days_in_month :: "int \<Rightarrow> int \<Rightarrow> int" where
  "days_in_month y m =
     (if m = 2 then (if leap y then 29 else 28) else if m \<in> {4, 6, 9, 11} then 30 else 31)"

definition valid_date :: "int \<Rightarrow> int \<Rightarrow> int \<Rightarrow> bool" where
  "valid_date y m d \<longleftrightarrow> 1 \<le> m \<and> m \<le> 12 \<and> 1 \<le> d \<and> d \<le> days_in_month y m"

lemma leap_era: "leap (y mod 400 + 1) \<longleftrightarrow> leap (y + 1)"
proof -
  have "(y mod 400 + 1) mod 400 = (y + 1) mod 400" by (simp add: mod_add_left_eq)
  moreover have "x mod 4 = x mod 400 mod 4" "x mod 100 = x mod 400 mod 100" for x :: int
    by (simp_all add: mod_mod_cancel)
  ultimately show ?thesis unfolding leap_def by metis
qed

lemma civil_from_days_from_civil:
  assumes "valid_date y m d"
  shows "civil_from_days (days_from_civil y m d) = (y, m, d)"
proof -
  define y' where "y' = y - (if m \<le> 2 then 1 else 0)"
  define mp where "mp = (if m > 2 then m - 3 else m + 9)"
  define doy where "doy = (153 * mp + 2) div 5 + d - 1"
  have m: "1 \<le> m" "m \<le> 12" and d: "1 \<le> d" "d \<le> days_in_month y m"
    using assms by (auto simp: valid_date_def)
  have mp: "0 \<le> mp" "mp < 12" "month_of mp = m"
    using m by (auto simp: mp_def month_of_def)
  have y: "0 \<le> y' mod 400" "y' mod 400 < 400" "y' mod 400 + y' div 400 * 400 = y'"
    by (simp_all add: add.commute)
  have "d \<le> month_len mp"
    using d m by (auto simp: month_len_def days_in_month_def mp_def split: if_splits)
  note doy_of_month [OF mp(1,2) d(1) this, folded doy_def]
  moreover have "mp = 11 \<and> d = 29 \<Longrightarrow> leap (y' + 1)"
    using d mp by (auto simp: month_of_def days_in_month_def y'_def split: if_splits)
  ultimately have mp_doy: "(5 * doy + 2) div 153 = mp"
    and "year_start (y' mod 400) + doy < year_end (y' mod 400)"
    using year_bounds(3) [OF y(1,2)] leap_era [of y'] by auto
  moreover have "0 \<le> doy"
    using mp d by (simp add: doy_def)
  ultimately have "civil_from_days (y' div 400 * 146097 + (year_start (y' mod 400) + doy) - 719468)
      = (y' + (if m \<le> 2 then 1 else 0), m, d)"
    using civil_from_days_eq [OF y(1,2), of doy "y' div 400"] mp y(3) by (simp add: doy_def)
  moreover have "days_from_civil y m d =
      y' div 400 * 146097 + (year_start (y' mod 400) + doy) - 719468"
    using days_from_civil_eq [OF y(1,2) mp(1,2), of "y' div 400" d] mp(3) y(3)
    by (simp add: y'_def doy_def)
  ultimately show ?thesis by (simp add: y'_def)
qed


section \<open>Printing and scanning\<close>

lemma digits_val_zeros [simp]: "digits_val 0 (replicate k (CHR ''0'')) = 0"
  by (induction k) (simp_all add: digits_val_def digit_val_def)

lemma isdigit_0 [simp]: "isdigit (CHR ''0'')"
  by (simp add: isdigit_def)

lemma scan_d_printf:
  assumes "rest = [] \<or> \<not> isdigit (hd rest)"
  shows "scan_d (printf_0d w i @ rest) = Some (i, rest)"
proof -
  define k where "k = w - length (if i < 0 then ''-'' else []) - length (nat_to_string (nat \<bar>i\<bar>))"
  define ds where "ds = replicate k (CHR ''0'') @ nat_to_string (nat \<bar>i\<bar>)"
  have ds: "\<forall>c \<in> set ds. isdigit c" "ds \<noteq> []" "digits_val 0 ds = nat \<bar>i\<bar>"
    using nat_to_string_digits [of "nat \<bar>i\<bar>"] by (auto simp: ds_def)
  have hd: "isdigit (hd ds)" using ds(1,2) by (meson hd_in_set)
  have pr: "printf_0d w i = (if i < 0 then ''-'' else []) @ ds"
    by (simp add: printf_0d_def ds_def k_def Let_def)
  have tw: "takeWhile isdigit (ds @ rest) = ds" "dropWhile isdigit (ds @ rest) = rest"
    using takeWhile_digits_append [OF ds(1) assms] dropWhile_digits_append [OF ds(1) assms] .
  obtain c cs where c: "ds = c # cs" using ds(2) by (cases ds) auto
  have "isdigit c" using hd c by simp
  then have "\<not> isspace c" "c \<noteq> CHR ''-''" "c \<noteq> CHR ''+''"
    by (auto simp: isdigit_def isspace_def)
  then show ?thesis
    using tw ds(2,3) c unfolding pr scan_d_def by (auto simp: isspace_def)
qed

lemma sod_split:
  fixes sod :: int
  assumes "0 \<le> sod" "sod < 86400"
  shows "sod sdiv 3600 * 3600 + (sod smod 3600) sdiv 60 * 60 + sod smod 60 = sod"
proof -
  have "sod mod 3600 mod 60 = sod mod 60" by (simp add: mod_mod_cancel)
  moreover have "sod mod 3600 div 60 * 60 + sod mod 3600 mod 60 = sod mod 3600" by simp
  moreover have "sod div 3600 * 3600 + sod mod 3600 = sod" by simp
  ultimately have "sod div 3600 * 3600 + sod mod 3600 div 60 * 60 + sod mod 60 = sod"
    by linarith
  then show ?thesis
    using assms by (simp add: sdiv_nonneg smod_nonneg)
qed

lemma printf_0d_nonempty [simp]: "printf_0d w i \<noteq> []"
  by (simp add: printf_0d_def Let_def)

lemma scan_timestamp_printed:
  "scan_timestamp (printf_0d 4 y @ ''-'' @ printf_0d 2 m @ ''-'' @ printf_0d 2 d @ ''T'' @
     printf_0d 2 h @ '':'' @ printf_0d 2 mi @ '':'' @ printf_0d 2 se @ ''Z'') = Some (y, m, d, h, mi, se)"
  by (simp add: scan_timestamp_def scan_d_printf isdigit_def)


section \<open>Claims\<close>

text \<open>The civil-calendar conversions are inverse to each other: every day number survives
  the way to a date and back, and every valid proleptic-Gregorian date survives the way to a day
  number and back, before and after the epoch alike.\<close>

theorem calendar_inverse:
  "(case civil_from_days z of (y, m, d) \<Rightarrow> days_from_civil y m d) = z \<and>
   (valid_date y m d \<longrightarrow> civil_from_days (days_from_civil y m d) = (y, m, d))"
  using days_from_civil_from_days civil_from_days_from_civil by simp

theorem calendar_inverse_witness:
  "valid_date 2024 2 29 \<and> civil_from_days (days_from_civil 2024 2 29) = (2024, 2, 29)"
  using calendar_inverse [of 0 2024 2 29]
  by (simp add: valid_date_def days_in_month_def leap_def)

text \<open>A time point survives formatting and parsing: what \<^verbatim>\<open>to_iso8601\<close> prints,
  \<^verbatim>\<open>parse_pg_timestamp\<close> reads back, for every second whose year fits the \<^verbatim>\<open>int\<close> that
  \<^verbatim>\<open>sscanf\<close> stores it in, before the epoch as well.\<close>

theorem timestamp_roundtrip:
  assumes "int32_min \<le> fst (civil_from_days (t div 86400))"
    and "fst (civil_from_days (t div 86400)) \<le> int32_max"
  shows "parse_pg_timestamp (to_iso8601 t) = Some t"
proof -
  obtain y m d where c: "civil_from_days (t div 86400) = (y, m, d)"
    by (cases "civil_from_days (t div 86400)") auto
  have md: "1 \<le> m" "m \<le> 12" "1 \<le> d" "d \<le> 31"
    using civil_from_days_range [of "t div 86400"] c by auto
  have days: "days_from_civil y m d = t div 86400"
    using days_from_civil_from_days [of "t div 86400"] c by simp
  have join: "t div 86400 * 86400 + sod = t" if "sod = t mod 86400" for sod
    unfolding that by simp
  have "days_from_civil y m d * 86400 + t mod 86400 sdiv 3600 * 3600 +
      (t mod 86400 smod 3600) sdiv 60 * 60 + t mod 86400 smod 60 = t"
    using join [OF sod_split [of "t mod 86400"]] unfolding days by (simp add: add.assoc)
  moreover have "t - t div 86400 * 86400 = t mod 86400"
    by (simp add: minus_div_mult_eq_mod)
  ultimately show ?thesis
    using md scan_timestamp_printed
    by (simp add: parse_pg_timestamp_def to_iso8601_def floor_div_eq c Let_def)
qed

theorem timestamp_roundtrip_witness:
  "parse_pg_timestamp (to_iso8601 (- 1)) = Some (- 1) \<and> to_iso8601 (- 1) = ''1969-12-31T23:59:59Z''"
proof -
  have c: "civil_from_days (- 1 div 86400) = (1969, 12, 31)" by code_simp
  have "to_iso8601 (- 1) = ''1969-12-31T23:59:59Z''" by code_simp
  with timestamp_roundtrip [of "- 1"] c show ?thesis
    by (simp add: int32_min_def int32_max_def)
qed

end
