(* ===== verification/Models.thy ===== *)
theory Models
  imports Errors Roles Calendar
begin

text \<open>
  The persistent entities of \<^verbatim>\<open>include/rtc/models\<close>: one record per struct, one datatype per
  enum class, and the text each enum is stored as. The parsers accept exactly the printed
  names, so a typed row and the text columns behind it carry the same information.
\<close>


section \<open>Users\<close>

record user =
  u_id :: int
  u_username :: string
  u_email :: string
  u_password_hash :: string
  u_display_name :: "string option"
  u_bio :: "string option"
  u_avatar_url :: "string option"
  u_created_at :: time_point
  u_updated_at :: time_point

text \<open>A full row of \<^verbatim>\<open>users\<close>: the user and the columns of migration 0011.\<close>

record admin_user_record =
  ar_user :: user
  ar_role :: role
  ar_banned_at :: "time_point option"
  ar_ban_reason :: "string option"
  ar_banned_by :: "int option"

definition ar_is_banned :: "admin_user_record \<Rightarrow> bool" where
  "ar_is_banned r \<longleftrightarrow> ar_banned_at r \<noteq> None"


section \<open>Conversations and participants\<close>

datatype conversation_type = kDirect | kGroup

fun conversation_type_to_string :: "conversation_type \<Rightarrow> string" where
  "conversation_type_to_string kDirect = ''direct''"
| "conversation_type_to_string kGroup = ''group''"

definition conversation_type_from_string :: "string \<Rightarrow> conversation_type option" where
  "conversation_type_from_string s =
     (if s = ''direct'' then Some kDirect else if s = ''group'' then Some kGroup else None)"

record conversation =
  c_id :: int
  c_type :: conversation_type
  c_name :: "string option"
  c_owner_id :: "int option"
  c_direct_key :: "string option"
  c_created_at :: time_point
  c_updated_at :: time_point
  c_last_message_at :: "time_point option"

definition is_group :: "conversation \<Rightarrow> bool" where
  "is_group c \<longleftrightarrow> c_type c = kGroup"

definition is_direct :: "conversation \<Rightarrow> bool" where
  "is_direct c \<longleftrightarrow> c_type c = kDirect"

datatype participant_role = kOwner | kMember

fun participant_role_to_string :: "participant_role \<Rightarrow> string" where
  "participant_role_to_string kOwner = ''owner''"
| "participant_role_to_string kMember = ''member''"

definition participant_role_from_string :: "string \<Rightarrow> participant_role option" where
  "participant_role_from_string s =
     (if s = ''owner'' then Some kOwner else if s = ''member'' then Some kMember else None)"

record participant =
  p_id :: int
  p_conversation_id :: int
  p_user_id :: int
  p_role :: participant_role
  p_joined_at :: time_point
  p_last_read_message_id :: "int option"


section \<open>Messages, receipts and reactions\<close>

datatype message_type = kText | kSystem

fun message_type_to_string :: "message_type \<Rightarrow> string" where
  "message_type_to_string kText = ''text''"
| "message_type_to_string kSystem = ''system''"

definition message_type_from_string :: "string \<Rightarrow> message_type option" where
  "message_type_from_string s =
     (if s = ''text'' then Some kText else if s = ''system'' then Some kSystem else None)"

record message =
  m_id :: int
  m_conversation_id :: int
  m_sender_id :: int
  m_type :: message_type
  m_content :: string
  m_created_at :: time_point
  m_updated_at :: time_point
  m_edited_at :: "time_point option"
  m_deleted_at :: "time_point option"

definition is_deleted :: "message \<Rightarrow> bool" where
  "is_deleted m \<longleftrightarrow> m_deleted_at m \<noteq> None"

definition is_edited :: "message \<Rightarrow> bool" where
  "is_edited m \<longleftrightarrow> m_edited_at m \<noteq> None"

datatype receipt_state = kSent | kDelivered | kRead

fun receipt_state_to_string :: "receipt_state \<Rightarrow> string" where
  "receipt_state_to_string kSent = ''sent''"
| "receipt_state_to_string kDelivered = ''delivered''"
| "receipt_state_to_string kRead = ''read''"

definition receipt_state_from_string :: "string \<Rightarrow> receipt_state option" where
  "receipt_state_from_string s =
     (if s = ''sent'' then Some kSent else if s = ''delivered'' then Some kDelivered
      else if s = ''read'' then Some kRead else None)"

fun rank :: "receipt_state \<Rightarrow> int" where
  "rank kSent = 0"
| "rank kDelivered = 1"
| "rank kRead = 2"

record read_receipt =
  r_id :: int
  r_message_id :: int
  r_user_id :: int
  r_state :: receipt_state
  r_updated_at :: time_point

text \<open>The reaction palette, as the UTF-8 bytes of the source's literals.\<close>

definition utf8 :: "nat list \<Rightarrow> string" where
  "utf8 bs = map char_of bs"

definition kAllowedReactions :: "string list" where
  "kAllowedReactions =
     [utf8 [0xF0, 0x9F, 0x91, 0x8D], utf8 [0xE2, 0x9D, 0xA4, 0xEF, 0xB8, 0x8F],
      utf8 [0xF0, 0x9F, 0x98, 0x82], utf8 [0xF0, 0x9F, 0x98, 0xAE], utf8 [0xF0, 0x9F, 0x98, 0xA2],
      utf8 [0xF0, 0x9F, 0x91, 0x8F], utf8 [0xF0, 0x9F, 0x94, 0xA5]]"

definition is_allowed_reaction :: "string \<Rightarrow> bool" where
  "is_allowed_reaction emoji \<longleftrightarrow> emoji \<in> set kAllowedReactions"

record reaction =
  x_id :: int
  x_message_id :: int
  x_user_id :: int
  x_emoji :: string
  x_created_at :: time_point
  x_updated_at :: time_point


section \<open>Notifications\<close>

datatype notification_type =
    kNewMessage | kMention | kAddedToGroup | kRemovedFromGroup | kReactionAdded | kProfileUpdated

fun notification_type_to_string :: "notification_type \<Rightarrow> string" where
  "notification_type_to_string kNewMessage = ''new_message''"
| "notification_type_to_string kMention = ''mention''"
| "notification_type_to_string kAddedToGroup = ''added_to_group''"
| "notification_type_to_string kRemovedFromGroup = ''removed_from_group''"
| "notification_type_to_string kReactionAdded = ''reaction_added''"
| "notification_type_to_string kProfileUpdated = ''profile_updated''"

record notification =
  n_id :: int
  n_user_id :: int
  n_type :: notification_type
  n_payload :: json
  n_read_at :: "time_point option"
  n_created_at :: time_point

definition is_read :: "notification \<Rightarrow> bool" where
  "is_read n \<longleftrightarrow> n_read_at n \<noteq> None"


section \<open>Sessions\<close>

record session =
  s_id :: string
  s_user_id :: int
  s_refresh_token_hash :: string
  s_user_agent :: "string option"
  s_ip :: "string option"
  s_created_at :: time_point
  s_last_used_at :: time_point
  s_expires_at :: time_point
  s_revoked_at :: "time_point option"

definition is_revoked :: "session \<Rightarrow> bool" where
  "is_revoked s \<longleftrightarrow> s_revoked_at s \<noteq> None"

definition is_expired :: "time_point \<Rightarrow> session \<Rightarrow> bool" where
  "is_expired now s \<longleftrightarrow> s_expires_at s \<le> now"

definition is_active :: "time_point \<Rightarrow> session \<Rightarrow> bool" where
  "is_active now s \<longleftrightarrow> \<not> is_revoked s \<and> \<not> is_expired now s"


section \<open>Attachments and audit records\<close>

datatype attachment_kind = kImage | kPdf | kDocument | kVideo | kAudio | kOther

fun attachment_kind_to_string :: "attachment_kind \<Rightarrow> string" where
  "attachment_kind_to_string kImage = ''image''"
| "attachment_kind_to_string kPdf = ''pdf''"
| "attachment_kind_to_string kDocument = ''document''"
| "attachment_kind_to_string kVideo = ''video''"
| "attachment_kind_to_string kAudio = ''audio''"
| "attachment_kind_to_string kOther = ''other''"

definition attachment_kind_from_string :: "string \<Rightarrow> attachment_kind option" where
  "attachment_kind_from_string s =
     (if s = ''image'' then Some kImage else if s = ''pdf'' then Some kPdf
      else if s = ''document'' then Some kDocument else if s = ''video'' then Some kVideo
      else if s = ''audio'' then Some kAudio else if s = ''other'' then Some kOther else None)"

record attachment =
  a_id :: int
  a_owner_id :: int
  a_message_id :: "int option"
  a_storage_backend :: string
  a_storage_key :: string
  a_thumbnail_key :: "string option"
  a_original_filename :: string
  a_content_type :: string
  a_kind :: attachment_kind
  a_byte_size :: int
  a_width :: "int option"
  a_height :: "int option"
  a_checksum :: "string option"
  a_created_at :: time_point

record audit_log =
  l_id :: int
  l_event_id :: string
  l_event_type :: string
  l_actor_id :: "int option"
  l_actor_username :: "string option"
  l_target_type :: "string option"
  l_target_id :: "string option"
  l_ip :: "string option"
  l_user_agent :: "string option"
  l_correlation_id :: "string option"
  l_trace_id :: "string option"
  l_metadata :: json
  l_occurred_at :: time_point
  l_created_at :: time_point


section \<open>The stored text of every enum reads back as the same value\<close>

lemma conversation_type_roundtrip [simp]:
  "conversation_type_from_string (conversation_type_to_string t) = Some t"
  by (cases t) (simp_all add: conversation_type_from_string_def)

lemma participant_role_roundtrip [simp]:
  "participant_role_from_string (participant_role_to_string r) = Some r"
  by (cases r) (simp_all add: participant_role_from_string_def)

lemma message_type_roundtrip [simp]: "message_type_from_string (message_type_to_string t) = Some t"
  by (cases t) (simp_all add: message_type_from_string_def)

lemma receipt_state_roundtrip [simp]:
  "receipt_state_from_string (receipt_state_to_string s) = Some s"
  by (cases s) (simp_all add: receipt_state_from_string_def)

lemma attachment_kind_roundtrip [simp]:
  "attachment_kind_from_string (attachment_kind_to_string k) = Some k"
  by (cases k) (simp_all add: attachment_kind_from_string_def)

lemma receipt_state_from_string_Some:
  "receipt_state_from_string s = Some t \<longleftrightarrow> s = receipt_state_to_string t"
  by (cases t) (auto simp: receipt_state_from_string_def)

lemma rank_inj [simp]: "rank a = rank b \<longleftrightarrow> a = b"
  by (cases a; cases b) simp_all

lemma rank_bounds: "0 \<le> rank s" "rank s \<le> 2"
  by (cases s; simp)+

end
