(* ===== verification/Events.thy ===== *)
theory Events
  imports Models
begin

text \<open>
  Event vocabulary: the WebSocket event names of \<^verbatim>\<open>realtime/events.hpp\<close>, the domain event types
  and envelope of \<^verbatim>\<open>events/domain_event\<close>, and the typed builders of \<^verbatim>\<open>events/event_types.hpp\<close>. A
  builder determines type, payload and actor; identity, time and trace are stamped by
  \<^verbatim>\<open>DomainEvent::make\<close> when the event is published.
\<close>


section \<open>WebSocket event names\<close>

definition kMessageCreated :: string where "kMessageCreated = ''message.created''"
definition kMessageUpdated :: string where "kMessageUpdated = ''message.updated''"
definition kMessageDeleted :: string where "kMessageDeleted = ''message.deleted''"
definition kConversationCreated :: string where "kConversationCreated = ''conversation.created''"
definition kConversationDeleted :: string where "kConversationDeleted = ''conversation.deleted''"
definition kMemberAdded :: string where "kMemberAdded = ''conversation.member_added''"
definition kMemberRemoved :: string where "kMemberRemoved = ''conversation.member_removed''"
definition kTypingStart :: string where "kTypingStart = ''typing.start''"
definition kTypingStop :: string where "kTypingStop = ''typing.stop''"
definition kPresenceUpdate :: string where "kPresenceUpdate = ''presence.update''"
definition kReceiptUpdate :: string where "kReceiptUpdate = ''receipt.update''"
definition kReadUpdate :: string where "kReadUpdate = ''read.update''"
definition kAttachmentUploaded :: string where "kAttachmentUploaded = ''attachment.uploaded''"
definition kReactionAdded_event :: string where "kReactionAdded_event = ''reaction.added''"
definition kReactionRemoved :: string where "kReactionRemoved = ''reaction.removed''"
definition kNotification :: string where "kNotification = ''notification''"
definition kPong :: string where "kPong = ''pong''"
definition kError :: string where "kError = ''error''"
definition kReady :: string where "kReady = ''ready''"
definition kClientPing :: string where "kClientPing = ''ping''"
definition kClientSendMessage :: string where "kClientSendMessage = ''message.send''"
definition kClientTypingStart :: string where "kClientTypingStart = ''typing.start''"
definition kClientTypingStop :: string where "kClientTypingStop = ''typing.stop''"
definition kClientMarkRead :: string where "kClientMarkRead = ''mark_read''"
definition kClientMarkDelivered :: string where "kClientMarkDelivered = ''mark_delivered''"

lemmas event_name_defs = kMessageCreated_def kMessageUpdated_def kMessageDeleted_def
  kConversationCreated_def kConversationDeleted_def kMemberAdded_def kMemberRemoved_def
  kTypingStart_def kTypingStop_def kPresenceUpdate_def kReceiptUpdate_def kReadUpdate_def
  kAttachmentUploaded_def kReactionAdded_event_def kReactionRemoved_def kNotification_def
  kPong_def kError_def kReady_def kClientPing_def kClientSendMessage_def kClientTypingStart_def
  kClientTypingStop_def kClientMarkRead_def kClientMarkDelivered_def


section \<open>Domain event types\<close>

datatype event_type =
    EvUserRegistered | EvUserLoggedIn | EvUserLoggedOut | EvPasswordChanged | EvProfileUpdated
  | EvUserRoleChanged | EvUserOnline | EvUserOffline | EvConversationCreated
  | EvConversationDeleted | EvMemberAdded | EvMemberRemoved | EvMessageSent | EvMessageEdited
  | EvMessageDeleted | EvReactionAdded | EvReactionRemoved | EvAttachmentUploaded
  | EvNotificationCreated | EvAdminAction

definition all_event_types :: "event_type list" where
  "all_event_types =
     [EvUserRegistered, EvUserLoggedIn, EvUserLoggedOut, EvPasswordChanged, EvProfileUpdated,
      EvUserRoleChanged, EvUserOnline, EvUserOffline, EvConversationCreated,
      EvConversationDeleted, EvMemberAdded, EvMemberRemoved, EvMessageSent, EvMessageEdited,
      EvMessageDeleted, EvReactionAdded, EvReactionRemoved, EvAttachmentUploaded,
      EvNotificationCreated, EvAdminAction]"

fun event_type_name :: "event_type \<Rightarrow> string" where
  "event_type_name EvUserRegistered = ''user.registered''"
| "event_type_name EvUserLoggedIn = ''user.logged_in''"
| "event_type_name EvUserLoggedOut = ''user.logged_out''"
| "event_type_name EvPasswordChanged = ''user.password_changed''"
| "event_type_name EvProfileUpdated = ''user.profile_updated''"
| "event_type_name EvUserRoleChanged = ''user.role_changed''"
| "event_type_name EvUserOnline = ''presence.user_online''"
| "event_type_name EvUserOffline = ''presence.user_offline''"
| "event_type_name EvConversationCreated = ''conversation.created''"
| "event_type_name EvConversationDeleted = ''conversation.deleted''"
| "event_type_name EvMemberAdded = ''conversation.member_added''"
| "event_type_name EvMemberRemoved = ''conversation.member_removed''"
| "event_type_name EvMessageSent = ''message.sent''"
| "event_type_name EvMessageEdited = ''message.edited''"
| "event_type_name EvMessageDeleted = ''message.deleted''"
| "event_type_name EvReactionAdded = ''reaction.added''"
| "event_type_name EvReactionRemoved = ''reaction.removed''"
| "event_type_name EvAttachmentUploaded = ''attachment.uploaded''"
| "event_type_name EvNotificationCreated = ''notification.created''"
| "event_type_name EvAdminAction = ''admin.action''"

definition parse_event_type :: "string \<Rightarrow> event_type option" where
  "parse_event_type name = List.find (\<lambda>t. event_type_name t = name) all_event_types"

record domain_event =
  de_type :: event_type
  de_event_id :: string
  de_occurred_at :: time_point
  de_actor_id :: "int option"
  de_correlation_id :: string
  de_trace_id :: string
  de_payload :: json

definition DomainEvent_to_json :: "domain_event \<Rightarrow> json" where
  "DomainEvent_to_json e =
     JObj ([(''event_id'', JStr (de_event_id e)),
            (''type'', JStr (event_type_name (de_type e))),
            (''occurred_at'', JStr (to_iso8601 (de_occurred_at e))),
            (''payload'', de_payload e)] @
           (case de_actor_id e of None \<Rightarrow> [] | Some a \<Rightarrow> [(''actor_id'', JInt a)]) @
           (if de_correlation_id e \<noteq> [] then [(''correlation_id'', JStr (de_correlation_id e))] else []) @
           (if de_trace_id e \<noteq> [] then [(''trace_id'', JStr (de_trace_id e))] else []))"


section \<open>Typed builders\<close>

text \<open>What a builder fixes: the type, the payload and the acting user.\<close>

type_synonym event_seed = "event_type \<times> json \<times> int option"

definition UserRegistered :: "int \<Rightarrow> string \<Rightarrow> string \<Rightarrow> event_seed" where
  "UserRegistered user_id username email =
     (EvUserRegistered,
      JObj [(''user_id'', JInt user_id), (''username'', JStr username), (''email'', JStr email)],
      Some user_id)"

definition UserLoggedIn :: "int \<Rightarrow> string \<Rightarrow> string \<Rightarrow> string \<Rightarrow> event_seed" where
  "UserLoggedIn user_id username ip user_agent =
     (EvUserLoggedIn,
      JObj [(''user_id'', JInt user_id), (''username'', JStr username), (''ip'', JStr ip),
            (''user_agent'', JStr user_agent)],
      Some user_id)"

definition UserLoggedOut :: "int \<Rightarrow> string \<Rightarrow> bool \<Rightarrow> event_seed" where
  "UserLoggedOut user_id session_id all_sessions =
     (EvUserLoggedOut,
      JObj [(''user_id'', JInt user_id), (''session_id'', JStr session_id),
            (''all_sessions'', JBool all_sessions)],
      Some user_id)"

definition UserRoleChanged :: "int \<Rightarrow> int \<Rightarrow> string \<Rightarrow> string \<Rightarrow> event_seed" where
  "UserRoleChanged user_id actor_id previous_role new_role =
     (EvUserRoleChanged,
      JObj [(''user_id'', JInt user_id), (''previous_role'', JStr previous_role),
            (''new_role'', JStr new_role)],
      Some actor_id)"

definition UserOnline :: "int \<Rightarrow> string \<Rightarrow> nat \<Rightarrow> event_seed" where
  "UserOnline user_id username session_count =
     (EvUserOnline,
      JObj [(''user_id'', JInt user_id), (''username'', JStr username),
            (''session_count'', JInt (int session_count))],
      Some user_id)"

definition UserOffline :: "int \<Rightarrow> string \<Rightarrow> event_seed" where
  "UserOffline user_id username =
     (EvUserOffline, JObj [(''user_id'', JInt user_id), (''username'', JStr username)], Some user_id)"

definition ConversationCreated :: "int \<Rightarrow> int \<Rightarrow> bool \<Rightarrow> int list \<Rightarrow> event_seed" where
  "ConversationCreated conversation_id actor_id is_grp participant_ids =
     (EvConversationCreated,
      JObj [(''conversation_id'', JInt conversation_id), (''is_group'', JBool is_grp),
            (''participant_ids'', jids participant_ids)],
      Some actor_id)"

definition ConversationDeleted :: "int \<Rightarrow> int \<Rightarrow> event_seed" where
  "ConversationDeleted conversation_id actor_id =
     (EvConversationDeleted, JObj [(''conversation_id'', JInt conversation_id)], Some actor_id)"

definition MemberAdded :: "int \<Rightarrow> int \<Rightarrow> int \<Rightarrow> event_seed" where
  "MemberAdded conversation_id member_id actor_id =
     (EvMemberAdded,
      JObj [(''conversation_id'', JInt conversation_id), (''member_id'', JInt member_id)],
      Some actor_id)"

definition MemberRemoved :: "int \<Rightarrow> int \<Rightarrow> int \<Rightarrow> event_seed" where
  "MemberRemoved conversation_id member_id actor_id =
     (EvMemberRemoved,
      JObj [(''conversation_id'', JInt conversation_id), (''member_id'', JInt member_id)],
      Some actor_id)"

definition MessageSent :: "int \<Rightarrow> int \<Rightarrow> int \<Rightarrow> int list \<Rightarrow> nat \<Rightarrow> event_seed" where
  "MessageSent message_id conversation_id sender_id recipient_ids content_length =
     (EvMessageSent,
      JObj [(''message_id'', JInt message_id), (''conversation_id'', JInt conversation_id),
            (''sender_id'', JInt sender_id), (''recipient_ids'', jids recipient_ids),
            (''content_length'', JInt (int content_length))],
      Some sender_id)"

definition MessageEdited :: "int \<Rightarrow> int \<Rightarrow> int \<Rightarrow> event_seed" where
  "MessageEdited message_id conversation_id actor_id =
     (EvMessageEdited,
      JObj [(''message_id'', JInt message_id), (''conversation_id'', JInt conversation_id)],
      Some actor_id)"

definition MessageDeleted :: "int \<Rightarrow> int \<Rightarrow> int \<Rightarrow> bool \<Rightarrow> event_seed" where
  "MessageDeleted message_id conversation_id actor_id by_moderator =
     (EvMessageDeleted,
      JObj [(''message_id'', JInt message_id), (''conversation_id'', JInt conversation_id),
            (''by_moderator'', JBool by_moderator)],
      Some actor_id)"

definition AdminAction :: "int \<Rightarrow> string \<Rightarrow> string \<Rightarrow> string \<Rightarrow> json \<Rightarrow> event_seed" where
  "AdminAction actor_id action target_type target_id details =
     (EvAdminAction,
      JObj [(''action'', JStr action), (''target_type'', JStr target_type),
            (''target_id'', JStr target_id), (''details'', details)],
      Some actor_id)"

text \<open>Builders that no service uses.\<close>

definition PasswordChanged :: "int \<Rightarrow> event_seed" where
  "PasswordChanged user_id = (EvPasswordChanged, JObj [(''user_id'', JInt user_id)], Some user_id)"

definition ProfileUpdated :: "int \<Rightarrow> string list \<Rightarrow> event_seed" where
  "ProfileUpdated user_id changed_fields =
     (EvProfileUpdated,
      JObj [(''user_id'', JInt user_id), (''changed_fields'', JArr (map JStr changed_fields))],
      Some user_id)"

definition ReactionAdded :: "int \<Rightarrow> int \<Rightarrow> int \<Rightarrow> string \<Rightarrow> event_seed" where
  "ReactionAdded message_id conversation_id user_id emoji =
     (EvReactionAdded,
      JObj [(''message_id'', JInt message_id), (''conversation_id'', JInt conversation_id), (''emoji'', JStr emoji)],
      Some user_id)"

definition ReactionRemoved :: "int \<Rightarrow> int \<Rightarrow> int \<Rightarrow> string \<Rightarrow> event_seed" where
  "ReactionRemoved message_id conversation_id user_id emoji =
     (EvReactionRemoved,
      JObj [(''message_id'', JInt message_id), (''conversation_id'', JInt conversation_id), (''emoji'', JStr emoji)],
      Some user_id)"

definition AttachmentUploaded :: "int \<Rightarrow> int \<Rightarrow> string \<Rightarrow> int \<Rightarrow> event_seed" where
  "AttachmentUploaded attachment_id owner_id content_type size_bytes =
     (EvAttachmentUploaded,
      JObj [(''attachment_id'', JInt attachment_id), (''owner_id'', JInt owner_id),
            (''content_type'', JStr content_type), (''size_bytes'', JInt size_bytes)],
      Some owner_id)"

definition NotificationCreated :: "int \<Rightarrow> int \<Rightarrow> int \<Rightarrow> string \<Rightarrow> event_seed" where
  "NotificationCreated notification_id user_id actor_id kind =
     (EvNotificationCreated,
      JObj [(''notification_id'', JInt notification_id), (''user_id'', JInt user_id), (''kind'', JStr kind)],
      Some actor_id)"

lemmas event_seed_defs = UserRegistered_def UserLoggedIn_def UserLoggedOut_def UserRoleChanged_def
  UserOnline_def UserOffline_def ConversationCreated_def ConversationDeleted_def MemberAdded_def
  MemberRemoved_def MessageSent_def MessageEdited_def MessageDeleted_def AdminAction_def


section \<open>The wire names are a bijection\<close>

lemma all_event_types_complete: "t \<in> set all_event_types"
  by (cases t) (simp_all add: all_event_types_def)

lemma event_type_name_inj: "event_type_name a = event_type_name b \<longleftrightarrow> a = b"
  by (cases a; cases b) simp_all

lemma parse_event_type_Some: "parse_event_type name = Some t \<longleftrightarrow> event_type_name t = name"
proof
  assume "parse_event_type name = Some t"
  then show "event_type_name t = name"
    by (auto simp: parse_event_type_def find_Some_iff)
next
  assume name: "event_type_name t = name"
  then have "parse_event_type name \<noteq> None"
    using all_event_types_complete [of t] by (auto simp: parse_event_type_def find_None_iff)
  then obtain t' where t': "parse_event_type name = Some t'" by blast
  then have "event_type_name t' = name" by (auto simp: parse_event_type_def find_Some_iff)
  with name t' show "parse_event_type name = Some t" by (simp flip: event_type_name_inj)
qed

end
