(* ===== verification/World.thy ===== *)
theory World
  imports Events
begin

text \<open>
  The state the services run in. \<open>database\<close> is the PostgreSQL schema of \<^verbatim>\<open>migrations/\<close> with typed
  rows (one list per table, in insertion order), its id sequences and its clock; \<open>world\<close> adds
  what the services reach besides the database: the WebSocket broadcaster, the domain event
  bus, the background executor, the metrics registry and the random engine.

  \<open>with_transaction\<close> is \<^verbatim>\<open>BaseRepository::with_transaction\<close>: the tables of a failed transaction are
  rolled back (sequences are not, as in PostgreSQL), application exceptions pass through,
  every other exception becomes a \<^verbatim>\<open>DatabaseException\<close>. Connection failures are part of the model:
  \<open>faults\<close> is the environment's script of which of the coming transactions fail, and the
  properties hold for every script.
\<close>


section \<open>Tables\<close>

record tables =
  t_users :: "admin_user_record list"
  t_conversations :: "conversation list"
  t_participants :: "participant list"
  t_messages :: "message list"
  t_receipts :: "read_receipt list"
  t_reactions :: "reaction list"
  t_notifications :: "notification list"
  t_sessions :: "session list"
  t_attachments :: "attachment list"
  t_audit_logs :: "audit_log list"

record sequences =
  q_users :: int
  q_conversations :: int
  q_participants :: int
  q_messages :: int
  q_receipts :: int
  q_reactions :: int
  q_notifications :: int
  q_attachments :: int
  q_audit_logs :: int

text \<open>Errors the driver raises: a violated unique index with the offending key, a violated foreign
  key, a value too long for its column, a broken connection. The text of \<^verbatim>\<open>what()\<close> belongs to
  PostgreSQL; it is the component \<open>sql_what\<close> of the database.\<close>

datatype sql_error =
    UniqueViolation string string
  | ForeignKeyViolation string
  | ValueTooLong nat
  | BrokenConnection

record database =
  tabs :: tables
  seqs :: sequences
  now :: time_point
  sql_what :: "sql_error \<Rightarrow> string"

datatype db_thrown = DbApp app_exception | DbSql sql_error

type_synonym 'a db_act = "(db_thrown, database, 'a) action"

definition nextval ::
    "(sequences \<Rightarrow> int) \<Rightarrow> ((int \<Rightarrow> int) \<Rightarrow> sequences \<Rightarrow> sequences) \<Rightarrow> int db_act" where
  "nextval q q_upd = (\<lambda>d. (Inr (q (seqs d)), d\<lparr>seqs := q_upd (\<lambda>i. i + 1) (seqs d)\<rparr>))"

definition update_tables :: "(tables \<Rightarrow> tables) \<Rightarrow> unit db_act" where
  "update_tables f = modify (\<lambda>d. d\<lparr>tabs := f (tabs d)\<rparr>)"

text \<open>\<^verbatim>\<open>UPDATE ... WHERE\<close>, \<^verbatim>\<open>ORDER BY ... LIMIT ... OFFSET\<close> and \<^verbatim>\<open>VARCHAR(n)\<close> on lists of rows.\<close>

definition update_where :: "('r \<Rightarrow> bool) \<Rightarrow> ('r \<Rightarrow> 'r) \<Rightarrow> 'r list \<Rightarrow> 'r list" where
  "update_where P f rows = map (\<lambda>r. if P r then f r else r) rows"

definition limit_offset :: "int \<Rightarrow> int \<Rightarrow> 'r list \<Rightarrow> 'r list" where
  "limit_offset k off rows = take (nat k) (drop (nat off) rows)"

definition utf8_length :: "string \<Rightarrow> nat" where
  "utf8_length s = length (filter (\<lambda>c. byte_of c div 64 \<noteq> 2) s)"

definition check_varchar :: "nat \<Rightarrow> string option \<Rightarrow> unit db_act" where
  "check_varchar n v =
     require (case v of None \<Rightarrow> True | Some s \<Rightarrow> utf8_length s \<le> n) (DbSql (ValueTooLong n))"


section \<open>The world\<close>

record push_task =
  pt_user_id :: int
  pt_title :: string
  pt_body :: string
  pt_data :: json

text \<open>The closures handed to the background executor: sending a push, processing an uploaded image.\<close>

datatype job =
    PushJob push_task
  | ImageJob (ij_attachment_id: int) (ij_bytes: string) (ij_content_type: string) (ij_base_key: string)

text \<open>What the operating system answers to a file operation.\<close>

datatype disk_outcome = DiskOk | CannotOpen | ShortTransfer nat

record world =
  db :: database
  faults :: "sql_error option list"
  engine :: "nat \<Rightarrow> nat"
  drawn :: nat
  ambient_trace :: "string option"
  outbox :: "(int list \<times> string \<times> json) list"
  publisher_attached :: bool
  bus :: "domain_event list"
  executor_running :: bool
  tasks :: "job list"
  counters :: "string list"
  observed :: "(string \<times> int) list"
  disk :: "string list \<Rightarrow> string option"
  disk_faults :: "disk_outcome list"

type_synonym 'a act = "(app_exception, world, 'a) action"

definition rollback :: "database \<Rightarrow> database \<Rightarrow> database" where
  "rollback before after = after\<lparr>tabs := tabs before\<rparr>"

definition with_transaction :: "'a db_act \<Rightarrow> 'a act" where
  "with_transaction fn = (\<lambda>w.
     case faults w of
       Some err # rest \<Rightarrow>
         (Inl (DatabaseException ''Database operation failed'' (sql_what (db w) err)), w\<lparr>faults := rest\<rparr>)
     | rest \<Rightarrow>
         let w = w\<lparr>faults := tl rest\<rparr> in
         (case fn (db w) of
            (Inr x, d) \<Rightarrow> (Inr x, w\<lparr>db := d\<rparr>)
          | (Inl (DbApp e), d) \<Rightarrow> (Inl e, w\<lparr>db := rollback (db w) d\<rparr>)
          | (Inl (DbSql err), d) \<Rightarrow>
              (Inl (DatabaseException ''Database operation failed'' (sql_what (db w) err)),
               w\<lparr>db := rollback (db w) d\<rparr>)))"


section \<open>Broadcaster, event bus, executor, metrics, random tokens\<close>

text \<open>\<^verbatim>\<open>IEventBroadcaster::publish\<close>: the call as the services issue it.\<close>

definition broadcast :: "int list \<Rightarrow> string \<Rightarrow> json \<Rightarrow> unit act" where
  "broadcast user_ids type data = modify (\<lambda>w. w\<lparr>outbox := outbox w @ [(user_ids, type, data)]\<rparr>)"

definition hex_digit :: "nat \<Rightarrow> char" where
  "hex_digit n = (if n < 10 then char_of (48 + n) else char_of (87 + n))"

definition hex_byte :: "nat \<Rightarrow> string" where
  "hex_byte b = [hex_digit (b div 16), hex_digit (b mod 16)]"

definition generate_hex_token :: "nat \<Rightarrow> string act" where
  "generate_hex_token bytes = (\<lambda>w.
     (Inr (concat (map (\<lambda>i. hex_byte (engine w (drawn w + i) mod 256)) [0..<bytes])),
      w\<lparr>drawn := drawn w + bytes\<rparr>))"

definition DomainEvent_make :: "event_seed \<Rightarrow> domain_event act" where
  "DomainEvent_make seed = (case seed of (ty, payload, actor_id) \<Rightarrow>
     seq (generate_hex_token 12) (\<lambda>event_id. gets (\<lambda>w.
       let trace = (case ambient_trace w of None \<Rightarrow> [] | Some t \<Rightarrow> t) in
       \<lparr>de_type = ty, de_event_id = event_id, de_occurred_at = now (db w), de_actor_id = actor_id,
        de_correlation_id = trace, de_trace_id = trace, de_payload = payload\<rparr>)))"

text \<open>\<^verbatim>\<open>publisher().publish(event.to_event())\<close>; without a bus the null publisher drops the event.\<close>

definition publish :: "event_seed \<Rightarrow> unit act" where
  "publish seed = seq (DomainEvent_make seed) (\<lambda>e.
     modify (\<lambda>w. if publisher_attached w then w\<lparr>bus := bus w @ [e]\<rparr> else w))"

text \<open>\<^verbatim>\<open>BackgroundExecutor::submit\<close>: dropped when the pool is stopped.\<close>

definition submit :: "job \<Rightarrow> unit act" where
  "submit t = modify (\<lambda>w. if executor_running w then w\<lparr>tasks := tasks w @ [t]\<rparr> else w)"

definition submit_push :: "push_task \<Rightarrow> unit act" where
  "submit_push t = submit (PushJob t)"

definition increment :: "string \<Rightarrow> unit act" where
  "increment name = modify (\<lambda>w. w\<lparr>counters := counters w @ [name]\<rparr>)"

definition observe :: "string \<Rightarrow> int \<Rightarrow> unit act" where
  "observe name v = modify (\<lambda>w. w\<lparr>observed := observed w @ [(name, v)]\<rparr>)"


section \<open>Rows\<close>

lemma update_where_map: "(\<And>r. g (f r) = g r) \<Longrightarrow> map g (update_where P f rows) = map g rows"
  by (simp add: update_where_def)

lemma image_update_where:
  "(\<And>r. g (f r) = g r) \<Longrightarrow> g ` set (update_where P f rows) = g ` set rows"
  by (metis list.set_map update_where_map)

lemma ball_update_where:
  "(\<forall>x \<in> set (update_where P f rows). Q x) \<longleftrightarrow> (\<forall>r \<in> set rows. Q (if P r then f r else r))"
  by (induction rows) (auto simp: update_where_def)

lemma in_update_whereE:
  assumes "x \<in> set (update_where P f rows)"
  obtains r where "r \<in> set rows" "x = (if P r then f r else r)"
  using assms by (auto simp only: update_where_def set_map image_iff)

lemma set_update_where: "set (update_where P f rows) = (\<lambda>r. if P r then f r else r) ` set rows"
  by (auto simp: update_where_def)

lemma update_where_id: "(\<And>r. r \<in> set rows \<Longrightarrow> \<not> P r) \<Longrightarrow> update_where P f rows = rows"
  by (induction rows) (auto simp: update_where_def)

lemma utf8_length_le: "utf8_length s \<le> length s"
  by (simp add: utf8_length_def)

lemma length_limit_offset: "length (limit_offset k off rows) \<le> nat k"
  by (simp add: limit_offset_def)

lemma set_limit_offset: "set (limit_offset k off rows) \<subseteq> set rows"
  unfolding limit_offset_def by (meson order_trans set_drop_subset set_take_subset)

lemma nextval_apply [simp, act_simps]:
  "nextval q q_upd d = (Inr (q (seqs d)), d\<lparr>seqs := q_upd (\<lambda>i. i + 1) (seqs d)\<rparr>)"
  by (simp add: nextval_def)

lemma update_tables_apply [simp, act_simps]:
  "update_tables f d = (Inr (), d\<lparr>tabs := f (tabs d)\<rparr>)"
  by (simp add: update_tables_def)


section \<open>Transactions\<close>

text \<open>A transaction either commits the state its body reached, or leaves every table as it was.\<close>

lemma with_transaction_cases:
  obtains
    (commit) x d where "with_transaction fn w = (Inr x, w\<lparr>faults := tl (faults w), db := d\<rparr>)"
      and "fn (db w) = (Inr x, d)"
  | (app_error) e d where "with_transaction fn w =
        (Inl e, w\<lparr>faults := tl (faults w), db := rollback (db w) d\<rparr>)"
      and "fn (db w) = (Inl (DbApp e), d)"
  | (sql_error) err d where "with_transaction fn w =
        (Inl (DatabaseException ''Database operation failed'' (sql_what (db w) err)),
         w\<lparr>faults := tl (faults w), db := rollback (db w) d\<rparr>)"
      and "fn (db w) = (Inl (DbSql err), d)"
  | (fault) err where "with_transaction fn w =
        (Inl (DatabaseException ''Database operation failed'' (sql_what (db w) err)),
         w\<lparr>faults := tl (faults w)\<rparr>)"
      and "hd (faults w) = Some err"
proof (cases "\<exists>err rest. faults w = Some err # rest")
  case True
  then obtain err rest where "faults w = Some err # rest" by blast
  then show ?thesis using fault by (simp add: with_transaction_def)
next
  case False
  then have *: "with_transaction fn w =
      (let w' = w\<lparr>faults := tl (faults w)\<rparr> in
       case fn (db w') of
         (Inr x, d) \<Rightarrow> (Inr x, w'\<lparr>db := d\<rparr>)
       | (Inl (DbApp e), d) \<Rightarrow> (Inl e, w'\<lparr>db := rollback (db w') d\<rparr>)
       | (Inl (DbSql err), d) \<Rightarrow>
           (Inl (DatabaseException ''Database operation failed'' (sql_what (db w') err)),
            w'\<lparr>db := rollback (db w') d\<rparr>))"
    by (auto simp: with_transaction_def split: list.splits option.splits)
  obtain r d where fn: "fn (db w) = (r, d)" by fastforce
  show ?thesis
  proof (cases r)
    case (Inr x)
    then show ?thesis using commit fn by (simp add: *)
  next
    case (Inl e)
    then show ?thesis using app_error sql_error fn by (cases e) (simp_all add: *)
  qed
qed

lemma with_transaction_ok:
  assumes "with_transaction fn w = (Inr x, w')"
  shows "\<exists>d. fn (db w) = (Inr x, d) \<and> w' = w\<lparr>faults := tl (faults w), db := d\<rparr>"
  using assms by (cases rule: with_transaction_cases [of fn w]) auto

text \<open>Everything but the database and the fault script is untouched by a transaction.\<close>

lemma with_transaction_frame:
  "\<exists>d fs. final (with_transaction fn) w = w\<lparr>faults := fs, db := d\<rparr>"
  by (cases rule: with_transaction_cases [of fn w]) (auto, metis world.surjective world.update_convs(1,3))

text \<open>A failed transaction leaves the tables unchanged.\<close>

lemma with_transaction_error_tables:
  assumes "with_transaction fn w = (Inl e, w')"
  shows "tabs (db w') = tabs (db w)"
  using assms by (cases rule: with_transaction_cases [of fn w]) (auto simp: rollback_def)

text \<open>An invariant of the database that every outcome of the body keeps, up to the rollback of the
  tables, is kept by the transaction; for an invariant of the tables only success matters.\<close>

lemma with_transaction_keeps:
  assumes "\<And>d x d'. I d \<Longrightarrow> fn d = (Inr x, d') \<Longrightarrow> I d'"
    and "\<And>d e d'. I d \<Longrightarrow> fn d = (Inl e, d') \<Longrightarrow> I (rollback d d')"
  shows "keeps (inv_rel (\<lambda>w. I (db w))) (with_transaction fn)"
proof (rule keepsI)
  fix w
  show "inv_rel (\<lambda>w. I (db w)) w (final (with_transaction fn) w)"
    by (cases rule: with_transaction_cases [of fn w]) (auto simp: inv_rel_def intro: assms)
qed

lemma with_transaction_keeps_tables:
  assumes "\<And>d x d'. I (tabs d) \<Longrightarrow> fn d = (Inr x, d') \<Longrightarrow> I (tabs d')"
  shows "keeps (inv_rel (\<lambda>w. I (tabs (db w)))) (with_transaction fn)"
proof (rule keepsI)
  fix w
  show "inv_rel (\<lambda>w. I (tabs (db w))) w (final (with_transaction fn) w)"
    by (cases rule: with_transaction_cases [of fn w])
       (auto simp: inv_rel_def rollback_def intro: assms)
qed

lemma with_transaction_read:
  assumes "\<And>d. fn d = (Inr (f d), d)"
  shows "with_transaction fn w = (Inr x, w') \<Longrightarrow> x = f (db w) \<and> w' = w\<lparr>faults := tl (faults w)\<rparr>"
  using with_transaction_ok [of fn w x w'] assms by auto


text \<open>Weakest preconditions of transactions. A transaction that only reads returns what it read;
  any transaction may fail with a database error instead, and then changes no table.\<close>

definition is_db_error :: "app_exception \<Rightarrow> bool" where
  "is_db_error e \<longleftrightarrow> ex_type e = kDatabase"

lemma wp_transaction:
  assumes "\<And>x d. fn (db w) = (Inr x, d) \<Longrightarrow> Q x (w\<lparr>faults := tl (faults w), db := d\<rparr>)"
    and "\<And>e d. fn (db w) = (Inl (DbApp e), d) \<Longrightarrow>
           E e (w\<lparr>faults := tl (faults w), db := rollback (db w) d\<rparr>)"
    and "\<And>e d err. fn (db w) = (Inl (DbSql err), d) \<Longrightarrow> is_db_error e \<Longrightarrow>
           E e (w\<lparr>faults := tl (faults w), db := rollback (db w) d\<rparr>)"
    and "\<And>e. is_db_error e \<Longrightarrow> E e (w\<lparr>faults := tl (faults w)\<rparr>)"
  shows "wp (with_transaction fn) Q E w"
  by (cases rule: with_transaction_cases [of fn w])
     (auto simp: wp_def is_db_error_def DatabaseException_def AppException_def assms)

lemma wp_read:
  assumes "Q (f (db w)) (w\<lparr>faults := tl (faults w)\<rparr>)"
    and "\<And>e. is_db_error e \<Longrightarrow> E e (w\<lparr>faults := tl (faults w)\<rparr>)"
  shows "wp (with_transaction (gets f)) Q E w"
  by (rule wp_transaction) (use assms in auto)

abbreviation quiet :: "world \<Rightarrow> world" where
  "quiet w \<equiv> w\<lparr>faults := tl (faults w)\<rparr>"

lemma wp_read_seq:
  assumes "wp (k (f (db w))) Q E (quiet w)" and "\<And>e. E e (quiet w)"
  shows "wp (seq (with_transaction (gets f)) k) Q E w"
  unfolding wp_seq by (rule wp_read) (use assms in auto)

text \<open>Only a fault of the environment can make a read throw.\<close>

lemma wp_read_strict:
  assumes "Q (f (db w)) (quiet w)" and "\<And>e. faults w \<noteq> [] \<Longrightarrow> E e (quiet w)"
  shows "wp (with_transaction (gets f)) Q E w"
proof (cases "faults w")
  case Nil
  then show ?thesis
    using assms(1) by (cases w) (simp add: wp_def with_transaction_def)
qed (use assms in \<open>auto intro!: wp_read\<close>)

text \<open>Without faults a transaction does what its body does.\<close>

lemma with_transaction_quiet:
  assumes "faults w = []"
  shows "with_transaction fn w =
    (case fn (db w) of
       (Inr x, d) \<Rightarrow> (Inr x, w\<lparr>db := d\<rparr>)
     | (Inl (DbApp e), d) \<Rightarrow> (Inl e, w\<lparr>db := rollback (db w) d\<rparr>)
     | (Inl (DbSql err), d) \<Rightarrow>
         (Inl (DatabaseException ''Database operation failed'' (sql_what (db w) err)),
          w\<lparr>db := rollback (db w) d\<rparr>))"
proof -
  have w: "w\<lparr>faults := []\<rparr> = w" using assms by (cases w) simp
  show ?thesis by (simp only: with_transaction_def assms list.simps(4) list.sel(2) Let_def w)
qed

lemma run_read [act_simps]: "faults w = [] \<Longrightarrow> with_transaction (gets f) w = (Inr (f (db w)), w)"
  by (simp add: with_transaction_quiet)

lemma run_write [act_simps]:
  "faults w = [] \<Longrightarrow> with_transaction (update_tables f) w =
     (Inr (), w\<lparr>db := (db w)\<lparr>tabs := f (tabs (db w))\<rparr>\<rparr>)"
  by (simp add: with_transaction_quiet)

lemma run_broadcast [act_simps]:
  "broadcast ids ty data w = (Inr (), w\<lparr>outbox := outbox w @ [(ids, ty, data)]\<rparr>)"
  by (simp add: broadcast_def)

lemma run_increment [act_simps]: "increment name w = (Inr (), w\<lparr>counters := counters w @ [name]\<rparr>)"
  by (simp add: increment_def)

lemma run_submit [act_simps]:
  "submit task w = (Inr (), if executor_running w then w\<lparr>tasks := tasks w @ [task]\<rparr> else w)"
  by (simp add: submit_def)

lemma run_submit_push [act_simps]:
  "submit_push task w = (Inr (), if executor_running w then w\<lparr>tasks := tasks w @ [PushJob task]\<rparr> else w)"
  by (simp add: submit_push_def run_submit)

lemma run_observe [act_simps]: "observe name v w = (Inr (), w\<lparr>observed := observed w @ [(name, v)]\<rparr>)"
  by (simp add: observe_def)

text \<open>Publishing a domain event touches nothing but the random engine and the bus.\<close>

lemma run_publish:
  obtains w' where "publish seed w = (Inr (), w')" "db w' = db w" "faults w' = faults w"
    "outbox w' = outbox w" "tasks w' = tasks w" "counters w' = counters w"
    "engine w' = engine w" "executor_running w' = executor_running w"
    "publisher_attached w' = publisher_attached w"
    "map (\<lambda>e. (de_type e, de_payload e, de_actor_id e)) (bus w') =
       map (\<lambda>e. (de_type e, de_payload e, de_actor_id e)) (bus w) @ (if publisher_attached w then [seed] else [])"
  by (cases seed)
     (auto simp: publish_def DomainEvent_make_def generate_hex_token_def act_simps Let_def)

end
