(* ===== verification/Validation.thy ===== *)
theory Validation
  imports Errors
begin

text \<open>
  Input validation (\<^verbatim>\<open>src/validation/validators.cpp\<close>). A validator that throws returns the
  exception as \<open>Inl\<close>; one that normalises its argument in place returns the new value.
\<close>


section \<open>Limits\<close>

definition kUsernameMinLen :: nat where "kUsernameMinLen = 3"
definition kUsernameMaxLen :: nat where "kUsernameMaxLen = 32"
definition kEmailMaxLen :: nat where "kEmailMaxLen = 254"
definition kPasswordMinLen :: nat where "kPasswordMinLen = 8"
definition kPasswordMaxLen :: nat where "kPasswordMaxLen = 72"
definition kDisplayNameMaxLen :: nat where "kDisplayNameMaxLen = 64"
definition kBioMaxLen :: nat where "kBioMaxLen = 500"
definition kAvatarUrlMaxLen :: nat where "kAvatarUrlMaxLen = 2048"
definition kGroupNameMinLen :: nat where "kGroupNameMinLen = 1"
definition kGroupNameMaxLen :: nat where "kGroupNameMaxLen = 128"
definition kMessageMaxLen :: nat where "kMessageMaxLen = 4000"

lemmas limit_defs = kUsernameMinLen_def kUsernameMaxLen_def kEmailMaxLen_def kPasswordMinLen_def
  kPasswordMaxLen_def kDisplayNameMaxLen_def kBioMaxLen_def kAvatarUrlMaxLen_def
  kGroupNameMinLen_def kGroupNameMaxLen_def kMessageMaxLen_def


section \<open>Helpers\<close>

text \<open>
  The two \<^verbatim>\<open>find_if\<close> calls locate the first and the last character that is not white space;
  if there is none, \<^verbatim>\<open>begin >= end\<close> and the result is empty.
\<close>

definition trim :: "string \<Rightarrow> string" where
  "trim value =
     (let first = length (takeWhile isspace value);
          last = length value - length (takeWhile isspace (rev value))
      in if first \<ge> last then [] else take (last - first) (drop first value))"

definition to_lower :: "string \<Rightarrow> string" where
  "to_lower = map tolower"

definition is_valid_username_char :: "char \<Rightarrow> bool" where
  "is_valid_username_char c \<longleftrightarrow> isalnum c \<or> c = CHR ''_'' \<or> c = CHR ''.'' \<or> c = CHR ''-''"

text \<open>
  \<^verbatim>\<open>std::regex_match\<close> against \<^verbatim>\<open>kEmailPattern\<close>: a part without white space and at-signs, an
  at-sign, and a domain of such characters with a dot that is neither its first nor its last
  character. \<open>email_language\<close> below is the pattern read as a regular language.
\<close>

definition email_char :: "char \<Rightarrow> bool" where
  "email_char c \<longleftrightarrow> \<not> isspace c \<and> c \<noteq> CHR ''@''"

definition matches_kEmailPattern :: "string \<Rightarrow> bool" where
  "matches_kEmailPattern s =
     (let local = takeWhile (\<lambda>c. c \<noteq> CHR ''@'') s
      in case dropWhile (\<lambda>c. c \<noteq> CHR ''@'') s of
           [] \<Rightarrow> False
         | _ # domain \<Rightarrow> local \<noteq> [] \<and> list_all email_char local \<and> list_all email_char domain \<and>
             CHR ''.'' \<in> set (butlast (tl domain)))"

definition email_language :: "string \<Rightarrow> bool" where
  "email_language s \<longleftrightarrow>
     (\<exists>l a b. s = l @ ''@'' @ a @ ''.'' @ b \<and> l \<noteq> [] \<and> a \<noteq> [] \<and> b \<noteq> [] \<and>
        (\<forall>c \<in> set l \<union> set a \<union> set b. email_char c))"


section \<open>Field validators\<close>

definition validate_username :: "string \<Rightarrow> unit result" where
  "validate_username username =
     (if length username < kUsernameMinLen \<or> length username > kUsernameMaxLen
      then Inl (ValidationException ''Username must be between 3 and 32 characters'' ''field=username'')
      else if \<not> isalnum (hd username)
      then Inl (ValidationException ''Username must start with a letter or digit'' ''field=username'')
      else if \<not> list_all is_valid_username_char username
      then Inl (ValidationException
             (''Username may only contain letters, digits, '' @ [char_of (39::nat)] @ ''.'' @ [char_of (39::nat)] @
              '', '' @ [char_of (39::nat)] @ ''_'' @ [char_of (39::nat)] @ '' and '' @ [char_of (39::nat)] @ ''-'' @
              [char_of (39::nat)]) ''field=username'')
      else Inr ())"

definition validate_email :: "string \<Rightarrow> unit result" where
  "validate_email email =
     (if email = [] \<or> length email > kEmailMaxLen
      then Inl (ValidationException ''Email must be between 1 and 254 characters'' ''field=email'')
      else if \<not> matches_kEmailPattern email
      then Inl (ValidationException ''Email format is invalid'' ''field=email'')
      else Inr ())"

definition validate_password :: "string \<Rightarrow> unit result" where
  "validate_password password =
     (if length password < kPasswordMinLen
      then Inl (ValidationException ''Password must be at least 8 characters'' ''field=password'')
      else if length password > kPasswordMaxLen
      then Inl (ValidationException ''Password must be at most 72 bytes'' ''field=password'')
      else Inr ())"

definition validate_group_name :: "string \<Rightarrow> string result" where
  "validate_group_name name =
     (let trimmed = trim name
      in if length trimmed < kGroupNameMinLen \<or> length trimmed > kGroupNameMaxLen
         then Inl (ValidationException ''Group name must be between 1 and 128 characters'' ''field=name'')
         else Inr trimmed)"

definition validate_message_content :: "string \<Rightarrow> string result" where
  "validate_message_content content =
     (let trimmed = trim content
      in if trimmed = []
         then Inl (ValidationException ''Message content must not be empty'' ''field=content'')
         else if length trimmed > kMessageMaxLen
         then Inl (ValidationException ''Message content is too long (max 4000 characters)'' ''field=content'')
         else Inr trimmed)"


section \<open>Request validators\<close>

record register_request =
  rr_username :: string
  rr_email :: string
  rr_password :: string

record login_request =
  lr_identifier :: string
  lr_password :: string

record update_profile_request =
  up_display_name_set :: bool
  up_display_name :: "string option"
  up_bio_set :: bool
  up_bio :: "string option"
  up_avatar_url_set :: bool
  up_avatar_url :: "string option"

fun then_result :: "'a result \<Rightarrow> ('a \<Rightarrow> 'b result) \<Rightarrow> 'b result" where
  "then_result (Inl e) f = Inl e"
| "then_result (Inr x) f = f x"

definition validate_and_normalize_register :: "register_request \<Rightarrow> register_request result" where
  "validate_and_normalize_register request =
     (let request = request\<lparr>rr_username := trim (rr_username request),
                            rr_email := to_lower (trim (rr_email request))\<rparr>
      in then_result (validate_username (rr_username request)) (\<lambda>_.
         then_result (validate_email (rr_email request)) (\<lambda>_.
         then_result (validate_password (rr_password request)) (\<lambda>_. Inr request))))"

definition validate_and_normalize_login :: "login_request \<Rightarrow> login_request result" where
  "validate_and_normalize_login request =
     (let request = request\<lparr>lr_identifier := trim (lr_identifier request)\<rparr>
      in if lr_identifier request = []
         then Inl (ValidationException ''Login identifier is required'' ''field=identifier'')
         else if lr_password request = []
         then Inl (ValidationException ''Password is required'' ''field=password'')
         else Inr request)"

fun normalize_optional :: "string option \<Rightarrow> string option" where
  "normalize_optional None = None"
| "normalize_optional (Some v) = (let trimmed = trim v in if trimmed = [] then None else Some trimmed)"

definition is_http_url :: "string \<Rightarrow> bool" where
  "is_http_url url \<longleftrightarrow> take 7 url = ''http://'' \<or> take 8 url = ''https://''"

definition opt_longer :: "string option \<Rightarrow> nat \<Rightarrow> bool" where
  "opt_longer v n \<longleftrightarrow> (case v of None \<Rightarrow> False | Some s \<Rightarrow> length s > n)"

definition validate_and_normalize_profile :: "update_profile_request \<Rightarrow> update_profile_request result" where
  "validate_and_normalize_profile r0 =
     (let r1 = (if up_display_name_set r0
                then r0\<lparr>up_display_name := normalize_optional (up_display_name r0)\<rparr> else r0)
      in if up_display_name_set r0 \<and> opt_longer (up_display_name r1) kDisplayNameMaxLen
         then Inl (ValidationException ''Display name must be at most 64 characters'' ''field=display_name'')
         else
      let r2 = (if up_bio_set r1 then r1\<lparr>up_bio := normalize_optional (up_bio r1)\<rparr> else r1)
      in if up_bio_set r1 \<and> opt_longer (up_bio r2) kBioMaxLen
         then Inl (ValidationException ''Bio must be at most 500 characters'' ''field=bio'')
         else
      let r3 = (if up_avatar_url_set r2
                then r2\<lparr>up_avatar_url := normalize_optional (up_avatar_url r2)\<rparr> else r2)
      in if up_avatar_url_set r2 \<and> opt_longer (up_avatar_url r3) kAvatarUrlMaxLen
         then Inl (ValidationException ''Avatar URL is too long'' ''field=avatar_url'')
         else if up_avatar_url_set r2 \<and>
             (case up_avatar_url r3 of None \<Rightarrow> False | Some u \<Rightarrow> \<not> is_http_url u)
         then Inl (ValidationException ''Avatar URL must be an http(s) URL'' ''field=avatar_url'')
         else Inr r3)"


section \<open>Trimming\<close>

definition trimmed :: "string \<Rightarrow> bool" where
  "trimmed s \<longleftrightarrow> s = [] \<or> (\<not> isspace (hd s) \<and> \<not> isspace (last s))"

lemma length_takeWhile_less: "\<exists>c \<in> set xs. \<not> P c \<Longrightarrow> length (takeWhile P xs) < length xs"
  by (induction xs) auto

lemma trim_alt: "trim s = rev (dropWhile isspace (rev (dropWhile isspace s)))"
proof (cases "\<forall>c \<in> set s. isspace c")
  case True
  then have all: "takeWhile isspace s = s" "dropWhile isspace s = []" by simp_all
  show ?thesis by (simp add: trim_def Let_def all)
next
  case False
  define dw where "dw = dropWhile isspace s"
  have s: "s = takeWhile isspace s @ dw" by (simp add: dw_def)
  from False have "dw \<noteq> []" by (simp add: dw_def)
  then have "\<not> isspace (hd dw)" unfolding dw_def by (rule hd_dropWhile)
  then have nonspace: "\<exists>c \<in> set (rev dw). \<not> isspace c"
    using \<open>dw \<noteq> []\<close> hd_in_set by auto
  then have "takeWhile isspace (rev dw @ rev (takeWhile isspace s)) = takeWhile isspace (rev dw)"
    by (meson takeWhile_append1)
  then have tw: "takeWhile isspace (rev s) = takeWhile isspace (rev dw)"
    by (metis rev_append s)
  have "length (takeWhile isspace (rev dw)) < length (rev dw)"
    using nonspace by (meson length_takeWhile_less)
  moreover have "length s = length (takeWhile isspace s) + length dw"
    by (metis length_append s)
  moreover have "drop (length (takeWhile isspace s)) s = dw"
    by (simp add: dw_def dropWhile_eq_drop)
  ultimately have "trim s = take (length dw - length (takeWhile isspace (rev dw))) dw"
    by (simp add: trim_def Let_def tw)
  also have "\<dots> = rev (drop (length (takeWhile isspace (rev dw))) (rev dw))"
    by (simp add: rev_drop)
  finally show ?thesis by (simp add: dw_def dropWhile_eq_drop)
qed

lemma trimmed_trim: "trimmed (trim s)"
proof -
  define t where "t = dropWhile isspace s"
  have "dropWhile isspace (rev t) \<noteq> [] \<Longrightarrow> \<not> isspace (last (dropWhile isspace (rev t)))"
  proof -
    assume ne: "dropWhile isspace (rev t) \<noteq> []"
    then have "t \<noteq> []" by auto
    then have "\<not> isspace (hd t)" unfolding t_def by (rule hd_dropWhile)
    moreover have "last (dropWhile isspace (rev t)) = last (rev t)"
      using ne by (metis last_appendR takeWhile_dropWhile_id)
    ultimately show ?thesis using \<open>t \<noteq> []\<close> by (simp add: last_rev)
  qed
  then show ?thesis
    using hd_dropWhile [of isspace "rev t"]
    by (auto simp: trimmed_def trim_alt t_def hd_rev last_rev)
qed

lemma trim_trimmed: "trimmed s \<Longrightarrow> trim s = s"
proof -
  assume *: "trimmed s"
  show ?thesis
  proof (cases "s = []")
    case False
    with * have "dropWhile isspace s = s" by (cases s) (auto simp: trimmed_def)
    moreover have "dropWhile isspace (rev s) = rev s"
      using * False by (cases "rev s") (auto simp: trimmed_def hd_rev [symmetric])
    ultimately show ?thesis by (simp add: trim_alt)
  qed (simp add: trim_def)
qed

lemma trim_idem [simp]: "trim (trim s) = trim s"
  by (simp add: trim_trimmed trimmed_trim)

lemma trim_split: "\<exists>a b. s = a @ trim s @ b \<and> (\<forall>c \<in> set a \<union> set b. isspace c)"
proof -
  define t where "t = dropWhile isspace s"
  have "rev t = takeWhile isspace (rev t) @ rev (trim s)"
    by (simp add: trim_alt t_def)
  then have "t = trim s @ rev (takeWhile isspace (rev t))"
    by (metis rev_append rev_rev_ident)
  moreover have "s = takeWhile isspace s @ t" by (simp add: t_def)
  ultimately have "s = takeWhile isspace s @ trim s @ rev (takeWhile isspace (rev t))"
    by simp
  then show ?thesis
    by (intro exI [of _ "takeWhile isspace s"] exI [of _ "rev (takeWhile isspace (rev t))"])
       (auto dest: set_takeWhileD)
qed

lemma isspace_tolower [simp]: "isspace (tolower c) = isspace c"
  by (auto simp: tolower_def isspace_def isupper_def)

lemma to_lower_idem [simp]: "to_lower (to_lower s) = to_lower s"
  by (simp add: to_lower_def comp_def)

lemma trimmed_to_lower: "trimmed s \<Longrightarrow> trimmed (to_lower s)"
  by (auto simp: trimmed_def to_lower_def hd_map last_map)


section \<open>The e-mail pattern\<close>

lemma email_char_at [simp]: "\<not> email_char (CHR ''@'')"
  by (simp add: email_char_def)

lemma email_char_dot [simp]: "email_char (CHR ''.'')"
  by (simp add: email_char_def isspace_def)

lemma mem_middle: "c \<in> set (butlast (tl d)) \<longleftrightarrow> (\<exists>a b. d = a @ c # b \<and> a \<noteq> [] \<and> b \<noteq> [])"
proof
  assume "c \<in> set (butlast (tl d))"
  then obtain u v where uv: "butlast (tl d) = u @ c # v" by (meson split_list)
  then have "tl d \<noteq> []" by auto
  then have "d = hd d # u @ c # v @ [last (tl d)]"
    using uv by (metis append.assoc append_Cons append_butlast_last_id hd_Cons_tl tl_Nil)
  then show "\<exists>a b. d = a @ c # b \<and> a \<noteq> [] \<and> b \<noteq> []"
    by (intro exI [of _ "hd d # u"] exI [of _ "v @ [last (tl d)]"]) simp
next
  assume "\<exists>a b. d = a @ c # b \<and> a \<noteq> [] \<and> b \<noteq> []"
  then obtain a b where "d = a @ c # b" "a \<noteq> []" "b \<noteq> []" by blast
  then show "c \<in> set (butlast (tl d))" by (cases a) (auto simp: butlast_append)
qed

lemma matches_kEmailPattern_iff: "matches_kEmailPattern s \<longleftrightarrow> email_language s"
proof
  assume m: "matches_kEmailPattern s"
  then obtain sep dom where d: "dropWhile (\<lambda>c. c \<noteq> CHR ''@'') s = sep # dom"
    by (auto simp: matches_kEmailPattern_def Let_def split: list.splits)
  then have "sep = CHR ''@''"
    using hd_dropWhile [of "\<lambda>c. c \<noteq> CHR ''@''" s] by simp
  moreover obtain a b where "dom = a @ CHR ''.'' # b" "a \<noteq> []" "b \<noteq> []"
    using m d by (auto simp: matches_kEmailPattern_def Let_def mem_middle)
  moreover have "s = takeWhile (\<lambda>c. c \<noteq> CHR ''@'') s @ sep # dom"
    by (metis d takeWhile_dropWhile_id)
  ultimately show "email_language s"
    using m d unfolding email_language_def
    by (intro exI [of _ "takeWhile (\<lambda>c. c \<noteq> CHR ''@'') s"] exI [of _ a] exI [of _ b])
       (auto simp: matches_kEmailPattern_def Let_def list_all_iff)
next
  assume "email_language s"
  then obtain l a b where s: "s = l @ CHR ''@'' # a @ CHR ''.'' # b"
    and ne: "l \<noteq> []" "a \<noteq> []" "b \<noteq> []" and ch: "\<forall>c \<in> set l \<union> set a \<union> set b. email_char c"
    by (auto simp: email_language_def)
  have l: "\<forall>c \<in> set l. c \<noteq> CHR ''@''" using ch email_char_at by blast
  have "takeWhile (\<lambda>c. c \<noteq> CHR ''@'') s = l"
    unfolding s using takeWhile_digits_append [OF l, of "CHR ''@'' # a @ CHR ''.'' # b"] by simp
  moreover have "dropWhile (\<lambda>c. c \<noteq> CHR ''@'') s = CHR ''@'' # a @ CHR ''.'' # b"
    unfolding s using dropWhile_digits_append [OF l, of "CHR ''@'' # a @ CHR ''.'' # b"] by simp
  moreover have "CHR ''.'' \<in> set (butlast (tl (a @ CHR ''.'' # b)))"
    using ne unfolding mem_middle by blast
  ultimately show "matches_kEmailPattern s"
    using ne ch by (simp add: matches_kEmailPattern_def list_all_iff)
qed


section \<open>What the validators accept\<close>

lemma validate_username_ok:
  "validate_username u = Inr () \<longleftrightarrow>
     3 \<le> length u \<and> length u \<le> 32 \<and> isalnum (hd u) \<and> (\<forall>c \<in> set u. is_valid_username_char c)"
  by (auto simp: validate_username_def limit_defs list_all_iff)

lemma validate_email_ok:
  "validate_email e = Inr () \<longleftrightarrow> e \<noteq> [] \<and> length e \<le> 254 \<and> email_language e"
  by (auto simp: validate_email_def limit_defs matches_kEmailPattern_iff)

lemma validate_password_ok:
  "validate_password w = Inr () \<longleftrightarrow> 8 \<le> length w \<and> length w \<le> 72"
  by (auto simp: validate_password_def limit_defs)

lemma validate_message_content_ok:
  "validate_message_content c = Inr c' \<longleftrightarrow> c' = trim c \<and> c' \<noteq> [] \<and> length c' \<le> 4000"
  by (auto simp: validate_message_content_def limit_defs Let_def)

lemma validate_message_content_error:
  "validate_message_content c = Inl e \<Longrightarrow> ex_type e = kValidation"
  by (auto simp: validate_message_content_def exception_defs Let_def split: if_splits)

lemma validate_group_name_ok:
  "validate_group_name n = Inr n' \<longleftrightarrow> n' = trim n \<and> 1 \<le> length n' \<and> length n' \<le> 128"
  by (auto simp: validate_group_name_def limit_defs Let_def Suc_le_eq)

lemma validate_group_name_error:
  "validate_group_name n = Inl e \<Longrightarrow> ex_type e = kValidation"
  by (auto simp: validate_group_name_def exception_defs Let_def split: if_splits)

lemma then_result_Inr: "then_result r f = Inr y \<longleftrightarrow> (\<exists>x. r = Inr x \<and> f x = Inr y)"
  by (cases r) auto

lemma register_ok_iff:
  "validate_and_normalize_register r = Inr r' \<longleftrightarrow>
     r' = r\<lparr>rr_username := trim (rr_username r), rr_email := to_lower (trim (rr_email r))\<rparr> \<and>
     validate_username (rr_username r') = Inr () \<and> validate_email (rr_email r') = Inr () \<and>
     validate_password (rr_password r') = Inr ()"
  by (auto simp: validate_and_normalize_register_def Let_def then_result_Inr)


section \<open>Claims\<close>

text \<open>An accepted registration is in normal form: the stored user name and e-mail are trimmed,
  the e-mail is lower case and belongs to the language of the pattern, all lengths are within the
  limits, the user name starts with a letter or digit and has only permitted characters, the
  password is untouched, and validating the result again changes nothing.\<close>

theorem register_normal_form:
  assumes "validate_and_normalize_register r = Inr r'"
  shows "trimmed (rr_username r') \<and> trimmed (rr_email r') \<and> rr_email r' = to_lower (rr_email r') \<and>
    email_language (rr_email r') \<and> length (rr_email r') \<le> 254 \<and>
    3 \<le> length (rr_username r') \<and> length (rr_username r') \<le> 32 \<and> isalnum (hd (rr_username r')) \<and>
    (\<forall>c \<in> set (rr_username r'). is_valid_username_char c) \<and>
    rr_password r' = rr_password r \<and> 8 \<le> length (rr_password r) \<and> length (rr_password r) \<le> 72 \<and>
    validate_and_normalize_register r' = Inr r'"
proof -
  have r': "r' = r\<lparr>rr_username := trim (rr_username r), rr_email := to_lower (trim (rr_email r))\<rparr>"
    and ok: "validate_username (rr_username r') = Inr ()" "validate_email (rr_email r') = Inr ()"
      "validate_password (rr_password r') = Inr ()"
    using assms unfolding register_ok_iff by blast+
  have tr: "trimmed (rr_username r')" "trimmed (rr_email r')"
    by (simp_all add: r' trimmed_trim trimmed_to_lower)
  have low: "to_lower (rr_email r') = rr_email r'" by (simp add: r')
  have "validate_and_normalize_register r' = Inr r'"
    unfolding register_ok_iff using ok tr low by (simp add: trim_trimmed)
  moreover have "rr_password r' = rr_password r" by (simp add: r')
  ultimately show ?thesis
    using tr low ok by (simp add: validate_username_ok validate_email_ok validate_password_ok)
qed

theorem register_normal_form_witness:
  "\<exists>r'. validate_and_normalize_register
          \<lparr>rr_username = '' ada '', rr_email = ''Ada@Example.com'', rr_password = ''correct-horse''\<rparr> = Inr r' \<and>
        rr_email r' = ''ada@example.com'' \<and> validate_and_normalize_register r' = Inr r'"
proof -
  let ?r = "\<lparr>rr_username = '' ada '', rr_email = ''Ada@Example.com'', rr_password = ''correct-horse''\<rparr>"
  let ?r' = "\<lparr>rr_username = ''ada'', rr_email = ''ada@example.com'', rr_password = ''correct-horse''\<rparr>"
  have ok: "validate_and_normalize_register ?r = Inr ?r'" by code_simp
  from register_normal_form [OF this] have "validate_and_normalize_register ?r' = Inr ?r'"
    by (elim conjE)
  with ok show ?thesis by (intro exI [of _ ?r']) simp
qed

end
