(* ===== verification/Schema.thy ===== *)
theory Schema
  imports World Validation
begin

text \<open>
  The constraints that the migrations put on the tables, as one invariant \<open>db_ok\<close>: primary keys
  below their sequence, unique indexes, foreign keys. Every repository operation keeps it (the
  theories of the repositories prove this), so properties of the services may use it.
\<close>


section \<open>Constraints per table\<close>

definition serial_key :: "('r \<Rightarrow> int) \<Rightarrow> 'r list \<Rightarrow> int \<Rightarrow> bool" where
  "serial_key key rows q \<longleftrightarrow> distinct (map key rows) \<and> (\<forall>r \<in> set rows. key r < q)"

definition refs :: "('r \<Rightarrow> 'k) \<Rightarrow> 'r list \<Rightarrow> 'k set \<Rightarrow> bool" where
  "refs f rows ks \<longleftrightarrow> (\<forall>r \<in> set rows. f r \<in> ks)"

definition opt_refs :: "('r \<Rightarrow> 'k option) \<Rightarrow> 'r list \<Rightarrow> 'k set \<Rightarrow> bool" where
  "opt_refs f rows ks \<longleftrightarrow> (\<forall>r \<in> set rows. \<forall>k. f r = Some k \<longrightarrow> k \<in> ks)"

definition unique :: "('r \<Rightarrow> 'k) \<Rightarrow> 'r list \<Rightarrow> bool" where
  "unique f rows \<longleftrightarrow> distinct (map f rows)"

definition opt_unique :: "('r \<Rightarrow> 'k option) \<Rightarrow> 'r list \<Rightarrow> bool" where
  "opt_unique f rows \<longleftrightarrow> distinct (filter (\<lambda>k. k \<noteq> None) (map f rows))"

definition user_ids :: "tables \<Rightarrow> int set" where
  "user_ids t = (\<lambda>r. u_id (ar_user r)) ` set (t_users t)"

definition conversation_ids :: "tables \<Rightarrow> int set" where
  "conversation_ids t = c_id ` set (t_conversations t)"

definition message_ids :: "tables \<Rightarrow> int set" where
  "message_ids t = m_id ` set (t_messages t)"

definition users_ok :: "database \<Rightarrow> bool" where
  "users_ok d \<longleftrightarrow>
     serial_key (\<lambda>r. u_id (ar_user r)) (t_users (tabs d)) (q_users (seqs d)) \<and>
     unique (\<lambda>r. to_lower (u_username (ar_user r))) (t_users (tabs d)) \<and>
     unique (\<lambda>r. to_lower (u_email (ar_user r))) (t_users (tabs d)) \<and>
     opt_refs ar_banned_by (t_users (tabs d)) (user_ids (tabs d))"

definition conversations_ok :: "database \<Rightarrow> bool" where
  "conversations_ok d \<longleftrightarrow>
     serial_key c_id (t_conversations (tabs d)) (q_conversations (seqs d)) \<and>
     opt_unique c_direct_key (t_conversations (tabs d)) \<and>
     opt_refs c_owner_id (t_conversations (tabs d)) (user_ids (tabs d))"

definition participants_ok :: "database \<Rightarrow> bool" where
  "participants_ok d \<longleftrightarrow>
     serial_key p_id (t_participants (tabs d)) (q_participants (seqs d)) \<and>
     unique (\<lambda>p. (p_conversation_id p, p_user_id p)) (t_participants (tabs d)) \<and>
     refs p_conversation_id (t_participants (tabs d)) (conversation_ids (tabs d)) \<and>
     refs p_user_id (t_participants (tabs d)) (user_ids (tabs d))"

definition messages_ok :: "database \<Rightarrow> bool" where
  "messages_ok d \<longleftrightarrow>
     serial_key m_id (t_messages (tabs d)) (q_messages (seqs d)) \<and>
     refs m_conversation_id (t_messages (tabs d)) (conversation_ids (tabs d)) \<and>
     refs m_sender_id (t_messages (tabs d)) (user_ids (tabs d))"

definition receipts_ok :: "database \<Rightarrow> bool" where
  "receipts_ok d \<longleftrightarrow>
     serial_key r_id (t_receipts (tabs d)) (q_receipts (seqs d)) \<and>
     unique (\<lambda>r. (r_message_id r, r_user_id r)) (t_receipts (tabs d)) \<and>
     refs r_message_id (t_receipts (tabs d)) (message_ids (tabs d)) \<and>
     refs r_user_id (t_receipts (tabs d)) (user_ids (tabs d))"

definition reactions_ok :: "database \<Rightarrow> bool" where
  "reactions_ok d \<longleftrightarrow>
     serial_key x_id (t_reactions (tabs d)) (q_reactions (seqs d)) \<and>
     unique (\<lambda>r. (x_message_id r, x_user_id r)) (t_reactions (tabs d)) \<and>
     refs x_message_id (t_reactions (tabs d)) (message_ids (tabs d)) \<and>
     refs x_user_id (t_reactions (tabs d)) (user_ids (tabs d))"

definition notifications_ok :: "database \<Rightarrow> bool" where
  "notifications_ok d \<longleftrightarrow>
     serial_key n_id (t_notifications (tabs d)) (q_notifications (seqs d)) \<and>
     refs n_user_id (t_notifications (tabs d)) (user_ids (tabs d))"

definition sessions_ok :: "database \<Rightarrow> bool" where
  "sessions_ok d \<longleftrightarrow>
     unique s_id (t_sessions (tabs d)) \<and> refs s_user_id (t_sessions (tabs d)) (user_ids (tabs d))"

definition attachments_ok :: "database \<Rightarrow> bool" where
  "attachments_ok d \<longleftrightarrow>
     serial_key a_id (t_attachments (tabs d)) (q_attachments (seqs d)) \<and>
     refs a_owner_id (t_attachments (tabs d)) (user_ids (tabs d)) \<and>
     opt_refs a_message_id (t_attachments (tabs d)) (message_ids (tabs d))"

definition audit_ok :: "database \<Rightarrow> bool" where
  "audit_ok d \<longleftrightarrow>
     serial_key l_id (t_audit_logs (tabs d)) (q_audit_logs (seqs d)) \<and>
     unique l_event_id (t_audit_logs (tabs d)) \<and>
     opt_refs l_actor_id (t_audit_logs (tabs d)) (user_ids (tabs d))"

definition db_ok :: "database \<Rightarrow> bool" where
  "db_ok d \<longleftrightarrow> users_ok d \<and> conversations_ok d \<and> participants_ok d \<and> messages_ok d \<and>
     receipts_ok d \<and> reactions_ok d \<and> notifications_ok d \<and> sessions_ok d \<and> attachments_ok d \<and>
     audit_ok d"

lemmas table_ok_defs = users_ok_def conversations_ok_def participants_ok_def messages_ok_def
  receipts_ok_def reactions_ok_def notifications_ok_def sessions_ok_def attachments_ok_def
  audit_ok_def

lemmas ids_defs = user_ids_def conversation_ids_def message_ids_def


section \<open>How statements keep the constraints\<close>

named_theorems row_intros "constraint preservation under the row operations"

lemma serial_key_append [row_intros]:
  "serial_key key rows q \<Longrightarrow> key r = q \<Longrightarrow> serial_key key (rows @ [r]) (q + 1)"
  by (auto simp: serial_key_def)

lemma serial_key_skip: "serial_key key rows q \<Longrightarrow> serial_key key rows (q + 1)"
  by (auto simp: serial_key_def)

lemma serial_key_mono: "serial_key key rows q \<Longrightarrow> q \<le> q' \<Longrightarrow> serial_key key rows q'"
  by (auto simp: serial_key_def)

lemma serial_key_filter [row_intros]: "serial_key key rows q \<Longrightarrow> serial_key key (filter P rows) q"
  by (auto simp: serial_key_def distinct_map_filter)

lemma serial_key_update_where [row_intros]:
  "serial_key key rows q \<Longrightarrow> (\<And>r. key (f r) = key r) \<Longrightarrow> serial_key key (update_where P f rows) q"
  by (auto simp: serial_key_def update_where_map set_update_where)

lemma unique_append [row_intros]:
  "unique f rows \<Longrightarrow> \<not> list_ex (\<lambda>r'. f r' = f r) rows \<Longrightarrow> unique f (rows @ [r])"
  by (auto simp: unique_def list_ex_iff)

lemma unique_filter [row_intros]: "unique f rows \<Longrightarrow> unique f (filter P rows)"
  by (simp add: unique_def distinct_map_filter)

lemma unique_update_where [row_intros]:
  "unique g rows \<Longrightarrow> (\<And>r. g (f r) = g r) \<Longrightarrow> unique g (update_where P f rows)"
  by (simp add: unique_def update_where_map)

lemma refs_append [row_intros]: "refs f rows ks \<Longrightarrow> f r \<in> ks \<Longrightarrow> refs f (rows @ [r]) ks"
  by (auto simp: refs_def)

lemma refs_filter [row_intros]: "refs f rows ks \<Longrightarrow> refs f (filter P rows) ks"
  by (auto simp: refs_def)

lemma refs_update_where [row_intros]:
  "refs g rows ks \<Longrightarrow> (\<And>r. g (f r) = g r) \<Longrightarrow> refs g (update_where P f rows) ks"
  by (auto simp: refs_def set_update_where)

lemma refs_mono: "refs f rows ks \<Longrightarrow> ks \<subseteq> ks' \<Longrightarrow> refs f rows ks'"
  by (auto simp: refs_def)

lemma opt_refs_append [row_intros]:
  "opt_refs f rows ks \<Longrightarrow> (\<And>k. f r = Some k \<Longrightarrow> k \<in> ks) \<Longrightarrow> opt_refs f (rows @ [r]) ks"
  by (auto simp: opt_refs_def)

lemma opt_refs_filter [row_intros]: "opt_refs f rows ks \<Longrightarrow> opt_refs f (filter P rows) ks"
  by (auto simp: opt_refs_def)

lemma opt_refs_update_where [row_intros]:
  "opt_refs g rows ks \<Longrightarrow> (\<And>r k. r \<in> set rows \<Longrightarrow> g (f r) = Some k \<Longrightarrow> g r = Some k \<or> k \<in> ks) \<Longrightarrow>
   opt_refs g (update_where P f rows) ks"
  by (fastforce simp: opt_refs_def set_update_where)

lemma opt_refs_mono: "opt_refs f rows ks \<Longrightarrow> ks \<subseteq> ks' \<Longrightarrow> opt_refs f rows ks'"
  by (auto simp: opt_refs_def)

lemma opt_unique_append_None:
  "opt_unique f rows \<Longrightarrow> f r = None \<Longrightarrow> opt_unique f (rows @ [r])"
  by (simp add: opt_unique_def)

lemma opt_unique_append:
  "opt_unique f rows \<Longrightarrow> (\<And>r'. r' \<in> set rows \<Longrightarrow> f r' \<noteq> f r) \<Longrightarrow> opt_unique f (rows @ [r])"
  by (fastforce simp: opt_unique_def)

lemma opt_unique_filter [row_intros]: "opt_unique f rows \<Longrightarrow> opt_unique f (filter P rows)"
  by (induction rows) (auto simp: opt_unique_def, metis image_eqI)

lemma opt_unique_update_where [row_intros]:
  "opt_unique g rows \<Longrightarrow> (\<And>r. g (f r) = g r) \<Longrightarrow> opt_unique g (update_where P f rows)"
  by (simp add: opt_unique_def update_where_map)

text \<open>A key with the same unique value is the same row.\<close>

lemma unique_eq: "unique f rows \<Longrightarrow> r \<in> set rows \<Longrightarrow> r' \<in> set rows \<Longrightarrow> f r = f r' \<Longrightarrow> r = r'"
  unfolding unique_def distinct_map inj_on_def by blast

lemma serial_key_eq:
  "serial_key f rows q \<Longrightarrow> r \<in> set rows \<Longrightarrow> r' \<in> set rows \<Longrightarrow> f r = f r' \<Longrightarrow> r = r'"
  unfolding serial_key_def distinct_map inj_on_def by blast

lemma opt_unique_eq:
  assumes "opt_unique f rows" "r \<in> set rows" "r' \<in> set rows" "f r = f r'" "f r \<noteq> None"
  shows "r = r'"
  using assms
proof (induction rows)
  case (Cons a rows)
  then have *: "f a \<noteq> None \<longrightarrow> f a \<notin> f ` set rows" "opt_unique f rows"
    by (auto simp: opt_unique_def split: if_splits)
  then show ?case using Cons by (metis imageI set_ConsD)
qed simp

text \<open>Looking a row up by a key that identifies it.\<close>

lemma find_key:
  assumes "unique f rows" "r \<in> set rows"
  shows "List.find (\<lambda>x. f x = f r) rows = Some r"
proof -
  have "List.find (\<lambda>x. f x = f r) rows \<noteq> None"
    using assms(2) by (auto simp: find_None_iff)
  then obtain r' where r': "List.find (\<lambda>x. f x = f r) rows = Some r'" by blast
  then have "r' \<in> set rows \<and> f r' = f r" by (auto simp: find_Some_iff in_set_conv_nth)
  then show ?thesis using r' unique_eq [OF assms(1)] assms(2) by metis
qed

lemma find_SomeD: "List.find P xs = Some x \<Longrightarrow> x \<in> set xs \<and> P x"
  by (auto simp: find_Some_iff in_set_conv_nth)

lemma find_append_new: "\<forall>x \<in> set xs. \<not> P x \<Longrightarrow> P a \<Longrightarrow> List.find P (xs @ [a]) = Some a"
  by (induction xs) auto

lemma find_append_old: "\<not> P a \<Longrightarrow> List.find P (xs @ [a]) = List.find P xs"
  by (induction xs) auto

lemma find_update_where:
  assumes "\<And>r. P (f r) = P r"
  shows "List.find P (update_where Q f xs) = map_option (\<lambda>r. if Q r then f r else r) (List.find P xs)"
  by (induction xs) (auto simp: update_where_def assms)

lemma serial_key_unique: "serial_key f rows q \<Longrightarrow> unique f rows"
  by (simp add: serial_key_def unique_def)


section \<open>Transactions and the constraints\<close>

text \<open>Sequences only grow, also in a transaction that fails; a rollback then restores \<open>db_ok\<close>.\<close>

definition seqs_grow :: "database \<Rightarrow> database \<Rightarrow> bool" where
  "seqs_grow d d' \<longleftrightarrow>
     q_users (seqs d) \<le> q_users (seqs d') \<and> q_conversations (seqs d) \<le> q_conversations (seqs d') \<and>
     q_participants (seqs d) \<le> q_participants (seqs d') \<and> q_messages (seqs d) \<le> q_messages (seqs d') \<and>
     q_receipts (seqs d) \<le> q_receipts (seqs d') \<and> q_reactions (seqs d) \<le> q_reactions (seqs d') \<and>
     q_notifications (seqs d) \<le> q_notifications (seqs d') \<and>
     q_attachments (seqs d) \<le> q_attachments (seqs d') \<and> q_audit_logs (seqs d) \<le> q_audit_logs (seqs d')"

interpretation grow_step: step_relation seqs_grow
  by unfold_locales (auto simp: seqs_grow_def)

lemma grow_update_tables [keeps_intros]: "keeps seqs_grow (update_tables f)"
  by (simp add: keeps_def seqs_grow_def)

lemma grow_nextval [keeps_intros]:
  "keeps seqs_grow (nextval q_users q_users_update)"
  "keeps seqs_grow (nextval q_conversations q_conversations_update)"
  "keeps seqs_grow (nextval q_participants q_participants_update)"
  "keeps seqs_grow (nextval q_messages q_messages_update)"
  "keeps seqs_grow (nextval q_receipts q_receipts_update)"
  "keeps seqs_grow (nextval q_reactions q_reactions_update)"
  "keeps seqs_grow (nextval q_notifications q_notifications_update)"
  "keeps seqs_grow (nextval q_attachments q_attachments_update)"
  "keeps seqs_grow (nextval q_audit_logs q_audit_logs_update)"
  by (simp_all add: keeps_def seqs_grow_def)

lemma grow_check_varchar [keeps_intros]: "keeps seqs_grow (check_varchar n v)"
  by (simp add: check_varchar_def grow_step.keeps_require)

lemmas grow_rules = grow_step.keeps_rules grow_step.keeps_catch grow_update_tables grow_nextval
  grow_check_varchar

lemma db_ok_rollback: "db_ok d \<Longrightarrow> seqs_grow d d' \<Longrightarrow> db_ok (rollback d d')"
  by (auto simp: db_ok_def table_ok_defs seqs_grow_def rollback_def intro: serial_key_mono)

lemma with_transaction_db_ok:
  assumes "keeps seqs_grow fn"
    and "\<And>d x d'. db_ok d \<Longrightarrow> fn d = (Inr x, d') \<Longrightarrow> db_ok d'"
  shows "keeps (inv_rel (\<lambda>w. db_ok (db w))) (with_transaction fn)"
  using assms by (intro with_transaction_keeps) (auto intro: db_ok_rollback keepsD)

lemma with_transaction_gets [keeps_intros]:
  "keeps (inv_rel (\<lambda>w. I (db w))) (with_transaction (gets f))"
  by (rule with_transaction_keeps) auto

text \<open>What happens outside the database cannot break an invariant of the database.\<close>

lemma db_frame [keeps_intros]:
  "keeps (inv_rel (\<lambda>w. I (db w))) (broadcast ids ty data)"
  "keeps (inv_rel (\<lambda>w. I (db w))) (generate_hex_token n)"
  "keeps (inv_rel (\<lambda>w. I (db w))) (publish seed)"
  "keeps (inv_rel (\<lambda>w. I (db w))) (submit_push task)"
  "keeps (inv_rel (\<lambda>w. I (db w))) (submit job)"
  "keeps (inv_rel (\<lambda>w. I (db w))) (observe name v)"
  "keeps (inv_rel (\<lambda>w. I (db w))) (increment name)"
  by (auto simp: keeps_def inv_rel_def broadcast_def generate_hex_token_def publish_def
      DomainEvent_make_def submit_push_def increment_def act_simps split: prod.splits)

end
