(* ===== verification/Dto.thy ===== *)
theory Dto
  imports Models Validation
begin

text \<open>
  Requests and responses (\<^verbatim>\<open>include/rtc/dto\<close>, \<^verbatim>\<open>src/dto\<close>): shape checks of JSON bodies and query
  strings on the way in, projections of the entities to JSON on the way out. The JSON text
  parser is third-party, so a body arrives here already as a \<open>json\<close> value; a query string
  arrives as Crow's lookup function from parameter names.
\<close>

type_synonym query = "string \<Rightarrow> string option"


section \<open>Reading fields\<close>

text \<open>\<^verbatim>\<open>get<std::int64_t>()\<close> on a JSON integer: an unsigned value above the range wraps.\<close>

definition get_int64 :: "int \<Rightarrow> int" where
  "get_int64 i = (if int64_max < i then i - 2 ^ 64 else i)"

definition require_string :: "json \<Rightarrow> string \<Rightarrow> string result" where
  "require_string body field =
     (case jfind body field of
        None \<Rightarrow> Inl (ValidationException (''Missing required field: '' @ field) (''field='' @ field))
      | Some JNull \<Rightarrow> Inl (ValidationException (''Missing required field: '' @ field) (''field='' @ field))
      | Some (JStr s) \<Rightarrow> Inr s
      | Some _ \<Rightarrow> Inl (ValidationException (''Field must be a string: '' @ field) (''field='' @ field)))"

definition require_int :: "json \<Rightarrow> string \<Rightarrow> int result" where
  "require_int body field =
     (case jfind body field of
        Some (JInt i) \<Rightarrow> Inr (get_int64 i)
      | _ \<Rightarrow> Inl (ValidationException (''Field must be an integer: '' @ field) (''field='' @ field)))"

definition not_an_object :: "app_exception" where
  "not_an_object = ValidationException ''Request body must be a JSON object'' []"

fun json_ints :: "app_exception \<Rightarrow> json list \<Rightarrow> int list result" where
  "json_ints e [] = Inr []"
| "json_ints e (JInt i # rest) = then_result (json_ints e rest) (\<lambda>is. Inr (get_int64 i # is))"
| "json_ints e (_ # rest) = Inl e"

definition parse_int_param :: "query \<Rightarrow> string \<Rightarrow> int option result" where
  "parse_int_param q name =
     (case q name of
        None \<Rightarrow> Inr None
      | Some raw \<Rightarrow>
          (case from_chars_int64 raw of
             Some (v, []) \<Rightarrow> Inr (Some v)
           | _ \<Rightarrow> Inl (ValidationException ''Invalid integer query parameter'' (''param='' @ name))))"


section \<open>Pagination\<close>

record pagination =
  pg_limit :: int
  pg_offset :: int
  pg_before_id :: "int option"
  pg_after_id :: "int option"

definition kDefaultLimit :: int where "kDefaultLimit = 50"
definition kMaxLimit :: int where "kMaxLimit = 100"

definition default_page :: pagination where
  "default_page = \<lparr>pg_limit = kDefaultLimit, pg_offset = 0, pg_before_id = None, pg_after_id = None\<rparr>"

definition Pagination_from_request :: "query \<Rightarrow> pagination result" where
  "Pagination_from_request req =
     then_result (parse_int_param req ''limit'') (\<lambda>limit.
     then_result (case limit of
         None \<Rightarrow> Inr default_page
       | Some l \<Rightarrow> if l < 1 then Inl (ValidationException ''limit must be >= 1'' ''param=limit'')
                   else Inr (default_page\<lparr>pg_limit := min l kMaxLimit\<rparr>)) (\<lambda>page.
     then_result (parse_int_param req ''offset'') (\<lambda>offset.
     then_result (case offset of
         None \<Rightarrow> Inr page
       | Some off \<Rightarrow> if off < 0 then Inl (ValidationException ''offset must be >= 0'' ''param=offset'')
                   else Inr (page\<lparr>pg_offset := off\<rparr>)) (\<lambda>page.
     then_result (parse_int_param req ''before'') (\<lambda>before.
     then_result (parse_int_param req ''after'') (\<lambda>after.
     Inr (page\<lparr>pg_before_id := before, pg_after_id := after\<rparr>)))))))"

definition uses_cursor :: "pagination \<Rightarrow> bool" where
  "uses_cursor p \<longleftrightarrow> pg_before_id p \<noteq> None \<or> pg_after_id p \<noteq> None"


section \<open>Authentication and profile requests\<close>

definition RegisterRequest_from_json :: "json \<Rightarrow> register_request result" where
  "RegisterRequest_from_json body =
     (if \<not> is_object body then Inl not_an_object
      else then_result (require_string body ''username'') (\<lambda>u.
           then_result (require_string body ''email'') (\<lambda>e.
           then_result (require_string body ''password'') (\<lambda>p.
           Inr \<lparr>rr_username = u, rr_email = e, rr_password = p\<rparr>))))"

definition contains :: "json \<Rightarrow> string \<Rightarrow> bool" where
  "contains body k \<longleftrightarrow> jfind body k \<noteq> None"

definition LoginRequest_from_json :: "json \<Rightarrow> login_request result" where
  "LoginRequest_from_json body =
     (if \<not> is_object body then Inl not_an_object
      else then_result
             (if contains body ''identifier'' then require_string body ''identifier''
              else if contains body ''username'' then require_string body ''username''
              else if contains body ''email'' then require_string body ''email''
              else Inl (ValidationException ''Missing login identifier'' ''field=identifier|username|email''))
             (\<lambda>i. then_result (require_string body ''password'') (\<lambda>p.
                Inr \<lparr>lr_identifier = i, lr_password = p\<rparr>)))"

definition read_field :: "json \<Rightarrow> string \<Rightarrow> (bool \<times> string option) result" where
  "read_field body field =
     (case jfind body field of
        None \<Rightarrow> Inr (False, None)
      | Some JNull \<Rightarrow> Inr (True, None)
      | Some (JStr s) \<Rightarrow> Inr (True, Some s)
      | Some _ \<Rightarrow> Inl (ValidationException (''Field must be a string or null: '' @ field) (''field='' @ field)))"

definition UpdateProfileRequest_from_json :: "json \<Rightarrow> update_profile_request result" where
  "UpdateProfileRequest_from_json body =
     (if \<not> is_object body then Inl not_an_object
      else then_result (read_field body ''display_name'') (\<lambda>d.
           then_result (read_field body ''bio'') (\<lambda>b.
           then_result (read_field body ''avatar_url'') (\<lambda>a.
           Inr \<lparr>up_display_name_set = fst d, up_display_name = snd d, up_bio_set = fst b,
                up_bio = snd b, up_avatar_url_set = fst a, up_avatar_url = snd a\<rparr>))))"


section \<open>Conversation and message requests\<close>

record create_conversation_request =
  cr_type :: conversation_type
  cr_name :: "string option"
  cr_participant_ids :: "int list"

definition CreateConversationRequest_from_json :: "json \<Rightarrow> create_conversation_request result" where
  "CreateConversationRequest_from_json body =
     (if \<not> is_object body then Inl not_an_object
      else then_result (require_string body ''type'') (\<lambda>type_str.
        case conversation_type_from_string type_str of
          None \<Rightarrow> Inl (ValidationException
                    (''type must be '' @ [char_of (39::nat)] @ ''direct'' @ [char_of (39::nat)] @ '' or '' @
                     [char_of (39::nat)] @ ''group'' @ [char_of (39::nat)]) ''field=type'')
        | Some ty \<Rightarrow>
            then_result (case jfind body ''name'' of
                None \<Rightarrow> Inr None
              | Some JNull \<Rightarrow> Inr None
              | Some (JStr s) \<Rightarrow> Inr (Some s)
              | Some _ \<Rightarrow> Inl (ValidationException ''name must be a string'' ''field=name'')) (\<lambda>name.
            then_result (case jfind body ''participant_ids'' of
                Some (JArr entries) \<Rightarrow>
                  json_ints (ValidationException ''participant_ids must contain integers''
                               ''field=participant_ids'') entries
              | _ \<Rightarrow> Inl (ValidationException ''participant_ids must be an array of user ids''
                           ''field=participant_ids'')) (\<lambda>ids.
            Inr \<lparr>cr_type = ty, cr_name = name, cr_participant_ids = ids\<rparr>))))"

definition RenameGroupRequest_from_json :: "json \<Rightarrow> string result" where
  "RenameGroupRequest_from_json body =
     (if \<not> is_object body then Inl not_an_object else require_string body ''name'')"

definition AddMemberRequest_from_json :: "json \<Rightarrow> int result" where
  "AddMemberRequest_from_json body =
     (if \<not> is_object body then Inl not_an_object
      else case jfind body ''user_id'' of
             Some (JInt i) \<Rightarrow> Inr (get_int64 i)
           | _ \<Rightarrow> Inl (ValidationException ''user_id must be an integer'' ''field=user_id''))"

record send_message_request =
  sm_conversation_id :: int
  sm_content :: string
  sm_type :: message_type
  sm_attachment_ids :: "int list"

definition SendMessageRequest_from_json :: "json \<Rightarrow> send_message_request result" where
  "SendMessageRequest_from_json body =
     (if \<not> is_object body then Inl not_an_object
      else
        then_result (require_int body ''conversation_id'') (\<lambda>cid.
        then_result (require_string body ''content'') (\<lambda>content.
        then_result (case jfind body ''type'' of
            None \<Rightarrow> Inr kText
          | Some JNull \<Rightarrow> Inr kText
          | Some (JStr s) \<Rightarrow>
              (case message_type_from_string s of
                 None \<Rightarrow> Inl (ValidationException
                           (''type must be '' @ [char_of (39::nat)] @ ''text'' @ [char_of (39::nat)] @ '' or '' @
                            [char_of (39::nat)] @ ''system'' @ [char_of (39::nat)]) ''field=type'')
               | Some ty \<Rightarrow> Inr ty)
          | Some _ \<Rightarrow> Inl (ValidationException ''type must be a string'' ''field=type'')) (\<lambda>ty.
        then_result (case jfind body ''attachment_ids'' of
            None \<Rightarrow> Inr []
          | Some JNull \<Rightarrow> Inr []
          | Some (JArr entries) \<Rightarrow>
              json_ints (ValidationException ''attachment_ids must contain integers''
                           ''field=attachment_ids'') entries
          | Some _ \<Rightarrow> Inl (ValidationException ''attachment_ids must be an array of ids''
                            ''field=attachment_ids'')) (\<lambda>ids.
        Inr \<lparr>sm_conversation_id = cid, sm_content = content, sm_type = ty, sm_attachment_ids = ids\<rparr>)))))"

definition UpdateMessageRequest_from_json :: "json \<Rightarrow> string result" where
  "UpdateMessageRequest_from_json body =
     (if \<not> is_object body then Inl not_an_object else require_string body ''content'')"

record message_query =
  mq_conversation_id :: int
  mq_sender_id :: "int option"
  mq_keyword :: "string option"

definition MessageQuery_from_request :: "query \<Rightarrow> message_query result" where
  "MessageQuery_from_request req =
     then_result (parse_int_param req ''conversation_id'') (\<lambda>cid.
       case cid of
         None \<Rightarrow> Inl (ValidationException ''conversation_id query parameter is required''
                   ''param=conversation_id'')
       | Some c \<Rightarrow> then_result (parse_int_param req ''sender_id'') (\<lambda>sid.
           Inr \<lparr>mq_conversation_id = c, mq_sender_id = sid, mq_keyword = req ''q''\<rparr>))"

definition ReactionRequest_from_json :: "json \<Rightarrow> string result" where
  "ReactionRequest_from_json body =
     (if \<not> is_object body then Inl not_an_object
      else case jfind body ''emoji'' of
             Some (JStr s) \<Rightarrow> Inr s
           | _ \<Rightarrow> Inl (ValidationException ''emoji must be a string'' ''field=emoji''))"


section \<open>Responses\<close>

definition UserResponse_to_public_json :: "user \<Rightarrow> json" where
  "UserResponse_to_public_json u =
     JObj [(''id'', JInt (u_id u)), (''username'', JStr (u_username u)),
           (''display_name'', opt_json JStr (u_display_name u)),
           (''bio'', opt_json JStr (u_bio u)), (''avatar_url'', opt_json JStr (u_avatar_url u)),
           (''created_at'', JStr (to_iso8601 (u_created_at u))),
           (''updated_at'', JStr (to_iso8601 (u_updated_at u)))]"

definition UserResponse_to_json :: "user \<Rightarrow> json" where
  "UserResponse_to_json u =
     (case UserResponse_to_public_json u of
        JObj kvs \<Rightarrow> JObj (kvs @ [(''email'', JStr (u_email u))])
      | j \<Rightarrow> j)"

definition ParticipantResponse_to_json :: "participant \<Rightarrow> json" where
  "ParticipantResponse_to_json p =
     JObj [(''user_id'', JInt (p_user_id p)),
           (''role'', JStr (participant_role_to_string (p_role p))),
           (''joined_at'', JStr (to_iso8601 (p_joined_at p)))]"

definition ConversationResponse_to_json :: "conversation \<Rightarrow> participant list \<Rightarrow> json" where
  "ConversationResponse_to_json c ps =
     JObj [(''id'', JInt (c_id c)), (''type'', JStr (conversation_type_to_string (c_type c))),
           (''name'', opt_json JStr (c_name c)), (''owner_id'', opt_json JInt (c_owner_id c)),
           (''created_at'', JStr (to_iso8601 (c_created_at c))),
           (''updated_at'', JStr (to_iso8601 (c_updated_at c))),
           (''last_message_at'', opt_json (JStr \<circ> to_iso8601) (c_last_message_at c)),
           (''participants'', JArr (map ParticipantResponse_to_json ps))]"

definition MessageResponse_content :: "message \<Rightarrow> string" where
  "MessageResponse_content m = (if is_deleted m then [] else m_content m)"

definition MessageResponse_to_json :: "message \<Rightarrow> int list \<Rightarrow> json" where
  "MessageResponse_to_json m attachment_ids =
     JObj [(''id'', JInt (m_id m)), (''conversation_id'', JInt (m_conversation_id m)),
           (''sender_id'', JInt (m_sender_id m)),
           (''type'', JStr (message_type_to_string (m_type m))),
           (''content'', JStr (MessageResponse_content m)),
           (''deleted'', JBool (is_deleted m)), (''edited'', JBool (is_edited m)),
           (''created_at'', JStr (to_iso8601 (m_created_at m))),
           (''updated_at'', JStr (to_iso8601 (m_updated_at m))),
           (''edited_at'', opt_json (JStr \<circ> to_iso8601) (m_edited_at m)),
           (''attachment_ids'', jids attachment_ids)]"

definition ReceiptResponse_to_json :: "read_receipt \<Rightarrow> json" where
  "ReceiptResponse_to_json r =
     JObj [(''message_id'', JInt (r_message_id r)), (''user_id'', JInt (r_user_id r)),
           (''state'', JStr (receipt_state_to_string (r_state r))),
           (''updated_at'', JStr (to_iso8601 (r_updated_at r)))]"

definition ReactionResponse_to_json :: "reaction \<Rightarrow> json" where
  "ReactionResponse_to_json x =
     JObj [(''message_id'', JInt (x_message_id x)), (''user_id'', JInt (x_user_id x)),
           (''emoji'', JStr (x_emoji x))]"

definition NotificationResponse_to_json :: "notification \<Rightarrow> json" where
  "NotificationResponse_to_json n =
     JObj [(''id'', JInt (n_id n)), (''type'', JStr (notification_type_to_string (n_type n))),
           (''payload'', n_payload n), (''read'', JBool (is_read n)),
           (''created_at'', JStr (to_iso8601 (n_created_at n)))]"

definition SessionResponse_to_json :: "session \<Rightarrow> string \<Rightarrow> json" where
  "SessionResponse_to_json s current_id =
     JObj [(''id'', JStr (s_id s)), (''user_agent'', opt_json JStr (s_user_agent s)),
           (''ip'', opt_json JStr (s_ip s)),
           (''created_at'', JStr (to_iso8601 (s_created_at s))),
           (''last_used_at'', JStr (to_iso8601 (s_last_used_at s))),
           (''current'', JBool (s_id s = current_id))]"

definition AttachmentResponse_to_json :: "attachment \<Rightarrow> string \<Rightarrow> json" where
  "AttachmentResponse_to_json a base_url =
     JObj [(''id'', JInt (a_id a)), (''message_id'', opt_json JInt (a_message_id a)),
           (''filename'', JStr (a_original_filename a)),
           (''content_type'', JStr (a_content_type a)),
           (''kind'', JStr (attachment_kind_to_string (a_kind a))),
           (''byte_size'', JInt (a_byte_size a)), (''width'', opt_json JInt (a_width a)),
           (''height'', opt_json JInt (a_height a)),
           (''url'', JStr (base_url @ ''/'' @ to_string (a_id a))),
           (''thumbnail_url'',
            (case a_thumbnail_key a of None \<Rightarrow> JNull
             | Some _ \<Rightarrow> JStr (base_url @ ''/'' @ to_string (a_id a) @ ''/thumbnail''))),
           (''created_at'', JStr (to_iso8601 (a_created_at a)))]"

end
