(* ===== verification/Users.thy ===== *)
theory Users
  imports Schema Dto
begin

text \<open>
  User persistence: \<^verbatim>\<open>PgUserRepository\<close> and \<^verbatim>\<open>PgUserAdminRepository\<close>. \<^verbatim>\<open>LOWER\<close> is the C-locale lower
  case. The uniqueness of names and addresses comes from the two unique indexes of migration
  0001, which every insertion checks.
\<close>


section \<open>Users\<close>

record new_user =
  nu_username :: string
  nu_email :: string
  nu_password_hash :: string

definition same_username :: "string \<Rightarrow> admin_user_record \<Rightarrow> bool" where
  "same_username name r \<longleftrightarrow> to_lower (u_username (ar_user r)) = to_lower name"

definition same_email :: "string \<Rightarrow> admin_user_record \<Rightarrow> bool" where
  "same_email email r \<longleftrightarrow> to_lower (u_email (ar_user r)) = to_lower email"

definition user_exists :: "int \<Rightarrow> tables \<Rightarrow> bool" where
  "user_exists i t \<longleftrightarrow> list_ex (\<lambda>r. u_id (ar_user r) = i) (t_users t)"

definition insert_user :: "new_user \<Rightarrow> user db_act" where
  "insert_user input =
     seq (nextval q_users q_users_update) (\<lambda>i.
     seq (gets (\<lambda>d. (tabs d, now d))) (\<lambda>(t, ts).
     if list_ex (same_username (nu_username input)) (t_users t)
     then throw (DbSql (UniqueViolation ''ux_users_username_lower'' (to_lower (nu_username input))))
     else if list_ex (same_email (nu_email input)) (t_users t)
     then throw (DbSql (UniqueViolation ''ux_users_email_lower'' (to_lower (nu_email input))))
     else
       let u = \<lparr>u_id = i, u_username = nu_username input, u_email = nu_email input,
                u_password_hash = nu_password_hash input, u_display_name = None, u_bio = None,
                u_avatar_url = None, u_created_at = ts, u_updated_at = ts\<rparr>;
           r = \<lparr>ar_user = u, ar_role = kDefaultRole, ar_banned_at = None, ar_ban_reason = None,
                ar_banned_by = None\<rparr>
       in seq (update_tables (t_users_update (\<lambda>rows. rows @ [r]))) (\<lambda>_. ret u)))"

definition PgUserRepository_create :: "new_user \<Rightarrow> user act" where
  "PgUserRepository_create input =
     with_transaction (catch (insert_user input) (\<lambda>e.
       case e of
         DbSql (UniqueViolation idx key) \<Rightarrow>
           seq (gets (\<lambda>d. sql_what d (UniqueViolation idx key))) (\<lambda>what.
             if str_contains ''email'' what
             then throw (DbApp (ConflictException ''Email is already registered'' ''field=email''))
             else throw (DbApp (ConflictException ''Username is already taken'' ''field=username'')))
       | _ \<Rightarrow> throw e))"

text \<open>The \<^verbatim>\<open>SELECT\<close>s of the repository: the first row that satisfies the condition.\<close>

definition find_user :: "(admin_user_record \<Rightarrow> bool) \<Rightarrow> tables \<Rightarrow> user option" where
  "find_user P t = map_option ar_user (List.find P (t_users t))"

definition PgUserRepository_find_by_id :: "int \<Rightarrow> user option act" where
  "PgUserRepository_find_by_id i =
     with_transaction (gets (\<lambda>d. find_user (\<lambda>r. u_id (ar_user r) = i) (tabs d)))"

definition PgUserRepository_find_by_username :: "string \<Rightarrow> user option act" where
  "PgUserRepository_find_by_username name =
     with_transaction (gets (\<lambda>d. find_user (same_username name) (tabs d)))"

definition PgUserRepository_find_by_email :: "string \<Rightarrow> user option act" where
  "PgUserRepository_find_by_email email =
     with_transaction (gets (\<lambda>d. find_user (same_email email) (tabs d)))"

definition PgUserRepository_find_by_identifier :: "string \<Rightarrow> user option act" where
  "PgUserRepository_find_by_identifier ident =
     with_transaction (gets (\<lambda>d. find_user (\<lambda>r. same_username ident r \<or> same_email ident r) (tabs d)))"

definition PgUserRepository_exists_by_username :: "string \<Rightarrow> bool act" where
  "PgUserRepository_exists_by_username name =
     with_transaction (gets (\<lambda>d. list_ex (same_username name) (t_users (tabs d))))"

definition PgUserRepository_exists_by_email :: "string \<Rightarrow> bool act" where
  "PgUserRepository_exists_by_email email =
     with_transaction (gets (\<lambda>d. list_ex (same_email email) (t_users (tabs d))))"

definition apply_profile :: "time_point \<Rightarrow> update_profile_request \<Rightarrow> user \<Rightarrow> user" where
  "apply_profile ts p u =
     u\<lparr>u_display_name := (if up_display_name_set p then up_display_name p else u_display_name u),
       u_bio := (if up_bio_set p then up_bio p else u_bio u),
       u_avatar_url := (if up_avatar_url_set p then up_avatar_url p else u_avatar_url u),
       u_updated_at := ts\<rparr>"

definition PgUserRepository_update_profile :: "int \<Rightarrow> update_profile_request \<Rightarrow> user act" where
  "PgUserRepository_update_profile i p =
     with_transaction (
       if \<not> up_display_name_set p \<and> \<not> up_bio_set p \<and> \<not> up_avatar_url_set p
       then seq (gets (\<lambda>d. find_user (\<lambda>r. u_id (ar_user r) = i) (tabs d))) (\<lambda>u.
              case u of None \<Rightarrow> throw (DbApp (NotFoundException ''User not found'' []))
              | Some u \<Rightarrow> ret u)
       else seq (gets (\<lambda>d. (find_user (\<lambda>r. u_id (ar_user r) = i) (tabs d), now d))) (\<lambda>(u, ts).
              case u of None \<Rightarrow> throw (DbApp (NotFoundException ''User not found'' []))
              | Some u \<Rightarrow>
                  seq (update_tables (t_users_update (update_where (\<lambda>r. u_id (ar_user r) = i)
                         (\<lambda>r. r\<lparr>ar_user := apply_profile ts p (ar_user r)\<rparr>)))) (\<lambda>_.
                  ret (apply_profile ts p u))))"


section \<open>Administration\<close>

definition find_record :: "int \<Rightarrow> tables \<Rightarrow> admin_user_record option" where
  "find_record i t = List.find (\<lambda>r. u_id (ar_user r) = i) (t_users t)"

definition PgUserAdminRepository_find_role :: "int \<Rightarrow> role option act" where
  "PgUserAdminRepository_find_role i =
     with_transaction (gets (\<lambda>d. map_option ar_role (find_record i (tabs d))))"

definition PgUserAdminRepository_is_banned :: "int \<Rightarrow> bool option act" where
  "PgUserAdminRepository_is_banned i =
     with_transaction (gets (\<lambda>d. map_option ar_is_banned (find_record i (tabs d))))"

definition PgUserAdminRepository_find :: "int \<Rightarrow> admin_user_record option act" where
  "PgUserAdminRepository_find i = with_transaction (gets (\<lambda>d. find_record i (tabs d)))"

record admin_user_filter =
  af_query :: "string option"
  af_role :: "role option"
  af_banned :: "bool option"

definition like_pattern :: "string option \<Rightarrow> string option" where
  "like_pattern query =
     (case query of None \<Rightarrow> None | Some s \<Rightarrow> if s = [] then None else Some (''%'' @ s @ ''%''))"

text \<open>\<^verbatim>\<open>ILIKE\<close>: percent matches any text, underscore any character, backslash escapes.\<close>

fun ilike :: "string \<Rightarrow> string \<Rightarrow> bool" where
  "ilike [] s \<longleftrightarrow> s = []"
| "ilike (p # ps) [] \<longleftrightarrow> p = CHR ''%'' \<and> ilike ps []"
| "ilike (p # ps) (c # cs) \<longleftrightarrow>
     (if p = CHR ''%'' then ilike ps (c # cs) \<or> ilike (p # ps) cs
      else if p = CHR ''_'' then ilike ps cs
      else if p = char_of (92::nat) then
        (case ps of [] \<Rightarrow> False | q # qs \<Rightarrow> tolower q = tolower c \<and> ilike qs cs)
      else tolower p = tolower c \<and> ilike ps cs)"

definition matches_filter :: "admin_user_filter \<Rightarrow> admin_user_record \<Rightarrow> bool" where
  "matches_filter f r \<longleftrightarrow>
     (case like_pattern (af_query f) of None \<Rightarrow> True
      | Some p \<Rightarrow> ilike p (u_username (ar_user r)) \<or> ilike p (u_email (ar_user r)) \<or>
          ilike p (case u_display_name (ar_user r) of None \<Rightarrow> [] | Some s \<Rightarrow> s)) \<and>
     (case af_role f of None \<Rightarrow> True | Some ro \<Rightarrow> ar_role r = ro) \<and>
     (case af_banned f of None \<Rightarrow> True | Some b \<Rightarrow> ar_is_banned r = b)"

definition PgUserAdminRepository_list ::
    "admin_user_filter \<Rightarrow> pagination \<Rightarrow> admin_user_record list act" where
  "PgUserAdminRepository_list f page =
     with_transaction (gets (\<lambda>d. limit_offset (pg_limit page) (pg_offset page)
       (rev (sort_key (\<lambda>r. u_id (ar_user r)) (filter (matches_filter f) (t_users (tabs d)))))))"

definition PgUserAdminRepository_count :: "admin_user_filter \<Rightarrow> int act" where
  "PgUserAdminRepository_count f =
     with_transaction (gets (\<lambda>d. int (length (filter (matches_filter f) (t_users (tabs d))))))"

definition user_id_details :: "int \<Rightarrow> string" where
  "user_id_details i = ''user_id='' @ to_string i"

definition PgUserAdminRepository_set_role :: "int \<Rightarrow> role \<Rightarrow> role act" where
  "PgUserAdminRepository_set_role i ro =
     with_transaction (seq (gets (\<lambda>d. (find_record i (tabs d), now d))) (\<lambda>(rec, ts).
       case rec of
         None \<Rightarrow> throw (DbApp (NotFoundException ''User not found'' (user_id_details i)))
       | Some previous \<Rightarrow>
           seq (update_tables (t_users_update (update_where (\<lambda>r. u_id (ar_user r) = i)
                 (\<lambda>r. r\<lparr>ar_role := ro, ar_user := (ar_user r)\<lparr>u_updated_at := ts\<rparr>\<rparr>)))) (\<lambda>_.
           ret (ar_role previous))))"

definition PgUserAdminRepository_set_banned ::
    "int \<Rightarrow> bool \<Rightarrow> string option \<Rightarrow> int option \<Rightarrow> unit act" where
  "PgUserAdminRepository_set_banned i banned reason actor_id =
     with_transaction (seq (gets (\<lambda>d. (tabs d, now d))) (\<lambda>(t, ts).
       if find_record i t = None
       then throw (DbApp (NotFoundException ''User not found'' (user_id_details i)))
       else
         seq (if banned then check_varchar 255 reason else ret ()) (\<lambda>_.
         seq (require (\<not> banned \<or> (case actor_id of None \<Rightarrow> True | Some a \<Rightarrow> user_exists a t))
                (DbSql (ForeignKeyViolation ''fk_users_banned_by''))) (\<lambda>_.
         update_tables (t_users_update (update_where (\<lambda>r. u_id (ar_user r) = i)
           (\<lambda>r. r\<lparr>ar_banned_at := (if banned then Some ts else None),
                  ar_ban_reason := (if banned then reason else None),
                  ar_banned_by := (if banned then actor_id else None),
                  ar_user := (ar_user r)\<lparr>u_updated_at := ts\<rparr>\<rparr>)))))))"

definition PgUserAdminRepository_counts_by_role :: "(role \<times> int) list act" where
  "PgUserAdminRepository_counts_by_role =
     with_transaction (gets (\<lambda>d.
       filter (\<lambda>(_, n). 0 < n)
         (map (\<lambda>ro. (ro, int (length (filter (\<lambda>r. ar_role r = ro) (t_users (tabs d))))))
           [kAdmin, kModerator, kSuperAdmin, kUser])))"


section \<open>The constraints are kept\<close>

lemma grow_insert_user [keeps_intros]: "keeps seqs_grow (insert_user input)"
  unfolding insert_user_def by (intro grow_rules)

lemma insert_user_ok:
  assumes "insert_user input d = (Inr u, d')"
  shows "\<not> list_ex (same_username (nu_username input)) (t_users (tabs d)) \<and>
    \<not> list_ex (same_email (nu_email input)) (t_users (tabs d)) \<and>
    u_id u = q_users (seqs d) \<and> u_username u = nu_username input \<and> u_email u = nu_email input \<and>
    u_password_hash u = nu_password_hash input \<and>
    d' = d\<lparr>seqs := q_users_update (\<lambda>i. i + 1) (seqs d),
           tabs := t_users_update (\<lambda>us. us @ [\<lparr>ar_user = u, ar_role = kUser, ar_banned_at = None,
             ar_ban_reason = None, ar_banned_by = None\<rparr>]) (tabs d)\<rparr>"
  using assms by (auto simp: insert_user_def act_simps Let_def kDefaultRole_def split: if_splits)

lemma insert_user_db_ok:
  assumes "db_ok d" "insert_user input d = (Inr u, d')"
  shows "db_ok d'"
proof -
  note * = insert_user_ok [OF assms(2)]
  have "user_ids (tabs d) \<subseteq> user_ids (tabs d')" using * by (auto simp: user_ids_def)
  moreover have "conversation_ids (tabs d') = conversation_ids (tabs d)"
    "message_ids (tabs d') = message_ids (tabs d)" using * by (auto simp: ids_defs)
  moreover have "users_ok d'"
    using * assms(1)
    by (auto simp: db_ok_def users_ok_def same_username_def [abs_def] same_email_def [abs_def] user_ids_def
        intro!: row_intros elim: opt_refs_mono)
  ultimately show ?thesis
    using assms(1) *
    by (auto simp: db_ok_def table_ok_defs intro: refs_mono opt_refs_mono)
qed

lemma PgUserRepository_create_db_ok [keeps_intros]:
  "keeps (inv_rel (\<lambda>w. db_ok (db w))) (PgUserRepository_create input)"
  unfolding PgUserRepository_create_def
proof (rule with_transaction_db_ok)
  fix d u d'
  assume "db_ok d" and "catch (insert_user input) (\<lambda>e.
       case e of
         DbSql (UniqueViolation idx key) \<Rightarrow>
           seq (gets (\<lambda>d. sql_what d (UniqueViolation idx key))) (\<lambda>what.
             if str_contains ''email'' what
             then throw (DbApp (ConflictException ''Email is already registered'' ''field=email''))
             else throw (DbApp (ConflictException ''Username is already taken'' ''field=username'')))
       | _ \<Rightarrow> throw e) d = (Inr u, d')"
  then show "db_ok d'"
    by (auto simp: catch_apply seq_apply split: sum.splits prod.splits db_thrown.splits
        sql_error.splits if_splits intro: insert_user_db_ok)
qed (intro grow_rules grow_insert_user, auto split: db_thrown.splits sql_error.splits intro!: grow_rules)

text \<open>An update that changes neither identity, name, address nor adds a dangling reference.\<close>

lemma update_users_db_ok:
  assumes "db_ok d"
    and "\<And>r. u_id (ar_user (f r)) = u_id (ar_user r)"
    and "\<And>r. u_username (ar_user (f r)) = u_username (ar_user r)"
    and "\<And>r. u_email (ar_user (f r)) = u_email (ar_user r)"
    and "\<And>r k. ar_banned_by (f r) = Some k \<Longrightarrow> ar_banned_by r = Some k \<or> k \<in> user_ids (tabs d)"
  shows "db_ok (d\<lparr>tabs := t_users_update (update_where P f) (tabs d)\<rparr>)"
proof -
  let ?us = "t_users (tabs d)"
  have ids: "(\<lambda>r. u_id (ar_user r)) ` set (update_where P f ?us) = (\<lambda>r. u_id (ar_user r)) ` set ?us"
    using assms(2) by (rule image_update_where)
  have "opt_refs ar_banned_by (update_where P f ?us) (user_ids (tabs d))"
    by (rule opt_refs_update_where)
       (use assms(1,5) in \<open>auto simp: db_ok_def users_ok_def\<close>)
  with ids assms(1-4) show ?thesis
    by (auto simp: db_ok_def table_ok_defs ids_defs intro: row_intros)
qed

lemma PgUserRepository_update_profile_db_ok [keeps_intros]:
  "keeps (inv_rel (\<lambda>w. db_ok (db w))) (PgUserRepository_update_profile i p)"
  unfolding PgUserRepository_update_profile_def
  by (rule with_transaction_db_ok)
     (auto simp: act_simps apply_profile_def split: if_splits option.splits
        intro!: grow_rules update_users_db_ok)

lemma PgUserAdminRepository_set_role_db_ok [keeps_intros]:
  "keeps (inv_rel (\<lambda>w. db_ok (db w))) (PgUserAdminRepository_set_role i ro)"
  unfolding PgUserAdminRepository_set_role_def
  by (rule with_transaction_db_ok)
     (auto simp: act_simps split: option.splits intro!: grow_rules update_users_db_ok)

lemma user_exists_iff: "user_exists i t \<longleftrightarrow> i \<in> user_ids t"
  by (auto simp: user_exists_def user_ids_def list_ex_iff)

lemma PgUserAdminRepository_set_banned_db_ok [keeps_intros]:
  "keeps (inv_rel (\<lambda>w. db_ok (db w))) (PgUserAdminRepository_set_banned i banned reason actor)"
  unfolding PgUserAdminRepository_set_banned_def
  by (rule with_transaction_db_ok)
     (auto simp: act_simps check_varchar_def user_exists_iff split: if_splits option.splits
        intro!: grow_rules update_users_db_ok)

lemma PgUserRepository_reads_keep [keeps_intros]:
  "keeps (inv_rel (\<lambda>w. I (db w))) (PgUserRepository_find_by_id i)"
  "keeps (inv_rel (\<lambda>w. I (db w))) (PgUserRepository_find_by_identifier s)"
  "keeps (inv_rel (\<lambda>w. I (db w))) (PgUserAdminRepository_find_role i)"
  "keeps (inv_rel (\<lambda>w. I (db w))) (PgUserAdminRepository_is_banned i)"
  "keeps (inv_rel (\<lambda>w. I (db w))) (PgUserAdminRepository_find i)"
  by (simp_all add: PgUserRepository_find_by_id_def PgUserRepository_find_by_identifier_def
      PgUserAdminRepository_find_role_def PgUserAdminRepository_is_banned_def
      PgUserAdminRepository_find_def with_transaction_gets)

end
