(* ===== verification/ConversationRepository.thy ===== *)
theory ConversationRepository
  imports Users "HOL-Library.Product_Lexorder" "HOL-Library.Option_ord"
begin

text \<open>
  \<^verbatim>\<open>PgConversationRepository\<close>: conversations and their participants. Deleting a conversation
  cascades over the foreign keys of migrations 0003 to 0007. The membership rules that the
  application adds to the schema are the invariant \<open>membership_ok\<close>.
\<close>


section \<open>Rows\<close>

definition direct_key :: "int \<Rightarrow> int \<Rightarrow> string" where
  "direct_key a b = to_string (min a b) @ '':'' @ to_string (max a b)"

definition members :: "int \<Rightarrow> tables \<Rightarrow> participant list" where
  "members c t = filter (\<lambda>p. p_conversation_id p = c) (t_participants t)"

definition is_member :: "int \<Rightarrow> int \<Rightarrow> tables \<Rightarrow> bool" where
  "is_member c u t \<longleftrightarrow> list_ex (\<lambda>p. p_conversation_id p = c \<and> p_user_id p = u) (t_participants t)"

definition find_conversation :: "int \<Rightarrow> tables \<Rightarrow> conversation option" where
  "find_conversation c t = List.find (\<lambda>x. c_id x = c) (t_conversations t)"

text \<open>\<^verbatim>\<open>INSERT INTO conversation_participants\<close>, with or without \<^verbatim>\<open>ON CONFLICT DO NOTHING\<close>.\<close>

definition insert_participant :: "bool \<Rightarrow> int \<Rightarrow> int \<Rightarrow> participant_role \<Rightarrow> unit db_act" where
  "insert_participant do_nothing c u ro =
     seq (nextval q_participants q_participants_update) (\<lambda>i.
     seq (gets (\<lambda>d. (tabs d, now d))) (\<lambda>(t, ts).
     if is_member c u t
     then (if do_nothing then ret ()
           else throw (DbSql (UniqueViolation ''ux_participants_conversation_user''
                               (to_string c @ '', '' @ to_string u))))
     else if find_conversation c t = None \<or> \<not> user_exists u t
     then throw (DbSql (ForeignKeyViolation ''conversation_participants''))
     else update_tables (t_participants_update (\<lambda>rows. rows @
            [\<lparr>p_id = i, p_conversation_id = c, p_user_id = u, p_role = ro, p_joined_at = ts,
              p_last_read_message_id = None\<rparr>]))))"

text \<open>The upsert on the partial unique index of \<^verbatim>\<open>direct_key\<close>.\<close>

definition upsert_direct :: "string \<Rightarrow> conversation db_act" where
  "upsert_direct key =
     seq (nextval q_conversations q_conversations_update) (\<lambda>i.
     seq (gets (\<lambda>d. (List.find (\<lambda>c. c_direct_key c = Some key) (t_conversations (tabs d)), now d)))
       (\<lambda>(existing, ts).
     case existing of
       Some c \<Rightarrow>
         seq (update_tables (t_conversations_update (update_where (\<lambda>x. c_direct_key x = Some key)
                (\<lambda>x. x\<lparr>c_updated_at := ts\<rparr>)))) (\<lambda>_. ret (c\<lparr>c_updated_at := ts\<rparr>))
     | None \<Rightarrow>
         let c = \<lparr>c_id = i, c_type = kDirect, c_name = None, c_owner_id = None,
                  c_direct_key = Some key, c_created_at = ts, c_updated_at = ts,
                  c_last_message_at = None\<rparr>
         in seq (update_tables (t_conversations_update (\<lambda>rows. rows @ [c]))) (\<lambda>_. ret c)))"

definition insert_group :: "string \<Rightarrow> int \<Rightarrow> conversation db_act" where
  "insert_group name owner_id =
     seq (nextval q_conversations q_conversations_update) (\<lambda>i.
     seq (check_varchar 128 (Some name)) (\<lambda>_.
     seq (gets (\<lambda>d. (tabs d, now d))) (\<lambda>(t, ts).
     if \<not> user_exists owner_id t then throw (DbSql (ForeignKeyViolation ''conversations''))
     else
       let c = \<lparr>c_id = i, c_type = kGroup, c_name = Some name, c_owner_id = Some owner_id,
                c_direct_key = None, c_created_at = ts, c_updated_at = ts,
                c_last_message_at = None\<rparr>
       in seq (update_tables (t_conversations_update (\<lambda>rows. rows @ [c]))) (\<lambda>_. ret c))))"


section \<open>Operations\<close>

definition PgConversationRepository_create_or_get_direct :: "int \<Rightarrow> int \<Rightarrow> conversation act" where
  "PgConversationRepository_create_or_get_direct user_a user_b =
     with_transaction (
       seq (upsert_direct (direct_key user_a user_b)) (\<lambda>conv.
       seq (insert_participant True (c_id conv) user_a kMember) (\<lambda>_.
       seq (insert_participant True (c_id conv) user_b kMember) (\<lambda>_.
       ret conv))))"

definition PgConversationRepository_create_group ::
    "int \<Rightarrow> string \<Rightarrow> int list \<Rightarrow> conversation act" where
  "PgConversationRepository_create_group owner_id name member_ids =
     with_transaction (
       seq (insert_group name owner_id) (\<lambda>conv.
       seq (insert_participant False (c_id conv) owner_id kOwner) (\<lambda>_.
       seq (for_each member_ids (\<lambda>member.
              if member = owner_id then ret ()
              else insert_participant True (c_id conv) member kMember)) (\<lambda>_.
       ret conv))))"

definition PgConversationRepository_find_by_id :: "int \<Rightarrow> conversation option act" where
  "PgConversationRepository_find_by_id c =
     with_transaction (gets (\<lambda>d. find_conversation c (tabs d)))"

definition conversations_of :: "int \<Rightarrow> tables \<Rightarrow> conversation list" where
  "conversations_of u t =
     concat (map (\<lambda>c. map (\<lambda>_. c) (filter (\<lambda>p. p_conversation_id p = c_id c \<and> p_user_id p = u)
                                        (t_participants t))) (t_conversations t))"

definition PgConversationRepository_list_for_user :: "int \<Rightarrow> pagination \<Rightarrow> conversation list act" where
  "PgConversationRepository_list_for_user u page =
     with_transaction (gets (\<lambda>d. limit_offset (pg_limit page) (pg_offset page)
       (rev (sort_key (\<lambda>c. (c_last_message_at c, c_id c)) (conversations_of u (tabs d))))))"

definition sorted_members :: "int \<Rightarrow> tables \<Rightarrow> participant list" where
  "sorted_members c t = sort_key (\<lambda>p. (p_joined_at p, p_id p)) (members c t)"

definition PgConversationRepository_list_participants :: "int \<Rightarrow> participant list act" where
  "PgConversationRepository_list_participants c =
     with_transaction (gets (\<lambda>d. sorted_members c (tabs d)))"

definition PgConversationRepository_list_participant_ids :: "int \<Rightarrow> int list act" where
  "PgConversationRepository_list_participant_ids c =
     with_transaction (gets (\<lambda>d. map p_user_id (members c (tabs d))))"

definition PgConversationRepository_list_conversation_ids :: "int \<Rightarrow> int list act" where
  "PgConversationRepository_list_conversation_ids u =
     with_transaction (gets (\<lambda>d.
       map p_conversation_id (filter (\<lambda>p. p_user_id p = u) (t_participants (tabs d)))))"

definition peers :: "int \<Rightarrow> tables \<Rightarrow> int list" where
  "peers u t = remdups (concat (map (\<lambda>p1.
     map p_user_id (filter (\<lambda>p2. p_conversation_id p1 = p_conversation_id p2 \<and> p_user_id p2 \<noteq> u)
                      (t_participants t)))
     (filter (\<lambda>p1. p_user_id p1 = u) (t_participants t))))"

definition PgConversationRepository_list_peer_ids :: "int \<Rightarrow> int list act" where
  "PgConversationRepository_list_peer_ids u = with_transaction (gets (\<lambda>d. peers u (tabs d)))"

definition find_participant_row :: "int \<Rightarrow> int \<Rightarrow> tables \<Rightarrow> participant option" where
  "find_participant_row c u t =
     List.find (\<lambda>p. p_conversation_id p = c \<and> p_user_id p = u) (t_participants t)"

definition PgConversationRepository_find_participant :: "int \<Rightarrow> int \<Rightarrow> participant option act" where
  "PgConversationRepository_find_participant c u =
     with_transaction (gets (\<lambda>d. find_participant_row c u (tabs d)))"

definition PgConversationRepository_is_participant :: "int \<Rightarrow> int \<Rightarrow> bool act" where
  "PgConversationRepository_is_participant c u = with_transaction (gets (\<lambda>d. is_member c u (tabs d)))"

definition PgConversationRepository_add_participant :: "int \<Rightarrow> int \<Rightarrow> participant_role \<Rightarrow> unit act" where
  "PgConversationRepository_add_participant c u ro =
     with_transaction (catch (insert_participant False c u ro) (\<lambda>e.
       case e of
         DbSql (UniqueViolation idx key) \<Rightarrow>
           throw (DbApp (ConflictException ''User is already a member of the conversation'' []))
       | _ \<Rightarrow> throw e))"

definition delete_participant :: "int \<Rightarrow> int \<Rightarrow> tables \<Rightarrow> tables" where
  "delete_participant c u =
     t_participants_update (filter (\<lambda>p. \<not> (p_conversation_id p = c \<and> p_user_id p = u)))"

definition PgConversationRepository_remove_participant :: "int \<Rightarrow> int \<Rightarrow> unit act" where
  "PgConversationRepository_remove_participant c u =
     with_transaction (update_tables (delete_participant c u))"

definition PgConversationRepository_rename :: "int \<Rightarrow> string \<Rightarrow> unit act" where
  "PgConversationRepository_rename c name =
     with_transaction (
       seq (check_varchar 128 (Some name)) (\<lambda>_.
       seq (gets now) (\<lambda>ts.
       update_tables (t_conversations_update (update_where (\<lambda>x. c_id x = c)
         (\<lambda>x. x\<lparr>c_name := Some name, c_updated_at := ts\<rparr>))))))"

definition demote_promote :: "int \<Rightarrow> int \<Rightarrow> participant list \<Rightarrow> participant list" where
  "demote_promote c new_owner_id rows =
     update_where (\<lambda>p. p_conversation_id p = c \<and> p_user_id p = new_owner_id) (\<lambda>p. p\<lparr>p_role := kOwner\<rparr>)
       (update_where (\<lambda>p. p_conversation_id p = c \<and> p_role p = kOwner \<and> p_user_id p \<noteq> new_owner_id)
          (\<lambda>p. p\<lparr>p_role := kMember\<rparr>) rows)"

definition PgConversationRepository_transfer_ownership :: "int \<Rightarrow> int \<Rightarrow> unit act" where
  "PgConversationRepository_transfer_ownership c new_owner_id =
     with_transaction (
       seq (gets (\<lambda>d. (tabs d, now d))) (\<lambda>(t, ts).
       seq (require (find_conversation c t = None \<or> user_exists new_owner_id t)
              (DbSql (ForeignKeyViolation ''conversations''))) (\<lambda>_.
       seq (update_tables (t_conversations_update (update_where (\<lambda>x. c_id x = c)
              (\<lambda>x. x\<lparr>c_owner_id := Some new_owner_id, c_updated_at := ts\<rparr>)))) (\<lambda>_.
       update_tables (t_participants_update (demote_promote c new_owner_id))))))"

definition delete_conversation :: "int \<Rightarrow> tables \<Rightarrow> tables" where
  "delete_conversation c t =
     (let gone = m_id ` set (filter (\<lambda>m. m_conversation_id m = c) (t_messages t)) in
      t\<lparr>t_conversations := filter (\<lambda>x. c_id x \<noteq> c) (t_conversations t),
        t_participants := filter (\<lambda>p. p_conversation_id p \<noteq> c) (t_participants t),
        t_messages := filter (\<lambda>m. m_conversation_id m \<noteq> c) (t_messages t),
        t_receipts := filter (\<lambda>r. r_message_id r \<notin> gone) (t_receipts t),
        t_reactions := filter (\<lambda>x. x_message_id x \<notin> gone) (t_reactions t),
        t_attachments := filter (\<lambda>a. case a_message_id a of None \<Rightarrow> True | Some m \<Rightarrow> m \<notin> gone)
                           (t_attachments t)\<rparr>)"

definition PgConversationRepository_remove :: "int \<Rightarrow> unit act" where
  "PgConversationRepository_remove c = with_transaction (update_tables (delete_conversation c))"

definition greatest :: "int option \<Rightarrow> int \<Rightarrow> int" where
  "greatest cur v = max (case cur of None \<Rightarrow> 0 | Some x \<Rightarrow> x) v"

definition PgConversationRepository_update_last_read :: "int \<Rightarrow> int \<Rightarrow> int \<Rightarrow> unit act" where
  "PgConversationRepository_update_last_read c u message_id =
     with_transaction (update_tables (t_participants_update (update_where
       (\<lambda>p. p_conversation_id p = c \<and> p_user_id p = u)
       (\<lambda>p. p\<lparr>p_last_read_message_id := Some (greatest (p_last_read_message_id p) message_id)\<rparr>))))"


section \<open>Lookups\<close>

lemma is_member_iff: "is_member c u t \<longleftrightarrow> u \<in> p_user_id ` set (members c t)"
  by (auto simp: is_member_def members_def list_ex_iff)

lemma find_conversation_Some:
  "find_conversation c t = Some x \<Longrightarrow> x \<in> set (t_conversations t) \<and> c_id x = c"
  unfolding find_conversation_def by (rule find_SomeD)

lemma find_conversation_None: "find_conversation c t = None \<longleftrightarrow> c \<notin> conversation_ids t"
  by (auto simp: find_conversation_def find_None_iff conversation_ids_def)

lemma find_conversation_iff:
  assumes "db_ok d"
  shows "find_conversation c (tabs d) = Some x \<longleftrightarrow> x \<in> set (t_conversations (tabs d)) \<and> c_id x = c"
proof
  assume "x \<in> set (t_conversations (tabs d)) \<and> c_id x = c"
  moreover have "unique c_id (t_conversations (tabs d))"
    using assms by (auto simp: db_ok_def conversations_ok_def intro: serial_key_unique)
  ultimately show "find_conversation c (tabs d) = Some x"
    unfolding find_conversation_def using find_key by metis
qed (rule find_conversation_Some)

lemma direct_key_comm: "direct_key a b = direct_key b a"
  by (simp add: direct_key_def min.commute max.commute)

lemma set_sorted_members [simp]: "set (sorted_members c t) = set (members c t)"
  by (simp add: sorted_members_def)

text \<open>The pair key identifies the unordered pair.\<close>

lemma direct_key_inj: "direct_key a b = direct_key a' b' \<longleftrightarrow> {a, b} = {a', b'}"
proof
  assume *: "direct_key a b = direct_key a' b'"
  define lo hi lo' hi' where "lo = min a b" "hi = max a b" "lo' = min a' b'" "hi' = max a' b'"
  note defs = this
  have eq: "to_string lo @ '':'' @ to_string hi = to_string lo' @ '':'' @ to_string hi'"
    using * by (simp add: direct_key_def defs)
  have nd: "\<not> isdigit (hd ('':'' @ s))" for s by (simp add: isdigit_def)
  have "from_chars (min lo lo') (max lo lo') (to_string lo @ '':'' @ to_string hi) =
      Some (lo, '':'' @ to_string hi)"
    by (rule from_chars_to_string) (use nd in auto)
  moreover have "from_chars (min lo lo') (max lo lo') (to_string lo' @ '':'' @ to_string hi') =
      Some (lo', '':'' @ to_string hi')"
    by (rule from_chars_to_string) (use nd in auto)
  ultimately have "(lo, '':'' @ to_string hi) = (lo', '':'' @ to_string hi')"
    unfolding eq by (simp only: option.inject)
  then have "lo = lo'" "hi = hi'" by simp_all
  then show "{a, b} = {a', b'}" unfolding defs by (auto simp: min_def max_def split: if_splits)
next
  assume "{a, b} = {a', b'}"
  then show "direct_key a b = direct_key a' b'"
    by (auto simp: doubleton_eq_iff direct_key_comm)
qed


section \<open>The membership rules\<close>

text \<open>
  What the application promises beyond the schema. A group has exactly one owner: the user in
  \<^verbatim>\<open>owner_id\<close> is a participant, and is the only one with the owner role. A direct conversation has
  a pair key, no owner, and only plain members.
\<close>

definition conversation_rules :: "tables \<Rightarrow> conversation \<Rightarrow> bool" where
  "conversation_rules t c \<longleftrightarrow>
     (case c_type c of
        kGroup \<Rightarrow>
          (case c_owner_id c of
             None \<Rightarrow> False
           | Some own \<Rightarrow> c_direct_key c = None \<and> own \<in> p_user_id ` set (members (c_id c) t) \<and>
               (\<forall>p \<in> set (members (c_id c) t). p_role p = kOwner \<longleftrightarrow> p_user_id p = own))
      | kDirect \<Rightarrow> c_owner_id c = None \<and> c_direct_key c \<noteq> None \<and>
          (\<forall>p \<in> set (members (c_id c) t). p_role p = kMember))"

definition membership_ok :: "tables \<Rightarrow> bool" where
  "membership_ok t \<longleftrightarrow> (\<forall>c \<in> set (t_conversations t). conversation_rules t c)"

definition conv_inv :: "database \<Rightarrow> bool" where
  "conv_inv d \<longleftrightarrow> db_ok d \<and> membership_ok (tabs d)"

lemma conversation_rules_cong:
  "members (c_id c) t = members (c_id c) t' \<Longrightarrow> conversation_rules t c = conversation_rules t' c"
  by (cases "c_type c"; cases "c_owner_id c") (simp_all add: conversation_rules_def)

text \<open>A change outside conversations and participants keeps the membership rules.\<close>

lemma membership_ok_frame:
  assumes "t_conversations t' = t_conversations t" "t_participants t' = t_participants t"
  shows "membership_ok t' = membership_ok t"
proof -
  have "members k t' = members k t" for k using assms(2) by (simp add: members_def)
  then have "conversation_rules t' k = conversation_rules t k" for k by (rule conversation_rules_cong)
  then show ?thesis using assms(1) by (simp add: membership_ok_def)
qed

lemma membership_ok_other_tables [simp]:
  "membership_ok (t_users_update f1 t) = membership_ok t"
  "membership_ok (t_messages_update f2 t) = membership_ok t"
  "membership_ok (t_receipts_update f3 t) = membership_ok t"
  "membership_ok (t_reactions_update f4 t) = membership_ok t"
  "membership_ok (t_notifications_update f5 t) = membership_ok t"
  "membership_ok (t_sessions_update f6 t) = membership_ok t"
  "membership_ok (t_attachments_update f7 t) = membership_ok t"
  "membership_ok (t_audit_logs_update f8 t) = membership_ok t"
  by (rule membership_ok_frame; simp)+

lemma group_rules:
  assumes "conversation_rules t c" "is_group c"
  obtains own where "c_owner_id c = Some own" "is_member (c_id c) own t"
    "\<And>p. p \<in> set (members (c_id c) t) \<Longrightarrow> p_role p = kOwner \<longleftrightarrow> p_user_id p = own"
  using assms by (auto simp: conversation_rules_def is_group_def is_member_iff split: option.splits)

lemma members_append: "members c (t\<lparr>t_participants := t_participants t @ [p]\<rparr>) =
    members c t @ (if p_conversation_id p = c then [p] else [])"
  by (simp add: members_def)


lemma with_transaction_conv_inv:
  assumes "keeps seqs_grow fn"
    and "\<And>d x d'. conv_inv d \<Longrightarrow> fn d = (Inr x, d') \<Longrightarrow> conv_inv d'"
  shows "keeps (inv_rel (\<lambda>w. conv_inv (db w))) (with_transaction fn)"
proof (rule with_transaction_keeps)
  fix d e d'
  assume "conv_inv d" "fn d = (Inl e, d')"
  moreover from this(2) have "seqs_grow d d'" by (rule keepsD [OF assms(1)])
  ultimately show "conv_inv (rollback d d')"
    using db_ok_rollback by (auto simp: conv_inv_def) (simp add: rollback_def)
qed (rule assms(2))


section \<open>Insertions\<close>

lemma grow_insert_participant [keeps_intros]: "keeps seqs_grow (insert_participant b c u ro)"
  unfolding insert_participant_def by (intro grow_rules)

lemma insert_participant_cases:
  assumes "insert_participant b c u ro d = (Inr x, d')"
  obtains (skipped) "b" "is_member c u (tabs d)"
      "d' = d\<lparr>seqs := q_participants_update (\<lambda>i. i + 1) (seqs d)\<rparr>"
  | (inserted) p where "\<not> is_member c u (tabs d)" "c \<in> conversation_ids (tabs d)"
      "u \<in> user_ids (tabs d)" "p_id p = q_participants (seqs d)" "p_conversation_id p = c"
      "p_user_id p = u" "p_role p = ro" "p_joined_at p = now d"
      "d' = d\<lparr>seqs := q_participants_update (\<lambda>i. i + 1) (seqs d),
             tabs := t_participants_update (\<lambda>rows. rows @ [p]) (tabs d)\<rparr>"
proof (cases "is_member c u (tabs d)")
  case True
  then show ?thesis
    using assms skipped by (auto simp: insert_participant_def act_simps split: if_splits)
next
  case False
  let ?p = "\<lparr>p_id = q_participants (seqs d), p_conversation_id = c, p_user_id = u, p_role = ro,
              p_joined_at = now d, p_last_read_message_id = None\<rparr>"
  have "find_conversation c (tabs d) \<noteq> None" "user_exists u (tabs d)"
    "d' = d\<lparr>seqs := q_participants_update (\<lambda>i. i + 1) (seqs d),
           tabs := t_participants_update (\<lambda>rows. rows @ [?p]) (tabs d)\<rparr>"
    using assms False by (auto simp: insert_participant_def act_simps split: if_splits)
  then show ?thesis
    using False inserted [of ?p] by (auto simp: find_conversation_None user_exists_iff)
qed

lemma insert_participant_db_ok:
  assumes "db_ok d" "insert_participant b c u ro d = (Inr x, d')"
  shows "db_ok d'"
  using assms(2)
proof (cases rule: insert_participant_cases)
  case skipped
  then show ?thesis
    using assms(1) by (auto simp: db_ok_def table_ok_defs intro: serial_key_skip)
next
  case (inserted p)
  then have "\<not> list_ex (\<lambda>r. (p_conversation_id r, p_user_id r) = (c, u)) (t_participants (tabs d))"
    by (simp add: is_member_def)
  then have "participants_ok d'"
    using assms(1) inserted
    by (auto simp: db_ok_def participants_ok_def ids_defs intro!: row_intros)
  then show ?thesis
    using assms(1) inserted(9) by (auto simp: db_ok_def table_ok_defs ids_defs)
qed

text \<open>Inserting a plain member keeps the rules of every conversation.\<close>

lemma insert_member_rules:
  assumes "membership_ok (tabs d)" "insert_participant b c u kMember d = (Inr x, d')"
  shows "membership_ok (tabs d')"
  using assms(2)
proof (cases rule: insert_participant_cases)
  case skipped
  then show ?thesis using assms(1) by simp
next
  case (inserted p)
  have "conversation_rules (tabs d') k" if k: "k \<in> set (t_conversations (tabs d))" for k
  proof (cases "c_id k = c")
    case True
    have old: "conversation_rules (tabs d) k" using assms(1) k by (simp add: membership_ok_def)
    have "members (c_id k) (tabs d') = members (c_id k) (tabs d) @ [p]"
      using True inserted by (simp add: members_def)
    moreover have "c_owner_id k \<noteq> Some u" if "is_group k"
      using group_rules [OF old that] inserted(1) True by (metis option.inject)
    ultimately show ?thesis
      using old inserted
      by (auto simp: conversation_rules_def is_group_def split: conversation_type.splits option.splits)
  next
    case False
    then have "members (c_id k) (tabs d') = members (c_id k) (tabs d)"
      using inserted by (simp add: members_def)
    then show ?thesis
      using assms(1) k conversation_rules_cong unfolding membership_ok_def by blast
  qed
  then show ?thesis using inserted(9) by (simp add: membership_ok_def)
qed

lemma insert_member_conv_inv:
  "conv_inv d \<Longrightarrow> insert_participant b c u kMember d = (Inr x, d') \<Longrightarrow> conv_inv d'"
  unfolding conv_inv_def by (blast intro: insert_participant_db_ok insert_member_rules)


section \<open>Creating conversations\<close>

text \<open>The id the sequence hands out has no participants yet.\<close>

lemma fresh_conversation:
  assumes "db_ok d"
  shows "members (q_conversations (seqs d)) (tabs d) = []"
    "q_conversations (seqs d) \<notin> conversation_ids (tabs d)"
proof -
  show "q_conversations (seqs d) \<notin> conversation_ids (tabs d)"
    using assms by (auto simp: db_ok_def conversations_ok_def serial_key_def conversation_ids_def)
  then show "members (q_conversations (seqs d)) (tabs d) = []"
    using assms by (auto simp: db_ok_def participants_ok_def refs_def members_def filter_empty_conv)
qed

lemma grow_upsert_direct [keeps_intros]: "keeps seqs_grow (upsert_direct key)"
  unfolding upsert_direct_def by (intro grow_rules)

lemma grow_insert_group [keeps_intros]: "keeps seqs_grow (insert_group name own)"
  unfolding insert_group_def by (intro grow_rules)

lemma upsert_direct_cases:
  assumes "upsert_direct key d = (Inr c, d')"
  obtains (existing) c0 where "c0 \<in> set (t_conversations (tabs d))" "c_direct_key c0 = Some key"
      "c = c0\<lparr>c_updated_at := now d\<rparr>"
      "d' = d\<lparr>seqs := q_conversations_update (\<lambda>i. i + 1) (seqs d),
             tabs := t_conversations_update (update_where (\<lambda>x. c_direct_key x = Some key)
                       (\<lambda>x. x\<lparr>c_updated_at := now d\<rparr>)) (tabs d)\<rparr>"
  | (fresh) "\<And>x. x \<in> set (t_conversations (tabs d)) \<Longrightarrow> c_direct_key x \<noteq> Some key"
      "c_id c = q_conversations (seqs d)" "c_type c = kDirect" "c_owner_id c = None"
      "c_direct_key c = Some key"
      "d' = d\<lparr>seqs := q_conversations_update (\<lambda>i. i + 1) (seqs d),
             tabs := t_conversations_update (\<lambda>rows. rows @ [c]) (tabs d)\<rparr>"
proof (cases "List.find (\<lambda>c. c_direct_key c = Some key) (t_conversations (tabs d))")
  case None
  then have "\<And>x. x \<in> set (t_conversations (tabs d)) \<Longrightarrow> c_direct_key x \<noteq> Some key"
    by (simp add: find_None_iff)
  then show ?thesis
    using assms fresh None by (auto simp: upsert_direct_def act_simps Let_def)
next
  case (Some c0)
  then show ?thesis
    using assms existing [of c0] find_SomeD [OF Some] by (auto simp: upsert_direct_def act_simps)
qed

lemma conversation_rules_touch [simp]:
  "conversation_rules t (c\<lparr>c_updated_at := ts\<rparr>) = conversation_rules t c"
  "conversation_rules t (c\<lparr>c_name := n\<rparr>) = conversation_rules t c"
  "conversation_rules t (c\<lparr>c_last_message_at := ts'\<rparr>) = conversation_rules t c"
  by (cases "c_type c"; cases "c_owner_id c"; simp add: conversation_rules_def)+

lemma members_other_tables [simp]:
  "members c (t\<lparr>t_conversations := cs\<rparr>) = members c t"
  "members c (t_conversations_update f t) = members c t"
  "members c (t_users_update f1 t) = members c t"
  "members c (t_messages_update f2 t) = members c t"
  "members c (t_receipts_update f3 t) = members c t"
  "members c (t_reactions_update f4 t) = members c t"
  "members c (t_notifications_update f5 t) = members c t"
  "members c (t_sessions_update f6 t) = members c t"
  "members c (t_attachments_update f7 t) = members c t"
  "members c (t_audit_logs_update f8 t) = members c t"
  by (simp_all add: members_def)

lemma is_member_other_tables [simp]:
  "is_member c u (t_conversations_update f t) = is_member c u t"
  "is_member c u (t_users_update f1 t) = is_member c u t"
  "is_member c u (t_messages_update f2 t) = is_member c u t"
  "is_member c u (t_receipts_update f3 t) = is_member c u t"
  "is_member c u (t_reactions_update f4 t) = is_member c u t"
  "is_member c u (t_notifications_update f5 t) = is_member c u t"
  "is_member c u (t_sessions_update f6 t) = is_member c u t"
  "is_member c u (t_attachments_update f7 t) = is_member c u t"
  "is_member c u (t_audit_logs_update f8 t) = is_member c u t"
  by (simp_all add: is_member_def)

lemma conversation_rules_other_tables [simp]:
  "conversation_rules (t_conversations_update f t) c = conversation_rules t c"
  by (rule conversation_rules_cong) simp

text \<open>Touching columns that no rule and no constraint reads.\<close>

lemma touch_conversations_conv_inv:
  assumes "conv_inv d"
    and "\<And>x. c_id (f x) = c_id x" "\<And>x. c_direct_key (f x) = c_direct_key x"
    and "\<And>x. c_owner_id (f x) = c_owner_id x"
    and "\<And>t x. conversation_rules t (f x) = conversation_rules t x"
  shows "conv_inv (d\<lparr>tabs := t_conversations_update (update_where P f) (tabs d)\<rparr>)"
proof -
  have ids: "c_id ` set (update_where P f (t_conversations (tabs d))) = c_id ` set (t_conversations (tabs d))"
    using assms(2) by (rule image_update_where)
  have "db_ok (d\<lparr>tabs := t_conversations_update (update_where P f) (tabs d)\<rparr>)"
    using assms(1-4) ids
    by (auto simp: conv_inv_def db_ok_def table_ok_defs ids_defs intro: row_intros)
  moreover have "membership_ok (t_conversations_update (update_where P f) (tabs d))"
    using assms(1,5) by (auto simp: conv_inv_def membership_ok_def set_update_where)
  ultimately show ?thesis by (simp add: conv_inv_def)
qed

lemma skip_seq_conv_inv:
  "conv_inv d \<Longrightarrow> conv_inv (d\<lparr>seqs := q_conversations_update (\<lambda>i. i + 1) (seqs d)\<rparr>)"
  by (auto simp: conv_inv_def db_ok_def table_ok_defs intro: serial_key_skip)

lemma upsert_direct_conv_inv:
  assumes "conv_inv d" "upsert_direct key d = (Inr c, d')"
  shows "conv_inv d'"
  using assms(2)
proof (cases rule: upsert_direct_cases)
  case (existing c0)
  show ?thesis
    using touch_conversations_conv_inv [OF skip_seq_conv_inv [OF assms(1)],
        of "\<lambda>x. x\<lparr>c_updated_at := now d\<rparr>"] existing(4)
    by simp
next
  case fresh
  have ok: "db_ok d" using assms(1) by (simp add: conv_inv_def)
  have "conversations_ok d'"
    using ok fresh
    by (auto simp: db_ok_def conversations_ok_def ids_defs intro!: row_intros opt_unique_append)
  then have "db_ok d'"
    using ok fresh(6) by (auto simp: db_ok_def table_ok_defs ids_defs intro: refs_mono)
  moreover have "conversation_rules (tabs d) c"
    using fresh fresh_conversation(1) [OF ok] by (simp add: conversation_rules_def)
  then have "membership_ok (tabs d')"
    using assms(1) fresh(6) by (auto simp: conv_inv_def membership_ok_def)
  ultimately show ?thesis by (simp add: conv_inv_def)
qed

lemma PgConversationRepository_create_or_get_direct_inv [keeps_intros]:
  "keeps (inv_rel (\<lambda>w. conv_inv (db w))) (PgConversationRepository_create_or_get_direct a b)"
  unfolding PgConversationRepository_create_or_get_direct_def
proof (rule with_transaction_conv_inv)
  fix d c d'
  assume inv: "conv_inv d" and run: "seq (upsert_direct (direct_key a b)) (\<lambda>conv.
       seq (insert_participant True (c_id conv) a kMember) (\<lambda>_.
       seq (insert_participant True (c_id conv) b kMember) (\<lambda>_. ret conv))) d = (Inr c, d')"
  then show "conv_inv d'"
    by (auto elim!: seq_succeedsE) (blast intro: upsert_direct_conv_inv insert_member_conv_inv)
qed (intro grow_rules keeps_intros)

text \<open>A new group: the conversation, its owner, then the members.\<close>

lemma insert_group_owner_conv_inv:
  assumes inv: "conv_inv d" and g: "insert_group name own d = (Inr c, d1)"
    and o: "insert_participant False (c_id c) own kOwner d1 = (Inr x, d2)"
  shows "conv_inv d2"
proof -
  have ok: "db_ok d" using inv by (simp add: conv_inv_def)
  have c: "c_id c = q_conversations (seqs d)" "c_type c = kGroup" "c_owner_id c = Some own"
    "c_direct_key c = None" "own \<in> user_ids (tabs d)"
    "d1 = d\<lparr>seqs := q_conversations_update (\<lambda>i. i + 1) (seqs d),
           tabs := t_conversations_update (\<lambda>rows. rows @ [c]) (tabs d)\<rparr>"
    using g by (auto simp: insert_group_def act_simps check_varchar_def Let_def user_exists_iff split: if_splits)
  have "conversations_ok d1"
    using ok c
    by (auto simp: db_ok_def conversations_ok_def ids_defs intro!: row_intros opt_unique_append_None)
  then have ok1: "db_ok d1"
    using ok c(6) by (auto simp: db_ok_def table_ok_defs ids_defs intro: refs_mono)
  have none: "members (c_id c) (tabs d1) = []"
    using fresh_conversation(1) [OF ok] c by simp
  show ?thesis
    using o
  proof (cases rule: insert_participant_cases)
    case skipped
    then show ?thesis by simp
  next
    case (inserted p)
    have "members (c_id c) (tabs d2) = [p]" using none inserted by (simp add: members_def)
    then have "conversation_rules (tabs d2) c"
      using c inserted by (simp add: conversation_rules_def)
    moreover have "conversation_rules (tabs d2) k" if k: "k \<in> set (t_conversations (tabs d))" for k
    proof -
      have "c_id k \<noteq> c_id c"
        using k c(1) fresh_conversation(2) [OF ok] unfolding conversation_ids_def by (metis imageI)
      then have "members (c_id k) (tabs d2) = members (c_id k) (tabs d)"
        using inserted c(6) by (simp add: members_def)
      then show ?thesis
        using inv k conversation_rules_cong unfolding conv_inv_def membership_ok_def by blast
    qed
    ultimately have "membership_ok (tabs d2)"
      using inserted c(6) by (auto simp: membership_ok_def)
    then show ?thesis using insert_participant_db_ok [OF ok1 o] by (simp add: conv_inv_def)
  qed
qed

lemma PgConversationRepository_create_group_inv [keeps_intros]:
  "keeps (inv_rel (\<lambda>w. conv_inv (db w))) (PgConversationRepository_create_group own name ms)"
  unfolding PgConversationRepository_create_group_def
proof (rule with_transaction_conv_inv)
  fix d c d'
  assume inv: "conv_inv d" and "seq (insert_group name own) (\<lambda>conv.
       seq (insert_participant False (c_id conv) own kOwner) (\<lambda>_.
       seq (for_each ms (\<lambda>member.
              if member = own then ret ()
              else insert_participant True (c_id conv) member kMember)) (\<lambda>_.
       ret conv))) d = (Inr c, d')"
  then obtain d1 d2 c' where "insert_group name own d = (Inr c', d1)"
    and "insert_participant False (c_id c') own kOwner d1 = (Inr (), d2)"
    and loop: "for_each ms (\<lambda>member. if member = own then ret ()
              else insert_participant True (c_id c') member kMember) d2 = (Inr (), d')"
    by (auto elim!: seq_succeedsE)
  with inv have "conv_inv d2" by (blast intro: insert_group_owner_conv_inv)
  then show "conv_inv d'"
    by (rule for_each_succeeds [OF loop]) (auto split: if_splits intro: insert_member_conv_inv)
qed (intro grow_rules keeps_intros)


section \<open>Changing and deleting\<close>

lemma PgConversationRepository_rename_inv [keeps_intros]:
  "keeps (inv_rel (\<lambda>w. conv_inv (db w))) (PgConversationRepository_rename c name)"
  unfolding PgConversationRepository_rename_def
proof (rule with_transaction_conv_inv)
  fix d u d'
  assume "conv_inv d" and "seq (check_varchar 128 (Some name)) (\<lambda>_. seq (gets now) (\<lambda>ts.
       update_tables (t_conversations_update (update_where (\<lambda>x. c_id x = c)
         (\<lambda>x. x\<lparr>c_name := Some name, c_updated_at := ts\<rparr>))))) d = (Inr u, d')"
  then show "conv_inv d'"
    using touch_conversations_conv_inv [of d "\<lambda>x. x\<lparr>c_name := Some name, c_updated_at := now d\<rparr>" "\<lambda>x. c_id x = c"]
    by (auto simp: act_simps check_varchar_def split: if_splits)
qed (intro grow_rules)

lemma members_delete_participant:
  "members c (delete_participant c' u t) =
     (if c = c' then filter (\<lambda>p. p_user_id p \<noteq> u) (members c t) else members c t)"
  by (auto simp: members_def delete_participant_def intro!: filter_cong)

lemma delete_participant_db_ok: "db_ok d \<Longrightarrow> db_ok (d\<lparr>tabs := delete_participant c u (tabs d)\<rparr>)"
  by (auto simp: db_ok_def table_ok_defs ids_defs delete_participant_def intro: row_intros)

text \<open>Removing anybody but the owner keeps the rules.\<close>

lemma delete_participant_rules:
  assumes "membership_ok t"
    and "\<And>k. k \<in> set (t_conversations t) \<Longrightarrow> c_id k = c \<Longrightarrow> c_owner_id k \<noteq> Some u"
  shows "membership_ok (delete_participant c u t)"
proof -
  have "conversation_rules (delete_participant c u t) k" if k: "k \<in> set (t_conversations t)" for k
  proof (cases "c_id k = c")
    case True
    have old: "conversation_rules t k" using assms(1) k by (simp add: membership_ok_def)
    have "c_owner_id k \<noteq> Some u" using assms(2) k True by blast
    with old True show ?thesis
      by (auto simp: conversation_rules_def members_delete_participant
          split: conversation_type.splits option.splits)
  next
    case False
    then have "members (c_id k) (delete_participant c u t) = members (c_id k) t"
      by (simp add: members_delete_participant)
    then show ?thesis using assms(1) k conversation_rules_cong unfolding membership_ok_def by blast
  qed
  then show ?thesis by (simp add: membership_ok_def delete_participant_def)
qed

text \<open>Handing a group to one of its members keeps the rules.\<close>

lemma members_map:
  "(\<And>p. p_conversation_id (f p) = p_conversation_id p) \<Longrightarrow>
   members k (t_participants_update (map f) t) = map f (members k t)"
  by (simp add: members_def filter_map comp_def)

lemma members_update_where:
  "(\<And>p. p_conversation_id (f p) = p_conversation_id p) \<Longrightarrow>
   members k (t_participants_update (update_where P f) t) = update_where P f (members k t)"
  using members_map [of "\<lambda>p. if P p then f p else p" k t] by (simp add: update_where_def [abs_def])

lemma demote_promote_eq:
  "demote_promote c own = update_where (\<lambda>p. p_conversation_id p = c)
     (\<lambda>p. p\<lparr>p_role := (if p_user_id p = own then kOwner else kMember)\<rparr>)"
proof -
  have "p\<lparr>p_role := kMember\<rparr> = p" if "p_role p \<noteq> kOwner" for p :: participant
    using that by (cases p; cases "p_role p") auto
  then show ?thesis by (auto simp: demote_promote_def update_where_def fun_eq_iff)
qed

lemma members_demote_promote:
  "members k (t_participants_update (demote_promote c own) t) =
     (if k = c then map (\<lambda>p. p\<lparr>p_role := (if p_user_id p = own then kOwner else kMember)\<rparr>) (members c t)
      else members k t)"
  unfolding demote_promote_eq
  by (subst members_update_where) (auto simp: members_def update_where_def intro!: map_idI)

lemma transfer_rules:
  assumes "conv_inv d" "is_member c own (tabs d)"
    and grp: "\<And>k. k \<in> set (t_conversations (tabs d)) \<Longrightarrow> c_id k = c \<Longrightarrow> is_group k"
  shows "membership_ok (t_participants_update (demote_promote c own)
           (t_conversations_update (update_where (\<lambda>x. c_id x = c)
              (\<lambda>x. x\<lparr>c_owner_id := Some own, c_updated_at := ts\<rparr>)) (tabs d)))"
    (is "membership_ok ?t")
proof -
  have mem: "members k ?t = (if k = c then map (\<lambda>p. p\<lparr>p_role := (if p_user_id p = own then kOwner else kMember)\<rparr>)
      (members c (tabs d)) else members k (tabs d))" for k
    by (simp add: members_demote_promote)
  have "conversation_rules ?t (if c_id k = c then k\<lparr>c_owner_id := Some own, c_updated_at := ts\<rparr> else k)"
    if k: "k \<in> set (t_conversations (tabs d))" for k
  proof (cases "c_id k = c")
    case True
    have old: "conversation_rules (tabs d) k"
      using assms(1) k by (simp add: conv_inv_def membership_ok_def)
    then have "c_direct_key k = None"
      using grp [OF k True] by (auto simp: conversation_rules_def is_group_def split: option.splits)
    moreover have "own \<in> p_user_id ` set (members c (tabs d))"
      using assms(2) by (simp add: is_member_iff)
    ultimately show ?thesis
      using True grp [OF k True] mem
      by (auto simp: conversation_rules_def is_group_def image_image split: if_splits)
  next
    case False
    then have "members (c_id k) ?t = members (c_id k) (tabs d)" using mem by simp
    then have "conversation_rules ?t k = conversation_rules (tabs d) k"
      by (rule conversation_rules_cong)
    then show ?thesis using assms(1) k False by (simp add: conv_inv_def membership_ok_def)
  qed
  then show ?thesis by (simp add: membership_ok_def ball_update_where)
qed

lemma update_participants_db_ok:
  assumes "db_ok d"
    and "\<And>p. p_id (f p) = p_id p" "\<And>p. p_conversation_id (f p) = p_conversation_id p"
    and "\<And>p. p_user_id (f p) = p_user_id p"
  shows "db_ok (d\<lparr>tabs := t_participants_update (update_where P f) (tabs d)\<rparr>)"
  using assms by (auto simp: db_ok_def table_ok_defs ids_defs intro: row_intros)

lemma transfer_db_ok:
  assumes "db_ok d" "own \<in> user_ids (tabs d)"
  shows "db_ok (d\<lparr>tabs := t_participants_update (demote_promote c own)
           (t_conversations_update (update_where (\<lambda>x. c_id x = c)
              (\<lambda>x. x\<lparr>c_owner_id := Some own, c_updated_at := ts\<rparr>)) (tabs d))\<rparr>)"
proof -
  let ?f = "\<lambda>x. x\<lparr>c_owner_id := Some own, c_updated_at := ts\<rparr>"
  have ids: "c_id ` set (update_where (\<lambda>x. c_id x = c) ?f (t_conversations (tabs d))) =
      c_id ` set (t_conversations (tabs d))"
    by (rule image_update_where) simp
  have "opt_refs c_owner_id (update_where (\<lambda>x. c_id x = c) ?f (t_conversations (tabs d))) (user_ids (tabs d))"
    by (rule opt_refs_update_where) (use assms in \<open>auto simp: db_ok_def conversations_ok_def\<close>)
  then have "conversations_ok (d\<lparr>tabs := t_conversations_update (update_where (\<lambda>x. c_id x = c) ?f) (tabs d)\<rparr>)"
    using assms(1) by (simp add: db_ok_def conversations_ok_def user_ids_def row_intros)
  then have "db_ok (d\<lparr>tabs := t_conversations_update (update_where (\<lambda>x. c_id x = c) ?f) (tabs d)\<rparr>)"
    using assms(1) ids by (simp add: db_ok_def table_ok_defs ids_defs)
  from update_participants_db_ok [OF this, of "\<lambda>p. p\<lparr>p_role := (if p_user_id p = own then kOwner else kMember)\<rparr>"
      "\<lambda>p. p_conversation_id p = c"]
  show ?thesis by (simp add: demote_promote_eq)
qed


section \<open>Deletion cascades\<close>

lemma delete_conversation_db_ok:
  assumes "db_ok d"
  shows "db_ok (d\<lparr>tabs := delete_conversation c (tabs d)\<rparr>)"
proof -
  let ?t = "tabs d" and ?t' = "delete_conversation c (tabs d)"
  let ?gone = "m_id ` set (filter (\<lambda>m. m_conversation_id m = c) (t_messages ?t))"
  have users: "user_ids ?t' = user_ids ?t" by (simp add: delete_conversation_def user_ids_def Let_def)
  have convs: "conversation_ids ?t' = conversation_ids ?t - {c}"
    by (auto simp: delete_conversation_def conversation_ids_def Let_def)
  have "inj_on m_id (set (t_messages ?t))"
    using assms by (simp add: db_ok_def messages_ok_def serial_key_def distinct_map)
  then have msgs: "message_ids ?t' = message_ids ?t - ?gone"
    by (auto simp: delete_conversation_def message_ids_def Let_def dest: inj_onD)
  note tables = users convs msgs
  have "users_ok (d\<lparr>tabs := ?t'\<rparr>)" "notifications_ok (d\<lparr>tabs := ?t'\<rparr>)" "sessions_ok (d\<lparr>tabs := ?t'\<rparr>)"
    "audit_ok (d\<lparr>tabs := ?t'\<rparr>)"
    using assms by (simp_all add: db_ok_def table_ok_defs tables) (simp_all add: delete_conversation_def Let_def)
  moreover have "conversations_ok (d\<lparr>tabs := ?t'\<rparr>)"
    using assms
    by (simp add: db_ok_def conversations_ok_def tables)
       (auto simp: delete_conversation_def Let_def intro: row_intros)
  moreover have "participants_ok (d\<lparr>tabs := ?t'\<rparr>)"
    using assms
    by (simp add: db_ok_def participants_ok_def tables)
       (auto simp: delete_conversation_def Let_def refs_def intro: row_intros)
  moreover have "messages_ok (d\<lparr>tabs := ?t'\<rparr>)"
    using assms
    by (simp add: db_ok_def messages_ok_def tables)
       (auto simp: delete_conversation_def Let_def refs_def intro: row_intros)
  moreover have "receipts_ok (d\<lparr>tabs := ?t'\<rparr>)"
    using assms
    by (simp add: db_ok_def receipts_ok_def tables)
       (auto simp: delete_conversation_def Let_def refs_def intro: row_intros)
  moreover have "reactions_ok (d\<lparr>tabs := ?t'\<rparr>)"
    using assms
    by (simp add: db_ok_def reactions_ok_def tables)
       (auto simp: delete_conversation_def Let_def refs_def intro: row_intros)
  moreover have "attachments_ok (d\<lparr>tabs := ?t'\<rparr>)"
    using assms
    by (simp add: db_ok_def attachments_ok_def tables)
       (auto simp: delete_conversation_def Let_def refs_def opt_refs_def intro: row_intros
          split: option.splits)
  ultimately show ?thesis by (simp add: db_ok_def)
qed

lemma delete_conversation_rules:
  assumes "membership_ok t"
  shows "membership_ok (delete_conversation c t)"
proof -
  have "conversation_rules (delete_conversation c t) k"
    if k: "k \<in> set (t_conversations t)" "c_id k \<noteq> c" for k
  proof -
    have "members (c_id k) (delete_conversation c t) = members (c_id k) t"
      using k(2) by (auto simp: members_def delete_conversation_def Let_def intro!: filter_cong)
    then show ?thesis using assms k(1) conversation_rules_cong unfolding membership_ok_def by blast
  qed
  then show ?thesis by (simp add: membership_ok_def delete_conversation_def Let_def)
qed

lemma PgConversationRepository_remove_inv [keeps_intros]:
  "keeps (inv_rel (\<lambda>w. conv_inv (db w))) (PgConversationRepository_remove c)"
  unfolding PgConversationRepository_remove_def
  by (rule with_transaction_conv_inv)
     (auto simp: conv_inv_def intro: grow_rules delete_conversation_db_ok delete_conversation_rules)

lemma PgConversationRepository_update_last_read_inv [keeps_intros]:
  "keeps (inv_rel (\<lambda>w. conv_inv (db w))) (PgConversationRepository_update_last_read c u m)"
  unfolding PgConversationRepository_update_last_read_def
proof (rule with_transaction_conv_inv)
  let ?P = "\<lambda>p. p_conversation_id p = c \<and> p_user_id p = u"
  let ?f = "\<lambda>p. p\<lparr>p_last_read_message_id := Some (greatest (p_last_read_message_id p) m)\<rparr>"
  fix d x d'
  assume inv: "conv_inv d" and d': "update_tables (t_participants_update (update_where ?P ?f)) d = (Inr x, d')"
  have mem: "members k (t_participants_update (update_where ?P ?f) t) = update_where ?P ?f (members k t)" for k t
    by (rule members_update_where) simp
  have "conversation_rules (t_participants_update (update_where ?P ?f) t) k = conversation_rules t k" for t k
    by (cases "c_type k"; cases "c_owner_id k")
       (auto simp: conversation_rules_def mem image_update_where ball_update_where)
  then have "membership_ok (tabs d')"
    using inv d' by (simp add: conv_inv_def membership_ok_def) auto
  moreover have "db_ok d'"
    using inv d' update_participants_db_ok [of d ?f ?P] by (simp add: conv_inv_def)
  ultimately show "conv_inv d'" by (simp add: conv_inv_def)
qed (intro grow_rules)

lemma PgConversationRepository_reads_keep [keeps_intros]:
  "keeps (inv_rel (\<lambda>w. I (db w))) (PgConversationRepository_find_by_id c)"
  "keeps (inv_rel (\<lambda>w. I (db w))) (PgConversationRepository_list_for_user u page)"
  "keeps (inv_rel (\<lambda>w. I (db w))) (PgConversationRepository_list_participants c)"
  "keeps (inv_rel (\<lambda>w. I (db w))) (PgConversationRepository_list_participant_ids c)"
  "keeps (inv_rel (\<lambda>w. I (db w))) (PgConversationRepository_list_conversation_ids u)"
  "keeps (inv_rel (\<lambda>w. I (db w))) (PgConversationRepository_list_peer_ids u)"
  "keeps (inv_rel (\<lambda>w. I (db w))) (PgConversationRepository_find_participant c u)"
  "keeps (inv_rel (\<lambda>w. I (db w))) (PgConversationRepository_is_participant c u)"
  by (simp_all add: PgConversationRepository_find_by_id_def PgConversationRepository_list_for_user_def
      PgConversationRepository_list_participants_def PgConversationRepository_list_participant_ids_def
      PgConversationRepository_list_conversation_ids_def PgConversationRepository_list_peer_ids_def
      PgConversationRepository_find_participant_def PgConversationRepository_is_participant_def
      with_transaction_gets)

end
