(* ===== verification/Notifications.thy ===== *)
theory Notifications
  imports ConversationRepository
begin

text \<open>
  \<^verbatim>\<open>PgNotificationRepository\<close>, \<^verbatim>\<open>NotificationService\<close> and the \<^verbatim>\<open>NotificationDispatcher\<close> that shields its
  callers from every failure. The payload is stored as \<^verbatim>\<open>JSONB\<close> and read back unchanged.
\<close>


section \<open>Repository\<close>

definition PgNotificationRepository_create ::
    "int \<Rightarrow> notification_type \<Rightarrow> json \<Rightarrow> notification act" where
  "PgNotificationRepository_create user_id type payload =
     with_transaction (
       seq (nextval q_notifications q_notifications_update) (\<lambda>i.
       seq (gets (\<lambda>d. (tabs d, now d))) (\<lambda>(t, ts).
       if \<not> user_exists user_id t then throw (DbSql (ForeignKeyViolation ''notifications''))
       else
         let n = \<lparr>n_id = i, n_user_id = user_id, n_type = type, n_payload = payload,
                  n_read_at = None, n_created_at = ts\<rparr>
         in seq (update_tables (t_notifications_update (\<lambda>rows. rows @ [n]))) (\<lambda>_. ret n))))"

definition PgNotificationRepository_list_for_user ::
    "int \<Rightarrow> pagination \<Rightarrow> bool \<Rightarrow> notification list act" where
  "PgNotificationRepository_list_for_user user_id page unread_only =
     with_transaction (gets (\<lambda>d. limit_offset (pg_limit page) (pg_offset page)
       (rev (sort_key n_id (filter (\<lambda>n. n_user_id n = user_id \<and> (\<not> unread_only \<or> n_read_at n = None))
                              (t_notifications (tabs d)))))))"

definition unread :: "int \<Rightarrow> tables \<Rightarrow> notification list" where
  "unread user_id t =
     filter (\<lambda>n. n_user_id n = user_id \<and> n_read_at n = None) (t_notifications t)"

definition PgNotificationRepository_unread_count :: "int \<Rightarrow> int act" where
  "PgNotificationRepository_unread_count user_id =
     with_transaction (gets (\<lambda>d. int (length (unread user_id (tabs d)))))"

text \<open>\<^verbatim>\<open>UPDATE ... .affected_rows()\<close>.\<close>

definition update_notifications :: "(notification \<Rightarrow> bool) \<Rightarrow> int db_act" where
  "update_notifications P =
     seq (gets (\<lambda>d. (length (filter P (t_notifications (tabs d))), now d))) (\<lambda>(affected, ts).
     seq (update_tables (t_notifications_update (update_where P (\<lambda>n. n\<lparr>n_read_at := Some ts\<rparr>)))) (\<lambda>_.
     ret (int affected)))"

definition PgNotificationRepository_mark_read :: "int \<Rightarrow> int \<Rightarrow> bool act" where
  "PgNotificationRepository_mark_read i user_id =
     with_transaction (
       seq (update_notifications (\<lambda>n. n_id n = i \<and> n_user_id n = user_id \<and> n_read_at n = None))
         (\<lambda>affected. ret (affected > 0)))"

definition PgNotificationRepository_mark_all_read :: "int \<Rightarrow> int act" where
  "PgNotificationRepository_mark_all_read user_id =
     with_transaction (update_notifications (\<lambda>n. n_user_id n = user_id \<and> n_read_at n = None))"

definition PgNotificationRepository_remove :: "int \<Rightarrow> int \<Rightarrow> bool act" where
  "PgNotificationRepository_remove i user_id =
     with_transaction (
       seq (gets (\<lambda>d. list_ex (\<lambda>n. n_id n = i \<and> n_user_id n = user_id) (t_notifications (tabs d)))) (\<lambda>found.
       seq (update_tables (t_notifications_update
              (filter (\<lambda>n. \<not> (n_id n = i \<and> n_user_id n = user_id))))) (\<lambda>_.
       ret found)))"


section \<open>Service\<close>

fun push_text :: "notification_type \<Rightarrow> string \<times> string" where
  "push_text kNewMessage = (''New message'', ''You have a new message'')"
| "push_text kMention = (''You were mentioned'', ''Someone mentioned you'')"
| "push_text kAddedToGroup = (''Added to a group'', ''You were added to a group'')"
| "push_text kRemovedFromGroup = (''Removed from a group'', ''You were removed from a group'')"
| "push_text kReactionAdded = (''New reaction'', ''Someone reacted to your message'')"
| "push_text kProfileUpdated = (''Profile updated'', ''A profile was updated'')"

definition push_for :: "int \<Rightarrow> notification_type \<Rightarrow> json \<Rightarrow> push_task" where
  "push_for user_id type payload =
     \<lparr>pt_user_id = user_id, pt_title = fst (push_text type), pt_body = snd (push_text type),
      pt_data = payload\<rparr>"

definition NotificationService_create :: "int \<Rightarrow> notification_type \<Rightarrow> json \<Rightarrow> notification act" where
  "NotificationService_create user_id type payload =
     seq (PgNotificationRepository_create user_id type payload) (\<lambda>n.
     seq (increment ''rtc_notifications_total'') (\<lambda>_.
     seq (broadcast [user_id] kNotification (NotificationResponse_to_json n)) (\<lambda>_.
     seq (submit_push (push_for user_id type payload)) (\<lambda>_.
     ret n))))"

definition NotificationService_list :: "int \<Rightarrow> pagination \<Rightarrow> bool \<Rightarrow> notification list act" where
  "NotificationService_list = PgNotificationRepository_list_for_user"

definition NotificationService_unread_count :: "int \<Rightarrow> int act" where
  "NotificationService_unread_count = PgNotificationRepository_unread_count"

definition NotificationService_mark_read :: "int \<Rightarrow> int \<Rightarrow> bool act" where
  "NotificationService_mark_read = PgNotificationRepository_mark_read"

definition NotificationService_mark_all_read :: "int \<Rightarrow> int act" where
  "NotificationService_mark_all_read = PgNotificationRepository_mark_all_read"

definition NotificationService_remove :: "int \<Rightarrow> int \<Rightarrow> bool act" where
  "NotificationService_remove = PgNotificationRepository_remove"


section \<open>Dispatcher\<close>

definition guarded :: "unit act \<Rightarrow> unit act" where
  "guarded fn = catch fn (\<lambda>_. ret ())"

definition NotificationDispatcher_new_message :: "int \<Rightarrow> int \<Rightarrow> int \<Rightarrow> int list \<Rightarrow> unit act" where
  "NotificationDispatcher_new_message sender_id conversation_id message_id recipient_ids =
     guarded (for_each recipient_ids (\<lambda>recipient.
       if recipient = sender_id then ret ()
       else seq (NotificationService_create recipient kNewMessage
              (JObj [(''conversation_id'', JInt conversation_id), (''message_id'', JInt message_id),
                     (''sender_id'', JInt sender_id)])) (\<lambda>_. ret ())))"

definition NotificationDispatcher_added_to_group :: "int \<Rightarrow> int \<Rightarrow> int \<Rightarrow> unit act" where
  "NotificationDispatcher_added_to_group conversation_id added_user_id actor_id =
     guarded (seq (NotificationService_create added_user_id kAddedToGroup
       (JObj [(''conversation_id'', JInt conversation_id), (''actor_id'', JInt actor_id)])) (\<lambda>_. ret ()))"

definition NotificationDispatcher_removed_from_group :: "int \<Rightarrow> int \<Rightarrow> int \<Rightarrow> unit act" where
  "NotificationDispatcher_removed_from_group conversation_id removed_user_id actor_id =
     guarded (seq (NotificationService_create removed_user_id kRemovedFromGroup
       (JObj [(''conversation_id'', JInt conversation_id), (''actor_id'', JInt actor_id)])) (\<lambda>_. ret ()))"

definition NotificationDispatcher_reaction_added :: "int \<Rightarrow> int \<Rightarrow> int \<Rightarrow> string \<Rightarrow> unit act" where
  "NotificationDispatcher_reaction_added message_author_id message_id reactor_id emoji =
     guarded (
       if message_author_id = reactor_id then ret ()
       else seq (NotificationService_create message_author_id kReactionAdded
              (JObj [(''message_id'', JInt message_id), (''reactor_id'', JInt reactor_id),
                     (''emoji'', JStr emoji)])) (\<lambda>_. ret ()))"

definition NotificationDispatcher_profile_updated :: "int \<Rightarrow> unit act" where
  "NotificationDispatcher_profile_updated user_id = ret ()"


section \<open>Constraints\<close>

lemma insert_notification_db_ok:
  assumes "db_ok d" "n_id n = q_notifications (seqs d)" "n_user_id n \<in> user_ids (tabs d)"
  shows "db_ok (d\<lparr>seqs := q_notifications_update (\<lambda>i. i + 1) (seqs d),
                  tabs := t_notifications_update (\<lambda>rows. rows @ [n]) (tabs d)\<rparr>)"
  using assms by (auto simp: db_ok_def table_ok_defs ids_defs intro!: row_intros)

lemma update_notifications_db_ok:
  "db_ok d \<Longrightarrow> db_ok (d\<lparr>tabs := t_notifications_update (update_where P (\<lambda>n. n\<lparr>n_read_at := v\<rparr>)) (tabs d)\<rparr>)"
  by (auto simp: db_ok_def table_ok_defs ids_defs intro!: row_intros)

lemma filter_notifications_db_ok:
  "db_ok d \<Longrightarrow> db_ok (d\<lparr>tabs := t_notifications_update (filter P) (tabs d)\<rparr>)"
  by (auto simp: db_ok_def table_ok_defs ids_defs intro!: row_intros)

lemma PgNotificationRepository_create_inv [keeps_intros]:
  "keeps (inv_rel (\<lambda>w. conv_inv (db w))) (PgNotificationRepository_create u ty p)"
  unfolding PgNotificationRepository_create_def
  by (rule with_transaction_conv_inv)
     (auto simp: act_simps Let_def user_exists_iff conv_inv_def split: if_splits intro!: grow_rules
        intro: insert_notification_db_ok)

lemma grow_update_notifications [keeps_intros]: "keeps seqs_grow (update_notifications P)"
  unfolding update_notifications_def by (intro grow_rules)

lemma update_notifications_conv_inv:
  "conv_inv d \<Longrightarrow> update_notifications P d = (Inr x, d') \<Longrightarrow> conv_inv d'"
  by (auto simp: update_notifications_def act_simps conv_inv_def intro: update_notifications_db_ok)

lemma PgNotificationRepository_mark_read_inv [keeps_intros]:
  "keeps (inv_rel (\<lambda>w. conv_inv (db w))) (PgNotificationRepository_mark_read i u)"
  unfolding PgNotificationRepository_mark_read_def
  by (rule with_transaction_conv_inv)
     (auto intro!: grow_rules grow_update_notifications elim!: seq_succeedsE
        intro: update_notifications_conv_inv)

lemma PgNotificationRepository_mark_all_read_inv [keeps_intros]:
  "keeps (inv_rel (\<lambda>w. conv_inv (db w))) (PgNotificationRepository_mark_all_read u)"
  unfolding PgNotificationRepository_mark_all_read_def
  by (rule with_transaction_conv_inv) (auto intro: keeps_intros update_notifications_conv_inv)

lemma PgNotificationRepository_remove_inv [keeps_intros]:
  "keeps (inv_rel (\<lambda>w. conv_inv (db w))) (PgNotificationRepository_remove i u)"
  unfolding PgNotificationRepository_remove_def
  by (rule with_transaction_conv_inv)
     (auto intro!: grow_rules filter_notifications_db_ok elim!: seq_succeedsE simp: conv_inv_def)

text \<open>The dispatcher never throws, and keeps every invariant of the database its service keeps.\<close>

lemma guarded_never_throws: "\<exists>w'. guarded m w = (Inr (), w')"
  by (auto simp: guarded_def catch_apply split: prod.splits sum.splits)

lemma keeps_guarded [keeps_intros]: "keeps (inv_rel I) m \<Longrightarrow> keeps (inv_rel I) (guarded m)"
  unfolding guarded_def by (intro inv_step.keeps_catch inv_step.keeps_ret)

lemma NotificationService_create_inv [keeps_intros]:
  "keeps (inv_rel (\<lambda>w. conv_inv (db w))) (NotificationService_create u ty p)"
  unfolding NotificationService_create_def by (intro inv_step.keeps_rules keeps_intros)

lemma NotificationDispatcher_inv [keeps_intros]:
  "keeps (inv_rel (\<lambda>w. conv_inv (db w))) (NotificationDispatcher_new_message s c m rs)"
  "keeps (inv_rel (\<lambda>w. conv_inv (db w))) (NotificationDispatcher_added_to_group c u a)"
  "keeps (inv_rel (\<lambda>w. conv_inv (db w))) (NotificationDispatcher_removed_from_group c u a)"
  "keeps (inv_rel (\<lambda>w. conv_inv (db w))) (NotificationDispatcher_reaction_added a m r e)"
  unfolding NotificationDispatcher_new_message_def NotificationDispatcher_added_to_group_def
    NotificationDispatcher_removed_from_group_def NotificationDispatcher_reaction_added_def
  by - (intro inv_step.keeps_rules keeps_intros)+

end
