(* ===== verification/ConversationService.thy ===== *)
theory ConversationService
  imports Notifications
begin

text \<open>
  \<^verbatim>\<open>ConversationService\<close>: creating, renaming, deleting conversations and managing members. Every
  operation checks first, then changes the database, then announces the change to the
  participants' clients and on the event bus.
\<close>


section \<open>Checks\<close>

definition require_conversation :: "int \<Rightarrow> conversation act" where
  "require_conversation c =
     seq (PgConversationRepository_find_by_id c) (\<lambda>conversation.
       case conversation of
         None \<Rightarrow> throw (NotFoundException ''Conversation not found'' (''conversation_id='' @ to_string c))
       | Some conversation \<Rightarrow> ret conversation)"

definition require_participant :: "int \<Rightarrow> int \<Rightarrow> unit act" where
  "require_participant c user_id =
     seq (PgConversationRepository_is_participant c user_id) (\<lambda>yes.
       require yes (NotFoundException ''Conversation not found'' []))"

definition require_owner :: "conversation \<Rightarrow> int \<Rightarrow> unit act" where
  "require_owner conversation user_id =
     seq (require (is_group conversation)
            (ValidationException ''Operation is only valid for group conversations'' [])) (\<lambda>_.
     require (c_owner_id conversation = Some user_id)
       (AuthorizationException ''Only the group owner may perform this action'' []))"

definition require_user_exists :: "int \<Rightarrow> unit act" where
  "require_user_exists user_id =
     seq (PgUserRepository_find_by_id user_id) (\<lambda>user.
       require (user \<noteq> None) (NotFoundException ''User not found'' (''user_id='' @ to_string user_id)))"


section \<open>Operations\<close>

definition ConversationService_create_direct :: "int \<Rightarrow> int list \<Rightarrow> conversation act" where
  "ConversationService_create_direct actor_id participant_ids =
     (case participant_ids of
        [other] \<Rightarrow>
          seq (require (other \<noteq> actor_id)
                 (ValidationException ''Cannot start a direct conversation with yourself''
                    ''field=participant_ids'')) (\<lambda>_.
          seq (require_user_exists other) (\<lambda>_.
          PgConversationRepository_create_or_get_direct actor_id other))
      | _ \<Rightarrow> throw (ValidationException ''A direct conversation requires exactly one other user''
                  ''field=participant_ids''))"

definition ConversationService_create_group ::
    "int \<Rightarrow> string option \<Rightarrow> int list \<Rightarrow> conversation act" where
  "ConversationService_create_group actor_id name participant_ids =
     (case name of
        None \<Rightarrow> throw (ValidationException ''A group requires a name'' ''field=name'')
      | Some n \<Rightarrow>
          seq (of_result (validate_group_name n)) (\<lambda>n.
          let members = filter (\<lambda>i. i \<noteq> actor_id) (sort (remdups participant_ids)) in
          seq (for_each members require_user_exists) (\<lambda>_.
          PgConversationRepository_create_group actor_id n members)))"

definition ConversationService_create :: "int \<Rightarrow> create_conversation_request \<Rightarrow> conversation act" where
  "ConversationService_create actor_id request =
     seq (if cr_type request = kDirect
          then ConversationService_create_direct actor_id (cr_participant_ids request)
          else ConversationService_create_group actor_id (cr_name request) (cr_participant_ids request))
       (\<lambda>conversation.
     seq (PgConversationRepository_list_participants (c_id conversation)) (\<lambda>participants.
     seq (PgConversationRepository_list_participant_ids (c_id conversation)) (\<lambda>ids.
     seq (broadcast ids kConversationCreated (ConversationResponse_to_json conversation participants)) (\<lambda>_.
     seq (publish (ConversationCreated (c_id conversation) actor_id (is_group conversation) ids)) (\<lambda>_.
     ret conversation)))))"

definition ConversationService_get :: "int \<Rightarrow> int \<Rightarrow> conversation act" where
  "ConversationService_get actor_id c =
     seq (require_conversation c) (\<lambda>conversation.
     seq (require_participant c actor_id) (\<lambda>_.
     ret conversation))"

definition ConversationService_list :: "int \<Rightarrow> pagination \<Rightarrow> conversation list act" where
  "ConversationService_list actor_id page = PgConversationRepository_list_for_user actor_id page"

definition ConversationService_remove :: "int \<Rightarrow> int \<Rightarrow> unit act" where
  "ConversationService_remove actor_id c =
     seq (require_conversation c) (\<lambda>conversation.
     seq (if is_group conversation then require_owner conversation actor_id
          else require_participant c actor_id) (\<lambda>_.
     seq (PgConversationRepository_list_participant_ids c) (\<lambda>ids.
     seq (PgConversationRepository_remove c) (\<lambda>_.
     seq (broadcast ids kConversationDeleted (JObj [(''conversation_id'', JInt c)])) (\<lambda>_.
     publish (ConversationDeleted c actor_id))))))"

definition ConversationService_rename_group :: "int \<Rightarrow> int \<Rightarrow> string \<Rightarrow> conversation act" where
  "ConversationService_rename_group actor_id c new_name =
     seq (require_conversation c) (\<lambda>conversation.
     seq (require_owner conversation actor_id) (\<lambda>_.
     seq (of_result (validate_group_name new_name)) (\<lambda>name.
     seq (PgConversationRepository_rename c name) (\<lambda>_.
     seq (require_conversation c) (\<lambda>updated.
     seq (PgConversationRepository_list_participant_ids c) (\<lambda>ids.
     seq (PgConversationRepository_list_participants c) (\<lambda>participants.
     seq (broadcast ids kConversationCreated (ConversationResponse_to_json updated participants)) (\<lambda>_.
     ret updated))))))))"

definition ConversationService_add_member :: "int \<Rightarrow> int \<Rightarrow> int \<Rightarrow> participant act" where
  "ConversationService_add_member actor_id c user_id =
     seq (require_conversation c) (\<lambda>conversation.
     seq (require_owner conversation actor_id) (\<lambda>_.
     seq (require_user_exists user_id) (\<lambda>_.
     seq (PgConversationRepository_add_participant c user_id kMember) (\<lambda>_.
     seq (PgConversationRepository_find_participant c user_id) (\<lambda>participant.
     case participant of
       None \<Rightarrow> throw (InternalException ''Failed to load newly added participant'' [])
     | Some p \<Rightarrow>
         seq (PgConversationRepository_list_participant_ids c) (\<lambda>ids.
         seq (broadcast ids kMemberAdded
                (JObj [(''conversation_id'', JInt c), (''user_id'', JInt user_id)])) (\<lambda>_.
         seq (NotificationDispatcher_added_to_group c user_id actor_id) (\<lambda>_.
         seq (publish (MemberAdded c user_id actor_id)) (\<lambda>_.
         ret p)))))))))"

definition ConversationService_remove_member :: "int \<Rightarrow> int \<Rightarrow> int \<Rightarrow> unit act" where
  "ConversationService_remove_member actor_id c target =
     seq (require_conversation c) (\<lambda>conversation.
     seq (require_owner conversation actor_id) (\<lambda>_.
     seq (require (c_owner_id conversation \<noteq> Some target)
            (ValidationException ''The owner cannot be removed; transfer ownership or delete'' [])) (\<lambda>_.
     seq (PgConversationRepository_list_participant_ids c) (\<lambda>ids.
     seq (PgConversationRepository_remove_participant c target) (\<lambda>_.
     seq (broadcast ids kMemberRemoved
            (JObj [(''conversation_id'', JInt c), (''user_id'', JInt target)])) (\<lambda>_.
     seq (NotificationDispatcher_removed_from_group c target actor_id) (\<lambda>_.
     publish (MemberRemoved c target actor_id))))))))"

text \<open>The branch of a leaving owner, on the member list it has read.\<close>

definition leave_handover :: "int \<Rightarrow> int \<Rightarrow> participant list \<Rightarrow> unit act" where
  "leave_handover actor_id c ms =
     (case List.find (\<lambda>p. p_user_id p \<noteq> actor_id) ms of
        Some successor \<Rightarrow>
          seq (PgConversationRepository_transfer_ownership c (p_user_id successor)) (\<lambda>_.
          PgConversationRepository_remove_participant c actor_id)
      | None \<Rightarrow> PgConversationRepository_remove c)"

definition ConversationService_leave :: "int \<Rightarrow> int \<Rightarrow> unit act" where
  "ConversationService_leave actor_id c =
     seq (require_conversation c) (\<lambda>conversation.
     seq (require_participant c actor_id) (\<lambda>_.
     seq (PgConversationRepository_list_participant_ids c) (\<lambda>ids.
     seq (if is_group conversation \<and> c_owner_id conversation = Some actor_id
          then seq (PgConversationRepository_list_participants c) (leave_handover actor_id c)
          else PgConversationRepository_remove_participant c actor_id) (\<lambda>_.
     broadcast ids kMemberRemoved
       (JObj [(''conversation_id'', JInt c), (''user_id'', JInt actor_id)])))))"

lemmas repository_read_defs = PgConversationRepository_find_by_id_def
  PgConversationRepository_list_for_user_def PgConversationRepository_list_participants_def
  PgConversationRepository_list_participant_ids_def PgConversationRepository_list_conversation_ids_def
  PgConversationRepository_list_peer_ids_def PgConversationRepository_find_participant_def
  PgConversationRepository_is_participant_def PgUserRepository_find_by_id_def


section \<open>What the checks establish\<close>

lemma wp_require_conversation:
  assumes "\<And>x. find_conversation c (tabs (db w)) = Some x \<Longrightarrow> Q x (quiet w)"
    and "\<And>e. E e (quiet w)"
  shows "wp (require_conversation c) Q E w"
  unfolding require_conversation_def repository_read_defs wp_seq
  by (rule wp_read) (use assms in \<open>auto simp: wp_simps split: option.splits\<close>)

lemma wp_require_participant:
  assumes "is_member c u (tabs (db w)) \<Longrightarrow> Q () (quiet w)" and "\<And>e. E e (quiet w)"
  shows "wp (require_participant c u) Q E w"
  unfolding require_participant_def repository_read_defs wp_seq
  by (rule wp_read) (use assms in \<open>auto simp: wp_simps\<close>)

lemma wp_require_owner:
  assumes "is_group conv \<Longrightarrow> c_owner_id conv = Some u \<Longrightarrow> Q () w" and "\<And>e. E e w"
  shows "wp (require_owner conv u) Q E w"
  using assms by (simp add: require_owner_def wp_simps)

lemma checks_keep [keeps_intros]:
  "keeps (inv_rel (\<lambda>w. I (db w))) (require_conversation c)"
  "keeps (inv_rel (\<lambda>w. I (db w))) (require_participant c u)"
  "keeps (inv_rel (\<lambda>w. I (db w))) (require_owner conv u)"
  "keeps (inv_rel (\<lambda>w. I (db w))) (require_user_exists u)"
  unfolding require_conversation_def require_participant_def require_owner_def require_user_exists_def
  by - (intro inv_step.keeps_rules keeps_intros)+


section \<open>The membership rules are kept\<close>

text \<open>Adding a plain member.\<close>

lemma add_member_inv [keeps_intros]:
  "keeps (inv_rel (\<lambda>w. conv_inv (db w))) (PgConversationRepository_add_participant c u kMember)"
  unfolding PgConversationRepository_add_participant_def
proof (rule with_transaction_conv_inv)
  fix d x d'
  assume "conv_inv d" "catch (insert_participant False c u kMember) (\<lambda>e.
       case e of
         DbSql (UniqueViolation idx key) \<Rightarrow>
           throw (DbApp (ConflictException ''User is already a member of the conversation'' []))
       | _ \<Rightarrow> throw e) d = (Inr x, d')"
  then show "conv_inv d'"
    by (auto simp: catch_apply split: sum.splits prod.splits db_thrown.splits sql_error.splits
        intro: insert_member_conv_inv)
qed (intro grow_rules grow_insert_participant, auto split: db_thrown.splits sql_error.splits intro!: grow_rules)

lemma ConversationService_create_inv [keeps_intros]:
  "keeps (inv_rel (\<lambda>w. conv_inv (db w))) (ConversationService_create actor req)"
proof -
  have "keeps (inv_rel (\<lambda>w. conv_inv (db w))) (ConversationService_create_direct actor ids)" for ids
    unfolding ConversationService_create_direct_def
    by (auto split: list.splits intro!: inv_step.keeps_rules keeps_intros)
  moreover have "keeps (inv_rel (\<lambda>w. conv_inv (db w))) (ConversationService_create_group actor n ids)" for n ids
    unfolding ConversationService_create_group_def by (intro inv_step.keeps_rules keeps_intros)
  ultimately show ?thesis
    unfolding ConversationService_create_def by (intro inv_step.keeps_rules keeps_intros)
qed

lemma ConversationService_simple_inv [keeps_intros]:
  "keeps (inv_rel (\<lambda>w. conv_inv (db w))) (ConversationService_remove actor c)"
  "keeps (inv_rel (\<lambda>w. conv_inv (db w))) (ConversationService_rename_group actor c n)"
  "keeps (inv_rel (\<lambda>w. conv_inv (db w))) (ConversationService_add_member actor c u)"
  "keeps (inv_rel (\<lambda>w. conv_inv (db w))) (ConversationService_get actor c)"
  "keeps (inv_rel (\<lambda>w. conv_inv (db w))) (ConversationService_list actor page)"
  unfolding ConversationService_remove_def ConversationService_rename_group_def
    ConversationService_add_member_def ConversationService_get_def ConversationService_list_def
  by - (intro inv_step.keeps_rules keeps_intros)+


text \<open>Removing anybody but the owner, and the hand-over of a leaving owner.\<close>

lemma wp_remove_participant:
  assumes "conv_inv (db w)"
    and "\<And>k. k \<in> set (t_conversations (tabs (db w))) \<Longrightarrow> c_id k = c \<Longrightarrow> c_owner_id k \<noteq> Some u"
  shows "wp (PgConversationRepository_remove_participant c u)
           (\<lambda>_ w'. conv_inv (db w')) (\<lambda>_ w'. conv_inv (db w')) w"
  unfolding PgConversationRepository_remove_participant_def
  by (rule wp_transaction)
     (use assms in \<open>auto simp: conv_inv_def intro: delete_participant_db_ok delete_participant_rules\<close>)

lemma found_conversation_unique:
  assumes "conv_inv d" "find_conversation c (tabs d) = Some x"
    and "k \<in> set (t_conversations (tabs d))" "c_id k = c"
  shows "k = x"
proof -
  have "find_conversation c (tabs d) = Some k"
    using assms(1,3,4) find_conversation_iff [of d c k] by (simp add: conv_inv_def)
  then show ?thesis using assms(2) by simp
qed

lemma wp_owner_checked:
  assumes "\<And>x. find_conversation c (tabs (db w)) = Some x \<Longrightarrow> is_group x \<Longrightarrow>
      c_owner_id x = Some actor \<Longrightarrow> wp (f x ()) Q E (quiet w)"
    and "\<And>e. E e (quiet w)"
  shows "wp (seq (require_conversation c) (\<lambda>x. seq (require_owner x actor) (f x))) Q E w"
  unfolding wp_seq by (intro wp_require_conversation wp_require_owner assms)

lemma ConversationService_remove_member_inv [keeps_intros]:
  "keeps (inv_rel (\<lambda>w. conv_inv (db w))) (ConversationService_remove_member actor c target)"
proof (rule inv_wpI)
  fix w :: world assume inv: "conv_inv (db w)"
  show "wp (ConversationService_remove_member actor c target)
          (\<lambda>_ w'. conv_inv (db w')) (\<lambda>_ w'. conv_inv (db w')) w"
    unfolding ConversationService_remove_member_def repository_read_defs
    by (intro wp_owner_checked wp_require_seq wp_read_seq wp_then_keeps wp_remove_participant
          inv_step.keeps_rules keeps_intros)
       (use inv in \<open>auto dest: found_conversation_unique [OF inv]\<close>)
qed

text \<open>Handing a group over to a member: afterwards the new owner is the one on record.\<close>

lemma wp_transfer_ownership:
  assumes inv: "conv_inv (db w)" and x: "find_conversation c (tabs (db w)) = Some x" "is_group x"
    and mem: "is_member c own (tabs (db w))"
    and Q: "\<And>w'. conv_inv (db w') \<Longrightarrow> (\<And>k. k \<in> set (t_conversations (tabs (db w'))) \<Longrightarrow> c_id k = c \<Longrightarrow>
              c_owner_id k = Some own) \<Longrightarrow> Q () w'"
    and E: "\<And>e w'. conv_inv (db w') \<Longrightarrow> E e w'"
  shows "wp (PgConversationRepository_transfer_ownership c own) Q E w"
proof -
  let ?upd = "\<lambda>x. x\<lparr>c_owner_id := Some own, c_updated_at := now (db w)\<rparr>"
  let ?d = "(db w)\<lparr>tabs := t_participants_update (demote_promote c own)
      (t_conversations_update (update_where (\<lambda>x. c_id x = c) ?upd) (tabs (db w)))\<rparr>"
  have grp: "is_group k" if "k \<in> set (t_conversations (tabs (db w)))" "c_id k = c" for k
    using found_conversation_unique [OF inv x(1) that] x(2) by simp
  have own: "own \<in> user_ids (tabs (db w))"
    using inv mem by (auto simp: conv_inv_def db_ok_def participants_ok_def refs_def is_member_iff members_def)
  have ok: "conv_inv ?d"
    using transfer_db_ok [OF _ own] transfer_rules [OF inv mem grp] inv by (simp add: conv_inv_def)
  have new: "c_owner_id k = Some own" if "k \<in> set (t_conversations (tabs ?d))" "c_id k = c" for k
  proof -
    from that(1) have "k \<in> set (update_where (\<lambda>x. c_id x = c) ?upd (t_conversations (tabs (db w))))" by simp
    then obtain r where "k = (if c_id r = c then ?upd r else r)" by (rule in_update_whereE)
    then show ?thesis using that(2) by (cases "c_id r = c") auto
  qed
  show ?thesis
    unfolding PgConversationRepository_transfer_ownership_def
  proof (rule wp_transaction)
    fix u d
    assume "seq (gets (\<lambda>d. (tabs d, now d))) (\<lambda>(t, ts).
       seq (require (find_conversation c t = None \<or> user_exists own t)
              (DbSql (ForeignKeyViolation ''conversations''))) (\<lambda>_.
       seq (update_tables (t_conversations_update (update_where (\<lambda>x. c_id x = c)
              (\<lambda>x. x\<lparr>c_owner_id := Some own, c_updated_at := ts\<rparr>)))) (\<lambda>_.
       update_tables (t_participants_update (demote_promote c own))))) (db w) = (Inr u, d)"
    then have "d = ?d" by (simp add: act_simps split: if_splits)
    then have d: "db (w\<lparr>faults := tl (faults w), db := d\<rparr>) = ?d" by simp
    have "Q () (w\<lparr>faults := tl (faults w), db := d\<rparr>)"
      by (rule Q; unfold d) (rule ok, rule new)
    then show "Q u (w\<lparr>faults := tl (faults w), db := d\<rparr>)" by simp
  qed (use inv E own in \<open>auto simp: act_simps user_exists_iff rollback_def split: if_splits\<close>)
qed

lemma wp_leave_handover:
  assumes inv: "conv_inv (db w)" and x: "find_conversation c (tabs (db w)) = Some x" "is_group x"
    and ms: "set ms = set (members c (tabs (db w)))"
  shows "wp (leave_handover actor c ms) (\<lambda>_ w'. conv_inv (db w')) (\<lambda>_ w'. conv_inv (db w')) w"
proof (cases "List.find (\<lambda>p. p_user_id p \<noteq> actor) ms")
  case None
  then show ?thesis
    using inv_wpD [OF PgConversationRepository_remove_inv inv] by (simp add: leave_handover_def)
next
  case (Some s)
  then have s: "s \<in> set (members c (tabs (db w)))" "p_user_id s \<noteq> actor"
    using find_SomeD [OF Some] ms by auto
  then have mem: "is_member c (p_user_id s) (tabs (db w))" by (auto simp: is_member_iff)
  have "wp (PgConversationRepository_transfer_ownership c (p_user_id s))
      (\<lambda>_ w'. wp (PgConversationRepository_remove_participant c actor)
         (\<lambda>_ w'. conv_inv (db w')) (\<lambda>_ w'. conv_inv (db w')) w') (\<lambda>_ w'. conv_inv (db w')) w"
    by (rule wp_transfer_ownership [OF inv x mem]) (auto intro!: wp_remove_participant simp: s)
  then show ?thesis by (simp add: leave_handover_def Some wp_seq)
qed

lemma ConversationService_leave_inv [keeps_intros]:
  "keeps (inv_rel (\<lambda>w. conv_inv (db w))) (ConversationService_leave actor c)"
proof (rule inv_wpI)
  fix w :: world assume inv: "conv_inv (db w)"
  show "wp (ConversationService_leave actor c) (\<lambda>_ w'. conv_inv (db w')) (\<lambda>_ w'. conv_inv (db w')) w"
    unfolding ConversationService_leave_def wp_seq [of "require_conversation c"]
  proof (rule wp_require_conversation)
    fix x assume x: "find_conversation c (tabs (db w)) = Some x"
    have branch: "wp (if is_group x \<and> c_owner_id x = Some actor
        then seq (PgConversationRepository_list_participants c) (leave_handover actor c)
        else PgConversationRepository_remove_participant c actor)
       (\<lambda>_ w'. conv_inv (db w')) (\<lambda>_ w'. conv_inv (db w')) v" if v: "db v = db w" for v
    proof (cases "is_group x \<and> c_owner_id x = Some actor")
      case True
      then show ?thesis
        unfolding repository_read_defs
        by (auto intro!: wp_read_seq wp_leave_handover simp: v inv x)
    next
      case False
      have rules: "conversation_rules (tabs (db w)) x"
        using inv find_conversation_Some [OF x] by (simp add: conv_inv_def membership_ok_def)
      then have "c_owner_id x \<noteq> Some actor"
        using False by (auto simp: conversation_rules_def is_group_def split: conversation_type.splits)
      then have "wp (PgConversationRepository_remove_participant c actor)
          (\<lambda>_ w'. conv_inv (db w')) (\<lambda>_ w'. conv_inv (db w')) v"
        using inv x found_conversation_unique [OF inv x] by (intro wp_remove_participant) (auto simp: v)
      then show ?thesis using False by auto
    qed
    show "wp (seq (require_participant c actor) (\<lambda>_.
        seq (PgConversationRepository_list_participant_ids c) (\<lambda>ids.
        seq (if is_group x \<and> c_owner_id x = Some actor
          then seq (PgConversationRepository_list_participants c) (leave_handover actor c)
          else PgConversationRepository_remove_participant c actor) (\<lambda>_.
        broadcast ids kMemberRemoved
          (JObj [(''conversation_id'', JInt c), (''user_id'', JInt actor)])))))
        (\<lambda>_ w'. conv_inv (db w')) (\<lambda>_ w'. conv_inv (db w')) (quiet w)"
      unfolding wp_seq [of "require_participant c actor"]
        PgConversationRepository_list_participant_ids_def
      by (intro wp_require_participant wp_read_seq wp_then_keeps branch db_frame) (simp_all add: inv)
  qed (use inv in auto)
qed


section \<open>Leaving\<close>

lemma find_first_sorted:
  assumes "List.find P (sort_key f xs) = Some s"
  shows "s \<in> set xs \<and> P s \<and> (\<forall>p \<in> set xs. P p \<longrightarrow> f s \<le> f p)"
proof -
  from assms obtain i where i: "i < length (sort_key f xs)" "sort_key f xs ! i = s" "P s"
    "\<And>j. j < i \<Longrightarrow> \<not> P (sort_key f xs ! j)" by (auto simp: find_Some_iff)
  have "f s \<le> f p" if p: "p \<in> set xs" "P p" for p
  proof -
    obtain j where j: "j < length (sort_key f xs)" "sort_key f xs ! j = p"
      using p(1) by (metis in_set_conv_nth set_sort)
    then have "i \<le> j" using i(4) p(2) not_le by metis
    then show ?thesis
      using sorted_nth_mono [of "map f (sort_key f xs)" i j] i(1,2) j by simp
  qed
  moreover have "s \<in> set xs" using i by (metis nth_mem set_sort)
  ultimately show ?thesis using i(3) by blast
qed

lemma find_conversation_update:
  assumes "find_conversation c t = Some x" "\<And>x. c_id (f x) = c_id x"
  shows "find_conversation c (t_conversations_update (update_where (\<lambda>x. c_id x = c) f) t) = Some (f x)"
proof -
  have "List.find (\<lambda>x. c_id x = c) (update_where (\<lambda>x. c_id x = c) f xs) =
      map_option f (List.find (\<lambda>x. c_id x = c) xs)" for xs
    by (induction xs) (auto simp: update_where_def assms(2))
  then show ?thesis using assms(1) by (simp add: find_conversation_def)
qed

text \<open>The state after a leaving owner has handed the group to \<open>new_owner\<close>.\<close>

definition after_handover :: "int \<Rightarrow> int \<Rightarrow> int \<Rightarrow> time_point \<Rightarrow> tables \<Rightarrow> tables" where
  "after_handover actor c new_owner ts t =
     delete_participant c actor
       (t_participants_update (demote_promote c new_owner)
         (t_conversations_update (update_where (\<lambda>x. c_id x = c)
            (\<lambda>x. x\<lparr>c_owner_id := Some new_owner, c_updated_at := ts\<rparr>)) t))"

lemma leave_runs:
  assumes inv: "conv_inv (db w)" and quiet: "faults w = []"
    and conv: "find_conversation c (tabs (db w)) = Some conv"
    and mem: "is_member c actor (tabs (db w))"
  shows "ConversationService_leave actor c w =
    (Inr (), w\<lparr>db := (db w)\<lparr>tabs :=
        (if is_group conv \<and> c_owner_id conv = Some actor then
           (case List.find (\<lambda>p. p_user_id p \<noteq> actor) (sorted_members c (tabs (db w))) of
              None \<Rightarrow> delete_conversation c (tabs (db w))
            | Some s \<Rightarrow> after_handover actor c (p_user_id s) (now (db w)) (tabs (db w)))
         else delete_participant c actor (tabs (db w)))\<rparr>,
      outbox := outbox w @ [(map p_user_id (members c (tabs (db w))), kMemberRemoved,
        JObj [(''conversation_id'', JInt c), (''user_id'', JInt actor)])]\<rparr>)"
proof -
  have user: "user_exists (p_user_id p) (tabs (db w))" if "p \<in> set (members c (tabs (db w)))" for p
    using inv that
    by (auto simp: conv_inv_def db_ok_def participants_ok_def refs_def members_def user_exists_iff)
  have s: "user_exists (p_user_id p) (tabs (db w))"
    if "List.find (\<lambda>p. p_user_id p \<noteq> actor) (sorted_members c (tabs (db w))) = Some p" for p
    using find_SomeD [OF that] user by simp
  have checks: "require_conversation c w = (Inr conv, w)" "require_participant c actor w = (Inr (), w)"
    using quiet conv mem
    by (simp_all add: require_conversation_def require_participant_def repository_read_defs act_simps)
  show ?thesis
    using checks quiet s
    by (auto simp: ConversationService_leave_def repository_read_defs leave_handover_def act_simps
        PgConversationRepository_remove_def PgConversationRepository_remove_participant_def
        PgConversationRepository_transfer_ownership_def with_transaction_quiet after_handover_def
        split: option.splits)
qed


text \<open>C6. When the owner of a group leaves, the group passes to the member who joined earliest: that
  member becomes the recorded owner and the only participant with the owner role, everybody but
  the leaver stays, and all former participants are told. If nobody else is left, the group and
  everything in it is deleted.\<close>

theorem leave_hands_over:
  assumes inv: "conv_inv (db w)" and quiet: "faults w = []"
    and conv: "find_conversation c (tabs (db w)) = Some conv"
    and owner: "is_group conv" "c_owner_id conv = Some actor"
  shows "\<exists>w'. ConversationService_leave actor c w = (Inr (), w') \<and>
    outbox w' = outbox w @ [(map p_user_id (members c (tabs (db w))), kMemberRemoved,
      JObj [(''conversation_id'', JInt c), (''user_id'', JInt actor)])] \<and>
    (if \<exists>p \<in> set (members c (tabs (db w))). p_user_id p \<noteq> actor
     then \<exists>s \<in> set (members c (tabs (db w))). p_user_id s \<noteq> actor \<and>
       (\<forall>p \<in> set (members c (tabs (db w))). p_user_id p \<noteq> actor \<longrightarrow>
          (p_joined_at s, p_id s) \<le> (p_joined_at p, p_id p)) \<and>
       map_option c_owner_id (find_conversation c (tabs (db w'))) = Some (Some (p_user_id s)) \<and>
       p_user_id ` set (members c (tabs (db w'))) =
         p_user_id ` set (members c (tabs (db w))) - {actor} \<and>
       (\<forall>p \<in> set (members c (tabs (db w'))). p_role p = kOwner \<longleftrightarrow> p_user_id p = p_user_id s)
     else find_conversation c (tabs (db w')) = None \<and> members c (tabs (db w')) = [] \<and>
       (\<forall>m \<in> set (t_messages (tabs (db w'))). m_conversation_id m \<noteq> c))"
proof -
  let ?t = "tabs (db w)"
  have "conversation_rules ?t conv" "c_id conv = c"
    using inv find_conversation_Some [OF conv] by (auto simp: conv_inv_def membership_ok_def)
  then have mem: "is_member c actor ?t"
    using owner group_rules by (metis option.inject)
  note run = leave_runs [OF inv quiet conv mem]
  show ?thesis
  proof (cases "List.find (\<lambda>p. p_user_id p \<noteq> actor) (sorted_members c ?t)")
    case None
    then have alone: "\<not> (\<exists>p \<in> set (members c ?t). p_user_id p \<noteq> actor)"
      by (auto simp: find_None_iff)
    have "find_conversation c (delete_conversation c ?t) = None"
      "members c (delete_conversation c ?t) = []"
      by (auto simp: find_conversation_def find_None_iff delete_conversation_def Let_def members_def
          filter_empty_conv)
    then show ?thesis
      using run owner None alone by (simp add: delete_conversation_def Let_def)
  next
    case (Some s)
    let ?t' = "after_handover actor c (p_user_id s) (now (db w)) ?t"
    have s: "s \<in> set (members c ?t)" "p_user_id s \<noteq> actor"
      "\<And>p. p \<in> set (members c ?t) \<Longrightarrow> p_user_id p \<noteq> actor \<Longrightarrow> (p_joined_at s, p_id s) \<le> (p_joined_at p, p_id p)"
      using find_first_sorted [OF Some [unfolded sorted_members_def]] by auto
    have ms: "members c ?t' = map (\<lambda>p. p\<lparr>p_role := (if p_user_id p = p_user_id s then kOwner else kMember)\<rparr>)
        (filter (\<lambda>p. p_user_id p \<noteq> actor) (members c ?t))"
      by (simp add: after_handover_def members_delete_participant members_demote_promote filter_map comp_def)
    have "find_conversation c ?t' = Some (conv\<lparr>c_owner_id := Some (p_user_id s), c_updated_at := now (db w)\<rparr>)"
      using find_conversation_update [OF conv]
      by (simp add: after_handover_def delete_participant_def find_conversation_def)
    moreover have "p_user_id ` set (members c ?t') = p_user_id ` set (members c ?t) - {actor}"
      by (auto simp: ms image_image)
    moreover have "p_role p = kOwner \<longleftrightarrow> p_user_id p = p_user_id s" if "p \<in> set (members c ?t')" for p
      using that by (auto simp: ms split: if_splits)
    ultimately show ?thesis
      using run owner Some s by auto
  qed
qed

text \<open>A concrete group to run the operations on: user 1 owns group 7 with members 2 and 3.\<close>

definition example_user :: "int \<Rightarrow> string \<Rightarrow> admin_user_record" where
  "example_user i name =
     \<lparr>ar_user = \<lparr>u_id = i, u_username = name, u_email = name @ ''@example.com'', u_password_hash = ''h'',
        u_display_name = None, u_bio = None, u_avatar_url = None, u_created_at = 0, u_updated_at = 0\<rparr>,
      ar_role = kUser, ar_banned_at = None, ar_ban_reason = None, ar_banned_by = None\<rparr>"

definition example_participant :: "int \<Rightarrow> int \<Rightarrow> int \<Rightarrow> participant_role \<Rightarrow> time_point \<Rightarrow> participant" where
  "example_participant i c u ro ts =
     \<lparr>p_id = i, p_conversation_id = c, p_user_id = u, p_role = ro, p_joined_at = ts,
      p_last_read_message_id = None\<rparr>"

definition example_tables :: tables where
  "example_tables =
     \<lparr>t_users = [example_user 1 ''ada'', example_user 2 ''bob'', example_user 3 ''eve''],
      t_conversations = [\<lparr>c_id = 7, c_type = kGroup, c_name = Some ''team'', c_owner_id = Some 1,
        c_direct_key = None, c_created_at = 0, c_updated_at = 0, c_last_message_at = None\<rparr>],
      t_participants = [example_participant 1 7 1 kOwner 0, example_participant 2 7 3 kMember 5,
        example_participant 3 7 2 kMember 4],
      t_messages = [], t_receipts = [], t_reactions = [], t_notifications = [], t_sessions = [],
      t_attachments = [], t_audit_logs = []\<rparr>"

definition example_world :: world where
  "example_world =
     \<lparr>db = \<lparr>tabs = example_tables,
        seqs = \<lparr>q_users = 4, q_conversations = 8, q_participants = 4, q_messages = 1, q_receipts = 1,
          q_reactions = 1, q_notifications = 1, q_attachments = 1, q_audit_logs = 1\<rparr>,
        now = 100, sql_what = (\<lambda>_. ''sql error'')\<rparr>,
      faults = [], engine = (\<lambda>i. i), drawn = 0, ambient_trace = None, outbox = [],
      publisher_attached = True, bus = [], executor_running = True, tasks = [], counters = [], observed = [],
      disk = Map.empty, disk_faults = []\<rparr>"

lemmas example_defs = example_world_def example_tables_def example_user_def example_participant_def

lemma example_db_ok: "db_ok (db example_world)"
  by (simp add: example_defs db_ok_def table_ok_defs serial_key_def unique_def opt_unique_def refs_def
      opt_refs_def ids_defs to_lower_def tolower_def isupper_def)

lemma example_inv: "conv_inv (db example_world)"
  using example_db_ok
  by (simp add: conv_inv_def) (simp add: example_defs membership_ok_def conversation_rules_def members_def)

lemma example_conversation:
  "find_conversation 7 (tabs (db example_world)) =
     Some \<lparr>c_id = 7, c_type = kGroup, c_name = Some ''team'', c_owner_id = Some 1,
        c_direct_key = None, c_created_at = 0, c_updated_at = 0, c_last_message_at = None\<rparr>"
  by (simp add: example_defs find_conversation_def)

theorem leave_hands_over_witness:
  "\<exists>w'. ConversationService_leave 1 7 example_world = (Inr (), w') \<and>
     map_option c_owner_id (find_conversation 7 (tabs (db w'))) = Some (Some 2) \<and>
     p_user_id ` set (members 7 (tabs (db w'))) = {2, 3}"
  using leave_hands_over [OF example_inv _ example_conversation, of 1]
  by (auto simp: example_defs members_def is_group_def)


section \<open>Who may do what\<close>

text \<open>The action throws, and nothing has happened: no table, no file, no message to a client, no
  event, no push. Unless the database fails, the exception has the given type.\<close>

definition untouched :: "world \<Rightarrow> world \<Rightarrow> bool" where
  "untouched w w' \<longleftrightarrow> db w' = db w \<and> disk w' = disk w \<and> outbox w' = outbox w \<and> bus w' = bus w \<and> tasks w' = tasks w"

definition refused :: "error_type \<Rightarrow> 'a act \<Rightarrow> world \<Rightarrow> bool" where
  "refused ty m w \<longleftrightarrow>
     (\<exists>e w'. m w = (Inl e, w') \<and> (faults w = [] \<longrightarrow> ex_type e = ty) \<and> untouched w w')"

lemma refused_wp:
  "refused ty m w \<longleftrightarrow>
     wp m (\<lambda>_ _. False) (\<lambda>e w'. (faults w = [] \<longrightarrow> ex_type e = ty) \<and> untouched w w') w"
  by (auto simp: refused_def wp_def split: prod.splits sum.splits)

lemma untouched_refl [simp]: "untouched w w" "untouched w (w\<lparr>faults := fs\<rparr>)"
  by (simp_all add: untouched_def)

lemma untouched_faults [simp]:
  "untouched w (w'\<lparr>faults := fs\<rparr>) = untouched w w'" "untouched (w\<lparr>faults := fs\<rparr>) w' = untouched w w'"
  by (simp_all add: untouched_def)

lemma require_conversation_found:
  assumes "find_conversation c (tabs (db w)) = Some x"
  shows "wp (require_conversation c) (\<lambda>y w'. y = x \<and> w' = quiet w)
           (\<lambda>e w'. faults w \<noteq> [] \<and> w' = quiet w) w"
  unfolding require_conversation_def repository_read_defs wp_seq
  by (rule wp_read_strict) (use assms in \<open>simp_all add: wp_simps\<close>)

lemma refused_not_owner:
  assumes "find_conversation c (tabs (db w)) = Some conv" "is_group conv" "c_owner_id conv \<noteq> Some actor"
  shows "refused kAuthorization (seq (require_conversation c) (\<lambda>x. seq (require_owner x actor) (k x))) w"
  unfolding refused_wp wp_seq
  by (rule wp_mono [OF require_conversation_found [OF assms(1)]])
     (use assms in \<open>auto simp: require_owner_def wp_simps exception_defs\<close>)

text \<open>C13. Only the owner manages a group: renaming it, adding or removing members and deleting it are
  refused with an authorisation error to everybody else, and a refused call leaves no trace in the
  database, in clients' event streams, on the event bus or in the push queue.\<close>

theorem owner_only:
  assumes "find_conversation c (tabs (db w)) = Some conv" "is_group conv" "c_owner_id conv \<noteq> Some actor"
  shows "refused kAuthorization (ConversationService_rename_group actor c name) w \<and>
    refused kAuthorization (ConversationService_add_member actor c user) w \<and>
    refused kAuthorization (ConversationService_remove_member actor c user) w \<and>
    refused kAuthorization (ConversationService_remove actor c) w"
proof -
  have "refused kAuthorization (ConversationService_remove actor c) w"
    unfolding ConversationService_remove_def
    unfolding refused_wp wp_seq
  by (rule wp_mono [OF require_conversation_found [OF assms(1)]])
       (use assms in \<open>auto simp: require_owner_def wp_simps exception_defs\<close>)
  then show ?thesis
    unfolding ConversationService_rename_group_def ConversationService_add_member_def
      ConversationService_remove_member_def
    by (intro conjI refused_not_owner [OF assms])
qed

theorem owner_only_witness:
  "refused kAuthorization (ConversationService_remove 2 7) example_world \<and>
   refused kAuthorization (ConversationService_rename_group 3 7 ''mine'') example_world"
  using owner_only [OF example_conversation, of 2] owner_only [OF example_conversation, of 3]
  by (simp add: is_group_def)

end
