(* ===== verification/ConversationCreation.thy ===== *)
theory ConversationCreation
  imports ConversationService
begin

text \<open>
  What the operations of \<^verbatim>\<open>ConversationService\<close> that create conversations achieve: one direct
  conversation per pair of users, and groups with exactly the requested members. The last
  section is about two members leaving at the same time.
\<close>


section \<open>Effects of the insertions\<close>

lemma insert_participant_effect:
  assumes "c \<in> conversation_ids (tabs d)" "u \<in> user_ids (tabs d)" "b \<or> \<not> is_member c u (tabs d)"
  obtains d' where "insert_participant b c u ro d = (Inr (), d')"
    "t_conversations (tabs d') = t_conversations (tabs d)" "t_users (tabs d') = t_users (tabs d)"
    "\<And>c' u'. is_member c' u' (tabs d') \<longleftrightarrow> is_member c' u' (tabs d) \<or> c' = c \<and> u' = u"
    "is_member c u (tabs d) \<Longrightarrow> tabs d' = tabs d"
proof (cases "is_member c u (tabs d)")
  case True
  then show ?thesis using assms that by (force simp: insert_participant_def act_simps)
next
  case False
  then show ?thesis
    using assms that
    by (force simp: insert_participant_def act_simps find_conversation_None user_exists_iff is_member_def)
qed

lemma upsert_direct_effect:
  assumes "db_ok d"
  obtains c d' where "upsert_direct key d = (Inr c, d')" "c_direct_key c = Some key"
    "c \<in> set (t_conversations (tabs d'))" "t_users (tabs d') = t_users (tabs d)"
    "t_participants (tabs d') = t_participants (tabs d)"
    "conversation_ids (tabs d') = insert (c_id c) (conversation_ids (tabs d))"
    "\<And>c0. c0 \<in> set (t_conversations (tabs d)) \<Longrightarrow> c_direct_key c0 = Some key \<Longrightarrow> c_id c = c_id c0"
proof -
  obtain c d' where run: "upsert_direct key d = (Inr c, d')"
    by (cases "List.find (\<lambda>c. c_direct_key c = Some key) (t_conversations (tabs d))")
       (auto simp: upsert_direct_def act_simps Let_def)
  then show ?thesis
  proof (cases rule: upsert_direct_cases)
    case (existing c0)
    have "c_id c = c_id c1" if "c1 \<in> set (t_conversations (tabs d))" "c_direct_key c1 = Some key" for c1
    proof -
      have "opt_unique c_direct_key (t_conversations (tabs d))"
        using assms by (simp add: db_ok_def conversations_ok_def)
      then have "c0 = c1" by (rule opt_unique_eq) (use existing that in auto)
      then show ?thesis using existing by simp
    qed
    moreover have "c \<in> set (t_conversations (tabs d'))"
      using existing by (auto simp: set_update_where)
    moreover have "conversation_ids (tabs d') = insert (c_id c) (conversation_ids (tabs d))"
      using existing by (auto simp: conversation_ids_def image_update_where)
    moreover have "c_direct_key c = Some key" "t_users (tabs d') = t_users (tabs d)"
      "t_participants (tabs d') = t_participants (tabs d)"
      using existing by simp_all
    ultimately show ?thesis using that [OF run] by simp
  next
    case fresh
    then have "c \<in> set (t_conversations (tabs d'))" "t_users (tabs d') = t_users (tabs d)"
      "t_participants (tabs d') = t_participants (tabs d)"
      "conversation_ids (tabs d') = insert (c_id c) (conversation_ids (tabs d))"
      by (simp_all add: conversation_ids_def)
    then show ?thesis using that [OF run] fresh(1,5) by simp
  qed
qed


section \<open>Direct conversations\<close>

lemma key_and_id_agree:
  assumes "conv_inv d" "c0 \<in> set (t_conversations (tabs d))" "c1 \<in> set (t_conversations (tabs d))"
    and "c_direct_key c1 = Some key"
  shows "c_direct_key c0 = Some key \<longleftrightarrow> c_id c0 = c_id c1"
proof -
  have "opt_unique c_direct_key (t_conversations (tabs d))" "unique c_id (t_conversations (tabs d))"
    using assms(1) by (auto simp: conv_inv_def db_ok_def conversations_ok_def intro: serial_key_unique)
  moreover have "c_direct_key c0 = Some key \<Longrightarrow> c0 = c1"
    by (rule opt_unique_eq [OF calculation(1) assms(2,3)]) (use assms(4) in auto)
  moreover have "c_id c0 = c_id c1 \<Longrightarrow> c0 = c1"
    using calculation(2) assms(2,3) by (auto simp: unique_def distinct_map dest: inj_onD)
  ultimately show ?thesis using assms(4) by auto
qed

text \<open>What the transaction of \<^verbatim>\<open>create_or_get_direct\<close> does to the tables.\<close>

definition direct_effect :: "int \<Rightarrow> int \<Rightarrow> tables \<Rightarrow> conversation \<Rightarrow> tables \<Rightarrow> bool" where
  "direct_effect a b t c t' \<longleftrightarrow>
     c_direct_key c = Some (direct_key a b) \<and> c \<in> set (t_conversations t') \<and>
     t_users t' = t_users t \<and> conversation_ids t' = insert (c_id c) (conversation_ids t) \<and>
     (\<forall>c' u. is_member c' u t' \<longleftrightarrow> is_member c' u t \<or> c' = c_id c \<and> u \<in> {a, b}) \<and>
     (\<forall>c0 \<in> set (t_conversations t). c_direct_key c0 = Some (direct_key a b) \<longrightarrow> c_id c = c_id c0)"

lemma create_or_get_direct_runs:
  assumes inv: "conv_inv (db w)" and quiet: "faults w = []"
    and users: "a \<in> user_ids (tabs (db w))" "b \<in> user_ids (tabs (db w))"
  obtains c d where "PgConversationRepository_create_or_get_direct a b w = (Inr c, w\<lparr>db := d\<rparr>)"
    "direct_effect a b (tabs (db w)) c (tabs d)" "conv_inv d"
proof -
  have "db_ok (db w)" using inv by (simp add: conv_inv_def)
  then obtain c d1 where up: "upsert_direct (direct_key a b) (db w) = (Inr c, d1)"
    "c_direct_key c = Some (direct_key a b)" "c \<in> set (t_conversations (tabs d1))"
    "t_users (tabs d1) = t_users (tabs (db w))" "t_participants (tabs d1) = t_participants (tabs (db w))"
    "conversation_ids (tabs d1) = insert (c_id c) (conversation_ids (tabs (db w)))"
    "\<And>c0. c0 \<in> set (t_conversations (tabs (db w))) \<Longrightarrow> c_direct_key c0 = Some (direct_key a b) \<Longrightarrow> c_id c = c_id c0"
    by (rule upsert_direct_effect) blast
  have "c_id c \<in> conversation_ids (tabs d1)" "a \<in> user_ids (tabs d1)"
    using up users by (auto simp: user_ids_def)
  then obtain d2 where ins_a: "insert_participant True (c_id c) a kMember d1 = (Inr (), d2)"
    "t_conversations (tabs d2) = t_conversations (tabs d1)" "t_users (tabs d2) = t_users (tabs d1)"
    "\<And>c' u'. is_member c' u' (tabs d2) \<longleftrightarrow> is_member c' u' (tabs d1) \<or> c' = c_id c \<and> u' = a"
    by (rule insert_participant_effect [where b = True and ro = kMember]) auto
  have "c_id c \<in> conversation_ids (tabs d2)" "b \<in> user_ids (tabs d2)"
    using up users ins_a by (auto simp: user_ids_def conversation_ids_def)
  then obtain d3 where ins_b: "insert_participant True (c_id c) b kMember d2 = (Inr (), d3)"
    "t_conversations (tabs d3) = t_conversations (tabs d2)" "t_users (tabs d3) = t_users (tabs d2)"
    "\<And>c' u'. is_member c' u' (tabs d3) \<longleftrightarrow> is_member c' u' (tabs d2) \<or> c' = c_id c \<and> u' = b"
    by (rule insert_participant_effect [where b = True and ro = kMember]) auto
  have run: "PgConversationRepository_create_or_get_direct a b w = (Inr c, w\<lparr>db := d3\<rparr>)"
    using quiet up(1) ins_a(1) ins_b(1)
    by (simp add: PgConversationRepository_create_or_get_direct_def with_transaction_quiet)
  moreover have "is_member c' u (tabs d1) = is_member c' u (tabs (db w))" for c' u
    using up(5) by (simp add: is_member_def)
  then have "direct_effect a b (tabs (db w)) c (tabs d3)"
    using up ins_a ins_b by (auto simp: direct_effect_def conversation_ids_def)
  moreover have "conv_inv d3"
    using keepsD [OF PgConversationRepository_create_or_get_direct_inv run] inv by (simp add: inv_rel_def)
  ultimately show ?thesis by (rule that)
qed


text \<open>Creating announces the conversation to its participants and on the bus, and changes no table
  itself.\<close>

lemma announce_created_runs:
  fixes w :: world
  assumes "faults w = []"
  obtains w' where "seq (PgConversationRepository_list_participants (c_id conv)) (\<lambda>participants.
      seq (PgConversationRepository_list_participant_ids (c_id conv)) (\<lambda>ids.
      seq (broadcast ids kConversationCreated (ConversationResponse_to_json conv participants)) (\<lambda>_.
      seq (publish (ConversationCreated (c_id conv) actor (is_group conv) ids)) (\<lambda>_.
      ret conv)))) w = (Inr conv, w')" "db w' = db w" "faults w' = []"
    "outbox w' = outbox w @ [(map p_user_id (members (c_id conv) (tabs (db w))), kConversationCreated,
       ConversationResponse_to_json conv (sorted_members (c_id conv) (tabs (db w))))]"
proof -
  let ?ids = "map p_user_id (members (c_id conv) (tabs (db w)))"
  let ?ps = "sorted_members (c_id conv) (tabs (db w))"
  let ?w = "w\<lparr>outbox := outbox w @ [(?ids, kConversationCreated, ConversationResponse_to_json conv ?ps)]\<rparr>"
  obtain w' where "publish (ConversationCreated (c_id conv) actor (is_group conv) ?ids) ?w = (Inr (), w')"
    "db w' = db ?w" "faults w' = faults ?w" "outbox w' = outbox ?w"
    by (rule run_publish)
  then show ?thesis
    using assms by (intro that [of w']) (simp_all add: repository_read_defs act_simps)
qed

lemma find_user_id_None: "find_user (\<lambda>r. u_id (ar_user r) = u) t = None \<longleftrightarrow> u \<notin> user_ids t"
  by (auto simp: find_user_def find_None_iff user_ids_def)

lemma require_user_exists_runs:
  fixes w :: world
  assumes "faults w = []"
  shows "require_user_exists u w = (if u \<in> user_ids (tabs (db w)) then (Inr (), w)
     else (Inl (NotFoundException ''User not found'' (''user_id='' @ to_string u)), w))"
  using assms by (simp add: require_user_exists_def repository_read_defs act_simps find_user_id_None del: not_None_eq)

lemma create_direct_runs:
  assumes inv: "conv_inv (db w)" and quiet: "faults w = []" and ab: "a \<noteq> b"
    and users: "a \<in> user_ids (tabs (db w))" "b \<in> user_ids (tabs (db w))"
    and req: "cr_type req = kDirect" "cr_participant_ids req = [b]"
  obtains c w' where "ConversationService_create a req w = (Inr c, w')"
    "direct_effect a b (tabs (db w)) c (tabs (db w'))" "conv_inv (db w')" "faults w' = []"
proof -
  obtain c d where c: "PgConversationRepository_create_or_get_direct a b w = (Inr c, w\<lparr>db := d\<rparr>)"
    "direct_effect a b (tabs (db w)) c (tabs d)" "conv_inv d"
    by (rule create_or_get_direct_runs [OF inv quiet users])
  have "ConversationService_create_direct a [b] w = (Inr c, w\<lparr>db := d\<rparr>)"
    using c quiet ab users
    by (simp add: ConversationService_create_direct_def require_user_exists_runs act_simps)
  moreover obtain w' where "seq (PgConversationRepository_list_participants (c_id c)) (\<lambda>participants.
      seq (PgConversationRepository_list_participant_ids (c_id c)) (\<lambda>ids.
      seq (broadcast ids kConversationCreated (ConversationResponse_to_json c participants)) (\<lambda>_.
      seq (publish (ConversationCreated (c_id c) a (is_group c) ids)) (\<lambda>_.
      ret c)))) (w\<lparr>db := d\<rparr>) = (Inr c, w')" "db w' = db (w\<lparr>db := d\<rparr>)" "faults w' = []"
    by (rule announce_created_runs [of "w\<lparr>db := d\<rparr>"]) (use quiet in simp)
  ultimately show ?thesis
    using c req by (intro that [of c w']) (simp_all add: ConversationService_create_def)
qed

text \<open>C5. There is one direct conversation per pair of users. Whichever of the two asks, and however
  often, the service answers with the same conversation, both users are members of it, and it is
  the only conversation with their pair key.\<close>

theorem direct_conversation_shared:
  assumes inv: "conv_inv (db w)" and quiet: "faults w = []" and ab: "a \<noteq> b"
    and users: "a \<in> user_ids (tabs (db w))" "b \<in> user_ids (tabs (db w))"
  shows "\<exists>c w1 c' w2.
    ConversationService_create a \<lparr>cr_type = kDirect, cr_name = None, cr_participant_ids = [b]\<rparr> w = (Inr c, w1) \<and>
    ConversationService_create b \<lparr>cr_type = kDirect, cr_name = None, cr_participant_ids = [a]\<rparr> w1 = (Inr c', w2) \<and>
    c_id c' = c_id c \<and> conversation_ids (tabs (db w2)) = conversation_ids (tabs (db w1)) \<and>
    conversation_ids (tabs (db w1)) = insert (c_id c) (conversation_ids (tabs (db w))) \<and>
    is_member (c_id c) a (tabs (db w1)) \<and> is_member (c_id c) b (tabs (db w1)) \<and>
    (\<forall>k u. is_member k u (tabs (db w2)) = is_member k u (tabs (db w1))) \<and>
    (\<forall>c0 \<in> set (t_conversations (tabs (db w2))).
       c_direct_key c0 = Some (direct_key a b) \<longleftrightarrow> c_id c0 = c_id c)"
proof -
  obtain c w1 where 1: "ConversationService_create a
      \<lparr>cr_type = kDirect, cr_name = None, cr_participant_ids = [b]\<rparr> w = (Inr c, w1)"
    "direct_effect a b (tabs (db w)) c (tabs (db w1))" "conv_inv (db w1)" "faults w1 = []"
    by (rule create_direct_runs [OF inv quiet ab users,
          of "\<lparr>cr_type = kDirect, cr_name = None, cr_participant_ids = [b]\<rparr>"]) simp_all
  have users1: "b \<in> user_ids (tabs (db w1))" "a \<in> user_ids (tabs (db w1))"
    using 1(2) users by (simp_all add: direct_effect_def user_ids_def)
  obtain c' w2 where 2: "ConversationService_create b
      \<lparr>cr_type = kDirect, cr_name = None, cr_participant_ids = [a]\<rparr> w1 = (Inr c', w2)"
    "direct_effect b a (tabs (db w1)) c' (tabs (db w2))" "conv_inv (db w2)" "faults w2 = []"
    by (rule create_direct_runs [OF 1(3,4) ab [symmetric] users1,
          of "\<lparr>cr_type = kDirect, cr_name = None, cr_participant_ids = [a]\<rparr>"]) simp_all
  have same: "c_id c' = c_id c" and ids: "conversation_ids (tabs (db w2)) = conversation_ids (tabs (db w1))"
    using 1(2) 2(2) by (auto simp: direct_effect_def direct_key_comm [of b a] conversation_ids_def)
  have "c_direct_key c0 = Some (direct_key a b) \<longleftrightarrow> c_id c0 = c_id c"
    if "c0 \<in> set (t_conversations (tabs (db w2)))" for c0
    using key_and_id_agree [OF 2(3) that, of c'] 2(2) same
    by (simp add: direct_effect_def direct_key_comm [of b a])
  then show ?thesis
    using 1 2 same ids by (auto simp: direct_effect_def)
qed


theorem direct_conversation_shared_witness:
  "\<exists>c w1 c' w2.
    ConversationService_create 1 \<lparr>cr_type = kDirect, cr_name = None, cr_participant_ids = [2]\<rparr> example_world
      = (Inr c, w1) \<and>
    ConversationService_create 2 \<lparr>cr_type = kDirect, cr_name = None, cr_participant_ids = [1]\<rparr> w1
      = (Inr c', w2) \<and> c_id c' = c_id c \<and> is_member (c_id c) 2 (tabs (db w2))"
  using direct_conversation_shared [OF example_inv, of 1 2]
  by (simp add: example_defs user_ids_def) blast


section \<open>Groups\<close>

lemma insert_members_effect:
  assumes "c \<in> conversation_ids (tabs d)" "set ms \<subseteq> user_ids (tabs d)"
  shows "\<exists>d'. for_each ms (\<lambda>m. if m = own then ret () else insert_participant True c m kMember) d = (Inr (), d') \<and>
    t_conversations (tabs d') = t_conversations (tabs d) \<and> t_users (tabs d') = t_users (tabs d) \<and>
    (\<forall>c' u. is_member c' u (tabs d') \<longleftrightarrow> is_member c' u (tabs d) \<or> c' = c \<and> u \<in> set ms - {own})"
  using assms
proof (induction ms arbitrary: d)
  case (Cons m ms)
  obtain d1 where d1: "(if m = own then ret () else insert_participant True c m kMember) d = (Inr (), d1)"
    "t_conversations (tabs d1) = t_conversations (tabs d)" "t_users (tabs d1) = t_users (tabs d)"
    "\<And>c' u. is_member c' u (tabs d1) \<longleftrightarrow> is_member c' u (tabs d) \<or> c' = c \<and> u = m \<and> m \<noteq> own"
  proof (cases "m = own")
    case False
    show ?thesis
      by (rule insert_participant_effect [where b = True and ro = kMember and c = c and u = m and d = d])
         (use Cons.prems False that in auto)
  qed (use that [of d] in auto)
  then have "c \<in> conversation_ids (tabs d1)" "set ms \<subseteq> user_ids (tabs d1)"
    using Cons.prems by (auto simp: conversation_ids_def user_ids_def)
  from Cons.IH [OF this] obtain d2 where
    "for_each ms (\<lambda>m. if m = own then ret () else insert_participant True c m kMember) d1 = (Inr (), d2)"
    "t_conversations (tabs d2) = t_conversations (tabs d1)" "t_users (tabs d2) = t_users (tabs d1)"
    "\<forall>c' u. is_member c' u (tabs d2) \<longleftrightarrow> is_member c' u (tabs d1) \<or> c' = c \<and> u \<in> set ms - {own}"
    by blast
  then show ?case using d1 by auto
qed simp


text \<open>What the transaction of \<^verbatim>\<open>create_group\<close> does to the tables.\<close>

definition group_effect :: "int \<Rightarrow> string \<Rightarrow> int set \<Rightarrow> tables \<Rightarrow> conversation \<Rightarrow> tables \<Rightarrow> bool" where
  "group_effect own name ms t c t' \<longleftrightarrow>
     c_id c \<notin> conversation_ids t \<and> c_type c = kGroup \<and> c_name c = Some name \<and> c_owner_id c = Some own \<and>
     t_conversations t' = t_conversations t @ [c] \<and> t_users t' = t_users t \<and>
     (\<forall>c' u. is_member c' u t' \<longleftrightarrow> is_member c' u t \<or> c' = c_id c \<and> u \<in> insert own ms) \<and>
     members (c_id c) t = []"

lemma create_group_runs:
  assumes inv: "conv_inv (db w)" and quiet: "faults w = []" and len: "length name \<le> 128"
    and users: "own \<in> user_ids (tabs (db w))" "set ms \<subseteq> user_ids (tabs (db w))"
  obtains c d where "PgConversationRepository_create_group own name ms w = (Inr c, w\<lparr>db := d\<rparr>)"
    "group_effect own name (set ms) (tabs (db w)) c (tabs d)" "conv_inv d"
proof -
  let ?d = "db w"
  have ok: "db_ok ?d" using inv by (simp add: conv_inv_def)
  define c where "c = \<lparr>c_id = q_conversations (seqs ?d), c_type = kGroup, c_name = Some name,
    c_owner_id = Some own, c_direct_key = None, c_created_at = now ?d, c_updated_at = now ?d,
    c_last_message_at = None\<rparr>"
  define d1 where "d1 = ?d\<lparr>seqs := q_conversations_update (\<lambda>i. i + 1) (seqs ?d),
    tabs := t_conversations_update (\<lambda>rows. rows @ [c]) (tabs ?d)\<rparr>"
  have g: "insert_group name own ?d = (Inr c, d1)"
    using users(1) len utf8_length_le [of name]
    by (simp add: insert_group_def act_simps check_varchar_def user_exists_iff Let_def c_def d1_def)
  have fresh: "c_id c \<notin> conversation_ids (tabs ?d)" "members (c_id c) (tabs ?d) = []"
    using fresh_conversation [OF ok] by (simp_all add: c_def)
  have mem1: "is_member c' u (tabs d1) = is_member c' u (tabs ?d)" for c' u
    by (simp add: d1_def is_member_def)
  have "c_id c \<in> conversation_ids (tabs d1)" "own \<in> user_ids (tabs d1)" "False \<or> \<not> is_member (c_id c) own (tabs d1)"
    using users fresh(2) by (simp_all add: mem1 d1_def conversation_ids_def user_ids_def is_member_iff)
  then obtain d2 where d2: "insert_participant False (c_id c) own kOwner d1 = (Inr (), d2)"
    "t_conversations (tabs d2) = t_conversations (tabs d1)" "t_users (tabs d2) = t_users (tabs d1)"
    "\<And>c' u'. is_member c' u' (tabs d2) \<longleftrightarrow> is_member c' u' (tabs d1) \<or> c' = c_id c \<and> u' = own"
    by (rule insert_participant_effect [where b = False and ro = kOwner]) auto
  have "c_id c \<in> conversation_ids (tabs d2)" "set ms \<subseteq> user_ids (tabs d2)"
    using users d2 by (simp_all add: d1_def conversation_ids_def user_ids_def)
  from insert_members_effect [OF this, of own] obtain d3 where d3:
    "for_each ms (\<lambda>m. if m = own then ret () else insert_participant True (c_id c) m kMember) d2 = (Inr (), d3)"
    "t_conversations (tabs d3) = t_conversations (tabs d2)" "t_users (tabs d3) = t_users (tabs d2)"
    "\<And>c' u. is_member c' u (tabs d3) \<longleftrightarrow> is_member c' u (tabs d2) \<or> c' = c_id c \<and> u \<in> set ms - {own}"
    by blast
  have run: "PgConversationRepository_create_group own name ms w = (Inr c, w\<lparr>db := d3\<rparr>)"
    using quiet g d2(1) d3(1) by (simp add: PgConversationRepository_create_group_def with_transaction_quiet)
  moreover have "group_effect own name (set ms) (tabs ?d) c (tabs d3)"
    using fresh d2 d3 mem1 by (auto simp: group_effect_def c_def d1_def)
  moreover have "conv_inv d3"
    using keepsD [OF PgConversationRepository_create_group_inv run] inv by (simp add: inv_rel_def)
  ultimately show ?thesis by (rule that)
qed

lemma check_users_runs:
  fixes w :: world
  assumes "faults w = []" "set us \<subseteq> user_ids (tabs (db w))"
  shows "for_each us require_user_exists w = (Inr (), w)"
  using assms by (induction us) (simp_all add: require_user_exists_runs)

text \<open>Creating a group with an acceptable name and existing users makes a new conversation with
  the trimmed name whose participants are exactly the creator and the requested users, the
  creator being its one owner; no other conversation changes, and exactly the participants of the
  new group are told.\<close>

theorem group_created:
  assumes inv: "conv_inv (db w)" and quiet: "faults w = []"
    and name: "1 \<le> length (trim name)" "length (trim name) \<le> 128"
    and users: "actor \<in> user_ids (tabs (db w))" "set ids \<subseteq> user_ids (tabs (db w))"
  shows "\<exists>c w'. ConversationService_create actor
      \<lparr>cr_type = kGroup, cr_name = Some name, cr_participant_ids = ids\<rparr> w = (Inr c, w') \<and>
    c_id c \<notin> conversation_ids (tabs (db w)) \<and> c_name c = Some (trim name) \<and>
    t_conversations (tabs (db w')) = t_conversations (tabs (db w)) @ [c] \<and>
    p_user_id ` set (members (c_id c) (tabs (db w'))) = insert actor (set ids) \<and>
    (\<forall>p \<in> set (members (c_id c) (tabs (db w'))). p_role p = kOwner \<longleftrightarrow> p_user_id p = actor) \<and>
    (\<forall>c' u. c' \<noteq> c_id c \<longrightarrow> is_member c' u (tabs (db w')) = is_member c' u (tabs (db w))) \<and>
    (\<exists>told json. outbox w' = outbox w @ [(told, kConversationCreated, json)] \<and>
       set told = insert actor (set ids))"
proof -
  define ms where "ms = filter (\<lambda>i. i \<noteq> actor) (sort (remdups ids))"
  have ms: "insert actor (set ms) = insert actor (set ids)" "set ms \<subseteq> user_ids (tabs (db w))"
    using users by (auto simp: ms_def)
  obtain c d where c: "PgConversationRepository_create_group actor (trim name) ms w = (Inr c, w\<lparr>db := d\<rparr>)"
    "group_effect actor (trim name) (set ms) (tabs (db w)) c (tabs d)" "conv_inv d"
    by (rule create_group_runs [OF inv quiet name(2) users(1) ms(2)])
  have "validate_group_name name = Inr (trim name)" using name by (simp add: validate_group_name_ok)
  then have "ConversationService_create_group actor (Some name) ids w = (Inr c, w\<lparr>db := d\<rparr>)"
    using c(1) check_users_runs [OF quiet ms(2)]
    by (simp add: ConversationService_create_group_def ms_def act_simps Let_def)
  moreover obtain w' where w': "seq (PgConversationRepository_list_participants (c_id c)) (\<lambda>participants.
      seq (PgConversationRepository_list_participant_ids (c_id c)) (\<lambda>ids.
      seq (broadcast ids kConversationCreated (ConversationResponse_to_json c participants)) (\<lambda>_.
      seq (publish (ConversationCreated (c_id c) actor (is_group c) ids)) (\<lambda>_.
      ret c)))) (w\<lparr>db := d\<rparr>) = (Inr c, w')" "db w' = db (w\<lparr>db := d\<rparr>)"
    "outbox w' = outbox (w\<lparr>db := d\<rparr>) @ [(map p_user_id (members (c_id c) (tabs (db (w\<lparr>db := d\<rparr>)))),
       kConversationCreated,
       ConversationResponse_to_json c (sorted_members (c_id c) (tabs (db (w\<lparr>db := d\<rparr>)))))]"
    by (rule announce_created_runs [of "w\<lparr>db := d\<rparr>"]) (use quiet in simp)
  ultimately have run: "ConversationService_create actor
      \<lparr>cr_type = kGroup, cr_name = Some name, cr_participant_ids = ids\<rparr> w = (Inr c, w')"
    by (simp add: ConversationService_create_def)
  have "c \<in> set (t_conversations (tabs d))" "is_group c"
    using c(2) by (simp_all add: group_effect_def is_group_def)
  then have roles: "p_role p = kOwner \<longleftrightarrow> p_user_id p = actor" if "p \<in> set (members (c_id c) (tabs d))" for p
    using c(2,3) that
    by (auto simp: conv_inv_def membership_ok_def group_effect_def conversation_rules_def)
  have mem: "p_user_id ` set (members (c_id c) (tabs d)) = insert actor (set ids)"
    by (rule set_eqI) (use c(2) ms(1) in \<open>simp add: group_effect_def is_member_iff\<close>)
  show ?thesis
    using run w'(2,3) c(2) roles mem by (auto simp: group_effect_def)
qed

theorem group_created_witness:
  "\<exists>c w'. ConversationService_create 3
      \<lparr>cr_type = kGroup, cr_name = Some ''crew'', cr_participant_ids = [2, 1, 2, 3]\<rparr> example_world = (Inr c, w') \<and>
    c_name c = Some ''crew'' \<and> p_user_id ` set (members (c_id c) (tabs (db w'))) = {1, 2, 3}"
  using group_created [OF example_inv, of "''crew''" 3 "[2, 1, 2, 3]"]
  by (auto simp: example_defs user_ids_def trim_def isspace_def insert_commute)



section \<open>Two members leaving at the same time\<close>

text \<open>\<^verbatim>\<open>leave\<close> reads the member list in one transaction and transfers ownership in another. Here the
  owner's request is suspended between the two while the successor it has chosen leaves as well:
  the group ends with a recorded owner who is not a participant, and nobody holds the owner role.\<close>

lemma leave_race:
  "\<exists>w'. seq (PgConversationRepository_list_participants 7) (\<lambda>ms.
          seq (ConversationService_leave 2 7) (\<lambda>_. leave_handover 1 7 ms)) example_world = (Inr (), w') \<and>
     map_option c_owner_id (find_conversation 7 (tabs (db w'))) = Some (Some 2) \<and>
     \<not> is_member 7 2 (tabs (db w')) \<and> (\<forall>p \<in> set (members 7 (tabs (db w'))). p_role p = kMember) \<and>
     \<not> conv_inv (db w')"
proof -
  define v where "v = example_world\<lparr>db := (db example_world)\<lparr>tabs :=
      delete_participant 7 2 (tabs (db example_world))\<rparr>,
      outbox := [([1, 3, 2], kMemberRemoved, JObj [(''conversation_id'', JInt 7), (''user_id'', JInt 2)])]\<rparr>"
  have leave: "ConversationService_leave 2 7 example_world = (Inr (), v)"
    using leave_runs [OF example_inv _ example_conversation, of 2]
    by (simp add: v_def) (simp add: example_defs is_member_def members_def)
  have ms: "PgConversationRepository_list_participants 7 example_world =
      (Inr [example_participant 1 7 1 kOwner 0, example_participant 3 7 2 kMember 4,
            example_participant 2 7 3 kMember 5], example_world)"
    by (simp add: example_defs PgConversationRepository_list_participants_def run_read
        sorted_members_def members_def)
  have run: "leave_handover 1 7 [example_participant 1 7 1 kOwner 0, example_participant 3 7 2 kMember 4,
            example_participant 2 7 3 kMember 5] v =
      (Inr (), v\<lparr>db := (db v)\<lparr>tabs := after_handover 1 7 2 100 (tabs (db v))\<rparr>\<rparr>)"
    by (simp add: leave_handover_def PgConversationRepository_transfer_ownership_def
        PgConversationRepository_remove_participant_def with_transaction_quiet act_simps v_def
        example_defs user_exists_def delete_participant_def after_handover_def)
  show ?thesis
    using leave ms run
    by (simp add: v_def) (simp add: example_defs after_handover_def delete_participant_def demote_promote_def
        update_where_def find_conversation_def is_member_def members_def conv_inv_def membership_ok_def
        conversation_rules_def)
qed

end
