(* ===== verification/Accounts.thy ===== *)
theory Accounts
  imports ConversationService
begin

text \<open>
  Accounts: password hashing, tokens, sessions, registration and login
  (\<^verbatim>\<open>BcryptPasswordHasher\<close>, \<^verbatim>\<open>JwtTokenService\<close>, \<^verbatim>\<open>PgSessionRepository\<close>, \<^verbatim>\<open>SessionService\<close>, \<^verbatim>\<open>UserService\<close>,
  \<^verbatim>\<open>AuthService\<close>). The bcrypt, JWT and SHA-256 primitives belong to libraries and are arguments.
\<close>


section \<open>Passwords\<close>

text \<open>What the bcrypt library offers: the encoded salt for a cost and a seed, the 61-byte output buffer
  for a key and a salt, and the validation of a password, which may raise (\<open>None\<close>).\<close>

record bcrypt_library =
  bc_gensalt :: "int \<Rightarrow> nat list \<Rightarrow> string"
  bc_hash :: "string \<Rightarrow> string \<Rightarrow> string"
  bc_validate :: "string \<Rightarrow> string \<Rightarrow> bool option"

definition kMinCost :: int where "kMinCost = 4"
definition kMaxCost :: int where "kMaxCost = 31"

definition BcryptPasswordHasher_cost :: "int \<Rightarrow> int" where
  "BcryptPasswordHasher_cost cost = max kMinCost (min kMaxCost cost)"

text \<open>\<open>seed\<close> is what \<^verbatim>\<open>RAND_bytes\<close> produced, \<open>None\<close> when it failed.\<close>

definition BcryptPasswordHasher_hash :: "bcrypt_library \<Rightarrow> int \<Rightarrow> nat list option \<Rightarrow> string \<Rightarrow> string result" where
  "BcryptPasswordHasher_hash lib cost seed plaintext =
     (case seed of
        None \<Rightarrow> Inl (InternalException ''Password hashing failed: no secure randomness available for the salt'' [])
      | Some bytes \<Rightarrow>
          let hashed = take 60 (bc_hash lib plaintext (bc_gensalt lib (BcryptPasswordHasher_cost cost) bytes))
          in if length hashed \<noteq> 60 \<or> hd hashed \<noteq> CHR ''$''
             then Inl (InternalException ''Password hashing produced a malformed hash'' [])
             else Inr hashed)"

definition BcryptPasswordHasher_verify :: "bcrypt_library \<Rightarrow> string \<Rightarrow> string \<Rightarrow> bool" where
  "BcryptPasswordHasher_verify lib plaintext hash =
     (if hash = [] then False else case bc_validate lib plaintext hash of None \<Rightarrow> False | Some ok \<Rightarrow> ok)"

text \<open>\<^verbatim>\<open>IPasswordHasher\<close>.\<close>

record password_hasher =
  ph_hash :: "string \<Rightarrow> string result"
  ph_verify :: "string \<Rightarrow> string \<Rightarrow> bool"

definition BcryptPasswordHasher :: "bcrypt_library \<Rightarrow> int \<Rightarrow> nat list option \<Rightarrow> password_hasher" where
  "BcryptPasswordHasher lib cost seed =
     \<lparr>ph_hash = BcryptPasswordHasher_hash lib cost seed, ph_verify = BcryptPasswordHasher_verify lib\<rparr>"

text \<open>\<^verbatim>\<open>sha256_hex\<close> over the digest function of OpenSSL.\<close>

definition sha256_hex :: "(string \<Rightarrow> nat list) \<Rightarrow> string \<Rightarrow> string" where
  "sha256_hex SHA256 data = concat (map hex_byte (SHA256 data))"


section \<open>Tokens\<close>

datatype token_type = kAccess | kRefresh

fun token_type_to_string :: "token_type \<Rightarrow> string" where
  "token_type_to_string kAccess = ''access''"
| "token_type_to_string kRefresh = ''refresh''"

record token_claims =
  tk_user_id :: int
  tk_username :: string
  tk_type :: token_type
  tk_issued_at :: time_point
  tk_expires_at :: time_point

record token_pair =
  tp_access_token :: string
  tp_refresh_token :: string
  tp_access_expires_in :: int
  tp_refresh_expires_in :: int

record jwt_options =
  jo_secret :: string
  jo_issuer :: string
  jo_access_ttl :: int
  jo_refresh_ttl :: int

text \<open>The claims of a token, and what the JWT library offers: signing with HS256, and decoding with
  verification of signature, issuer and expiry at a given time, which yields the claims or the
  text of the exception.\<close>

record jwt_payload =
  jp_issuer :: string
  jp_subject :: "string option"
  jp_id :: string
  jp_username :: "json option"
  jp_type :: "json option"
  jp_issued_at :: "time_point option"
  jp_expires_at :: "time_point option"

record jwt_library =
  jwt_sign :: "string \<Rightarrow> jwt_payload \<Rightarrow> string"
  jwt_verify :: "string \<Rightarrow> string \<Rightarrow> time_point \<Rightarrow> string \<Rightarrow> string + jwt_payload"
  jwt_claim_error :: string

definition parse_subject :: "string \<Rightarrow> int result" where
  "parse_subject subject =
     (case from_chars_int64 subject of
        Some (v, []) \<Rightarrow> Inr v
      | _ \<Rightarrow> Inl (AuthenticationException ''Malformed token subject'' []))"

definition JwtTokenService_create :: "jwt_options \<Rightarrow> jwt_options result" where
  "JwtTokenService_create options =
     (if jo_secret options = []
      then Inl (ConfigException ''JwtTokenService requires a non-empty secret'' []) else Inr options)"

fun ttl_for :: "jwt_options \<Rightarrow> token_type \<Rightarrow> int" where
  "ttl_for options kAccess = jo_access_ttl options"
| "ttl_for options kRefresh = jo_refresh_ttl options"

definition JwtTokenService_issue :: "jwt_library \<Rightarrow> jwt_options \<Rightarrow> int \<Rightarrow> string \<Rightarrow> token_type \<Rightarrow> string act" where
  "JwtTokenService_issue lib options user_id username type =
     seq (gets (\<lambda>w. now (db w))) (\<lambda>issued_at.
     seq (generate_hex_token 16) (\<lambda>jti.
     ret (jwt_sign lib (jo_secret options)
       \<lparr>jp_issuer = jo_issuer options, jp_subject = Some (to_string user_id), jp_id = jti,
        jp_username = Some (JStr username), jp_type = Some (JStr (token_type_to_string type)),
        jp_issued_at = Some issued_at, jp_expires_at = Some (issued_at + ttl_for options type)\<rparr>)))"

definition JwtTokenService_issue_pair :: "jwt_library \<Rightarrow> jwt_options \<Rightarrow> int \<Rightarrow> string \<Rightarrow> token_pair act" where
  "JwtTokenService_issue_pair lib options user_id username =
     seq (JwtTokenService_issue lib options user_id username kAccess) (\<lambda>access.
     seq (JwtTokenService_issue lib options user_id username kRefresh) (\<lambda>refresh.
     ret \<lparr>tp_access_token = access, tp_refresh_token = refresh,
          tp_access_expires_in = jo_access_ttl options, tp_refresh_expires_in = jo_refresh_ttl options\<rparr>))"

definition claims_of :: "jwt_library \<Rightarrow> token_type \<Rightarrow> jwt_payload \<Rightarrow> token_claims result" where
  "claims_of lib expected_type p =
     (let bad_claim = AuthenticationException ''Invalid or expired token'' (jwt_claim_error lib) in
      case jp_type p of
        None \<Rightarrow> Inl (AuthenticationException ''Token missing type claim'' [])
      | Some (JStr type) \<Rightarrow>
          if type \<noteq> token_type_to_string expected_type
          then Inl (AuthenticationException ''Token has unexpected type'' [])
          else (case jp_subject p of
              None \<Rightarrow> Inl bad_claim
            | Some subject \<Rightarrow>
                then_result (parse_subject subject) (\<lambda>user_id.
                then_result (case jp_username p of None \<Rightarrow> Inr [] | Some (JStr s) \<Rightarrow> Inr s | _ \<Rightarrow> Inl bad_claim) (\<lambda>username.
                (case (jp_issued_at p, jp_expires_at p) of
                   (Some iat, Some expiry) \<Rightarrow>
                     Inr \<lparr>tk_user_id = user_id, tk_username = username, tk_type = expected_type,
                          tk_issued_at = iat, tk_expires_at = expiry\<rparr>
                 | _ \<Rightarrow> Inl bad_claim))))
      | _ \<Rightarrow> Inl bad_claim)"

definition JwtTokenService_verify :: "jwt_library \<Rightarrow> jwt_options \<Rightarrow> string \<Rightarrow> token_type \<Rightarrow> token_claims act" where
  "JwtTokenService_verify lib options token expected_type =
     seq (gets (\<lambda>w. now (db w))) (\<lambda>ts.
     of_result
       (case jwt_verify lib (jo_secret options) (jo_issuer options) ts token of
          Inl what \<Rightarrow> Inl (AuthenticationException ''Invalid or expired token'' what)
        | Inr p \<Rightarrow> claims_of lib expected_type p))"


section \<open>Session rows\<close>

record new_session =
  ns_id :: string
  ns_user_id :: int
  ns_refresh_token_hash :: string
  ns_user_agent :: "string option"
  ns_ip :: "string option"
  ns_ttl_seconds :: int

definition find_session :: "string \<Rightarrow> tables \<Rightarrow> session option" where
  "find_session i t = List.find (\<lambda>s. s_id s = i) (t_sessions t)"

definition insert_session :: "new_session \<Rightarrow> session db_act" where
  "insert_session input =
     seq (check_varchar 64 (Some (ns_id input))) (\<lambda>_.
     seq (check_varchar 64 (Some (ns_refresh_token_hash input))) (\<lambda>_.
     seq (check_varchar 255 (ns_user_agent input)) (\<lambda>_.
     seq (check_varchar 64 (ns_ip input)) (\<lambda>_.
     seq (gets (\<lambda>d. (tabs d, now d))) (\<lambda>(t, ts).
     if find_session (ns_id input) t \<noteq> None then throw (DbSql (UniqueViolation ''sessions_pkey'' (ns_id input)))
     else if \<not> user_exists (ns_user_id input) t then throw (DbSql (ForeignKeyViolation ''sessions''))
     else
       let s = \<lparr>s_id = ns_id input, s_user_id = ns_user_id input,
                s_refresh_token_hash = ns_refresh_token_hash input, s_user_agent = ns_user_agent input,
                s_ip = ns_ip input, s_created_at = ts, s_last_used_at = ts,
                s_expires_at = ts + ns_ttl_seconds input, s_revoked_at = None\<rparr>
       in seq (update_tables (t_sessions_update (\<lambda>rows. rows @ [s]))) (\<lambda>_. ret s))))))"

definition PgSessionRepository_create :: "new_session \<Rightarrow> session act" where
  "PgSessionRepository_create input = with_transaction (insert_session input)"

definition PgSessionRepository_find_by_id :: "string \<Rightarrow> session option act" where
  "PgSessionRepository_find_by_id i = with_transaction (gets (\<lambda>d. find_session i (tabs d)))"

definition active_sessions :: "int \<Rightarrow> time_point \<Rightarrow> tables \<Rightarrow> session list" where
  "active_sessions user_id ts t =
     filter (\<lambda>s. s_user_id s = user_id \<and> s_revoked_at s = None \<and> s_expires_at s > ts) (t_sessions t)"

definition PgSessionRepository_list_active_for_user :: "int \<Rightarrow> session list act" where
  "PgSessionRepository_list_active_for_user user_id =
     with_transaction (gets (\<lambda>d. rev (sort_key s_last_used_at (active_sessions user_id (now d) (tabs d)))))"

definition PgSessionRepository_rotate :: "string \<Rightarrow> string \<Rightarrow> unit act" where
  "PgSessionRepository_rotate i new_hash =
     with_transaction (
       seq (check_varchar 64 (Some new_hash)) (\<lambda>_.
       seq (gets now) (\<lambda>ts.
       update_tables (t_sessions_update (update_where (\<lambda>s. s_id s = i)
         (\<lambda>s. s\<lparr>s_refresh_token_hash := new_hash, s_last_used_at := ts\<rparr>))))))"

text \<open>\<^verbatim>\<open>UPDATE sessions SET revoked_at = now() WHERE ... .affected_rows()\<close>.\<close>

definition revoke_where :: "(session \<Rightarrow> bool) \<Rightarrow> int db_act" where
  "revoke_where P =
     seq (gets (\<lambda>d. (length (filter P (t_sessions (tabs d))), now d))) (\<lambda>(affected, ts).
     seq (update_tables (t_sessions_update (update_where P (\<lambda>s. s\<lparr>s_revoked_at := Some ts\<rparr>)))) (\<lambda>_.
     ret (int affected)))"

definition PgSessionRepository_revoke :: "string \<Rightarrow> int \<Rightarrow> bool act" where
  "PgSessionRepository_revoke i user_id =
     with_transaction (
       seq (revoke_where (\<lambda>s. s_id s = i \<and> s_user_id s = user_id \<and> s_revoked_at s = None)) (\<lambda>affected.
       ret (affected > 0)))"

definition PgSessionRepository_revoke_all :: "int \<Rightarrow> int act" where
  "PgSessionRepository_revoke_all user_id =
     with_transaction (revoke_where (\<lambda>s. s_user_id s = user_id \<and> s_revoked_at s = None))"

definition PgSessionRepository_revoke_all_except :: "int \<Rightarrow> string \<Rightarrow> int act" where
  "PgSessionRepository_revoke_all_except user_id keep_id =
     with_transaction (revoke_where (\<lambda>s. s_user_id s = user_id \<and> s_id s \<noteq> keep_id \<and> s_revoked_at s = None))"

definition PgSessionRepository_delete_expired :: "int act" where
  "PgSessionRepository_delete_expired =
     with_transaction (
       seq (gets (\<lambda>d. (now d, t_sessions (tabs d)))) (\<lambda>(ts, rows).
       let dead = (\<lambda>s. s_expires_at s < ts \<or> s_revoked_at s \<noteq> None) in
       seq (update_tables (t_sessions_update (filter (\<lambda>s. \<not> dead s)))) (\<lambda>_.
       ret (int (length (filter dead rows))))))"


section \<open>Session service\<close>

text \<open>The session service works with any token service: \<^verbatim>\<open>ITokenService\<close> as a record of operations.\<close>

record token_service =
  ts_issue_pair :: "int \<Rightarrow> string \<Rightarrow> token_pair act"
  ts_verify :: "string \<Rightarrow> token_type \<Rightarrow> token_claims act"

definition JwtTokenService :: "jwt_library \<Rightarrow> jwt_options \<Rightarrow> token_service" where
  "JwtTokenService lib options =
     \<lparr>ts_issue_pair = JwtTokenService_issue_pair lib options, ts_verify = JwtTokenService_verify lib options\<rparr>"

definition SessionService_record ::
    "(string \<Rightarrow> nat list) \<Rightarrow> int \<Rightarrow> int \<Rightarrow> string \<Rightarrow> string option \<Rightarrow> string option \<Rightarrow> string act" where
  "SessionService_record SHA256 refresh_ttl user_id refresh_token user_agent ip =
     seq (generate_hex_token 24) (\<lambda>i.
     seq (PgSessionRepository_create
       \<lparr>ns_id = i, ns_user_id = user_id, ns_refresh_token_hash = sha256_hex SHA256 refresh_token,
        ns_user_agent = user_agent, ns_ip = ip, ns_ttl_seconds = refresh_ttl\<rparr>) (\<lambda>_.
     ret i))"

text \<open>The checks of \<^verbatim>\<open>rotate\<close>, up to the token pair it issues.\<close>

definition rotate_checks ::
    "(string \<Rightarrow> nat list) \<Rightarrow> token_service \<Rightarrow> string \<Rightarrow> string \<Rightarrow> token_claims act" where
  "rotate_checks SHA256 tokens refresh_token session_id =
     seq (ts_verify tokens refresh_token kRefresh) (\<lambda>claims.
     seq (PgSessionRepository_find_by_id session_id) (\<lambda>found.
     seq (gets (\<lambda>w. now (db w))) (\<lambda>ts.
     case found of
       None \<Rightarrow> throw (AuthenticationException ''Session is invalid or expired'' [])
     | Some session \<Rightarrow>
         seq (require (is_active ts session) (AuthenticationException ''Session is invalid or expired'' [])) (\<lambda>_.
         seq (require (s_user_id session = tk_user_id claims)
                (AuthenticationException ''Session does not match token'' [])) (\<lambda>_.
         seq (require (s_refresh_token_hash session = sha256_hex SHA256 refresh_token)
                (AuthenticationException ''Refresh token has been rotated'' [])) (\<lambda>_.
         ret claims))))))"

definition rotate_commit ::
    "(string \<Rightarrow> nat list) \<Rightarrow> token_service \<Rightarrow> string \<Rightarrow> token_claims \<Rightarrow> token_pair act" where
  "rotate_commit SHA256 tokens session_id claims =
     seq (ts_issue_pair tokens (tk_user_id claims) (tk_username claims)) (\<lambda>pair.
     seq (PgSessionRepository_rotate session_id (sha256_hex SHA256 (tp_refresh_token pair))) (\<lambda>_.
     ret pair))"

definition SessionService_rotate ::
    "(string \<Rightarrow> nat list) \<Rightarrow> token_service \<Rightarrow> string \<Rightarrow> string \<Rightarrow> token_pair act" where
  "SessionService_rotate SHA256 tokens refresh_token session_id =
     seq (rotate_checks SHA256 tokens refresh_token session_id) (rotate_commit SHA256 tokens session_id)"

definition SessionService_list :: "int \<Rightarrow> session list act" where
  "SessionService_list = PgSessionRepository_list_active_for_user"

definition SessionService_revoke :: "int \<Rightarrow> string \<Rightarrow> bool act" where
  "SessionService_revoke user_id session_id = PgSessionRepository_revoke session_id user_id"

definition SessionService_revoke_all :: "int \<Rightarrow> int act" where
  "SessionService_revoke_all = PgSessionRepository_revoke_all"

definition SessionService_revoke_others :: "int \<Rightarrow> string \<Rightarrow> int act" where
  "SessionService_revoke_others = PgSessionRepository_revoke_all_except"

definition SessionService_cleanup_expired :: "int act" where
  "SessionService_cleanup_expired = PgSessionRepository_delete_expired"


section \<open>User and authentication services\<close>

definition kDummyHash :: string where
  "kDummyHash = ''$2b$12$C6UzMDM.H6dfI/f/IKcEeO3f0i1E1r5aI3l0m9n8o7p6q5r4s3t2u''"

definition UserService_register_user :: "password_hasher \<Rightarrow> register_request \<Rightarrow> user act" where
  "UserService_register_user hasher req =
     seq (of_result (ph_hash hasher (rr_password req))) (\<lambda>hash.
     PgUserRepository_create \<lparr>nu_username = rr_username req, nu_email = rr_email req, nu_password_hash = hash\<rparr>)"

definition UserService_authenticate :: "password_hasher \<Rightarrow> login_request \<Rightarrow> user act" where
  "UserService_authenticate hasher req =
     seq (PgUserRepository_find_by_identifier (lr_identifier req)) (\<lambda>found.
     case found of
       None \<Rightarrow>
         (let _ = ph_verify hasher (lr_password req) kDummyHash
          in throw (AuthenticationException ''Invalid credentials'' []))
     | Some user \<Rightarrow>
         seq (require (ph_verify hasher (lr_password req) (u_password_hash user))
                (AuthenticationException ''Invalid credentials'' [])) (\<lambda>_.
         ret user))"

definition UserService_get_by_id :: "int \<Rightarrow> user act" where
  "UserService_get_by_id i =
     seq (PgUserRepository_find_by_id i) (\<lambda>found.
     case found of
       None \<Rightarrow> throw (NotFoundException ''User not found'' (user_id_details i))
     | Some user \<Rightarrow> ret user)"

definition UserService_update_profile :: "int \<Rightarrow> update_profile_request \<Rightarrow> user act" where
  "UserService_update_profile i req =
     seq (of_result (validate_and_normalize_profile req)) (\<lambda>req.
     PgUserRepository_update_profile i req)"

record auth_response =
  are_user :: user
  are_tokens :: token_pair

definition build_response :: "token_service \<Rightarrow> user \<Rightarrow> auth_response act" where
  "build_response tokens user =
     seq (ts_issue_pair tokens (u_id user) (u_username user)) (\<lambda>pair.
     ret \<lparr>are_user = user, are_tokens = pair\<rparr>)"

definition AuthService_register_user ::
    "password_hasher \<Rightarrow> token_service \<Rightarrow> register_request \<Rightarrow> auth_response act" where
  "AuthService_register_user hasher tokens req =
     seq (of_result (validate_and_normalize_register req)) (\<lambda>req.
     seq (UserService_register_user hasher req) (\<lambda>user.
     build_response tokens user))"

definition AuthService_login ::
    "password_hasher \<Rightarrow> token_service \<Rightarrow> login_request \<Rightarrow> auth_response act" where
  "AuthService_login hasher tokens req =
     seq (of_result (validate_and_normalize_login req)) (\<lambda>req.
     seq (UserService_authenticate hasher req) (\<lambda>user.
     build_response tokens user))"

definition AuthResponse_to_json :: "auth_response \<Rightarrow> json" where
  "AuthResponse_to_json r =
     JObj [(''user'', UserResponse_to_json (are_user r)),
           (''tokens'', JObj
             [(''access_token'', JStr (tp_access_token (are_tokens r))),
              (''refresh_token'', JStr (tp_refresh_token (are_tokens r))),
              (''token_type'', JStr ''Bearer''),
              (''access_expires_in'', JInt (tp_access_expires_in (are_tokens r))),
              (''refresh_expires_in'', JInt (tp_refresh_expires_in (are_tokens r)))])]"

end
