(* ===== verification/AccountRules.thy ===== *)
theory AccountRules
  imports Accounts "HOL-Library.Countable"
begin

text \<open>
  What accounts promise: the schema's constraints survive every session operation, a refresh token
  works once, revocation is final, registration and login fit together, and login does not tell
  whether an account exists.
\<close>


section \<open>Constraints\<close>

lemma insert_session_ok:
  assumes "insert_session input d = (Inr s, d')"
  shows "d' = d\<lparr>tabs := t_sessions_update (\<lambda>rows. rows @ [s]) (tabs d)\<rparr>" "s_id s = ns_id input"
    "s_user_id s \<in> user_ids (tabs d)" "\<forall>k \<in> set (t_sessions (tabs d)). s_id k \<noteq> s_id s"
  using assms
  by (auto simp: insert_session_def act_simps check_varchar_def Let_def user_exists_iff find_session_def find_None_iff
      split: if_splits)

lemma append_session_db_ok:
  assumes "db_ok d" "s_user_id s \<in> user_ids (tabs d)" "\<forall>k \<in> set (t_sessions (tabs d)). s_id k \<noteq> s_id s"
  shows "db_ok (d\<lparr>tabs := t_sessions_update (\<lambda>rows. rows @ [s]) (tabs d)\<rparr>)"
proof -
  let ?t = "t_sessions_update (\<lambda>rows. rows @ [s]) (tabs d)"
  have "user_ids ?t = user_ids (tabs d)" "conversation_ids ?t = conversation_ids (tabs d)"
    "message_ids ?t = message_ids (tabs d)"
    by (simp_all add: ids_defs)
  moreover have "unique s_id (t_sessions (tabs d) @ [s])"
    using assms(1,3) by (auto simp: db_ok_def sessions_ok_def unique_def)
  ultimately show ?thesis
    using assms(1,2) by (simp add: db_ok_def table_ok_defs row_intros)
qed

lemma insert_session_inv: "conv_inv d \<Longrightarrow> insert_session input d = (Inr s, d') \<Longrightarrow> conv_inv d'"
  using append_session_db_ok insert_session_ok by (fastforce simp: conv_inv_def)

lemma session_rows_db_ok:
  "db_ok d \<Longrightarrow> (\<And>s. s_id (f s) = s_id s) \<Longrightarrow> (\<And>s. s_user_id (f s) = s_user_id s) \<Longrightarrow>
     db_ok (d\<lparr>tabs := t_sessions_update (update_where P f) (tabs d)\<rparr>)"
  "db_ok d \<Longrightarrow> db_ok (d\<lparr>tabs := t_sessions_update (filter Q) (tabs d)\<rparr>)"
  by (simp_all add: db_ok_def table_ok_defs ids_defs row_intros)

lemma grow_sessions [keeps_intros]:
  "keeps seqs_grow (insert_session input)" "keeps seqs_grow (revoke_where P)"
  unfolding insert_session_def revoke_where_def check_varchar_def by - (intro grow_rules)+

lemma PgSessionRepository_inv [keeps_intros]:
  "keeps (inv_rel (\<lambda>w. conv_inv (db w))) (PgSessionRepository_create input)"
  "keeps (inv_rel (\<lambda>w. conv_inv (db w))) (PgSessionRepository_rotate i h)"
  "keeps (inv_rel (\<lambda>w. conv_inv (db w))) (PgSessionRepository_revoke i u)"
  "keeps (inv_rel (\<lambda>w. conv_inv (db w))) (PgSessionRepository_revoke_all u)"
  "keeps (inv_rel (\<lambda>w. conv_inv (db w))) (PgSessionRepository_revoke_all_except u i)"
  "keeps (inv_rel (\<lambda>w. conv_inv (db w))) PgSessionRepository_delete_expired"
proof -
  show "keeps (inv_rel (\<lambda>w. conv_inv (db w))) (PgSessionRepository_create input)"
    unfolding PgSessionRepository_create_def
    by (rule with_transaction_conv_inv) (auto intro: keeps_intros insert_session_inv)
  show "keeps (inv_rel (\<lambda>w. conv_inv (db w))) (PgSessionRepository_rotate i h)"
    unfolding PgSessionRepository_rotate_def check_varchar_def
    by (rule with_transaction_conv_inv)
       (auto simp: conv_inv_def intro!: grow_rules session_rows_db_ok elim!: seq_succeedsE)
  have revoke: "conv_inv d'" if "conv_inv d" "revoke_where P d = (Inr x, d')" for P d x d'
    using that by (auto simp: revoke_where_def act_simps conv_inv_def intro: session_rows_db_ok)
  show "keeps (inv_rel (\<lambda>w. conv_inv (db w))) (PgSessionRepository_revoke i u)"
    "keeps (inv_rel (\<lambda>w. conv_inv (db w))) (PgSessionRepository_revoke_all u)"
    "keeps (inv_rel (\<lambda>w. conv_inv (db w))) (PgSessionRepository_revoke_all_except u i)"
    unfolding PgSessionRepository_revoke_def PgSessionRepository_revoke_all_def PgSessionRepository_revoke_all_except_def
    by (rule with_transaction_conv_inv;
        auto intro: grow_rules keeps_intros revoke elim!: seq_succeedsE)+
  show "keeps (inv_rel (\<lambda>w. conv_inv (db w))) PgSessionRepository_delete_expired"
    unfolding PgSessionRepository_delete_expired_def Let_def
    by (rule with_transaction_conv_inv)
       (auto simp: conv_inv_def intro!: grow_rules session_rows_db_ok elim!: seq_succeedsE)
qed


section \<open>A refresh token works once\<close>

lemma claims_of_error: "claims_of lib ty p = Inl e \<Longrightarrow> ex_type e = kAuthentication"
  by (auto simp: claims_of_def parse_subject_def Let_def exception_defs split: option.splits json.splits if_splits prod.splits
      list.splits)

lemma wp_verify:
  "wp (ts_verify (JwtTokenService lib options) token ty) (\<lambda>_ w'. w' = w) (\<lambda>e w'. w' = w \<and> ex_type e = kAuthentication) w"
  by (auto simp: JwtTokenService_def JwtTokenService_verify_def wp_simps exception_defs dest: claims_of_error
      split: sum.splits)

lemma rotate_refused:
  assumes "\<And>s. find_session sid (tabs (db w)) = Some s \<Longrightarrow>
    \<not> is_active (now (db w)) s \<or> s_refresh_token_hash s \<noteq> sha256_hex SHA256 rt"
  shows "refused kAuthentication (SessionService_rotate SHA256 (JwtTokenService lib options) rt sid) w"
  unfolding refused_wp SessionService_rotate_def rotate_checks_def wp_seq PgSessionRepository_find_by_id_def
proof (rule wp_mono [OF wp_verify])
  fix claims w'
  assume w': "w' = w"
  show "wp (with_transaction (gets (\<lambda>d. find_session sid (tabs d))))
     (\<lambda>found s'. wp (gets (\<lambda>w. now (db w)))
        (\<lambda>ts s'. wp (case found of
            None \<Rightarrow> throw (AuthenticationException ''Session is invalid or expired'' [])
          | Some session \<Rightarrow>
              seq (require (is_active ts session) (AuthenticationException ''Session is invalid or expired'' [])) (\<lambda>_.
              seq (require (s_user_id session = tk_user_id claims)
                     (AuthenticationException ''Session does not match token'' [])) (\<lambda>_.
              seq (require (s_refresh_token_hash session = sha256_hex SHA256 rt)
                     (AuthenticationException ''Refresh token has been rotated'' [])) (\<lambda>_.
              ret claims))))
          (\<lambda>x s'. wp (rotate_commit SHA256 (JwtTokenService lib options) sid x) (\<lambda>_ _. False)
             (\<lambda>e w'. (faults w = [] \<longrightarrow> ex_type e = kAuthentication) \<and> untouched w w') s')
          (\<lambda>e w'. (faults w = [] \<longrightarrow> ex_type e = kAuthentication) \<and> untouched w w') s')
        (\<lambda>e w'. (faults w = [] \<longrightarrow> ex_type e = kAuthentication) \<and> untouched w w') s')
     (\<lambda>e w'. (faults w = [] \<longrightarrow> ex_type e = kAuthentication) \<and> untouched w w') w'"
    unfolding w'
    by (rule wp_read_strict) (use assms in \<open>auto simp: wp_simps exception_defs split: option.splits\<close>)
qed auto

text \<open>The claims of the refresh token issued to a user at a time.\<close>

definition refresh_payload :: "jwt_options \<Rightarrow> int \<Rightarrow> string \<Rightarrow> string \<Rightarrow> time_point \<Rightarrow> jwt_payload" where
  "refresh_payload options u n jti t =
     \<lparr>jp_issuer = jo_issuer options, jp_subject = Some (to_string u), jp_id = jti, jp_username = Some (JStr n),
      jp_type = Some (JStr ''refresh''), jp_issued_at = Some t, jp_expires_at = Some (t + jo_refresh_ttl options)\<rparr>"

lemma run_issue_pair:
  obtains pair where "ts_issue_pair (JwtTokenService lib options) u n w = (Inr pair, w\<lparr>drawn := drawn w + 32\<rparr>)"
    and "\<exists>jti. tp_refresh_token pair = jwt_sign lib (jo_secret options)
       (refresh_payload options u n jti (now (db w)))"
  by (rule that) (auto simp: JwtTokenService_def JwtTokenService_issue_pair_def JwtTokenService_issue_def
      generate_hex_token_def refresh_payload_def act_simps)

definition rotated :: "string \<Rightarrow> time_point \<Rightarrow> session \<Rightarrow> session" where
  "rotated h ts s = s\<lparr>s_refresh_token_hash := h, s_last_used_at := ts\<rparr>"

lemma rotated_sel [simp]:
  "s_refresh_token_hash (rotated h ts s) = h" "s_id (rotated h ts s) = s_id s" "s_user_id (rotated h ts s) = s_user_id s"
  "is_active t (rotated h ts s) = is_active t s"
  by (simp_all add: rotated_def is_active_def is_revoked_def is_expired_def)

lemma find_session_rotated:
  "find_session k (t_sessions_update (update_where (\<lambda>s. s_id s = i) (rotated h ts)) t) =
     map_option (\<lambda>s. if k = i then rotated h ts s else s) (find_session k t)"
proof -
  have "find_session k (t_sessions_update (update_where (\<lambda>s. s_id s = i) (rotated h ts)) t) =
      map_option (\<lambda>s. if s_id s = i then rotated h ts s else s) (find_session k t)"
    by (simp add: find_session_def find_update_where)
  also have "\<dots> = map_option (\<lambda>s. if k = i then rotated h ts s else s) (find_session k t)"
    by (rule option.map_cong0) (auto simp: find_session_def option.set_sel dest!: find_SomeD)
  finally show ?thesis .
qed

lemma rotate_commit_ok:
  assumes "rotate_commit SHA256 (JwtTokenService lib options) sid claims w = (Inr pair, w')"
  shows "db w' = (db w)\<lparr>tabs := t_sessions_update (update_where (\<lambda>s. s_id s = sid)
    (rotated (sha256_hex SHA256 (tp_refresh_token pair)) (now (db w)))) (tabs (db w))\<rparr>"
proof (rule run_issue_pair [of lib options "tk_user_id claims" "tk_username claims" w])
  fix p
  assume "ts_issue_pair (JwtTokenService lib options) (tk_user_id claims) (tk_username claims) w =
    (Inr p, w\<lparr>drawn := drawn w + 32\<rparr>)"
  moreover obtain w1 where "PgSessionRepository_rotate sid (sha256_hex SHA256 (tp_refresh_token pair)) w1 = (Inr (), w')"
    "ts_issue_pair (JwtTokenService lib options) (tk_user_id claims) (tk_username claims) w = (Inr pair, w1)"
    using assms unfolding rotate_commit_def by (auto elim!: seq_succeedsE)
  ultimately show ?thesis
    by (auto simp: PgSessionRepository_rotate_def rotated_def [abs_def] check_varchar_def act_simps
        dest!: with_transaction_ok split: if_splits)
qed

lemma rotate_ok:
  assumes "SessionService_rotate SHA256 (JwtTokenService lib options) rt sid w = (Inr pair, w')"
  shows "\<exists>s. find_session sid (tabs (db w)) = Some s \<and> is_active (now (db w)) s \<and>
      s_refresh_token_hash s = sha256_hex SHA256 rt"
    and "db w' = (db w)\<lparr>tabs := t_sessions_update (update_where (\<lambda>s. s_id s = sid)
      (rotated (sha256_hex SHA256 (tp_refresh_token pair)) (now (db w)))) (tabs (db w))\<rparr>"
proof -
  show "\<exists>s. find_session sid (tabs (db w)) = Some s \<and> is_active (now (db w)) s \<and>
      s_refresh_token_hash s = sha256_hex SHA256 rt"
    using rotate_refused [of sid w SHA256 rt lib options] assms by (auto simp: refused_def)
  obtain claims w1 where checks: "rotate_checks SHA256 (JwtTokenService lib options) rt sid w = (Inr claims, w1)"
    and commit: "rotate_commit SHA256 (JwtTokenService lib options) sid claims w1 = (Inr pair, w')"
    using assms unfolding SessionService_rotate_def by (elim seq_succeedsE) blast
  have "db w1 = db w"
    using checks
    by (auto simp: rotate_checks_def PgSessionRepository_find_by_id_def JwtTokenService_def JwtTokenService_verify_def
        elim!: seq_succeedsE dest!: with_transaction_ok split: option.splits sum.splits if_splits)
  then show "db w' = (db w)\<lparr>tabs := t_sessions_update (update_where (\<lambda>s. s_id s = sid)
      (rotated (sha256_hex SHA256 (tp_refresh_token pair)) (now (db w)))) (tabs (db w))\<rparr>"
    using rotate_commit_ok [OF commit] by simp
qed

text \<open>C8. A refresh token works once. A rotation that succeeds was made on an active session holding the
  hash of the presented token; it replaces that hash, touches no other session and no other table,
  and from then on, at any later time and even if the database misbehaves, presenting the old
  token for the session is refused without effect (with an authentication error when the
  database works), provided the two tokens have different digests.\<close>

theorem rotation_single_use:
  assumes "SessionService_rotate SHA256 (JwtTokenService lib options) rt sid w = (Inr pair, w')"
    and "sha256_hex SHA256 (tp_refresh_token pair) \<noteq> sha256_hex SHA256 rt"
  shows "(\<exists>s. find_session sid (tabs (db w)) = Some s \<and> is_active (now (db w)) s \<and>
        s_refresh_token_hash s = sha256_hex SHA256 rt \<and>
        find_session sid (tabs (db w')) =
          Some (s\<lparr>s_refresh_token_hash := sha256_hex SHA256 (tp_refresh_token pair), s_last_used_at := now (db w)\<rparr>)) \<and>
    (\<forall>k. k \<noteq> sid \<longrightarrow> find_session k (tabs (db w')) = find_session k (tabs (db w))) \<and>
    (\<exists>rows. tabs (db w') = (tabs (db w))\<lparr>t_sessions := rows\<rparr>) \<and>
    (\<forall>ts fs. refused kAuthentication (SessionService_rotate SHA256 (JwtTokenService lib options) rt sid)
       (w'\<lparr>db := (db w')\<lparr>now := ts\<rparr>, faults := fs\<rparr>))"
proof -
  obtain s where s: "find_session sid (tabs (db w)) = Some s" "is_active (now (db w)) s"
    "s_refresh_token_hash s = sha256_hex SHA256 rt"
    using rotate_ok(1) [OF assms(1)] by blast
  note w' = rotate_ok(2) [OF assms(1)]
  have "find_session sid (tabs (db w')) = Some (rotated (sha256_hex SHA256 (tp_refresh_token pair)) (now (db w)) s)"
    using s by (simp add: w' find_session_rotated)
  moreover have "find_session k (tabs (db w')) = find_session k (tabs (db w))" if "k \<noteq> sid" for k
    using that by (simp add: w' find_session_rotated option.map_ident)
  moreover have "tabs (db w') = (tabs (db w))\<lparr>t_sessions := t_sessions (tabs (db w'))\<rparr>" by (simp add: w')
  ultimately show ?thesis
    using s assms(2) by (auto intro!: rotate_refused simp: rotated_def)
qed

text \<open>What the library documents about its tokens: a token it signed is accepted with the same secret and
  issuer until it expires, and carries the claims it was signed with; and a SHA-256 digest has 32
  bytes.\<close>

definition jwt_sound :: "jwt_library \<Rightarrow> bool" where
  "jwt_sound lib \<longleftrightarrow>
     (\<forall>secret p ts e. jp_expires_at p = Some e \<longrightarrow> ts < e \<longrightarrow>
        jwt_verify lib secret (jp_issuer p) ts (jwt_sign lib secret p) = Inr p)"

definition digest_32 :: "(string \<Rightarrow> nat list) \<Rightarrow> bool" where
  "digest_32 SHA256 \<longleftrightarrow> (\<forall>data. length (SHA256 data) = 32)"

lemma sha256_hex_fits: "digest_32 SHA256 \<Longrightarrow> utf8_length (sha256_hex SHA256 data) \<le> 64"
proof -
  assume "digest_32 SHA256"
  moreover have "length (concat (map hex_byte bs)) = 2 * length bs" for bs
    by (induction bs) (simp_all add: hex_byte_def)
  ultimately have "length (sha256_hex SHA256 data) = 64"
    by (simp add: sha256_hex_def digest_32_def)
  with utf8_length_le [of "sha256_hex SHA256 data"] show ?thesis by simp
qed

lemma run_rotate:
  assumes "faults w = []" "digest_32 SHA256"
  shows "\<exists>w'. PgSessionRepository_rotate sid (sha256_hex SHA256 t) w = (Inr (), w') \<and> faults w' = []"
  using assms(1) sha256_hex_fits [OF assms(2), of t]
  by (simp add: PgSessionRepository_rotate_def with_transaction_quiet check_varchar_def act_simps)

lemma rotate_commit_runs:
  assumes "faults w = []" "digest_32 SHA256"
  shows "\<exists>pair w'. rotate_commit SHA256 (JwtTokenService lib options) sid claims w = (Inr pair, w') \<and> faults w' = []"
proof (rule run_issue_pair [of lib options "tk_user_id claims" "tk_username claims" w])
  fix p
  assume "ts_issue_pair (JwtTokenService lib options) (tk_user_id claims) (tk_username claims) w =
    (Inr p, w\<lparr>drawn := drawn w + 32\<rparr>)"
  with run_rotate [of "w\<lparr>drawn := drawn w + 32\<rparr>" SHA256 sid "tp_refresh_token p"] assms show ?thesis
    by (auto simp: rotate_commit_def act_simps)
qed

lemma run_rotate_checks:
  assumes "faults w = []"
  shows "rotate_checks SHA256 (JwtTokenService lib options) rt sid w = (Inr claims, w') \<longleftrightarrow>
    w' = w \<and> ts_verify (JwtTokenService lib options) rt kRefresh w = (Inr claims, w) \<and>
    (\<exists>s. find_session sid (tabs (db w)) = Some s \<and> is_active (now (db w)) s \<and>
       s_user_id s = tk_user_id claims \<and> s_refresh_token_hash s = sha256_hex SHA256 rt)"
proof -
  have "snd (ts_verify (JwtTokenService lib options) rt kRefresh w) = w"
    by (auto simp: JwtTokenService_def JwtTokenService_verify_def act_simps split: sum.splits)
  then obtain r where r: "ts_verify (JwtTokenService lib options) rt kRefresh w = (r, w)"
    by (metis prod.collapse)
  show ?thesis
    by (cases r)
       (use assms r in \<open>auto simp: rotate_checks_def PgSessionRepository_find_by_id_def act_simps require_apply
          split: option.splits if_splits\<close>)
qed

text \<open>The checks and the update of a rotation are separate transactions and the update does not repeat
  the comparison of the hash: when two requests present the same token and both finish their
  checks before either updates, both are given new tokens.\<close>

lemma rotate_race:
  assumes "faults w = []" "digest_32 SHA256"
    and "rotate_checks SHA256 (JwtTokenService lib options) rt sid w = (Inr claims, w1)"
  shows "rotate_checks SHA256 (JwtTokenService lib options) rt sid w1 = (Inr claims, w1)"
    and "\<exists>first w2 second w3.
      rotate_commit SHA256 (JwtTokenService lib options) sid claims w1 = (Inr first, w2) \<and>
      rotate_commit SHA256 (JwtTokenService lib options) sid claims w2 = (Inr second, w3)"
proof -
  have "w1 = w" using assms by (simp add: run_rotate_checks)
  with assms(3) show "rotate_checks SHA256 (JwtTokenService lib options) rt sid w1 = (Inr claims, w1)" by simp
  show "\<exists>first w2 second w3.
      rotate_commit SHA256 (JwtTokenService lib options) sid claims w1 = (Inr first, w2) \<and>
      rotate_commit SHA256 (JwtTokenService lib options) sid claims w2 = (Inr second, w3)"
    using rotate_commit_runs [OF assms(1,2)] rotate_commit_runs [OF _ assms(2)] unfolding \<open>w1 = w\<close> by blast
qed

lemma parse_subject_to_string: "u \<in> {int64_min..int64_max} \<Longrightarrow> parse_subject (to_string u) = Inr u"
  using from_chars_to_string [of int64_min u int64_max "[]"] by (simp add: parse_subject_def)

lemma verify_refresh:
  assumes "jwt_sound lib" "u \<in> {int64_min..int64_max}" "now (db w) < t + jo_refresh_ttl options"
  shows "ts_verify (JwtTokenService lib options) (jwt_sign lib (jo_secret options)
     (refresh_payload options u n jti t))
     kRefresh w =
   (Inr \<lparr>tk_user_id = u, tk_username = n, tk_type = kRefresh, tk_issued_at = t,
         tk_expires_at = t + jo_refresh_ttl options\<rparr>, w)"
proof -
  have "jwt_verify lib secret (jp_issuer p) ts (jwt_sign lib secret p) = Inr p"
    if "jp_expires_at p = Some e" "ts < e" for secret p ts e
    using assms(1) that unfolding jwt_sound_def by blast
  from this [of "refresh_payload options u n jti t", OF _ assms(3)]
  have "jwt_verify lib (jo_secret options) (jo_issuer options) (now (db w)) (jwt_sign lib (jo_secret options)
     (refresh_payload options u n jti t)) =
     Inr (refresh_payload options u n jti t)"
    by (simp add: refresh_payload_def)
  then show ?thesis
    by (simp add: JwtTokenService_def JwtTokenService_verify_def act_simps claims_of_def)
       (simp add: refresh_payload_def parse_subject_to_string [OF assms(2)])
qed

lemma rotate_token:
  assumes "SessionService_rotate SHA256 (JwtTokenService lib options) rt sid w = (Inr pair, w')" "faults w = []"
  shows "\<exists>s jti n. find_session sid (tabs (db w)) = Some s \<and> is_active (now (db w)) s \<and>
    tp_refresh_token pair = jwt_sign lib (jo_secret options)
     (refresh_payload options (s_user_id s) n jti (now (db w)))"
proof -
  obtain claims where checks: "rotate_checks SHA256 (JwtTokenService lib options) rt sid w = (Inr claims, w)"
    and commit: "rotate_commit SHA256 (JwtTokenService lib options) sid claims w = (Inr pair, w')"
    using assms unfolding SessionService_rotate_def by (auto elim!: seq_succeedsE simp: run_rotate_checks)
  obtain p where p: "ts_issue_pair (JwtTokenService lib options) (tk_user_id claims) (tk_username claims) w =
      (Inr p, w\<lparr>drawn := drawn w + 32\<rparr>)"
    "\<exists>jti. tp_refresh_token p = jwt_sign lib (jo_secret options)
       (refresh_payload options (tk_user_id claims) (tk_username claims) jti (now (db w)))"
    by (rule run_issue_pair)
  have "pair = p" using commit p(1) by (auto simp: rotate_commit_def elim!: seq_succeedsE)
  moreover obtain s where "find_session sid (tabs (db w)) = Some s" "is_active (now (db w)) s"
    "s_user_id s = tk_user_id claims"
    using checks assms(2) by (auto simp: run_rotate_checks)
  ultimately show ?thesis using p(2) by metis
qed

text \<open>C32. Rotation can go on: the refresh token a rotation hands out can itself be rotated, at any time
  before it expires and while the session is active, when the database works.\<close>

theorem rotation_chain:
  assumes "jwt_sound lib" "digest_32 SHA256" "faults w = []"
    and "SessionService_rotate SHA256 (JwtTokenService lib options) rt sid w = (Inr pair, w')"
    and "find_session sid (tabs (db w)) = Some s" "s_user_id s \<in> {int64_min..int64_max}"
    and "is_active ts s" "ts < now (db w) + jo_refresh_ttl options"
  shows "\<exists>next w''. SessionService_rotate SHA256 (JwtTokenService lib options) (tp_refresh_token pair) sid
    (w'\<lparr>db := (db w')\<lparr>now := ts\<rparr>, faults := []\<rparr>) = (Inr next, w'')"
proof -
  let ?w = "w'\<lparr>db := (db w')\<lparr>now := ts\<rparr>, faults := []\<rparr>"
  let ?tk = "JwtTokenService lib options"
  obtain jti n where tok: "tp_refresh_token pair = jwt_sign lib (jo_secret options)
     (refresh_payload options (s_user_id s) n jti (now (db w)))"
    using rotate_token [OF assms(4,3)] assms(5) by auto
  obtain claims where claims: "ts_verify ?tk (tp_refresh_token pair) kRefresh ?w = (Inr claims, ?w)"
    "tk_user_id claims = s_user_id s"
    using verify_refresh [OF assms(1,6), where w = ?w and t = "now (db w)"] assms(8) by (simp add: tok)
  have "find_session sid (tabs (db ?w)) = Some (rotated (sha256_hex SHA256 (tp_refresh_token pair)) (now (db w)) s)"
    using assms(5) by (simp add: rotate_ok(2) [OF assms(4)] find_session_rotated)
  with claims assms(7) have "rotate_checks SHA256 ?tk (tp_refresh_token pair) sid ?w = (Inr claims, ?w)"
    by (simp add: run_rotate_checks)
  with rotate_commit_runs [of ?w SHA256 lib options sid claims] assms(2) show ?thesis
    by (auto simp: SessionService_rotate_def seq_apply)
qed


section \<open>Revocation\<close>

lemma run_revoke_where:
  assumes "faults w = []"
  shows "with_transaction (revoke_where P) w =
    (Inr (int (length (filter P (t_sessions (tabs (db w)))))),
     w\<lparr>db := (db w)\<lparr>tabs := t_sessions_update (update_where P (\<lambda>s. s\<lparr>s_revoked_at := Some (now (db w))\<rparr>))
       (tabs (db w))\<rparr>\<rparr>)"
  using assms by (simp add: with_transaction_quiet revoke_where_def act_simps)

lemma active_after_revoke:
  "active_sessions u ts (t_sessions_update (update_where P (\<lambda>s. s\<lparr>s_revoked_at := Some r\<rparr>)) t) =
     filter (\<lambda>s. \<not> P s) (active_sessions u ts t)"
proof -
  have "filter (\<lambda>s. s_user_id s = u \<and> s_revoked_at s = None \<and> s_expires_at s > ts)
      (update_where P (\<lambda>s. s\<lparr>s_revoked_at := Some r\<rparr>) rows) =
    filter (\<lambda>s. \<not> P s) (filter (\<lambda>s. s_user_id s = u \<and> s_revoked_at s = None \<and> s_expires_at s > ts) rows)" for rows
    by (induction rows) (auto simp: update_where_def)
  then show ?thesis by (simp add: active_sessions_def)
qed

lemma find_session_revoked:
  "find_session k (t_sessions_update (update_where P (\<lambda>s. s\<lparr>s_revoked_at := Some r\<rparr>)) t) =
     map_option (\<lambda>s. if P s then s\<lparr>s_revoked_at := Some r\<rparr> else s) (find_session k t)"
  by (simp add: find_session_def find_update_where)

text \<open>Logging out everywhere works. When the database works, revoking all sessions of a user reports
  the number of sessions that were not revoked yet; afterwards the user has no active session, now
  or later, the active sessions of everybody else are what they were, and no refresh token is
  accepted for any session of the user. Revoking the others keeps exactly the named session.\<close>

theorem revoke_all_effect:
  assumes "faults w = []"
  shows "\<exists>w'. SessionService_revoke_all u w =
      (Inr (int (length (filter (\<lambda>s. s_user_id s = u \<and> s_revoked_at s = None) (t_sessions (tabs (db w)))))), w') \<and>
    SessionService_list u w' = (Inr [], w') \<and>
    (\<forall>ts. active_sessions u ts (tabs (db w')) = []) \<and>
    (\<forall>v ts. v \<noteq> u \<longrightarrow> active_sessions v ts (tabs (db w')) = active_sessions v ts (tabs (db w))) \<and>
    (\<forall>sid s rt ts fs. find_session sid (tabs (db w)) = Some s \<longrightarrow> s_user_id s = u \<longrightarrow>
       refused kAuthentication (SessionService_rotate SHA256 (JwtTokenService lib options) rt sid)
         (w'\<lparr>db := (db w')\<lparr>now := ts\<rparr>, faults := fs\<rparr>)) \<and>
    (\<exists>w''. SessionService_revoke_others u keep w =
       (Inr (int (length (filter (\<lambda>s. s_user_id s = u \<and> s_id s \<noteq> keep \<and> s_revoked_at s = None)
          (t_sessions (tabs (db w)))))), w'') \<and>
       (\<forall>ts. active_sessions u ts (tabs (db w'')) =
          filter (\<lambda>s. s_id s = keep) (active_sessions u ts (tabs (db w)))))"
proof -
  define P where "P = (\<lambda>s :: session. s_user_id s = u \<and> s_revoked_at s = None)"
  define w' where "w' = w\<lparr>db := (db w)\<lparr>tabs := t_sessions_update
    (update_where P (\<lambda>s. s\<lparr>s_revoked_at := Some (now (db w))\<rparr>)) (tabs (db w))\<rparr>\<rparr>"
  have run: "SessionService_revoke_all u w = (Inr (int (length (filter P (t_sessions (tabs (db w)))))), w')"
    using assms by (simp add: SessionService_revoke_all_def PgSessionRepository_revoke_all_def run_revoke_where P_def w'_def)
  have mine: "active_sessions u ts (tabs (db w')) = []" for ts
    unfolding w'_def by (simp add: active_after_revoke) (auto simp: P_def filter_empty_conv active_sessions_def)
  have others: "active_sessions v ts (tabs (db w')) = active_sessions v ts (tabs (db w))" if "v \<noteq> u" for v ts
    using that unfolding w'_def
    by (simp add: active_after_revoke) (auto simp: P_def active_sessions_def intro!: filter_cong)
  have list: "SessionService_list u w' = (Inr [], w')"
    using assms mine by (simp add: SessionService_list_def PgSessionRepository_list_active_for_user_def run_read w'_def)
  have dead: "refused kAuthentication (SessionService_rotate SHA256 (JwtTokenService lib options) rt sid)
      (w'\<lparr>db := (db w')\<lparr>now := ts\<rparr>, faults := fs\<rparr>)"
    if "find_session sid (tabs (db w)) = Some s" "s_user_id s = u" for sid s rt ts fs
    by (rule rotate_refused)
       (use that in \<open>auto simp: w'_def find_session_revoked P_def is_active_def is_revoked_def\<close>)
  have "active_sessions u ts (t_sessions_update (update_where
      (\<lambda>s. s_user_id s = u \<and> s_id s \<noteq> keep \<and> s_revoked_at s = None) (\<lambda>s. s\<lparr>s_revoked_at := Some r\<rparr>)) t) =
    filter (\<lambda>s. s_id s = keep) (active_sessions u ts t)" for ts r t
    unfolding active_after_revoke by (rule filter_cong) (auto simp: active_sessions_def)
  then have "\<exists>w''. SessionService_revoke_others u keep w =
       (Inr (int (length (filter (\<lambda>s. s_user_id s = u \<and> s_id s \<noteq> keep \<and> s_revoked_at s = None)
          (t_sessions (tabs (db w)))))), w'') \<and>
       (\<forall>ts. active_sessions u ts (tabs (db w'')) =
          filter (\<lambda>s. s_id s = keep) (active_sessions u ts (tabs (db w))))"
    using assms
    by (simp add: SessionService_revoke_others_def PgSessionRepository_revoke_all_except_def run_revoke_where)
  with run mine others list dead show ?thesis unfolding P_def by blast
qed


section \<open>Registration and login\<close>

text \<open>Addresses contain an at-sign and user names do not, so an identifier never names two accounts.\<close>

definition identifiers_apart :: "tables \<Rightarrow> bool" where
  "identifiers_apart t \<longleftrightarrow>
     list_all (\<lambda>r. CHR ''@'' \<in> set (u_email (ar_user r)) \<and> CHR ''@'' \<notin> set (u_username (ar_user r))) (t_users t)"

lemma tolower_at: "tolower c = CHR ''@'' \<longleftrightarrow> c = CHR ''@''"
proof
  assume at: "tolower c = CHR ''@''"
  show "c = CHR ''@''"
  proof (cases "isupper c")
    case True
    then have "byte_of c + 32 < 256" by (simp add: isupper_def)
    then have "byte_of (tolower c) = byte_of c + 32"
      using True by (simp add: tolower_def of_char_of)
    then show ?thesis using True at by (simp add: isupper_def)
  qed (use at in \<open>simp add: tolower_def\<close>)
qed (simp add: tolower_def isupper_def)

lemma to_lower_at: "CHR ''@'' \<in> set (to_lower s) \<longleftrightarrow> CHR ''@'' \<in> set s"
  unfolding to_lower_def set_map image_iff using tolower_at by metis

lemma registered_apart:
  assumes "validate_and_normalize_register req = Inr req'"
  shows "CHR ''@'' \<in> set (rr_email req')" "CHR ''@'' \<notin> set (rr_username req')"
proof -
  have ok: "validate_username (rr_username req') = Inr ()" "validate_email (rr_email req') = Inr ()"
    using assms unfolding register_ok_iff by blast+
  show "CHR ''@'' \<in> set (rr_email req')" using ok(2) by (auto simp: validate_email_ok email_language_def)
  have "\<not> is_valid_username_char (CHR ''@'')"
    by (simp add: is_valid_username_char_def isalnum_def isdigit_def islower_def isupper_def)
  then show "CHR ''@'' \<notin> set (rr_username req')" using ok(1) by (auto simp: validate_username_ok)
qed

lemma PgUserRepository_create_ok:
  assumes "PgUserRepository_create input w = (Inr u, w')"
  shows "\<exists>d'. insert_user input (db w) = (Inr u, d') \<and> w' = w\<lparr>faults := tl (faults w), db := d'\<rparr>"
  using assms unfolding PgUserRepository_create_def
  by (auto dest!: with_transaction_ok simp: catch_apply seq_apply
      split: prod.splits sum.splits db_thrown.splits sql_error.splits if_splits)

lemma register_ok:
  assumes "AuthService_register_user hasher (JwtTokenService lib options) req w = (Inr r, w')"
  obtains req' h d' where "validate_and_normalize_register req = Inr req'" "ph_hash hasher (rr_password req') = Inr h"
    "insert_user \<lparr>nu_username = rr_username req', nu_email = rr_email req', nu_password_hash = h\<rparr> (db w) =
       (Inr (are_user r), d')" "db w' = d'" "faults w' = tl (faults w)"
proof -
  from assms obtain req' h u w1 where v: "validate_and_normalize_register req = Inr req'"
    and h: "ph_hash hasher (rr_password req') = Inr h"
    and c: "PgUserRepository_create \<lparr>nu_username = rr_username req', nu_email = rr_email req', nu_password_hash = h\<rparr> w =
       (Inr u, w1)"
    and b: "build_response (JwtTokenService lib options) u w1 = (Inr r, w')"
    unfolding AuthService_register_user_def UserService_register_user_def
    by (auto simp: act_simps split: sum.splits prod.splits)
  obtain pair where "ts_issue_pair (JwtTokenService lib options) (u_id u) (u_username u) w1 =
      (Inr pair, w1\<lparr>drawn := drawn w1 + 32\<rparr>)"
    by (rule run_issue_pair)
  with b have "are_user r = u" "db w' = db w1" "faults w' = faults w1"
    by (auto simp: build_response_def act_simps)
  with PgUserRepository_create_ok [OF c] v h that show thesis by auto
qed

text \<open>Login in full, when the database works: either the first account with that name or address accepts
  the password, or one and the same error is raised and nothing has happened.\<close>

lemma run_login:
  assumes "faults w = []" "validate_and_normalize_login req = Inr req'"
  shows "AuthService_login hasher tokens req w =
    (case find_user (\<lambda>r. same_username (lr_identifier req') r \<or> same_email (lr_identifier req') r) (tabs (db w)) of
       None \<Rightarrow> (Inl (AuthenticationException ''Invalid credentials'' []), w)
     | Some u \<Rightarrow> if ph_verify hasher (lr_password req') (u_password_hash u) then build_response tokens u w
                 else (Inl (AuthenticationException ''Invalid credentials'' []), w))"
  using assms
  by (auto simp: AuthService_login_def UserService_authenticate_def PgUserRepository_find_by_identifier_def act_simps
      require_apply split: option.splits)

lemma run_build_response:
  "\<exists>pair. build_response (JwtTokenService lib options) u w =
     (Inr \<lparr>are_user = u, are_tokens = pair\<rparr>, w\<lparr>drawn := drawn w + 32\<rparr>)"
  by (rule run_issue_pair [of lib options "u_id u" "u_username u" w]) (auto simp: build_response_def act_simps)

text \<open>A freshly registered account is the one that its name and its address are looked up to.\<close>

lemma registered_is_found:
  assumes new: "validate_and_normalize_register req = Inr req'"
      "insert_user \<lparr>nu_username = rr_username req', nu_email = rr_email req', nu_password_hash = h\<rparr> d = (Inr u, d')"
    and apart: "identifiers_apart (tabs d)"
    and ident: "to_lower name \<in> {to_lower (u_username u), to_lower (u_email u)}"
  shows "find_user (\<lambda>x. same_username name x \<or> same_email name x) (tabs d') = Some u" "name \<noteq> []"
proof -
  let ?P = "\<lambda>x :: admin_user_record. same_username name x \<or> same_email name x"
  note row = insert_user_ok [OF new(2), simplified]
  have "\<not> ?P x" if x: "x \<in> set (t_users (tabs d))" for x
  proof -
    have a: "CHR ''@'' \<in> set (to_lower (u_email (ar_user x)))" "CHR ''@'' \<notin> set (to_lower (u_username (ar_user x)))"
      using apart x by (auto simp: identifiers_apart_def list_all_iff to_lower_at)
    have b: "CHR ''@'' \<in> set (to_lower (u_email u))" "CHR ''@'' \<notin> set (to_lower (u_username u))"
      using registered_apart [OF new(1)] row by (simp_all add: to_lower_at)
    have "\<not> same_username (u_username u) x" "\<not> same_email (u_email u) x" using row x by (auto simp: list_ex_iff)
    then show ?thesis using ident a b by (auto simp: same_username_def same_email_def)
  qed
  moreover have "?P \<lparr>ar_user = u, ar_role = kUser, ar_banned_at = None, ar_ban_reason = None, ar_banned_by = None\<rparr>"
    using ident by (auto simp: same_username_def same_email_def)
  ultimately show "find_user ?P (tabs d') = Some u" using row by (simp add: find_user_def find_append_new)
  show "name \<noteq> []"
  proof
    assume "name = []"
    then have "to_lower (u_username u) = [] \<or> to_lower (u_email u) = []" using ident by (auto simp: to_lower_def)
    then show False
      using new(1) row unfolding register_ok_iff
      by (auto simp: to_lower_def validate_username_ok validate_email_ok email_language_def)
  qed
qed

text \<open>C31. Who registers can log in. After a successful registration the password logs in to exactly that
  account under the user name and under the e-mail address, in any letter case and with
  surrounding white space, given that the hasher accepts what it hashed; and the separation of
  names and addresses this rests on is kept.\<close>

theorem register_then_login:
  assumes "faults w = []" "identifiers_apart (tabs (db w))"
    and "\<forall>h. ph_hash hasher (rr_password req) = Inr h \<longrightarrow> ph_verify hasher (rr_password req) h"
    and "AuthService_register_user hasher (JwtTokenService lib options) req w = (Inr r, w')"
    and "to_lower (trim ident) \<in> {to_lower (u_username (are_user r)), to_lower (u_email (are_user r))}"
  shows "identifiers_apart (tabs (db w')) \<and>
    (\<exists>r' w''. AuthService_login hasher (JwtTokenService lib options)
        \<lparr>lr_identifier = ident, lr_password = rr_password req\<rparr> w' = (Inr r', w'') \<and> are_user r' = are_user r)"
proof -
  obtain req' h d' where v: "validate_and_normalize_register req = Inr req'"
    and h: "ph_hash hasher (rr_password req') = Inr h"
    and ins: "insert_user \<lparr>nu_username = rr_username req', nu_email = rr_email req', nu_password_hash = h\<rparr> (db w) =
       (Inr (are_user r), d')" and w': "db w' = d'" "faults w' = tl (faults w)"
    by (rule register_ok [OF assms(4)])
  note new = insert_user_ok [OF ins, simplified]
  note apart = registered_apart [OF v]
  have pw: "rr_password req' = rr_password req" "rr_password req \<noteq> []"
    using v unfolding register_ok_iff by (auto simp: validate_password_ok)
  have found: "find_user (\<lambda>x. same_username (trim ident) x \<or> same_email (trim ident) x) (tabs (db w')) = Some (are_user r)"
    "trim ident \<noteq> []"
    using registered_is_found [OF v ins assms(2,5)] w'(1) by simp_all
  have "validate_and_normalize_login \<lparr>lr_identifier = ident, lr_password = rr_password req\<rparr> =
      Inr \<lparr>lr_identifier = trim ident, lr_password = rr_password req\<rparr>"
    using pw found(2) by (simp add: validate_and_normalize_login_def)
  moreover have "ph_verify hasher (rr_password req) (u_password_hash (are_user r))"
    using assms(3) h pw new by simp
  moreover have "identifiers_apart (tabs (db w'))"
    using assms(2) new apart by (simp add: identifiers_apart_def w')
  moreover have "faults w' = []" using w'(2) assms(1) by simp
  ultimately show ?thesis
    using run_build_response [of lib options "are_user r" w'] found(1) by (auto simp: run_login)
qed

text \<open>Login does not reveal accounts. When the database works, a well-formed login request ends in one
  of two ways: the account with that name or address accepts the password and is returned with
  a token pair, or the identical error is raised, whether the account does not exist or the
  password is wrong, with no other effect.\<close>

theorem login_outcome:
  assumes "faults w = []" "validate_and_normalize_login req = Inr req'"
  shows "(\<exists>r w'. AuthService_login hasher (JwtTokenService lib options) req w = (Inr r, w') \<and> db w' = db w \<and>
       find_user (\<lambda>x. same_username (lr_identifier req') x \<or> same_email (lr_identifier req') x) (tabs (db w)) =
         Some (are_user r) \<and>
       ph_verify hasher (lr_password req') (u_password_hash (are_user r))) \<or>
    AuthService_login hasher (JwtTokenService lib options) req w =
       (Inl (AuthenticationException ''Invalid credentials'' []), w) \<and>
    (\<forall>u. find_user (\<lambda>x. same_username (lr_identifier req') x \<or> same_email (lr_identifier req') x) (tabs (db w)) = Some u \<longrightarrow>
       \<not> ph_verify hasher (lr_password req') (u_password_hash u))"
proof (cases "find_user (\<lambda>x. same_username (lr_identifier req') x \<or> same_email (lr_identifier req') x) (tabs (db w))")
  case (Some u)
  obtain pair where "build_response (JwtTokenService lib options) u w =
      (Inr \<lparr>are_user = u, are_tokens = pair\<rparr>, w\<lparr>drawn := drawn w + 32\<rparr>)"
    using run_build_response by blast
  with Some show ?thesis by (simp add: run_login [OF assms])
qed (simp add: run_login [OF assms])


section \<open>Examples\<close>

text \<open>A library whose tokens are numbered encodings of their claims: sound, with no secrecy.\<close>

instance json :: countable
  by countable_datatype

type_synonym payload_fields =
  "string \<times> string option \<times> string \<times> json option \<times> json option \<times> time_point option \<times> time_point option"

definition fields :: "jwt_payload \<Rightarrow> payload_fields" where
  "fields p = (jp_issuer p, jp_subject p, jp_id p, jp_username p, jp_type p, jp_issued_at p, jp_expires_at p)"

definition of_fields :: "payload_fields \<Rightarrow> jwt_payload" where
  "of_fields = (\<lambda>(iss, sub, i, name, ty, iat, expiry).
     \<lparr>jp_issuer = iss, jp_subject = sub, jp_id = i, jp_username = name, jp_type = ty, jp_issued_at = iat,
      jp_expires_at = expiry\<rparr>)"

definition numbered_jwt :: jwt_library where
  "numbered_jwt =
     \<lparr>jwt_sign = (\<lambda>_ p. replicate (to_nat (fields p)) (CHR ''x'')),
      jwt_verify = (\<lambda>_ issuer ts token.
        let p = of_fields (from_nat (length token))
        in if jp_issuer p \<noteq> issuer then Inl ''issuer''
           else if (case jp_expires_at p of None \<Rightarrow> False | Some e \<Rightarrow> e \<le> ts) then Inl ''expired'' else Inr p),
      jwt_claim_error = ''claim''\<rparr>"

lemma numbered_jwt_sound: "jwt_sound numbered_jwt"
  by (simp add: jwt_sound_def numbered_jwt_def of_fields_def fields_def)

definition token_options :: jwt_options where
  "token_options = \<lparr>jo_secret = ''secret'', jo_issuer = ''rtc'', jo_access_ttl = 900, jo_refresh_ttl = 1000\<rparr>"

definition zero_digest :: "string \<Rightarrow> nat list" where
  "zero_digest data = replicate 32 0"

text \<open>A library whose tokens are their identifiers, all accepted for user 3, and a digest of 32 leading
  bytes: enough to run a rotation.\<close>

definition bare_jwt :: jwt_library where
  "bare_jwt =
     \<lparr>jwt_sign = (\<lambda>_ p. jp_id p),
      jwt_verify = (\<lambda>_ _ ts _. Inr (refresh_payload token_options 3 ''cy'' [] ts)),
      jwt_claim_error = ''claim''\<rparr>"

definition prefix_digest :: "string \<Rightarrow> nat list" where
  "prefix_digest data = map byte_of (take 32 (data @ replicate 32 (CHR ''0'')))"

definition session_world :: "string \<Rightarrow> world" where
  "session_world h = example_world\<lparr>db := (db example_world)\<lparr>tabs := t_sessions_update (\<lambda>_.
     [\<lparr>s_id = ''s1'', s_user_id = 3, s_refresh_token_hash = h, s_user_agent = None, s_ip = None, s_created_at = 0,
       s_last_used_at = 0, s_expires_at = 5000, s_revoked_at = None\<rparr>]) (tabs (db example_world))\<rparr>\<rparr>"

lemma session_world_facts:
  "faults (session_world h) = []" "now (db (session_world h)) = 100"
  "\<exists>s. find_session ''s1'' (tabs (db (session_world h))) = Some s \<and> s_user_id s = 3 \<and> s_refresh_token_hash s = h \<and>
     (\<forall>ts. is_active ts s \<longleftrightarrow> ts < 5000)"
  by (auto simp: session_world_def example_world_def find_session_def is_active_def is_revoked_def is_expired_def)

lemma rotate_runs:
  assumes "faults w = []" "digest_32 SHA256" "ts_verify (JwtTokenService lib options) rt kRefresh w = (Inr claims, w)"
    and "find_session sid (tabs (db w)) = Some s" "is_active (now (db w)) s" "s_user_id s = tk_user_id claims"
    and "s_refresh_token_hash s = sha256_hex SHA256 rt"
  shows "\<exists>pair w'. SessionService_rotate SHA256 (JwtTokenService lib options) rt sid w = (Inr pair, w') \<and>
    rotate_commit SHA256 (JwtTokenService lib options) sid claims w = (Inr pair, w')"
proof -
  have "rotate_checks SHA256 (JwtTokenService lib options) rt sid w = (Inr claims, w)"
    using assms by (simp add: run_rotate_checks)
  with rotate_commit_runs [OF assms(1,2), of lib options sid claims] show ?thesis
    by (auto simp: SessionService_rotate_def seq_apply)
qed

theorem rotation_chain_witness:
  "\<exists>rt h pair w' next w''.
     SessionService_rotate zero_digest (JwtTokenService numbered_jwt token_options) rt ''s1'' (session_world h) = (Inr pair, w') \<and>
     SessionService_rotate zero_digest (JwtTokenService numbered_jwt token_options) (tp_refresh_token pair) ''s1''
       (w'\<lparr>db := (db w')\<lparr>now := 1099\<rparr>, faults := []\<rparr>) = (Inr next, w'')"
proof -
  define rt where "rt = jwt_sign numbered_jwt (jo_secret token_options) (refresh_payload token_options 3 ''cy'' [] 0)"
  define w where "w = session_world (sha256_hex zero_digest rt)"
  have d: "digest_32 zero_digest" by (simp add: digest_32_def zero_digest_def)
  obtain s where s: "find_session ''s1'' (tabs (db w)) = Some s" "s_user_id s = 3"
    "s_refresh_token_hash s = sha256_hex zero_digest rt" "\<And>ts. is_active ts s \<longleftrightarrow> ts < 5000"
    using session_world_facts(3) unfolding w_def by blast
  have w: "faults w = []" "now (db w) = 100" unfolding w_def by (simp_all add: session_world_facts)
  have three: "(3::int) \<in> {int64_min..int64_max}" by (simp add: int64_min_def int64_max_def)
  have "now (db w) < 0 + jo_refresh_ttl token_options" by (simp add: w token_options_def)
  from rotate_runs [OF w(1) d verify_refresh [OF numbered_jwt_sound three this, of "''cy''" "[]", folded rt_def] s(1)]
  obtain pair w' where run:
    "SessionService_rotate zero_digest (JwtTokenService numbered_jwt token_options) rt ''s1'' w = (Inr pair, w')"
    using s w by auto
  have "\<exists>next w''. SessionService_rotate zero_digest (JwtTokenService numbered_jwt token_options)
      (tp_refresh_token pair) ''s1'' (w'\<lparr>db := (db w')\<lparr>now := 1099\<rparr>, faults := []\<rparr>) = (Inr next, w'')"
    by (rule rotation_chain [OF numbered_jwt_sound d w(1) run s(1)]) (use s three w in \<open>simp_all add: token_options_def\<close>)
  with run show ?thesis unfolding w_def by blast
qed

theorem rotation_single_use_witness:
  "\<exists>pair w'. SessionService_rotate prefix_digest (JwtTokenService bare_jwt token_options) ''old'' ''s1''
       (session_world (sha256_hex prefix_digest ''old'')) = (Inr pair, w') \<and>
     refused kAuthentication (SessionService_rotate prefix_digest (JwtTokenService bare_jwt token_options) ''old'' ''s1'')
       (w'\<lparr>db := (db w')\<lparr>now := 101\<rparr>, faults := []\<rparr>)"
proof -
  define w where "w = session_world (sha256_hex prefix_digest ''old'')"
  have d: "digest_32 prefix_digest" by (auto simp: digest_32_def prefix_digest_def min_def)
  obtain s where s: "find_session ''s1'' (tabs (db w)) = Some s" "s_user_id s = 3"
    "s_refresh_token_hash s = sha256_hex prefix_digest ''old''" "is_active (now (db w)) s"
    using session_world_facts(2,3) [of "sha256_hex prefix_digest ''old''"] unfolding w_def by auto
  have w: "faults w = []" unfolding w_def by (simp add: session_world_facts)
  let ?claims = "\<lparr>tk_user_id = 3, tk_username = ''cy'', tk_type = kRefresh, tk_issued_at = now (db w),
    tk_expires_at = now (db w) + 1000\<rparr>"
  have v: "ts_verify (JwtTokenService bare_jwt token_options) ''old'' kRefresh w = (Inr ?claims, w)"
    by (simp add: JwtTokenService_def JwtTokenService_verify_def act_simps bare_jwt_def claims_of_def refresh_payload_def
        token_options_def parse_subject_to_string int64_min_def int64_max_def)
  obtain pair w' where run:
    "SessionService_rotate prefix_digest (JwtTokenService bare_jwt token_options) ''old'' ''s1'' w = (Inr pair, w')"
    and commit: "rotate_commit prefix_digest (JwtTokenService bare_jwt token_options) ''s1'' ?claims w = (Inr pair, w')"
    using rotate_runs [OF w d v s(1)] s by auto
  have "tp_refresh_token pair = hex_byte 16 @ concat (map hex_byte [17..<32])"
    using commit
    by (auto simp: rotate_commit_def JwtTokenService_def JwtTokenService_issue_pair_def JwtTokenService_issue_def
        bare_jwt_def generate_hex_token_def act_simps w_def session_world_def example_world_def upt_rec
        split: prod.splits sum.splits)
  then have "sha256_hex prefix_digest (tp_refresh_token pair) \<noteq> sha256_hex prefix_digest ''old''"
    by (simp add: sha256_hex_def prefix_digest_def hex_byte_def hex_digit_def)
  from rotation_single_use [OF run this] run show ?thesis unfolding w_def by blast
qed

theorem revoke_all_effect_witness:
  "\<exists>w'. SessionService_revoke_all 3 (session_world ''h'') = (Inr 1, w') \<and> SessionService_list 3 w' = (Inr [], w')"
proof -
  have "length (filter (\<lambda>s. s_user_id s = 3 \<and> s_revoked_at s = None) (t_sessions (tabs (db (session_world ''h''))))) = 1"
    by (simp add: session_world_def)
  with revoke_all_effect [OF session_world_facts(1), of 3 "''h''" zero_digest bare_jwt token_options "''s1''"]
  show ?thesis by auto
qed

definition plain_hasher :: password_hasher where
  "plain_hasher = \<lparr>ph_hash = (\<lambda>p. Inr (CHR ''$'' # p)), ph_verify = (\<lambda>p h. h = CHR ''$'' # p)\<rparr>"

definition example_registration :: register_request where
  "example_registration = \<lparr>rr_username = ''Cy.Doe'', rr_email = ''Cy@Example.com'', rr_password = ''correct horse''\<rparr>"

lemma example_registration_runs:
  "\<exists>r w'. AuthService_register_user plain_hasher (JwtTokenService bare_jwt token_options) example_registration example_world =
     (Inr r, w') \<and> u_username (are_user r) = ''Cy.Doe''"
proof -
  have v: "validate_and_normalize_register example_registration = Inr
      \<lparr>rr_username = ''Cy.Doe'', rr_email = ''cy@example.com'', rr_password = ''correct horse''\<rparr>" by code_simp
  have fresh: "\<not> list_ex (same_username ''Cy.Doe'') (t_users (tabs (db example_world)))"
    "\<not> list_ex (same_email ''cy@example.com'') (t_users (tabs (db example_world)))"
    by (simp_all add: example_defs same_username_def same_email_def to_lower_def tolower_def isupper_def)
  obtain u d where "insert_user \<lparr>nu_username = ''Cy.Doe'', nu_email = ''cy@example.com'',
      nu_password_hash = ''$correct horse''\<rparr> (db example_world) = (Inr u, d)" "u_username u = ''Cy.Doe''"
    using fresh by (simp add: insert_user_def act_simps Let_def)
  moreover have "faults example_world = []" by (simp add: example_world_def)
  ultimately show ?thesis
    using run_build_response [of bare_jwt token_options u "example_world\<lparr>db := d\<rparr>"]
    by (auto simp: AuthService_register_user_def UserService_register_user_def v act_simps plain_hasher_def
        PgUserRepository_create_def with_transaction_quiet)
qed

theorem register_then_login_witness:
  "\<exists>r w' r' w''. AuthService_register_user plain_hasher (JwtTokenService bare_jwt token_options) example_registration
       example_world = (Inr r, w') \<and>
     AuthService_login plain_hasher (JwtTokenService bare_jwt token_options)
       \<lparr>lr_identifier = '' CY.doe'', lr_password = ''correct horse''\<rparr> w' = (Inr r', w'') \<and> are_user r' = are_user r"
proof -
  obtain r w' where run: "AuthService_register_user plain_hasher (JwtTokenService bare_jwt token_options)
      example_registration example_world = (Inr r, w')" and name: "u_username (are_user r) = ''Cy.Doe''"
    using example_registration_runs by blast
  have "to_lower (trim '' CY.doe'') = to_lower ''Cy.Doe''" by code_simp
  moreover have "identifiers_apart (tabs (db example_world))" by (simp add: identifiers_apart_def example_defs)
  moreover have "faults example_world = []" by (simp add: example_world_def)
  ultimately have "\<exists>r' w''. AuthService_login plain_hasher (JwtTokenService bare_jwt token_options)
      \<lparr>lr_identifier = '' CY.doe'', lr_password = rr_password example_registration\<rparr> w' = (Inr r', w'') \<and>
      are_user r' = are_user r"
    using register_then_login [OF _ _ _ run, of "'' CY.doe''"] by (simp add: name plain_hasher_def)
  with run show ?thesis by (auto simp: example_registration_def)
qed

theorem login_outcome_witness:
  "AuthService_login plain_hasher (JwtTokenService bare_jwt token_options)
     \<lparr>lr_identifier = ''nobody'', lr_password = ''x''\<rparr> example_world =
   (Inl (AuthenticationException ''Invalid credentials'' []), example_world)"
proof -
  have "validate_and_normalize_login \<lparr>lr_identifier = ''nobody'', lr_password = ''x''\<rparr> =
      Inr \<lparr>lr_identifier = ''nobody'', lr_password = ''x''\<rparr>" by code_simp
  moreover have "find_user (\<lambda>x. same_username ''nobody'' x \<or> same_email ''nobody'' x) (tabs (db example_world)) = None"
    by (simp add: find_user_def example_defs same_username_def same_email_def to_lower_def tolower_def isupper_def)
  moreover have "faults example_world = []" by (simp add: example_world_def)
  ultimately show ?thesis
    using login_outcome [of example_world "\<lparr>lr_identifier = ''nobody'', lr_password = ''x''\<rparr>"
      "\<lparr>lr_identifier = ''nobody'', lr_password = ''x''\<rparr>" plain_hasher bare_jwt token_options] by simp
qed

end
