(* ===== verification/Registries.thy ===== *)
theory Registries
  imports Events "HOL-Library.Finite_Map"
begin

text \<open>
  The registries of live WebSocket connections: \<^verbatim>\<open>SessionManager\<close> (who is behind a connection, which
  connections a user has) and \<^verbatim>\<open>RoomManager\<close> (which connections follow a conversation). Both keep
  two hash maps that must agree. A connection is its address; the hash containers iterate in an
  unspecified order, the model in increasing order, and no property depends on the order.
\<close>


section \<open>Maps to sets\<close>

text \<open>\<^verbatim>\<open>std::unordered_map<K, std::unordered_set<V>>\<close> and the three ways the code uses it: insertion
  through \<^verbatim>\<open>m[k].insert(x)\<close>, erasure that drops a key whose set becomes empty, and reading.\<close>

type_synonym ('k, 'v) index = "('k, 'v fset) fmap"

definition index_get :: "('k, 'v) index \<Rightarrow> 'k \<Rightarrow> 'v fset" where
  "index_get m k = (case fmlookup m k of None \<Rightarrow> {||} | Some s \<Rightarrow> s)"

definition index_insert :: "'k \<Rightarrow> 'v \<Rightarrow> ('k, 'v) index \<Rightarrow> ('k, 'v) index" where
  "index_insert k x m = fmupd k (finsert x (index_get m k)) m"

definition index_erase :: "'k \<Rightarrow> 'v \<Rightarrow> ('k, 'v) index \<Rightarrow> ('k, 'v) index" where
  "index_erase k x m =
     (case fmlookup m k of
        None \<Rightarrow> m
      | Some s \<Rightarrow> let s' = s |-| {|x|} in if s' = {||} then fmdrop k m else fmupd k s' m)"

text \<open>Iterating over an unordered set.\<close>

definition each :: "'a::linorder fset \<Rightarrow> 'a list" where
  "each s = sorted_list_of_fset s"

text \<open>An index stands for a relation.\<close>

definition index_rel :: "('k, 'v) index \<Rightarrow> ('k \<times> 'v) set" where
  "index_rel m = {(k, x). x |\<in>| index_get m k}"

definition no_empty :: "('k, 'v) index \<Rightarrow> bool" where
  "no_empty m \<longleftrightarrow> (\<forall>k. fmlookup m k \<noteq> Some {||})"

lemma index_get_empty [simp]: "index_get fmempty k = {||}"
  by (simp add: index_get_def)

lemma index_get_insert [simp]:
  "index_get (index_insert k x m) k' = (if k = k' then finsert x (index_get m k) else index_get m k')"
  by (simp add: index_insert_def index_get_def)

lemma index_get_erase [simp]:
  "index_get (index_erase k x m) k' = (if k = k' then index_get m k |-| {|x|} else index_get m k')"
  by (auto simp: index_erase_def index_get_def Let_def split: option.splits)

lemma index_get_drop [simp]: "index_get (fmdrop k m) k' = (if k = k' then {||} else index_get m k')"
  by (simp add: index_get_def)

lemma index_rel_iff: "(k, x) \<in> index_rel m \<longleftrightarrow> x |\<in>| index_get m k"
  by (simp add: index_rel_def)

lemma index_rel_insert [simp]: "index_rel (index_insert k x m) = insert (k, x) (index_rel m)"
  by (auto simp: index_rel_def split: if_splits)

lemma index_rel_erase [simp]: "index_rel (index_erase k x m) = index_rel m - {(k, x)}"
  by (auto simp: index_rel_def split: if_splits)

lemma index_rel_drop [simp]: "index_rel (fmdrop k m) = index_rel m - ({k} \<times> UNIV)"
  by (auto simp: index_rel_def split: if_splits)

lemma index_rel_empty [simp]: "index_rel fmempty = {}"
  by (simp add: index_rel_def)

lemma no_empty_simps [simp]: "no_empty fmempty" "no_empty m \<Longrightarrow> no_empty (index_insert k x m)"
  "no_empty m \<Longrightarrow> no_empty (index_erase k x m)"
  by (auto simp: no_empty_def index_insert_def index_erase_def Let_def split: option.splits)

lemma no_empty_dom: "no_empty m \<Longrightarrow> fset (fmdom m) = Domain (index_rel m)"
  unfolding no_empty_def index_rel_def index_get_def
  by (auto simp: Domain_iff fmlookup_dom_iff split: option.splits) (metis all_not_fin_conv)

lemma set_each [simp]: "set (each s) = fset s"
  by (simp add: each_def)

lemma distinct_each [simp]: "distinct (each s)" "each {||} = []"
  by (simp_all add: each_def sorted_list_of_fset.rep_eq)


section \<open>Sessions\<close>

type_synonym conn = nat

definition nullptr :: conn where "nullptr = 0"

datatype version = kV1 | kV2

definition kDefaultVersion :: version where "kDefaultVersion = kV1"

record auth_context =
  ac_user_id :: int
  ac_username :: string
  ac_protocol_version :: version

record ws_session =
  ws_connection :: conn
  ws_user_id :: int
  ws_username :: string
  ws_protocol_version :: version
  ws_last_activity_ms :: int

record session_manager =
  by_connection :: "(conn, ws_session) fmap"
  by_user :: "(int, conn) index"

definition no_sessions :: session_manager where
  "no_sessions = \<lparr>by_connection = fmempty, by_user = fmempty\<rparr>"

definition SessionManager_add ::
    "conn \<Rightarrow> int \<Rightarrow> string \<Rightarrow> version \<Rightarrow> session_manager \<Rightarrow> ws_session \<times> session_manager" where
  "SessionManager_add conn user_id username version sm =
     (let s = \<lparr>ws_connection = conn, ws_user_id = user_id, ws_username = username,
               ws_protocol_version = version, ws_last_activity_ms = 0\<rparr>
      in (s, \<lparr>by_connection = fmupd conn s (by_connection sm), by_user = index_insert user_id conn (by_user sm)\<rparr>))"

definition SessionManager_remove :: "conn \<Rightarrow> session_manager \<Rightarrow> ws_session option \<times> session_manager" where
  "SessionManager_remove conn sm =
     (case fmlookup (by_connection sm) conn of
        None \<Rightarrow> (None, sm)
      | Some s \<Rightarrow> (Some s, \<lparr>by_connection = fmdrop conn (by_connection sm),
                            by_user = index_erase (ws_user_id s) conn (by_user sm)\<rparr>))"

definition SessionManager_get :: "conn \<Rightarrow> session_manager \<Rightarrow> ws_session option" where
  "SessionManager_get conn sm = fmlookup (by_connection sm) conn"

definition SessionManager_connections_for_user :: "int \<Rightarrow> session_manager \<Rightarrow> conn list" where
  "SessionManager_connections_for_user user_id sm = each (index_get (by_user sm) user_id)"

definition SessionManager_sessions_for :: "conn list \<Rightarrow> session_manager \<Rightarrow> ws_session list" where
  "SessionManager_sessions_for connections sm = List.map_filter (fmlookup (by_connection sm)) connections"

definition SessionManager_sessions_for_user :: "int \<Rightarrow> session_manager \<Rightarrow> ws_session list" where
  "SessionManager_sessions_for_user user_id sm =
     (case fmlookup (by_user sm) user_id of
        None \<Rightarrow> []
      | Some conns \<Rightarrow> List.map_filter (fmlookup (by_connection sm)) (each conns))"

definition SessionManager_snapshot :: "session_manager \<Rightarrow> ws_session list" where
  "SessionManager_snapshot sm = List.map_filter (fmlookup (by_connection sm)) (each (fmdom (by_connection sm)))"

definition SessionManager_touch :: "conn \<Rightarrow> int \<Rightarrow> session_manager \<Rightarrow> session_manager" where
  "SessionManager_touch conn now_ms sm =
     (case fmlookup (by_connection sm) conn of
        None \<Rightarrow> sm
      | Some s \<Rightarrow> sm\<lparr>by_connection := fmupd conn (s\<lparr>ws_last_activity_ms := now_ms\<rparr>) (by_connection sm)\<rparr>)"

definition SessionManager_session_count :: "session_manager \<Rightarrow> nat" where
  "SessionManager_session_count sm = fcard (fmdom (by_connection sm))"

text \<open>The two indexes agree: every registered session knows its own connection, and the users' sets
  list exactly the registered connections.\<close>

definition sessions_agree :: "session_manager \<Rightarrow> bool" where
  "sessions_agree sm \<longleftrightarrow>
     (\<forall>c s. fmlookup (by_connection sm) c = Some s \<longrightarrow> ws_connection s = c) \<and>
     (\<forall>u c. c |\<in>| index_get (by_user sm) u \<longleftrightarrow>
        (\<exists>s. fmlookup (by_connection sm) c = Some s \<and> ws_user_id s = u)) \<and>
     no_empty (by_user sm)"

lemma no_sessions_agree [simp]: "sessions_agree no_sessions"
  by (simp add: sessions_agree_def no_sessions_def)

lemma SessionManager_add_agree:
  assumes "sessions_agree sm" "SessionManager_get c sm = None"
  shows "sessions_agree (snd (SessionManager_add c u n v sm))"
  using assms by (auto simp: sessions_agree_def SessionManager_add_def SessionManager_get_def Let_def)

lemma SessionManager_remove_agree: "sessions_agree sm \<Longrightarrow> sessions_agree (snd (SessionManager_remove c sm))"
  by (auto simp: sessions_agree_def SessionManager_remove_def split: option.splits if_splits)

lemma SessionManager_touch_agree: "sessions_agree sm \<Longrightarrow> sessions_agree (SessionManager_touch c t sm)"
  by (auto simp: sessions_agree_def SessionManager_touch_def split: option.splits if_splits)

lemma SessionManager_get_simps [simp]:
  "SessionManager_get k (snd (SessionManager_add c u n v sm)) =
     (if k = c then Some (fst (SessionManager_add c u n v sm)) else SessionManager_get k sm)"
  "SessionManager_get k (snd (SessionManager_remove c sm)) = (if k = c then None else SessionManager_get k sm)"
  "SessionManager_get k (SessionManager_touch c t sm) =
     map_option (\<lambda>s. if k = c then s\<lparr>ws_last_activity_ms := t\<rparr> else s) (SessionManager_get k sm)"
  by (cases "fmlookup (by_connection sm) c"; cases "k = c";
      simp add: SessionManager_get_def SessionManager_add_def SessionManager_remove_def SessionManager_touch_def Let_def
        option.map_ident)+

lemma fst_SessionManager_remove [simp]: "fst (SessionManager_remove c sm) = SessionManager_get c sm"
  by (simp add: SessionManager_remove_def SessionManager_get_def split: option.splits)

text \<open>Every way of listing sessions yields distinct registered sessions, and exactly those asked for.\<close>

lemma map_filter_set: "set (List.map_filter f xs) = {y. \<exists>x \<in> set xs. f x = Some y}"
  by (induction xs) (auto simp: List.map_filter_simps split: option.splits)

lemma map_filter_distinct:
  assumes "distinct xs" "\<And>x x' y. f x = Some y \<Longrightarrow> f x' = Some y \<Longrightarrow> x = x'"
  shows "distinct (List.map_filter f xs)"
  using assms(1) by (induction xs) (auto simp: List.map_filter_simps map_filter_set dest: assms(2) split: option.splits)

lemma listed_sessions:
  assumes "sessions_agree sm"
  shows "set (SessionManager_sessions_for_user u sm) = {s. \<exists>c. SessionManager_get c sm = Some s \<and> ws_user_id s = u}"
    and "set (SessionManager_snapshot sm) = {s. \<exists>c. SessionManager_get c sm = Some s}"
    and "distinct (SessionManager_sessions_for_user u sm)" "distinct (SessionManager_snapshot sm)"
    and "distinct cs \<Longrightarrow> distinct (SessionManager_sessions_for cs sm)"
    and "set (SessionManager_sessions_for cs sm) = {s. \<exists>c \<in> set cs. SessionManager_get c sm = Some s}"
proof -
  have inj: "c = c'" if "fmlookup (by_connection sm) c = Some s" "fmlookup (by_connection sm) c' = Some s" for c c' s
    using that assms unfolding sessions_agree_def by blast
  have mem: "c |\<in>| index_get (by_user sm) u \<longleftrightarrow> (\<exists>s. fmlookup (by_connection sm) c = Some s \<and> ws_user_id s = u)" for c u
    using assms unfolding sessions_agree_def by blast
  have user: "SessionManager_sessions_for_user u sm =
      List.map_filter (fmlookup (by_connection sm)) (each (index_get (by_user sm) u))"
    by (simp add: SessionManager_sessions_for_user_def index_get_def List.map_filter_simps split: option.splits)
  show "set (SessionManager_sessions_for_user u sm) = {s. \<exists>c. SessionManager_get c sm = Some s \<and> ws_user_id s = u}"
    unfolding user using mem by (auto simp: map_filter_set SessionManager_get_def)
  show "set (SessionManager_snapshot sm) = {s. \<exists>c. SessionManager_get c sm = Some s}"
    by (auto simp: SessionManager_snapshot_def map_filter_set SessionManager_get_def intro: fmdomI)
  show "set (SessionManager_sessions_for cs sm) = {s. \<exists>c \<in> set cs. SessionManager_get c sm = Some s}"
    by (auto simp: SessionManager_sessions_for_def map_filter_set SessionManager_get_def)
  show "distinct (SessionManager_sessions_for_user u sm)" "distinct (SessionManager_snapshot sm)"
    "distinct cs \<Longrightarrow> distinct (SessionManager_sessions_for cs sm)"
    unfolding user SessionManager_snapshot_def SessionManager_sessions_for_def
    by (auto intro!: map_filter_distinct dest: inj)
qed


section \<open>Rooms\<close>

record room_manager =
  rooms :: "(int, conn) index"
  membership :: "(conn, int) index"

definition no_rooms :: room_manager where
  "no_rooms = \<lparr>rooms = fmempty, membership = fmempty\<rparr>"

definition RoomManager_join :: "int \<Rightarrow> conn \<Rightarrow> room_manager \<Rightarrow> room_manager" where
  "RoomManager_join conversation_id conn rm =
     \<lparr>rooms = index_insert conversation_id conn (rooms rm),
      membership = index_insert conn conversation_id (membership rm)\<rparr>"

text \<open>\<^verbatim>\<open>auto& joined = membership_[conn]\<close> creates the entry even when there is nothing to join.\<close>

definition RoomManager_join_many :: "int list \<Rightarrow> conn \<Rightarrow> room_manager \<Rightarrow> room_manager" where
  "RoomManager_join_many conversation_ids conn rm =
     fold (\<lambda>i rm. \<lparr>rooms = index_insert i conn (rooms rm), membership = index_insert conn i (membership rm)\<rparr>)
       conversation_ids
       (rm\<lparr>membership := fmupd conn (index_get (membership rm) conn) (membership rm)\<rparr>)"

definition RoomManager_leave :: "int \<Rightarrow> conn \<Rightarrow> room_manager \<Rightarrow> room_manager" where
  "RoomManager_leave conversation_id conn rm =
     \<lparr>rooms = index_erase conversation_id conn (rooms rm),
      membership = index_erase conn conversation_id (membership rm)\<rparr>"

definition RoomManager_leave_all :: "conn \<Rightarrow> room_manager \<Rightarrow> room_manager" where
  "RoomManager_leave_all conn rm =
     (case fmlookup (membership rm) conn of
        None \<Rightarrow> rm
      | Some joined \<Rightarrow>
          \<lparr>rooms = fold (\<lambda>i. index_erase i conn) (each joined) (rooms rm),
           membership = fmdrop conn (membership rm)\<rparr>)"

definition RoomManager_connections_in_room :: "int \<Rightarrow> room_manager \<Rightarrow> conn list" where
  "RoomManager_connections_in_room conversation_id rm = each (index_get (rooms rm) conversation_id)"

definition RoomManager_room_count :: "room_manager \<Rightarrow> nat" where
  "RoomManager_room_count rm = fcard (fmdom (rooms rm))"


subsection \<open>Rooms implement a relation\<close>

text \<open>The abstract room registry is a relation between conversations and connections.\<close>

datatype room_call = Join int conn | JoinMany "int list" conn | Leave int conn | LeaveAll conn

fun call_rooms :: "room_call \<Rightarrow> room_manager \<Rightarrow> room_manager" where
  "call_rooms (Join i c) = RoomManager_join i c"
| "call_rooms (JoinMany is c) = RoomManager_join_many is c"
| "call_rooms (Leave i c) = RoomManager_leave i c"
| "call_rooms (LeaveAll c) = RoomManager_leave_all c"

fun call_relation :: "room_call \<Rightarrow> (int \<times> conn) set \<Rightarrow> (int \<times> conn) set" where
  "call_relation (Join i c) R = insert (i, c) R"
| "call_relation (JoinMany is c) R = R \<union> set is \<times> {c}"
| "call_relation (Leave i c) R = R - {(i, c)}"
| "call_relation (LeaveAll c) R = {(i, d) \<in> R. d \<noteq> c}"

definition rooms_agree :: "room_manager \<Rightarrow> bool" where
  "rooms_agree rm \<longleftrightarrow> index_rel (membership rm) = (index_rel (rooms rm))\<inverse> \<and> no_empty (rooms rm)"

lemma join_many_rel:
  "index_rel (rooms (RoomManager_join_many is c rm)) = index_rel (rooms rm) \<union> set is \<times> {c}"
  "index_rel (membership (RoomManager_join_many is c rm)) = index_rel (membership rm) \<union> {c} \<times> set is"
  "no_empty (rooms rm) \<Longrightarrow> no_empty (rooms (RoomManager_join_many is c rm))"
proof -
  have "index_rel (rooms (fold (\<lambda>i rm. \<lparr>rooms = index_insert i c (rooms rm), membership = index_insert c i (membership rm)\<rparr>)
      is r)) = index_rel (rooms r) \<union> set is \<times> {c} \<and>
    index_rel (membership (fold (\<lambda>i rm. \<lparr>rooms = index_insert i c (rooms rm), membership = index_insert c i (membership rm)\<rparr>)
      is r)) = index_rel (membership r) \<union> {c} \<times> set is \<and>
    (no_empty (rooms r) \<longrightarrow> no_empty (rooms (fold (\<lambda>i rm. \<lparr>rooms = index_insert i c (rooms rm),
       membership = index_insert c i (membership rm)\<rparr>) is r)))" for r
    by (induction "is" arbitrary: r) auto
  moreover have "index_rel (fmupd c (index_get (membership rm) c) (membership rm)) = index_rel (membership rm)"
    by (auto simp: index_rel_def index_get_def split: if_splits)
  ultimately show "index_rel (rooms (RoomManager_join_many is c rm)) = index_rel (rooms rm) \<union> set is \<times> {c}"
    "index_rel (membership (RoomManager_join_many is c rm)) = index_rel (membership rm) \<union> {c} \<times> set is"
    "no_empty (rooms rm) \<Longrightarrow> no_empty (rooms (RoomManager_join_many is c rm))"
    by (simp_all add: RoomManager_join_many_def)
qed

lemma fold_erase:
  "index_rel (fold (\<lambda>i. index_erase i c) is m) = index_rel m - set is \<times> {c}"
  "no_empty m \<Longrightarrow> no_empty (fold (\<lambda>i. index_erase i c) is m)"
  by (induction "is" arbitrary: m) auto

lemma call_rooms_refines:
  assumes "rooms_agree rm"
  shows "rooms_agree (call_rooms k rm) \<and> index_rel (rooms (call_rooms k rm)) = call_relation k (index_rel (rooms rm))"
proof (cases k)
  case (LeaveAll c)
  have member: "(i, c) \<in> index_rel (rooms rm) \<longleftrightarrow> i |\<in>| index_get (membership rm) c" for i
    using assms by (auto simp: rooms_agree_def index_rel_iff [symmetric])
  show ?thesis
  proof (cases "fmlookup (membership rm) c")
    case None
    then show ?thesis using assms member LeaveAll by (auto simp: RoomManager_leave_all_def index_get_def)
  next
    case (Some joined)
    then have "index_rel (fold (\<lambda>i. index_erase i c) (each joined) (rooms rm)) = {(i, d) \<in> index_rel (rooms rm). d \<noteq> c}"
      using member by (auto simp: fold_erase index_get_def)
    then show ?thesis
      using Some assms LeaveAll by (auto simp: RoomManager_leave_all_def rooms_agree_def fold_erase(2))
  qed
qed (use assms in \<open>auto simp: rooms_agree_def RoomManager_join_def RoomManager_leave_def join_many_rel\<close>)

lemma rooms_listed: "set (RoomManager_connections_in_room i rm) = {c. (i, c) \<in> index_rel (rooms rm)}"
  "distinct (RoomManager_connections_in_room i rm)"
  by (auto simp: RoomManager_connections_in_room_def index_rel_iff)

text \<open>The room registry implements a relation. After any sequence of joins and departures, listing a
  room yields each connection related to it once, and the number of rooms is the number of
  conversations somebody follows, so the two hash maps never drift apart and no empty room
  stays behind.\<close>

theorem rooms_refine:
  "set (RoomManager_connections_in_room i (fold call_rooms ks no_rooms)) = {c. (i, c) \<in> fold call_relation ks {}} \<and>
   distinct (RoomManager_connections_in_room i (fold call_rooms ks no_rooms)) \<and>
   RoomManager_room_count (fold call_rooms ks no_rooms) = card (Domain (fold call_relation ks {}))"
proof -
  have "rooms_agree (fold call_rooms ks rm) \<and> index_rel (rooms (fold call_rooms ks rm)) = fold call_relation ks R"
    if "rooms_agree rm" "index_rel (rooms rm) = R" for rm R
    using that by (induction ks arbitrary: rm R) (simp_all add: call_rooms_refines)
  from this [of no_rooms "{}"] have "rooms_agree (fold call_rooms ks no_rooms)"
    and rel: "index_rel (rooms (fold call_rooms ks no_rooms)) = fold call_relation ks {}"
    by (simp_all add: no_rooms_def rooms_agree_def)
  then have "no_empty (rooms (fold call_rooms ks no_rooms))" by (simp add: rooms_agree_def)
  from no_empty_dom [OF this] rel rooms_listed [of i] show ?thesis
    by (simp add: RoomManager_room_count_def fcard.rep_eq)
qed

end
