(* ===== verification/Protocol.thy ===== *)
theory Protocol
  imports Registries Dto Calendar
begin

text \<open>
  The WebSocket wire format (\<^verbatim>\<open>src/realtime/protocol.cpp\<close>): version negotiation, encoding of outbound
  frames in either version, and decoding of inbound ones. The JSON printer and parser and the clock are
  arguments.
\<close>

fun to_number :: "version \<Rightarrow> int" where
  "to_number kV1 = 1"
| "to_number kV2 = 2"

definition kCurrentVersion :: version where "kCurrentVersion = kV2"

definition kVersionQueryParam :: string where "kVersionQueryParam = ''protocol''"

definition negotiate :: "int option \<Rightarrow> version" where
  "negotiate requested =
     (case requested of
        None \<Rightarrow> kDefaultVersion
      | Some n \<Rightarrow> if n = 1 then kV1 else if n = 2 then kV2 else kDefaultVersion)"

definition requested_protocol :: "query \<Rightarrow> int option" where
  "requested_protocol url_params =
     (case url_params kVersionQueryParam of
        None \<Rightarrow> None
      | Some s \<Rightarrow> (case from_chars_int s of Some (v, []) \<Rightarrow> Some v | _ \<Rightarrow> None))"

record envelope =
  env_request_id :: string
  env_correlation_id :: string

definition no_envelope :: envelope where
  "no_envelope = \<lparr>env_request_id = [], env_correlation_id = []\<rparr>"

definition optional_id :: "string \<Rightarrow> json" where
  "optional_id s = (if s = [] then JNull else JStr s)"

definition frame_json :: "time_point \<Rightarrow> version \<Rightarrow> string \<Rightarrow> json \<Rightarrow> envelope \<Rightarrow> json" where
  "frame_json now version event payload e =
     (case version of
        kV1 \<Rightarrow> JObj [(''type'', JStr event), (''data'', payload)]
      | kV2 \<Rightarrow> JObj [(''event'', JStr event), (''version'', JInt (to_number version)),
                    (''timestamp'', JStr (to_iso8601 now)), (''payload'', payload),
                    (''request_id'', optional_id (env_request_id e)),
                    (''correlation_id'', optional_id (env_correlation_id e))])"

definition protocol_encode :: "(json \<Rightarrow> string) \<Rightarrow> time_point \<Rightarrow> version \<Rightarrow> string \<Rightarrow> json \<Rightarrow> envelope \<Rightarrow> string" where
  "protocol_encode dump now version event payload e = dump (frame_json now version event payload e)"

record inbound_frame =
  if_event :: string
  if_payload :: json
  if_request_id :: string
  if_correlation_id :: string
  if_version :: version

definition read_string :: "json \<Rightarrow> string \<Rightarrow> string" where
  "read_string object key = (case jfind object key of Some (JStr s) \<Rightarrow> s | _ \<Rightarrow> [])"

definition read_object :: "json \<Rightarrow> string \<Rightarrow> json" where
  "read_object object key = (case jfind object key of Some (JObj kvs) \<Rightarrow> JObj kvs | _ \<Rightarrow> JObj [])"

definition protocol_decode :: "(string \<Rightarrow> json option) \<Rightarrow> string \<Rightarrow> inbound_frame option" where
  "protocol_decode parse message =
     (case parse message of
        None \<Rightarrow> None
      | Some parsed \<Rightarrow>
          if \<not> is_object parsed then None
          else let event = read_string parsed ''event''; type = read_string parsed ''type'';
                   frame = (\<lambda>v name body. \<lparr>if_event = name, if_payload = body,
                      if_request_id = read_string parsed ''request_id'',
                      if_correlation_id = read_string parsed ''correlation_id'', if_version = v\<rparr>)
               in if event \<noteq> [] then Some (frame kV2 event (read_object parsed ''payload''))
                  else if type \<noteq> [] then Some (frame kV1 type (read_object parsed ''data''))
                  else None)"

definition make_envelope :: "(json \<Rightarrow> string) \<Rightarrow> time_point \<Rightarrow> string \<Rightarrow> json \<Rightarrow> string" where
  "make_envelope dump now type data = protocol_encode dump now kV1 type data no_envelope"


section \<open>Properties\<close>

lemma negotiate_supported: "negotiate (Some (to_number v)) = v" "negotiate None = kV1"
  by (cases v) (simp_all add: negotiate_def kDefaultVersion_def)

text \<open>Whatever is encoded in either protocol version decodes to itself: the event name, the payload
  object and the version survive; a version-2 frame also carries the request and correlation ids, which
  a version-1 frame has no place for.\<close>

theorem protocol_roundtrip:
  assumes "parse (protocol_encode dump now v event (JObj kvs) e) = Some (frame_json now v event (JObj kvs) e)"
    and "event \<noteq> []"
  shows "protocol_decode parse (protocol_encode dump now v event (JObj kvs) e) =
    Some \<lparr>if_event = event, if_payload = JObj kvs,
          if_request_id = (if v = kV2 then env_request_id e else []),
          if_correlation_id = (if v = kV2 then env_correlation_id e else []), if_version = v\<rparr>"
  using assms by (cases v) (simp_all add: protocol_decode_def frame_json_def read_string_def read_object_def optional_id_def)

theorem protocol_roundtrip_witness:
  "protocol_decode (\<lambda>_. Some (frame_json 0 kV2 ''ping'' (JObj []) \<lparr>env_request_id = ''r1'', env_correlation_id = []\<rparr>))
     (protocol_encode (\<lambda>_. ''{}'') 0 kV2 ''ping'' (JObj []) \<lparr>env_request_id = ''r1'', env_correlation_id = []\<rparr>) =
   Some \<lparr>if_event = ''ping'', if_payload = JObj [], if_request_id = ''r1'', if_correlation_id = [], if_version = kV2\<rparr>"
  by (subst protocol_roundtrip) simp_all

end
