(* ===== verification/Tracing.thy ===== *)
theory Tracing
  imports World "HOL-Library.AList"
begin

text \<open>
  Distributed tracing (\<^verbatim>\<open>src/tracing\<close>): W3C trace context, spans, the sampling and buffering tracer,
  the span encodings for collectors, and the propagation over the cluster bus. Floating point
  ratios are exact rationals; nanosecond times are integers; the collector's socket is not
  modelled.
\<close>


section \<open>Trace context\<close>

definition kTraceIdHexLength :: nat where "kTraceIdHexLength = 32"
definition kSpanIdHexLength :: nat where "kSpanIdHexLength = 16"
definition kInvalidTraceId :: string where "kInvalidTraceId = replicate 32 (CHR ''0'')"
definition kInvalidSpanId :: string where "kInvalidSpanId = replicate 16 (CHR ''0'')"

record span_context =
  sc_trace_id :: string
  sc_span_id :: string
  sc_sampled :: bool
  sc_trace_state :: string

definition sc_is_valid :: "span_context \<Rightarrow> bool" where
  "sc_is_valid c \<longleftrightarrow>
     length (sc_trace_id c) = kTraceIdHexLength \<and> sc_trace_id c \<noteq> kInvalidTraceId \<and>
     length (sc_span_id c) = kSpanIdHexLength \<and> sc_span_id c \<noteq> kInvalidSpanId"

definition lower_hex_char :: "char \<Rightarrow> bool" where
  "lower_hex_char c \<longleftrightarrow> 48 \<le> byte_of c \<and> byte_of c \<le> 57 \<or> 97 \<le> byte_of c \<and> byte_of c \<le> 102"

definition is_lower_hex :: "string \<Rightarrow> bool" where
  "is_lower_hex value = list_all lower_hex_char value"

definition hex_digit_value :: "char \<Rightarrow> nat" where
  "hex_digit_value c = (if byte_of c \<le> 57 then byte_of c - 48 else byte_of c - 97 + 10)"

definition parse_hex_byte :: "string \<Rightarrow> nat option" where
  "parse_hex_byte value =
     (if length value \<noteq> 2 \<or> \<not> is_lower_hex value then None
      else Some (hex_digit_value (value ! 0) * 16 + hex_digit_value (value ! 1)))"

text \<open>The loop of \<^verbatim>\<open>split_fields\<close>, with the number of fields that may still be filled.\<close>

fun split_fields :: "nat \<Rightarrow> string \<Rightarrow> string list" where
  "split_fields 0 rest = []"
| "split_fields (Suc n) rest =
     (let field = takeWhile (\<lambda>c. c \<noteq> CHR ''-'') rest
      in case dropWhile (\<lambda>c. c \<noteq> CHR ''-'') rest of
           [] \<Rightarrow> [field]
         | _ # after \<Rightarrow> field # split_fields n after)"

definition new_trace_id :: "string act" where
  "new_trace_id =
     seq (generate_hex_token (kTraceIdHexLength div 2)) (\<lambda>i.
     if i = kInvalidTraceId then generate_hex_token (kTraceIdHexLength div 2) else ret i)"

definition new_span_id :: "string act" where
  "new_span_id =
     seq (generate_hex_token (kSpanIdHexLength div 2)) (\<lambda>i.
     if i = kInvalidSpanId then generate_hex_token (kSpanIdHexLength div 2) else ret i)"

definition parse_traceparent :: "string \<Rightarrow> span_context option" where
  "parse_traceparent header =
     (if header = [] then None
      else case split_fields 4 header of
        [version, trace_id, span_id, flags] \<Rightarrow>
          (case parse_hex_byte version of
             None \<Rightarrow> None
           | Some v \<Rightarrow>
               if v = 255 then None
               else let context = \<lparr>sc_trace_id = trace_id, sc_span_id = span_id, sc_sampled = False, sc_trace_state = []\<rparr>
                    in if \<not> is_lower_hex trace_id \<or> \<not> is_lower_hex span_id \<or> \<not> sc_is_valid context then None
                       else (case parse_hex_byte flags of
                               None \<Rightarrow> None
                             | Some f \<Rightarrow> Some (context\<lparr>sc_sampled := odd f\<rparr>)))
      | _ \<Rightarrow> None)"

definition format_traceparent :: "span_context \<Rightarrow> string" where
  "format_traceparent c =
     ''00-'' @ sc_trace_id c @ ''-'' @ sc_span_id c @ (if sc_sampled c then ''-01'' else ''-00'')"


section \<open>Spans\<close>

datatype span_kind = kInternalSpan | kServer | kClient | kProducer | kConsumer

fun span_kind_to_string :: "span_kind \<Rightarrow> string" where
  "span_kind_to_string kInternalSpan = ''SPAN_KIND_INTERNAL''"
| "span_kind_to_string kServer = ''SPAN_KIND_SERVER''"
| "span_kind_to_string kClient = ''SPAN_KIND_CLIENT''"
| "span_kind_to_string kProducer = ''SPAN_KIND_PRODUCER''"
| "span_kind_to_string kConsumer = ''SPAN_KIND_CONSUMER''"

datatype span_status = kUnset | kOk | kErrorStatus

fun span_status_to_string :: "span_status \<Rightarrow> string" where
  "span_status_to_string kUnset = ''STATUS_CODE_UNSET''"
| "span_status_to_string kOk = ''STATUS_CODE_OK''"
| "span_status_to_string kErrorStatus = ''STATUS_CODE_ERROR''"

record span_data =
  sd_name :: string
  sd_kind :: span_kind
  sd_trace_id :: string
  sd_span_id :: string
  sd_parent_span_id :: string
  sd_trace_state :: string
  sd_sampled :: bool
  sd_start_time :: int
  sd_duration :: int
  sd_status :: span_status
  sd_status_message :: string
  sd_attributes :: "(string \<times> string) list"

text \<open>An in-flight span; \<open>sp_attached\<close> is \<^verbatim>\<open>tracer_ != nullptr\<close>. The default-constructed span is inert.\<close>

record span =
  sp_attached :: bool
  sp_data :: span_data
  sp_context :: span_context
  sp_started :: int
  sp_ended :: bool

definition empty_data :: span_data where
  "empty_data = \<lparr>sd_name = [], sd_kind = kInternalSpan, sd_trace_id = [], sd_span_id = [], sd_parent_span_id = [],
     sd_trace_state = [], sd_sampled = True, sd_start_time = 0, sd_duration = 0, sd_status = kUnset,
     sd_status_message = [], sd_attributes = []\<rparr>"

definition inert_span :: span where
  "inert_span = \<lparr>sp_attached = False, sp_data = empty_data,
     sp_context = \<lparr>sc_trace_id = [], sc_span_id = [], sc_sampled = False, sc_trace_state = []\<rparr>, sp_started = 0,
     sp_ended = True\<rparr>"

definition Span_create :: "int \<Rightarrow> span_data \<Rightarrow> span" where
  "Span_create steady data =
     \<lparr>sp_attached = True, sp_data = data,
      sp_context = \<lparr>sc_trace_id = sd_trace_id data, sc_span_id = sd_span_id data, sc_sampled = sd_sampled data,
                    sc_trace_state = sd_trace_state data\<rparr>,
      sp_started = steady, sp_ended = False\<rparr>"

definition is_recording :: "span \<Rightarrow> bool" where
  "is_recording s \<longleftrightarrow> sp_attached s \<and> \<not> sp_ended s"

definition Span_set_attribute :: "string \<Rightarrow> string \<Rightarrow> span \<Rightarrow> span" where
  "Span_set_attribute key v s =
     (if is_recording s then s\<lparr>sp_data := (sp_data s)\<lparr>sd_attributes := sd_attributes (sp_data s) @ [(key, v)]\<rparr>\<rparr> else s)"

definition Span_set_attribute_int :: "string \<Rightarrow> int \<Rightarrow> span \<Rightarrow> span" where
  "Span_set_attribute_int key v = Span_set_attribute key (to_string v)"

definition Span_set_attribute_bool :: "string \<Rightarrow> bool \<Rightarrow> span \<Rightarrow> span" where
  "Span_set_attribute_bool key v = Span_set_attribute key (if v then ''true'' else ''false'')"

definition Span_set_status :: "span_status \<Rightarrow> string \<Rightarrow> span \<Rightarrow> span" where
  "Span_set_status st message s =
     (if is_recording s then s\<lparr>sp_data := (sp_data s)\<lparr>sd_status := st, sd_status_message := message\<rparr>\<rparr> else s)"

definition Span_record_error :: "string \<Rightarrow> span \<Rightarrow> span" where
  "Span_record_error message s =
     (if is_recording s
      then s\<lparr>sp_data := (sp_data s)\<lparr>sd_status := kErrorStatus, sd_status_message := message,
               sd_attributes := sd_attributes (sp_data s) @ [(''exception.message'', message)]\<rparr>\<rparr>
      else s)"

text \<open>Moving a span: the new owner and what is left in the source.\<close>

definition Span_move :: "span \<Rightarrow> span \<times> span" where
  "Span_move other = (other, other\<lparr>sp_attached := False, sp_ended := True\<rparr>)"


section \<open>The tracer\<close>

record resource =
  rs_service_name :: string
  rs_service_version :: string
  rs_deployment_environment :: string
  rs_service_instance_id :: string

record tracer_options =
  to_enabled :: bool
  to_sample_ratio :: rat
  to_max_batch_size :: nat
  to_max_queue_size :: nat

record tracer =
  tr_options :: tracer_options
  tr_buffer :: "span_data list"
  tr_running :: bool
  tr_started :: nat
  tr_exported :: nat
  tr_dropped :: nat

definition Tracer_create :: "tracer_options \<Rightarrow> tracer" where
  "Tracer_create o1 =
     (let batch = max (to_max_batch_size o1) 1
      in \<lparr>tr_options = o1\<lparr>to_sample_ratio := max 0 (min 1 (to_sample_ratio o1)), to_max_batch_size := batch,
                           to_max_queue_size := max (to_max_queue_size o1) batch\<rparr>,
          tr_buffer = [], tr_running = False, tr_started = 0, tr_exported = 0, tr_dropped = 0\<rparr>)"

text \<open>\<^verbatim>\<open>std::from_chars(..., 16)\<close> into 64 bits, on the whole text.\<close>

definition hex_char_value :: "char \<Rightarrow> nat option" where
  "hex_char_value c =
     (if isdigit c then Some (byte_of c - 48)
      else if 97 \<le> byte_of c \<and> byte_of c \<le> 102 then Some (byte_of c - 87)
      else if 65 \<le> byte_of c \<and> byte_of c \<le> 70 then Some (byte_of c - 55) else None)"

definition parse_hex64 :: "string \<Rightarrow> nat option" where
  "parse_hex64 s =
     (if s = [] \<or> list_ex (\<lambda>c. hex_char_value c = None) s then None
      else let v = fold (\<lambda>c acc. acc * 16 + the (hex_char_value c)) s 0
           in if v < 2 ^ 64 then Some v else None)"

definition trace_id_ratio_sampled :: "string \<Rightarrow> rat \<Rightarrow> bool" where
  "trace_id_ratio_sampled trace_id ratio =
     (if ratio \<ge> 1 then True
      else if ratio \<le> 0 then False
      else if length trace_id < kTraceIdHexLength then False
      else case parse_hex64 (drop (kTraceIdHexLength - 16) trace_id) of
             None \<Rightarrow> False
           | Some low \<Rightarrow> of_nat low < ratio * 18446744073709551616)"

definition should_sample :: "tracer \<Rightarrow> string \<Rightarrow> bool" where
  "should_sample tr trace_id = trace_id_ratio_sampled trace_id (to_sample_ratio (tr_options tr))"

definition Tracer_submit :: "span_data \<Rightarrow> tracer \<Rightarrow> tracer" where
  "Tracer_submit s tr =
     (if length (tr_buffer tr) \<ge> to_max_queue_size (tr_options tr)
      then tr\<lparr>tr_dropped := tr_dropped tr + 1\<rparr>
      else tr\<lparr>tr_buffer := tr_buffer tr @ [s]\<rparr>)"

text \<open>\<open>export_ok\<close>: whether the exporter returned or threw.\<close>

definition Tracer_drain_once :: "bool \<Rightarrow> tracer \<Rightarrow> span_data list \<times> tracer" where
  "Tracer_drain_once export_ok tr =
     (let batch = tr_buffer tr
      in if batch = [] then ([], tr)
         else (batch, if export_ok then tr\<lparr>tr_buffer := [], tr_exported := tr_exported tr + length batch\<rparr>
                      else tr\<lparr>tr_buffer := [], tr_dropped := tr_dropped tr + length batch\<rparr>))"

definition Tracer_start :: "tracer \<Rightarrow> tracer" where
  "Tracer_start tr = (if \<not> to_enabled (tr_options tr) \<or> tr_running tr then tr else tr\<lparr>tr_running := True\<rparr>)"

definition Tracer_stop :: "bool \<Rightarrow> tracer \<Rightarrow> span_data list \<times> tracer" where
  "Tracer_stop export_ok tr = Tracer_drain_once export_ok (tr\<lparr>tr_running := False\<rparr>)"

text \<open>A thread that traces: the random engine and wall clock of the world, the process tracer, the
  thread's current context and the steady clock.\<close>

record traced =
  td_world :: world
  td_tracer :: tracer
  td_current :: "span_context option"
  td_wall :: int
  td_steady :: int

definition draw_id :: "string act \<Rightarrow> traced \<Rightarrow> string \<times> traced" where
  "draw_id m t =
     (case m (td_world t) of (r, w) \<Rightarrow> (case r of Inl e \<Rightarrow> [] | Inr i \<Rightarrow> i, t\<lparr>td_world := w\<rparr>))"

definition Tracer_start_span :: "string \<Rightarrow> span_kind \<Rightarrow> span_context option \<Rightarrow> traced \<Rightarrow> span \<times> traced" where
  "Tracer_start_span name kind parent t =
     (if \<not> to_enabled (tr_options (td_tracer t)) then (inert_span, t)
      else case draw_id new_span_id t of
        (span_id, t) \<Rightarrow>
          let data = empty_data\<lparr>sd_name := name, sd_kind := kind, sd_span_id := span_id, sd_start_time := td_wall t\<rparr>;
              root = (case draw_id new_trace_id t of
                 (trace_id, t) \<Rightarrow>
                    (data\<lparr>sd_trace_id := trace_id, sd_sampled := should_sample (td_tracer t) trace_id\<rparr>, t))
          in case (case parent of
                     Some p \<Rightarrow>
                       if sc_is_valid p
                       then (data\<lparr>sd_trace_id := sc_trace_id p, sd_parent_span_id := sc_span_id p,
                                  sd_trace_state := sc_trace_state p, sd_sampled := sc_sampled p\<rparr>, t)
                       else root
                   | None \<Rightarrow> root) of
               (data, t) \<Rightarrow>
                 let t = t\<lparr>td_tracer := (td_tracer t)\<lparr>tr_started := tr_started (td_tracer t) + 1\<rparr>\<rparr>
                 in if \<not> sd_sampled data then (inert_span, t) else (Span_create (td_steady t) data, t))"

definition Tracer_start_child_span :: "string \<Rightarrow> span_kind \<Rightarrow> traced \<Rightarrow> span \<times> traced" where
  "Tracer_start_child_span name kind t = Tracer_start_span name kind (td_current t) t"

definition Span_end :: "span \<Rightarrow> traced \<Rightarrow> span \<times> traced" where
  "Span_end s t =
     (if \<not> sp_attached s \<or> sp_ended s then (s, t)
      else (s\<lparr>sp_ended := True, sp_attached := False\<rparr>,
            t\<lparr>td_tracer := Tracer_submit ((sp_data s)\<lparr>sd_duration := td_steady t - sp_started s\<rparr>) (td_tracer t)\<rparr>))"


section \<open>Scopes\<close>

text \<open>A scope owns a span and, while it records, the thread's current context.\<close>

record scoped_span =
  sn_span :: span
  sn_previous :: "span_context option"
  sn_active :: bool

definition ScopedSpan_open :: "span \<Rightarrow> traced \<Rightarrow> scoped_span \<times> traced" where
  "ScopedSpan_open s t =
     (if is_recording s
      then (\<lparr>sn_span = s, sn_previous = td_current t, sn_active = True\<rparr>, t\<lparr>td_current := Some (sp_context s)\<rparr>)
      else (\<lparr>sn_span = s, sn_previous = None, sn_active = False\<rparr>, t))"

definition ScopedSpan_close :: "scoped_span \<Rightarrow> traced \<Rightarrow> traced" where
  "ScopedSpan_close sc t =
     snd (Span_end (sn_span sc) (if sn_active sc then t\<lparr>td_current := sn_previous sc\<rparr> else t))"

definition trace_scope :: "string \<Rightarrow> span_kind \<Rightarrow> traced \<Rightarrow> scoped_span \<times> traced" where
  "trace_scope name kind t = (case Tracer_start_child_span name kind t of (s, t) \<Rightarrow> ScopedSpan_open s t)"

definition tagged_scope ::
    "string \<Rightarrow> span_kind \<Rightarrow> (string \<times> string) list \<Rightarrow> traced \<Rightarrow> scoped_span \<times> traced" where
  "tagged_scope name kind tags t =
     (case trace_scope name kind t of
        (sc, t) \<Rightarrow> (sc\<lparr>sn_span := fold (\<lambda>(k, v). Span_set_attribute k v) tags (sn_span sc)\<rparr>, t))"

definition db_scope :: "string \<Rightarrow> traced \<Rightarrow> scoped_span \<times> traced" where
  "db_scope operation =
     tagged_scope (''db '' @ operation) kClient [(''db.system'', ''postgresql''), (''db.operation'', operation)]"

definition cache_scope :: "string \<Rightarrow> traced \<Rightarrow> scoped_span \<times> traced" where
  "cache_scope operation =
     tagged_scope (''cache '' @ operation) kClient [(''db.system'', ''redis''), (''db.operation'', operation)]"

definition ws_scope :: "string \<Rightarrow> traced \<Rightarrow> scoped_span \<times> traced" where
  "ws_scope event =
     tagged_scope (''ws '' @ event) kServer [(''network.protocol.name'', ''websocket''), (''rtc.ws.event'', event)]"

definition broker_publish_scope :: "string \<Rightarrow> traced \<Rightarrow> scoped_span \<times> traced" where
  "broker_publish_scope subject =
     tagged_scope (''publish '' @ subject) kProducer
       [(''messaging.operation'', ''publish''), (''messaging.destination.name'', subject)]"

definition broker_consume_scope :: "string \<Rightarrow> traced \<Rightarrow> scoped_span \<times> traced" where
  "broker_consume_scope subject =
     tagged_scope (''process '' @ subject) kConsumer
       [(''messaging.operation'', ''process''), (''messaging.destination.name'', subject)]"

text \<open>Running work inside a scope.\<close>

definition with_scope :: "(traced \<Rightarrow> scoped_span \<times> traced) \<Rightarrow> (traced \<Rightarrow> traced) \<Rightarrow> traced \<Rightarrow> traced" where
  "with_scope scope work t = (case scope t of (sc, t) \<Rightarrow> ScopedSpan_close sc (work t))"


section \<open>Propagation over the cluster bus\<close>

definition kTraceParentKey :: string where "kTraceParentKey = ''_traceparent''"

text \<open>\<^verbatim>\<open>json[key] = v\<close> on an object.\<close>

fun jput :: "string \<Rightarrow> json \<Rightarrow> json \<Rightarrow> json" where
  "jput k v (JObj kvs) = JObj (AList.update k v kvs)"
| "jput k v j = j"

lemma jfind_jput: "is_object j \<Longrightarrow> jfind (jput k v j) k' = (if k = k' then Some v else jfind j k')"
  by (cases j) (auto simp: update_conv')

lemma is_object_jput [simp]: "is_object (jput k v j) = is_object j"
  by (cases j) auto

definition stamp :: "span_context option \<Rightarrow> json \<Rightarrow> json" where
  "stamp current envelope =
     (case current of
        None \<Rightarrow> envelope
      | Some c \<Rightarrow> if sc_is_valid c then jput kTraceParentKey (JStr (format_traceparent c)) envelope else envelope)"

definition extract_context :: "json \<Rightarrow> span_context option" where
  "extract_context envelope =
     (case jfind envelope kTraceParentKey of
        Some (JStr text) \<Rightarrow> parse_traceparent text
      | _ \<Rightarrow> None)"

text \<open>\<^verbatim>\<open>RemoteScope\<close> around a handler: the extracted context is current while it runs.\<close>

definition with_remote_scope :: "json \<Rightarrow> (traced \<Rightarrow> traced) \<Rightarrow> traced \<Rightarrow> traced" where
  "with_remote_scope envelope work t =
     (case extract_context envelope of
        Some c \<Rightarrow> if sc_is_valid c then (work (t\<lparr>td_current := Some c\<rparr>))\<lparr>td_current := td_current t\<rparr> else work t
      | None \<Rightarrow> work t)"


section \<open>Encodings\<close>

fun otlp_kind :: "span_kind \<Rightarrow> int" where
  "otlp_kind kInternalSpan = 1" | "otlp_kind kServer = 2" | "otlp_kind kClient = 3" | "otlp_kind kProducer = 4"
| "otlp_kind kConsumer = 5"

fun otlp_status :: "span_status \<Rightarrow> int" where
  "otlp_status kUnset = 0" | "otlp_status kOk = 1" | "otlp_status kErrorStatus = 2"

fun zipkin_kind :: "span_kind \<Rightarrow> string option" where
  "zipkin_kind kServer = Some ''SERVER''" | "zipkin_kind kClient = Some ''CLIENT''"
| "zipkin_kind kProducer = Some ''PRODUCER''" | "zipkin_kind kConsumer = Some ''CONSUMER''"
| "zipkin_kind kInternalSpan = None"

definition unix_nanos :: "int \<Rightarrow> int" where
  "unix_nanos t = t mod 2 ^ 64"

definition unix_micros :: "int \<Rightarrow> int" where
  "unix_micros t = (sgn t * (\<bar>t\<bar> div 1000)) mod 2 ^ 64"

definition otlp_attribute :: "string \<Rightarrow> string \<Rightarrow> json" where
  "otlp_attribute key v = JObj [(''key'', JStr key), (''value'', JObj [(''stringValue'', JStr v)])]"

definition unless_empty :: "string \<Rightarrow> string \<Rightarrow> (string \<times> json) list" where
  "unless_empty key v = (if v = [] then [] else [(key, JStr v)])"

definition otlp_resource_attributes :: "resource \<Rightarrow> json" where
  "otlp_resource_attributes r =
     JArr (otlp_attribute ''service.name'' (rs_service_name r) #
       (if rs_service_version r = [] then [] else [otlp_attribute ''service.version'' (rs_service_version r)]) @
       (if rs_deployment_environment r = [] then []
        else [otlp_attribute ''deployment.environment'' (rs_deployment_environment r)]) @
       (if rs_service_instance_id r = [] then []
        else [otlp_attribute ''service.instance.id'' (rs_service_instance_id r)]))"

definition otlp_span :: "span_data \<Rightarrow> json" where
  "otlp_span s =
     (let start = unix_nanos (sd_start_time s) in
      JObj ([(''traceId'', JStr (sd_trace_id s)), (''spanId'', JStr (sd_span_id s)), (''name'', JStr (sd_name s)),
             (''kind'', JInt (otlp_kind (sd_kind s))), (''startTimeUnixNano'', JStr (to_string start)),
             (''endTimeUnixNano'', JStr (to_string ((start + sd_duration s) mod 2 ^ 64))),
             (''attributes'', JArr (map (\<lambda>(k, v). otlp_attribute k v) (sd_attributes s))),
             (''status'', JObj ((''code'', JInt (otlp_status (sd_status s))) # unless_empty ''message'' (sd_status_message s)))] @
            unless_empty ''parentSpanId'' (sd_parent_span_id s) @ unless_empty ''traceState'' (sd_trace_state s)))"

text \<open>\<open>RTC_VERSION\<close> is defined by the build.\<close>

definition to_otlp_json :: "(json \<Rightarrow> string) \<Rightarrow> string \<Rightarrow> resource \<Rightarrow> span_data list \<Rightarrow> string" where
  "to_otlp_json dump RTC_VERSION r spans =
     dump (JObj [(''resourceSpans'', JArr [JObj
       [(''resource'', JObj [(''attributes'', otlp_resource_attributes r)]),
        (''scopeSpans'', JArr [JObj
          [(''scope'', JObj [(''name'', JStr ''rtc''), (''version'', JStr RTC_VERSION)]),
           (''spans'', JArr (map otlp_span spans))]])]])])"

definition zipkin_tags :: "resource \<Rightarrow> span_data \<Rightarrow> json" where
  "zipkin_tags r s =
     (let tags = fold (\<lambda>(k, v). jput k (JStr v)) (sd_attributes s) (JObj []);
          tags = (if sd_status s = kErrorStatus
                  then jput ''error'' (JStr (if sd_status_message s = [] then ''true'' else sd_status_message s)) tags
                  else tags)
      in if rs_deployment_environment r = [] then tags
         else jput ''deployment.environment'' (JStr (rs_deployment_environment r)) tags)"

definition zipkin_span :: "resource \<Rightarrow> span_data \<Rightarrow> json" where
  "zipkin_span r s =
     JObj ([(''traceId'', JStr (sd_trace_id s)), (''id'', JStr (sd_span_id s)), (''name'', JStr (sd_name s)),
            (''timestamp'', JInt (unix_micros (sd_start_time s))),
            (''duration'', JInt ((sd_duration s mod 2 ^ 64) div 1000)),
            (''localEndpoint'', JObj [(''serviceName'', JStr (rs_service_name r))]), (''tags'', zipkin_tags r s)] @
           unless_empty ''parentId'' (sd_parent_span_id s) @
           (case zipkin_kind (sd_kind s) of None \<Rightarrow> [] | Some k \<Rightarrow> [(''kind'', JStr k)]))"

definition to_zipkin_json :: "(json \<Rightarrow> string) \<Rightarrow> resource \<Rightarrow> span_data list \<Rightarrow> string" where
  "to_zipkin_json dump r spans = dump (JArr (map (zipkin_span r) spans))"

datatype trace_wire_format = kOtlpHttpJson | kZipkinJson

definition parse_wire_format :: "string \<Rightarrow> trace_wire_format" where
  "parse_wire_format v = (if v = ''zipkin'' \<or> v = ''zipkin_json'' then kZipkinJson else kOtlpHttpJson)"

fun wire_format_to_string :: "trace_wire_format \<Rightarrow> string" where
  "wire_format_to_string kZipkinJson = ''zipkin''"
| "wire_format_to_string kOtlpHttpJson = ''otlp''"

fun defaults_for :: "trace_wire_format \<Rightarrow> string \<times> string" where
  "defaults_for kZipkinJson = (''9411'', ''/api/v2/spans'')"
| "defaults_for kOtlpHttpJson = (''4318'', ''/v1/traces'')"

record parsed_endpoint =
  pe_host :: string
  pe_port :: string
  pe_target :: string
  pe_valid :: bool

definition kHttpScheme :: string where "kHttpScheme = ''http://''"

text \<open>\<^verbatim>\<open>rfind(':')\<close>: the text before and after the last colon.\<close>

definition split_last_colon :: "string \<Rightarrow> (string \<times> string) option" where
  "split_last_colon s =
     (let after = takeWhile (\<lambda>c. c \<noteq> CHR '':'') (rev s)
      in if length after = length s then None
         else Some (take (length s - length after - 1) s, rev after))"

definition parse_endpoint :: "string \<Rightarrow> trace_wire_format \<Rightarrow> parsed_endpoint" where
  "parse_endpoint endpoint format =
     (case defaults_for format of (port, target) \<Rightarrow>
        let out = \<lparr>pe_host = [], pe_port = port, pe_target = target, pe_valid = False\<rparr>;
            rest = (if take (length kHttpScheme) endpoint = kHttpScheme then drop (length kHttpScheme) endpoint
                    else endpoint)
        in if rest = [] then out
           else let path = dropWhile (\<lambda>c. c \<noteq> CHR ''/'') rest;
                    rest = takeWhile (\<lambda>c. c \<noteq> CHR ''/'') rest;
                    out = (if path = [] then out else out\<lparr>pe_target := path\<rparr>)
                in case (case split_last_colon rest of
                           None \<Rightarrow> (out, rest)
                         | Some (h, p) \<Rightarrow> (if p = [] then out else out\<lparr>pe_port := p\<rparr>, h)) of
                     (out, rest) \<Rightarrow> if rest = [] then out else out\<lparr>pe_host := rest, pe_valid := True\<rparr>)"

text \<open>\<^verbatim>\<open>OtlpHttpSpanExporter::export_spans\<close> with the outcome of the POST as an argument: the body that is
  sent, if any, and the count of consecutive failures.\<close>

definition export_spans ::
    "(json \<Rightarrow> string) \<Rightarrow> string \<Rightarrow> string \<Rightarrow> trace_wire_format \<Rightarrow> resource \<Rightarrow> span_data list \<Rightarrow> (string \<Rightarrow> bool) \<Rightarrow> nat \<Rightarrow>
       string option \<times> nat" where
  "export_spans dump RTC_VERSION endpoint format r spans post failures =
     (if spans = [] \<or> \<not> pe_valid (parse_endpoint endpoint format) then (None, failures)
      else let body = (case format of kZipkinJson \<Rightarrow> to_zipkin_json dump r spans
                                    | kOtlpHttpJson \<Rightarrow> to_otlp_json dump RTC_VERSION r spans)
           in (Some body, if post body then 0 else failures + 1))"

section \<open>Rules\<close>

lemma split_fields_dash:
  "CHR ''-'' \<notin> set f \<Longrightarrow> split_fields (Suc n) (f @ CHR ''-'' # rest) = f # split_fields n rest"
  "CHR ''-'' \<notin> set f \<Longrightarrow> split_fields (Suc n) f = [f]"
proof -
  assume f: "CHR ''-'' \<notin> set f"
  then have "takeWhile (\<lambda>c. c \<noteq> CHR ''-'') (f @ CHR ''-'' # rest) = f" "dropWhile (\<lambda>c. c \<noteq> CHR ''-'') (f @ CHR ''-'' # rest) = CHR ''-'' # rest"
    by (induction f) auto
  then show "split_fields (Suc n) (f @ CHR ''-'' # rest) = f # split_fields n rest" by simp
  have "takeWhile (\<lambda>c. c \<noteq> CHR ''-'') f = f" "dropWhile (\<lambda>c. c \<noteq> CHR ''-'') f = []"
    using f by (induction f) auto
  then show "split_fields (Suc n) f = [f]" by (simp only: split_fields.simps Let_def list.case)
qed

lemma is_lower_hex_no_dash: "is_lower_hex s \<Longrightarrow> CHR ''-'' \<notin> set s"
  by (auto simp: is_lower_hex_def list_all_iff lower_hex_char_def)

lemma hex_token_lower:
  obtains i where "generate_hex_token n w = (Inr i, w\<lparr>drawn := drawn w + n\<rparr>)" "length i = 2 * n" "is_lower_hex i"
proof -
  let ?i = "concat (map (\<lambda>i. hex_byte (engine w (drawn w + i) mod 256)) [0..<n])"
  have digit: "lower_hex_char (hex_digit k)" if "k < 16" for k
    using that by (auto simp: hex_digit_def lower_hex_char_def)
  have "length ?i = 2 * n" by (induction n) (auto simp: hex_byte_def)
  moreover have "is_lower_hex ?i"
    by (auto simp: is_lower_hex_def list_all_iff hex_byte_def intro!: digit)
  ultimately show thesis using that [of ?i] by (simp add: generate_hex_token_def)
qed

lemma format_fields:
  assumes "is_lower_hex (sc_trace_id c)" "is_lower_hex (sc_span_id c)"
  shows "split_fields 4 (format_traceparent c) =
    [''00'', sc_trace_id c, sc_span_id c, if sc_sampled c then ''01'' else ''00'']"
proof -
  have four: "(4::nat) = Suc (Suc (Suc (Suc 0)))" by simp
  have no_dash: "CHR ''-'' \<notin> set ''00''" "CHR ''-'' \<notin> set (if sc_sampled c then ''01'' else ''00'')" by auto
  have "format_traceparent c = ''00'' @ CHR ''-'' # sc_trace_id c @ CHR ''-'' # sc_span_id c @ CHR ''-'' #
      (if sc_sampled c then ''01'' else ''00'')"
    by (simp add: format_traceparent_def)
  then show ?thesis
    unfolding four
    by (simp only: split_fields_dash(1) [OF no_dash(1)] split_fields_dash(1) [OF is_lower_hex_no_dash [OF assms(1)]]
        split_fields_dash(1) [OF is_lower_hex_no_dash [OF assms(2)]] split_fields_dash(2) [OF no_dash(2)])
qed

lemma parse_hex_byte_flags:
  "parse_hex_byte ''00'' = Some 0" "parse_hex_byte ''01'' = Some 1"
  by (simp_all add: parse_hex_byte_def is_lower_hex_def lower_hex_char_def hex_digit_value_def)

lemma parse_traceparent_sound:
  assumes "parse_traceparent h = Some c"
  shows "sc_is_valid c" "is_lower_hex (sc_trace_id c)" "is_lower_hex (sc_span_id c)" "sc_trace_state c = []"
  using assms
  by (auto simp: parse_traceparent_def sc_is_valid_def Let_def split: if_splits list.splits option.splits)

lemma parse_format:
  assumes "sc_is_valid c" "is_lower_hex (sc_trace_id c)" "is_lower_hex (sc_span_id c)"
  shows "parse_traceparent (format_traceparent c) = Some (c\<lparr>sc_trace_state := []\<rparr>)"
proof -
  have "format_traceparent c \<noteq> []" by (simp add: format_traceparent_def)
  then show ?thesis
    using assms
    by (cases c) (auto simp: parse_traceparent_def format_fields parse_hex_byte_flags sc_is_valid_def)
qed

text \<open>Trace context survives the wire. Rendering a valid context as a \<^verbatim>\<open>traceparent\<close> header and parsing it
  yields the same identifiers and sampling decision; whatever the parser accepts is a valid
  context in lower-case hex, whose rendering parses to itself.\<close>

theorem traceparent_roundtrip:
  "(sc_is_valid c \<and> is_lower_hex (sc_trace_id c) \<and> is_lower_hex (sc_span_id c) \<longrightarrow>
      parse_traceparent (format_traceparent c) = Some (c\<lparr>sc_trace_state := []\<rparr>)) \<and>
   (parse_traceparent h = Some d \<longrightarrow>
      sc_is_valid d \<and> is_lower_hex (sc_trace_id d) \<and> is_lower_hex (sc_span_id d) \<and>
      parse_traceparent (format_traceparent d) = Some d)"
proof -
  show ?thesis
    using parse_format [of c] parse_format [of d] parse_traceparent_sound [of h d] by auto
qed

theorem traceparent_roundtrip_witness:
  "\<exists>c. parse_traceparent ''00-0af7651916cd43dd8448eb211c80319c-b7ad6b7169203331-01'' = Some c \<and>
     parse_traceparent (format_traceparent c) = Some c"
proof -
  let ?c = "\<lparr>sc_trace_id = ''0af7651916cd43dd8448eb211c80319c'', sc_span_id = ''b7ad6b7169203331'', sc_sampled = True,
    sc_trace_state = []\<rparr>"
  have "parse_traceparent ''00-0af7651916cd43dd8448eb211c80319c-b7ad6b7169203331-01'' = Some ?c" by code_simp
  with traceparent_roundtrip [of ?c "''00-0af7651916cd43dd8448eb211c80319c-b7ad6b7169203331-01''" ?c] show ?thesis by auto
qed

lemma stamp_extract:
  assumes "is_object envelope" "sc_is_valid c" "is_lower_hex (sc_trace_id c)" "is_lower_hex (sc_span_id c)"
  shows "extract_context (stamp (Some c) envelope) = Some (c\<lparr>sc_trace_state := []\<rparr>)"
  using assms parse_format [of c]
  by (simp add: stamp_def extract_context_def jfind_jput)

text \<open>What happens to a tracer over its life: spans end, the exporter thread drains, with or without
  success.\<close>

datatype tracer_event = Submit span_data | Drain bool

fun tracer_step :: "tracer_event \<Rightarrow> tracer \<Rightarrow> tracer" where
  "tracer_step (Submit s) = Tracer_submit s"
| "tracer_step (Drain ok) = (\<lambda>tr. snd (Tracer_drain_once ok tr))"

fun is_submit :: "tracer_event \<Rightarrow> bool" where
  "is_submit (Submit _) = True"
| "is_submit (Drain _) = False"

definition accounted :: "nat \<Rightarrow> tracer \<Rightarrow> bool" where
  "accounted n tr \<longleftrightarrow>
     n = tr_exported tr + tr_dropped tr + length (tr_buffer tr) \<and> length (tr_buffer tr) \<le> to_max_queue_size (tr_options tr)"

lemma tracer_step_accounted:
  "accounted n tr \<Longrightarrow> accounted (if is_submit e then n + 1 else n) (tracer_step e tr)"
  by (cases e) (auto simp: accounted_def Tracer_submit_def Tracer_drain_once_def Let_def)

text \<open>Telemetry is bounded and accounted for. Whatever the load and however often exporting fails, the
  buffer never exceeds the configured size, and every finished span is exported, counted as
  dropped, or still buffered; stopping leaves nothing buffered.\<close>

theorem spans_accounted:
  "let tr = fold tracer_step es (Tracer_create opts); n = length (filter is_submit es) in
     length (tr_buffer tr) \<le> max (to_max_queue_size opts) (max (to_max_batch_size opts) 1) \<and>
     n = tr_exported tr + tr_dropped tr + length (tr_buffer tr) \<and>
     (\<forall>ok. tr_buffer (snd (Tracer_stop ok tr)) = [] \<and> fst (Tracer_stop ok tr) = tr_buffer tr \<and>
        n = tr_exported (snd (Tracer_stop ok tr)) + tr_dropped (snd (Tracer_stop ok tr)))"
proof -
  have gen: "accounted (n + length (filter is_submit es)) (fold tracer_step es tr)" if "accounted n tr" for n tr
    using that
  proof (induction es arbitrary: n tr)
    case (Cons e es)
    from Cons.IH [OF tracer_step_accounted [OF Cons.prems, of e]] show ?case by (auto split: if_splits)
  qed simp
  have opts: "tr_options (fold tracer_step es tr) = tr_options tr" for tr
  proof (induction es arbitrary: tr)
    case (Cons e es)
    have "tr_options (tracer_step e tr) = tr_options tr"
      by (cases e) (auto simp: Tracer_submit_def Tracer_drain_once_def Let_def)
    with Cons show ?case by simp
  qed simp
  have "accounted 0 (Tracer_create opts)" by (simp add: accounted_def Tracer_create_def Let_def)
  from gen [OF this] have acc: "accounted (length (filter is_submit es)) (fold tracer_step es (Tracer_create opts))" by simp
  moreover have "to_max_queue_size (tr_options (fold tracer_step es (Tracer_create opts))) =
      max (to_max_queue_size opts) (max (to_max_batch_size opts) 1)"
    by (simp add: opts) (simp add: Tracer_create_def Let_def)
  ultimately show ?thesis
    unfolding Let_def accounted_def by (auto simp: Tracer_stop_def Tracer_drain_once_def Let_def)
qed

text \<open>A child of a recording span belongs to the same trace.\<close>

lemma child_inherits:
  assumes "to_enabled (tr_options (td_tracer t))" "td_current t = Some c" "sc_is_valid c" "sc_sampled c"
    and "Tracer_start_child_span name kind t = (s, t')"
  shows "is_recording s \<and> sd_trace_id (sp_data s) = sc_trace_id c \<and> sd_parent_span_id (sp_data s) = sc_span_id c \<and>
    sd_sampled (sp_data s)"
  using assms
  by (auto simp: Tracer_start_child_span_def Tracer_start_span_def draw_id_def Span_create_def is_recording_def Let_def
      split: prod.splits)

text \<open>A declined root span is inert and does not become current, so work below it starts a root span of
  its own, with a new trace and its own sampling decision.\<close>

lemma attribute_parent [simp]: "sd_parent_span_id (sp_data (Span_set_attribute k v s)) = sd_parent_span_id (sp_data s)"
  by (simp add: Span_set_attribute_def)

lemma tagged_data:
  "sd_parent_span_id (sp_data (fold (\<lambda>(k, v). Span_set_attribute k v) tags s)) = sd_parent_span_id (sp_data s)"
  by (induction tags arbitrary: s) auto

lemma tagged_span:
  "sn_span (fst (tagged_scope n k tags t)) = fold (\<lambda>(k, v). Span_set_attribute k v) tags (fst (Tracer_start_child_span n k t))"
  by (simp add: tagged_scope_def trace_scope_def ScopedSpan_open_def split: prod.splits)

lemma unsampled_root_orphans:
  assumes "td_current t = None" "Tracer_start_child_span name kind t = (request, t1)" "\<not> is_recording request"
    and "db_scope operation (snd (ScopedSpan_open request t1)) = (query, t2)"
  shows "sd_parent_span_id (sp_data (sn_span query)) = []"
proof -
  have "td_current (snd (Tracer_start_span n k p t)) = td_current t" for n k p t
    by (auto simp: Tracer_start_span_def draw_id_def Let_def split: prod.splits option.splits)
  with assms(1,2) have cur: "td_current t1 = None"
    by (metis Tracer_start_child_span_def snd_conv)
  moreover have "sd_parent_span_id (sp_data (fst (Tracer_start_span n k None t))) = []" for n k t
    by (auto simp: Tracer_start_span_def Span_create_def inert_span_def empty_data_def Let_def split: prod.splits)
  moreover have "snd (ScopedSpan_open request t1) = t1" using assms(3) by (simp add: ScopedSpan_open_def)
  moreover have "query = fst (db_scope operation (snd (ScopedSpan_open request t1)))" using assms(4) by simp
  ultimately show ?thesis
    by (simp add: db_scope_def tagged_span tagged_data Tracer_start_child_span_def)
qed

end
