(* ===== verification/ClusterBus.thy ===== *)
theory ClusterBus
  imports Tracing Dto "HOL-Library.Countable"
begin

text \<open>
  The message bus between server instances (\<^verbatim>\<open>IClusterBus\<close>, \<^verbatim>\<open>RedisClusterBus\<close>, \<^verbatim>\<open>NullClusterBus\<close>):
  stamping and publishing, the subscriber's filter and dispatch, and its reconnect loop. Redis itself
  is not modelled: publishing yields the text handed to it (or nothing when it refuses), and what the
  subscription yields is a script. The JSON printer and parser are arguments. A handler is an action on
  the state of the instance it runs on.
\<close>


section \<open>Channels and identity\<close>

definition kUserBroadcast :: string where "kUserBroadcast = ''rtc:cluster:user''"
definition kRoomBroadcast :: string where "kRoomBroadcast = ''rtc:cluster:room''"
definition kPresence :: string where "kPresence = ''rtc:cluster:presence''"
definition kCacheInvalidate :: string where "kCacheInvalidate = ''rtc:cluster:cache''"
definition kOriginKey :: string where "kOriginKey = ''_node''"

lemmas channel_defs = kUserBroadcast_def kRoomBroadcast_def kPresence_def kCacheInvalidate_def

definition make_node_id :: "(string \<Rightarrow> string option) \<Rightarrow> string act" where
  "make_node_id get_env =
     (case get_env ''RTC_NODE_ID'' of
        Some (c # configured) \<Rightarrow> ret (c # configured)
      | _ \<Rightarrow> (case get_env ''HOSTNAME'' of
               Some (c # hostname) \<Rightarrow> ret (c # hostname)
             | _ \<Rightarrow> seq (generate_hex_token 6) (\<lambda>token. ret (''node-'' @ token))))"


section \<open>The Redis bus\<close>

type_synonym 's handler = "string \<Rightarrow> json \<Rightarrow> (string, 's, unit) action"

record 's cluster_bus =
  cb_node_id :: string
  cb_handlers :: "(string \<times> 's handler) list"
  cb_running :: bool
  cb_worker :: bool
  cb_published :: "64 word"
  cb_received :: "64 word"

definition RedisClusterBus_create :: "string \<Rightarrow> 's cluster_bus" where
  "RedisClusterBus_create node =
     \<lparr>cb_node_id = node, cb_handlers = [], cb_running = False, cb_worker = False, cb_published = 0, cb_received = 0\<rparr>"

definition RedisClusterBus_subscribe :: "string \<Rightarrow> 's handler \<Rightarrow> 's cluster_bus \<Rightarrow> 's cluster_bus" where
  "RedisClusterBus_subscribe channel h b = b\<lparr>cb_handlers := AList.update channel h (cb_handlers b)\<rparr>"

text \<open>The text that goes on the channel: the body with the publisher's identity and trace context.\<close>

definition stamped :: "string \<Rightarrow> span_context option \<Rightarrow> json \<Rightarrow> json" where
  "stamped node current body = stamp current (jput kOriginKey (JStr node) body)"

definition RedisClusterBus_publish ::
    "(json \<Rightarrow> string) \<Rightarrow> span_context option \<Rightarrow> bool \<Rightarrow> string \<Rightarrow> json \<Rightarrow> 's cluster_bus \<Rightarrow>
     (string \<times> string) option \<times> 's cluster_bus" where
  "RedisClusterBus_publish dump current accepted channel body b =
     (let text = dump (stamped (cb_node_id b) current body)
      in if accepted then (Some (channel, text), b\<lparr>cb_published := cb_published b + 1\<rparr>) else (None, b))"

definition origin_of :: "json \<Rightarrow> string" where
  "origin_of body = (case jfind body kOriginKey of Some (JStr node) \<Rightarrow> node | _ \<Rightarrow> [])"

text \<open>One received message. An exception of the handler is logged and dropped; what it changed stays.\<close>

definition RedisClusterBus_deliver ::
    "(string \<Rightarrow> json option) \<Rightarrow> string \<times> string \<Rightarrow> 's cluster_bus \<times> 's \<Rightarrow> 's cluster_bus \<times> 's" where
  "RedisClusterBus_deliver parse msg bs = (case (msg, bs) of ((channel, message), (b, s)) \<Rightarrow>
     (case parse message of
        None \<Rightarrow> (b, s)
      | Some body \<Rightarrow>
          if \<not> is_object body then (b, s)
          else if origin_of body = cb_node_id b then (b, s)
          else (case map_of (cb_handlers b) channel of
                  None \<Rightarrow> (b, s)
                | Some h \<Rightarrow> (b\<lparr>cb_received := cb_received b + 1\<rparr>, snd (h (origin_of body) body s)))))"

definition RedisClusterBus_start :: "'s cluster_bus \<Rightarrow> 's cluster_bus" where
  "RedisClusterBus_start b = (if cb_running b then b else b\<lparr>cb_running := True, cb_worker := True\<rparr>)"

definition RedisClusterBus_stop :: "'s cluster_bus \<Rightarrow> 's cluster_bus" where
  "RedisClusterBus_stop b = (if \<not> cb_running b then b else b\<lparr>cb_running := False, cb_worker := False\<rparr>)"

text \<open>\<^verbatim>\<open>NullClusterBus\<close>.\<close>

definition NullClusterBus_publish :: "string \<Rightarrow> json \<Rightarrow> 's cluster_bus \<Rightarrow> (string \<times> string) option \<times> 's cluster_bus" where
  "NullClusterBus_publish channel body b = (None, b)"

definition NullClusterBus_subscribe :: "string \<Rightarrow> 's handler \<Rightarrow> 's cluster_bus \<Rightarrow> 's cluster_bus" where
  "NullClusterBus_subscribe channel h b = b"


section \<open>The subscriber loop\<close>

text \<open>
  What the loop meets, in order: an attempt to connect and subscribe that throws or succeeds, then
  messages, timeouts, and an error that breaks the connection. \<open>Shutdown\<close> is the loop finding
  \<^verbatim>\<open>running\<close> cleared.
\<close>

datatype sub_event = Refused | Subscribed | Received "string \<times> string" | TimedOut | Broken | Shutdown

record subscriber =
  sb_connected :: bool
  sb_backoff :: int
  sb_slept :: "int list"

definition subscriber_start :: subscriber where
  "subscriber_start = \<lparr>sb_connected = False, sb_backoff = 200, sb_slept = []\<rparr>"

definition kMaxBackoff :: int where "kMaxBackoff = 5000"

definition back_off :: "subscriber \<Rightarrow> subscriber" where
  "back_off sb = \<lparr>sb_connected = False, sb_backoff = min (sb_backoff sb * 2) kMaxBackoff,
                   sb_slept = sb_slept sb @ [sb_backoff sb]\<rparr>"

fun run_subscriber ::
    "(string \<Rightarrow> json option) \<Rightarrow> sub_event list \<Rightarrow> subscriber \<Rightarrow> 's cluster_bus \<times> 's \<Rightarrow>
     subscriber \<times> 's cluster_bus \<times> 's" where
  "run_subscriber parse [] sb bs = (sb, bs)"
| "run_subscriber parse (Shutdown # rest) sb bs = (sb, bs)"
| "run_subscriber parse (Refused # rest) sb bs = run_subscriber parse rest (back_off sb) bs"
| "run_subscriber parse (Broken # rest) sb bs = run_subscriber parse rest (back_off sb) bs"
| "run_subscriber parse (Subscribed # rest) sb bs =
     run_subscriber parse rest (sb\<lparr>sb_connected := True, sb_backoff := 200\<rparr>) bs"
| "run_subscriber parse (TimedOut # rest) sb bs = run_subscriber parse rest sb bs"
| "run_subscriber parse (Received msg # rest) sb bs =
     run_subscriber parse rest sb (if sb_connected sb then RedisClusterBus_deliver parse msg bs else bs)"


section \<open>What the bus promises\<close>

lemma jfind_stamped:
  assumes "is_object body"
  shows "jfind (stamped node current body) kOriginKey = Some (JStr node)"
    and "k \<noteq> kOriginKey \<Longrightarrow> k \<noteq> kTraceParentKey \<Longrightarrow> jfind (stamped node current body) k = jfind body k"
    and "is_object (stamped node current body)"
proof -
  have ne: "kOriginKey \<noteq> kTraceParentKey" by (simp add: kOriginKey_def kTraceParentKey_def)
  show "jfind (stamped node current body) kOriginKey = Some (JStr node)"
    using assms ne by (cases current) (simp_all add: stamped_def stamp_def jfind_jput)
  show "jfind (stamped node current body) k = jfind body k" if "k \<noteq> kOriginKey" "k \<noteq> kTraceParentKey"
    using assms that by (cases current) (simp_all add: stamped_def stamp_def jfind_jput)
  show "is_object (stamped node current body)"
    using assms by (cases current) (simp_all add: stamped_def stamp_def)
qed

lemma origin_stamped: "is_object body \<Longrightarrow> origin_of (stamped node current body) = node"
  by (simp add: origin_of_def jfind_stamped(1))

text \<open>An instance never handles its own message; another one runs its handler for the channel, once,
  on the body it was sent.\<close>

lemma deliver_stamped:
  assumes "parse wire = Some (stamped node current body)" "is_object body"
  shows "RedisClusterBus_deliver parse (channel, wire) (b, s) =
    (if node = cb_node_id b then (b, s)
     else (case map_of (cb_handlers b) channel of
             None \<Rightarrow> (b, s)
           | Some h \<Rightarrow> (b\<lparr>cb_received := cb_received b + 1\<rparr>, snd (h node (stamped node current body) s))))"
  using assms by (simp add: RedisClusterBus_deliver_def origin_stamped jfind_stamped(3) split: option.split)

text \<open>The waits between reconnection attempts double from 200 ms up to five seconds.\<close>

definition backoff_bounded :: "subscriber \<Rightarrow> bool" where
  "backoff_bounded sb \<longleftrightarrow> (\<forall>d \<in> set (sb_backoff sb # sb_slept sb). 200 \<le> d \<and> d \<le> kMaxBackoff)"

lemma back_off_bounded: "backoff_bounded sb \<Longrightarrow> backoff_bounded (back_off sb)"
  by (auto simp: backoff_bounded_def back_off_def kMaxBackoff_def)

lemma run_subscriber_bounded: "backoff_bounded sb \<Longrightarrow> backoff_bounded (fst (run_subscriber parse events sb bs))"
proof (induction events arbitrary: sb bs)
  case (Cons e events)
  have "backoff_bounded (sb\<lparr>sb_connected := True, sb_backoff := 200\<rparr>)"
    using Cons.prems by (simp add: backoff_bounded_def kMaxBackoff_def)
  with Cons show ?case by (cases e) (simp_all add: back_off_bounded)
qed simp

lemma refused_backoff:
  assumes "sb_backoff sb = min (200 * 2 ^ k) kMaxBackoff"
  shows "sb_slept (fst (run_subscriber parse (replicate n Refused) sb bs)) =
    sb_slept sb @ map (\<lambda>i. min (200 * 2 ^ (k + i)) kMaxBackoff) [0..<n]"
  using assms
proof (induction n arbitrary: sb k)
  case (Suc n)
  have next_wait: "sb_backoff (back_off sb) = min (200 * 2 ^ Suc k) kMaxBackoff"
    using Suc.prems by (simp add: back_off_def kMaxBackoff_def min_def)
  have "map (\<lambda>i. min (200 * 2 ^ (k + i)) kMaxBackoff) [0..<Suc n] =
      min (200 * 2 ^ k) kMaxBackoff # map (\<lambda>i. min (200 * 2 ^ (Suc k + i)) kMaxBackoff) [0..<n]"
    by (simp add: upt_conv_Cons map_Suc_upt [symmetric] del: upt_Suc)
  then show ?case using Suc.IH [OF next_wait] Suc.prems by (simp add: back_off_def del: upt_Suc)
qed simp


section \<open>A JSON text format\<close>

text \<open>Some printer and parser that are inverse to each other, for concrete runs.\<close>

instance json :: countable
  by countable_datatype

definition plain_dump :: "json \<Rightarrow> string" where
  "plain_dump j = replicate (to_nat j) (CHR ''j'')"

definition plain_parse :: "string \<Rightarrow> json option" where
  "plain_parse s = Some (from_nat (length s))"

lemma plain_text [simp]: "plain_parse (plain_dump j) = Some j"
  by (simp add: plain_parse_def plain_dump_def)

end
