(* ===== verification/Connections.thy ===== *)
theory Connections
  imports Protocol ClusterBus
begin

text \<open>
  \<^verbatim>\<open>ConnectionManager\<close>: registration of sockets, fan-out of events to users and rooms on this instance and,
  over the cluster bus, on the others. Crow's sockets are the log of frames sent; handing a message to the
  bus is the log of bus calls. The clock stands still during one fan-out.
\<close>

record hub =
  h_sessions :: session_manager
  h_rooms :: room_manager
  h_clustered :: bool
  h_now :: time_point
  h_sent :: "(conn \<times> string) list"
  h_outgoing :: "(string \<times> json) list"
  h_encoded :: nat

definition fresh_hub :: "bool \<Rightarrow> hub" where
  "fresh_hub clustered = \<lparr>h_sessions = no_sessions, h_rooms = no_rooms, h_clustered = clustered, h_now = 0, h_sent = [],
     h_outgoing = [], h_encoded = 0\<rparr>"

definition hub_encode :: "(json \<Rightarrow> string) \<Rightarrow> version \<Rightarrow> string \<Rightarrow> json \<Rightarrow> envelope \<Rightarrow> hub \<Rightarrow> string \<times> hub" where
  "hub_encode dump v type data e h =
     (protocol_encode dump (h_now h) v type data e, h\<lparr>h_encoded := h_encoded h + 1\<rparr>)"

text \<open>\<^verbatim>\<open>FrameCache\<close>: each version is serialised on first use.\<close>

record frame_cache =
  fc_v1 :: "string option"
  fc_v2 :: "string option"

definition FrameCache_empty :: frame_cache where
  "FrameCache_empty = \<lparr>fc_v1 = None, fc_v2 = None\<rparr>"

definition FrameCache_for_version ::
    "(json \<Rightarrow> string) \<Rightarrow> string \<Rightarrow> json \<Rightarrow> envelope \<Rightarrow> version \<Rightarrow> frame_cache \<Rightarrow> hub \<Rightarrow> string \<times> frame_cache \<times> hub" where
  "FrameCache_for_version dump type data e v fc h =
     (if v = kV2
      then (case fc_v2 fc of
              Some text \<Rightarrow> (text, fc, h)
            | None \<Rightarrow> case hub_encode dump kV2 type data e h of (text, h) \<Rightarrow> (text, fc\<lparr>fc_v2 := Some text\<rparr>, h))
      else (case fc_v1 fc of
              Some text \<Rightarrow> (text, fc, h)
            | None \<Rightarrow> case hub_encode dump kV1 type data e h of (text, h) \<Rightarrow> (text, fc\<lparr>fc_v1 := Some text\<rparr>, h)))"

definition send_raw :: "conn \<Rightarrow> string \<Rightarrow> hub \<Rightarrow> hub" where
  "send_raw conn payload h = (if conn \<noteq> nullptr then h\<lparr>h_sent := h_sent h @ [(conn, payload)]\<rparr> else h)"

definition register_session :: "conn \<Rightarrow> int \<Rightarrow> string \<Rightarrow> version \<Rightarrow> hub \<Rightarrow> ws_session \<times> hub" where
  "register_session conn user_id username v h =
     (case SessionManager_add conn user_id username v (h_sessions h) of (s, sm) \<Rightarrow> (s, h\<lparr>h_sessions := sm\<rparr>))"

definition unregister_session :: "conn \<Rightarrow> hub \<Rightarrow> ws_session option \<times> hub" where
  "unregister_session conn h =
     (let h = h\<lparr>h_rooms := RoomManager_leave_all conn (h_rooms h)\<rparr>
      in case SessionManager_remove conn (h_sessions h) of (s, sm) \<Rightarrow> (s, h\<lparr>h_sessions := sm\<rparr>))"

fun send_loop ::
    "(json \<Rightarrow> string) \<Rightarrow> string \<Rightarrow> json \<Rightarrow> envelope \<Rightarrow> conn \<Rightarrow> ws_session list \<Rightarrow> frame_cache \<Rightarrow> hub \<Rightarrow> hub" where
  "send_loop dump type data e exclude [] fc h = h"
| "send_loop dump type data e exclude (s # rest) fc h =
     (if ws_connection s = nullptr \<or> ws_connection s = exclude then send_loop dump type data e exclude rest fc h
      else case FrameCache_for_version dump type data e (ws_protocol_version s) fc h of
             (text, fc, h) \<Rightarrow> send_loop dump type data e exclude rest fc (send_raw (ws_connection s) text h))"

definition send_to_sessions ::
    "(json \<Rightarrow> string) \<Rightarrow> ws_session list \<Rightarrow> string \<Rightarrow> json \<Rightarrow> envelope \<Rightarrow> conn \<Rightarrow> hub \<Rightarrow> hub" where
  "send_to_sessions dump sessions type data e exclude h = send_loop dump type data e exclude sessions FrameCache_empty h"

definition deliver_local :: "(json \<Rightarrow> string) \<Rightarrow> int list \<Rightarrow> string \<Rightarrow> json \<Rightarrow> hub \<Rightarrow> hub" where
  "deliver_local dump user_ids type data h =
     fold (\<lambda>user_id h. send_to_sessions dump (SessionManager_sessions_for_user user_id (h_sessions h)) type data
                         no_envelope nullptr h) user_ids h"

definition cluster_publish :: "string \<Rightarrow> json \<Rightarrow> hub \<Rightarrow> hub" where
  "cluster_publish channel body h =
     (if h_clustered h then h\<lparr>h_outgoing := h_outgoing h @ [(channel, body)]\<rparr> else h)"

definition user_message :: "int list \<Rightarrow> string \<Rightarrow> json \<Rightarrow> json" where
  "user_message user_ids type data =
     JObj [(''event'', JStr type), (''user_ids'', jids user_ids), (''data'', data)]"

definition room_message :: "int \<Rightarrow> string \<Rightarrow> json \<Rightarrow> json" where
  "room_message conversation_id type data =
     JObj [(''event'', JStr type), (''conversation_id'', JInt conversation_id), (''data'', data)]"

definition ConnectionManager_publish :: "(json \<Rightarrow> string) \<Rightarrow> int list \<Rightarrow> string \<Rightarrow> json \<Rightarrow> hub \<Rightarrow> hub" where
  "ConnectionManager_publish dump user_ids type data h =
     cluster_publish kUserBroadcast (user_message user_ids type data) (deliver_local dump user_ids type data h)"

definition send_event :: "(json \<Rightarrow> string) \<Rightarrow> conn \<Rightarrow> string \<Rightarrow> json \<Rightarrow> envelope \<Rightarrow> hub \<Rightarrow> hub" where
  "send_event dump conn type data e h =
     (let v = (case SessionManager_get conn (h_sessions h) of Some s \<Rightarrow> ws_protocol_version s | None \<Rightarrow> kDefaultVersion)
      in case hub_encode dump v type data e h of (text, h) \<Rightarrow> send_raw conn text h)"

definition deliver_local_to_room :: "(json \<Rightarrow> string) \<Rightarrow> int \<Rightarrow> string \<Rightarrow> json \<Rightarrow> conn \<Rightarrow> hub \<Rightarrow> hub" where
  "deliver_local_to_room dump conversation_id type data exclude h =
     send_to_sessions dump
       (SessionManager_sessions_for (RoomManager_connections_in_room conversation_id (h_rooms h)) (h_sessions h))
       type data no_envelope exclude h"

definition broadcast_to_room :: "(json \<Rightarrow> string) \<Rightarrow> int \<Rightarrow> string \<Rightarrow> json \<Rightarrow> conn \<Rightarrow> hub \<Rightarrow> hub" where
  "broadcast_to_room dump conversation_id type data exclude h =
     cluster_publish kRoomBroadcast (room_message conversation_id type data)
       (deliver_local_to_room dump conversation_id type data exclude h)"


section \<open>The receiving side\<close>

text \<open>\<^verbatim>\<open>get<std::vector<std::int64_t>>()\<close>: numbers are converted, anything else throws.\<close>

fun json_int64s :: "json list \<Rightarrow> (string, int list) sum" where
  "json_int64s [] = Inr []"
| "json_int64s (j # js) =
     (case (case j of JInt i \<Rightarrow> Inr (get_int64 i)
                    | JFloat r \<Rightarrow> Inr (if r < 0 then - \<lfloor>- r\<rfloor> else \<lfloor>r\<rfloor>)
                    | _ \<Rightarrow> Inl ''type must be number'') of
        Inl what \<Rightarrow> Inl what
      | Inr i \<Rightarrow> (case json_int64s js of Inl what \<Rightarrow> Inl what | Inr is \<Rightarrow> Inr (i # is)))"

definition message_data :: "json \<Rightarrow> json" where
  "message_data body = (case jfind body ''data'' of Some d \<Rightarrow> d | None \<Rightarrow> JObj [])"

definition on_user_broadcast :: "(json \<Rightarrow> string) \<Rightarrow> hub handler" where
  "on_user_broadcast dump origin body h =
     (case (jfind body ''event'', jfind body ''user_ids'') of
        (Some (JStr event), Some (JArr users)) \<Rightarrow>
          (case json_int64s users of
             Inl what \<Rightarrow> (Inl what, h)
           | Inr user_ids \<Rightarrow> (Inr (), deliver_local dump user_ids event (message_data body) h))
      | _ \<Rightarrow> (Inr (), h))"

definition on_room_broadcast :: "(json \<Rightarrow> string) \<Rightarrow> hub handler" where
  "on_room_broadcast dump origin body h =
     (case (jfind body ''event'', jfind body ''conversation_id'') of
        (Some (JStr event), Some (JInt room)) \<Rightarrow>
          (Inr (), deliver_local_to_room dump (get_int64 room) event (message_data body) nullptr h)
      | _ \<Rightarrow> (Inr (), h))"

definition set_cluster_bus :: "(json \<Rightarrow> string) \<Rightarrow> hub cluster_bus \<Rightarrow> hub \<Rightarrow> hub cluster_bus \<times> hub" where
  "set_cluster_bus dump b h =
     (RedisClusterBus_subscribe kRoomBroadcast (on_room_broadcast dump)
        (RedisClusterBus_subscribe kUserBroadcast (on_user_broadcast dump) b),
      h\<lparr>h_clustered := True\<rparr>)"


section \<open>Fan-out is what encoding per recipient would send\<close>

definition frame_for :: "(json \<Rightarrow> string) \<Rightarrow> time_point \<Rightarrow> string \<Rightarrow> json \<Rightarrow> envelope \<Rightarrow> ws_session \<Rightarrow> conn \<times> string" where
  "frame_for dump ts type data e s = (ws_connection s, protocol_encode dump ts (ws_protocol_version s) type data e)"

text \<open>The versions a cache has to encode for the sessions ahead of it.\<close>

definition cache_ok :: "(json \<Rightarrow> string) \<Rightarrow> time_point \<Rightarrow> string \<Rightarrow> json \<Rightarrow> envelope \<Rightarrow> frame_cache \<Rightarrow> bool" where
  "cache_ok dump ts type data e fc \<longleftrightarrow>
     (\<forall>t. fc_v1 fc = Some t \<longrightarrow> t = protocol_encode dump ts kV1 type data e) \<and>
     (\<forall>t. fc_v2 fc = Some t \<longrightarrow> t = protocol_encode dump ts kV2 type data e)"

definition hub_same :: "hub \<Rightarrow> hub \<Rightarrow> bool" where
  "hub_same h h' \<longleftrightarrow> h_sessions h' = h_sessions h \<and> h_rooms h' = h_rooms h \<and> h_clustered h' = h_clustered h \<and>
     h_now h' = h_now h \<and> h_outgoing h' = h_outgoing h"

lemma for_version:
  assumes "cache_ok dump (h_now h) type data e fc"
  shows "case FrameCache_for_version dump type data e v fc h of (t, fc', h') \<Rightarrow>
    t = protocol_encode dump (h_now h) v type data e \<and> cache_ok dump (h_now h) type data e fc' \<and>
    hub_same h h' \<and> h_sent h' = h_sent h"
proof (cases v)
  case kV1
  with assms show ?thesis
    by (cases "fc_v1 fc") (simp_all add: FrameCache_for_version_def hub_encode_def cache_ok_def hub_same_def)
next
  case kV2
  with assms show ?thesis
    by (cases "fc_v2 fc") (simp_all add: FrameCache_for_version_def hub_encode_def cache_ok_def hub_same_def)
qed

lemma send_loop_sends:
  assumes "cache_ok dump (h_now h) type data e fc"
  shows "hub_same h (send_loop dump type data e exclude ss fc h) \<and>
    h_sent (send_loop dump type data e exclude ss fc h) =
      h_sent h @ map (frame_for dump (h_now h) type data e)
        (filter (\<lambda>s. ws_connection s \<noteq> nullptr \<and> ws_connection s \<noteq> exclude) ss)"
  using assms
proof (induction ss arbitrary: fc h)
  case (Cons s ss)
  obtain t fc' h' where fv: "FrameCache_for_version dump type data e (ws_protocol_version s) fc h = (t, fc', h')"
    using prod_cases3 by blast
  define sent where "sent = send_raw (ws_connection s) t h'"
  have step: "t = protocol_encode dump (h_now h) (ws_protocol_version s) type data e"
      "cache_ok dump (h_now h) type data e fc'" "hub_same h h'" "h_sent h' = h_sent h"
    using for_version [OF Cons.prems, of "ws_protocol_version s"] by (simp_all add: fv)
  have sent: "hub_same h sent" "ws_connection s \<noteq> nullptr \<Longrightarrow> h_sent sent = h_sent h @ [frame_for dump (h_now h) type data e s]"
    using step by (simp_all add: sent_def send_raw_def hub_same_def frame_for_def)
  then have now: "h_now sent = h_now h" by (simp add: hub_same_def)
  note ih = Cons.IH [of sent fc', unfolded now, OF step(2)]
  show ?case
  proof (cases "ws_connection s = nullptr \<or> ws_connection s = exclude")
    case True
    then show ?thesis using Cons.IH [OF Cons.prems] by auto
  next
    case False
    have "hub_same h x" if "hub_same sent x" for x using sent(1) that by (simp add: hub_same_def)
    then show ?thesis using False ih sent(2) by (simp add: fv sent_def [symmetric])
  qed
qed (simp add: hub_same_def)

lemma send_to_sessions_sends:
  "hub_same h (send_to_sessions dump ss type data e exclude h)"
  "h_sent (send_to_sessions dump ss type data e exclude h) =
     h_sent h @ map (frame_for dump (h_now h) type data e)
       (filter (\<lambda>s. ws_connection s \<noteq> nullptr \<and> ws_connection s \<noteq> exclude) ss)"
  using send_loop_sends [of dump h type data e FrameCache_empty exclude ss]
  by (simp_all add: send_to_sessions_def cache_ok_def FrameCache_empty_def)

text \<open>Registered connections are real sockets, the two registries agree, and a room only lists registered
  connections.\<close>

definition hub_ok :: "hub \<Rightarrow> bool" where
  "hub_ok h \<longleftrightarrow> sessions_agree (h_sessions h) \<and> SessionManager_get nullptr (h_sessions h) = None \<and>
     rooms_agree (h_rooms h) \<and>
     (\<forall>i c. (i, c) \<in> index_rel (rooms (h_rooms h)) \<longrightarrow> SessionManager_get c (h_sessions h) \<noteq> None)"

lemma fresh_hub_ok [simp]: "hub_ok (fresh_hub clustered)"
  by (simp add: hub_ok_def fresh_hub_def rooms_agree_def no_rooms_def SessionManager_get_def)
     (simp add: no_sessions_def)

lemma register_session_ok:
  assumes "hub_ok h" "c \<noteq> nullptr" "SessionManager_get c (h_sessions h) = None"
  shows "hub_ok (snd (register_session c u n v h))"
proof -
  have "h_sessions (snd (register_session c u n v h)) = snd (SessionManager_add c u n v (h_sessions h))"
    "h_rooms (snd (register_session c u n v h)) = h_rooms h"
    by (simp_all add: register_session_def split: prod.split)
  then show ?thesis
    using assms SessionManager_add_agree [of "h_sessions h" c u n v] by (auto simp: hub_ok_def)
qed

lemma leave_all_ok:
  "rooms_agree rm \<Longrightarrow> rooms_agree (RoomManager_leave_all c rm) \<and>
    index_rel (rooms (RoomManager_leave_all c rm)) = {(i, d) \<in> index_rel (rooms rm). d \<noteq> c}"
  using call_rooms_refines [of rm "LeaveAll c"] by simp

lemma join_many_ok:
  "rooms_agree rm \<Longrightarrow> rooms_agree (RoomManager_join_many is c rm) \<and>
    index_rel (rooms (RoomManager_join_many is c rm)) = index_rel (rooms rm) \<union> set is \<times> {c}"
  using call_rooms_refines [of rm "JoinMany is c"] by simp

lemma unregister_ok:
  assumes "hub_ok h"
  shows "hub_ok (snd (unregister_session c h))"
proof -
  have "h_sessions (snd (unregister_session c h)) = snd (SessionManager_remove c (h_sessions h))"
    "h_rooms (snd (unregister_session c h)) = RoomManager_leave_all c (h_rooms h)"
    by (simp_all add: unregister_session_def Let_def split: prod.split)
  then show ?thesis
    using assms leave_all_ok [of "h_rooms h" c] SessionManager_remove_agree [of "h_sessions h" c]
    by (auto simp: hub_ok_def)
qed

lemma join_ok:
  assumes "hub_ok h" "SessionManager_get c (h_sessions h) \<noteq> None"
  shows "hub_ok (h\<lparr>h_rooms := RoomManager_join_many is c (h_rooms h)\<rparr>)"
  using assms join_many_ok [of "h_rooms h" "is" c] by (auto simp: hub_ok_def)

lemma touch_ok: "hub_ok h \<Longrightarrow> hub_ok (h\<lparr>h_sessions := SessionManager_touch c t (h_sessions h)\<rparr>)"
  by (auto simp: hub_ok_def SessionManager_touch_agree)

lemma same_ok: "hub_same h h' \<Longrightarrow> hub_ok h' = hub_ok h"
  by (simp add: hub_ok_def hub_same_def)

definition frames_to :: "conn \<Rightarrow> (conn \<times> string) list \<Rightarrow> (conn \<times> string) list" where
  "frames_to c fs = filter (\<lambda>f. fst f = c) fs"

definition frame_if ::
    "(json \<Rightarrow> string) \<Rightarrow> string \<Rightarrow> json \<Rightarrow> (ws_session \<Rightarrow> bool) \<Rightarrow> hub \<Rightarrow> conn \<Rightarrow> (conn \<times> string) list" where
  "frame_if dump type data P h c =
     (case SessionManager_get c (h_sessions h) of
        Some s \<Rightarrow> if P s then [frame_for dump (h_now h) type data no_envelope s] else []
      | None \<Rightarrow> [])"

lemma agree_connection: "sessions_agree sm \<Longrightarrow> SessionManager_get c sm = Some s \<Longrightarrow> ws_connection s = c"
  by (simp add: sessions_agree_def SessionManager_get_def)

lemma filter_one:
  assumes "distinct xs"
  shows "filter (\<lambda>y. y = x) xs = (if x \<in> set xs then [x] else [])"
  using assms by (induction xs) auto

lemma frames_of_sessions:
  assumes "hub_ok h" "distinct ss" "set ss \<subseteq> {s. \<exists>c. SessionManager_get c (h_sessions h) = Some s}"
  shows "frames_to c (map (frame_for dump (h_now h) type data no_envelope) ss) = frame_if dump type data (\<lambda>s. s \<in> set ss) h c"
proof -
  have conn: "SessionManager_get (ws_connection s) (h_sessions h) = Some s" if "s \<in> set ss" for s
    using assms that agree_connection [of "h_sessions h"] by (fastforce simp: hub_ok_def)
  have "frames_to c (map (frame_for dump (h_now h) type data no_envelope) ss) =
      map (frame_for dump (h_now h) type data no_envelope) (filter (\<lambda>s. ws_connection s = c) ss)"
    by (simp add: frames_to_def filter_map o_def frame_for_def)
  also have "filter (\<lambda>s. ws_connection s = c) ss = filter (\<lambda>s. SessionManager_get c (h_sessions h) = Some s) ss"
    using conn assms(1) by (intro filter_cong) (auto simp: hub_ok_def dest: agree_connection)
  also have "\<dots> = (case SessionManager_get c (h_sessions h) of None \<Rightarrow> [] | Some s \<Rightarrow> if s \<in> set ss then [s] else [])"
    using filter_one [OF assms(2)] by (auto simp: eq_commute [of _ "_ :: ws_session"] split: option.split)
  finally show ?thesis by (auto simp: frame_if_def split: option.split)
qed

lemma user_sessions_real:
  assumes "hub_ok h" "s \<in> set (SessionManager_sessions_for_user u (h_sessions h))"
  shows "ws_connection s \<noteq> nullptr" "ws_user_id s = u" "\<exists>c. SessionManager_get c (h_sessions h) = Some s"
proof -
  have sm: "sessions_agree (h_sessions h)" using assms(1) by (simp add: hub_ok_def)
  from assms(2) obtain c where c: "SessionManager_get c (h_sessions h) = Some s" "ws_user_id s = u"
    unfolding listed_sessions(1) [OF sm] by blast
  then show "ws_user_id s = u" "\<exists>c. SessionManager_get c (h_sessions h) = Some s" by auto
  show "ws_connection s \<noteq> nullptr"
    using assms(1) c(1) agree_connection [OF sm c(1)] by (auto simp: hub_ok_def)
qed

definition user_frames :: "(json \<Rightarrow> string) \<Rightarrow> int list \<Rightarrow> string \<Rightarrow> json \<Rightarrow> hub \<Rightarrow> (conn \<times> string) list" where
  "user_frames dump ids type data h =
     concat (map (\<lambda>u. map (frame_for dump (h_now h) type data no_envelope) (SessionManager_sessions_for_user u (h_sessions h))) ids)"

lemma deliver_local_sends:
  assumes "hub_ok h"
  shows "hub_same h (deliver_local dump ids type data h) \<and>
    h_sent (deliver_local dump ids type data h) = h_sent h @ user_frames dump ids type data h"
  using assms
proof (induction ids arbitrary: h)
  case (Cons u ids)
  define h1 where "h1 = send_to_sessions dump (SessionManager_sessions_for_user u (h_sessions h)) type data no_envelope nullptr h"
  have same: "hub_same h h1" by (simp add: h1_def send_to_sessions_sends)
  have all: "filter (\<lambda>s. ws_connection s \<noteq> nullptr \<and> ws_connection s \<noteq> nullptr) (SessionManager_sessions_for_user u (h_sessions h)) =
      SessionManager_sessions_for_user u (h_sessions h)"
    using user_sessions_real(1) [OF Cons.prems] by (simp add: filter_id_conv)
  have sent: "h_sent h1 = h_sent h @ user_frames dump [u] type data h"
    unfolding h1_def send_to_sessions_sends(2) all by (simp add: user_frames_def)
  have "hub_ok h1" using Cons.prems same by (simp add: hub_ok_def hub_same_def)
  from Cons.IH [OF this] same sent show ?case
    by (simp add: deliver_local_def h1_def [symmetric] hub_same_def user_frames_def)
qed (simp add: deliver_local_def hub_same_def user_frames_def)

lemma user_frames_once:
  assumes "hub_ok h" "distinct ids"
  shows "frames_to c (user_frames dump ids type data h) = frame_if dump type data (\<lambda>s. ws_user_id s \<in> set ids) h c"
  using assms(2)
proof (induction ids)
  case (Cons u ids)
  let ?ss = "SessionManager_sessions_for_user u (h_sessions h)"
  have sm: "sessions_agree (h_sessions h)" using assms(1) by (simp add: hub_ok_def)
  have "frames_to c (user_frames dump [u] type data h) = frame_if dump type data (\<lambda>s. s \<in> set ?ss) h c"
    using frames_of_sessions [OF assms(1) listed_sessions(3) [OF sm]] listed_sessions(1) [OF sm]
    by (fastforce simp: user_frames_def)
  moreover have "frame_if dump type data (\<lambda>s. s \<in> set ?ss) h c = frame_if dump type data (\<lambda>s. ws_user_id s = u) h c"
    by (auto simp: frame_if_def listed_sessions(1) [OF sm] split: option.split)
  ultimately show ?case
    using Cons by (auto simp: user_frames_def frames_to_def frame_if_def split: option.splits if_splits)
qed (simp add: user_frames_def frames_to_def frame_if_def split: option.split)

text \<open>Rooms.\<close>

definition room_sessions :: "int \<Rightarrow> conn \<Rightarrow> hub \<Rightarrow> ws_session list" where
  "room_sessions room exclude h =
     filter (\<lambda>s. ws_connection s \<noteq> nullptr \<and> ws_connection s \<noteq> exclude)
       (SessionManager_sessions_for (RoomManager_connections_in_room room (h_rooms h)) (h_sessions h))"

definition room_frames :: "(json \<Rightarrow> string) \<Rightarrow> int \<Rightarrow> string \<Rightarrow> json \<Rightarrow> conn \<Rightarrow> hub \<Rightarrow> (conn \<times> string) list" where
  "room_frames dump room type data exclude h =
     map (frame_for dump (h_now h) type data no_envelope) (room_sessions room exclude h)"

lemma deliver_room_sends:
  "hub_same h (deliver_local_to_room dump room type data exclude h) \<and>
   h_sent (deliver_local_to_room dump room type data exclude h) = h_sent h @ room_frames dump room type data exclude h"
  by (simp add: deliver_local_to_room_def send_to_sessions_sends room_frames_def room_sessions_def)

lemma room_frames_once:
  assumes "hub_ok h"
  shows "frames_to c (room_frames dump room type data exclude h) =
    frame_if dump type data (\<lambda>s. (room, c) \<in> index_rel (rooms (h_rooms h)) \<and> c \<noteq> exclude) h c"
proof -
  have sm: "sessions_agree (h_sessions h)" "SessionManager_get nullptr (h_sessions h) = None"
    using assms by (simp_all add: hub_ok_def)
  have set: "set (room_sessions room exclude h) = {s. \<exists>c. (room, c) \<in> index_rel (rooms (h_rooms h)) \<and>
      SessionManager_get c (h_sessions h) = Some s \<and> c \<noteq> exclude}"
    using sm(2) agree_connection [OF sm(1)]
    by (fastforce simp: room_sessions_def listed_sessions(6) [OF sm(1)] rooms_listed)
  have "distinct (room_sessions room exclude h)"
    unfolding room_sessions_def by (intro distinct_filter listed_sessions(5) [OF sm(1)] rooms_listed)
  then have "frames_to c (room_frames dump room type data exclude h) =
      frame_if dump type data (\<lambda>s. s \<in> set (room_sessions room exclude h)) h c"
    unfolding room_frames_def by (rule frames_of_sessions [OF assms]) (auto simp: set)
  also have "\<dots> = frame_if dump type data (\<lambda>s. (room, c) \<in> index_rel (rooms (h_rooms h)) \<and> c \<noteq> exclude) h c"
    using agree_connection [OF sm(1)] by (auto simp: frame_if_def set split: option.split)
  finally show ?thesis .
qed



section \<open>Across the cluster\<close>

definition hub_bus :: "(json \<Rightarrow> string) \<Rightarrow> string \<Rightarrow> hub cluster_bus" where
  "hub_bus dump node = fst (set_cluster_bus dump (RedisClusterBus_create node) (fresh_hub True))"

lemma hub_bus: "cb_node_id (hub_bus dump node) = node"
  "map_of (cb_handlers (hub_bus dump node)) kUserBroadcast = Some (on_user_broadcast dump)"
  "map_of (cb_handlers (hub_bus dump node)) kRoomBroadcast = Some (on_room_broadcast dump)"
  by (simp_all add: hub_bus_def set_cluster_bus_def RedisClusterBus_subscribe_def RedisClusterBus_create_def channel_defs)

lemma json_int64s_ids: "\<forall>i \<in> set ids. i \<le> int64_max \<Longrightarrow> json_int64s (map JInt ids) = Inr ids"
  by (induction ids) (auto simp: get_int64_def)

lemma on_user_broadcast_stamped:
  assumes "\<forall>i \<in> set ids. i \<le> int64_max"
  shows "snd (on_user_broadcast dump origin (stamped node current (user_message ids type data)) h) =
    deliver_local dump ids type data h"
proof -
  have obj: "is_object (user_message ids type data)" by (simp add: user_message_def)
  have "jfind (stamped node current (user_message ids type data)) k = jfind (user_message ids type data) k"
    if "k \<in> {''event'', ''user_ids'', ''data''}" for k
    by (rule jfind_stamped(2) [OF obj]) (use that in \<open>auto simp: kOriginKey_def kTraceParentKey_def\<close>)
  then show ?thesis
    using assms by (simp add: on_user_broadcast_def message_data_def user_message_def jids_def json_int64s_ids)
qed

text \<open>What happens to instance \<open>n\<close> when instance \<open>m\<close> publishes and the bus carries the message to everyone.\<close>

definition after_publish ::
    "(json \<Rightarrow> string) \<Rightarrow> (string \<Rightarrow> json option) \<Rightarrow> span_context option \<Rightarrow> string \<Rightarrow> int list \<Rightarrow> string \<Rightarrow> json \<Rightarrow>
     (string \<Rightarrow> hub) \<Rightarrow> string \<Rightarrow> hub" where
  "after_publish dump parse current m ids type data hubs n =
     (let published = ConnectionManager_publish dump ids type data (hubs m);
          message = (case fst (RedisClusterBus_publish dump current True (fst (last (h_outgoing published)))
                                 (snd (last (h_outgoing published))) (hub_bus dump m)) of Some msg \<Rightarrow> msg | None \<Rightarrow> ([], []))
      in snd (RedisClusterBus_deliver parse message (hub_bus dump n, if n = m then published else hubs n)))"

text \<open>C10. Cluster-wide delivery. When one instance publishes an event and the bus carries it to every
  instance, the publisher included, every live session of a listed user on any instance receives exactly
  one frame, and no other connection anywhere receives one: the publisher does not deliver its own
  message twice, and receiving does not publish again.\<close>

theorem cluster_delivery:
  assumes json: "\<forall>j. parse (dump j) = Some j" and ok: "\<forall>n. hub_ok (hubs n)" and clustered: "h_clustered (hubs m)"
    and ids: "distinct ids" "\<forall>i \<in> set ids. i \<le> int64_max"
  shows "(\<exists>new. h_sent (after_publish dump parse current m ids type data hubs n) = h_sent (hubs n) @ new \<and>
      (\<forall>c. frames_to c new = frame_if dump type data (\<lambda>s. ws_user_id s \<in> set ids) (hubs n) c)) \<and>
    h_outgoing (after_publish dump parse current m ids type data hubs n) =
      h_outgoing (hubs n) @ (if n = m then [(kUserBroadcast, user_message ids type data)] else [])"
proof -
  have okn: "hub_ok (hubs k)" for k using ok by blast
  define body where "body = stamped m current (user_message ids type data)"
  define published where "published = ConnectionManager_publish dump ids type data (hubs m)"
  have out: "h_outgoing published = h_outgoing (hubs m) @ [(kUserBroadcast, user_message ids type data)]"
    and sent: "h_sent published = h_sent (hubs m) @ user_frames dump ids type data (hubs m)"
    using deliver_local_sends [OF okn, of m dump ids type data] clustered
    by (simp_all add: published_def ConnectionManager_publish_def cluster_publish_def hub_same_def)
  have after: "after_publish dump parse current m ids type data hubs n =
      snd (RedisClusterBus_deliver parse (kUserBroadcast, dump body) (hub_bus dump n, if n = m then published else hubs n))"
    unfolding after_publish_def published_def [symmetric] Let_def out
    by (simp add: RedisClusterBus_publish_def hub_bus body_def Let_def)
  have obj: "is_object (user_message ids type data)" by (simp add: user_message_def)
  note deliver = deliver_stamped [where parse = parse and wire = "dump body" and node = m and current = current, OF _ obj,
      folded body_def, OF spec [OF json, of body]]
  show ?thesis
  proof (cases "n = m")
    case True
    then have "after_publish dump parse current m ids type data hubs n = published"
      unfolding after by (simp add: deliver hub_bus)
    with True out sent user_frames_once [OF okn ids(1)] show ?thesis by auto
  next
    case False
    then have "after_publish dump parse current m ids type data hubs n = deliver_local dump ids type data (hubs n)"
      unfolding after using on_user_broadcast_stamped [OF ids(2), of dump m m current type data "hubs n"]
      by (simp add: deliver hub_bus body_def [symmetric])
    with False deliver_local_sends [OF okn, of n dump ids type data] user_frames_once [OF okn ids(1)] show ?thesis
      by (auto simp: hub_same_def)
  qed
qed

theorem cluster_delivery_witness:
  "length (h_sent (after_publish plain_dump plain_parse None ''a'' [7] ''pong'' (JObj [])
     (\<lambda>n. snd (register_session 3 7 n kV2 (fresh_hub True))) ''b'')) = 1"
proof -
  let ?hubs = "\<lambda>n. snd (register_session 3 7 n kV2 (fresh_hub True))"
  have ok: "\<forall>n. hub_ok (?hubs n)"
    by (intro allI register_session_ok [OF fresh_hub_ok]) (simp_all add: nullptr_def fresh_hub_def no_sessions_def SessionManager_get_def)
  have "\<exists>new. h_sent (after_publish plain_dump plain_parse None ''a'' [7] ''pong'' (JObj []) ?hubs ''b'') = h_sent (?hubs ''b'') @ new \<and>
      (\<forall>c. frames_to c new = frame_if plain_dump ''pong'' (JObj []) (\<lambda>s. ws_user_id s \<in> set [7]) (?hubs ''b'') c)"
    using cluster_delivery [OF _ ok, of plain_parse plain_dump "''a''" "[7]" None "''pong''" "JObj []" "''b''"]
    by (simp add: register_session_def fresh_hub_def int64_max_def split: prod.splits)
  then obtain new where new: "h_sent (after_publish plain_dump plain_parse None ''a'' [7] ''pong'' (JObj []) ?hubs ''b'') = new"
    "\<And>c. frames_to c new = frame_if plain_dump ''pong'' (JObj []) (\<lambda>s. ws_user_id s \<in> set [7]) (?hubs ''b'') c"
    by (auto simp: register_session_def fresh_hub_def split: prod.splits)
  have three: "fst f = 3" if "f \<in> set new" for f
  proof (rule ccontr)
    assume "fst f \<noteq> 3"
    then have "frames_to (fst f) new = []"
      using new(2) [of "fst f"] by (simp add: frame_if_def register_session_def fresh_hub_def SessionManager_get_def
          SessionManager_add_def no_sessions_def Let_def)
    with that show False by (auto simp: frames_to_def filter_empty_conv)
  qed
  then have "frames_to 3 new = new" by (simp add: frames_to_def filter_id_conv)
  moreover have "length (frames_to 3 new) = 1"
    using new(2) [of 3] by (simp add: frame_if_def register_session_def fresh_hub_def SessionManager_get_def
        SessionManager_add_def Let_def)
  ultimately show ?thesis using new(1) by simp
qed

text \<open>A frame is serialised once per version only within one user's sessions: publishing to several users
  starts a new cache for each of them.\<close>

lemma serialised_per_user:
  "h_encoded (ConnectionManager_publish dump [7, 8] type data
     (snd (register_session 2 8 ''bob'' kV1 (snd (register_session 1 7 ''ann'' kV1 (fresh_hub False)))))) = 2"
  by (simp add: ConnectionManager_publish_def cluster_publish_def deliver_local_def send_to_sessions_def
      register_session_def fresh_hub_def no_sessions_def SessionManager_add_def SessionManager_sessions_for_user_def
      index_insert_def index_get_def each_def List.map_filter_simps FrameCache_for_version_def FrameCache_empty_def
      hub_encode_def send_raw_def nullptr_def Let_def sorted_list_of_fset.rep_eq)

end
