(* ===== verification/Presence.thy ===== *)
theory Presence
  imports Registries ClusterBus
begin

text \<open>
  \<^verbatim>\<open>PresenceService\<close>, the deltas it announces (\<^verbatim>\<open>PresenceDelta\<close>), and their way over the cluster bus to the
  other instances (\<^verbatim>\<open>ClusterPresencePublisher\<close>, \<^verbatim>\<open>subscribe_to_presence\<close>). The system and wall clocks are
  arguments.
\<close>


section \<open>Deltas\<close>

record presence_delta =
  pd_user_id :: int
  pd_online :: bool
  pd_at_ms :: int

definition PresenceDelta_to_json :: "presence_delta \<Rightarrow> json" where
  "PresenceDelta_to_json d =
     JObj [(''user_id'', JInt (pd_user_id d)), (''online'', JBool (pd_online d)), (''at_ms'', JInt (pd_at_ms d))]"

definition PresenceDelta_from_json :: "json \<Rightarrow> presence_delta" where
  "PresenceDelta_from_json body =
     \<lparr>pd_user_id = (case jfind body ''user_id'' of Some (JInt i) \<Rightarrow> get_int64 i | _ \<Rightarrow> 0),
      pd_online = (case jfind body ''online'' of Some (JBool b) \<Rightarrow> b | _ \<Rightarrow> False),
      pd_at_ms = (case jfind body ''at_ms'' of Some (JInt i) \<Rightarrow> get_int64 i | _ \<Rightarrow> 0)\<rparr>"

definition delta_fits :: "presence_delta \<Rightarrow> bool" where
  "delta_fits d \<longleftrightarrow> pd_user_id d \<le> int64_max \<and> pd_at_ms d \<le> int64_max"

lemma delta_read_back:
  assumes "delta_fits d"
  shows "PresenceDelta_from_json (stamped node current (PresenceDelta_to_json d)) = d"
proof -
  have obj: "is_object (PresenceDelta_to_json d)" by (simp add: PresenceDelta_to_json_def)
  have "jfind (stamped node current (PresenceDelta_to_json d)) k = jfind (PresenceDelta_to_json d) k"
    if "k \<in> {''user_id'', ''online'', ''at_ms''}" for k
    by (rule jfind_stamped(2) [OF obj]) (use that in \<open>auto simp: kOriginKey_def kTraceParentKey_def\<close>)
  then show ?thesis
    using assms by (cases d) (simp add: PresenceDelta_from_json_def PresenceDelta_to_json_def get_int64_def delta_fits_def)
qed


section \<open>The service\<close>

record presence_service =
  ps_sessions :: "(int, int) fmap"
  ps_last_seen :: "(int, time_point) fmap"
  ps_remote :: "(string, int) index"

definition nobody_online :: presence_service where
  "nobody_online = \<lparr>ps_sessions = fmempty, ps_last_seen = fmempty, ps_remote = fmempty\<rparr>"

definition online_remotely :: "int \<Rightarrow> presence_service \<Rightarrow> bool" where
  "online_remotely u ps \<longleftrightarrow> fBex (fmdom (ps_remote ps)) (\<lambda>node. u |\<in>| index_get (ps_remote ps) node)"

definition PresenceService_is_online_locally :: "int \<Rightarrow> presence_service \<Rightarrow> bool" where
  "PresenceService_is_online_locally u ps \<longleftrightarrow>
     (case fmlookup (ps_sessions ps) u of None \<Rightarrow> False | Some count \<Rightarrow> count > 0)"

definition online_anywhere :: "int \<Rightarrow> presence_service \<Rightarrow> bool" where
  "online_anywhere u ps \<longleftrightarrow> PresenceService_is_online_locally u ps \<or> online_remotely u ps"

text \<open>The answer of the operation, the announcement it publishes, and the new state.\<close>

definition PresenceService_on_connect ::
    "int \<Rightarrow> int \<Rightarrow> presence_service \<Rightarrow> bool \<times> presence_delta option \<times> presence_service" where
  "PresenceService_on_connect now_ms u ps =
     (let was_online = online_anywhere u ps;
          previous = (case fmlookup (ps_sessions ps) u of None \<Rightarrow> 0 | Some count \<Rightarrow> count)
      in (\<not> was_online,
          if previous = 0 then Some \<lparr>pd_user_id = u, pd_online = True, pd_at_ms = now_ms\<rparr> else None,
          ps\<lparr>ps_sessions := fmupd u (previous + 1) (ps_sessions ps)\<rparr>))"

definition PresenceService_on_disconnect ::
    "time_point \<Rightarrow> int \<Rightarrow> int \<Rightarrow> presence_service \<Rightarrow> bool \<times> presence_delta option \<times> presence_service" where
  "PresenceService_on_disconnect ts now_ms u ps =
     (case fmlookup (ps_sessions ps) u of
        None \<Rightarrow> (False, None, ps)
      | Some count \<Rightarrow>
          if count = 0 then (False, None, ps)
          else if count - 1 > 0 then (False, None, ps\<lparr>ps_sessions := fmupd u (count - 1) (ps_sessions ps)\<rparr>)
          else let ps = ps\<lparr>ps_sessions := fmdrop u (ps_sessions ps)\<rparr>;
                   became_offline = (\<not> online_remotely u ps)
               in (became_offline,
                   Some \<lparr>pd_user_id = u, pd_online = False, pd_at_ms = now_ms\<rparr>,
                   if became_offline then ps\<lparr>ps_last_seen := fmupd u ts (ps_last_seen ps)\<rparr> else ps))"

definition PresenceService_apply_remote ::
    "time_point \<Rightarrow> string \<Rightarrow> presence_delta \<Rightarrow> presence_service \<Rightarrow> presence_service" where
  "PresenceService_apply_remote ts node d ps =
     (if pd_online d then ps\<lparr>ps_remote := index_insert node (pd_user_id d) (ps_remote ps)\<rparr>
      else if fmlookup (ps_remote ps) node = None then ps
      else let ps = ps\<lparr>ps_remote := index_erase node (pd_user_id d) (ps_remote ps)\<rparr>
           in if \<not> online_anywhere (pd_user_id d) ps
              then ps\<lparr>ps_last_seen := fmupd (pd_user_id d) ts (ps_last_seen ps)\<rparr> else ps)"

definition PresenceService_forget_node :: "string \<Rightarrow> presence_service \<Rightarrow> presence_service" where
  "PresenceService_forget_node node ps = ps\<lparr>ps_remote := fmdrop node (ps_remote ps)\<rparr>"

definition PresenceService_is_online :: "int \<Rightarrow> presence_service \<Rightarrow> bool" where
  "PresenceService_is_online = online_anywhere"

definition PresenceService_last_seen :: "int \<Rightarrow> presence_service \<Rightarrow> time_point option" where
  "PresenceService_last_seen u ps = fmlookup (ps_last_seen ps) u"

definition PresenceService_online_count :: "presence_service \<Rightarrow> nat" where
  "PresenceService_online_count ps =
     (if fmdom (ps_remote ps) = {||} then fcard (fmdom (ps_sessions ps))
      else fcard (ffilter (\<lambda>u. PresenceService_is_online_locally u ps) (fmdom (ps_sessions ps)) |\<union>|
                  ffUnion (index_get (ps_remote ps) |`| fmdom (ps_remote ps))))"

definition PresenceService_local_online_count :: "presence_service \<Rightarrow> nat" where
  "PresenceService_local_online_count ps = fcard (fmdom (ps_sessions ps))"

definition PresenceService_known_peer_count :: "presence_service \<Rightarrow> nat" where
  "PresenceService_known_peer_count ps = fcard (fmdom (ps_remote ps))"


section \<open>One instance\<close>

text \<open>Session counts are positive, and a peer is remembered only while it reports somebody.\<close>

definition presence_ok :: "presence_service \<Rightarrow> bool" where
  "presence_ok ps \<longleftrightarrow> (\<forall>u count. fmlookup (ps_sessions ps) u = Some count \<longrightarrow> count > 0) \<and> no_empty (ps_remote ps)"

definition local_users :: "presence_service \<Rightarrow> int set" where
  "local_users ps = {u. PresenceService_is_online_locally u ps}"

lemma online_remotely_iff: "online_remotely u ps \<longleftrightarrow> (\<exists>node. (node, u) \<in> index_rel (ps_remote ps))"
proof -
  have "node |\<in>| fmdom (ps_remote ps)" if "u |\<in>| index_get (ps_remote ps) node" for node
    using that by (cases "fmlookup (ps_remote ps) node") (auto simp: index_get_def fmlookup_dom_iff)
  then show ?thesis by (auto simp: online_remotely_def index_rel_iff)
qed

lemma local_users_sessions:
  "presence_ok ps \<Longrightarrow> u \<in> local_users ps \<longleftrightarrow> fmlookup (ps_sessions ps) u \<noteq> None"
  by (auto simp: presence_ok_def local_users_def PresenceService_is_online_locally_def split: option.splits)

lemma presence_ok_update:
  "presence_ok ps \<Longrightarrow> 0 < k \<Longrightarrow> presence_ok (ps\<lparr>ps_sessions := fmupd u k (ps_sessions ps)\<rparr>)"
  "presence_ok ps \<Longrightarrow> presence_ok (ps\<lparr>ps_sessions := fmdrop u (ps_sessions ps)\<rparr>)"
  "presence_ok (ps\<lparr>ps_last_seen := seen\<rparr>) = presence_ok ps"
  by (auto simp: presence_ok_def split: if_splits)

lemma local_users_update:
  "0 < k \<Longrightarrow> local_users (ps\<lparr>ps_sessions := fmupd u k (ps_sessions ps)\<rparr>) = insert u (local_users ps)"
  "local_users (ps\<lparr>ps_sessions := fmdrop u (ps_sessions ps)\<rparr>) = local_users ps - {u}"
  "local_users (ps\<lparr>ps_last_seen := seen\<rparr>) = local_users ps"
  by (auto simp: local_users_def PresenceService_is_online_locally_def split: if_splits)

lemma on_connect_effect:
  assumes "presence_ok ps" "PresenceService_on_connect now_ms u ps = (became, d, ps')"
  shows "presence_ok ps' \<and> ps_remote ps' = ps_remote ps \<and> local_users ps' = insert u (local_users ps) \<and>
    became = (\<not> online_anywhere u ps) \<and>
    d = (if u \<in> local_users ps then None else Some \<lparr>pd_user_id = u, pd_online = True, pd_at_ms = now_ms\<rparr>)"
proof (cases "fmlookup (ps_sessions ps) u")
  case None
  then have "u \<notin> local_users ps" using local_users_sessions [OF assms(1)] by simp
  with None assms show ?thesis
    by (auto simp: PresenceService_on_connect_def presence_ok_update local_users_update)
next
  case (Some count)
  then have "0 < count" "u \<in> local_users ps"
    using assms(1) local_users_sessions [OF assms(1)] by (auto simp: presence_ok_def)
  with Some assms show ?thesis
    by (auto simp: PresenceService_on_connect_def presence_ok_update local_users_update)
qed

lemma on_disconnect_effect:
  assumes "presence_ok ps" "PresenceService_on_disconnect ts now_ms u ps = (became, d, ps')"
  shows "presence_ok ps' \<and> ps_remote ps' = ps_remote ps \<and>
    (d = None \<and> local_users ps' = local_users ps \<and> \<not> became \<or>
     d = Some \<lparr>pd_user_id = u, pd_online = False, pd_at_ms = now_ms\<rparr> \<and> u \<in> local_users ps \<and>
       local_users ps' = local_users ps - {u} \<and> became = (\<not> online_remotely u ps))"
proof (cases "fmlookup (ps_sessions ps) u")
  case None
  with assms show ?thesis by (auto simp: PresenceService_on_disconnect_def)
next
  case (Some count)
  then have pos: "0 < count" "u \<in> local_users ps"
    using assms(1) local_users_sessions [OF assms(1)] by (auto simp: presence_ok_def)
  show ?thesis
  proof (cases "count = 1")
    case True
    define gone where "gone = ps\<lparr>ps_sessions := fmdrop u (ps_sessions ps)\<rparr>"
    have gone: "online_remotely u gone = online_remotely u ps" "ps_remote gone = ps_remote ps"
      "presence_ok gone" "local_users gone = local_users ps - {u}"
      using assms(1) by (simp_all add: gone_def online_remotely_def presence_ok_update local_users_update)
    have eq: "PresenceService_on_disconnect ts now_ms u ps =
        (\<not> online_remotely u ps, Some \<lparr>pd_user_id = u, pd_online = False, pd_at_ms = now_ms\<rparr>,
         if \<not> online_remotely u ps then gone\<lparr>ps_last_seen := fmupd u ts (ps_last_seen gone)\<rparr> else gone)"
      using True Some by (simp add: PresenceService_on_disconnect_def Let_def gone_def [symmetric] gone(1))
    have "became = (\<not> online_remotely u ps)"
        "d = Some \<lparr>pd_user_id = u, pd_online = False, pd_at_ms = now_ms\<rparr>"
      and ps': "ps' = (if \<not> online_remotely u ps then gone\<lparr>ps_last_seen := fmupd u ts (ps_last_seen gone)\<rparr> else gone)"
      using trans [OF assms(2) [symmetric] eq, unfolded prod.inject] by iprover+
    moreover have "presence_ok ps'" "ps_remote ps' = ps_remote ps" "local_users ps' = local_users ps - {u}"
      unfolding ps' by (simp_all add: gone presence_ok_update(3) local_users_update(3))
    ultimately show ?thesis using pos(2) by blast
  next
    case False
    with pos have "0 < count - 1" by simp
    have "ps' = ps\<lparr>ps_sessions := fmupd u (count - 1) (ps_sessions ps)\<rparr>" "d = None" "\<not> became"
      using \<open>0 < count - 1\<close> Some assms(2) by (simp_all add: PresenceService_on_disconnect_def)
    then show ?thesis
      using \<open>0 < count - 1\<close> pos(2) assms(1) by (simp add: presence_ok_update local_users_update insert_absorb)
  qed
qed

lemma apply_remote_effect:
  assumes "presence_ok ps"
  shows "presence_ok (PresenceService_apply_remote ts node d ps)"
    "local_users (PresenceService_apply_remote ts node d ps) = local_users ps"
    "index_rel (ps_remote (PresenceService_apply_remote ts node d ps)) =
       (if pd_online d then insert (node, pd_user_id d) (index_rel (ps_remote ps))
        else index_rel (ps_remote ps) - {(node, pd_user_id d)})"
proof -
  have absent: "fmlookup (ps_remote ps) node = None \<Longrightarrow> (node, u) \<notin> index_rel (ps_remote ps)" for u
    by (simp add: index_rel_iff index_get_def)
  show "index_rel (ps_remote (PresenceService_apply_remote ts node d ps)) =
       (if pd_online d then insert (node, pd_user_id d) (index_rel (ps_remote ps))
        else index_rel (ps_remote ps) - {(node, pd_user_id d)})"
    using absent [of "pd_user_id d"] by (simp add: PresenceService_apply_remote_def Let_def)
  show "presence_ok (PresenceService_apply_remote ts node d ps)"
    using assms by (simp add: PresenceService_apply_remote_def presence_ok_def Let_def)
  show "local_users (PresenceService_apply_remote ts node d ps) = local_users ps"
    by (simp add: PresenceService_apply_remote_def local_users_def PresenceService_is_online_locally_def Let_def)
qed

lemma online_count_eq:
  assumes "presence_ok ps"
  shows "PresenceService_online_count ps = card {u. PresenceService_is_online u ps}"
proof -
  have sess: "fset (fmdom (ps_sessions ps)) = local_users ps"
    using assms
    by (auto simp: presence_ok_def local_users_def PresenceService_is_online_locally_def fmlookup_dom_iff split: option.splits)
  have rem: "fset (ffUnion (index_get (ps_remote ps) |`| fmdom (ps_remote ps))) = {u. online_remotely u ps}"
    by (auto simp: online_remotely_def ffUnion.rep_eq)
  have fil: "fset (ffilter (\<lambda>u. PresenceService_is_online_locally u ps) (fmdom (ps_sessions ps))) = local_users ps"
    using sess by (auto simp: local_users_def)
  have all: "{u. PresenceService_is_online u ps} = local_users ps \<union> {u. online_remotely u ps}"
    by (auto simp: PresenceService_is_online_def online_anywhere_def local_users_def)
  show ?thesis
  proof (cases "fmdom (ps_remote ps) = {||}")
    case True
    then have "{u. online_remotely u ps} = {}" by (simp add: online_remotely_def)
    with True show ?thesis by (simp add: PresenceService_online_count_def fcard.rep_eq sess all)
  next
    case False
    have "PresenceService_online_count ps =
        card (fset (ffilter (\<lambda>u. PresenceService_is_online_locally u ps) (fmdom (ps_sessions ps)) |\<union>|
          ffUnion (index_get (ps_remote ps) |`| fmdom (ps_remote ps))))"
      using False by (simp add: PresenceService_online_count_def fcard.rep_eq)
    then show ?thesis by (simp only: union_fset fil rem all)
  qed
qed


section \<open>The cluster\<close>

definition ClusterPresencePublisher_publish ::
    "(json \<Rightarrow> string) \<Rightarrow> span_context option \<Rightarrow> bool \<Rightarrow> presence_delta \<Rightarrow> 's cluster_bus \<Rightarrow>
     (string \<times> string) option \<times> 's cluster_bus" where
  "ClusterPresencePublisher_publish dump current accepted d =
     RedisClusterBus_publish dump current accepted kPresence (PresenceDelta_to_json d)"

definition on_presence_message :: "time_point \<Rightarrow> presence_service handler" where
  "on_presence_message ts origin body ps =
     (Inr (), PresenceService_apply_remote ts origin (PresenceDelta_from_json body) ps)"

definition subscribe_to_presence ::
    "time_point \<Rightarrow> presence_service cluster_bus \<Rightarrow> presence_service cluster_bus" where
  "subscribe_to_presence ts = RedisClusterBus_subscribe kPresence (on_presence_message ts)"

definition presence_bus :: "time_point \<Rightarrow> string \<Rightarrow> presence_service cluster_bus" where
  "presence_bus ts node = subscribe_to_presence ts (RedisClusterBus_create node)"

text \<open>
  The instances, what each has decided to announce but not yet handed to Redis (the announcement is
  published after the lock is released), and the messages under way from each instance to each.
\<close>

record presence_cluster =
  pc_members :: "string fset"
  pc_peer :: "string \<Rightarrow> presence_service"
  pc_unsent :: "string \<Rightarrow> presence_delta list"
  pc_wire :: "string \<Rightarrow> string \<Rightarrow> string list"

definition cluster_start :: "string fset \<Rightarrow> presence_cluster" where
  "cluster_start ms = \<lparr>pc_members = ms, pc_peer = (\<lambda>_. nobody_online), pc_unsent = (\<lambda>_. []), pc_wire = (\<lambda>_ _. [])\<rparr>"

definition pc_set :: "string \<Rightarrow> presence_service \<Rightarrow> presence_delta option \<Rightarrow> presence_cluster \<Rightarrow> presence_cluster" where
  "pc_set n ps d c = c\<lparr>pc_peer := (pc_peer c)(n := ps),
     pc_unsent := (pc_unsent c)(n := pc_unsent c n @ (case d of None \<Rightarrow> [] | Some d \<Rightarrow> [d]))\<rparr>"

text \<open>With \<open>in_order\<close> an instance publishes its announcements in the order it decided them.\<close>

inductive presence_step ::
    "(json \<Rightarrow> string) \<Rightarrow> (string \<Rightarrow> json option) \<Rightarrow> bool \<Rightarrow> presence_cluster \<Rightarrow> presence_cluster \<Rightarrow> bool"
  for dump :: "json \<Rightarrow> string" and parse :: "string \<Rightarrow> json option" and in_order :: bool where
  connects: "n |\<in>| pc_members c \<Longrightarrow> u \<le> int64_max \<Longrightarrow> t \<le> int64_max \<Longrightarrow>
    PresenceService_on_connect t u (pc_peer c n) = (became, d, ps) \<Longrightarrow>
    presence_step dump parse in_order c (pc_set n ps d c)"
| disconnects: "n |\<in>| pc_members c \<Longrightarrow> u \<le> int64_max \<Longrightarrow> t \<le> int64_max \<Longrightarrow>
    PresenceService_on_disconnect ts t u (pc_peer c n) = (became, d, ps) \<Longrightarrow>
    presence_step dump parse in_order c (pc_set n ps d c)"
| publishes: "n |\<in>| pc_members c \<Longrightarrow> pc_unsent c n = before @ d # after \<Longrightarrow> in_order \<longrightarrow> before = [] \<Longrightarrow>
    ClusterPresencePublisher_publish dump current True d (presence_bus ts n) = (Some (channel, message), b) \<Longrightarrow>
    presence_step dump parse in_order c
      (c\<lparr>pc_unsent := (pc_unsent c)(n := before @ after),
         pc_wire := (pc_wire c)(n := \<lambda>k. pc_wire c n k @ [message])\<rparr>)"
| receives: "n |\<in>| pc_members c \<Longrightarrow> pc_wire c m n = message # rest \<Longrightarrow>
    RedisClusterBus_deliver parse (kPresence, message) (presence_bus ts n, pc_peer c n) = (b, ps) \<Longrightarrow>
    presence_step dump parse in_order c
      (c\<lparr>pc_peer := (pc_peer c)(n := ps), pc_wire := (pc_wire c)(m := (pc_wire c m)(n := rest))\<rparr>)"

definition quiescent :: "presence_cluster \<Rightarrow> bool" where
  "quiescent c \<longleftrightarrow> (\<forall>m. pc_unsent c m = [] \<and> (\<forall>n. n |\<in>| pc_members c \<longrightarrow> pc_wire c m n = []))"

text \<open>What applying announcements does to the view of the announcing instance.\<close>

definition apply_delta :: "presence_delta \<Rightarrow> int set \<Rightarrow> int set" where
  "apply_delta d S = (if pd_online d then insert (pd_user_id d) S else S - {pd_user_id d})"

definition view_of :: "string \<Rightarrow> presence_service \<Rightarrow> int set" where
  "view_of m ps = {u. (m, u) \<in> index_rel (ps_remote ps)}"

text \<open>The messages from \<open>m\<close> to \<open>n\<close> and those \<open>m\<close> still has to send bring \<open>n\<close>'s view of \<open>m\<close> up to date.\<close>

definition encoded :: "(json \<Rightarrow> string) \<Rightarrow> string \<Rightarrow> span_context option \<times> presence_delta \<Rightarrow> string" where
  "encoded dump m = (\<lambda>(current, d). dump (stamped m current (PresenceDelta_to_json d)))"

definition link_ok :: "(json \<Rightarrow> string) \<Rightarrow> presence_cluster \<Rightarrow> string \<Rightarrow> string \<Rightarrow> bool" where
  "link_ok dump c m n \<longleftrightarrow>
     (\<exists>ds. pc_wire c m n = map (encoded dump m) ds \<and> (\<forall>x \<in> set ds. delta_fits (snd x)) \<and>
        (m \<noteq> n \<and> m |\<in>| pc_members c \<longrightarrow>
           fold apply_delta (map snd ds @ pc_unsent c m) (view_of m (pc_peer c n)) = local_users (pc_peer c m)))"

definition node_ok :: "presence_cluster \<Rightarrow> string \<Rightarrow> bool" where
  "node_ok c n \<longleftrightarrow> presence_ok (pc_peer c n) \<and> (\<forall>d \<in> set (pc_unsent c n). delta_fits d) \<and>
     (\<forall>m u. (m, u) \<in> index_rel (ps_remote (pc_peer c n)) \<longrightarrow> m |\<in>| pc_members c \<and> m \<noteq> n)"

definition presence_inv :: "(json \<Rightarrow> string) \<Rightarrow> presence_cluster \<Rightarrow> bool" where
  "presence_inv dump c \<longleftrightarrow> (\<forall>n. node_ok c n) \<and> (\<forall>m n. n |\<in>| pc_members c \<longrightarrow> link_ok dump c m n) \<and>
     (\<forall>m n. m |\<notin>| pc_members c \<longrightarrow> pc_wire c m n = [])"

lemma cluster_start_inv: "presence_inv dump (cluster_start ms)"
  by (simp add: presence_inv_def node_ok_def link_ok_def cluster_start_def nobody_online_def presence_ok_def
      view_of_def local_users_def PresenceService_is_online_locally_def index_rel_def)

text \<open>Deciding something locally extends the announcements by just what changed.\<close>

definition announces :: "presence_service \<Rightarrow> presence_delta option \<Rightarrow> presence_service \<Rightarrow> bool" where
  "announces ps d ps' \<longleftrightarrow> presence_ok ps' \<and> ps_remote ps' = ps_remote ps \<and>
     (case d of None \<Rightarrow> local_users ps' = local_users ps
      | Some d \<Rightarrow> delta_fits d \<and> local_users ps' = apply_delta d (local_users ps))"

lemma connect_announces:
  "presence_ok ps \<Longrightarrow> u \<le> int64_max \<Longrightarrow> t \<le> int64_max \<Longrightarrow>
    PresenceService_on_connect t u ps = (became, d, ps') \<Longrightarrow> announces ps d ps'"
  by (drule (1) on_connect_effect) (auto simp: announces_def apply_delta_def delta_fits_def insert_absorb split: if_splits)

lemma disconnect_announces:
  "presence_ok ps \<Longrightarrow> u \<le> int64_max \<Longrightarrow> t \<le> int64_max \<Longrightarrow>
    PresenceService_on_disconnect ts t u ps = (became, d, ps') \<Longrightarrow> announces ps d ps'"
  by (drule (1) on_disconnect_effect) (elim conjE disjE; simp add: announces_def apply_delta_def delta_fits_def)

lemma set_inv:
  assumes "presence_inv dump c" "n |\<in>| pc_members c" "announces (pc_peer c n) d ps"
  shows "presence_inv dump (pc_set n ps d c)"
proof -
  have links: "link_ok dump (pc_set n ps d c) m k" if k: "k |\<in>| pc_members c" for m k
  proof -
    obtain ds where ds: "pc_wire c m k = map (encoded dump m) ds" "\<forall>x \<in> set ds. delta_fits (snd x)"
      and up: "m \<noteq> k \<and> m |\<in>| pc_members c \<Longrightarrow>
        fold apply_delta (map snd ds @ pc_unsent c m) (view_of m (pc_peer c k)) = local_users (pc_peer c m)"
      using assms(1) k unfolding presence_inv_def link_ok_def by blast
    have "view_of m (pc_peer (pc_set n ps d c) k) = view_of m (pc_peer c k)"
      using assms(3) by (simp add: pc_set_def view_of_def announces_def)
    then show ?thesis
      unfolding link_ok_def using ds up assms(3)
      by (intro exI [of _ ds]) (auto simp: pc_set_def announces_def split: option.splits)
  qed
  have "node_ok (pc_set n ps d c) k" for k
    using assms(1,3) by (auto simp: presence_inv_def node_ok_def pc_set_def announces_def split: option.splits)
  with links show ?thesis
    using assms(1) by (simp add: presence_inv_def pc_set_def)
qed

lemma publish_inv:
  assumes inv: "presence_inv dump c" and n: "n |\<in>| pc_members c" "pc_unsent c n = d # after"
    and sent: "ClusterPresencePublisher_publish dump current True d (presence_bus ts n) = (Some (channel, message), b)"
  shows "presence_inv dump (c\<lparr>pc_unsent := (pc_unsent c)(n := after),
    pc_wire := (pc_wire c)(n := \<lambda>k. pc_wire c n k @ [message])\<rparr>)" (is "presence_inv dump ?c")
proof -
  have message: "message = encoded dump n (current, d)"
    using sent by (simp add: ClusterPresencePublisher_publish_def RedisClusterBus_publish_def encoded_def
        presence_bus_def subscribe_to_presence_def RedisClusterBus_subscribe_def RedisClusterBus_create_def Let_def)
  have fits: "delta_fits d" "\<forall>x \<in> set after. delta_fits x"
    using inv n(2) by (auto simp: presence_inv_def node_ok_def dest!: spec [of _ n])
  have links: "link_ok dump ?c m k" if k: "k |\<in>| pc_members c" for m k
  proof -
    obtain ds where ds: "pc_wire c m k = map (encoded dump m) ds" "\<forall>x \<in> set ds. delta_fits (snd x)"
      and up: "m \<noteq> k \<and> m |\<in>| pc_members c \<Longrightarrow>
        fold apply_delta (map snd ds @ pc_unsent c m) (view_of m (pc_peer c k)) = local_users (pc_peer c m)"
      using inv k unfolding presence_inv_def link_ok_def by blast
    show ?thesis
    proof (cases "m = n")
      case True
      show ?thesis unfolding link_ok_def
        by (rule exI [of _ "ds @ [(current, d)]"]) (use True ds up message n(2) fits in auto)
    next
      case False
      show ?thesis unfolding link_ok_def by (rule exI [of _ ds]) (use False ds up in auto)
    qed
  qed
  have "node_ok ?c k" for k
    using inv fits(2) by (simp add: presence_inv_def node_ok_def)
  with links show ?thesis using inv n(1) by (auto simp: presence_inv_def)
qed

lemma deliver_presence:
  assumes "\<forall>j. parse (dump j) = Some j" "delta_fits d"
    and "RedisClusterBus_deliver parse (kPresence, encoded dump m (current, d)) (presence_bus ts n, ps) = (b, ps')"
  shows "ps' = (if m = n then ps else PresenceService_apply_remote ts m d ps)"
proof -
  have "map_of (cb_handlers (presence_bus ts n)) kPresence = Some (on_presence_message ts)" "cb_node_id (presence_bus ts n) = n"
    by (simp_all add: presence_bus_def subscribe_to_presence_def RedisClusterBus_subscribe_def RedisClusterBus_create_def)
  moreover have obj: "is_object (PresenceDelta_to_json d)" by (simp add: PresenceDelta_to_json_def)
  note stamped_here = deliver_stamped [where parse = parse and wire = "dump (stamped m current (PresenceDelta_to_json d))",
      OF spec [OF assms(1), of "stamped m current (PresenceDelta_to_json d)"] obj]
  ultimately show ?thesis
    using assms(3) delta_read_back [OF assms(2), of m current]
    by (auto simp: encoded_def on_presence_message_def stamped_here obj)
qed

lemma view_of_apply:
  "presence_ok ps \<Longrightarrow> view_of k (PresenceService_apply_remote ts m d ps) =
     (if k = m then apply_delta d (view_of m ps) else view_of k ps)"
  by (auto simp: view_of_def apply_remote_effect(3) apply_delta_def)

lemma receive_inv:
  assumes json: "\<forall>j. parse (dump j) = Some j" and inv: "presence_inv dump c" and n: "n |\<in>| pc_members c"
    and head: "pc_wire c m n = message # rest"
    and got: "RedisClusterBus_deliver parse (kPresence, message) (presence_bus ts n, pc_peer c n) = (b, ps)"
  shows "presence_inv dump (c\<lparr>pc_peer := (pc_peer c)(n := ps), pc_wire := (pc_wire c)(m := (pc_wire c m)(n := rest))\<rparr>)"
    (is "presence_inv dump ?upd")
proof -
  define c' where "c' = ?upd"
  have m: "m |\<in>| pc_members c" using inv head by (auto simp: presence_inv_def)
  obtain ds where ds: "message # rest = map (encoded dump m) ds" "\<forall>x \<in> set ds. delta_fits (snd x)"
    and up: "m \<noteq> n \<Longrightarrow> fold apply_delta (map snd ds @ pc_unsent c m) (view_of m (pc_peer c n)) = local_users (pc_peer c m)"
    using inv n m unfolding presence_inv_def link_ok_def head [symmetric] by blast
  obtain current d es where es: "ds = (current, d) # es" using ds(1) by (cases ds) auto
  have fits: "delta_fits d" and message: "message = encoded dump m (current, d)" and rest: "rest = map (encoded dump m) es"
    using ds es by auto
  have ps: "ps = (if m = n then pc_peer c n else PresenceService_apply_remote ts m d (pc_peer c n))"
    by (rule deliver_presence [OF json fits got [unfolded message]])
  have ok: "presence_ok (pc_peer c k)" for k using inv by (simp add: presence_inv_def node_ok_def)
  have c': "pc_members c' = pc_members c" "pc_unsent c' = pc_unsent c" "pc_peer c' k = (if k = n then ps else pc_peer c k)"
    "pc_wire c' j k = (if j = m \<and> k = n then rest else pc_wire c j k)" for j k
    by (simp_all add: c'_def)
  have lu: "local_users (pc_peer c' k) = local_users (pc_peer c k)" for k
    by (simp add: c' ps apply_remote_effect(2) [OF ok])
  have view: "view_of j (pc_peer c' k) =
      (if k = n \<and> j = m \<and> m \<noteq> n then apply_delta d (view_of m (pc_peer c n)) else view_of j (pc_peer c k))" for j k
    by (auto simp: c' ps view_of_apply [OF ok])
  have "link_ok dump c' j k" if k: "k |\<in>| pc_members c" for j k
  proof (cases "j = m \<and> k = n")
    case True
    show ?thesis unfolding link_ok_def lu view
      by (rule exI [of _ es]) (use True ds es rest up in \<open>simp add: c'\<close>)
  next
    case False
    moreover have "link_ok dump c j k" using inv k by (simp add: presence_inv_def)
    ultimately show ?thesis unfolding link_ok_def lu view by (auto simp: c')
  qed
  moreover have "node_ok c' k" for k
  proof -
    have "node_ok c k" using inv by (simp add: presence_inv_def)
    then show ?thesis
      using m ok unfolding node_ok_def by (auto simp: c' ps apply_remote_effect split: if_splits)
  qed
  moreover have "\<forall>j k. j |\<notin>| pc_members c \<longrightarrow> pc_wire c' j k = []"
    using inv m by (auto simp: presence_inv_def c'(4))
  ultimately show ?thesis unfolding c'_def [symmetric] presence_inv_def c'(1) by blast
qed

text \<open>Every run in which announcements leave in order keeps the invariant.\<close>

abbreviation presence_run where
  "presence_run dump parse in_order \<equiv> (presence_step dump parse in_order)\<^sup>*\<^sup>*"

lemma step_members: "presence_step dump parse in_order c c' \<Longrightarrow> pc_members c' = pc_members c"
  by (cases rule: presence_step.cases) (auto simp: pc_set_def)

lemma step_inv:
  assumes "\<forall>j. parse (dump j) = Some j" "presence_step dump parse True c c'" "presence_inv dump c"
  shows "presence_inv dump c'"
  using assms(2)
proof (cases rule: presence_step.cases)
  case (connects n u t became d ps)
  have "presence_ok (pc_peer c n)" using assms(3) by (simp add: presence_inv_def node_ok_def)
  from connect_announces [OF this connects(3-5)] show ?thesis
    unfolding connects(1) by (rule set_inv [OF assms(3) connects(2)])
next
  case (disconnects n u t ts became d ps)
  have "presence_ok (pc_peer c n)" using assms(3) by (simp add: presence_inv_def node_ok_def)
  from disconnect_announces [OF this disconnects(3-5)] show ?thesis
    unfolding disconnects(1) by (rule set_inv [OF assms(3) disconnects(2)])
next
  case (publishes n before d after current ts channel message b)
  then show ?thesis using publish_inv [OF assms(3)] by auto
next
  case (receives n m message rest ts b ps)
  then show ?thesis using receive_inv [OF assms(1,3)] by auto
qed

lemma run_inv:
  assumes "\<forall>j. parse (dump j) = Some j" "presence_run dump parse True (cluster_start ms) c"
  shows "presence_inv dump c \<and> pc_members c = ms"
  using assms(2)
proof (induction rule: rtranclp_induct)
  case base
  show ?case by (simp add: cluster_start_inv) (simp add: cluster_start_def)
next
  case (step c c')
  then show ?case using step_inv [OF assms(1)] step_members by blast
qed

lemma quiescent_view:
  assumes "presence_inv dump c" "quiescent c" "n |\<in>| pc_members c"
  shows "PresenceService_is_online u (pc_peer c n) \<longleftrightarrow>
      (\<exists>m. m |\<in>| pc_members c \<and> PresenceService_is_online_locally u (pc_peer c m))"
    and "online_remotely u (pc_peer c n) \<longleftrightarrow>
      (\<exists>m. m |\<in>| pc_members c \<and> m \<noteq> n \<and> PresenceService_is_online_locally u (pc_peer c m))"
proof -
  have view: "view_of m (pc_peer c n) = local_users (pc_peer c m)" if "m |\<in>| pc_members c" "m \<noteq> n" for m
  proof -
    have "link_ok dump c m n" "pc_wire c m n = []" "pc_unsent c m = []"
      using assms by (simp_all add: presence_inv_def quiescent_def)
    then show ?thesis using that by (auto simp: link_ok_def)
  qed
  have other: "m |\<in>| pc_members c \<and> m \<noteq> n" if "(m, v) \<in> index_rel (ps_remote (pc_peer c n))" for m v
    using assms(1) that by (auto simp: presence_inv_def node_ok_def)
  have "(m, u) \<in> index_rel (ps_remote (pc_peer c n)) \<longleftrightarrow>
      m |\<in>| pc_members c \<and> m \<noteq> n \<and> PresenceService_is_online_locally u (pc_peer c m)" for m
    using view [of m] other [of m u] by (auto simp: view_of_def local_users_def)
  then show rem: "online_remotely u (pc_peer c n) \<longleftrightarrow>
      (\<exists>m. m |\<in>| pc_members c \<and> m \<noteq> n \<and> PresenceService_is_online_locally u (pc_peer c m))"
    by (simp add: online_remotely_iff)
  show "PresenceService_is_online u (pc_peer c n) \<longleftrightarrow>
      (\<exists>m. m |\<in>| pc_members c \<and> PresenceService_is_online_locally u (pc_peer c m))"
    using assms(3) by (auto simp: PresenceService_is_online_def online_anywhere_def rem)
qed

section \<open>Concrete runs\<close>

definition do_connect :: "string \<Rightarrow> int \<Rightarrow> presence_cluster \<Rightarrow> presence_cluster" where
  "do_connect n u c = (case PresenceService_on_connect 0 u (pc_peer c n) of (became, d, ps) \<Rightarrow> pc_set n ps d c)"

definition do_disconnect :: "string \<Rightarrow> int \<Rightarrow> presence_cluster \<Rightarrow> presence_cluster" where
  "do_disconnect n u c = (case PresenceService_on_disconnect 0 0 u (pc_peer c n) of (became, d, ps) \<Rightarrow> pc_set n ps d c)"

definition do_publish :: "nat \<Rightarrow> string \<Rightarrow> presence_cluster \<Rightarrow> presence_cluster" where
  "do_publish i n c =
     (let ds = pc_unsent c n
      in c\<lparr>pc_unsent := (pc_unsent c)(n := take i ds @ drop (Suc i) ds),
           pc_wire := (pc_wire c)(n := \<lambda>k. pc_wire c n k @ [encoded plain_dump n (None, ds ! i)])\<rparr>)"

definition do_receive :: "string \<Rightarrow> string \<Rightarrow> presence_delta \<Rightarrow> presence_cluster \<Rightarrow> presence_cluster" where
  "do_receive m n d c =
     c\<lparr>pc_peer := (pc_peer c)(n := if m = n then pc_peer c n else PresenceService_apply_remote 0 m d (pc_peer c n)),
       pc_wire := (pc_wire c)(m := (pc_wire c m)(n := tl (pc_wire c m n)))\<rparr>"

lemma do_steps:
  "n |\<in>| pc_members c \<Longrightarrow> u \<le> int64_max \<Longrightarrow> presence_step dump parse ord c (do_connect n u c)"
  "n |\<in>| pc_members c \<Longrightarrow> u \<le> int64_max \<Longrightarrow> presence_step dump parse ord c (do_disconnect n u c)"
  "n |\<in>| pc_members c \<Longrightarrow> i < length (pc_unsent c n) \<Longrightarrow> ord \<longrightarrow> i = 0 \<Longrightarrow>
    presence_step plain_dump parse ord c (do_publish i n c)"
  "n |\<in>| pc_members c \<Longrightarrow> pc_wire c m n = encoded plain_dump m (None, d) # rest \<Longrightarrow> delta_fits d \<Longrightarrow>
    presence_step dump plain_parse ord c (do_receive m n d c)"
proof -
  have t: "(0::int) \<le> int64_max" by (simp add: int64_max_def)
  show "presence_step dump parse ord c (do_connect n u c)" if "n |\<in>| pc_members c" "u \<le> int64_max"
    using presence_step.connects [OF that t] by (auto simp: do_connect_def split: prod.splits)
  show "presence_step dump parse ord c (do_disconnect n u c)" if "n |\<in>| pc_members c" "u \<le> int64_max"
    using presence_step.disconnects [OF that t] by (auto simp: do_disconnect_def split: prod.splits)
  show "presence_step plain_dump parse ord c (do_publish i n c)"
    if "n |\<in>| pc_members c" "i < length (pc_unsent c n)" "ord \<longrightarrow> i = 0"
  proof -
    have split: "pc_unsent c n = take i (pc_unsent c n) @ pc_unsent c n ! i # drop (Suc i) (pc_unsent c n)"
      using that(2) by (rule id_take_nth_drop)
    have "ClusterPresencePublisher_publish plain_dump None True (pc_unsent c n ! i) (presence_bus 0 n) =
        (Some (kPresence, encoded plain_dump n (None, pc_unsent c n ! i)), (presence_bus 0 n)\<lparr>cb_published := 1\<rparr>)"
      by (simp add: ClusterPresencePublisher_publish_def RedisClusterBus_publish_def encoded_def presence_bus_def
          subscribe_to_presence_def RedisClusterBus_subscribe_def RedisClusterBus_create_def Let_def)
    from presence_step.publishes [OF that(1) split _ this] that(3) show ?thesis
      by (simp add: do_publish_def Let_def)
  qed
  show "presence_step dump plain_parse ord c (do_receive m n d c)"
    if "n |\<in>| pc_members c" "pc_wire c m n = encoded plain_dump m (None, d) # rest" "delta_fits d"
  proof (cases "RedisClusterBus_deliver plain_parse (kPresence, encoded plain_dump m (None, d)) (presence_bus 0 n, pc_peer c n)")
    case (Pair b ps)
    from presence_step.receives [OF that(1,2) this] deliver_presence [OF _ that(3) this] that(2) show ?thesis
      by (simp add: do_receive_def)
  qed
qed

definition came :: "int \<Rightarrow> presence_delta" where "came u = \<lparr>pd_user_id = u, pd_online = True, pd_at_ms = 0\<rparr>"
definition went :: "int \<Rightarrow> presence_delta" where "went u = \<lparr>pd_user_id = u, pd_online = False, pd_at_ms = 0\<rparr>"

lemmas run_defs = do_connect_def do_disconnect_def do_publish_def do_receive_def cluster_start_def pc_set_def came_def went_def
  nobody_online_def PresenceService_on_connect_def PresenceService_on_disconnect_def PresenceService_apply_remote_def
  online_anywhere_def online_remotely_def PresenceService_is_online_locally_def index_insert_def index_get_def index_erase_def

text \<open>C9. Presence converges. Instances connect and disconnect users, announce it over the bus, and take
  in each other's announcements, in any interleaving in which each instance's announcements leave in
  the order it decided them. Whenever nothing is under way, every instance's \<^verbatim>\<open>is_online\<close> says whether some
  instance has a live session of the user, \<^verbatim>\<open>online_count\<close> counts those users once each, and
  \<^verbatim>\<open>on_connect\<close> and \<^verbatim>\<open>on_disconnect\<close> report the cluster-wide transitions: the first session
  anywhere, the last session anywhere.\<close>

theorem presence_converges:
  assumes "\<forall>j. parse (dump j) = Some j"
    and "presence_run dump parse True (cluster_start ms) c" and "quiescent c" and "n |\<in>| ms"
  shows "(PresenceService_is_online u (pc_peer c n) \<longleftrightarrow>
        (\<exists>m. m |\<in>| ms \<and> PresenceService_is_online_locally u (pc_peer c m))) \<and>
      PresenceService_online_count (pc_peer c n) =
        card {v. \<exists>m. m |\<in>| ms \<and> PresenceService_is_online_locally v (pc_peer c m)} \<and>
      (fst (PresenceService_on_connect t u (pc_peer c n)) \<longleftrightarrow>
        \<not> (\<exists>m. m |\<in>| ms \<and> PresenceService_is_online_locally u (pc_peer c m))) \<and>
      (fst (PresenceService_on_disconnect ts t u (pc_peer c n)) \<longleftrightarrow>
        fmlookup (ps_sessions (pc_peer c n)) u = Some 1 \<and>
        \<not> (\<exists>m. m |\<in>| ms \<and> m \<noteq> n \<and> PresenceService_is_online_locally u (pc_peer c m)))"
proof -
  have inv: "presence_inv dump c" "pc_members c = ms" using run_inv [OF assms(1,2)] by auto
  note view = quiescent_view [OF inv(1) assms(3), unfolded inv(2), OF assms(4)]
  have ok: "presence_ok (pc_peer c n)" using inv(1) by (simp add: presence_inv_def node_ok_def)
  have drop: "online_remotely u (pc_peer c n\<lparr>ps_sessions := s\<rparr>) = online_remotely u (pc_peer c n)" for s
    by (simp add: online_remotely_def)
  have "fst (PresenceService_on_disconnect ts t u (pc_peer c n)) \<longleftrightarrow>
      fmlookup (ps_sessions (pc_peer c n)) u = Some 1 \<and> \<not> online_remotely u (pc_peer c n)"
  proof (cases "fmlookup (ps_sessions (pc_peer c n)) u")
    case (Some count)
    then have "0 < count" using ok by (simp add: presence_ok_def)
    with Some show ?thesis by (auto simp: PresenceService_on_disconnect_def Let_def drop)
  qed (simp add: PresenceService_on_disconnect_def)
  moreover have "fst (PresenceService_on_connect t u (pc_peer c n)) \<longleftrightarrow> \<not> PresenceService_is_online u (pc_peer c n)"
    by (simp add: PresenceService_on_connect_def PresenceService_is_online_def Let_def)
  ultimately show ?thesis using online_count_eq [OF ok] by (simp add: view)
qed

lemma four_steps: "R a b \<Longrightarrow> R b c \<Longrightarrow> R c d \<Longrightarrow> R d e \<Longrightarrow> R\<^sup>*\<^sup>* a e"
  by (blast intro: converse_rtranclp_into_rtranclp)

definition announced_once :: presence_cluster where
  "announced_once = do_publish 0 ''a'' (do_connect ''a'' 7 (cluster_start {|''a'', ''b''|}))"

definition example_cluster :: presence_cluster where
  "example_cluster = do_receive ''a'' ''a'' (came 7) (do_receive ''a'' ''b'' (came 7) announced_once)"

lemma example_run: "presence_run plain_dump plain_parse True (cluster_start {|''a'', ''b''|}) example_cluster"
proof -
  let ?step = "presence_step plain_dump plain_parse True"
  have "?step (cluster_start {|''a'', ''b''|}) (do_connect ''a'' 7 (cluster_start {|''a'', ''b''|}))"
    by (rule do_steps) (simp_all add: cluster_start_def int64_max_def)
  moreover have "?step (do_connect ''a'' 7 (cluster_start {|''a'', ''b''|})) announced_once"
    unfolding announced_once_def by (rule do_steps) (simp_all add: run_defs)
  moreover have "?step announced_once (do_receive ''a'' ''b'' (came 7) announced_once)"
    by (rule do_steps) (simp_all add: announced_once_def run_defs delta_fits_def int64_max_def)
  moreover have "?step (do_receive ''a'' ''b'' (came 7) announced_once) example_cluster"
    unfolding example_cluster_def
    by (rule do_steps) (simp_all add: announced_once_def run_defs delta_fits_def int64_max_def)
  ultimately show ?thesis by (rule four_steps)
qed

theorem presence_converges_witness:
  "quiescent example_cluster \<and> PresenceService_is_online 7 (pc_peer example_cluster ''b'') \<and>
   \<not> PresenceService_is_online_locally 7 (pc_peer example_cluster ''b'') \<and>
   PresenceService_is_online_locally 7 (pc_peer example_cluster ''a'')"
proof -
  have "quiescent example_cluster"
    by (simp add: quiescent_def example_cluster_def announced_once_def run_defs)
  moreover have "PresenceService_is_online_locally 7 (pc_peer example_cluster ''a'')"
    "\<not> PresenceService_is_online_locally 7 (pc_peer example_cluster ''b'')"
    by (simp_all add: example_cluster_def announced_once_def run_defs)
  moreover from presence_converges [OF _ example_run \<open>quiescent example_cluster\<close>, of "''b''" 7] calculation(2)
  have "PresenceService_is_online 7 (pc_peer example_cluster ''b'')" by auto
  ultimately show ?thesis by blast
qed

text \<open>The announcement is published after the lock is released. When the user's disconnect overtakes their
  connect on the way to Redis, the peers end up showing them online for good.\<close>

definition raced_cluster :: presence_cluster where
  "raced_cluster = do_receive ''a'' ''a'' (came 7) (do_receive ''a'' ''a'' (went 7)
     (do_receive ''a'' ''b'' (came 7) (do_receive ''a'' ''b'' (went 7)
       (do_publish 0 ''a'' (do_publish 1 ''a'' (do_disconnect ''a'' 7 (do_connect ''a'' 7 (cluster_start {|''a'', ''b''|}))))))))"

lemma presence_publish_race:
  "presence_run plain_dump plain_parse False (cluster_start {|''a'', ''b''|}) raced_cluster"
  "quiescent raced_cluster" "PresenceService_is_online 7 (pc_peer raced_cluster ''b'')"
  "n |\<in>| {|''a'', ''b''|} \<Longrightarrow> \<not> PresenceService_is_online_locally 7 (pc_peer raced_cluster n)"
proof -
  let ?step = "presence_step plain_dump plain_parse False" and ?c1 = "do_connect ''a'' 7 (cluster_start {|''a'', ''b''|})"
  let ?c2 = "do_disconnect ''a'' 7 ?c1" let ?c3 = "do_publish 1 ''a'' ?c2" let ?c4 = "do_publish 0 ''a'' ?c3"
  let ?c5 = "do_receive ''a'' ''b'' (went 7) ?c4" let ?c6 = "do_receive ''a'' ''b'' (came 7) ?c5"
  let ?c7 = "do_receive ''a'' ''a'' (went 7) ?c6"
  have s1: "?step (cluster_start {|''a'', ''b''|}) ?c1"
    by (rule do_steps) (simp_all add: cluster_start_def int64_max_def)
  have s2: "?step ?c1 ?c2"
    by (rule do_steps) (simp_all add: run_defs int64_max_def)
  have s3: "?step ?c2 ?c3"
    by (rule do_steps) (simp_all add: run_defs)
  have s4: "?step ?c3 ?c4"
    by (rule do_steps) (simp_all add: run_defs)
  have s5: "?step ?c4 ?c5"
    by (rule do_steps) (simp_all add: run_defs delta_fits_def int64_max_def)
  have s6: "?step ?c5 ?c6"
    by (rule do_steps) (simp_all add: run_defs delta_fits_def int64_max_def)
  have s7: "?step ?c6 ?c7"
    by (rule do_steps) (simp_all add: run_defs delta_fits_def int64_max_def)
  have s8: "?step ?c7 raced_cluster"
    unfolding raced_cluster_def by (rule do_steps) (simp_all add: run_defs delta_fits_def int64_max_def)
  show "presence_run plain_dump plain_parse False (cluster_start {|''a'', ''b''|}) raced_cluster"
    by (rule rtranclp_trans [OF four_steps [where R = ?step, OF s1 s2 s3 s4] four_steps [where R = ?step, OF s5 s6 s7 s8]])
  show "quiescent raced_cluster" by (simp add: quiescent_def raced_cluster_def run_defs)
  show "PresenceService_is_online 7 (pc_peer raced_cluster ''b'')"
    by (simp add: PresenceService_is_online_def raced_cluster_def run_defs)
  show "\<not> PresenceService_is_online_locally 7 (pc_peer raced_cluster n)" if "n |\<in>| {|''a'', ''b''|}"
    using that by (auto simp: raced_cluster_def run_defs)
qed

end
