(* ===== verification/Settings.thy ===== *)
theory Settings
  imports Dto
begin

text \<open>
  What the process reads from its environment at startup: \<^verbatim>\<open>utils::get_env\<close>, \<^verbatim>\<open>Config\<close> and
  \<^verbatim>\<open>FeatureFlags\<close>. The environment is a function from names to values; \<^verbatim>\<open>std::strtod\<close> is an
  argument, since its results are floating-point numbers.
\<close>

type_synonym environ = "string \<Rightarrow> string option"

text \<open>A non-empty value, or the fallback.\<close>

definition get_env_or :: "environ \<Rightarrow> string \<Rightarrow> string \<Rightarrow> string" where
  "get_env_or env name fallback =
     (case env name of None \<Rightarrow> fallback | Some v \<Rightarrow> if v = [] then fallback else v)"


section \<open>Reading variables\<close>

definition quoted_env :: "string \<Rightarrow> string \<Rightarrow> string" where
  "quoted_env name raw = name @ ''='' @ [char_of (39::nat)] @ raw @ [char_of (39::nat)]"

definition bad_integer :: "string \<Rightarrow> string \<Rightarrow> app_exception" where
  "bad_integer name raw = ConfigException ''Invalid integer for environment variable'' (quoted_env name raw)"

definition out_of_range :: "string \<Rightarrow> string \<Rightarrow> app_exception" where
  "out_of_range name raw = ConfigException ''Value out of range for environment variable'' (quoted_env name raw)"

text \<open>\<^verbatim>\<open>std::from_chars\<close> into \<^verbatim>\<open>std::uint64_t\<close>: no sign is accepted.\<close>

definition from_chars_uint64 :: "string \<Rightarrow> (int \<times> string) option" where
  "from_chars_uint64 s =
     (let ds = takeWhile isdigit s; v = int (digits_val 0 ds)
      in if ds = [] \<or> 2 ^ 64 - 1 < v then None else Some (v, dropWhile isdigit s))"

definition parse_uint_env :: "environ \<Rightarrow> string \<Rightarrow> int \<Rightarrow> int \<Rightarrow> int \<Rightarrow> int result" where
  "parse_uint_env env name fallback min_value max_value =
     (case env name of
        None \<Rightarrow> Inr fallback
      | Some raw \<Rightarrow>
          if raw = [] then Inr fallback
          else (case from_chars_uint64 raw of
                  None \<Rightarrow> Inl (bad_integer name raw)
                | Some (parsed, rest) \<Rightarrow>
                    if rest \<noteq> [] then Inl (bad_integer name raw)
                    else if parsed < min_value \<or> parsed > max_value then Inl (out_of_range name raw)
                    else Inr parsed))"

definition truthy :: "string \<Rightarrow> bool" where
  "truthy raw \<longleftrightarrow> to_lower raw \<in> {''1'', ''true'', ''yes'', ''on''}"

definition parse_bool_env :: "environ \<Rightarrow> string \<Rightarrow> bool \<Rightarrow> bool" where
  "parse_bool_env env name fallback =
     (case env name of None \<Rightarrow> fallback | Some raw \<Rightarrow> if raw = [] then fallback else truthy raw)"

definition parse_int64_env :: "environ \<Rightarrow> string \<Rightarrow> int \<Rightarrow> int \<Rightarrow> int result" where
  "parse_int64_env env name fallback min_value =
     (case env name of
        None \<Rightarrow> Inr fallback
      | Some raw \<Rightarrow>
          if raw = [] then Inr fallback
          else (case from_chars_int64 raw of
                  None \<Rightarrow> Inl (bad_integer name raw)
                | Some (parsed, rest) \<Rightarrow>
                    if rest \<noteq> [] then Inl (bad_integer name raw)
                    else if parsed < min_value then Inl (out_of_range name raw)
                    else Inr parsed))"

text \<open>A double, as far as the comparisons need: every comparison with a NaN is false.\<close>

datatype double = Number rat | NotANumber

fun less_double :: "double \<Rightarrow> double \<Rightarrow> bool" where
  "less_double (Number a) (Number b) = (a < b)"
| "less_double _ _ = False"

definition parse_double_env ::
    "(string \<Rightarrow> double \<times> string) \<Rightarrow> environ \<Rightarrow> string \<Rightarrow> double \<Rightarrow> double \<Rightarrow> double \<Rightarrow> double result" where
  "parse_double_env strtod env name fallback min_value max_value =
     (case env name of
        None \<Rightarrow> Inr fallback
      | Some raw \<Rightarrow>
          if raw = [] then Inr fallback
          else (case strtod raw of (parsed, rest) \<Rightarrow>
                  if rest \<noteq> []
                  then Inl (ConfigException ''Invalid number for environment variable'' (quoted_env name raw))
                  else if less_double parsed min_value \<or> less_double max_value parsed
                  then Inl (out_of_range name raw)
                  else Inr parsed))"


section \<open>The configuration\<close>

record config =
  chat_port :: int
  db_host :: string
  db_port :: int
  db_name :: string
  db_user :: string
  db_password :: string
  db_pool_size :: int
  jwt_secret :: string
  jwt_access_ttl_seconds :: int
  jwt_refresh_ttl_seconds :: int
  jwt_issuer :: string
  ws_heartbeat_interval_seconds :: int
  ws_heartbeat_timeout_seconds :: int
  redis_enabled :: bool
  redis_url :: string
  cache_user_ttl_seconds :: int
  cache_conversation_ttl_seconds :: int
  upload_dir :: string
  upload_public_base_url :: string
  max_upload_bytes :: int
  max_request_bytes :: int
  rate_limit_enabled :: bool
  rate_limit_window_seconds :: int
  rate_limit_login_max :: int
  rate_limit_register_max :: int
  rate_limit_message_max :: int
  rate_limit_upload_max :: int
  rate_limit_default_max :: int
  cors_allowed_origins :: string
  worker_threads :: int
  maintenance_interval_seconds :: int
  tracing_enabled :: bool
  tracing_exporter :: string
  tracing_endpoint :: string
  tracing_sample_ratio :: double
  cluster_enabled :: bool
  authz_cache_ttl_seconds :: int
  log_level :: string
  log_format :: string
  app_env :: string

definition insecure_secret :: string where
  "insecure_secret = ''dev-insecure-secret-change-me-in-production''"

definition is_production :: "config \<Rightarrow> bool" where
  "is_production cfg \<longleftrightarrow> app_env cfg = ''production''"

definition Config_validate :: "config \<Rightarrow> unit result" where
  "Config_validate cfg =
     (if jwt_secret cfg = [] then Inl (ConfigException ''JWT_SECRET must not be empty'' [])
      else if is_production cfg \<and> jwt_secret cfg = insecure_secret
      then Inl (ConfigException ''JWT_SECRET must be overridden in production'' [])
      else if is_production cfg \<and> length (jwt_secret cfg) < 32
      then Inl (ConfigException ''JWT_SECRET must be at least 32 bytes in production'' [])
      else if jwt_refresh_ttl_seconds cfg < jwt_access_ttl_seconds cfg
      then Inl (ConfigException ''JWT refresh TTL must be >= access TTL'' [])
      else if db_name cfg = [] \<or> db_user cfg = [] \<or> db_host cfg = []
      then Inl (ConfigException ''Database host, name and user must not be empty'' [])
      else if ws_heartbeat_timeout_seconds cfg < ws_heartbeat_interval_seconds cfg
      then Inl (ConfigException ''WS heartbeat timeout must be >= heartbeat interval'' [])
      else if tracing_exporter cfg \<notin> {''logging'', ''otlp'', ''zipkin''}
      then Inl (ConfigException ''TRACING_EXPORTER must be one of: logging, otlp, zipkin''
                  (quoted_env ''TRACING_EXPORTER'' (tracing_exporter cfg)))
      else if cluster_enabled cfg \<and> \<not> redis_enabled cfg
      then Inl (ConfigException
             (''CLUSTER_ENABLED requires REDIS_ENABLED: Redis Pub/Sub is the transport for '' @
              ''cross-instance WebSocket delivery'') [])
      else Inr ())"

definition Config_load_from_env :: "(string \<Rightarrow> double \<times> string) \<Rightarrow> environ \<Rightarrow> config result" where
  "Config_load_from_env strtod env =
     then_result (parse_uint_env env ''CHAT_PORT'' 8080 1 65535) (\<lambda>chat_port.
     then_result (parse_uint_env env ''DB_PORT'' 5432 1 65535) (\<lambda>db_port.
     then_result (parse_uint_env env ''DB_POOL_SIZE'' 8 1 512) (\<lambda>db_pool_size.
     then_result (parse_int64_env env ''JWT_ACCESS_TTL_SECONDS'' 900 1) (\<lambda>access_ttl.
     then_result (parse_int64_env env ''JWT_REFRESH_TTL_SECONDS'' 1209600 1) (\<lambda>refresh_ttl.
     then_result (parse_int64_env env ''WS_HEARTBEAT_INTERVAL_SECONDS'' 30 1) (\<lambda>ws_interval.
     then_result (parse_int64_env env ''WS_HEARTBEAT_TIMEOUT_SECONDS'' 90 1) (\<lambda>ws_timeout.
     let redis = parse_bool_env env ''REDIS_ENABLED'' False in
     then_result (parse_int64_env env ''CACHE_USER_TTL_SECONDS'' 300 1) (\<lambda>cache_user_ttl.
     then_result (parse_int64_env env ''CACHE_CONVERSATION_TTL_SECONDS'' 60 1) (\<lambda>cache_conversation_ttl.
     then_result (parse_int64_env env ''MAX_UPLOAD_BYTES'' (25 * 1024 * 1024) 1) (\<lambda>max_upload.
     then_result (parse_int64_env env ''MAX_REQUEST_BYTES'' (1 * 1024 * 1024) 1) (\<lambda>max_request.
     then_result (parse_int64_env env ''RATE_LIMIT_WINDOW_SECONDS'' 60 1) (\<lambda>rl_window.
     then_result (parse_int64_env env ''RATE_LIMIT_LOGIN_MAX'' 10 1) (\<lambda>rl_login.
     then_result (parse_int64_env env ''RATE_LIMIT_REGISTER_MAX'' 5 1) (\<lambda>rl_register.
     then_result (parse_int64_env env ''RATE_LIMIT_MESSAGE_MAX'' 120 1) (\<lambda>rl_message.
     then_result (parse_int64_env env ''RATE_LIMIT_UPLOAD_MAX'' 30 1) (\<lambda>rl_upload.
     then_result (parse_int64_env env ''RATE_LIMIT_DEFAULT_MAX'' 300 1) (\<lambda>rl_default.
     then_result (parse_int64_env env ''WORKER_THREADS'' 2 1) (\<lambda>workers.
     then_result (parse_int64_env env ''MAINTENANCE_INTERVAL_SECONDS'' 60 1) (\<lambda>maintenance.
     then_result (parse_double_env strtod env ''TRACING_SAMPLE_RATIO'' (Number (1 / 20)) (Number 0) (Number 1)) (\<lambda>ratio.
     then_result (parse_int64_env env ''AUTHZ_CACHE_TTL_SECONDS'' 30 1) (\<lambda>authz_ttl.
     let cfg = \<lparr>chat_port = chat_port,
       db_host = get_env_or env ''DB_HOST'' ''localhost'',
       db_port = db_port,
       db_name = get_env_or env ''DB_NAME'' ''realtime_chat'',
       db_user = get_env_or env ''DB_USER'' ''chat'',
       db_password = get_env_or env ''DB_PASSWORD'' ''chat_password'',
       db_pool_size = db_pool_size,
       jwt_secret = get_env_or env ''JWT_SECRET'' insecure_secret,
       jwt_access_ttl_seconds = access_ttl,
       jwt_refresh_ttl_seconds = refresh_ttl,
       jwt_issuer = get_env_or env ''JWT_ISSUER'' ''realtime-chat'',
       ws_heartbeat_interval_seconds = ws_interval,
       ws_heartbeat_timeout_seconds = ws_timeout,
       redis_enabled = redis,
       redis_url = get_env_or env ''REDIS_URL'' ''tcp://127.0.0.1:6379'',
       cache_user_ttl_seconds = cache_user_ttl,
       cache_conversation_ttl_seconds = cache_conversation_ttl,
       upload_dir = get_env_or env ''UPLOAD_DIR'' ''uploads'',
       upload_public_base_url = get_env_or env ''UPLOAD_PUBLIC_BASE_URL'' ''/api/attachments'',
       max_upload_bytes = max_upload,
       max_request_bytes = max_request,
       rate_limit_enabled = parse_bool_env env ''RATE_LIMIT_ENABLED'' True,
       rate_limit_window_seconds = rl_window,
       rate_limit_login_max = rl_login,
       rate_limit_register_max = rl_register,
       rate_limit_message_max = rl_message,
       rate_limit_upload_max = rl_upload,
       rate_limit_default_max = rl_default,
       cors_allowed_origins = get_env_or env ''CORS_ALLOWED_ORIGINS'' ''*'',
       worker_threads = workers,
       maintenance_interval_seconds = maintenance,
       tracing_enabled = parse_bool_env env ''TRACING_ENABLED'' False,
       tracing_exporter = get_env_or env ''TRACING_EXPORTER'' ''logging'',
       tracing_endpoint = get_env_or env ''TRACING_ENDPOINT'' ''http://127.0.0.1:4318/v1/traces'',
       tracing_sample_ratio = ratio,
       cluster_enabled = parse_bool_env env ''CLUSTER_ENABLED'' redis,
       authz_cache_ttl_seconds = authz_ttl,
       log_level = get_env_or env ''LOG_LEVEL'' ''info'',
       log_format = get_env_or env ''LOG_FORMAT'' ''text'',
       app_env = get_env_or env ''APP_ENV'' ''development''\<rparr>
     in then_result (Config_validate cfg) (\<lambda>_. Inr cfg))))))))))))))))))))))"

definition database_connection_string :: "config \<Rightarrow> string" where
  "database_connection_string cfg =
     ''host='' @ db_host cfg @ '' port='' @ to_string (db_port cfg) @ '' dbname='' @ db_name cfg @
     '' user='' @ db_user cfg @ '' password='' @ db_password cfg @
     '' connect_timeout=5 application_name=realtime-chat''"

definition database_connection_string_redacted :: "config \<Rightarrow> string" where
  "database_connection_string_redacted cfg =
     ''host='' @ db_host cfg @ '' port='' @ to_string (db_port cfg) @ '' dbname='' @ db_name cfg @
     '' user='' @ db_user cfg @ '' password=*** application_name=realtime-chat''"


section \<open>What a loaded configuration satisfies\<close>

lemma parse_uint_env_bounds:
  "parse_uint_env env name fallback lo hi = Inr v \<Longrightarrow> lo \<le> fallback \<Longrightarrow> fallback \<le> hi \<Longrightarrow> lo \<le> v \<and> v \<le> hi"
  by (auto simp: parse_uint_env_def split: option.splits if_splits)

lemma parse_int64_env_bounds:
  "parse_int64_env env name fallback lo = Inr v \<Longrightarrow> lo \<le> fallback \<Longrightarrow> fallback \<le> int64_max \<Longrightarrow>
    lo \<le> v \<and> v \<le> int64_max"
  by (auto simp: parse_int64_env_def split: option.splits if_splits dest!: from_chars_range)

lemma env_errors:
  "parse_uint_env env name f lo hi = Inl e \<Longrightarrow> ex_type e = kConfiguration"
  "parse_int64_env env name f lo = Inl e \<Longrightarrow> ex_type e = kConfiguration"
  "parse_double_env strtod env name d a b = Inl e \<Longrightarrow> ex_type e = kConfiguration"
  "Config_validate cfg = Inl e \<Longrightarrow> ex_type e = kConfiguration"
  by (auto simp: parse_uint_env_def parse_int64_env_def parse_double_env_def Config_validate_def bad_integer_def
      out_of_range_def ConfigException_def AppException_def split: option.splits if_splits prod.splits)

text \<open>A result that is a configuration error or satisfies a condition.\<close>

definition configured :: "('a \<Rightarrow> bool) \<Rightarrow> 'a result \<Rightarrow> bool" where
  "configured P r \<longleftrightarrow> (case r of Inl e \<Rightarrow> ex_type e = kConfiguration | Inr x \<Rightarrow> P x)"

lemma configured_then:
  "configured P m \<Longrightarrow> (\<And>x. P x \<Longrightarrow> configured Q (f x)) \<Longrightarrow> configured Q (then_result m f)"
  by (cases m) (simp_all add: configured_def)

lemma configured_uint: "lo \<le> f \<Longrightarrow> f \<le> hi \<Longrightarrow> configured (\<lambda>v. lo \<le> v \<and> v \<le> hi) (parse_uint_env env name f lo hi)"
  by (auto simp: configured_def env_errors parse_uint_env_bounds split: sum.split dest: parse_uint_env_bounds)

lemma configured_int64: "lo \<le> f \<Longrightarrow> f \<le> int64_max \<Longrightarrow> configured (\<lambda>v. lo \<le> v \<and> v \<le> int64_max) (parse_int64_env env name f lo)"
  by (auto simp: configured_def env_errors split: sum.split dest: parse_int64_env_bounds)

lemma configured_double:
  "a \<le> f \<Longrightarrow> f \<le> b \<Longrightarrow>
   configured (\<lambda>v. case v of Number r \<Rightarrow> a \<le> r \<and> r \<le> b | NotANumber \<Rightarrow> True)
     (parse_double_env strtod env name (Number f) (Number a) (Number b))"
  by (auto simp: configured_def parse_double_env_def not_less out_of_range_def exception_defs
      split: option.splits prod.splits double.splits)

lemma configured_validate:
  "configured (\<lambda>_. jwt_secret cfg \<noteq> [] \<and>
     (is_production cfg \<longrightarrow> jwt_secret cfg \<noteq> insecure_secret \<and> 32 \<le> length (jwt_secret cfg)) \<and>
     jwt_access_ttl_seconds cfg \<le> jwt_refresh_ttl_seconds cfg \<and>
     db_host cfg \<noteq> [] \<and> db_name cfg \<noteq> [] \<and> db_user cfg \<noteq> [] \<and>
     ws_heartbeat_interval_seconds cfg \<le> ws_heartbeat_timeout_seconds cfg \<and>
     tracing_exporter cfg \<in> {''logging'', ''otlp'', ''zipkin''} \<and> (cluster_enabled cfg \<longrightarrow> redis_enabled cfg))
   (Config_validate cfg)"
  by (auto simp: configured_def Config_validate_def exception_defs)

definition numbers_ok :: "config \<Rightarrow> bool" where
  "numbers_ok cfg \<longleftrightarrow>
     1 \<le> chat_port cfg \<and> chat_port cfg \<le> 65535 \<and> 1 \<le> db_port cfg \<and> db_port cfg \<le> 65535 \<and>
     1 \<le> db_pool_size cfg \<and> db_pool_size cfg \<le> 512 \<and>
     (\<forall>n \<in> {jwt_access_ttl_seconds cfg, jwt_refresh_ttl_seconds cfg, ws_heartbeat_interval_seconds cfg,
            ws_heartbeat_timeout_seconds cfg, cache_user_ttl_seconds cfg, cache_conversation_ttl_seconds cfg,
            max_upload_bytes cfg, max_request_bytes cfg, rate_limit_window_seconds cfg, rate_limit_login_max cfg,
            rate_limit_register_max cfg, rate_limit_message_max cfg, rate_limit_upload_max cfg,
            rate_limit_default_max cfg, worker_threads cfg, maintenance_interval_seconds cfg,
            authz_cache_ttl_seconds cfg}. 1 \<le> n \<and> n \<le> int64_max) \<and>
     (case tracing_sample_ratio cfg of Number r \<Rightarrow> 0 \<le> r \<and> r \<le> 1 | NotANumber \<Rightarrow> True)"

definition config_ok :: "config \<Rightarrow> bool" where
  "config_ok cfg \<longleftrightarrow> numbers_ok cfg \<and>
     jwt_secret cfg \<noteq> [] \<and>
     (is_production cfg \<longrightarrow> jwt_secret cfg \<noteq> insecure_secret \<and> 32 \<le> length (jwt_secret cfg)) \<and>
     jwt_access_ttl_seconds cfg \<le> jwt_refresh_ttl_seconds cfg \<and>
     db_host cfg \<noteq> [] \<and> db_name cfg \<noteq> [] \<and> db_user cfg \<noteq> [] \<and>
     ws_heartbeat_interval_seconds cfg \<le> ws_heartbeat_timeout_seconds cfg \<and>
     tracing_exporter cfg \<in> {''logging'', ''otlp'', ''zipkin''} \<and> (cluster_enabled cfg \<longrightarrow> redis_enabled cfg)"

lemma configured_final:
  "numbers_ok cfg \<Longrightarrow> configured config_ok (then_result (Config_validate cfg) (\<lambda>_. Inr cfg))"
  by (rule configured_then [OF configured_validate]) (simp add: configured_def config_ok_def)

lemma config_loads: "configured config_ok (Config_load_from_env strtod env)"
  unfolding Config_load_from_env_def Let_def
  by (intro configured_then [OF configured_uint] configured_then [OF configured_int64]
      configured_then [OF configured_double] configured_final)
     (simp_all add: int64_max_def numbers_ok_def)


text \<open>A ratio of NaN passes both range checks.\<close>

lemma nan_ratio_accepted:
  assumes "env ''TRACING_SAMPLE_RATIO'' = Some ''nan''" "strtod ''nan'' = (NotANumber, [])"
  shows "parse_double_env strtod env ''TRACING_SAMPLE_RATIO'' (Number (1 / 20)) (Number 0) (Number 1) = Inr NotANumber"
  using assms by (simp add: parse_double_env_def)


section \<open>Feature flags\<close>

datatype feature =
    kReactions | kUploads | kNotifications | kTyping | kSearch | kReadReceipts | kPresence_feature | kAuditLog

record feature_descriptor =
  fd_feature :: feature
  fd_name :: string
  fd_env_var :: string
  fd_default_enabled :: bool
  fd_description :: string

definition descriptor_of :: "feature \<Rightarrow> string \<Rightarrow> string \<Rightarrow> bool \<Rightarrow> string \<Rightarrow> feature_descriptor" where
  "descriptor_of f name env_var on description =
     \<lparr>fd_feature = f, fd_name = name, fd_env_var = env_var, fd_default_enabled = on, fd_description = description\<rparr>"

definition kFeatureRegistry :: "feature_descriptor list" where
  "kFeatureRegistry =
     [descriptor_of kReactions ''reactions'' ''ENABLE_REACTIONS'' True ''Message reactions (add/remove emoji)'',
      descriptor_of kUploads ''uploads'' ''ENABLE_UPLOADS'' True ''Attachment upload and download'',
      descriptor_of kNotifications ''notifications'' ''ENABLE_NOTIFICATIONS'' True
        ''Notification creation, listing and push delivery'',
      descriptor_of kTyping ''typing'' ''ENABLE_TYPING'' True ''Typing indicators over WebSocket'',
      descriptor_of kSearch ''search'' ''ENABLE_SEARCH'' True ''Full-text message and user search'',
      descriptor_of kReadReceipts ''read_receipts'' ''ENABLE_READ_RECEIPTS'' True ''Delivery and read receipts'',
      descriptor_of kPresence_feature ''presence'' ''ENABLE_PRESENCE'' True ''Online/offline presence tracking'',
      descriptor_of kAuditLog ''audit_log'' ''ENABLE_AUDIT_LOG'' True
        ''Persisting audit records for security-relevant actions'']"

text \<open>The enumerators in declaration order index the registry and the flag array.\<close>

fun feature_index :: "feature \<Rightarrow> nat" where
  "feature_index kReactions = 0"
| "feature_index kUploads = 1"
| "feature_index kNotifications = 2"
| "feature_index kTyping = 3"
| "feature_index kSearch = 4"
| "feature_index kReadReceipts = 5"
| "feature_index kPresence_feature = 6"
| "feature_index kAuditLog = 7"

definition descriptor :: "feature \<Rightarrow> feature_descriptor" where
  "descriptor f = kFeatureRegistry ! feature_index f"

definition name_of_feature :: "feature \<Rightarrow> string" where
  "name_of_feature f = fd_name (descriptor f)"

definition parse_feature :: "string \<Rightarrow> feature option" where
  "parse_feature name = map_option fd_feature (find (\<lambda>entry. fd_name entry = name) kFeatureRegistry)"

definition FeatureDisabledException :: "string \<Rightarrow> app_exception" where
  "FeatureDisabledException name = AppException kNotFound (''Feature is disabled: '' @ name) (''feature='' @ name)"

type_synonym feature_flags = "bool list"

definition FeatureFlags_set :: "feature \<Rightarrow> bool \<Rightarrow> feature_flags \<Rightarrow> bool \<times> feature_flags" where
  "FeatureFlags_set f enabled flags = (flags ! feature_index f, flags[feature_index f := enabled])"

definition FeatureFlags_is_enabled :: "feature \<Rightarrow> feature_flags \<Rightarrow> bool" where
  "FeatureFlags_is_enabled f flags = flags ! feature_index f"

definition FeatureFlags_create :: feature_flags where
  "FeatureFlags_create =
     fold (\<lambda>entry flags. flags[feature_index (fd_feature entry) := fd_default_enabled entry]) kFeatureRegistry
       (replicate (length kFeatureRegistry) False)"

definition parse_bool_flag :: "string \<Rightarrow> bool \<Rightarrow> bool" where
  "parse_bool_flag raw fallback = (if raw = [] then fallback else truthy raw)"

definition FeatureFlags_load_from_env :: "environ \<Rightarrow> feature_flags \<Rightarrow> feature_flags" where
  "FeatureFlags_load_from_env env =
     fold (\<lambda>entry flags. snd (FeatureFlags_set (fd_feature entry)
       (parse_bool_flag (get_env_or env (fd_env_var entry) []) (fd_default_enabled entry)) flags)) kFeatureRegistry"

definition FeatureFlags_require :: "feature \<Rightarrow> feature_flags \<Rightarrow> unit result" where
  "FeatureFlags_require f flags =
     (if \<not> FeatureFlags_is_enabled f flags then Inl (FeatureDisabledException (name_of_feature f)) else Inr ())"

definition FeatureFlags_to_json :: "feature_flags \<Rightarrow> json" where
  "FeatureFlags_to_json flags = JArr (map (\<lambda>entry.
     JObj [(''name'', JStr (fd_name entry)), (''enabled'', JBool (FeatureFlags_is_enabled (fd_feature entry) flags)),
           (''env'', JStr (fd_env_var entry)), (''default'', JBool (fd_default_enabled entry)),
           (''description'', JStr (fd_description entry))]) kFeatureRegistry)"

definition FeatureFlags_enabled_names :: "feature_flags \<Rightarrow> string list" where
  "FeatureFlags_enabled_names flags =
     map fd_name (filter (\<lambda>entry. FeatureFlags_is_enabled (fd_feature entry) flags) kFeatureRegistry)"

text \<open>The registry is ordered as the enumeration, and its names identify the features.\<close>

lemma registry_ordered: "fd_feature (descriptor f) = f"
  by (cases f) (simp_all add: descriptor_def kFeatureRegistry_def descriptor_of_def)

lemma parse_feature_name: "parse_feature name = Some f \<longleftrightarrow> name_of_feature f = name"
  by (cases f) (auto simp: parse_feature_def name_of_feature_def descriptor_def kFeatureRegistry_def descriptor_of_def
      split: if_splits)

lemma feature_index_bound: "feature_index f < length kFeatureRegistry"
  by (cases f) (simp_all add: kFeatureRegistry_def)

lemma feature_index_inj: "feature_index f = feature_index g \<longleftrightarrow> f = g"
  by (cases f; cases g) simp_all

lemma flags_set:
  "length flags = length kFeatureRegistry \<Longrightarrow>
    FeatureFlags_is_enabled g (snd (FeatureFlags_set f b flags)) = (if f = g then b else FeatureFlags_is_enabled g flags)"
  using feature_index_bound [of g] feature_index_bound [of f]
  by (simp add: FeatureFlags_is_enabled_def FeatureFlags_set_def nth_list_update feature_index_inj)

lemma flags_defaults: "FeatureFlags_is_enabled f FeatureFlags_create"
  by (cases f) (simp_all add: FeatureFlags_create_def FeatureFlags_is_enabled_def kFeatureRegistry_def descriptor_of_def)

lemma flags_from_env:
  "FeatureFlags_is_enabled f (FeatureFlags_load_from_env env FeatureFlags_create) \<longleftrightarrow>
     (case env (fd_env_var (descriptor f)) of None \<Rightarrow> True | Some raw \<Rightarrow> raw = [] \<or> truthy raw)"
  by (cases f) (simp_all add: FeatureFlags_load_from_env_def FeatureFlags_create_def FeatureFlags_is_enabled_def
      FeatureFlags_set_def kFeatureRegistry_def descriptor_of_def descriptor_def parse_bool_flag_def get_env_or_def
      split: option.split)

end
