(* ===== verification/Cache.thy ===== *)
theory Cache
  imports Errors "HOL-Library.AList"
begin

text \<open>
  The cache: the \<^verbatim>\<open>ICacheStore\<close> interface as a record of operations, its promise as a locale over an
  abstract cache in which expired entries do not exist, and \<^verbatim>\<open>InMemoryCacheStore\<close>, which expires
  lazily and satisfies the promise. The steady clock counts nanoseconds and is part of the state.
\<close>


section \<open>The interface\<close>

record 's cache_ops =
  co_set :: "string \<Rightarrow> string \<Rightarrow> int \<Rightarrow> 's \<Rightarrow> 's"
  co_get :: "string \<Rightarrow> 's \<Rightarrow> string option \<times> 's"
  co_del :: "string \<Rightarrow> 's \<Rightarrow> bool \<times> 's"
  co_exists :: "string \<Rightarrow> 's \<Rightarrow> bool \<times> 's"
  co_expire :: "string \<Rightarrow> int \<Rightarrow> 's \<Rightarrow> 's"
  co_incr :: "string \<Rightarrow> int \<Rightarrow> 's \<Rightarrow> int \<times> 's"
  co_sadd :: "string \<Rightarrow> string \<Rightarrow> 's \<Rightarrow> 's"
  co_srem :: "string \<Rightarrow> string \<Rightarrow> 's \<Rightarrow> 's"
  co_sismember :: "string \<Rightarrow> string \<Rightarrow> 's \<Rightarrow> bool"
  co_smembers :: "string \<Rightarrow> 's \<Rightarrow> string list"
  co_scard :: "string \<Rightarrow> 's \<Rightarrow> nat"
  co_purge_expired :: "'s \<Rightarrow> nat \<times> 's"

definition nanoseconds :: "int \<Rightarrow> int" where
  "nanoseconds secs = secs * 1000000000"


section \<open>The in-memory store\<close>

record string_entry =
  se_value :: string
  se_expires_at :: "int option"

record set_entry =
  st_members :: "string list"
  st_expires_at :: "int option"

record memory_store =
  ms_strings :: "(string \<times> string_entry) list"
  ms_sets :: "(string \<times> set_entry) list"
  ms_clock :: int

definition entry_expired :: "int \<Rightarrow> int option \<Rightarrow> bool" where
  "entry_expired clock expiry = (case expiry of None \<Rightarrow> False | Some t \<Rightarrow> clock \<ge> t)"

definition deadline :: "int \<Rightarrow> int \<Rightarrow> int option" where
  "deadline clock ttl = (if ttl \<le> 0 then None else Some (clock + nanoseconds ttl))"

definition InMemoryCacheStore_set :: "string \<Rightarrow> string \<Rightarrow> int \<Rightarrow> memory_store \<Rightarrow> memory_store" where
  "InMemoryCacheStore_set key v ttl s =
     s\<lparr>ms_strings := AList.update key \<lparr>se_value = v, se_expires_at = deadline (ms_clock s) ttl\<rparr> (ms_strings s)\<rparr>"

definition InMemoryCacheStore_get :: "string \<Rightarrow> memory_store \<Rightarrow> string option \<times> memory_store" where
  "InMemoryCacheStore_get key s =
     (case map_of (ms_strings s) key of
        None \<Rightarrow> (None, s)
      | Some e \<Rightarrow>
          if entry_expired (ms_clock s) (se_expires_at e)
          then (None, s\<lparr>ms_strings := AList.delete key (ms_strings s)\<rparr>)
          else (Some (se_value e), s))"

definition InMemoryCacheStore_del :: "string \<Rightarrow> memory_store \<Rightarrow> bool \<times> memory_store" where
  "InMemoryCacheStore_del key s =
     (map_of (ms_strings s) key \<noteq> None \<or> map_of (ms_sets s) key \<noteq> None,
      s\<lparr>ms_strings := AList.delete key (ms_strings s), ms_sets := AList.delete key (ms_sets s)\<rparr>)"

definition InMemoryCacheStore_exists :: "string \<Rightarrow> memory_store \<Rightarrow> bool \<times> memory_store" where
  "InMemoryCacheStore_exists key s =
     (case map_of (ms_strings s) key of
        None \<Rightarrow> (False, s)
      | Some e \<Rightarrow>
          if entry_expired (ms_clock s) (se_expires_at e)
          then (False, s\<lparr>ms_strings := AList.delete key (ms_strings s)\<rparr>)
          else (True, s))"

definition InMemoryCacheStore_expire :: "string \<Rightarrow> int \<Rightarrow> memory_store \<Rightarrow> memory_store" where
  "InMemoryCacheStore_expire key ttl s =
     s\<lparr>ms_strings := (case map_of (ms_strings s) key of
         None \<Rightarrow> ms_strings s
       | Some e \<Rightarrow> AList.update key (e\<lparr>se_expires_at := deadline (ms_clock s) ttl\<rparr>) (ms_strings s)),
       ms_sets := (case map_of (ms_sets s) key of
         None \<Rightarrow> ms_sets s
       | Some e \<Rightarrow> AList.update key (e\<lparr>st_expires_at := deadline (ms_clock s) ttl\<rparr>) (ms_sets s))\<rparr>"

text \<open>\<^verbatim>\<open>from_chars\<close> leaves the zero it was given when the text is not a number.\<close>

definition to_int :: "string \<Rightarrow> int" where
  "to_int v = (case from_chars_int64 v of None \<Rightarrow> 0 | Some (n, _) \<Rightarrow> n)"

definition InMemoryCacheStore_incr :: "string \<Rightarrow> int \<Rightarrow> memory_store \<Rightarrow> int \<times> memory_store" where
  "InMemoryCacheStore_incr key ttl_on_create s =
     (let fresh = (1, s\<lparr>ms_strings := AList.update key
                     \<lparr>se_value = ''1'', se_expires_at = deadline (ms_clock s) ttl_on_create\<rparr> (ms_strings s)\<rparr>)
      in case map_of (ms_strings s) key of
           None \<Rightarrow> fresh
         | Some e \<Rightarrow>
             if entry_expired (ms_clock s) (se_expires_at e) then fresh
             else let current = to_int (se_value e) + 1
                  in (current, s\<lparr>ms_strings := AList.update key (e\<lparr>se_value := to_string current\<rparr>) (ms_strings s)\<rparr>))"

definition InMemoryCacheStore_sadd :: "string \<Rightarrow> string \<Rightarrow> memory_store \<Rightarrow> memory_store" where
  "InMemoryCacheStore_sadd key member s =
     (let e = (case map_of (ms_sets s) key of None \<Rightarrow> \<lparr>st_members = [], st_expires_at = None\<rparr> | Some e \<Rightarrow> e)
      in s\<lparr>ms_sets := AList.update key (e\<lparr>st_members := List.insert member (st_members e)\<rparr>) (ms_sets s)\<rparr>)"

definition InMemoryCacheStore_srem :: "string \<Rightarrow> string \<Rightarrow> memory_store \<Rightarrow> memory_store" where
  "InMemoryCacheStore_srem key member s =
     (case map_of (ms_sets s) key of
        None \<Rightarrow> s
      | Some e \<Rightarrow> s\<lparr>ms_sets := AList.update key (e\<lparr>st_members := removeAll member (st_members e)\<rparr>) (ms_sets s)\<rparr>)"

definition InMemoryCacheStore_smembers :: "string \<Rightarrow> memory_store \<Rightarrow> string list" where
  "InMemoryCacheStore_smembers key s =
     (case map_of (ms_sets s) key of
        None \<Rightarrow> []
      | Some e \<Rightarrow> if entry_expired (ms_clock s) (st_expires_at e) then [] else st_members e)"

definition InMemoryCacheStore_sismember :: "string \<Rightarrow> string \<Rightarrow> memory_store \<Rightarrow> bool" where
  "InMemoryCacheStore_sismember key member s =
     (case map_of (ms_sets s) key of
        None \<Rightarrow> False
      | Some e \<Rightarrow> \<not> entry_expired (ms_clock s) (st_expires_at e) \<and> member \<in> set (st_members e))"

definition InMemoryCacheStore_scard :: "string \<Rightarrow> memory_store \<Rightarrow> nat" where
  "InMemoryCacheStore_scard key s =
     (case map_of (ms_sets s) key of
        None \<Rightarrow> 0
      | Some e \<Rightarrow> if entry_expired (ms_clock s) (st_expires_at e) then 0 else length (st_members e))"

definition InMemoryCacheStore_purge_expired :: "memory_store \<Rightarrow> nat \<times> memory_store" where
  "InMemoryCacheStore_purge_expired s =
     (let old_string = (\<lambda>(k, e). entry_expired (ms_clock s) (se_expires_at e));
          old_set = (\<lambda>(k, e). entry_expired (ms_clock s) (st_expires_at e))
      in (length (filter old_string (ms_strings s)) + length (filter old_set (ms_sets s)),
          s\<lparr>ms_strings := filter (\<lambda>p. \<not> old_string p) (ms_strings s),
            ms_sets := filter (\<lambda>p. \<not> old_set p) (ms_sets s)\<rparr>))"

definition InMemoryCacheStore :: "memory_store cache_ops" where
  "InMemoryCacheStore =
     \<lparr>co_set = InMemoryCacheStore_set, co_get = InMemoryCacheStore_get, co_del = InMemoryCacheStore_del,
      co_exists = InMemoryCacheStore_exists, co_expire = InMemoryCacheStore_expire,
      co_incr = InMemoryCacheStore_incr, co_sadd = InMemoryCacheStore_sadd, co_srem = InMemoryCacheStore_srem,
      co_sismember = InMemoryCacheStore_sismember, co_smembers = InMemoryCacheStore_smembers,
      co_scard = InMemoryCacheStore_scard, co_purge_expired = InMemoryCacheStore_purge_expired\<rparr>"

text \<open>Time passes between calls.\<close>

definition memory_wait :: "nat \<Rightarrow> memory_store \<Rightarrow> memory_store" where
  "memory_wait n s = s\<lparr>ms_clock := ms_clock s + int n\<rparr>"

definition empty_store :: memory_store where
  "empty_store = \<lparr>ms_strings = [], ms_sets = [], ms_clock = 0\<rparr>"


section \<open>The abstract cache\<close>

record ttl_cache =
  tc_strings :: "string \<Rightarrow> (string \<times> int option) option"
  tc_sets :: "string \<Rightarrow> string set"
  tc_clock :: int

definition spec_set :: "string \<Rightarrow> string \<Rightarrow> int \<Rightarrow> ttl_cache \<Rightarrow> ttl_cache" where
  "spec_set k v ttl c = c\<lparr>tc_strings := (tc_strings c)(k := Some (v, deadline (tc_clock c) ttl))\<rparr>"

definition spec_get :: "string \<Rightarrow> ttl_cache \<Rightarrow> string option" where
  "spec_get k c = map_option fst (tc_strings c k)"

definition spec_del :: "string \<Rightarrow> ttl_cache \<Rightarrow> ttl_cache" where
  "spec_del k c = c\<lparr>tc_strings := (tc_strings c)(k := None), tc_sets := (tc_sets c)(k := {})\<rparr>"

definition spec_incr :: "string \<Rightarrow> int \<Rightarrow> ttl_cache \<Rightarrow> int \<times> ttl_cache" where
  "spec_incr k ttl c =
     (case tc_strings c k of
        None \<Rightarrow> (1, spec_set k ''1'' ttl c)
      | Some (v, e) \<Rightarrow> (to_int v + 1, c\<lparr>tc_strings := (tc_strings c)(k := Some (to_string (to_int v + 1), e))\<rparr>))"

definition spec_update_set :: "string \<Rightarrow> (string set \<Rightarrow> string set) \<Rightarrow> ttl_cache \<Rightarrow> ttl_cache" where
  "spec_update_set k f c = c\<lparr>tc_sets := (tc_sets c)(k := f (tc_sets c k))\<rparr>"

definition spec_wait :: "nat \<Rightarrow> ttl_cache \<Rightarrow> ttl_cache" where
  "spec_wait n c =
     c\<lparr>tc_clock := tc_clock c + int n,
       tc_strings := (\<lambda>k. case tc_strings c k of
          None \<Rightarrow> None
        | Some (v, e) \<Rightarrow> if entry_expired (tc_clock c + int n) e then None else Some (v, e))\<rparr>"

text \<open>Histories of calls, with time passing in between, and what they are answered.\<close>

datatype cache_call =
    CSet string string int | CGet string | CDel string | CExists string | CIncr string int
  | CSadd string string | CSrem string string | CSismember string string | CSmembers string | CScard string
  | CPurge | CWait nat

datatype cache_answer = AUnit | AString "string option" | ABool bool | AInt int | ASet "string set" | ANat nat

fun call_store :: "'s cache_ops \<Rightarrow> (nat \<Rightarrow> 's \<Rightarrow> 's) \<Rightarrow> cache_call \<Rightarrow> 's \<Rightarrow> cache_answer \<times> 's" where
  "call_store ops wait (CSet k v ttl) s = (AUnit, co_set ops k v ttl s)"
| "call_store ops wait (CGet k) s = map_prod AString id (co_get ops k s)"
| "call_store ops wait (CDel k) s = (AUnit, snd (co_del ops k s))"
| "call_store ops wait (CExists k) s = map_prod ABool id (co_exists ops k s)"
| "call_store ops wait (CIncr k ttl) s = map_prod AInt id (co_incr ops k ttl s)"
| "call_store ops wait (CSadd k m) s = (AUnit, co_sadd ops k m s)"
| "call_store ops wait (CSrem k m) s = (AUnit, co_srem ops k m s)"
| "call_store ops wait (CSismember k m) s = (ABool (co_sismember ops k m s), s)"
| "call_store ops wait (CSmembers k) s = (ASet (set (co_smembers ops k s)), s)"
| "call_store ops wait (CScard k) s = (ANat (co_scard ops k s), s)"
| "call_store ops wait CPurge s = (AUnit, snd (co_purge_expired ops s))"
| "call_store ops wait (CWait n) s = (AUnit, wait n s)"

fun call_spec :: "cache_call \<Rightarrow> ttl_cache \<Rightarrow> cache_answer \<times> ttl_cache" where
  "call_spec (CSet k v ttl) c = (AUnit, spec_set k v ttl c)"
| "call_spec (CGet k) c = (AString (spec_get k c), c)"
| "call_spec (CDel k) c = (AUnit, spec_del k c)"
| "call_spec (CExists k) c = (ABool (tc_strings c k \<noteq> None), c)"
| "call_spec (CIncr k ttl) c = map_prod AInt id (spec_incr k ttl c)"
| "call_spec (CSadd k m) c = (AUnit, spec_update_set k (insert m) c)"
| "call_spec (CSrem k m) c = (AUnit, spec_update_set k (\<lambda>A. A - {m}) c)"
| "call_spec (CSismember k m) c = (ABool (m \<in> tc_sets c k), c)"
| "call_spec (CSmembers k) c = (ASet (tc_sets c k), c)"
| "call_spec (CScard k) c = (ANat (card (tc_sets c k)), c)"
| "call_spec CPurge c = (AUnit, c)"
| "call_spec (CWait n) c = (AUnit, spec_wait n c)"

fun run_store :: "'s cache_ops \<Rightarrow> (nat \<Rightarrow> 's \<Rightarrow> 's) \<Rightarrow> cache_call list \<Rightarrow> 's \<Rightarrow> cache_answer list" where
  "run_store ops wait [] s = []"
| "run_store ops wait (c # cs) s = (let (a, s') = call_store ops wait c s in a # run_store ops wait cs s')"

fun run_spec :: "cache_call list \<Rightarrow> ttl_cache \<Rightarrow> cache_answer list" where
  "run_spec [] c = []"
| "run_spec (q # qs) c = (let (a, c') = call_spec q c in a # run_spec qs c')"


section \<open>What a store promises\<close>

text \<open>
  Every operation acts on the abstract cache as Redis documents it. Sets carry no expiry as long as
  \<^verbatim>\<open>expire\<close> is not called on them (\<open>ok\<close>); \<^verbatim>\<open>expire\<close> itself and the counts that \<^verbatim>\<open>del\<close> and
  \<^verbatim>\<open>purge_expired\<close> return are not part of the promise.
\<close>

locale cache_store =
  fixes ops :: "'s cache_ops"
    and abs :: "'s \<Rightarrow> ttl_cache"
    and ok :: "'s \<Rightarrow> bool"
    and wait :: "nat \<Rightarrow> 's \<Rightarrow> 's"
  assumes set_law: "ok s \<Longrightarrow> abs (co_set ops k v ttl s) = spec_set k v ttl (abs s)"
    and get_law: "ok s \<Longrightarrow> fst (co_get ops k s) = spec_get k (abs s)" "ok s \<Longrightarrow> abs (snd (co_get ops k s)) = abs s"
    and del_law: "ok s \<Longrightarrow> abs (snd (co_del ops k s)) = spec_del k (abs s)"
    and exists_law: "ok s \<Longrightarrow> fst (co_exists ops k s) = (tc_strings (abs s) k \<noteq> None)"
      "ok s \<Longrightarrow> abs (snd (co_exists ops k s)) = abs s"
    and incr_law: "ok s \<Longrightarrow> fst (co_incr ops k ttl s) = fst (spec_incr k ttl (abs s))"
      "ok s \<Longrightarrow> abs (snd (co_incr ops k ttl s)) = snd (spec_incr k ttl (abs s))"
    and sadd_law: "ok s \<Longrightarrow> abs (co_sadd ops k m s) = spec_update_set k (insert m) (abs s)"
    and srem_law: "ok s \<Longrightarrow> abs (co_srem ops k m s) = spec_update_set k (\<lambda>A. A - {m}) (abs s)"
    and sismember_law: "ok s \<Longrightarrow> co_sismember ops k m s = (m \<in> tc_sets (abs s) k)"
    and smembers_law: "ok s \<Longrightarrow> set (co_smembers ops k s) = tc_sets (abs s) k" "ok s \<Longrightarrow> distinct (co_smembers ops k s)"
    and scard_law: "ok s \<Longrightarrow> co_scard ops k s = card (tc_sets (abs s) k)"
    and purge_law: "ok s \<Longrightarrow> abs (snd (co_purge_expired ops s)) = abs s"
    and wait_law: "ok s \<Longrightarrow> abs (wait n s) = spec_wait n (abs s)"
    and ok_law: "ok s \<Longrightarrow> ok (co_set ops k v ttl s)" "ok s \<Longrightarrow> ok (snd (co_get ops k s))"
      "ok s \<Longrightarrow> ok (snd (co_del ops k s))" "ok s \<Longrightarrow> ok (snd (co_exists ops k s))"
      "ok s \<Longrightarrow> ok (snd (co_incr ops k ttl s))" "ok s \<Longrightarrow> ok (co_sadd ops k m s)" "ok s \<Longrightarrow> ok (co_srem ops k m s)"
      "ok s \<Longrightarrow> ok (snd (co_purge_expired ops s))" "ok s \<Longrightarrow> ok (wait n s)"
begin

lemmas laws = set_law get_law del_law exists_law incr_law sadd_law srem_law sismember_law smembers_law scard_law
  purge_law wait_law ok_law

lemma call_refines:
  "ok s \<Longrightarrow> fst (call_store ops wait c s) = fst (call_spec c (abs s)) \<and>
     abs (snd (call_store ops wait c s)) = snd (call_spec c (abs s)) \<and> ok (snd (call_store ops wait c s))"
  by (cases c) (simp_all add: laws split_beta)

lemma run_refines: "ok s \<Longrightarrow> run_store ops wait cs s = run_spec cs (abs s)"
  by (induction cs arbitrary: s) (simp_all add: call_refines split_beta)

end


section \<open>The in-memory store keeps the promise\<close>

definition live_string :: "int \<Rightarrow> string_entry option \<Rightarrow> (string \<times> int option) option" where
  "live_string clock entry =
     (case entry of
        None \<Rightarrow> None
      | Some e \<Rightarrow> if entry_expired clock (se_expires_at e) then None else Some (se_value e, se_expires_at e))"

definition set_contents :: "set_entry option \<Rightarrow> string set" where
  "set_contents entry = (case entry of None \<Rightarrow> {} | Some e \<Rightarrow> set (st_members e))"

definition memory_abs :: "memory_store \<Rightarrow> ttl_cache" where
  "memory_abs s =
     \<lparr>tc_strings = (\<lambda>k. live_string (ms_clock s) (map_of (ms_strings s) k)),
      tc_sets = (\<lambda>k. set_contents (map_of (ms_sets s) k)), tc_clock = ms_clock s\<rparr>"

definition memory_ok :: "memory_store \<Rightarrow> bool" where
  "memory_ok s \<longleftrightarrow> distinct (map fst (ms_strings s)) \<and> distinct (map fst (ms_sets s)) \<and>
     (\<forall>k e. map_of (ms_sets s) k = Some e \<longrightarrow> st_expires_at e = None \<and> distinct (st_members e))"

lemma deadline_fresh [simp]: "entry_expired clock (deadline clock ttl) = False"
  by (simp add: entry_expired_def deadline_def nanoseconds_def)

lemma entry_expired_None [simp]: "\<not> entry_expired clock None"
  by (simp add: entry_expired_def)

lemma entry_expired_later: "entry_expired clock e \<Longrightarrow> entry_expired (clock + int n) e"
  by (auto simp: entry_expired_def split: option.splits)

lemma AList_rules [simp]:
  "map_of (AList.update k v al) = (map_of al)(k \<mapsto> v)" "map_of (AList.delete k al) = (map_of al)(k := None)"
  by (simp_all add: AList.update_conv' AList.delete_conv')

lemma map_of_filter_live:
  assumes "distinct (map fst al)"
  shows "map_of (filter (\<lambda>(k, e). \<not> P e) al) k = (case map_of al k of None \<Rightarrow> None | Some e \<Rightarrow> if P e then None else Some e)"
  using assms by (induction al) (auto split: option.splits simp: map_of_eq_None_iff image_iff dest!: map_of_SomeD)

lemma distinct_filter_fst: "distinct (map fst al) \<Longrightarrow> distinct (map fst (filter P al))"
  by (simp add: distinct_map_filter)

lemmas memory_op_defs = InMemoryCacheStore_set_def InMemoryCacheStore_get_def InMemoryCacheStore_del_def
  InMemoryCacheStore_exists_def InMemoryCacheStore_incr_def InMemoryCacheStore_sadd_def InMemoryCacheStore_srem_def
  InMemoryCacheStore_sismember_def InMemoryCacheStore_smembers_def InMemoryCacheStore_scard_def memory_wait_def

lemmas spec_op_defs = spec_set_def spec_get_def spec_del_def spec_incr_def spec_update_set_def spec_wait_def

lemma memory_laws:
  assumes "memory_ok s"
  shows "memory_abs (InMemoryCacheStore_set k v ttl s) = spec_set k v ttl (memory_abs s)"
    "fst (InMemoryCacheStore_get k s) = spec_get k (memory_abs s)"
    "memory_abs (snd (InMemoryCacheStore_get k s)) = memory_abs s"
    "memory_abs (snd (InMemoryCacheStore_del k s)) = spec_del k (memory_abs s)"
    "fst (InMemoryCacheStore_exists k s) = (tc_strings (memory_abs s) k \<noteq> None)"
    "memory_abs (snd (InMemoryCacheStore_exists k s)) = memory_abs s"
    "fst (InMemoryCacheStore_incr k ttl s) = fst (spec_incr k ttl (memory_abs s))"
    "memory_abs (snd (InMemoryCacheStore_incr k ttl s)) = snd (spec_incr k ttl (memory_abs s))"
    "memory_abs (InMemoryCacheStore_sadd k m s) = spec_update_set k (insert m) (memory_abs s)"
    "memory_abs (InMemoryCacheStore_srem k m s) = spec_update_set k (\<lambda>A. A - {m}) (memory_abs s)"
    "memory_abs (memory_wait n s) = spec_wait n (memory_abs s)"
  by (auto simp: memory_op_defs spec_op_defs memory_abs_def live_string_def set_contents_def Let_def fun_eq_iff
      split: option.splits dest: entry_expired_later)

lemma memory_set_laws:
  assumes "memory_ok s"
  shows "InMemoryCacheStore_sismember k m s = (m \<in> tc_sets (memory_abs s) k)"
    "set (InMemoryCacheStore_smembers k s) = tc_sets (memory_abs s) k"
    "distinct (InMemoryCacheStore_smembers k s)"
    "InMemoryCacheStore_scard k s = card (tc_sets (memory_abs s) k)"
  using assms
  by - (cases "map_of (ms_sets s) k";
      simp add: memory_op_defs memory_abs_def memory_ok_def set_contents_def distinct_card del: map_of_eq_Some_iff)+

lemma memory_purge_law:
  assumes "memory_ok s"
  shows "memory_abs (snd (InMemoryCacheStore_purge_expired s)) = memory_abs s"
    "memory_ok (snd (InMemoryCacheStore_purge_expired s))"
proof -
  have neg: "(\<lambda>p. \<not> (case p of (k, e) \<Rightarrow> P e)) = (\<lambda>(k, e). \<not> P e)" for P :: "'b \<Rightarrow> bool"
    by auto
  show "memory_abs (snd (InMemoryCacheStore_purge_expired s)) = memory_abs s"
    "memory_ok (snd (InMemoryCacheStore_purge_expired s))"
    using assms
    by (auto simp: InMemoryCacheStore_purge_expired_def Let_def neg memory_abs_def memory_ok_def live_string_def
        set_contents_def map_of_filter_live distinct_filter_fst fun_eq_iff split: option.splits if_splits)
qed

lemma memory_ok_laws:
  assumes "memory_ok s"
  shows "memory_ok (InMemoryCacheStore_set k v ttl s)" "memory_ok (snd (InMemoryCacheStore_get k s))"
    "memory_ok (snd (InMemoryCacheStore_del k s))" "memory_ok (snd (InMemoryCacheStore_exists k s))"
    "memory_ok (snd (InMemoryCacheStore_incr k ttl s))" "memory_ok (InMemoryCacheStore_sadd k m s)"
    "memory_ok (InMemoryCacheStore_srem k m s)" "memory_ok (memory_wait n s)"
  using assms
  by (auto simp: memory_op_defs memory_ok_def Let_def AList.distinct_update AList.distinct_delete
      distinct_removeAll simp del: map_of_eq_Some_iff split: option.splits if_splits)

interpretation mem: cache_store InMemoryCacheStore memory_abs memory_ok memory_wait
  by unfold_locales
     (simp_all add: InMemoryCacheStore_def memory_laws memory_set_laws memory_purge_law memory_ok_laws)

lemma empty_store_ok [simp]: "memory_ok empty_store"
  by (simp add: memory_ok_def empty_store_def)


text \<open>
  Outside the promise: \<^verbatim>\<open>expire\<close> on an entry that is over but not yet purged brings it back, and adding
  to a set that is over leaves the new member invisible. No caller sets an expiry on a set or
  extends one.
\<close>

lemma expire_revives:
  "fst (InMemoryCacheStore_get k (InMemoryCacheStore_expire k 10 (memory_wait 2000000000
     (InMemoryCacheStore_set k v 1 empty_store)))) = Some v"
  by (simp add: InMemoryCacheStore_get_def InMemoryCacheStore_expire_def memory_wait_def InMemoryCacheStore_set_def
      empty_store_def deadline_def nanoseconds_def entry_expired_def)

lemma sadd_to_expired_set_lost:
  "\<not> InMemoryCacheStore_sismember k m (InMemoryCacheStore_sadd k m (memory_wait 2000000000
     (InMemoryCacheStore_expire k 1 (InMemoryCacheStore_sadd k m0 empty_store))))"
  by (simp add: InMemoryCacheStore_sismember_def InMemoryCacheStore_expire_def memory_wait_def
      InMemoryCacheStore_sadd_def empty_store_def deadline_def nanoseconds_def entry_expired_def)

end
