(* ===== verification/CacheClients.thy ===== *)
theory CacheClients
  imports Cache
begin

text \<open>
  What is built on a cache store, for any store that keeps the promise: the fixed-window
  \<^verbatim>\<open>RateLimiter\<close>, the fleet-wide \<^verbatim>\<open>PresenceCache\<close> and the JSON facade \<^verbatim>\<open>CacheService\<close> with its
  invalidation notices. Lemmas are proved once in the store's locale and used at the in-memory store.
\<close>


section \<open>Rate limiter\<close>

record rate_result =
  rr_allowed :: bool
  rr_limit :: int
  rr_remaining :: int
  rr_retry_after_seconds :: int

definition rate_key :: "string \<Rightarrow> string \<Rightarrow> string" where
  "rate_key bucket identity = ''ratelimit:'' @ bucket @ '':'' @ identity"

definition RateLimiter_check ::
    "'s cache_ops \<Rightarrow> bool \<Rightarrow> string \<Rightarrow> string \<Rightarrow> int \<Rightarrow> int \<Rightarrow> 's \<Rightarrow> rate_result \<times> 's" where
  "RateLimiter_check ops enabled bucket identity limit window s =
     (if \<not> enabled \<or> limit \<le> 0
      then (\<lparr>rr_allowed = True, rr_limit = limit, rr_remaining = limit, rr_retry_after_seconds = 0\<rparr>, s)
      else
        let (count, s') = co_incr ops (rate_key bucket identity) window s;
            allowed = count \<le> limit
        in (\<lparr>rr_allowed = allowed, rr_limit = limit, rr_remaining = max 0 (limit - count),
             rr_retry_after_seconds = (if allowed then 0 else window)\<rparr>, s'))"

definition RateLimiter_enforce ::
    "'s cache_ops \<Rightarrow> bool \<Rightarrow> string \<Rightarrow> string \<Rightarrow> int \<Rightarrow> int \<Rightarrow> (app_exception, 's, rate_result) action" where
  "RateLimiter_enforce ops enabled bucket identity limit window s =
     (let (result, s') = RateLimiter_check ops enabled bucket identity limit window s
      in if rr_allowed result then (Inr result, s')
         else (Inl (RateLimitException ''Rate limit exceeded, please retry later''
                      (''retry_after='' @ to_string (rr_retry_after_seconds result))), s'))"

text \<open>A run of requests, each after the given pause, and which of them are let through.\<close>

fun rate_trace ::
    "'s cache_ops \<Rightarrow> (nat \<Rightarrow> 's \<Rightarrow> 's) \<Rightarrow> string \<Rightarrow> string \<Rightarrow> int \<Rightarrow> int \<Rightarrow> nat list \<Rightarrow> 's \<Rightarrow> bool list \<times> 's" where
  "rate_trace ops wait bucket identity limit window [] s = ([], s)"
| "rate_trace ops wait bucket identity limit window (gap # gaps) s =
     (let (r, s') = RateLimiter_enforce ops True bucket identity limit window (wait gap s);
          (rs, s'') = rate_trace ops wait bucket identity limit window gaps s'
      in ((\<not> isl r) # rs, s''))"


section \<open>Presence cache\<close>

definition kOnlineSet :: string where
  "kOnlineSet = ''presence:online''"

definition conn_key :: "int \<Rightarrow> string" where
  "conn_key user_id = ''presence:conn:'' @ to_string user_id"

definition PresenceCache_add_connection :: "'s cache_ops \<Rightarrow> int \<Rightarrow> 's \<Rightarrow> bool \<times> 's" where
  "PresenceCache_add_connection ops user_id s =
     (let (count, s') = co_incr ops (conn_key user_id) 0 s
      in (count = 1, co_sadd ops kOnlineSet (to_string user_id) s'))"

definition PresenceCache_remove_connection :: "'s cache_ops \<Rightarrow> int \<Rightarrow> 's \<Rightarrow> bool \<times> 's" where
  "PresenceCache_remove_connection ops user_id s =
     (let (current, s') = co_get ops (conn_key user_id) s;
          remaining = (case current of None \<Rightarrow> 0 | Some v \<Rightarrow> to_int v - 1)
      in if remaining \<le> 0
         then (True, co_srem ops kOnlineSet (to_string user_id) (snd (co_del ops (conn_key user_id) s')))
         else (False, co_set ops (conn_key user_id) (to_string remaining) 0 s'))"

definition PresenceCache_is_online :: "'s cache_ops \<Rightarrow> int \<Rightarrow> 's \<Rightarrow> bool" where
  "PresenceCache_is_online ops user_id s = co_sismember ops kOnlineSet (to_string user_id) s"

definition PresenceCache_online_user_ids :: "'s cache_ops \<Rightarrow> 's \<Rightarrow> int list" where
  "PresenceCache_online_user_ids ops s = map to_int (co_smembers ops kOnlineSet s)"

definition PresenceCache_online_count :: "'s cache_ops \<Rightarrow> 's \<Rightarrow> nat" where
  "PresenceCache_online_count ops s = co_scard ops kOnlineSet s"

text \<open>A history of connections opening and closing, anywhere in the fleet.\<close>

datatype presence_event = Connect int | Disconnect int | Elapse nat

fun presence_step :: "'s cache_ops \<Rightarrow> (nat \<Rightarrow> 's \<Rightarrow> 's) \<Rightarrow> presence_event \<Rightarrow> 's \<Rightarrow> 's" where
  "presence_step ops wait (Connect u) s = snd (PresenceCache_add_connection ops u s)"
| "presence_step ops wait (Disconnect u) s = snd (PresenceCache_remove_connection ops u s)"
| "presence_step ops wait (Elapse n) s = wait n s"

fun presence_run :: "'s cache_ops \<Rightarrow> (nat \<Rightarrow> 's \<Rightarrow> 's) \<Rightarrow> presence_event list \<Rightarrow> 's \<Rightarrow> 's" where
  "presence_run ops wait [] s = s"
| "presence_run ops wait (x # xs) s = presence_run ops wait xs (presence_step ops wait x s)"

text \<open>How many connections a user has.\<close>

fun connections_after :: "presence_event list \<Rightarrow> (int \<Rightarrow> nat) \<Rightarrow> int \<Rightarrow> nat" where
  "connections_after [] c = c"
| "connections_after (Connect u # xs) c = connections_after xs (c(u := c u + 1))"
| "connections_after (Disconnect u # xs) c = connections_after xs (c(u := c u - 1))"
| "connections_after (Elapse n # xs) c = connections_after xs c"


section \<open>Invalidation notices\<close>

record invalidation_event =
  ie_scope :: string
  ie_key :: string
  ie_sub_key :: string

definition InvalidationEvent_to_json :: "invalidation_event \<Rightarrow> json" where
  "InvalidationEvent_to_json e =
     JObj ([(''scope'', JStr (ie_scope e)), (''key'', JStr (ie_key e))] @
       (if ie_sub_key e \<noteq> [] then [(''sub_key'', JStr (ie_sub_key e))] else []))"

definition string_field :: "json \<Rightarrow> string \<Rightarrow> string" where
  "string_field body name = (case jfind body name of Some (JStr s) \<Rightarrow> s | _ \<Rightarrow> [])"

definition InvalidationEvent_from_json :: "json \<Rightarrow> invalidation_event" where
  "InvalidationEvent_from_json body =
     \<lparr>ie_scope = string_field body ''scope'', ie_key = string_field body ''key'',
      ie_sub_key = string_field body ''sub_key''\<rparr>"

definition kAuthorization_scope :: string where
  "kAuthorization_scope = ''authorization''"

definition kNamespacedKey :: string where
  "kNamespacedKey = ''cache''"

lemma invalidation_roundtrip [simp]:
  "InvalidationEvent_from_json (InvalidationEvent_to_json e) = e"
  by (cases e) (simp add: InvalidationEvent_from_json_def InvalidationEvent_to_json_def string_field_def)


section \<open>Cache service\<close>

text \<open>The JSON printer and parser belong to the JSON library and are arguments; \<open>parse\<close> gives \<open>None\<close>
  for a discarded value.\<close>

record 's cache_service =
  cs_store :: 's
  cs_hits :: nat
  cs_misses :: nat
  cs_published :: "invalidation_event list"

definition make_key :: "string \<Rightarrow> string \<Rightarrow> string" where
  "make_key ns key = ''rtc:'' @ ns @ '':'' @ key"

definition CacheService_get ::
    "'s cache_ops \<Rightarrow> (string \<Rightarrow> json option) \<Rightarrow> string \<Rightarrow> string \<Rightarrow> 's cache_service \<Rightarrow> json option \<times> 's cache_service" where
  "CacheService_get ops parse ns key c =
     (let full = make_key ns key;
          (raw, s) = co_get ops full (cs_store c)
      in case raw of
           None \<Rightarrow> (None, c\<lparr>cs_store := s, cs_misses := cs_misses c + 1\<rparr>)
         | Some text \<Rightarrow>
             (case parse text of
                None \<Rightarrow> (None, c\<lparr>cs_store := snd (co_del ops full s), cs_misses := cs_misses c + 1\<rparr>)
              | Some v \<Rightarrow> (Some v, c\<lparr>cs_store := s, cs_hits := cs_hits c + 1\<rparr>)))"

definition CacheService_put ::
    "'s cache_ops \<Rightarrow> (json \<Rightarrow> string) \<Rightarrow> string \<Rightarrow> string \<Rightarrow> json \<Rightarrow> int \<Rightarrow> 's cache_service \<Rightarrow> 's cache_service" where
  "CacheService_put ops dump ns key v ttl c =
     c\<lparr>cs_store := co_set ops (make_key ns key) (dump v) ttl (cs_store c)\<rparr>"

definition CacheService_invalidate_local ::
    "'s cache_ops \<Rightarrow> string \<Rightarrow> string \<Rightarrow> 's cache_service \<Rightarrow> 's cache_service" where
  "CacheService_invalidate_local ops ns key c =
     c\<lparr>cs_store := snd (co_del ops (make_key ns key) (cs_store c))\<rparr>"

definition CacheService_invalidate ::
    "'s cache_ops \<Rightarrow> string \<Rightarrow> string \<Rightarrow> 's cache_service \<Rightarrow> 's cache_service" where
  "CacheService_invalidate ops ns key c =
     (let c' = CacheService_invalidate_local ops ns key c
      in c'\<lparr>cs_published := cs_published c' @ [\<lparr>ie_scope = kNamespacedKey, ie_key = ns, ie_sub_key = key\<rparr>]\<rparr>)"

definition CacheService_remember ::
    "'s cache_ops \<Rightarrow> (string \<Rightarrow> json option) \<Rightarrow> (json \<Rightarrow> string) \<Rightarrow> string \<Rightarrow> string \<Rightarrow> int \<Rightarrow> (unit \<Rightarrow> json) \<Rightarrow>
     's cache_service \<Rightarrow> json \<times> 's cache_service" where
  "CacheService_remember ops parse dump ns key ttl loader c =
     (let (cached, c') = CacheService_get ops parse ns key c
      in case cached of
           Some v \<Rightarrow> (v, c')
         | None \<Rightarrow> let v = loader () in (v, CacheService_put ops dump ns key v ttl c'))"

definition CacheService_hit_ratio :: "'s cache_service \<Rightarrow> rat" where
  "CacheService_hit_ratio c =
     (let total = cs_hits c + cs_misses c
      in if total = 0 then 0 else of_nat (cs_hits c) / of_nat total)"


section \<open>The window of the rate limiter\<close>

lemma to_int_to_string: "int64_min \<le> i \<Longrightarrow> i \<le> int64_max \<Longrightarrow> to_int (to_string i) = i"
  using from_chars_to_string [of int64_min i int64_max "[]"] by (simp add: to_int_def)

lemma to_string_1: "''1'' = to_string 1"
  by code_simp

lemma sum_list_int: "int (sum_list xs) = sum_list (map int xs)"
  by (induction xs) simp_all

lemma count_up:
  "map (\<lambda>j. c + int j < limit) [0..<length (x # xs)] = (c < limit) # map (\<lambda>j. c + 1 + int j < limit) [0..<length xs]"
proof -
  have "[0..<length (x # xs)] = 0 # map Suc [0..<length xs]" by (simp add: upt_conv_Cons map_Suc_upt del: upt_Suc)
  then show ?thesis by (simp add: comp_def algebra_simps del: upt_Suc)
qed

lemma enforce_result:
  assumes "0 < limit"
  shows "isl (fst (RateLimiter_enforce ops True b i limit window s)) \<longleftrightarrow> limit < fst (co_incr ops (rate_key b i) window s)"
    "snd (RateLimiter_enforce ops True b i limit window s) = snd (co_incr ops (rate_key b i) window s)"
  using assms by (auto simp: RateLimiter_enforce_def RateLimiter_check_def Let_def split_beta)

context cache_store
begin

definition counting :: "string \<Rightarrow> int \<Rightarrow> int \<Rightarrow> int \<Rightarrow> 's \<Rightarrow> bool" where
  "counting key c e t s \<longleftrightarrow> ok s \<and> tc_strings (abs s) key = Some (to_string c, Some e) \<and> tc_clock (abs s) = t"

lemma counting_wait: "counting key c e t s \<Longrightarrow> t + int n < e \<Longrightarrow> counting key c e (t + int n) (wait n s)"
  by (simp add: counting_def laws spec_wait_def entry_expired_def)

lemma window_over:
  "counting key c e t s \<Longrightarrow> e \<le> t + int n \<Longrightarrow>
     ok (wait n s) \<and> tc_strings (abs (wait n s)) key = None \<and> tc_clock (abs (wait n s)) = t + int n"
  by (simp add: counting_def laws spec_wait_def entry_expired_def)

lemma enforce_counts:
  assumes "counting (rate_key b i) c e t s" "0 < limit" "0 \<le> c" "c < int64_max"
  shows "\<not> isl (fst (RateLimiter_enforce ops True b i limit window s)) \<longleftrightarrow> c < limit"
    "counting (rate_key b i) (c + 1) e t (snd (RateLimiter_enforce ops True b i limit window s))"
proof -
  have "to_int (to_string c) = c" using assms by (intro to_int_to_string) (auto simp: int64_min_def)
  then show "\<not> isl (fst (RateLimiter_enforce ops True b i limit window s)) \<longleftrightarrow> c < limit"
    "counting (rate_key b i) (c + 1) e t (snd (RateLimiter_enforce ops True b i limit window s))"
    using assms by (auto simp: enforce_result counting_def laws spec_incr_def)
qed

lemma enforce_opens:
  assumes "ok s" "tc_strings (abs s) (rate_key b i) = None" "0 < limit" "0 < window"
  shows "\<not> isl (fst (RateLimiter_enforce ops True b i limit window s))"
    "counting (rate_key b i) 1 (tc_clock (abs s) + nanoseconds window) (tc_clock (abs s))
       (snd (RateLimiter_enforce ops True b i limit window s))"
  using assms by (auto simp: enforce_result counting_def laws spec_incr_def spec_set_def deadline_def to_string_1)

lemma trace_in_window:
  assumes "counting (rate_key b i) c e t s" "0 < limit" "0 \<le> c" "c + int (length gaps) \<le> int64_max"
    "t + int (sum_list gaps) < e"
  shows "fst (rate_trace ops wait b i limit window gaps s) = map (\<lambda>j. c + int j < limit) [0..<length gaps] \<and>
     counting (rate_key b i) (c + int (length gaps)) e (t + int (sum_list gaps)) (snd (rate_trace ops wait b i limit window gaps s))"
  using assms
proof (induction gaps arbitrary: c t s)
  case (Cons g gaps)
  let ?r = "RateLimiter_enforce ops True b i limit window (wait g s)"
  have w: "counting (rate_key b i) c e (t + int g) (wait g s)"
    using Cons.prems by (intro counting_wait) simp_all
  have r: "\<not> isl (fst ?r) \<longleftrightarrow> c < limit" "counting (rate_key b i) (c + 1) e (t + int g) (snd ?r)"
    by (rule enforce_counts [OF w]; use Cons.prems in simp)+
  have rest: "fst (rate_trace ops wait b i limit window gaps (snd ?r)) = map (\<lambda>j. (c + 1) + int j < limit) [0..<length gaps] \<and>
     counting (rate_key b i) ((c + 1) + int (length gaps)) e ((t + int g) + int (sum_list gaps))
       (snd (rate_trace ops wait b i limit window gaps (snd ?r)))"
    by (rule Cons.IH [OF r(2)]) (use Cons.prems in simp_all)
  have "map (\<lambda>j. c + int j < limit) [0..<length (g # gaps)] = (c < limit) # map (\<lambda>j. c + 1 + int j < limit) [0..<length gaps]"
    by (rule count_up)
  then show ?case using r rest by (simp add: split_beta Let_def add.assoc)
qed simp

lemma trace_one_window:
  assumes "ok s" "tc_strings (abs (wait g s)) (rate_key b i) = None" "tc_clock (abs s) = t" "0 < limit" "0 < window"
    "1 + int (length gaps) \<le> int64_max" "int (sum_list gaps) < nanoseconds window"
  shows "fst (rate_trace ops wait b i limit window (g # gaps) s) = map (\<lambda>j. int j < limit) [0..<length (g # gaps)] \<and>
     counting (rate_key b i) (1 + int (length gaps)) (t + int g + nanoseconds window) (t + int g + int (sum_list gaps))
       (snd (rate_trace ops wait b i limit window (g # gaps) s))"
proof -
  let ?r = "RateLimiter_enforce ops True b i limit window (wait g s)"
  have w: "ok (wait g s)" "tc_clock (abs (wait g s)) = t + int g" using assms by (simp_all add: laws spec_wait_def)
  have r: "\<not> isl (fst ?r)" "counting (rate_key b i) 1 (t + int g + nanoseconds window) (t + int g) (snd ?r)"
    using enforce_opens [OF w(1) assms(2,4,5)] w(2) by simp_all
  have "fst (rate_trace ops wait b i limit window gaps (snd ?r)) = map (\<lambda>j. 1 + int j < limit) [0..<length gaps] \<and>
     counting (rate_key b i) (1 + int (length gaps)) (t + int g + nanoseconds window) (t + int g + int (sum_list gaps))
       (snd (rate_trace ops wait b i limit window gaps (snd ?r)))"
    by (rule trace_in_window [OF r(2)]) (use assms in simp_all)
  moreover have "map (\<lambda>j. int j < limit) [0..<length (g # gaps)] = True # map (\<lambda>j. 1 + int j < limit) [0..<length gaps]"
    using count_up [of 0 limit g gaps] assms(4) by simp
  ultimately show ?thesis using r(1) by (simp add: split_beta Let_def)
qed

lemma trace_append:
  "rate_trace ops wait b i limit window (xs @ ys) s =
     (let (r1, s1) = rate_trace ops wait b i limit window xs s; (r2, s2) = rate_trace ops wait b i limit window ys s1
      in (r1 @ r2, s2))"
  by (induction xs arbitrary: s) (simp_all add: split_beta Let_def)

end

text \<open>C28. The limiter lets exactly \<open>limit\<close> requests through per window. Of the requests that follow the
  first one within the window, the first \<open>limit\<close> (counting that one) pass and all others are
  refused; the first request after the window has passed opens a new window with the full
  allowance, however many were refused before.\<close>

theorem rate_limit_window:
  assumes ok: "memory_ok s" and idle: "tc_strings (memory_abs s) (rate_key bucket identity) = None"
    and pos: "0 < limit" "0 < window"
    and first: "int (sum_list gaps) < nanoseconds window" "1 + int (length gaps) \<le> int64_max"
    and over: "nanoseconds window \<le> int (sum_list gaps) + int g'"
    and second: "int (sum_list gaps') < nanoseconds window" "1 + int (length gaps') \<le> int64_max"
  shows "fst (rate_trace InMemoryCacheStore memory_wait bucket identity limit window ((g # gaps) @ (g' # gaps')) s) =
    map (\<lambda>j. int j < limit) [0..<length (g # gaps)] @ map (\<lambda>j. int j < limit) [0..<length (g' # gaps')]"
proof -
  let ?t = "rate_trace InMemoryCacheStore memory_wait bucket identity limit window" and ?k = "rate_key bucket identity"
  let ?c = "tc_clock (memory_abs s)" and ?s1 = "snd (rate_trace InMemoryCacheStore memory_wait bucket identity limit window (g # gaps) s)"
  have idle': "tc_strings (memory_abs (memory_wait g s)) ?k = None"
    using ok idle by (simp add: mem.wait_law spec_wait_def)
  have one: "fst (?t (g # gaps) s) = map (\<lambda>j. int j < limit) [0..<length (g # gaps)]"
    "mem.counting ?k (1 + int (length gaps)) (?c + int g + nanoseconds window) (?c + int g + int (sum_list gaps)) ?s1"
    using mem.trace_one_window [OF ok idle' refl pos first(2,1)] by blast+
  have s1: "memory_ok ?s1" "tc_clock (memory_abs ?s1) = ?c + int g + int (sum_list gaps)"
    using one(2) by (simp_all add: mem.counting_def)
  have "tc_strings (memory_abs (memory_wait g' ?s1)) ?k = None"
    using mem.window_over [OF one(2)] over by simp
  from mem.trace_one_window [OF s1(1) this s1(2) pos second(2,1)]
  have "fst (?t (g' # gaps') ?s1) = map (\<lambda>j. int j < limit) [0..<length (g' # gaps')]" by blast
  with one(1) show ?thesis unfolding mem.trace_append by (simp add: split_beta Let_def del: rate_trace.simps)
qed

theorem rate_limit_window_witness:
  "fst (rate_trace InMemoryCacheStore memory_wait ''upload'' ''7'' 2 1 [0, 5, 5, 999999999, 0] empty_store) =
     [True, True, False, True, True]"
proof -
  have "tc_strings (memory_abs empty_store) (rate_key ''upload'' ''7'') = None"
    by (simp add: memory_abs_def empty_store_def live_string_def)
  from rate_limit_window [OF empty_store_ok this, of 2 1 "[5, 5]" 999999999 "[0]" 0] show ?thesis
    by (simp add: nanoseconds_def int64_max_def upt_rec)
qed


section \<open>Who is online\<close>

lemma conn_key_inj [simp]: "conn_key u = conn_key v \<longleftrightarrow> u = v"
  by (simp add: conn_key_def)

lemma conn_key_not_set [simp]: "conn_key u \<noteq> kOnlineSet" "kOnlineSet \<noteq> conn_key u"
  by (simp_all add: conn_key_def kOnlineSet_def)

context cache_store
begin

definition tracks :: "(int \<Rightarrow> nat) \<Rightarrow> 's \<Rightarrow> bool" where
  "tracks c s \<longleftrightarrow> ok s \<and>
     (\<forall>u. tc_strings (abs s) (conn_key u) = (if c u = 0 then None else Some (to_string (int (c u)), None))) \<and>
     tc_sets (abs s) kOnlineSet = to_string ` {u. 0 < c u}"

lemma tracks_add:
  assumes "tracks c s" "int (c u) < int64_max"
  shows "fst (PresenceCache_add_connection ops u s) \<longleftrightarrow> c u = 0"
    "tracks (c(u := c u + 1)) (snd (PresenceCache_add_connection ops u s))"
proof -
  have n: "to_int (to_string (int (c u))) = int (c u)"
    using assms(2) by (intro to_int_to_string) (simp_all add: int64_min_def)
  show "fst (PresenceCache_add_connection ops u s) \<longleftrightarrow> c u = 0"
    using assms n by (simp add: PresenceCache_add_connection_def split_beta tracks_def laws spec_incr_def)
  have "to_string ` {v. v = u \<or> 0 < c v} = insert (to_string u) (to_string ` {v. 0 < c v})" by auto
  then show "tracks (c(u := c u + 1)) (snd (PresenceCache_add_connection ops u s))"
    using assms n
    by (auto simp: PresenceCache_add_connection_def split_beta tracks_def laws spec_incr_def spec_set_def
        spec_update_set_def deadline_def to_string_1 add.commute)
qed

lemma tracks_remove:
  assumes "tracks c s" "int (c u) \<le> int64_max"
  shows "fst (PresenceCache_remove_connection ops u s) \<longleftrightarrow> c u \<le> 1"
    "tracks (c(u := c u - 1)) (snd (PresenceCache_remove_connection ops u s))"
proof -
  have n: "to_int (to_string (int (c u))) = int (c u)"
    using assms(2) by (intro to_int_to_string) (simp_all add: int64_min_def)
  have off: "{v. (v = u \<longrightarrow> 0 < c u - Suc 0) \<and> (v \<noteq> u \<longrightarrow> 0 < c v)} = {v. 0 < c v} - (if c u \<le> 1 then {u} else {})"
    by auto
  have img: "to_string ` ({v. 0 < c v} - {u}) = to_string ` {v. 0 < c v} - {to_string u}" by auto
  show "fst (PresenceCache_remove_connection ops u s) \<longleftrightarrow> c u \<le> 1"
    using assms n by (auto simp: PresenceCache_remove_connection_def split_beta tracks_def laws spec_get_def Let_def)
  show "tracks (c(u := c u - 1)) (snd (PresenceCache_remove_connection ops u s))"
    using assms n
    by (auto simp: PresenceCache_remove_connection_def split_beta tracks_def laws spec_get_def spec_del_def spec_set_def
        spec_update_set_def deadline_def Let_def off img of_nat_diff)
qed

lemma tracks_wait: "tracks c s \<Longrightarrow> tracks c (wait n s)"
  by (auto simp: tracks_def laws spec_wait_def)

lemma tracks_run:
  assumes "tracks c s" "\<And>u. int (c u) + int (length xs) \<le> int64_max"
  shows "tracks (connections_after xs c) (presence_run ops wait xs s)"
  using assms
proof (induction xs arbitrary: c s)
  case (Cons x xs)
  have bound: "int (c v) < int64_max" "int (c v) \<le> int64_max" for v using Cons.prems(2) [of v] by simp_all
  have more: "int (c v) + int (length xs) + 1 \<le> int64_max" for v using Cons.prems(2) [of v] by simp
  show ?case
  proof (cases x)
    case (Connect u)
    have "tracks (connections_after xs (c(u := c u + 1))) (presence_run ops wait xs (snd (PresenceCache_add_connection ops u s)))"
    proof (rule Cons.IH [OF tracks_add(2) [OF Cons.prems(1) bound(1)]])
      fix v show "int ((c(u := c u + 1)) v) + int (length xs) \<le> int64_max" using more [of v] by auto
    qed
    then show ?thesis using Connect by simp
  next
    case (Disconnect u)
    have "tracks (connections_after xs (c(u := c u - 1))) (presence_run ops wait xs (snd (PresenceCache_remove_connection ops u s)))"
    proof (rule Cons.IH [OF tracks_remove(2) [OF Cons.prems(1) bound(2)]])
      fix v show "int ((c(u := c u - 1)) v) + int (length xs) \<le> int64_max" using more [of v] by auto
    qed
    then show ?thesis using Disconnect by simp
  next
    case (Elapse n)
    have "tracks (connections_after xs c) (presence_run ops wait xs (wait n s))"
    proof (rule Cons.IH [OF tracks_wait [OF Cons.prems(1)]])
      fix v show "int (c v) + int (length xs) \<le> int64_max" using more [of v] by simp
    qed
    then show ?thesis using Elapse by simp
  qed
qed simp

end

lemma connections_bound: "connections_after xs c v \<le> c v + length xs"
  by (induction xs c rule: connections_after.induct) (auto simp: fun_upd_def split: if_splits)

lemma connected_before: "0 < connections_after xs c v \<Longrightarrow> 0 < c v \<or> Connect v \<in> set xs"
  by (induction xs c rule: connections_after.induct) (auto split: if_splits)

text \<open>Presence is a count of connections over the whole fleet: after any history of connections
  opening and closing a user is online exactly when some connection is still open, and opening
  reports the change from offline to online exactly for the first connection, closing the
  opposite change exactly for the last. The list of online users and its size say the same.\<close>

theorem presence_counts:
  fixes xs :: "presence_event list"
  defines "s \<equiv> presence_run InMemoryCacheStore memory_wait xs empty_store"
    and "open_connections \<equiv> connections_after xs (\<lambda>_. 0)"
  assumes len: "int (length xs) < int64_max" and ids: "\<And>v. Connect v \<in> set xs \<Longrightarrow> int64_min \<le> v \<and> v \<le> int64_max"
  shows "(PresenceCache_is_online InMemoryCacheStore u s \<longleftrightarrow> 0 < open_connections u) \<and>
    (fst (PresenceCache_add_connection InMemoryCacheStore u s) \<longleftrightarrow> open_connections u = 0) \<and>
    (fst (PresenceCache_remove_connection InMemoryCacheStore u s) \<longleftrightarrow> open_connections u \<le> 1) \<and>
    PresenceCache_online_count InMemoryCacheStore s = card {v. 0 < open_connections v} \<and>
    set (PresenceCache_online_user_ids InMemoryCacheStore s) = {v. 0 < open_connections v}"
proof (intro conjI)
  have "mem.tracks (\<lambda>_. 0) empty_store"
    by (simp add: mem.tracks_def) (simp add: memory_abs_def empty_store_def live_string_def set_contents_def)
  then have tr: "mem.tracks open_connections s"
    unfolding s_def open_connections_def by (rule mem.tracks_run) (use len in simp)
  have b: "int (open_connections u) < int64_max"
    using connections_bound [of xs "\<lambda>_. 0" u] len by (simp add: open_connections_def)
  show "fst (PresenceCache_add_connection InMemoryCacheStore u s) \<longleftrightarrow> open_connections u = 0"
    "fst (PresenceCache_remove_connection InMemoryCacheStore u s) \<longleftrightarrow> open_connections u \<le> 1"
    using mem.tracks_add(1) [OF tr b] mem.tracks_remove(1) [OF tr less_imp_le [OF b]] by simp_all
  have ok: "memory_ok s" and set: "tc_sets (memory_abs s) kOnlineSet = to_string ` {v. 0 < open_connections v}"
    using tr by (simp_all add: mem.tracks_def)
  show "PresenceCache_is_online InMemoryCacheStore u s \<longleftrightarrow> 0 < open_connections u"
    using set by (auto simp: PresenceCache_is_online_def mem.sismember_law [OF ok])
  show "PresenceCache_online_count InMemoryCacheStore s = card {v. 0 < open_connections v}"
    using set by (simp add: PresenceCache_online_count_def mem.scard_law [OF ok] card_image inj_on_def)
  have "to_int (to_string v) = v" if "0 < open_connections v" for v
    using connected_before [OF that [unfolded open_connections_def]] ids by (intro to_int_to_string) auto
  then show "set (PresenceCache_online_user_ids InMemoryCacheStore s) = {v. 0 < open_connections v}"
    using set by (auto simp: PresenceCache_online_user_ids_def mem.smembers_law [OF ok] image_image)
qed

theorem presence_counts_witness:
  "PresenceCache_is_online InMemoryCacheStore 4
     (presence_run InMemoryCacheStore memory_wait [Connect 4, Connect 5, Connect 4, Disconnect 4, Elapse 9] empty_store) \<and>
   fst (PresenceCache_remove_connection InMemoryCacheStore 5
     (presence_run InMemoryCacheStore memory_wait [Connect 4, Connect 5, Connect 4, Disconnect 4, Elapse 9] empty_store))"
proof -
  let ?xs = "[Connect 4, Connect 5, Connect 4, Disconnect 4, Elapse 9]"
  have "int (length ?xs) < int64_max" "\<And>v. Connect v \<in> set ?xs \<Longrightarrow> int64_min \<le> v \<and> v \<le> int64_max"
    by (auto simp: int64_max_def int64_min_def)
  note now = presence_counts [OF this]
  have "connections_after ?xs (\<lambda>_. 0) 4 = 1" "connections_after ?xs (\<lambda>_. 0) 5 = 1" by simp_all
  then show ?thesis using now [of 4] now [of 5] by simp
qed

text \<open>Closing reads the counter and writes it back in two steps. When another node opens a connection
  in between, that connection is lost and the user is offline while connected.\<close>

lemma presence_race:
  assumes "s1 = snd (PresenceCache_add_connection InMemoryCacheStore u empty_store)"
    and "(current, s2) = co_get InMemoryCacheStore (conn_key u) s1"
    and "s3 = snd (PresenceCache_add_connection InMemoryCacheStore u s2)"
    and "s4 = co_srem InMemoryCacheStore kOnlineSet (to_string u) (snd (co_del InMemoryCacheStore (conn_key u) s3))"
  shows "current = Some ''1''" "connections_after [Connect u, Connect u, Disconnect u] (\<lambda>_. 0) u = 1"
    "\<not> PresenceCache_is_online InMemoryCacheStore u s4"
proof -
  have "mem.tracks (\<lambda>_. 0) empty_store"
    by (simp add: mem.tracks_def) (simp add: memory_abs_def empty_store_def live_string_def set_contents_def)
  then have t1: "mem.tracks ((\<lambda>_. 0)(u := 1)) s1"
    using mem.tracks_add(2) [of "\<lambda>_. 0" empty_store u] assms(1) by (simp add: int64_max_def)
  then show "current = Some ''1''"
    using mem.get_law(1) [of s1 "conn_key u"] assms(2)
    by (cases "co_get InMemoryCacheStore (conn_key u) s1") (simp add: mem.tracks_def spec_get_def to_string_1)
  show "connections_after [Connect u, Connect u, Disconnect u] (\<lambda>_. 0) u = 1" by simp
  have t2: "memory_ok s2"
    using t1 mem.ok_law(2) [of s1 "conn_key u"] assms(2)
    by (cases "co_get InMemoryCacheStore (conn_key u) s1") (simp add: mem.tracks_def)
  then have "memory_ok s3" using assms(3) by (simp add: PresenceCache_add_connection_def split_beta mem.laws)
  then show "\<not> PresenceCache_is_online InMemoryCacheStore u s4"
    using assms(4) by (simp add: PresenceCache_is_online_def mem.laws spec_update_set_def)
qed


section \<open>The JSON facade\<close>

lemma make_key_inj:
  assumes "CHR '':'' \<notin> set ns" "CHR '':'' \<notin> set ns'" "make_key ns key = make_key ns' key'"
  shows "ns = ns' \<and> key = key'"
proof -
  have "ns @ CHR '':'' # key = ns' @ CHR '':'' # key'" using assms(3) by (simp add: make_key_def)
  then have "split_on CHR '':'' (ns @ CHR '':'' # key) = split_on CHR '':'' (ns' @ CHR '':'' # key')" by (rule arg_cong)
  then have "ns = ns'" using assms(1,2) by (simp add: split_on_append)
  then show ?thesis using assms(3) by (simp add: make_key_def)
qed

definition wait_service :: "nat \<Rightarrow> memory_store cache_service \<Rightarrow> memory_store cache_service" where
  "wait_service n c = c\<lparr>cs_store := memory_wait n (cs_store c)\<rparr>"

lemma put_then_get:
  assumes ok: "memory_ok (cs_store c)" and json: "parse (dump v) = Some v" and "0 < ttl"
  shows "fst (CacheService_get InMemoryCacheStore parse ns key
      (wait_service n (CacheService_put InMemoryCacheStore dump ns key v ttl c))) =
    (if int n < nanoseconds ttl then Some v else None)"
  using assms
  by (simp add: CacheService_get_def CacheService_put_def wait_service_def Let_def split_beta mem.laws spec_get_def
      spec_wait_def spec_set_def deadline_def entry_expired_def)

text \<open>The cache service returns what was put under a key, for as long as the time to live says and no
  longer; invalidation removes the entry at once and announces exactly this key to the other
  instances; \<^verbatim>\<open>remember\<close> calls its loader only when nothing is cached; and entries under other
  keys are not affected, since namespaces contain no colon.\<close>

theorem cache_service_coherent:
  assumes ok: "memory_ok (cs_store c)" and json: "parse (dump v) = Some v" and ttl: "0 < ttl"
    and ns: "CHR '':'' \<notin> set ns" "CHR '':'' \<notin> set ns'" and other: "(ns', key') \<noteq> (ns, key)"
  shows "fst (CacheService_get InMemoryCacheStore parse ns key
      (wait_service n (CacheService_put InMemoryCacheStore dump ns key v ttl c))) =
      (if int n < nanoseconds ttl then Some v else None) \<and>
    fst (CacheService_remember InMemoryCacheStore parse dump ns key ttl loader
      (wait_service n (CacheService_put InMemoryCacheStore dump ns key v ttl c))) =
      (if int n < nanoseconds ttl then v else loader ()) \<and>
    fst (CacheService_get InMemoryCacheStore parse ns key (CacheService_invalidate InMemoryCacheStore ns key c)) = None \<and>
    cs_published (CacheService_invalidate InMemoryCacheStore ns key c) =
      cs_published c @ [\<lparr>ie_scope = kNamespacedKey, ie_key = ns, ie_sub_key = key\<rparr>] \<and>
    fst (CacheService_get InMemoryCacheStore parse ns' key' (CacheService_put InMemoryCacheStore dump ns key v ttl c)) =
      fst (CacheService_get InMemoryCacheStore parse ns' key' c)"
proof (intro conjI)
  note get = put_then_get [where parse = parse and dump = dump and v = v and n = n and ns = ns and key = key, OF ok json ttl]
  show "fst (CacheService_get InMemoryCacheStore parse ns key
      (wait_service n (CacheService_put InMemoryCacheStore dump ns key v ttl c))) =
      (if int n < nanoseconds ttl then Some v else None)" by (rule get)
  show "fst (CacheService_remember InMemoryCacheStore parse dump ns key ttl loader
      (wait_service n (CacheService_put InMemoryCacheStore dump ns key v ttl c))) =
      (if int n < nanoseconds ttl then v else loader ())"
    using get by (auto simp: CacheService_remember_def Let_def split_beta split: option.splits if_splits)
  show "fst (CacheService_get InMemoryCacheStore parse ns key (CacheService_invalidate InMemoryCacheStore ns key c)) = None"
    using ok by (simp add: CacheService_get_def CacheService_invalidate_def CacheService_invalidate_local_def Let_def
        split_beta mem.laws spec_get_def spec_del_def)
  have "make_key ns' key' \<noteq> make_key ns key" using make_key_inj [OF ns(2,1)] other by blast
  then show "fst (CacheService_get InMemoryCacheStore parse ns' key' (CacheService_put InMemoryCacheStore dump ns key v ttl c)) =
      fst (CacheService_get InMemoryCacheStore parse ns' key' c)"
    using ok
    by (simp add: CacheService_get_def CacheService_put_def Let_def split_beta mem.laws spec_get_def spec_set_def
        split: option.splits)
qed (simp add: CacheService_invalidate_def CacheService_invalidate_local_def Let_def)

theorem cache_service_coherent_witness:
  "fst (CacheService_get InMemoryCacheStore (\<lambda>s. if s = ''1'' then Some (JInt 1) else None) ''user'' ''7''
      (wait_service 5 (CacheService_put InMemoryCacheStore (\<lambda>_. ''1'') ''user'' ''7'' (JInt 1) 60
        \<lparr>cs_store = empty_store, cs_hits = 0, cs_misses = 0, cs_published = []\<rparr>))) = Some (JInt 1)"
  using cache_service_coherent [of "\<lparr>cs_store = empty_store, cs_hits = 0, cs_misses = 0, cs_published = []\<rparr>"
      "\<lambda>s. if s = ''1'' then Some (JInt 1) else None" "\<lambda>_. ''1''" "JInt 1" 60 "''user''" "''conv''" "''7''" "''7''" 5
      "\<lambda>_. JNull"]
  by (simp add: nanoseconds_def)

lemma hit_ratio_bounds: "0 \<le> CacheService_hit_ratio c \<and> CacheService_hit_ratio c \<le> 1"
proof -
  have "(of_nat (cs_hits c) :: rat) \<le> of_nat (cs_hits c + cs_misses c)" by (simp only: of_nat_le_iff)
  then show ?thesis by (auto simp: CacheService_hit_ratio_def Let_def divide_le_eq)
qed

end
