(* ===== verification/Authorization.thy ===== *)
theory Authorization
  imports CacheClients ConversationService
begin

text \<open>
  \<^verbatim>\<open>AuthorizationService\<close>: role and ban decisions read from the database behind a short-lived cache,
  the invalidation notices it announces, and what another instance does with such a notice
  (\<^verbatim>\<open>Application::wire_cluster\<close>). A \<open>node\<close> is one server process: its view of the world and its cache.
\<close>


section \<open>A server process\<close>

record 's node =
  nd_world :: world
  nd_cache :: 's
  nd_authz_hits :: nat
  nd_authz_misses :: nat
  nd_invalidations :: "invalidation_event list"

type_synonym ('s, 'a) node_act = "(app_exception, 's node, 'a) action"

definition on_world :: "'a act \<Rightarrow> ('s, 'a) node_act" where
  "on_world m n = (case m (nd_world n) of (r, w) \<Rightarrow> (r, n\<lparr>nd_world := w\<rparr>))"

definition on_cache :: "('s \<Rightarrow> 'a \<times> 's) \<Rightarrow> ('s, 'a) node_act" where
  "on_cache f n = (case f (nd_cache n) of (x, s) \<Rightarrow> (Inr x, n\<lparr>nd_cache := s\<rparr>))"

definition publish_invalidation :: "invalidation_event \<Rightarrow> ('s, unit) node_act" where
  "publish_invalidation e = modify (\<lambda>n. n\<lparr>nd_invalidations := nd_invalidations n @ [e]\<rparr>)"


section \<open>The service\<close>

definition role_key :: "int \<Rightarrow> string" where
  "role_key user_id = ''authz:role:'' @ to_string user_id"

definition ban_key :: "int \<Rightarrow> string" where
  "ban_key user_id = ''authz:banned:'' @ to_string user_id"

definition count_hit :: "('s, unit) node_act" where
  "count_hit = modify (\<lambda>n. n\<lparr>nd_authz_hits := nd_authz_hits n + 1\<rparr>)"

definition load_role :: "'s cache_ops \<Rightarrow> int \<Rightarrow> int \<Rightarrow> ('s, role) node_act" where
  "load_role ops ttl user_id =
     seq (modify (\<lambda>n. n\<lparr>nd_authz_misses := nd_authz_misses n + 1\<rparr>)) (\<lambda>_.
     seq (on_world (PgUserAdminRepository_find_role user_id)) (\<lambda>found.
     let ro = (case found of None \<Rightarrow> kDefaultRole | Some ro \<Rightarrow> ro) in
     seq (on_cache (\<lambda>s. ((), co_set ops (role_key user_id) (role_to_string ro) ttl s))) (\<lambda>_.
     ret ro)))"

definition AuthorizationService_role_of :: "'s cache_ops \<Rightarrow> int \<Rightarrow> int \<Rightarrow> ('s, role) node_act" where
  "AuthorizationService_role_of ops ttl user_id =
     seq (on_cache (co_get ops (role_key user_id))) (\<lambda>cached.
     case cached of
       None \<Rightarrow> load_role ops ttl user_id
     | Some text \<Rightarrow>
         seq count_hit (\<lambda>_.
         case parse_role text of
           Some ro \<Rightarrow> ret ro
         | None \<Rightarrow> load_role ops ttl user_id))"

definition AuthorizationService_has_permission ::
    "'s cache_ops \<Rightarrow> int \<Rightarrow> int \<Rightarrow> permission \<Rightarrow> ('s, bool) node_act" where
  "AuthorizationService_has_permission ops ttl user_id p =
     seq (AuthorizationService_role_of ops ttl user_id) (\<lambda>ro. ret (has_permission ro p))"

definition AuthorizationService_require_permission ::
    "'s cache_ops \<Rightarrow> int \<Rightarrow> int \<Rightarrow> permission \<Rightarrow> ('s, unit) node_act" where
  "AuthorizationService_require_permission ops ttl user_id p =
     seq (AuthorizationService_role_of ops ttl user_id) (\<lambda>ro.
     require (has_permission ro p)
       (AuthorizationException ''Insufficient permissions''
          (''required='' @ permission_to_string p @ '' role='' @ role_to_string ro)))"

definition ban_text :: "bool \<Rightarrow> string" where
  "ban_text banned = (if banned then ''1'' else ''0'')"

definition AuthorizationService_is_banned :: "'s cache_ops \<Rightarrow> int \<Rightarrow> int \<Rightarrow> ('s, bool) node_act" where
  "AuthorizationService_is_banned ops ttl user_id =
     seq (on_cache (co_get ops (ban_key user_id))) (\<lambda>cached.
     case cached of
       Some text \<Rightarrow> seq count_hit (\<lambda>_. ret (text = ''1''))
     | None \<Rightarrow>
         seq (modify (\<lambda>n. n\<lparr>nd_authz_misses := nd_authz_misses n + 1\<rparr>)) (\<lambda>_.
         seq (on_world (PgUserAdminRepository_is_banned user_id)) (\<lambda>found.
         let banned = (case found of None \<Rightarrow> False | Some b \<Rightarrow> b) in
         seq (on_cache (\<lambda>s. ((), co_set ops (ban_key user_id) (ban_text banned) ttl s))) (\<lambda>_.
         ret banned))))"

definition AuthorizationService_require_active :: "'s cache_ops \<Rightarrow> int \<Rightarrow> int \<Rightarrow> ('s, unit) node_act" where
  "AuthorizationService_require_active ops ttl user_id =
     seq (AuthorizationService_is_banned ops ttl user_id) (\<lambda>banned.
     require (\<not> banned) (AuthenticationException ''Account is suspended'' (''user_id='' @ to_string user_id)))"

definition AuthorizationService_invalidate_local :: "'s cache_ops \<Rightarrow> int \<Rightarrow> ('s, unit) node_act" where
  "AuthorizationService_invalidate_local ops user_id =
     seq (on_cache (co_del ops (role_key user_id))) (\<lambda>_.
     seq (on_cache (co_del ops (ban_key user_id))) (\<lambda>_.
     ret ()))"

definition AuthorizationService_invalidate :: "'s cache_ops \<Rightarrow> int \<Rightarrow> ('s, unit) node_act" where
  "AuthorizationService_invalidate ops user_id =
     seq (AuthorizationService_invalidate_local ops user_id) (\<lambda>_.
     publish_invalidation \<lparr>ie_scope = kAuthorization_scope, ie_key = to_string user_id, ie_sub_key = []\<rparr>)"


section \<open>Receiving a notice\<close>

text \<open>\<^verbatim>\<open>std::stoll\<close>: white space, a sign, digits; \<open>None\<close> is \<^verbatim>\<open>invalid_argument\<close> or \<^verbatim>\<open>out_of_range\<close>.\<close>

definition stoll :: "string \<Rightarrow> int option" where
  "stoll s =
     (case dropWhile isspace s of
        [] \<Rightarrow> None
      | c # cs \<Rightarrow>
          if c = CHR ''+''
          then (if cs \<noteq> [] \<and> isdigit (hd cs) then map_option fst (from_chars_int64 cs) else None)
          else map_option fst (from_chars_int64 (c # cs)))"

definition apply_invalidation :: "'s cache_ops \<Rightarrow> invalidation_event \<Rightarrow> ('s, unit) node_act" where
  "apply_invalidation ops e =
     (if ie_scope e = kAuthorization_scope
      then (case stoll (ie_key e) of None \<Rightarrow> ret () | Some u \<Rightarrow> AuthorizationService_invalidate_local ops u)
      else if ie_scope e = kNamespacedKey
      then seq (on_cache (co_del ops (make_key (ie_key e) (ie_sub_key e)))) (\<lambda>_. ret ())
      else ret ())"

lemma stoll_to_string:
  assumes "int64_min \<le> i" "i \<le> int64_max"
  shows "stoll (to_string i) = Some i"
proof -
  have "from_chars_int64 (to_string i) = Some (i, [])"
    using from_chars_to_string [of int64_min i int64_max "[]"] assms by simp
  moreover obtain c cs where c: "to_string i = c # cs" "c = CHR ''-'' \<or> isdigit c"
    using nat_to_string_nonempty nat_to_string_hd_digit
    by (cases "to_string i") (auto simp: to_string_def split: if_splits, metis list.sel(1))
  moreover have "\<not> isspace c" "c \<noteq> CHR ''+''" using c(2) isdigit_not_space by (auto simp: isspace_def isdigit_def)
  ultimately show ?thesis by (simp add: stoll_def)
qed


section \<open>What the database says\<close>

definition stored_role :: "int \<Rightarrow> world \<Rightarrow> role" where
  "stored_role u w = (case find_record u (tabs (db w)) of None \<Rightarrow> kDefaultRole | Some r \<Rightarrow> ar_role r)"

definition stored_ban :: "int \<Rightarrow> world \<Rightarrow> bool" where
  "stored_ban u w = (case find_record u (tabs (db w)) of None \<Rightarrow> False | Some r \<Rightarrow> ar_is_banned r)"

text \<open>Administrative changes: the write, then the invalidation, as the admin routes do it.\<close>

definition change_role :: "'s cache_ops \<Rightarrow> int \<Rightarrow> role \<Rightarrow> ('s, role) node_act" where
  "change_role ops u ro =
     seq (on_world (PgUserAdminRepository_set_role u ro)) (\<lambda>previous.
     seq (AuthorizationService_invalidate ops u) (\<lambda>_.
     ret previous))"

definition change_ban :: "'s cache_ops \<Rightarrow> int \<Rightarrow> bool \<Rightarrow> string option \<Rightarrow> int option \<Rightarrow> ('s, unit) node_act" where
  "change_ban ops u banned reason actor =
     seq (on_world (PgUserAdminRepository_set_banned u banned reason actor)) (\<lambda>_.
     AuthorizationService_invalidate ops u)"

text \<open>One step of a node: a decision about any user, an administrative change, a notice from another
  node, time passing, or anything else the program does to the world, as far as \<open>allowed\<close>.\<close>

inductive authz_step ::
    "'s cache_ops \<Rightarrow> (nat \<Rightarrow> 's \<Rightarrow> 's) \<Rightarrow> int \<Rightarrow> (world \<Rightarrow> world \<Rightarrow> bool) \<Rightarrow> 's node \<Rightarrow> 's node \<Rightarrow> bool"
  for ops wait ttl allowed where
  decide_role: "authz_step ops wait ttl allowed n (final (AuthorizationService_role_of ops ttl u) n)"
| decide_ban: "authz_step ops wait ttl allowed n (final (AuthorizationService_is_banned ops ttl u) n)"
| assign: "authz_step ops wait ttl allowed n (final (change_role ops u ro) n)"
| suspend: "authz_step ops wait ttl allowed n (final (change_ban ops u banned reason actor) n)"
| notice: "authz_step ops wait ttl allowed n (final (apply_invalidation ops e) n)"
| pause: "authz_step ops wait ttl allowed n (n\<lparr>nd_cache := wait k (nd_cache n)\<rparr>)"
| other: "allowed (nd_world n) w \<Longrightarrow> authz_step ops wait ttl allowed n (n\<lparr>nd_world := w\<rparr>)"


section \<open>Rules for decisions\<close>

lemma role_ban_keys [simp]:
  "role_key u = role_key v \<longleftrightarrow> u = v" "ban_key u = ban_key v \<longleftrightarrow> u = v" "role_key u \<noteq> ban_key v" "ban_key v \<noteq> role_key u"
  by (simp_all add: role_key_def ban_key_def)

lemma wp_on_cache [wp_simps]:
  "wp (on_cache f) Q E n = Q (fst (f (nd_cache n))) (n\<lparr>nd_cache := snd (f (nd_cache n))\<rparr>)"
  by (simp add: wp_def on_cache_def split_beta)

lemma wp_on_world: "wp (on_world m) Q E n = wp m (\<lambda>x w. Q x (n\<lparr>nd_world := w\<rparr>)) (\<lambda>e w. E e (n\<lparr>nd_world := w\<rparr>)) (nd_world n)"
  by (simp add: wp_def on_world_def split_beta)

definition same_decisions :: "world \<Rightarrow> world \<Rightarrow> bool" where
  "same_decisions w w' \<longleftrightarrow> (\<forall>u. stored_role u w' = stored_role u w \<and> stored_ban u w' = stored_ban u w)"

lemma same_decisions_quiet [simp]: "same_decisions w (quiet w)" "same_decisions (quiet w) w' = same_decisions w w'"
  by (simp_all add: same_decisions_def stored_role_def stored_ban_def)

lemma same_decisions_refl [simp]: "same_decisions w w"
  by (simp add: same_decisions_def)

lemma same_decisions_trans: "same_decisions w w' \<Longrightarrow> same_decisions w' w'' \<Longrightarrow> same_decisions w w''"
  by (simp add: same_decisions_def)

lemma ban_text_1 [simp]: "ban_text b = ''1'' \<longleftrightarrow> b"
  by (simp add: ban_text_def)

lemma stored_quiet [simp]: "stored_role u (quiet w) = stored_role u w" "stored_ban u (quiet w) = stored_ban u w"
  by (simp_all add: stored_role_def stored_ban_def)

lemma seq_ret: "seq m ret = m"
  by (rule ext) (auto simp: seq_apply split: prod.splits sum.splits)

lemma stored_reads:
  "(case map_option ar_role (find_record u (tabs (db w))) of None \<Rightarrow> kDefaultRole | Some ro \<Rightarrow> ro) = stored_role u w"
  "(case map_option ar_is_banned (find_record u (tabs (db w))) of None \<Rightarrow> False | Some b \<Rightarrow> b) = stored_ban u w"
  by (simp_all add: stored_role_def stored_ban_def split: option.splits)

lemma wp_read_decision:
  assumes "Q (f (db (nd_world n))) (n\<lparr>nd_world := quiet (nd_world n)\<rparr>)" "\<And>e. E e (n\<lparr>nd_world := quiet (nd_world n)\<rparr>)"
  shows "wp (on_world (with_transaction (gets f))) Q E n"
  unfolding wp_on_world by (rule wp_read) (use assms in auto)

definition differs_only :: "int \<Rightarrow> world \<Rightarrow> world \<Rightarrow> bool" where
  "differs_only u w w' \<longleftrightarrow> (\<forall>v. v \<noteq> u \<longrightarrow> stored_role v w' = stored_role v w \<and> stored_ban v w' = stored_ban v w)"

lemma find_record_update:
  assumes "\<And>r. u_id (ar_user (f r)) = u_id (ar_user r)"
  shows "find_record v (t_users_update (update_where (\<lambda>r. u_id (ar_user r) = u) f) t) =
    (if v = u then map_option f (find_record v t) else find_record v t)"
proof -
  have *: "List.find (\<lambda>r. u_id (ar_user r) = v) (update_where (\<lambda>r. u_id (ar_user r) = u) f (t_users t)) =
     map_option (\<lambda>r. if u_id (ar_user r) = u then f r else r) (find_record v t)"
    unfolding find_record_def by (rule find_update_where) (simp add: assms)
  have "u_id (ar_user r) = v" if "find_record v t = Some r" for r
    using that by (auto simp: find_record_def find_Some_iff)
  moreover have "find_record v (t_users_update g t) = List.find (\<lambda>r. u_id (ar_user r) = v) (g (t_users t))" for g
    by (simp add: find_record_def)
  ultimately show ?thesis using * by (cases "find_record v t") auto
qed

lemma set_role_effect:
  "wp (PgUserAdminRepository_set_role u ro)
     (\<lambda>previous w'. differs_only u w w' \<and> stored_role u w' = ro \<and> stored_ban u w' = stored_ban u w) (\<lambda>_ w'. same_decisions w w') w"
  unfolding PgUserAdminRepository_set_role_def
  by (rule wp_transaction)
     (auto simp: act_simps split: option.splits simp: differs_only_def same_decisions_def stored_role_def stored_ban_def
       find_record_update rollback_def ar_is_banned_def)

lemma set_banned_effect:
  "wp (PgUserAdminRepository_set_banned u banned reason actor)
     (\<lambda>_ w'. differs_only u w w' \<and> stored_ban u w' = banned \<and> stored_role u w' = stored_role u w) (\<lambda>_ w'. same_decisions w w') w"
  unfolding PgUserAdminRepository_set_banned_def
  by (rule wp_transaction)
     (auto simp: act_simps check_varchar_def split: option.splits if_splits simp: differs_only_def same_decisions_def
       stored_role_def stored_ban_def find_record_update rollback_def ar_is_banned_def)

context cache_store
begin

definition coherent :: "'s node \<Rightarrow> bool" where
  "coherent n \<longleftrightarrow> ok (nd_cache n) \<and>
     (\<forall>u v e. tc_strings (abs (nd_cache n)) (role_key u) = Some (v, e) \<longrightarrow> v = role_to_string (stored_role u (nd_world n))) \<and>
     (\<forall>u v e. tc_strings (abs (nd_cache n)) (ban_key u) = Some (v, e) \<longrightarrow>
        v = ban_text (stored_ban u (nd_world n)))"

lemma coherent_frame [simp]:
  "coherent (n\<lparr>nd_authz_misses := a\<rparr>) = coherent n" "coherent (n\<lparr>nd_authz_hits := a\<rparr>) = coherent n"
  "coherent (n\<lparr>nd_invalidations := es\<rparr>) = coherent n"
  by (simp_all add: coherent_def)

lemma coherent_world: "same_decisions (nd_world n) w \<Longrightarrow> coherent (n\<lparr>nd_world := w\<rparr>) = coherent n"
  by (simp add: coherent_def same_decisions_def)

lemma coherent_set:
  assumes "coherent n"
  shows "coherent (n\<lparr>nd_cache := co_set ops (role_key u) (role_to_string (stored_role u (nd_world n))) ttl (nd_cache n)\<rparr>)"
    "coherent (n\<lparr>nd_cache := co_set ops (ban_key u) (ban_text (stored_ban u (nd_world n))) ttl (nd_cache n)\<rparr>)"
  using assms by (auto simp: coherent_def laws spec_set_def)

lemma coherent_read: "coherent n \<Longrightarrow> coherent (n\<lparr>nd_cache := snd (co_get ops k (nd_cache n))\<rparr>)"
  by (simp add: coherent_def laws)

lemma load_role_coherent:
  assumes "coherent n"
  shows "wp (load_role ops ttl u) (\<lambda>ro n'. ro = stored_role u (nd_world n) \<and> coherent n') (\<lambda>_ n'. coherent n') n"
proof -
  let ?n = "n\<lparr>nd_authz_misses := nd_authz_misses n + 1, nd_world := quiet (nd_world n)\<rparr>"
  have n: "coherent ?n" "stored_role u (nd_world ?n) = stored_role u (nd_world n)"
    using assms coherent_world [of "n\<lparr>nd_authz_misses := nd_authz_misses n + 1\<rparr>"]
    by simp_all
  show ?thesis
    unfolding load_role_def PgUserAdminRepository_find_role_def wp_seq wp_modify
    by (rule wp_read_decision)
       (use n coherent_set(1) [OF n(1)] in \<open>simp_all add: stored_reads wp_simps Let_def del: case_map_option\<close>)
qed

lemma role_of_coherent:
  assumes "coherent n"
  shows "wp (AuthorizationService_role_of ops ttl u) (\<lambda>ro n'. ro = stored_role u (nd_world n) \<and> coherent n')
    (\<lambda>_ n'. coherent n') n"
proof -
  note n' = coherent_read [OF assms, of "role_key u"]
  show ?thesis
  proof (cases "tc_strings (abs (nd_cache n)) (role_key u)")
    case None
    then have "fst (co_get ops (role_key u) (nd_cache n)) = None" using assms by (simp add: coherent_def laws spec_get_def)
    then show ?thesis
      using load_role_coherent [OF n'] by (simp add: AuthorizationService_role_of_def wp_simps)
  next
    case (Some p)
    then have "fst (co_get ops (role_key u) (nd_cache n)) = Some (role_to_string (stored_role u (nd_world n)))"
      using assms by (cases p) (auto simp: coherent_def laws spec_get_def)
    then show ?thesis
      using n' by (simp add: AuthorizationService_role_of_def count_hit_def wp_simps)
  qed
qed

lemma is_banned_coherent:
  assumes "coherent n"
  shows "wp (AuthorizationService_is_banned ops ttl u) (\<lambda>b n'. b = stored_ban u (nd_world n) \<and> coherent n')
    (\<lambda>_ n'. coherent n') n"
proof (cases "tc_strings (abs (nd_cache n)) (ban_key u)")
  case None
  then have miss: "fst (co_get ops (ban_key u) (nd_cache n)) = None"
    using assms by (simp add: coherent_def laws spec_get_def)
  let ?n = "n\<lparr>nd_cache := snd (co_get ops (ban_key u) (nd_cache n)), nd_authz_misses := nd_authz_misses n + 1,
     nd_world := quiet (nd_world n)\<rparr>"
  have n: "coherent ?n" "stored_ban u (nd_world ?n) = stored_ban u (nd_world n)"
    using coherent_read [OF assms, of "ban_key u"] coherent_world
      [of "n\<lparr>nd_cache := snd (co_get ops (ban_key u) (nd_cache n)), nd_authz_misses := nd_authz_misses n + 1\<rparr>"]
    by simp_all
  show ?thesis
    unfolding AuthorizationService_is_banned_def PgUserAdminRepository_is_banned_def wp_seq wp_on_cache miss option.case wp_modify
    by (rule wp_read_decision)
       (use n coherent_set(2) [OF n(1)] in \<open>simp_all add: stored_reads wp_simps Let_def del: case_map_option\<close>)
next
  case (Some p)
  then have "fst (co_get ops (ban_key u) (nd_cache n)) = Some (ban_text (stored_ban u (nd_world n)))"
    using assms by (cases p) (auto simp: coherent_def laws spec_get_def)
  then show ?thesis
    using coherent_read [OF assms, of "ban_key u"]
    by (simp add: AuthorizationService_is_banned_def count_hit_def wp_simps)
qed

text \<open>Coherent for everybody but one user, whose entries an invalidation removes.\<close>

definition coherent_except :: "int \<Rightarrow> 's node \<Rightarrow> bool" where
  "coherent_except u n \<longleftrightarrow> ok (nd_cache n) \<and>
     (\<forall>v t e. v \<noteq> u \<longrightarrow> tc_strings (abs (nd_cache n)) (role_key v) = Some (t, e) \<longrightarrow>
        t = role_to_string (stored_role v (nd_world n))) \<and>
     (\<forall>v t e. v \<noteq> u \<longrightarrow> tc_strings (abs (nd_cache n)) (ban_key v) = Some (t, e) \<longrightarrow> t = ban_text (stored_ban v (nd_world n)))"

lemma coherent_except_change:
  "coherent n \<Longrightarrow> differs_only u (nd_world n) w \<Longrightarrow> coherent_except u (n\<lparr>nd_world := w\<rparr>)"
  by (auto simp: coherent_def coherent_except_def differs_only_def)

lemma invalidate_local_runs:
  assumes "coherent_except u n"
  shows "\<exists>n'. AuthorizationService_invalidate_local ops u n = (Inr (), n') \<and> coherent n' \<and> nd_world n' = nd_world n \<and>
     nd_invalidations n' = nd_invalidations n"
  using assms
  by (auto simp: AuthorizationService_invalidate_local_def on_cache_def act_simps split_beta coherent_def
      coherent_except_def laws spec_del_def)

lemma invalidate_runs:
  assumes "coherent_except u n"
  shows "\<exists>n'. AuthorizationService_invalidate ops u n = (Inr (), n') \<and> coherent n' \<and> nd_world n' = nd_world n \<and>
     nd_invalidations n' = nd_invalidations n @
       [\<lparr>ie_scope = kAuthorization_scope, ie_key = to_string u, ie_sub_key = []\<rparr>]"
  using invalidate_local_runs [OF assms]
  by (auto simp: AuthorizationService_invalidate_def publish_invalidation_def act_simps)

lemma coherent_imp_except: "coherent n \<Longrightarrow> coherent_except u n"
  by (auto simp: coherent_def coherent_except_def)

lemma notice_coherent: "coherent n \<Longrightarrow> coherent (final (apply_invalidation ops e) n)"
proof -
  assume n: "coherent n"
  have "coherent (final (AuthorizationService_invalidate_local ops u) n)" for u
    using invalidate_local_runs [OF coherent_imp_except [OF n], of u] by auto
  then show ?thesis
    using n
    by (auto simp: apply_invalidation_def on_cache_def act_simps split_beta coherent_def laws spec_del_def
        split: option.splits)
qed

lemma change_coherent:
  assumes "coherent n"
    and "wp m (\<lambda>x w. differs_only u (nd_world n) w) (\<lambda>_ w. same_decisions (nd_world n) w) (nd_world n)"
  shows "coherent (final (seq (on_world m) (\<lambda>x. seq (AuthorizationService_invalidate ops u) (\<lambda>_. ret (f x)))) n)"
proof (cases "m (nd_world n)")
  case (Pair r w)
  show ?thesis
  proof (cases r)
    case (Inl e)
    then have "same_decisions (nd_world n) w" using assms(2) Pair by (simp add: wp_def)
    then show ?thesis using Inl Pair assms(1) by (simp add: on_world_def act_simps coherent_world)
  next
    case (Inr x)
    then have "differs_only u (nd_world n) w" using assms(2) Pair by (simp add: wp_def)
    from invalidate_runs [OF coherent_except_change [OF assms(1) this]] show ?thesis
      using Inr Pair by (auto simp: on_world_def act_simps)
  qed
qed

lemma step_coherent:
  assumes "authz_step ops wait ttl allowed n n'" "coherent n" "\<And>w w'. allowed w w' \<Longrightarrow> same_decisions w w'"
  shows "coherent n'"
  using assms(1)
proof cases
  case (decide_role u)
  have "wp (AuthorizationService_role_of ops ttl u) (\<lambda>_. coherent) (\<lambda>_. coherent) n"
    by (rule wp_mono [OF role_of_coherent [OF assms(2)]]) auto
  then show ?thesis using decide_role by (simp add: wp_final)
next
  case (decide_ban u)
  have "wp (AuthorizationService_is_banned ops ttl u) (\<lambda>_. coherent) (\<lambda>_. coherent) n"
    by (rule wp_mono [OF is_banned_coherent [OF assms(2)]]) auto
  then show ?thesis using decide_ban by (simp add: wp_final)
next
  case (assign u ro)
  have "wp (PgUserAdminRepository_set_role u ro) (\<lambda>_ w. differs_only u (nd_world n) w)
      (\<lambda>_ w. same_decisions (nd_world n) w) (nd_world n)"
    by (rule wp_mono [OF set_role_effect]) auto
  from change_coherent [OF assms(2) this, of "\<lambda>x. x"] show ?thesis using assign by (simp add: change_role_def)
next
  case (suspend u banned reason actor)
  have "wp (PgUserAdminRepository_set_banned u banned reason actor) (\<lambda>_ w. differs_only u (nd_world n) w)
      (\<lambda>_ w. same_decisions (nd_world n) w) (nd_world n)"
    by (rule wp_mono [OF set_banned_effect]) auto
  from change_coherent [OF assms(2) this, of "\<lambda>_. ()"] show ?thesis using suspend by (simp add: change_ban_def seq_ret)
next
  case (notice e)
  then show ?thesis using notice_coherent [OF assms(2)] by simp
next
  case (pause k)
  then show ?thesis using assms(2) by (auto simp: coherent_def laws spec_wait_def split: option.splits if_splits)
next
  case (other w)
  then show ?thesis using assms(2,3) coherent_world by simp
qed

text \<open>Without a cached entry a decision is read from the database.\<close>

lemma is_banned_uncached:
  assumes "ok (nd_cache n)" "tc_strings (abs (nd_cache n)) (ban_key u) = None"
  shows "wp (AuthorizationService_is_banned ops ttl u) (\<lambda>b _. b = stored_ban u (nd_world n)) (\<lambda>_ _. True) n"
proof -
  have miss: "fst (co_get ops (ban_key u) (nd_cache n)) = None" using assms by (simp add: laws spec_get_def)
  show ?thesis
    unfolding AuthorizationService_is_banned_def PgUserAdminRepository_is_banned_def wp_seq wp_on_cache miss option.case wp_modify
    by (rule wp_read_decision) (simp_all add: stored_reads wp_simps Let_def del: case_map_option)
qed

lemma role_of_uncached:
  assumes "ok (nd_cache n)" "tc_strings (abs (nd_cache n)) (role_key u) = None"
  shows "wp (AuthorizationService_role_of ops ttl u) (\<lambda>ro _. ro = stored_role u (nd_world n)) (\<lambda>_ _. True) n"
proof -
  have miss: "fst (co_get ops (role_key u) (nd_cache n)) = None" using assms by (simp add: laws spec_get_def)
  show ?thesis
    unfolding AuthorizationService_role_of_def load_role_def PgUserAdminRepository_find_role_def wp_seq wp_on_cache miss
      option.case wp_modify
    by (rule wp_read_decision) (simp_all add: stored_reads wp_simps Let_def del: case_map_option)
qed

text \<open>Every entry about a user was written with the service's time to live.\<close>

definition short_lived :: "int \<Rightarrow> 's node \<Rightarrow> bool" where
  "short_lived ttl n \<longleftrightarrow> ok (nd_cache n) \<and>
     (\<forall>u v e. tc_strings (abs (nd_cache n)) (role_key u) = Some (v, e) \<or>
        tc_strings (abs (nd_cache n)) (ban_key u) = Some (v, e) \<longrightarrow>
        (\<exists>t. e = Some t \<and> t \<le> tc_clock (abs (nd_cache n)) + nanoseconds ttl))"

lemma short_lived_frame [simp]:
  "short_lived ttl (n\<lparr>nd_authz_misses := a\<rparr>) = short_lived ttl n" "short_lived ttl (n\<lparr>nd_authz_hits := a\<rparr>) = short_lived ttl n"
  "short_lived ttl (n\<lparr>nd_invalidations := es\<rparr>) = short_lived ttl n" "short_lived ttl (n\<lparr>nd_world := w\<rparr>) = short_lived ttl n"
  by (simp_all add: short_lived_def)

lemma short_lived_ops:
  assumes "short_lived ttl n"
  shows "short_lived ttl (n\<lparr>nd_cache := snd (co_get ops k (nd_cache n))\<rparr>)"
    "short_lived ttl (n\<lparr>nd_cache := snd (co_del ops k (nd_cache n))\<rparr>)"
    "0 < ttl \<Longrightarrow> short_lived ttl (n\<lparr>nd_cache := co_set ops k v ttl (nd_cache n)\<rparr>)"
  using assms by (auto simp: short_lived_def laws spec_del_def spec_set_def deadline_def)

lemma short_lived_wait:
  assumes "short_lived ttl n"
  shows "short_lived ttl (n\<lparr>nd_cache := wait j (nd_cache n)\<rparr>)"
proof -
  have "\<exists>t. e = Some t \<and> t \<le> tc_clock (abs (nd_cache n)) + int j + nanoseconds ttl"
    if "tc_strings (abs (nd_cache n)) (role_key u) = Some (v, e) \<or> tc_strings (abs (nd_cache n)) (ban_key u) = Some (v, e)"
    for u v e
    using assms that unfolding short_lived_def by fastforce
  then show ?thesis
    using assms by (auto simp: short_lived_def laws spec_wait_def split: option.splits if_splits)
qed

lemma expired_decisions:
  assumes "short_lived ttl n" "nanoseconds ttl \<le> int k"
  shows "ok (wait k (nd_cache n))" "tc_strings (abs (wait k (nd_cache n))) (role_key u) = None"
    "tc_strings (abs (wait k (nd_cache n))) (ban_key u) = None"
proof -
  have "entry_expired (tc_clock (abs (nd_cache n)) + int k) e"
    if "tc_strings (abs (nd_cache n)) (role_key u) = Some (v, e) \<or> tc_strings (abs (nd_cache n)) (ban_key u) = Some (v, e)"
    for v e
    using assms that unfolding short_lived_def entry_expired_def by fastforce
  then show "ok (wait k (nd_cache n))" "tc_strings (abs (wait k (nd_cache n))) (role_key u) = None"
    "tc_strings (abs (wait k (nd_cache n))) (ban_key u) = None"
    using assms(1) by (auto simp: short_lived_def laws spec_wait_def split: option.splits)
qed

lemma short_lived_rules:
  "keeps (inv_rel (short_lived ttl)) (on_world m)"
  "keeps (inv_rel (short_lived ttl)) (on_cache (co_get ops k))"
  "keeps (inv_rel (short_lived ttl)) (on_cache (co_del ops k))"
  "0 < ttl \<Longrightarrow> keeps (inv_rel (short_lived ttl)) (on_cache (\<lambda>s. ((), co_set ops k v ttl s)))"
  "keeps (inv_rel (short_lived ttl)) (modify (\<lambda>n. n\<lparr>nd_authz_misses := nd_authz_misses n + 1\<rparr>))"
  "keeps (inv_rel (short_lived ttl)) count_hit" "keeps (inv_rel (short_lived ttl)) (publish_invalidation e)"
  using short_lived_ops
  by (auto simp: keeps_def inv_rel_def on_world_def on_cache_def count_hit_def publish_invalidation_def split_beta)

lemma short_lived_actions:
  assumes "0 < ttl"
  shows "keeps (inv_rel (short_lived ttl)) (AuthorizationService_role_of ops ttl u)"
    "keeps (inv_rel (short_lived ttl)) (AuthorizationService_is_banned ops ttl u)"
    "keeps (inv_rel (short_lived ttl)) (change_role ops u ro)"
    "keeps (inv_rel (short_lived ttl)) (change_ban ops u banned reason actor)"
    "keeps (inv_rel (short_lived ttl)) (apply_invalidation ops e)"
  unfolding AuthorizationService_role_of_def load_role_def AuthorizationService_is_banned_def change_role_def change_ban_def
    apply_invalidation_def AuthorizationService_invalidate_def AuthorizationService_invalidate_local_def
  by - (intro inv_step.keeps_rules short_lived_rules assms)+

lemma step_short_lived:
  assumes "authz_step ops wait ttl allowed n n'" "short_lived ttl n" "0 < ttl"
  shows "short_lived ttl n'"
  using assms(1)
proof cases
  case (pause k)
  then show ?thesis using short_lived_wait [OF assms(2)] by simp
next
  case (other w)
  then show ?thesis using assms(2) by simp
qed (use short_lived_actions [OF assms(3)] assms(2) in \<open>simp_all add: keeps_def inv_rel_def\<close>)

end

lemma memory_short_lived: "nd_cache n = empty_store \<Longrightarrow> mem.short_lived ttl n"
  by (simp add: mem.short_lived_def) (simp add: memory_abs_def empty_store_def live_string_def)

lemma memory_coherent: "nd_cache n = empty_store \<Longrightarrow> mem.coherent n"
  by (simp add: mem.coherent_def) (simp add: memory_abs_def empty_store_def live_string_def)

text \<open>The service answers whenever the database works.\<close>

lemma decisions_answer:
  assumes "faults (nd_world n) = []"
  shows "\<exists>ro n'. AuthorizationService_role_of ops ttl u n = (Inr ro, n')"
    and "\<exists>b n'. AuthorizationService_is_banned ops ttl u n = (Inr b, n')"
proof -
  have load: "\<exists>ro n'. load_role ops ttl u m = (Inr ro, n')" if "faults (nd_world m) = []" for m
    using that
    by (simp add: load_role_def on_world_def on_cache_def PgUserAdminRepository_find_role_def run_read act_simps split_beta Let_def)
  show "\<exists>ro n'. AuthorizationService_role_of ops ttl u n = (Inr ro, n')"
    using assms
    by (auto simp: AuthorizationService_role_of_def on_cache_def count_hit_def act_simps split_beta load split: option.splits)
  show "\<exists>b n'. AuthorizationService_is_banned ops ttl u n = (Inr b, n')"
    using assms
    by (auto simp: AuthorizationService_is_banned_def on_world_def on_cache_def count_hit_def run_read
        PgUserAdminRepository_is_banned_def act_simps split_beta Let_def split: option.splits)
qed


text \<open>Once a ban is written, the node that wrote it lets the user pass no more; and any other node, whatever
  its cache says, agrees as soon as it has applied the notice.\<close>

lemma ban_known:
  assumes ban: "change_ban InMemoryCacheStore u True reason actor n = (Inr (), n')"
    and ok: "memory_ok (nd_cache n)" "memory_ok (nd_cache m)" and id: "int64_min \<le> u" "u \<le> int64_max"
    and shared: "db (nd_world m) = db (nd_world n')"
  shows "fst (AuthorizationService_require_active InMemoryCacheStore ttl u n') \<noteq> Inr () \<and>
    fst (AuthorizationService_require_active InMemoryCacheStore ttl u
      (final (apply_invalidation InMemoryCacheStore (last (nd_invalidations n'))) m)) \<noteq> Inr ()"
proof -
  obtain w where set: "PgUserAdminRepository_set_banned u True reason actor (nd_world n) = (Inr (), w)"
    using ban
    by (cases "PgUserAdminRepository_set_banned u True reason actor (nd_world n)")
       (auto simp: change_ban_def on_world_def elim!: seq_succeedsE)
  have n': "n' = final (AuthorizationService_invalidate InMemoryCacheStore u) (n\<lparr>nd_world := w\<rparr>)"
    using ban set by (simp add: change_ban_def on_world_def act_simps)
  have banned: "stored_ban u w" using wpD_Inr [OF set_banned_effect set] by simp
  have n'': "nd_world n' = w" "memory_ok (nd_cache n')" "tc_strings (memory_abs (nd_cache n')) (ban_key u) = None"
    "last (nd_invalidations n') = \<lparr>ie_scope = kAuthorization_scope, ie_key = to_string u, ie_sub_key = []\<rparr>"
    using ok(1)
    by (simp_all add: n' AuthorizationService_invalidate_def AuthorizationService_invalidate_local_def on_cache_def
        publish_invalidation_def act_simps split_beta mem.laws spec_del_def)
  let ?m = "final (apply_invalidation InMemoryCacheStore \<lparr>ie_scope = kAuthorization_scope, ie_key = to_string u, ie_sub_key = []\<rparr>) m"
  have m': "db (nd_world ?m) = db w" "memory_ok (nd_cache ?m)" "tc_strings (memory_abs (nd_cache ?m)) (ban_key u) = None"
    using ok(2) shared n''(1) stoll_to_string [OF id]
    by (simp_all add: apply_invalidation_def AuthorizationService_invalidate_local_def on_cache_def act_simps split_beta
        mem.laws spec_del_def)
  have active: "fst (AuthorizationService_require_active InMemoryCacheStore ttl u k) \<noteq> Inr ()"
    if "memory_ok (nd_cache k)" "tc_strings (memory_abs (nd_cache k)) (ban_key u) = None" "stored_ban u (nd_world k)" for k
  proof -
    have "wp (AuthorizationService_require_active InMemoryCacheStore ttl u) (\<lambda>_ _. False) (\<lambda>_ _. True) k"
      unfolding AuthorizationService_require_active_def wp_seq
      by (rule wp_mono [OF mem.is_banned_uncached [OF that(1,2)]]) (use that(3) in \<open>auto simp: wp_require\<close>)
    then show ?thesis by (auto simp: wp_def split: prod.splits sum.splits)
  qed
  have "stored_ban u (nd_world ?m)" using banned m'(1) by (simp add: stored_ban_def)
  with active [OF n''(2,3)] active [OF m'(2,3)] banned n''(1,4) show ?thesis by simp
qed

text \<open>Without any notice a decision is stale for no longer than the time to live: whatever happened to
  the database in between, when that time has passed since the last step, the answers are those
  of the database again, and there are answers when the database works.\<close>

theorem authz_staleness:
  assumes "(authz_step InMemoryCacheStore memory_wait ttl (\<lambda>_ _. True))\<^sup>*\<^sup>* n0 n" "nd_cache n0 = empty_store"
    and "0 < ttl" "nanoseconds ttl \<le> int k"
    and late: "late = n\<lparr>nd_cache := memory_wait k (nd_cache n), nd_world := w\<rparr>"
  shows "(AuthorizationService_role_of InMemoryCacheStore ttl u late = (Inr ro, n') \<longrightarrow> ro = stored_role u w) \<and>
    (AuthorizationService_is_banned InMemoryCacheStore ttl u late = (Inr b, n') \<longrightarrow> b = stored_ban u w) \<and>
    (faults w = [] \<longrightarrow>
       (\<exists>m. AuthorizationService_role_of InMemoryCacheStore ttl u late = (Inr (stored_role u w), m)) \<and>
       (\<exists>m. AuthorizationService_is_banned InMemoryCacheStore ttl u late = (Inr (stored_ban u w), m)))"
proof -
  have "mem.short_lived ttl n"
    using assms(1) memory_short_lived [OF assms(2)] by induction (auto intro: mem.step_short_lived assms(3))
  note gone = mem.expired_decisions [OF this assms(4)]
  have "wp (AuthorizationService_role_of InMemoryCacheStore ttl u) (\<lambda>ro _. ro = stored_role u (nd_world late)) (\<lambda>_ _. True) late"
    by (rule mem.role_of_uncached) (use gone late in simp_all)
  moreover have "wp (AuthorizationService_is_banned InMemoryCacheStore ttl u) (\<lambda>b _. b = stored_ban u (nd_world late)) (\<lambda>_ _. True) late"
    by (rule mem.is_banned_uncached) (use gone late in simp_all)
  moreover have "faults w = [] \<Longrightarrow> \<exists>ro m. AuthorizationService_role_of InMemoryCacheStore ttl u late = (Inr ro, m)"
    "faults w = [] \<Longrightarrow> \<exists>b m. AuthorizationService_is_banned InMemoryCacheStore ttl u late = (Inr b, m)"
    using decisions_answer [of late] late by simp_all
  ultimately show ?thesis using late by (fastforce dest: wpD_Inr)
qed

definition example_node :: "memory_store node" where
  "example_node = \<lparr>nd_world = example_world, nd_cache = empty_store, nd_authz_hits = 0, nd_authz_misses = 0,
     nd_invalidations = []\<rparr>"

lemma example_ban_runs:
  "\<exists>n'. change_ban InMemoryCacheStore 3 True None (Some 1) example_node = (Inr (), n') \<and> faults (nd_world n') = []"
proof -
  have "\<exists>w. PgUserAdminRepository_set_banned 3 True None (Some 1) example_world = (Inr (), w) \<and> faults w = []"
    by (simp add: PgUserAdminRepository_set_banned_def with_transaction_quiet example_world_def act_simps check_varchar_def)
       (simp add: example_defs find_record_def user_exists_def act_simps)
  then show ?thesis
    by (auto simp: change_ban_def on_world_def example_node_def AuthorizationService_invalidate_def
        AuthorizationService_invalidate_local_def on_cache_def publish_invalidation_def act_simps split_beta)
qed


theorem authz_staleness_witness:
  "\<exists>m. AuthorizationService_is_banned InMemoryCacheStore 30 3
     (example_node\<lparr>nd_cache := memory_wait 30000000000 (nd_cache example_node), nd_world := example_world\<rparr>) =
       (Inr (stored_ban 3 example_world), m)"
proof -
  have "faults example_world = []" by (simp add: example_world_def)
  then show ?thesis
    using authz_staleness [OF rtranclp.rtrancl_refl, of example_node 30 30000000000 _ example_world]
    by (simp add: example_node_def nanoseconds_def)
qed

end
