(* ===== verification/Http.thy ===== *)
theory Http
  imports Tracing Settings Authorization Accounts
begin

text \<open>
  The HTTP surface every controller shares: requests and responses, the JSON body and response helpers,
  the bearer-token guard, API versioning, and the five global middlewares in the order the application
  type lists them. Crow is third-party: a request arrives with Crow's lookup functions for headers and
  query parameters, and the order in which Crow runs the middlewares is the one \<^verbatim>\<open>http/app.hpp\<close> documents.
\<close>


section \<open>Requests and responses\<close>

datatype http_method = Get | Post | Put | Patch | Delete | Head | Options

fun method_name :: "http_method \<Rightarrow> string" where
  "method_name Get = ''GET''"
| "method_name Post = ''POST''"
| "method_name Put = ''PUT''"
| "method_name Patch = ''PATCH''"
| "method_name Delete = ''DELETE''"
| "method_name Head = ''HEAD''"
| "method_name Options = ''OPTIONS''"

record request =
  rq_method :: http_method
  rq_url :: string
  rq_header :: "string \<Rightarrow> string"
  rq_params :: query
  rq_body :: string
  rq_remote_ip :: string

definition set_header :: "string \<Rightarrow> string \<Rightarrow> response \<Rightarrow> response" where
  "set_header k v r = r\<lparr>resp_headers := AList.update k v (resp_headers r)\<rparr>"

definition get_header :: "string \<Rightarrow> response \<Rightarrow> string" where
  "get_header k r = (case map_of (resp_headers r) k of Some v \<Rightarrow> v | None \<Rightarrow> [])"

definition erase_header :: "string \<Rightarrow> response \<Rightarrow> response" where
  "erase_header k r = r\<lparr>resp_headers := AList.delete k (resp_headers r)\<rparr>"

definition json_response :: "(json \<Rightarrow> string) \<Rightarrow> int \<Rightarrow> json \<Rightarrow> response" where
  "json_response dump status body =
     set_header ''Content-Type'' ''application/json'' \<lparr>resp_code = status, resp_body = dump body, resp_headers = []\<rparr>"

definition parse_json_body :: "(string \<Rightarrow> json option) \<Rightarrow> request \<Rightarrow> json result" where
  "parse_json_body parse req =
     (case parse (rq_body req) of
        None \<Rightarrow> Inl (ValidationException ''Request body is not valid JSON'' [])
      | Some parsed \<Rightarrow> Inr parsed)"


section \<open>The bearer-token guard\<close>

definition kBearerPrefix :: string where "kBearerPrefix = ''Bearer ''"

definition ltrim :: "string \<Rightarrow> string" where
  "ltrim = dropWhile (\<lambda>c. c = CHR '' '' \<or> c = char_of (9::nat))"

definition extract_bearer_token :: "request \<Rightarrow> string option" where
  "extract_bearer_token req =
     (let header = rq_header req ''Authorization''; view = ltrim header; n = length kBearerPrefix
      in if header = [] then None
         else if length view \<le> n then None
         else if map tolower (take (n - 1) view) \<noteq> map tolower (take (n - 1) kBearerPrefix) \<or> view ! (n - 1) \<noteq> CHR '' ''
         then None
         else let token = ltrim (drop n view) in if token = [] then None else Some token)"

definition AuthMiddleware_authenticate_token_only :: "token_service \<Rightarrow> request \<Rightarrow> token_claims act" where
  "AuthMiddleware_authenticate_token_only tokens req =
     (case extract_bearer_token req of
        None \<Rightarrow> throw (AuthenticationException ''Missing or malformed Authorization header'' [])
      | Some token \<Rightarrow> ts_verify tokens token kAccess)"

text \<open>With the authorization service attached, as the application wires it.\<close>

definition AuthMiddleware_authenticate ::
    "'s cache_ops \<Rightarrow> int \<Rightarrow> token_service \<Rightarrow> request \<Rightarrow> ('s, token_claims) node_act" where
  "AuthMiddleware_authenticate ops ttl tokens req =
     seq (on_world (AuthMiddleware_authenticate_token_only tokens req)) (\<lambda>claims.
     seq (AuthorizationService_require_active ops ttl (tk_user_id claims)) (\<lambda>_.
     ret claims))"


section \<open>API versions\<close>

definition kSupportedApiVersions :: "int list" where "kSupportedApiVersions = [1]"
definition kDefaultApiVersion :: int where "kDefaultApiVersion = 1"
definition kCurrentApiVersion :: int where "kCurrentApiVersion = 1"
definition kApiPrefix :: string where "kApiPrefix = ''/api''"
definition kApiVersionHeader :: string where "kApiVersionHeader = ''X-API-Version''"
definition kVersionedPrefix :: string where "kVersionedPrefix = ''/api/v''"

definition is_supported_api_version :: "int \<Rightarrow> bool" where
  "is_supported_api_version version = list_ex (\<lambda>supported. supported = version) kSupportedApiVersions"

definition api_version_label :: "int \<Rightarrow> string" where
  "api_version_label version = CHR ''v'' # to_string version"

definition supported_api_versions_label :: string where
  "supported_api_versions_label =
     fold (\<lambda>version out. (if out \<noteq> [] then out @ '', '' else out) @ api_version_label version) kSupportedApiVersions []"

record api_version_rewrite =
  av_has_prefix :: bool
  av_version :: int
  av_normalised :: string

definition parse_versioned_path :: "string \<Rightarrow> api_version_rewrite" where
  "parse_versioned_path path =
     (let n = length kVersionedPrefix; unversioned = \<lparr>av_has_prefix = False, av_version = 0, av_normalised = path\<rparr>;
          digits = takeWhile isdigit (drop n path); rest = dropWhile isdigit (drop n path)
      in if length path \<le> n \<or> take n path \<noteq> kVersionedPrefix then unversioned
         else if digits = [] then unversioned
         else if rest \<noteq> [] \<and> hd rest \<noteq> CHR ''/'' \<and> hd rest \<noteq> CHR ''?'' then unversioned
         else case from_chars_int digits of
                Some (version, []) \<Rightarrow> \<lparr>av_has_prefix = True, av_version = version, av_normalised = kApiPrefix @ rest\<rparr>
              | _ \<Rightarrow> unversioned)"


section \<open>The middlewares\<close>

text \<open>The thread that serves a request: its tracing state, the request id its log lines carry, the access
  log (with the lines at error level marked), whether metrics are wired, and the CORS policy.\<close>

record web =
  wb_thread :: traced
  wb_request_id :: string
  wb_log :: "(bool \<times> string) list"
  wb_registry :: bool
  wb_origins :: string

definition fresh_request_id :: "web \<Rightarrow> string \<times> web" where
  "fresh_request_id t = (case draw_id (generate_hex_token 8) (wb_thread t) of (i, th) \<Rightarrow> (i, t\<lparr>wb_thread := th\<rparr>))"

subsection \<open>Security\<close>

definition kCspOverrideHeader :: string where "kCspOverrideHeader = ''X-RTC-CSP-Override''"

definition default_csp :: string where
  "default_csp = ''default-src '' @ [char_of (39::nat)] @ ''none'' @ [char_of (39::nat)] @ ''; frame-ancestors '' @
     [char_of (39::nat)] @ ''none'' @ [char_of (39::nat)]"

definition apply_cors :: "string \<Rightarrow> response \<Rightarrow> response" where
  "apply_cors origins res =
     set_header ''Access-Control-Max-Age'' ''600''
       (set_header ''Access-Control-Allow-Headers'' ''Authorization, Content-Type''
         (set_header ''Access-Control-Allow-Methods'' ''GET, POST, PUT, PATCH, DELETE, OPTIONS''
           (set_header ''Access-Control-Allow-Origin'' origins res)))"

text \<open>The flag is \<^verbatim>\<open>res.end()\<close>.\<close>

definition SecurityMiddleware_before :: "string \<Rightarrow> request \<Rightarrow> response \<Rightarrow> response \<times> bool" where
  "SecurityMiddleware_before origins req res =
     (if rq_method req = Options then ((apply_cors origins res)\<lparr>resp_code := 204\<rparr>, True) else (res, False))"

definition SecurityMiddleware_after :: "string \<Rightarrow> response \<Rightarrow> response" where
  "SecurityMiddleware_after origins res =
     (let res = set_header ''X-XSS-Protection'' ''0'' (set_header ''Referrer-Policy'' ''no-referrer''
            (set_header ''X-Frame-Options'' ''DENY'' (set_header ''X-Content-Type-Options'' ''nosniff''
              (apply_cors origins res))));
          requested = get_header kCspOverrideHeader res
      in if requested = [] then set_header ''Content-Security-Policy'' default_csp res
         else erase_header kCspOverrideHeader (set_header ''Content-Security-Policy'' requested res))"

subsection \<open>Metrics\<close>

text \<open>Durations are in ticks of the steady clock.\<close>

definition on_thread_world :: "(world \<Rightarrow> world) \<Rightarrow> web \<Rightarrow> web" where
  "on_thread_world f t = t\<lparr>wb_thread := (wb_thread t)\<lparr>td_world := f (td_world (wb_thread t))\<rparr>\<rparr>"

definition MetricsMiddleware_after :: "int \<Rightarrow> response \<Rightarrow> web \<Rightarrow> web" where
  "MetricsMiddleware_after start res t =
     (if \<not> wb_registry t then t
      else on_thread_world (\<lambda>w.
        let w = final (increment ''rtc_http_requests_total'') w;
            w = final (observe ''rtc_http_request_seconds'' (td_steady (wb_thread t) - start)) w
        in if resp_code res \<ge> 500 then final (increment ''rtc_http_5xx_total'') w
           else if resp_code res \<ge> 400 then final (increment ''rtc_http_4xx_total'') w else w) t)"

subsection \<open>Tracing\<close>

definition kRequestIdHeader :: string where "kRequestIdHeader = ''X-Request-Id''"
definition kTraceParentHeader :: string where "kTraceParentHeader = ''traceparent''"
definition kTraceStateHeader :: string where "kTraceStateHeader = ''tracestate''"

record tracing_ctx =
  tc_span :: scoped_span
  tc_request_id :: string
  tc_traceparent :: string

definition no_scope :: scoped_span where
  "no_scope = \<lparr>sn_span = inert_span, sn_previous = None, sn_active = False\<rparr>"

definition assign_request_id :: "request \<Rightarrow> web \<Rightarrow> string \<times> request \<times> web" where
  "assign_request_id req t =
     (let inbound = rq_header req kRequestIdHeader
      in if inbound = []
         then (case fresh_request_id t of (i, t) \<Rightarrow> (i, req\<lparr>rq_header := (rq_header req)(kRequestIdHeader := i)\<rparr>, t))
         else (inbound, req, t))"

text \<open>The opened scope and the \<^verbatim>\<open>traceparent\<close> to answer with.\<close>

definition open_request_span :: "string \<Rightarrow> request \<Rightarrow> traced \<Rightarrow> (scoped_span \<times> string) \<times> traced" where
  "open_request_span request_id req th =
     (if \<not> to_enabled (tr_options (td_tracer th)) then ((no_scope, []), th)
      else let parent = map_option (\<lambda>c. c\<lparr>sc_trace_state := rq_header req kTraceStateHeader\<rparr>)
                          (parse_traceparent (rq_header req kTraceParentHeader));
               (span, th) = Tracer_start_span (method_name (rq_method req) @ '' '' @ rq_url req) kServer parent th;
               span = fold (\<lambda>(k, v). Span_set_attribute k v)
                 ([(''http.request.method'', method_name (rq_method req)), (''url.path'', rq_url req),
                   (''url.scheme'', ''http''), (''network.protocol.name'', ''http''), (''rtc.request_id'', request_id)] @
                  (if rq_remote_ip req \<noteq> [] then [(''client.address'', rq_remote_ip req)] else []) @
                  (if rq_header req ''User-Agent'' \<noteq> [] then [(''user_agent.original'', rq_header req ''User-Agent'')] else []))
                 span;
               (scope, th) = ScopedSpan_open span th
           in ((scope, if is_recording span then format_traceparent (sp_context span) else []), th))"

definition TracingMiddleware_before :: "request \<Rightarrow> web \<Rightarrow> tracing_ctx \<times> request \<times> web" where
  "TracingMiddleware_before req t =
     (case assign_request_id req t of (request_id, req, t) \<Rightarrow>
        case open_request_span request_id req (wb_thread t) of ((scope, traceparent), th) \<Rightarrow>
          (\<lparr>tc_span = scope, tc_request_id = request_id, tc_traceparent = traceparent\<rparr>, req, t\<lparr>wb_thread := th\<rparr>))"

definition TracingMiddleware_after :: "tracing_ctx \<Rightarrow> response \<Rightarrow> web \<Rightarrow> response \<times> web" where
  "TracingMiddleware_after ctx res t =
     (let res = set_header kRequestIdHeader (tc_request_id ctx) res;
          res = (if tc_traceparent ctx \<noteq> [] then set_header kTraceParentHeader (tc_traceparent ctx) res else res);
          scope = tc_span ctx;
          span = (if is_recording (sn_span scope)
                  then (let span = Span_set_attribute_int ''http.response.status_code'' (resp_code res) (sn_span scope)
                        in if resp_code res \<ge> 500 then Span_set_status kErrorStatus (''HTTP '' @ to_string (resp_code res)) span
                           else Span_set_status kOk [] span)
                  else sn_span scope)
      in (res, t\<lparr>wb_thread := ScopedSpan_close (scope\<lparr>sn_span := span\<rparr>) (wb_thread t)\<rparr>))"

subsection \<open>Access log\<close>

definition LoggingMiddleware_before :: "request \<Rightarrow> web \<Rightarrow> (int \<times> string) \<times> web" where
  "LoggingMiddleware_before req t =
     (let start = td_steady (wb_thread t); inbound = rq_header req kRequestIdHeader;
          (request_id, t) = (if inbound = [] then fresh_request_id t else (inbound, t))
      in ((start, request_id),
          t\<lparr>wb_request_id := request_id,
            wb_log := wb_log t @ [(False, ''--> '' @ method_name (rq_method req) @ '' '' @ rq_url req)]\<rparr>))"

definition LoggingMiddleware_after :: "int \<times> string \<Rightarrow> request \<Rightarrow> response \<Rightarrow> web \<Rightarrow> response \<times> web" where
  "LoggingMiddleware_after ctx req res t = (case ctx of (start, request_id) \<Rightarrow>
     (let res = set_header kRequestIdHeader request_id res; micros = td_steady (wb_thread t) - start
      in (res, t\<lparr>wb_request_id := [],
                 wb_log := wb_log t @ [(resp_code res \<ge> 500,
                   ''<-- '' @ method_name (rq_method req) @ '' '' @ rq_url req @ '' '' @ to_string (resp_code res) @
                   '' ('' @ to_string micros @ '' us)'')]\<rparr>)))"

subsection \<open>API version\<close>

definition ApiVersionMiddleware_before :: "(json \<Rightarrow> string) \<Rightarrow> request \<Rightarrow> response \<Rightarrow> int \<times> response \<times> bool" where
  "ApiVersionMiddleware_before dump req res =
     (let parsed = parse_versioned_path (rq_url req)
      in if \<not> av_has_prefix parsed then (kDefaultApiVersion, res, False)
         else if \<not> is_supported_api_version (av_version parsed)
         then (kCurrentApiVersion,
               (set_header kApiVersionHeader (api_version_label kCurrentApiVersion)
                 (set_header ''Content-Type'' ''application/json'' (res\<lparr>resp_code := http_status_for kNotFound\<rparr>)))
                 \<lparr>resp_body := dump (make_error_body ''unsupported_api_version''
                    (''Unsupported API version: '' @ api_version_label (av_version parsed))
                    (''supported='' @ supported_api_versions_label))\<rparr>, True)
         else (av_version parsed, res, False))"

definition ApiVersionMiddleware_after :: "int \<Rightarrow> response \<Rightarrow> response" where
  "ApiVersionMiddleware_after version res = set_header kApiVersionHeader (api_version_label version) res"


section \<open>The stack\<close>

definition fresh_response :: response where
  "fresh_response = \<lparr>resp_code = 200, resp_body = [], resp_headers = []\<rparr>"

text \<open>A matched request: \<^verbatim>\<open>before_handle\<close> runs top to bottom, the handler, then \<^verbatim>\<open>after_handle\<close> bottom to top. When
  a \<^verbatim>\<open>before_handle\<close> ends the response, only the middlewares that have run unwind.\<close>

definition App_handle ::
    "(json \<Rightarrow> string) \<Rightarrow> (request \<Rightarrow> web \<Rightarrow> response \<times> web) \<Rightarrow> request \<Rightarrow> web \<Rightarrow> response \<times> web" where
  "App_handle dump handler req t =
     (case SecurityMiddleware_before (wb_origins t) req fresh_response of
        (res, True) \<Rightarrow> (SecurityMiddleware_after (wb_origins t) res, t)
      | (res, False) \<Rightarrow>
          let start = td_steady (wb_thread t);
              (tctx, req, t) = TracingMiddleware_before req t;
              (lctx, t) = LoggingMiddleware_before req t;
              (version, res, ended) = ApiVersionMiddleware_before dump req res;
              (res, t) = (if ended then (res, t) else handler req t);
              res = ApiVersionMiddleware_after version res;
              (res, t) = LoggingMiddleware_after lctx req res t;
              (res, t) = TracingMiddleware_after tctx res t;
              t = MetricsMiddleware_after start res t
          in (SecurityMiddleware_after (wb_origins t) res, t))"

section \<open>What every response carries\<close>

lemma get_header_simps [simp]:
  "get_header k (set_header k' v r) = (if k = k' then v else get_header k r)"
  "get_header k (erase_header k' r) = (if k = k' then [] else get_header k r)"
  "get_header k (r\<lparr>resp_code := c\<rparr>) = get_header k r" "get_header k (r\<lparr>resp_body := b\<rparr>) = get_header k r"
  by (simp_all add: get_header_def set_header_def erase_header_def update_conv' delete_conv')

lemma resp_code_simps [simp]: "resp_code (set_header k v r) = resp_code r" "resp_code (erase_header k r) = resp_code r"
  by (simp_all add: set_header_def erase_header_def)

definition hardened :: "string \<Rightarrow> response \<Rightarrow> bool" where
  "hardened origins res \<longleftrightarrow>
     get_header ''X-Content-Type-Options'' res = ''nosniff'' \<and> get_header ''X-Frame-Options'' res = ''DENY'' \<and>
     get_header ''Referrer-Policy'' res = ''no-referrer'' \<and> get_header ''Access-Control-Allow-Origin'' res = origins \<and>
     get_header ''Content-Security-Policy'' res \<noteq> [] \<and> get_header kCspOverrideHeader res = []"

lemma security_after_hardened: "hardened origins (SecurityMiddleware_after origins res)"
  by (simp add: hardened_def SecurityMiddleware_after_def apply_cors_def kCspOverrideHeader_def default_csp_def Let_def)

lemma security_after_keeps:
  "get_header kRequestIdHeader (SecurityMiddleware_after origins res) = get_header kRequestIdHeader res"
  "get_header kApiVersionHeader (SecurityMiddleware_after origins res) = get_header kApiVersionHeader res"
  by (simp_all add: SecurityMiddleware_after_def apply_cors_def kCspOverrideHeader_def Let_def kRequestIdHeader_def
      kApiVersionHeader_def)

lemma tracing_before_id:
  assumes "TracingMiddleware_before req t = (tctx, req', t')"
  shows "tc_request_id tctx =
    (if rq_header req kRequestIdHeader = [] then fst (fresh_request_id t) else rq_header req kRequestIdHeader)"
  using assms
  by (auto simp: TracingMiddleware_before_def assign_request_id_def Let_def split: prod.splits)

lemma header_names_differ [simp]:
  "kApiVersionHeader \<noteq> kRequestIdHeader" "kApiVersionHeader \<noteq> kTraceParentHeader" "kRequestIdHeader \<noteq> kTraceParentHeader"
  by (simp_all add: kApiVersionHeader_def kRequestIdHeader_def kTraceParentHeader_def)

lemma logging_after:
  "LoggingMiddleware_after ctx req res t = (res', t') \<Longrightarrow>
    get_header kApiVersionHeader res' = get_header kApiVersionHeader res \<and> wb_request_id t' = []"
  by (cases ctx) (auto simp: LoggingMiddleware_after_def Let_def)

lemma tracing_after:
  "TracingMiddleware_after ctx res t = (res', t') \<Longrightarrow>
    get_header kRequestIdHeader res' = tc_request_id ctx \<and>
    get_header kApiVersionHeader res' = get_header kApiVersionHeader res \<and> wb_request_id t' = wb_request_id t"
  unfolding TracingMiddleware_after_def Let_def by (cases "tc_traceparent ctx = []") auto

lemma label_one: "api_version_label 1 = ''v1''"
  by code_simp

lemma version_served: "fst (ApiVersionMiddleware_before dump req res) = 1"
  by (simp add: ApiVersionMiddleware_before_def Let_def kDefaultApiVersion_def kCurrentApiVersion_def
      is_supported_api_version_def kSupportedApiVersions_def)

lemma hex_token_length: "generate_hex_token n w = (Inr s, w') \<Longrightarrow> length s = 2 * n"
  by (auto simp: generate_hex_token_def hex_byte_def length_concat o_def sum_list_triv)

lemma fresh_request_id_length: "length (fst (fresh_request_id t)) = 16"
proof -
  obtain s w where "generate_hex_token 8 (td_world (wb_thread t)) = (Inr s, w)" by (simp add: generate_hex_token_def)
  then show ?thesis using hex_token_length [of 8] by (auto simp: fresh_request_id_def draw_id_def)
qed


text \<open>Only a complete \<^verbatim>\<open>v<digits>\<close> segment is a version.\<close>

lemma parse_versioned_path_number:
  assumes "0 \<le> n" "n \<le> int32_max" "rest = [] \<or> hd rest = CHR ''/'' \<or> hd rest = CHR ''?''"
  shows "parse_versioned_path (kVersionedPrefix @ to_string n @ rest) =
    \<lparr>av_has_prefix = True, av_version = n, av_normalised = kApiPrefix @ rest\<rparr>"
proof -
  have digits: "\<forall>c \<in> set (to_string n). isdigit c" "to_string n \<noteq> []"
    using assms(1) nat_to_string_digits by (simp_all add: to_string_def)
  have nd: "rest = [] \<or> \<not> isdigit (hd rest)" using assms(3) by (auto simp: isdigit_def)
  have "from_chars_int (to_string n) = Some (n, [])"
    using from_chars_to_string [of int32_min n int32_max "[]"] assms by (simp add: int32_min_def)
  then show ?thesis
    using digits nd takeWhile_digits_append [OF digits(1) nd] dropWhile_digits_append [OF digits(1) nd] assms(3)
    by (auto simp: parse_versioned_path_def Let_def)
qed

end
