(* ===== verification/Storage.thy ===== *)
theory Storage
  imports Notifications
begin

text \<open>
  File handling below the attachment service: the MIME allow-list (\<^verbatim>\<open>media/mime.cpp\<close>), the
  derivation of the stored content type (\<^verbatim>\<open>resolve_content_type\<close> of \<^verbatim>\<open>attachment_service.cpp\<close>) and
  \<^verbatim>\<open>LocalFileStorage\<close>. A file of the disk is addressed by the list of its path components below
  the storage root. Whether the operating system refuses or cuts an operation short is the
  environment's script \<open>disk_faults\<close>.
\<close>


section \<open>MIME types\<close>

definition type_map :: "(string \<times> attachment_kind) list" where
  "type_map =
     [(''image/jpeg'', kImage), (''image/png'', kImage), (''image/gif'', kImage), (''image/webp'', kImage),
      (''application/pdf'', kPdf), (''text/plain'', kDocument), (''text/csv'', kDocument),
      (''application/msword'', kDocument),
      (''application/vnd.openxmlformats-officedocument.wordprocessingml.document'', kDocument),
      (''application/vnd.openxmlformats-officedocument.spreadsheetml.sheet'', kDocument),
      (''video/mp4'', kVideo), (''video/webm'', kVideo), (''video/quicktime'', kVideo),
      (''audio/mpeg'', kAudio), (''audio/ogg'', kAudio), (''audio/wav'', kAudio), (''audio/webm'', kAudio)]"

definition is_allowed_upload_type :: "string \<Rightarrow> bool" where
  "is_allowed_upload_type content_type \<longleftrightarrow> map_of type_map (to_lower content_type) \<noteq> None"

definition classify :: "string \<Rightarrow> attachment_kind" where
  "classify content_type =
     (case map_of type_map (to_lower content_type) of None \<Rightarrow> kOther | Some k \<Rightarrow> k)"

definition mime_extension_of :: "string \<Rightarrow> string" where
  "mime_extension_of filename =
     (if CHR ''.'' \<notin> set filename then [] else to_lower (after_last (CHR ''.'') filename))"

definition kByExt :: "(string \<times> string) list" where
  "kByExt =
     [(''jpg'', ''image/jpeg''), (''jpeg'', ''image/jpeg''), (''png'', ''image/png''), (''gif'', ''image/gif''),
      (''webp'', ''image/webp''), (''pdf'', ''application/pdf''), (''txt'', ''text/plain''),
      (''csv'', ''text/csv''), (''mp4'', ''video/mp4''), (''webm'', ''video/webm''),
      (''mov'', ''video/quicktime''), (''mp3'', ''audio/mpeg''), (''ogg'', ''audio/ogg''), (''wav'', ''audio/wav'')]"

definition content_type_for_extension :: "string \<Rightarrow> string" where
  "content_type_for_extension filename =
     (case map_of kByExt (mime_extension_of filename) of None \<Rightarrow> [] | Some t \<Rightarrow> t)"

definition resolve_content_type :: "string \<Rightarrow> string \<Rightarrow> string result" where
  "resolve_content_type declared filename =
     (if declared \<noteq> [] \<and> is_allowed_upload_type declared then Inr declared
      else
        let inferred = content_type_for_extension filename in
        if inferred \<noteq> [] \<and> is_allowed_upload_type inferred then Inr inferred
        else Inl (UnsupportedMediaTypeException ''Unsupported or disallowed file type''
                    (''content_type='' @ declared)))"


section \<open>Paths\<close>

text \<open>\<^verbatim>\<open>std::filesystem::path::extension\<close>: of the last component, from its last dot; none for the
  special names \<^verbatim>\<open>.\<close> and \<^verbatim>\<open>..\<close> and for a name whose only dot is its first character.\<close>

definition path_extension :: "string \<Rightarrow> string" where
  "path_extension path =
     (let name = after_last (CHR ''/'') path in
      if name = ''.'' \<or> name = ''..'' \<or> CHR ''.'' \<notin> set name \<or>
         name = CHR ''.'' # after_last (CHR ''.'') name
      then [] else CHR ''.'' # after_last (CHR ''.'') name)"

definition path_parts :: "string \<Rightarrow> string list" where
  "path_parts path = filter (\<lambda>p. p \<noteq> []) (split_on (CHR ''/'') path)"

definition is_absolute :: "string \<Rightarrow> bool" where
  "is_absolute path \<longleftrightarrow> path \<noteq> [] \<and> hd path = CHR ''/''"

text \<open>The address of the resolved file below the root.\<close>

definition LocalFileStorage_resolve :: "string \<Rightarrow> string list result" where
  "LocalFileStorage_resolve key =
     (if key = [] then Inl (ValidationException ''Empty storage key'' [])
      else if is_absolute key then Inl (ValidationException ''Storage key must be relative'' [])
      else if ''..'' \<in> set (path_parts key)
      then Inl (ValidationException (''Storage key must not contain '' @ [char_of (39::nat)] @ ''..'' @ [char_of (39::nat)]) [])
      else Inr (filter (\<lambda>p. p \<noteq> ''.'') (path_parts key)))"


section \<open>Local file storage\<close>

text \<open>\<^verbatim>\<open>root_ / rel\<close>, as it appears in error details.\<close>

definition path_append :: "string \<Rightarrow> string \<Rightarrow> string" where
  "path_append root_dir rel =
     (if root_dir = [] \<or> last root_dir = CHR ''/'' then root_dir @ rel else root_dir @ ''/'' @ rel)"

record stored_object =
  so_key :: string
  so_backend :: string
  so_size :: int

definition disk_answer :: "disk_outcome act" where
  "disk_answer = (\<lambda>w. (Inr (case disk_faults w of [] \<Rightarrow> DiskOk | x # _ \<Rightarrow> x), w\<lparr>disk_faults := tl (disk_faults w)\<rparr>))"

definition write_file :: "string list \<Rightarrow> string \<Rightarrow> unit act" where
  "write_file path bytes = modify (\<lambda>w. w\<lparr>disk := (disk w)(path \<mapsto> bytes)\<rparr>)"

definition LocalFileStorage_put :: "string \<Rightarrow> string \<Rightarrow> string \<Rightarrow> string \<Rightarrow> stored_object act" where
  "LocalFileStorage_put root_dir key content_type bytes =
     seq (of_result (LocalFileStorage_resolve key)) (\<lambda>path.
     seq disk_answer (\<lambda>answer.
     case answer of
       CannotOpen \<Rightarrow> throw (InternalException ''Failed to open file for writing'' (path_append root_dir key))
     | ShortTransfer n \<Rightarrow>
         seq (write_file path (take n bytes)) (\<lambda>_. throw (InternalException ''Failed to write file'' (path_append root_dir key)))
     | DiskOk \<Rightarrow>
         seq (write_file path bytes) (\<lambda>_.
         ret \<lparr>so_key = key, so_backend = ''local'', so_size = int (length bytes)\<rparr>)))"

definition LocalFileStorage_get :: "string \<Rightarrow> string option act" where
  "LocalFileStorage_get key =
     seq (of_result (LocalFileStorage_resolve key)) (\<lambda>path.
     seq disk_answer (\<lambda>answer.
     seq (gets disk) (\<lambda>files.
     ret (case answer of
            CannotOpen \<Rightarrow> None
          | ShortTransfer n \<Rightarrow> map_option (take n) (files path)
          | DiskOk \<Rightarrow> files path))))"

definition LocalFileStorage_remove :: "string \<Rightarrow> bool act" where
  "LocalFileStorage_remove key =
     seq (of_result (LocalFileStorage_resolve key)) (\<lambda>path.
     seq disk_answer (\<lambda>answer.
     if answer = DiskOk
     then seq (gets (\<lambda>w. disk w path \<noteq> None)) (\<lambda>found.
          seq (modify (\<lambda>w. w\<lparr>disk := (disk w)(path := None)\<rparr>)) (\<lambda>_. ret found))
     else ret False))"

definition LocalFileStorage_exists :: "string \<Rightarrow> bool act" where
  "LocalFileStorage_exists key =
     seq (of_result (LocalFileStorage_resolve key)) (\<lambda>path.
     seq disk_answer (\<lambda>answer.
     gets (\<lambda>w. answer = DiskOk \<and> disk w path \<noteq> None)))"



section \<open>Accepted types\<close>

lemma resolve_content_type_allowed:
  "resolve_content_type declared filename = Inr t \<Longrightarrow> is_allowed_upload_type t \<and> classify t \<noteq> kOther"
  by (auto simp: resolve_content_type_def Let_def is_allowed_upload_type_def classify_def
      split: if_splits option.splits dest!: map_of_SomeD) (auto simp: type_map_def)

lemma resolve_content_type_error:
  "resolve_content_type declared filename = Inl e \<Longrightarrow> ex_type e = kUnsupportedMedia"
  by (auto simp: resolve_content_type_def Let_def exception_defs split: if_splits)


section \<open>Safe keys\<close>

text \<open>A resolved key stays below the root: no component leads upwards.\<close>

lemma resolve_stays_below:
  assumes "LocalFileStorage_resolve key = Inr path" "p \<in> set path"
  shows "p \<noteq> ''..'' \<and> p \<noteq> ''.'' \<and> p \<noteq> [] \<and> CHR ''/'' \<notin> set p"
  using assms by (auto simp: LocalFileStorage_resolve_def path_parts_def split: if_splits dest: split_on_parts)

lemma path_extension_free: "CHR ''/'' \<notin> set (path_extension f)"
  by (auto simp: path_extension_def Let_def after_last_def dest!: set_takeWhileD)

lemma resolve_two:
  assumes "a \<noteq> []" "b \<noteq> []" "CHR ''/'' \<notin> set a" "CHR ''/'' \<notin> set b"
    "a \<noteq> ''.''" "a \<noteq> ''..''" "b \<noteq> ''.''" "b \<noteq> ''..''"
  shows "LocalFileStorage_resolve (a @ ''/'' @ b) = Inr [a, b]"
proof -
  have "path_parts (a @ ''/'' @ b) = [a, b]"
    using assms by (simp add: path_parts_def split_on_append split_on_plain)
  moreover have "\<not> is_absolute (a @ ''/'' @ b)"
    using assms by (cases a) (auto simp: is_absolute_def)
  ultimately show ?thesis
    using assms by (simp add: LocalFileStorage_resolve_def)
qed


section \<open>What is stored can be read back\<close>

lemma put_runs:
  assumes "LocalFileStorage_resolve key = Inr path" "disk_faults w = []"
  shows "LocalFileStorage_put root_dir key ty bytes w =
    (Inr \<lparr>so_key = key, so_backend = ''local'', so_size = int (length bytes)\<rparr>,
     w\<lparr>disk := (disk w)(path \<mapsto> bytes)\<rparr>)"
  using assms by (cases w) (simp add: LocalFileStorage_put_def act_simps disk_answer_def write_file_def)

lemma get_runs:
  assumes "LocalFileStorage_resolve key = Inr path" "disk_faults w = []"
  shows "LocalFileStorage_get key w = (Inr (disk w path), w)"
  using assms by (cases w) (simp add: LocalFileStorage_get_def act_simps disk_answer_def)

lemma storage_frame [keeps_intros]:
  "keeps (inv_rel (\<lambda>w. I (db w))) (LocalFileStorage_put root_dir key ty bytes)"
  "keeps (inv_rel (\<lambda>w. I (db w))) (LocalFileStorage_get key)"
  "keeps (inv_rel (\<lambda>w. I (db w))) (LocalFileStorage_remove key)"
  "keeps (inv_rel (\<lambda>w. I (db w))) (LocalFileStorage_exists key)"
  by (auto simp: keeps_def inv_rel_def LocalFileStorage_put_def LocalFileStorage_get_def
      LocalFileStorage_remove_def LocalFileStorage_exists_def act_simps disk_answer_def write_file_def
      split: sum.splits disk_outcome.splits list.splits)

end
