(* ===== verification/MessageRepository.thy ===== *)
theory MessageRepository
  imports Storage ConversationService
begin

text \<open>
  \<^verbatim>\<open>PgMessageRepository\<close> and \<^verbatim>\<open>PgAttachmentRepository\<close>. PostgreSQL's text search is a parameter:
  \<open>tsmatch content keyword\<close> stands for \<^verbatim>\<open>to_tsvector('simple', content) @@ plainto_tsquery('simple', keyword)\<close>.
  The \<^verbatim>\<open>BEFORE UPDATE\<close> triggers of the migrations set \<^verbatim>\<open>updated_at\<close>.
\<close>


section \<open>Messages\<close>

record new_message =
  nm_conversation_id :: int
  nm_sender_id :: int
  nm_content :: string
  nm_type :: message_type

record message_filter =
  mf_conversation_id :: int
  mf_sender_id :: "int option"
  mf_keyword :: "string option"

definition find_message :: "int \<Rightarrow> tables \<Rightarrow> message option" where
  "find_message i t = List.find (\<lambda>m. m_id m = i) (t_messages t)"

definition insert_message :: "new_message \<Rightarrow> message db_act" where
  "insert_message input =
     seq (nextval q_messages q_messages_update) (\<lambda>i.
     seq (gets (\<lambda>d. (tabs d, now d))) (\<lambda>(t, ts).
     if find_conversation (nm_conversation_id input) t = None \<or> \<not> user_exists (nm_sender_id input) t
     then throw (DbSql (ForeignKeyViolation ''messages''))
     else
       let m = \<lparr>m_id = i, m_conversation_id = nm_conversation_id input, m_sender_id = nm_sender_id input,
                m_type = nm_type input, m_content = nm_content input, m_created_at = ts,
                m_updated_at = ts, m_edited_at = None, m_deleted_at = None\<rparr>
       in seq (update_tables (t_messages_update (\<lambda>rows. rows @ [m]))) (\<lambda>_. ret m)))"

definition touch_conversation :: "int \<Rightarrow> unit db_act" where
  "touch_conversation c =
     seq (gets now) (\<lambda>ts.
     update_tables (t_conversations_update (update_where (\<lambda>x. c_id x = c)
       (\<lambda>x. x\<lparr>c_last_message_at := Some ts, c_updated_at := ts\<rparr>))))"

definition PgMessageRepository_create :: "new_message \<Rightarrow> message act" where
  "PgMessageRepository_create input =
     with_transaction (
       seq (insert_message input) (\<lambda>m.
       seq (touch_conversation (nm_conversation_id input)) (\<lambda>_.
       ret m)))"

definition PgMessageRepository_find_by_id :: "int \<Rightarrow> message option act" where
  "PgMessageRepository_find_by_id i = with_transaction (gets (\<lambda>d. find_message i (tabs d)))"

definition message_matches ::
    "(string \<Rightarrow> string \<Rightarrow> bool) \<Rightarrow> message_filter \<Rightarrow> pagination \<Rightarrow> message \<Rightarrow> bool" where
  "message_matches tsmatch f page m \<longleftrightarrow>
     m_conversation_id m = mf_conversation_id f \<and>
     (case mf_sender_id f of None \<Rightarrow> True | Some s \<Rightarrow> m_sender_id m = s) \<and>
     (case mf_keyword f of None \<Rightarrow> True | Some k \<Rightarrow> tsmatch (m_content m) k \<and> m_deleted_at m = None) \<and>
     (case pg_before_id page of None \<Rightarrow> True | Some b \<Rightarrow> m_id m < b) \<and>
     (case pg_after_id page of None \<Rightarrow> True | Some a \<Rightarrow> m_id m > a)"

definition newest_first :: "message list \<Rightarrow> message list" where
  "newest_first ms = rev (sort_key m_id ms)"

definition PgMessageRepository_list ::
    "(string \<Rightarrow> string \<Rightarrow> bool) \<Rightarrow> message_filter \<Rightarrow> pagination \<Rightarrow> message list act" where
  "PgMessageRepository_list tsmatch f page =
     with_transaction (gets (\<lambda>d. limit_offset (pg_limit page) (pg_offset page)
       (newest_first (filter (message_matches tsmatch f page) (t_messages (tabs d))))))"

text \<open>\<^verbatim>\<open>UPDATE messages SET ... WHERE id = $1 AND deleted_at IS NULL RETURNING\<close>.\<close>

definition update_live_message :: "int \<Rightarrow> (time_point \<Rightarrow> message \<Rightarrow> message) \<Rightarrow> message db_act" where
  "update_live_message i f =
     seq (gets (\<lambda>d. (List.find (\<lambda>m. m_id m = i \<and> m_deleted_at m = None) (t_messages (tabs d)), now d)))
       (\<lambda>(row, ts).
     case row of
       None \<Rightarrow> throw (DbApp (NotFoundException ''Message not found or already deleted'' []))
     | Some m \<Rightarrow>
         seq (update_tables (t_messages_update
                (update_where (\<lambda>m. m_id m = i \<and> m_deleted_at m = None) (f ts)))) (\<lambda>_.
         ret (f ts m)))"

definition PgMessageRepository_update_content :: "int \<Rightarrow> string \<Rightarrow> message act" where
  "PgMessageRepository_update_content i content =
     with_transaction (update_live_message i
       (\<lambda>ts m. m\<lparr>m_content := content, m_edited_at := Some ts, m_updated_at := ts\<rparr>))"

definition PgMessageRepository_soft_delete :: "int \<Rightarrow> message act" where
  "PgMessageRepository_soft_delete i =
     with_transaction (update_live_message i
       (\<lambda>ts m. m\<lparr>m_deleted_at := Some ts, m_updated_at := ts\<rparr>))"


section \<open>Attachments\<close>

record new_attachment =
  na_owner_id :: int
  na_storage_backend :: string
  na_storage_key :: string
  na_original_filename :: string
  na_content_type :: string
  na_kind :: attachment_kind
  na_byte_size :: int
  na_checksum :: "string option"

definition PgAttachmentRepository_create :: "new_attachment \<Rightarrow> attachment act" where
  "PgAttachmentRepository_create input =
     with_transaction (
       seq (nextval q_attachments q_attachments_update) (\<lambda>i.
       seq (check_varchar 32 (Some (na_storage_backend input))) (\<lambda>_.
       seq (check_varchar 255 (Some (na_original_filename input))) (\<lambda>_.
       seq (check_varchar 128 (Some (na_content_type input))) (\<lambda>_.
       seq (check_varchar 64 (na_checksum input)) (\<lambda>_.
       seq (gets (\<lambda>d. (tabs d, now d))) (\<lambda>(t, ts).
       if \<not> user_exists (na_owner_id input) t then throw (DbSql (ForeignKeyViolation ''attachments''))
       else
         let a = \<lparr>a_id = i, a_owner_id = na_owner_id input, a_message_id = None,
                  a_storage_backend = na_storage_backend input, a_storage_key = na_storage_key input,
                  a_thumbnail_key = None, a_original_filename = na_original_filename input,
                  a_content_type = na_content_type input, a_kind = na_kind input,
                  a_byte_size = na_byte_size input, a_width = None, a_height = None,
                  a_checksum = na_checksum input, a_created_at = ts\<rparr>
         in seq (update_tables (t_attachments_update (\<lambda>rows. rows @ [a]))) (\<lambda>_. ret a))))))))"

definition find_attachment :: "int \<Rightarrow> tables \<Rightarrow> attachment option" where
  "find_attachment i t = List.find (\<lambda>a. a_id a = i) (t_attachments t)"

definition PgAttachmentRepository_find_by_id :: "int \<Rightarrow> attachment option act" where
  "PgAttachmentRepository_find_by_id i = with_transaction (gets (\<lambda>d. find_attachment i (tabs d)))"

definition attachments_of :: "int \<Rightarrow> tables \<Rightarrow> attachment list" where
  "attachments_of m t = sort_key a_id (filter (\<lambda>a. a_message_id a = Some m) (t_attachments t))"

definition PgAttachmentRepository_list_for_message :: "int \<Rightarrow> attachment list act" where
  "PgAttachmentRepository_list_for_message m = with_transaction (gets (\<lambda>d. attachments_of m (tabs d)))"

definition link_one :: "int \<Rightarrow> int \<Rightarrow> int \<Rightarrow> nat db_act" where
  "link_one message_id owner_id i =
     seq (gets tabs) (\<lambda>t.
     let hit = (\<lambda>a. a_id a = i \<and> a_owner_id a = owner_id \<and> a_message_id a = None) in
     let affected = length (filter hit (t_attachments t)) in
     if affected > 0 \<and> find_message message_id t = None
     then throw (DbSql (ForeignKeyViolation ''attachments''))
     else seq (update_tables (t_attachments_update
                 (update_where hit (\<lambda>a. a\<lparr>a_message_id := Some message_id\<rparr>)))) (\<lambda>_.
          ret affected))"

fun link_all :: "int \<Rightarrow> int \<Rightarrow> nat \<Rightarrow> int list \<Rightarrow> nat db_act" where
  "link_all message_id owner_id linked [] = ret linked"
| "link_all message_id owner_id linked (i # is) =
     seq (link_one message_id owner_id i) (\<lambda>n. link_all message_id owner_id (linked + n) is)"

definition PgAttachmentRepository_link_to_message :: "int list \<Rightarrow> int \<Rightarrow> int \<Rightarrow> nat act" where
  "PgAttachmentRepository_link_to_message ids message_id owner_id =
     (if ids = [] then ret 0 else with_transaction (link_all message_id owner_id 0 ids))"

definition coalesce :: "'a option \<Rightarrow> 'a option \<Rightarrow> 'a option" where
  "coalesce a b = (case a of None \<Rightarrow> b | Some _ \<Rightarrow> a)"

definition PgAttachmentRepository_update_media_meta ::
    "int \<Rightarrow> int option \<Rightarrow> int option \<Rightarrow> string option \<Rightarrow> unit act" where
  "PgAttachmentRepository_update_media_meta i width height thumbnail_key =
     with_transaction (update_tables (t_attachments_update (update_where (\<lambda>a. a_id a = i)
       (\<lambda>a. a\<lparr>a_width := coalesce width (a_width a), a_height := coalesce height (a_height a),
             a_thumbnail_key := coalesce thumbnail_key (a_thumbnail_key a)\<rparr>))))"

definition PgAttachmentRepository_remove :: "int \<Rightarrow> bool act" where
  "PgAttachmentRepository_remove i =
     with_transaction (
       seq (gets (\<lambda>d. find_attachment i (tabs d) \<noteq> None)) (\<lambda>found.
       seq (update_tables (t_attachments_update (filter (\<lambda>a. a_id a \<noteq> i)))) (\<lambda>_.
       ret found)))"



section \<open>Constraints\<close>

lemma find_message_Some: "find_message i t = Some m \<Longrightarrow> m \<in> set (t_messages t) \<and> m_id m = i"
  unfolding find_message_def by (rule find_SomeD)

lemma find_message_None: "find_message i t = None \<longleftrightarrow> i \<notin> message_ids t"
  by (auto simp: find_message_def find_None_iff message_ids_def)

lemma insert_message_db_ok:
  assumes "db_ok d" "m_id m = q_messages (seqs d)" "m_conversation_id m \<in> conversation_ids (tabs d)"
    "m_sender_id m \<in> user_ids (tabs d)"
  shows "db_ok (d\<lparr>seqs := q_messages_update (\<lambda>i. i + 1) (seqs d),
                  tabs := t_messages_update (\<lambda>rows. rows @ [m]) (tabs d)\<rparr>)"
proof -
  let ?d = "d\<lparr>seqs := q_messages_update (\<lambda>i. i + 1) (seqs d),
              tabs := t_messages_update (\<lambda>rows. rows @ [m]) (tabs d)\<rparr>"
  have "messages_ok ?d"
    using assms by (auto simp: db_ok_def messages_ok_def ids_defs intro!: row_intros)
  moreover have "message_ids (tabs d) \<subseteq> message_ids (tabs ?d)" by (auto simp: message_ids_def)
  ultimately show ?thesis
    using assms(1) by (auto simp: db_ok_def table_ok_defs user_ids_def conversation_ids_def
        intro: refs_mono opt_refs_mono)
qed

lemma touch_conversation_conv_inv:
  "conv_inv d \<Longrightarrow> touch_conversation c d = (Inr x, d') \<Longrightarrow> conv_inv d'"
  using touch_conversations_conv_inv [of d "\<lambda>x. x\<lparr>c_last_message_at := Some (now d), c_updated_at := now d\<rparr>"]
  by (auto simp: touch_conversation_def act_simps)

lemma insert_message_conv_inv:
  "conv_inv d \<Longrightarrow> insert_message input d = (Inr m, d') \<Longrightarrow> conv_inv d'"
  by (auto simp: insert_message_def act_simps conv_inv_def Let_def find_conversation_None user_exists_iff
      split: if_splits intro!: insert_message_db_ok)

lemma grow_message_writes [keeps_intros]:
  "keeps seqs_grow (insert_message input)" "keeps seqs_grow (touch_conversation c)"
  "keeps seqs_grow (update_live_message i f)" "keeps seqs_grow (link_one m u i)"
  unfolding insert_message_def touch_conversation_def update_live_message_def link_one_def
  by - (intro grow_rules)+

lemma PgMessageRepository_create_inv [keeps_intros]:
  "keeps (inv_rel (\<lambda>w. conv_inv (db w))) (PgMessageRepository_create input)"
  unfolding PgMessageRepository_create_def
  by (rule with_transaction_conv_inv)
     (auto intro!: grow_rules keeps_intros elim!: seq_succeedsE
        intro: touch_conversation_conv_inv insert_message_conv_inv)

lemma update_messages_db_ok:
  assumes "db_ok d" and "\<And>m. m_id (f m) = m_id m" "\<And>m. m_conversation_id (f m) = m_conversation_id m"
    "\<And>m. m_sender_id (f m) = m_sender_id m"
  shows "db_ok (d\<lparr>tabs := t_messages_update (update_where P f) (tabs d)\<rparr>)"
proof -
  have "m_id ` set (update_where P f (t_messages (tabs d))) = m_id ` set (t_messages (tabs d))"
    using assms(2) by (rule image_update_where)
  then show ?thesis
    using assms by (auto simp: db_ok_def table_ok_defs ids_defs intro!: row_intros)
qed

lemma update_live_message_inv:
  assumes "\<And>ts m. m_id (f ts m) = m_id m" "\<And>ts m. m_conversation_id (f ts m) = m_conversation_id m"
    "\<And>ts m. m_sender_id (f ts m) = m_sender_id m"
  shows "keeps (inv_rel (\<lambda>w. conv_inv (db w))) (with_transaction (update_live_message i f))"
proof (rule with_transaction_conv_inv)
  fix d m d' assume "conv_inv d" "update_live_message i f d = (Inr m, d')"
  then show "conv_inv d'"
    by (auto simp: update_live_message_def act_simps conv_inv_def assms split: option.splits
        intro!: update_messages_db_ok)
qed (intro keeps_intros)

lemma PgMessageRepository_writes_inv [keeps_intros]:
  "keeps (inv_rel (\<lambda>w. conv_inv (db w))) (PgMessageRepository_update_content i content)"
  "keeps (inv_rel (\<lambda>w. conv_inv (db w))) (PgMessageRepository_soft_delete i)"
  unfolding PgMessageRepository_update_content_def PgMessageRepository_soft_delete_def
  by (intro update_live_message_inv; simp)+

lemma PgMessageRepository_reads_keep [keeps_intros]:
  "keeps (inv_rel (\<lambda>w. I (db w))) (PgMessageRepository_find_by_id i)"
  "keeps (inv_rel (\<lambda>w. I (db w))) (PgMessageRepository_list tsmatch f page)"
  by (simp_all add: PgMessageRepository_find_by_id_def PgMessageRepository_list_def with_transaction_gets)

lemma insert_attachment_db_ok:
  assumes "db_ok d" "a_id a = q_attachments (seqs d)" "a_owner_id a \<in> user_ids (tabs d)" "a_message_id a = None"
  shows "db_ok (d\<lparr>seqs := q_attachments_update (\<lambda>i. i + 1) (seqs d),
                  tabs := t_attachments_update (\<lambda>rows. rows @ [a]) (tabs d)\<rparr>)"
  using assms by (auto simp: db_ok_def table_ok_defs ids_defs intro!: row_intros)

lemma PgAttachmentRepository_create_inv [keeps_intros]:
  "keeps (inv_rel (\<lambda>w. conv_inv (db w))) (PgAttachmentRepository_create input)"
  unfolding PgAttachmentRepository_create_def
  by (rule with_transaction_conv_inv)
     (auto simp: act_simps Let_def user_exists_iff conv_inv_def check_varchar_def split: if_splits
        intro!: grow_rules intro: insert_attachment_db_ok)

lemma update_attachments_db_ok:
  assumes "db_ok d" and "\<And>a. a_id (f a) = a_id a" "\<And>a. a_owner_id (f a) = a_owner_id a"
    "\<And>a k. a_message_id (f a) = Some k \<Longrightarrow> a_message_id a = Some k \<or> k \<in> message_ids (tabs d)"
  shows "db_ok (d\<lparr>tabs := t_attachments_update (update_where P f) (tabs d)\<rparr>)"
  using assms by (auto simp: db_ok_def table_ok_defs ids_defs intro!: row_intros)

lemma link_one_cases:
  assumes "link_one mid own i d = (Inr n, d')"
  obtains (none) "n = 0" "d' = d"
  | (linked) "0 < n" "mid \<in> message_ids (tabs d)"
      "n = length (filter (\<lambda>a. a_id a = i \<and> a_owner_id a = own \<and> a_message_id a = None) (t_attachments (tabs d)))"
      "d' = d\<lparr>tabs := t_attachments_update (update_where
             (\<lambda>a. a_id a = i \<and> a_owner_id a = own \<and> a_message_id a = None)
             (\<lambda>a. a\<lparr>a_message_id := Some mid\<rparr>)) (tabs d)\<rparr>"
proof (cases "n = 0")
  case True
  let ?hit = "\<lambda>a. a_id a = i \<and> a_owner_id a = own \<and> a_message_id a = None"
  have run: "n = length (filter ?hit (t_attachments (tabs d)))"
    "d' = d\<lparr>tabs := t_attachments_update (update_where ?hit (\<lambda>a. a\<lparr>a_message_id := Some mid\<rparr>)) (tabs d)\<rparr>"
    using assms by (auto simp: link_one_def act_simps Let_def split: if_splits)
  then have "update_where ?hit (\<lambda>a. a\<lparr>a_message_id := Some mid\<rparr>) (t_attachments (tabs d)) = t_attachments (tabs d)"
    using True by (intro update_where_id) (auto simp: filter_empty_conv)
  then have "d' = d" using run(2) by simp
  then show ?thesis using True none by simp
next
  case False
  then show ?thesis
    using assms linked by (auto simp: link_one_def act_simps Let_def find_message_None split: if_splits)
qed

lemma link_one_conv_inv:
  assumes "conv_inv d" "link_one mid own i d = (Inr n, d')"
  shows "conv_inv d'"
  using assms(2)
proof (cases rule: link_one_cases)
  case linked
  then show ?thesis
    using assms(1) by (auto simp: conv_inv_def intro!: update_attachments_db_ok)
qed (use assms in simp)

lemma link_all_conv_inv: "conv_inv d \<Longrightarrow> link_all mid own n is d = (Inr k, d') \<Longrightarrow> conv_inv d'"
  by (induction "is" arbitrary: n d) (auto elim!: seq_succeedsE dest: link_one_conv_inv)

lemma grow_link_all [keeps_intros]: "keeps seqs_grow (link_all mid own n is)"
  by (induction "is" arbitrary: n) (auto intro!: grow_step.keeps_rules keeps_intros)

lemma PgAttachmentRepository_writes_inv [keeps_intros]:
  "keeps (inv_rel (\<lambda>w. conv_inv (db w))) (PgAttachmentRepository_link_to_message ids mid own)"
  "keeps (inv_rel (\<lambda>w. conv_inv (db w))) (PgAttachmentRepository_update_media_meta i wd h th)"
  "keeps (inv_rel (\<lambda>w. conv_inv (db w))) (PgAttachmentRepository_remove i)"
proof -
  show "keeps (inv_rel (\<lambda>w. conv_inv (db w))) (PgAttachmentRepository_link_to_message ids mid own)"
    unfolding PgAttachmentRepository_link_to_message_def
    by (auto intro!: inv_step.keeps_rules with_transaction_conv_inv keeps_intros dest: link_all_conv_inv)
  show "keeps (inv_rel (\<lambda>w. conv_inv (db w))) (PgAttachmentRepository_update_media_meta i wd h th)"
    unfolding PgAttachmentRepository_update_media_meta_def
    by (rule with_transaction_conv_inv)
       (auto simp: conv_inv_def intro!: grow_rules update_attachments_db_ok)
  show "keeps (inv_rel (\<lambda>w. conv_inv (db w))) (PgAttachmentRepository_remove i)"
    unfolding PgAttachmentRepository_remove_def
    by (rule with_transaction_conv_inv)
       (auto simp: conv_inv_def db_ok_def table_ok_defs ids_defs intro!: grow_rules row_intros
         elim!: seq_succeedsE)
qed

lemma PgAttachmentRepository_reads_keep [keeps_intros]:
  "keeps (inv_rel (\<lambda>w. I (db w))) (PgAttachmentRepository_find_by_id i)"
  "keeps (inv_rel (\<lambda>w. I (db w))) (PgAttachmentRepository_list_for_message m)"
  by (simp_all add: PgAttachmentRepository_find_by_id_def PgAttachmentRepository_list_for_message_def
      with_transaction_gets)



section \<open>Linking\<close>

text \<open>The effect of the linking loop in one step: exactly the owner's still unattached uploads among
  the given ids are attached.\<close>

definition link_row :: "int \<Rightarrow> int \<Rightarrow> int list \<Rightarrow> attachment \<Rightarrow> attachment" where
  "link_row mid own ids a =
     (if a_id a \<in> set ids \<and> a_owner_id a = own \<and> a_message_id a = None
      then a\<lparr>a_message_id := Some mid\<rparr> else a)"

lemma link_row_Cons: "link_row mid own is (link_row mid own [i] a) = link_row mid own (i # is) a"
  by (simp add: link_row_def)

lemma link_all_runs:
  assumes "mid \<in> message_ids (tabs d)"
  shows "\<exists>k. link_all mid own n ids d =
    (Inr k, d\<lparr>tabs := t_attachments_update (map (link_row mid own ids)) (tabs d)\<rparr>)"
  using assms
proof (induction ids arbitrary: n d)
  case Nil
  have "map (link_row mid own []) xs = xs" for xs by (induction xs) (auto simp: link_row_def)
  then show ?case by simp
next
  case (Cons i "is")
  let ?d = "d\<lparr>tabs := t_attachments_update (map (link_row mid own [i])) (tabs d)\<rparr>"
  have one: "update_where (\<lambda>a. a_id a = i \<and> a_owner_id a = own \<and> a_message_id a = None)
      (\<lambda>a. a\<lparr>a_message_id := Some mid\<rparr>) = map (link_row mid own [i])"
    by (rule ext) (auto simp: update_where_def link_row_def)
  obtain k where "link_one mid own i d = (Inr k, ?d)"
    using Cons.prems by (auto simp: link_one_def act_simps Let_def find_message_None one)
  moreover obtain k' where "link_all mid own (n + k) is ?d =
      (Inr k', ?d\<lparr>tabs := t_attachments_update (map (link_row mid own is)) (tabs ?d)\<rparr>)"
    using Cons.IH [of ?d] Cons.prems by (auto simp: message_ids_def)
  ultimately show ?case
    by (simp add: comp_def link_row_Cons)
qed

lemma PgAttachmentRepository_link_runs:
  assumes "faults w = []" "mid \<in> message_ids (tabs (db w))"
  shows "\<exists>k. PgAttachmentRepository_link_to_message ids mid own w =
    (Inr k, w\<lparr>db := (db w)\<lparr>tabs := t_attachments_update (map (link_row mid own ids)) (tabs (db w))\<rparr>\<rparr>)"
proof (cases "ids = []")
  case True
  have "map (link_row mid own []) xs = xs" for xs by (induction xs) (auto simp: link_row_def)
  then show ?thesis using True by (simp add: PgAttachmentRepository_link_to_message_def)
next
  case False
  then show ?thesis
    using link_all_runs [OF assms(2), of own 0 ids] assms(1)
    by (auto simp: PgAttachmentRepository_link_to_message_def with_transaction_quiet)
qed

end
