(* ===== verification/Attachments.thy ===== *)
theory Attachments
  imports MessageRepository
begin

text \<open>
  \<^verbatim>\<open>AttachmentService\<close>. The SHA-256 digest is a parameter. The image processor is the interface
  \<^verbatim>\<open>IImageProcessor\<close>, a record of its three methods; \<open>NoopImageProcessor\<close> is the implementation
  that ships. \<open>run_image_job\<close> is the closure that \<^verbatim>\<open>schedule_image_processing\<close> submits, as the
  background executor runs it later.
\<close>


section \<open>Interfaces\<close>

record image_info =
  ii_width :: int
  ii_height :: int

record thumbnail =
  th_bytes :: string
  th_content_type :: string
  th_width :: int
  th_height :: int

record image_processor =
  ip_supports :: "string \<Rightarrow> bool"
  ip_probe :: "string \<Rightarrow> image_info option"
  ip_make_thumbnail :: "string \<Rightarrow> string \<Rightarrow> int \<Rightarrow> thumbnail option"

definition NoopImageProcessor :: image_processor where
  "NoopImageProcessor =
     \<lparr>ip_supports = (\<lambda>content_type. take 6 content_type = ''image/''),
      ip_probe = (\<lambda>_. None), ip_make_thumbnail = (\<lambda>_ _ _. None)\<rparr>"

record attachment_options =
  ao_max_upload_bytes :: int
  ao_thumbnail_max_dimension :: int
  ao_storage_root :: string

record upload_input =
  ui_owner_id :: int
  ui_filename :: string
  ui_declared_content_type :: string
  ui_bytes :: string


section \<open>Operations\<close>

definition schedule_image_processing :: "int \<Rightarrow> string \<Rightarrow> string \<Rightarrow> string \<Rightarrow> unit act" where
  "schedule_image_processing attachment_id bytes content_type base_key =
     submit (ImageJob attachment_id bytes content_type base_key)"

definition run_image_job ::
    "image_processor \<Rightarrow> attachment_options \<Rightarrow> int \<Rightarrow> string \<Rightarrow> string \<Rightarrow> string \<Rightarrow> unit act" where
  "run_image_job ip opts attachment_id bytes content_type base_key =
     (let width = map_option ii_width (ip_probe ip bytes);
          height = map_option ii_height (ip_probe ip bytes)
      in
      seq (case ip_make_thumbnail ip bytes content_type (ao_thumbnail_max_dimension opts) of
             None \<Rightarrow> ret None
           | Some thumb \<Rightarrow>
               seq (LocalFileStorage_put (ao_storage_root opts) (base_key @ ''.thumb'')
                      (th_content_type thumb) (th_bytes thumb)) (\<lambda>_.
               ret (Some (base_key @ ''.thumb'')))) (\<lambda>thumbnail_key.
      if width \<noteq> None \<or> height \<noteq> None \<or> thumbnail_key \<noteq> None
      then PgAttachmentRepository_update_media_meta attachment_id width height thumbnail_key
      else ret ()))"

definition AttachmentService_upload ::
    "(string \<Rightarrow> string) \<Rightarrow> image_processor \<Rightarrow> attachment_options \<Rightarrow> upload_input \<Rightarrow> attachment act" where
  "AttachmentService_upload sha256_hex ip opts input =
     seq (require (ui_bytes input \<noteq> []) (ValidationException ''Uploaded file is empty'' [])) (\<lambda>_.
     seq (require (int (length (ui_bytes input)) \<le> ao_max_upload_bytes opts)
            (PayloadTooLargeException ''File exceeds the maximum allowed size''
               (''max_bytes='' @ to_string (ao_max_upload_bytes opts)))) (\<lambda>_.
     seq (of_result (resolve_content_type (ui_declared_content_type input) (ui_filename input))) (\<lambda>content_type.
     let kind = classify content_type in
     seq (generate_hex_token 16) (\<lambda>token.
     let key = to_string (ui_owner_id input) @ ''/'' @ token @ path_extension (ui_filename input) in
     seq (LocalFileStorage_put (ao_storage_root opts) key content_type (ui_bytes input)) (\<lambda>stored.
     seq (PgAttachmentRepository_create
            \<lparr>na_owner_id = ui_owner_id input, na_storage_backend = so_backend stored,
             na_storage_key = so_key stored, na_original_filename = ui_filename input,
             na_content_type = content_type, na_kind = kind, na_byte_size = so_size stored,
             na_checksum = Some (sha256_hex (ui_bytes input))\<rparr>) (\<lambda>attachment.
     seq (increment ''rtc_uploads_total'') (\<lambda>_.
     seq (observe ''rtc_upload_bytes'' (so_size stored)) (\<lambda>_.
     seq (if kind = kImage \<and> ip_supports ip content_type
          then schedule_image_processing (a_id attachment) (ui_bytes input) content_type (so_key stored)
          else ret ()) (\<lambda>_.
     ret attachment)))))))))"

definition require_attachment :: "int \<Rightarrow> attachment act" where
  "require_attachment i =
     seq (PgAttachmentRepository_find_by_id i) (\<lambda>attachment.
       case attachment of
         None \<Rightarrow> throw (NotFoundException ''Attachment not found'' [])
       | Some a \<Rightarrow> ret a)"

definition authorize_view :: "int \<Rightarrow> attachment \<Rightarrow> unit act" where
  "authorize_view actor_id attachment =
     (if a_owner_id attachment = actor_id then ret ()
      else
        seq (case a_message_id attachment of
               None \<Rightarrow> ret False
             | Some mid \<Rightarrow>
                 seq (PgMessageRepository_find_by_id mid) (\<lambda>message.
                   case message of
                     None \<Rightarrow> ret False
                   | Some m \<Rightarrow> PgConversationRepository_is_participant (m_conversation_id m) actor_id)) (\<lambda>yes.
        require yes (NotFoundException ''Attachment not found'' [])))"

definition AttachmentService_get_metadata :: "int \<Rightarrow> int \<Rightarrow> attachment act" where
  "AttachmentService_get_metadata actor_id i =
     seq (require_attachment i) (\<lambda>attachment.
     seq (authorize_view actor_id attachment) (\<lambda>_.
     ret attachment))"

record attachment_download =
  dl_meta :: attachment
  dl_bytes :: string
  dl_content_type :: string

definition AttachmentService_download :: "int \<Rightarrow> int \<Rightarrow> bool \<Rightarrow> attachment_download act" where
  "AttachmentService_download actor_id i thumb =
     seq (require_attachment i) (\<lambda>attachment.
     seq (authorize_view actor_id attachment) (\<lambda>_.
     let key = (case a_thumbnail_key attachment of
                  Some k \<Rightarrow> if thumb then k else a_storage_key attachment
                | None \<Rightarrow> a_storage_key attachment) in
     seq (LocalFileStorage_get key) (\<lambda>bytes.
     case bytes of
       None \<Rightarrow> throw (NotFoundException ''Attachment content not found'' [])
     | Some b \<Rightarrow>
         seq (increment ''rtc_downloads_total'') (\<lambda>_.
         ret \<lparr>dl_meta = attachment, dl_bytes = b, dl_content_type = a_content_type attachment\<rparr>))))"

definition AttachmentService_remove :: "int \<Rightarrow> int \<Rightarrow> unit act" where
  "AttachmentService_remove actor_id i =
     seq (require_attachment i) (\<lambda>attachment.
     seq (require (a_owner_id attachment = actor_id)
            (AuthorizationException ''Only the owner may delete this attachment'' [])) (\<lambda>_.
     seq (LocalFileStorage_remove (a_storage_key attachment)) (\<lambda>_.
     seq (case a_thumbnail_key attachment of
            None \<Rightarrow> ret ()
          | Some k \<Rightarrow> seq (LocalFileStorage_remove k) (\<lambda>_. ret ())) (\<lambda>_.
     seq (PgAttachmentRepository_remove i) (\<lambda>_. ret ())))))"

definition AttachmentService_link_to_message :: "int \<Rightarrow> int list \<Rightarrow> int \<Rightarrow> nat act" where
  "AttachmentService_link_to_message owner_id ids message_id =
     PgAttachmentRepository_link_to_message ids message_id owner_id"

definition AttachmentService_attachment_ids_for :: "int \<Rightarrow> int list act" where
  "AttachmentService_attachment_ids_for message_id =
     seq (PgAttachmentRepository_list_for_message message_id) (\<lambda>as. ret (map a_id as))"

definition AttachmentService_for_message :: "int \<Rightarrow> attachment list act" where
  "AttachmentService_for_message = PgAttachmentRepository_list_for_message"


section \<open>Invariants\<close>

lemma AttachmentService_inv [keeps_intros]:
  "keeps (inv_rel (\<lambda>w. conv_inv (db w))) (AttachmentService_upload sha ip opts input)"
  "keeps (inv_rel (\<lambda>w. conv_inv (db w))) (AttachmentService_get_metadata actor i)"
  "keeps (inv_rel (\<lambda>w. conv_inv (db w))) (AttachmentService_download actor i thumb)"
  "keeps (inv_rel (\<lambda>w. conv_inv (db w))) (AttachmentService_remove actor i)"
  "keeps (inv_rel (\<lambda>w. conv_inv (db w))) (AttachmentService_link_to_message own ids m)"
  "keeps (inv_rel (\<lambda>w. conv_inv (db w))) (AttachmentService_attachment_ids_for m)"
  "keeps (inv_rel (\<lambda>w. conv_inv (db w))) (run_image_job ip opts i bytes ty key)"
  unfolding AttachmentService_upload_def AttachmentService_get_metadata_def AttachmentService_download_def
    AttachmentService_remove_def AttachmentService_link_to_message_def require_attachment_def
    AttachmentService_attachment_ids_for_def authorize_view_def schedule_image_processing_def
    run_image_job_def Let_def
  by - (intro inv_step.keeps_rules keeps_intros)+



section \<open>Where uploads are stored\<close>

lemma isalnum_hex_digit: "n < 16 \<Longrightarrow> isalnum (hex_digit n)"
  by (auto simp: hex_digit_def isalnum_def isdigit_def islower_def isupper_def)

lemma generate_hex_token_runs:
  obtains token where "generate_hex_token n w = (Inr token, w\<lparr>drawn := drawn w + n\<rparr>)"
    "length token = 2 * n" "\<forall>c \<in> set token. isalnum c"
proof -
  let ?token = "concat (map (\<lambda>i. hex_byte (engine w (drawn w + i) mod 256)) [0..<n])"
  have "length ?token = 2 * n" by (induction n) (auto simp: hex_byte_def)
  moreover have "\<forall>c \<in> set ?token. isalnum c"
    by (auto simp: hex_byte_def intro!: isalnum_hex_digit)
  ultimately show ?thesis using that [of ?token] by (simp add: generate_hex_token_def)
qed

lemma slash_not_alnum [simp]: "\<not> isalnum (CHR ''/'')" "\<not> isalnum (CHR ''.'')"
  by (simp_all add: isalnum_def isdigit_def isupper_def islower_def)

lemma slash_not_in_to_string: "CHR ''/'' \<notin> set (to_string i)" "to_string i \<noteq> []"
  "to_string i \<noteq> ''.''" "to_string i \<noteq> ''..''"
proof -
  have "\<not> isdigit (CHR ''/'')" "\<not> isdigit (CHR ''.'')" by (simp_all add: isdigit_def)
  then have "CHR ''/'' \<notin> set (to_string i) \<and> CHR ''.'' \<notin> set (to_string i)"
    using nat_to_string_digits by (auto simp: to_string_def)
  then show "CHR ''/'' \<notin> set (to_string i)" "to_string i \<noteq> ''.''" "to_string i \<noteq> ''..''" by auto
  show "to_string i \<noteq> []" by (simp add: to_string_def)
qed

text \<open>Whatever the file name, the key of an upload resolves to a file of the owner's directory.\<close>

lemma upload_key_resolves:
  assumes "\<forall>c \<in> set token. isalnum c" "token \<noteq> []"
  shows "LocalFileStorage_resolve (to_string own @ ''/'' @ token @ path_extension f) =
     Inr [to_string own, token @ path_extension f]"
proof (rule resolve_two)
  show "CHR ''/'' \<notin> set (token @ path_extension f)"
    using assms path_extension_free by auto
  obtain c cs where c: "token = c # cs" "isalnum c" using assms by (cases token) auto
  then show "token @ path_extension f \<noteq> ''.''" "token @ path_extension f \<noteq> ''..''"
    by auto
qed (use assms slash_not_in_to_string in auto)

text \<open>The upload key is the only address at which the disk can change.\<close>

lemma put_confined:
  assumes "LocalFileStorage_resolve key = Inr path"
  shows "wp (LocalFileStorage_put root_dir key ty bytes)
    (\<lambda>stored w'. so_key stored = key \<and> (\<forall>q. q \<noteq> path \<longrightarrow> disk w' q = disk w q))
    (\<lambda>_ w'. \<forall>q. q \<noteq> path \<longrightarrow> disk w' q = disk w q) w"
  using assms
  by (auto simp: LocalFileStorage_put_def wp_simps wp_def disk_answer_def act_simps write_file_def
      split: disk_outcome.splits)

lemma same_disk [keeps_intros]:
  "keeps (same_rel disk) (with_transaction fn)"
  "keeps (same_rel disk) (generate_hex_token n)"
  "keeps (same_rel disk) (increment name)"
  "keeps (same_rel disk) (observe name v)"
  "keeps (same_rel disk) (submit job)"
proof -
  show "keeps (same_rel disk) (with_transaction fn)"
  proof (rule keepsI)
    fix w show "same_rel disk w (final (with_transaction fn) w)"
      using with_transaction_frame [of fn w] by (auto simp: same_rel_def)
  qed
qed (auto simp: keeps_def same_rel_def generate_hex_token_def act_simps)

definition in_directory :: "int \<Rightarrow> string list \<Rightarrow> bool" where
  "in_directory own path \<longleftrightarrow>
     (\<exists>name. path = [to_string own, name] \<and> name \<notin> {[], ''.'', ''..''} \<and> CHR ''/'' \<notin> set name)"

text \<open>C19. No upload leaves the uploader's directory: whatever file name, content type and content are
  sent, and whatever the disk and the database do, the only files an upload can create or change
  are plain names directly inside the directory named after the owner's id.\<close>

theorem upload_confined:
  assumes "AttachmentService_upload sha256_hex ip opts input w = (res, w')" "disk w' path \<noteq> disk w path"
  shows "in_directory (ui_owner_id input) path"
proof -
  let ?D = "in_directory (ui_owner_id input)"
  let ?ok = "\<lambda>v. \<forall>q. \<not> ?D q \<longrightarrow> disk v q = disk w q"
  obtain token where token: "generate_hex_token 16 w = (Inr token, w\<lparr>drawn := drawn w + 16\<rparr>)"
    "length token = 2 * 16" "\<forall>c \<in> set token. isalnum c"
    by (rule generate_hex_token_runs)
  let ?key = "to_string (ui_owner_id input) @ ''/'' @ token @ path_extension (ui_filename input)"
  let ?path = "[to_string (ui_owner_id input), token @ path_extension (ui_filename input)]"
  have res: "LocalFileStorage_resolve ?key = Inr ?path"
    by (rule upload_key_resolves) (use token in auto)
  have D: "?D ?path"
    using resolve_stays_below [OF res, of "token @ path_extension (ui_filename input)"]
    by (simp add: in_directory_def)
  have put: "wp (LocalFileStorage_put (ao_storage_root opts) ?key ty (ui_bytes input)) (\<lambda>_. ?ok) (\<lambda>_. ?ok)
      (w\<lparr>drawn := drawn w + 16\<rparr>)" for ty
    by (rule wp_mono [OF put_confined [OF res]]) (simp, metis D)+
  have rest: "keeps (inv_rel ?ok)
     (seq (PgAttachmentRepository_create (rec stored)) (\<lambda>attachment.
      seq (increment ''rtc_uploads_total'') (\<lambda>_.
      seq (observe ''rtc_upload_bytes'' (so_size stored)) (\<lambda>_.
      seq (if k = kImage \<and> ip_supports ip ty
           then schedule_image_processing (a_id attachment) (ui_bytes input) ty (so_key stored)
           else ret ()) (\<lambda>_. ret attachment)))))" for rec stored k ty
    unfolding PgAttachmentRepository_create_def schedule_image_processing_def
    by (intro inv_step.keeps_rules same_keeps_inv [where f = disk] keeps_intros)
  have "wp (AttachmentService_upload sha256_hex ip opts input) (\<lambda>_. ?ok) (\<lambda>_. ?ok) w"
    unfolding AttachmentService_upload_def Let_def wp_seq [of "require _ _"] wp_require
      wp_seq [of "of_result _"] wp_of_result
    using token put
    by (auto split: sum.splits simp: wp_seq [of "generate_hex_token _"] wp_def [of "generate_hex_token _"]
        intro!: wp_then_keeps rest)
  then show ?thesis
    using assms by (auto simp: wp_def split: sum.splits)
qed


lemma upload_runs:
  assumes quiet: "faults w = []" "disk_faults w = []" and own: "ui_owner_id input \<in> user_ids (tabs (db w))"
    and size: "ui_bytes input \<noteq> []" "int (length (ui_bytes input)) \<le> ao_max_upload_bytes opts"
    and ty: "resolve_content_type (ui_declared_content_type input) (ui_filename input) = Inr ty"
    and len: "length (ui_filename input) \<le> 255" "length ty \<le> 128" "length (sha256_hex (ui_bytes input)) \<le> 64"
    and ok: "db_ok (db w)"
  obtains a w' path where "AttachmentService_upload sha256_hex ip opts input w = (Inr a, w')"
    "faults w' = []" "disk_faults w' = []" "a_owner_id a = ui_owner_id input" "a_content_type a = ty"
    "a_kind a = classify ty" "find_attachment (a_id a) (tabs (db w')) = Some a" "a_thumbnail_key a = None"
    "a_message_id a = None" "LocalFileStorage_resolve (a_storage_key a) = Inr path"
    "in_directory (ui_owner_id input) path"
    "disk w' = (disk w)(path \<mapsto> ui_bytes input)" "a_byte_size a = int (length (ui_bytes input))"
    "tabs (db w') = t_attachments_update (\<lambda>rows. rows @ [a]) (tabs (db w))"
proof -
  obtain token where token: "generate_hex_token 16 w = (Inr token, w\<lparr>drawn := drawn w + 16\<rparr>)"
    "length token = 2 * 16" "\<forall>c \<in> set token. isalnum c"
    by (rule generate_hex_token_runs)
  let ?name = "token @ path_extension (ui_filename input)"
  let ?key = "to_string (ui_owner_id input) @ ''/'' @ ?name"
  let ?path = "[to_string (ui_owner_id input), ?name]"
  have res: "LocalFileStorage_resolve ?key = Inr ?path"
    by (rule upload_key_resolves) (use token in auto)
  have dir: "in_directory (ui_owner_id input) ?path"
    using resolve_stays_below [OF res, of ?name] by (simp add: in_directory_def)
  define a where "a = \<lparr>a_id = q_attachments (seqs (db w)), a_owner_id = ui_owner_id input, a_message_id = None,
      a_storage_backend = ''local'', a_storage_key = ?key, a_thumbnail_key = None,
      a_original_filename = ui_filename input, a_content_type = ty, a_kind = classify ty,
      a_byte_size = int (length (ui_bytes input)), a_width = None, a_height = None,
      a_checksum = Some (sha256_hex (ui_bytes input)), a_created_at = now (db w)\<rparr>"
  define w1 where "w1 = w\<lparr>drawn := drawn w + 16, disk := (disk w)(?path \<mapsto> ui_bytes input)\<rparr>"
  define w2 where "w2 = w1\<lparr>db := (db w)\<lparr>seqs := q_attachments_update (\<lambda>i. i + 1) (seqs (db w)),
      tabs := t_attachments_update (\<lambda>rows. rows @ [a]) (tabs (db w))\<rparr>\<rparr>"
  have put: "LocalFileStorage_put (ao_storage_root opts) ?key ty (ui_bytes input) (w\<lparr>drawn := drawn w + 16\<rparr>) =
      (Inr \<lparr>so_key = ?key, so_backend = ''local'', so_size = int (length (ui_bytes input))\<rparr>, w1)"
    using put_runs [OF res, of "w\<lparr>drawn := drawn w + 16\<rparr>"] quiet by (simp add: w1_def)
  have create: "PgAttachmentRepository_create
            \<lparr>na_owner_id = ui_owner_id input, na_storage_backend = ''local'',
             na_storage_key = ?key, na_original_filename = ui_filename input,
             na_content_type = ty, na_kind = classify ty, na_byte_size = int (length (ui_bytes input)),
             na_checksum = Some (sha256_hex (ui_bytes input))\<rparr> w1 = (Inr a, w2)"
  proof -
    have "utf8_length (ui_filename input) \<le> 255" "utf8_length ty \<le> 128"
      "utf8_length (sha256_hex (ui_bytes input)) \<le> 64" "utf8_length ''local'' \<le> 32"
      using len utf8_length_le [of "ui_filename input"] utf8_length_le [of ty]
        utf8_length_le [of "sha256_hex (ui_bytes input)"] utf8_length_le [of "''local''"]
      by simp_all
    then show ?thesis
      using quiet own
      by (simp add: PgAttachmentRepository_create_def with_transaction_quiet act_simps check_varchar_def
          user_exists_iff Let_def w1_def w2_def a_def)
  qed
  have new: "find_attachment (a_id a) (tabs (db w2)) = Some a"
  proof -
    have "\<forall>x \<in> set (t_attachments (tabs (db w))). a_id x \<noteq> a_id a"
      using ok by (auto simp: a_def db_ok_def attachments_ok_def serial_key_def)
    then show ?thesis by (simp add: find_attachment_def w2_def find_append_new)
  qed
  have "\<exists>w'. AttachmentService_upload sha256_hex ip opts input w = (Inr a, w') \<and>
    db w' = db w2 \<and> faults w' = faults w2 \<and> disk w' = disk w2 \<and> disk_faults w' = disk_faults w2"
    using size ty token(1) put create
    by (cases "classify ty = kImage \<and> ip_supports ip ty")
       (simp_all add: AttachmentService_upload_def act_simps Let_def schedule_image_processing_def)
  then obtain w' where "AttachmentService_upload sha256_hex ip opts input w = (Inr a, w')"
    "db w' = db w2" "faults w' = faults w2" "disk w' = disk w2" "disk_faults w' = disk_faults w2"
    by blast
  then show ?thesis
    using that [of a w' ?path] new dir res quiet by (auto simp: a_def w2_def w1_def)
qed

text \<open>C20. What is uploaded is what is downloaded: unless disk or database fail, an accepted upload is
  recorded with an allow-listed content type, and its owner reads back exactly the bytes sent.\<close>

theorem upload_download:
  assumes quiet: "faults w = []" "disk_faults w = []" and ok: "db_ok (db w)"
    and own: "ui_owner_id input \<in> user_ids (tabs (db w))"
    and size: "ui_bytes input \<noteq> []" "int (length (ui_bytes input)) \<le> ao_max_upload_bytes opts"
    and ty: "resolve_content_type (ui_declared_content_type input) (ui_filename input) = Inr ty"
    and len: "length (ui_filename input) \<le> 255" "length ty \<le> 128" "length (sha256_hex (ui_bytes input)) \<le> 64"
  shows "\<exists>a w1 dl w2. AttachmentService_upload sha256_hex ip opts input w = (Inr a, w1) \<and>
    AttachmentService_download (ui_owner_id input) (a_id a) False w1 = (Inr dl, w2) \<and>
    dl_bytes dl = ui_bytes input \<and> dl_meta dl = a \<and>
    is_allowed_upload_type (dl_content_type dl) \<and> a_kind a = classify (dl_content_type dl)"
proof -
  obtain a w1 path where a: "AttachmentService_upload sha256_hex ip opts input w = (Inr a, w1)"
    "faults w1 = []" "disk_faults w1 = []" "a_owner_id a = ui_owner_id input" "a_content_type a = ty"
    "a_kind a = classify ty" "find_attachment (a_id a) (tabs (db w1)) = Some a" "a_thumbnail_key a = None"
    "LocalFileStorage_resolve (a_storage_key a) = Inr path"
    "disk w1 = (disk w)(path \<mapsto> ui_bytes input)"
    by (rule upload_runs [where sha256_hex = sha256_hex and input = input, OF quiet own size ty len ok])
  have "require_attachment (a_id a) w1 = (Inr a, w1)"
    using a(2,7) by (simp add: require_attachment_def PgAttachmentRepository_find_by_id_def act_simps)
  then show ?thesis
    using a get_runs [OF a(9,3)] resolve_content_type_allowed [OF ty]
    by (auto simp: AttachmentService_download_def authorize_view_def act_simps)
qed

definition example_upload :: upload_input where
  "example_upload = \<lparr>ui_owner_id = 2, ui_filename = ''../../etc/x.PNG'', ui_declared_content_type = ''text/html'',
     ui_bytes = ''data''\<rparr>"

definition example_options :: attachment_options where
  "example_options = \<lparr>ao_max_upload_bytes = 1000, ao_thumbnail_max_dimension = 256, ao_storage_root = ''uploads''\<rparr>"


lemma example_upload_accepted:
  "resolve_content_type (ui_declared_content_type example_upload) (ui_filename example_upload) = Inr ''image/png''"
  by (simp add: example_upload_def) code_simp

lemma example_upload_facts:
  "faults example_world = []" "disk_faults example_world = []" "db_ok (db example_world)"
  "ui_owner_id example_upload \<in> user_ids (tabs (db example_world))" "ui_bytes example_upload \<noteq> []"
  "int (length (ui_bytes example_upload)) \<le> ao_max_upload_bytes example_options"
  "length (ui_filename example_upload) \<le> 255" "length ''image/png'' \<le> 128"
  "length ((\<lambda>_. ''abcd'') (ui_bytes example_upload)) \<le> 64"
  using example_db_ok by (simp_all add: example_upload_def example_options_def) (simp_all add: example_defs user_ids_def)

theorem upload_download_witness:
  "\<exists>a w1 dl w2.
     AttachmentService_upload (\<lambda>_. ''abcd'') NoopImageProcessor example_options example_upload example_world = (Inr a, w1) \<and>
     AttachmentService_download 2 (a_id a) False w1 = (Inr dl, w2) \<and> dl_bytes dl = ''data''"
  using upload_download [where sha256_hex = "\<lambda>_. ''abcd''" and ip = NoopImageProcessor,
      OF example_upload_facts(1-6) example_upload_accepted example_upload_facts(7-9)]
  by (auto simp: example_upload_def)

theorem upload_confined_witness:
  "\<exists>res w' path.
     AttachmentService_upload (\<lambda>_. ''abcd'') NoopImageProcessor example_options example_upload example_world = (res, w') \<and>
     disk w' path \<noteq> disk example_world path \<and> in_directory 2 path"
proof -
  obtain a w' path where
    run: "AttachmentService_upload (\<lambda>_. ''abcd'') NoopImageProcessor example_options example_upload example_world = (Inr a, w')"
    and "disk w' = (disk example_world)(path \<mapsto> ui_bytes example_upload)"
    by (rule upload_runs [where sha256_hex = "\<lambda>_. ''abcd''" and ip = NoopImageProcessor,
      OF example_upload_facts(1,2,4-6) example_upload_accepted example_upload_facts(7-9,3)])
  then have "disk w' path \<noteq> disk example_world path" by (simp add: example_defs)
  then show ?thesis
    using run upload_confined [OF run] by (auto simp: example_upload_def)
qed


section \<open>Who may see an attachment\<close>

lemma require_attachment_found:
  assumes "find_attachment i (tabs (db w)) = Some a"
  shows "wp (require_attachment i) (\<lambda>y w'. y = a \<and> w' = quiet w) (\<lambda>e w'. faults w \<noteq> [] \<and> w' = quiet w) w"
  unfolding require_attachment_def PgAttachmentRepository_find_by_id_def wp_seq
  by (rule wp_read_strict) (use assms in \<open>simp_all add: wp_simps\<close>)

definition may_view :: "int \<Rightarrow> attachment \<Rightarrow> tables \<Rightarrow> bool" where
  "may_view actor a t \<longleftrightarrow> a_owner_id a = actor \<or>
     (\<exists>mid m. a_message_id a = Some mid \<and> find_message mid t = Some m \<and> is_member (m_conversation_id m) actor t)"

lemma authorize_view_denied:
  assumes "\<not> may_view actor a (tabs (db w))"
  shows "wp (authorize_view actor a) (\<lambda>_ _. False)
    (\<lambda>e w'. (faults w = [] \<longrightarrow> ex_type e = kNotFound) \<and> untouched w w') w"
proof (cases "a_message_id a")
  case None
  then show ?thesis
    using assms by (simp add: may_view_def authorize_view_def wp_simps exception_defs)
next
  case (Some mid)
  show ?thesis
    unfolding authorize_view_def PgMessageRepository_find_by_id_def PgConversationRepository_is_participant_def
    using assms Some
    by (auto simp: may_view_def wp_simps exception_defs intro!: wp_read_strict split: option.splits)
qed

lemma authorize_view_granted:
  assumes "may_view actor a (tabs (db w))" "faults w = []"
  shows "authorize_view actor a w = (Inr (), w)"
  using assms
  by (auto simp: may_view_def authorize_view_def PgMessageRepository_find_by_id_def
      PgConversationRepository_is_participant_def act_simps)

lemma refused_view:
  assumes "find_attachment i (tabs (db w)) = Some a" "\<not> may_view actor a (tabs (db w))"
  shows "refused kNotFound (seq (require_attachment i) (\<lambda>a. seq (authorize_view actor a) (k a))) w"
  unfolding refused_wp wp_seq
  by (rule wp_mono [OF require_attachment_found [OF assms(1)]])
     (use assms(2) authorize_view_denied [of actor a "quiet w"] in \<open>auto elim!: wp_mono simp: untouched_def\<close>)

text \<open>An attachment is visible to its owner and, once it is linked to a message, to the current
  participants of that conversation; for everybody else it does not exist. Only the owner may
  delete it. A refused request changes nothing, on disk or in the database.\<close>

theorem attachment_visibility:
  assumes found: "find_attachment i (tabs (db w)) = Some a"
  shows "(may_view actor a (tabs (db w)) \<longrightarrow> faults w = [] \<longrightarrow>
      AttachmentService_get_metadata actor i w = (Inr a, w)) \<and>
    (\<not> may_view actor a (tabs (db w)) \<longrightarrow>
      refused kNotFound (AttachmentService_get_metadata actor i) w \<and>
      refused kNotFound (AttachmentService_download actor i thumb) w) \<and>
    (a_owner_id a \<noteq> actor \<longrightarrow> refused kAuthorization (AttachmentService_remove actor i) w)"
proof (intro conjI impI)
  assume "may_view actor a (tabs (db w))" "faults w = []"
  then show "AttachmentService_get_metadata actor i w = (Inr a, w)"
    using found authorize_view_granted [of actor a w]
    by (simp add: AttachmentService_get_metadata_def require_attachment_def
        PgAttachmentRepository_find_by_id_def act_simps)
next
  assume no: "\<not> may_view actor a (tabs (db w))"
  show "refused kNotFound (AttachmentService_get_metadata actor i) w"
    unfolding AttachmentService_get_metadata_def by (rule refused_view [OF found no])
  show "refused kNotFound (AttachmentService_download actor i thumb) w"
    unfolding AttachmentService_download_def by (rule refused_view [OF found no])
next
  assume "a_owner_id a \<noteq> actor"
  then show "refused kAuthorization (AttachmentService_remove actor i) w"
    unfolding AttachmentService_remove_def refused_wp wp_seq
    by (intro wp_mono [OF require_attachment_found [OF found]]) (auto simp: wp_simps exception_defs)
qed


theorem attachment_visibility_witness:
  "\<exists>a w'. AttachmentService_upload (\<lambda>_. ''abcd'') NoopImageProcessor example_options example_upload example_world = (Inr a, w') \<and>
     AttachmentService_get_metadata 2 (a_id a) w' = (Inr a, w') \<and>
     refused kNotFound (AttachmentService_download 3 (a_id a) False) w' \<and>
     refused kAuthorization (AttachmentService_remove 3 (a_id a)) w'"
proof -
  obtain a w' path where
    a: "AttachmentService_upload (\<lambda>_. ''abcd'') NoopImageProcessor example_options example_upload example_world = (Inr a, w')"
    "faults w' = []" "find_attachment (a_id a) (tabs (db w')) = Some a" "a_message_id a = None"
    "a_owner_id a = ui_owner_id example_upload"
    by (rule upload_runs [where sha256_hex = "\<lambda>_. ''abcd''" and ip = NoopImageProcessor,
      OF example_upload_facts(1,2,4-6) example_upload_accepted example_upload_facts(7-9,3)])
  have "may_view 2 a (tabs (db w'))" "\<not> may_view 3 a (tabs (db w'))" "a_owner_id a \<noteq> 3"
    using a(4,5) by (simp_all add: may_view_def example_upload_def)
  then show ?thesis
    using a attachment_visibility [OF a(3)] by blast
qed

end
