(* ===== verification/MessageService.thy ===== *)
theory MessageService
  imports Attachments
begin

text \<open>
  \<^verbatim>\<open>MessageService\<close>: sending, listing, editing and deleting messages. A message is persisted before
  anybody hears of it; only the length of its content travels on the event bus. Where C++ leaves
  the evaluation order of arguments open (the reads inside \<^verbatim>\<open>broadcaster_.publish\<close>), the model
  evaluates from left to right.
\<close>


section \<open>Operations\<close>

definition require_message :: "int \<Rightarrow> message act" where
  "require_message i =
     seq (PgMessageRepository_find_by_id i) (\<lambda>message.
       case message of
         None \<Rightarrow> throw (NotFoundException ''Message not found'' (''message_id='' @ to_string i))
       | Some m \<Rightarrow> ret m)"

definition MessageService_to_response :: "message \<Rightarrow> json act" where
  "MessageService_to_response m =
     seq (AttachmentService_attachment_ids_for (m_id m)) (\<lambda>ids.
     ret (MessageResponse_to_json m ids))"

text \<open>The part of \<^verbatim>\<open>send\<close> behind the insertion: link, broadcast, notify, announce.\<close>

definition MessageService_deliver :: "int \<Rightarrow> send_message_request \<Rightarrow> string \<Rightarrow> message \<Rightarrow> message act" where
  "MessageService_deliver actor_id request content stored =
     seq (if sm_attachment_ids request \<noteq> []
          then seq (AttachmentService_link_to_message actor_id (sm_attachment_ids request) (m_id stored)) (\<lambda>_. ret ())
          else ret ()) (\<lambda>_.
     seq (PgConversationRepository_list_participant_ids (sm_conversation_id request)) (\<lambda>participants.
     seq (MessageService_to_response stored) (\<lambda>response.
     seq (broadcast participants kMessageCreated response) (\<lambda>_.
     seq (NotificationDispatcher_new_message actor_id (m_conversation_id stored) (m_id stored) participants) (\<lambda>_.
     seq (publish (MessageSent (m_id stored) (m_conversation_id stored) actor_id participants (length content))) (\<lambda>_.
     ret stored))))))"

definition MessageService_send :: "int \<Rightarrow> send_message_request \<Rightarrow> message act" where
  "MessageService_send actor_id request =
     seq (of_result (validate_message_content (sm_content request))) (\<lambda>content.
     seq (require_participant (sm_conversation_id request) actor_id) (\<lambda>_.
     seq (PgMessageRepository_create
            \<lparr>nm_conversation_id = sm_conversation_id request, nm_sender_id = actor_id,
             nm_content = content, nm_type = sm_type request\<rparr>) (\<lambda>stored.
     MessageService_deliver actor_id request content stored)))"

definition MessageService_list ::
    "(string \<Rightarrow> string \<Rightarrow> bool) \<Rightarrow> int \<Rightarrow> message_query \<Rightarrow> pagination \<Rightarrow> message list act" where
  "MessageService_list tsmatch actor_id q page =
     seq (require_participant (mq_conversation_id q) actor_id) (\<lambda>_.
     PgMessageRepository_list tsmatch
       \<lparr>mf_conversation_id = mq_conversation_id q, mf_sender_id = mq_sender_id q, mf_keyword = mq_keyword q\<rparr> page)"

definition MessageService_edit :: "int \<Rightarrow> int \<Rightarrow> string \<Rightarrow> message act" where
  "MessageService_edit actor_id message_id new_content =
     seq (require_message message_id) (\<lambda>existing.
     seq (require (m_sender_id existing = actor_id)
            (AuthorizationException ''Only the author may edit a message'' [])) (\<lambda>_.
     seq (of_result (validate_message_content new_content)) (\<lambda>content.
     seq (PgMessageRepository_update_content message_id content) (\<lambda>updated.
     seq (PgConversationRepository_list_participant_ids (m_conversation_id updated)) (\<lambda>participants.
     seq (MessageService_to_response updated) (\<lambda>response.
     seq (broadcast participants kMessageUpdated response) (\<lambda>_.
     seq (publish (MessageEdited (m_id updated) (m_conversation_id updated) actor_id)) (\<lambda>_.
     ret updated))))))))"

definition MessageService_remove :: "int \<Rightarrow> int \<Rightarrow> message act" where
  "MessageService_remove actor_id message_id =
     seq (require_message message_id) (\<lambda>existing.
     seq (if m_sender_id existing = actor_id then ret False
          else seq (PgConversationRepository_find_by_id (m_conversation_id existing)) (\<lambda>conversation.
               seq (require (case conversation of
                       None \<Rightarrow> False
                     | Some c \<Rightarrow> is_group c \<and> c_owner_id c = Some actor_id)
                      (AuthorizationException ''Not allowed to delete this message'' [])) (\<lambda>_.
               ret True))) (\<lambda>as_moderator.
     seq (PgMessageRepository_soft_delete message_id) (\<lambda>deleted.
     seq (PgConversationRepository_list_participant_ids (m_conversation_id deleted)) (\<lambda>participants.
     seq (MessageService_to_response deleted) (\<lambda>response.
     seq (broadcast participants kMessageDeleted response) (\<lambda>_.
     seq (publish (MessageDeleted (m_id deleted) (m_conversation_id deleted) actor_id as_moderator)) (\<lambda>_.
     ret deleted)))))))"

definition MessageService_get :: "int \<Rightarrow> int \<Rightarrow> message act" where
  "MessageService_get actor_id message_id =
     seq (require_message message_id) (\<lambda>message.
     seq (require_participant (m_conversation_id message) actor_id) (\<lambda>_.
     ret message))"


section \<open>Invariants\<close>

lemma MessageService_inv [keeps_intros]:
  "keeps (inv_rel (\<lambda>w. conv_inv (db w))) (MessageService_send actor req)"
  "keeps (inv_rel (\<lambda>w. conv_inv (db w))) (MessageService_list tsmatch actor q page)"
  "keeps (inv_rel (\<lambda>w. conv_inv (db w))) (MessageService_edit actor i content)"
  "keeps (inv_rel (\<lambda>w. conv_inv (db w))) (MessageService_remove actor i)"
  "keeps (inv_rel (\<lambda>w. conv_inv (db w))) (MessageService_get actor i)"
  unfolding MessageService_send_def MessageService_deliver_def MessageService_list_def MessageService_edit_def
    MessageService_remove_def MessageService_get_def require_message_def MessageService_to_response_def
  by - (intro inv_step.keeps_rules keeps_intros)+



section \<open>Persist first\<close>

definition message_stored :: "message \<Rightarrow> world \<Rightarrow> bool" where
  "message_stored m w \<longleftrightarrow> m \<in> set (t_messages (tabs (db w)))"

lemma with_transaction_other_rows:
  assumes "\<And>d x d'. fn d = (Inr x, d') \<Longrightarrow> f (tabs d') = f (tabs d)"
  shows "keeps (same_rel (\<lambda>w. f (tabs (db w)))) (with_transaction fn)"
proof (rule keepsI)
  fix w
  show "same_rel (\<lambda>w. f (tabs (db w))) w (final (with_transaction fn) w)"
    by (cases rule: with_transaction_cases [of fn w]) (auto simp: same_rel_def rollback_def dest: assms)
qed

lemma link_one_messages: "link_one mid own i d = (Inr n, d') \<Longrightarrow> t_messages (tabs d') = t_messages (tabs d)"
  by (erule link_one_cases) simp_all

lemma link_all_messages: "link_all mid own n is d = (Inr k, d') \<Longrightarrow> t_messages (tabs d') = t_messages (tabs d)"
proof (induction "is" arbitrary: n d)
  case (Cons i "is")
  from Cons.prems have "seq (link_one mid own i) (\<lambda>n'. link_all mid own (n + n') is) d = (Inr k, d')" by simp
  then obtain n' d1 where "link_one mid own i d = (Inr n', d1)" "link_all mid own (n + n') is d1 = (Inr k, d')"
    by (rule seq_succeedsE)
  then show ?case using Cons.IH link_one_messages by metis
qed simp

lemma same_messages [keeps_intros]:
  "keeps (same_rel (\<lambda>w. t_messages (tabs (db w)))) (AttachmentService_link_to_message own ids mid)"
  "keeps (same_rel (\<lambda>w. t_messages (tabs (db w)))) (PgNotificationRepository_create u ty payload)"
  "keeps (same_rel (\<lambda>w. t_messages (tabs (db w)))) (with_transaction (gets f))"
  "keeps (same_rel (\<lambda>w. t_messages (tabs (db w)))) (broadcast ids ev data)"
  "keeps (same_rel (\<lambda>w. t_messages (tabs (db w)))) (publish seed)"
  "keeps (same_rel (\<lambda>w. t_messages (tabs (db w)))) (increment name)"
  "keeps (same_rel (\<lambda>w. t_messages (tabs (db w)))) (submit_push task)"
proof -
  show "keeps (same_rel (\<lambda>w. t_messages (tabs (db w)))) (AttachmentService_link_to_message own ids mid)"
    unfolding AttachmentService_link_to_message_def PgAttachmentRepository_link_to_message_def
    by (auto intro!: same_step.keeps_rules with_transaction_other_rows [where f = t_messages] dest: link_all_messages)
  show "keeps (same_rel (\<lambda>w. t_messages (tabs (db w)))) (PgNotificationRepository_create u ty payload)"
    unfolding PgNotificationRepository_create_def
    by (rule with_transaction_other_rows [where f = t_messages])
       (auto simp: act_simps Let_def split: if_splits)
  show "keeps (same_rel (\<lambda>w. t_messages (tabs (db w)))) (with_transaction (gets f))"
    by (rule with_transaction_other_rows [where f = t_messages]) auto
qed (auto simp: keeps_def same_rel_def publish_def DomainEvent_make_def generate_hex_token_def act_simps
       split: prod.splits)

lemma same_messages_new_message [keeps_intros]:
  "keeps (same_rel (\<lambda>w. t_messages (tabs (db w)))) (NotificationDispatcher_new_message s c m rs)"
  unfolding NotificationDispatcher_new_message_def guarded_def NotificationService_create_def
  by (intro same_step.keeps_rules same_step.keeps_catch keeps_intros)


text \<open>What the transaction of \<^verbatim>\<open>create\<close> commits.\<close>

definition sent_message :: "int \<Rightarrow> send_message_request \<Rightarrow> database \<Rightarrow> message" where
  "sent_message actor req d =
     \<lparr>m_id = q_messages (seqs d), m_conversation_id = sm_conversation_id req, m_sender_id = actor,
      m_type = sm_type req, m_content = trim (sm_content req), m_created_at = now d,
      m_updated_at = now d, m_edited_at = None, m_deleted_at = None\<rparr>"

definition after_send :: "int \<Rightarrow> send_message_request \<Rightarrow> database \<Rightarrow> database" where
  "after_send actor req d =
     d\<lparr>seqs := q_messages_update (\<lambda>i. i + 1) (seqs d),
       tabs := t_conversations_update (update_where (\<lambda>x. c_id x = sm_conversation_id req)
                 (\<lambda>x. x\<lparr>c_last_message_at := Some (now d), c_updated_at := now d\<rparr>))
               (t_messages_update (\<lambda>rows. rows @ [sent_message actor req d]) (tabs d))\<rparr>"

lemma create_message_body:
  assumes "seq (insert_message \<lparr>nm_conversation_id = sm_conversation_id req, nm_sender_id = actor,
      nm_content = trim (sm_content req), nm_type = sm_type req\<rparr>) (\<lambda>m.
      seq (touch_conversation (sm_conversation_id req)) (\<lambda>_. ret m)) d = (r, d')"
  shows "if find_conversation (sm_conversation_id req) (tabs d) \<noteq> None \<and> user_exists actor (tabs d)
    then r = Inr (sent_message actor req d) \<and> d' = after_send actor req d
    else r = Inl (DbSql (ForeignKeyViolation ''messages'')) \<and> tabs d' = tabs d"
  using assms
  by (auto simp: insert_message_def touch_conversation_def act_simps Let_def sent_message_def after_send_def
      split: if_splits)

lemma deliver_keeps_messages:
  "keeps (inv_rel (\<lambda>v. P (t_messages (tabs (db v))))) (MessageService_deliver actor req content stored)"
  unfolding MessageService_deliver_def MessageService_to_response_def AttachmentService_attachment_ids_for_def
    PgAttachmentRepository_list_for_message_def PgConversationRepository_list_participant_ids_def
  by (intro inv_step.keeps_rules same_keeps_inv [where f = "\<lambda>w. t_messages (tabs (db w))"] keeps_intros)

lemma stored_after_send: "message_stored (sent_message actor req d) (v\<lparr>db := after_send actor req d\<rparr>)"
  by (simp add: message_stored_def after_send_def)

lemma deliver_returns: "MessageService_deliver actor req content stored v = (Inr m, v') \<Longrightarrow> m = stored"
  unfolding MessageService_deliver_def by (elim seq_succeedsE) simp

lemma wp_create_message:
  assumes "find_conversation (sm_conversation_id req) (tabs (db w)) \<noteq> None \<Longrightarrow> user_exists actor (tabs (db w)) \<Longrightarrow>
      Q (sent_message actor req (db w)) (w\<lparr>faults := tl (faults w), db := after_send actor req (db w)\<rparr>)"
    and "\<And>e d. tabs d = tabs (db w) \<Longrightarrow> E e (w\<lparr>faults := tl (faults w), db := d\<rparr>)"
  shows "wp (PgMessageRepository_create \<lparr>nm_conversation_id = sm_conversation_id req, nm_sender_id = actor,
      nm_content = trim (sm_content req), nm_type = sm_type req\<rparr>) Q E w"
  unfolding PgMessageRepository_create_def
proof (rule wp_transaction)
  fix e show "E e (quiet w)" using assms(2) [of "db w" e] by (cases w) simp
qed (use assms in \<open>auto dest!: create_message_body simp: rollback_def split: if_splits\<close>)

text \<open>C1. A message is durable before it is delivered: whatever the database does in between, if sending
  succeeded or anything at all was broadcast, the message is stored, under a new id, with the
  trimmed content, in the requested conversation, from the acting user.\<close>

theorem send_persists_first:
  assumes ok: "db_ok (db w)" and run: "MessageService_send actor req w = (res, w')"
    and told: "outbox w' \<noteq> outbox w \<or> (\<exists>m. res = Inr m)"
  shows "\<exists>m. message_stored m w' \<and> m_id m \<notin> message_ids (tabs (db w)) \<and> m_sender_id m = actor \<and>
    m_conversation_id m = sm_conversation_id req \<and> m_content m = trim (sm_content req) \<and>
    (\<forall>m'. res = Inr m' \<longrightarrow> m' = m)"
proof -
  let ?m = "sent_message actor req (db w)"
  let ?E = "\<lambda>_ v. outbox v = outbox w \<or> message_stored ?m v"
  have deliver: "wp (MessageService_deliver actor req content ?m) (\<lambda>x v. x = ?m \<and> message_stored ?m v) ?E v"
    if "message_stored ?m v" for content v
    using inv_wpD [OF deliver_keeps_messages, of "\<lambda>ms. ?m \<in> set ms" v actor req content ?m] that
    by (auto simp: wp_def message_stored_def split: prod.splits sum.splits dest: deliver_returns)
  have "wp (MessageService_send actor req) (\<lambda>x v. x = ?m \<and> message_stored ?m v) ?E w"
  proof (cases "validate_message_content (sm_content req)")
    case (Inl e)
    then show ?thesis by (simp add: MessageService_send_def wp_simps)
  next
    case (Inr content)
    then have c: "content = trim (sm_content req)" by (simp add: validate_message_content_ok)
    show ?thesis
      unfolding MessageService_send_def wp_seq wp_of_result Inr sum.case c
      by (rule wp_require_participant, rule wp_create_message) (simp_all add: deliver stored_after_send)
  qed
  moreover have "m_id ?m \<notin> message_ids (tabs (db w))"
    using ok by (auto simp: sent_message_def message_ids_def db_ok_def messages_ok_def serial_key_def)
  ultimately show ?thesis
    using run told by (intro exI [of _ ?m]) (auto simp: wp_def sent_message_def split: sum.splits)
qed



section \<open>Who is told what\<close>

text \<open>One notification per recipient: a stored row, a message to the recipient's clients, a push.\<close>

definition notified :: "notification_type \<Rightarrow> json \<Rightarrow> int list \<Rightarrow> world \<Rightarrow> world \<Rightarrow> bool" where
  "notified ty payload us w w' \<longleftrightarrow>
     (\<exists>ns. t_notifications (tabs (db w')) = t_notifications (tabs (db w)) @ ns \<and> map n_user_id ns = us \<and>
        (\<forall>n \<in> set ns. n_type n = ty \<and> n_payload n = payload \<and> n_read_at n = None) \<and>
        tabs (db w') = t_notifications_update (\<lambda>_. t_notifications (tabs (db w)) @ ns) (tabs (db w)) \<and>
        outbox w' = outbox w @ map (\<lambda>n. ([n_user_id n], kNotification, NotificationResponse_to_json n)) ns \<and>
        tasks w' = tasks w @ (if executor_running w then map (\<lambda>u. PushJob (push_for u ty payload)) us else [])) \<and>
     faults w' = faults w \<and> bus w' = bus w \<and> executor_running w' = executor_running w \<and>
     publisher_attached w' = publisher_attached w"

lemma notified_refl: "notified ty payload [] w w"
  by (simp add: notified_def)

lemma notified_trans:
  assumes "notified ty payload us w w1" "notified ty payload vs w1 w2"
  shows "notified ty payload (us @ vs) w w2"
proof -
  obtain ns where ns: "t_notifications (tabs (db w1)) = t_notifications (tabs (db w)) @ ns" "map n_user_id ns = us"
    "\<forall>n \<in> set ns. n_type n = ty \<and> n_payload n = payload \<and> n_read_at n = None"
    "tabs (db w1) = t_notifications_update (\<lambda>_. t_notifications (tabs (db w)) @ ns) (tabs (db w))"
    "outbox w1 = outbox w @ map (\<lambda>n. ([n_user_id n], kNotification, NotificationResponse_to_json n)) ns"
    "tasks w1 = tasks w @ (if executor_running w then map (\<lambda>u. PushJob (push_for u ty payload)) us else [])"
    using assms(1) by (auto simp: notified_def)
  obtain ms where ms: "t_notifications (tabs (db w2)) = t_notifications (tabs (db w1)) @ ms" "map n_user_id ms = vs"
    "\<forall>n \<in> set ms. n_type n = ty \<and> n_payload n = payload \<and> n_read_at n = None"
    "tabs (db w2) = t_notifications_update (\<lambda>_. t_notifications (tabs (db w1)) @ ms) (tabs (db w1))"
    "outbox w2 = outbox w1 @ map (\<lambda>n. ([n_user_id n], kNotification, NotificationResponse_to_json n)) ms"
    "tasks w2 = tasks w1 @ (if executor_running w1 then map (\<lambda>u. PushJob (push_for u ty payload)) vs else [])"
    using assms(2) by (auto simp: notified_def)
  show ?thesis
    unfolding notified_def
    using assms ns ms by (intro conjI exI [of _ "ns @ ms"]) (auto simp: notified_def)
qed

lemma NotificationService_create_runs:
  assumes "faults w = []" "u \<in> user_ids (tabs (db w))"
  obtains n w' where "NotificationService_create u ty payload w = (Inr n, w')" "notified ty payload [u] w w'"
proof -
  let ?n = "\<lparr>n_id = q_notifications (seqs (db w)), n_user_id = u, n_type = ty, n_payload = payload,
      n_read_at = None, n_created_at = now (db w)\<rparr>"
  show ?thesis
    by (rule that [of ?n])
       (use assms in \<open>auto simp: NotificationService_create_def PgNotificationRepository_create_def
          with_transaction_quiet act_simps Let_def user_exists_iff notified_def\<close>)
qed

lemma notify_each_runs:
  assumes "faults w = []" "set rs \<subseteq> user_ids (tabs (db w))"
  shows "\<exists>w'. for_each rs (\<lambda>u. if u = actor then ret ()
        else seq (NotificationService_create u ty payload) (\<lambda>_. ret ())) w = (Inr (), w') \<and>
     notified ty payload (filter (\<lambda>u. u \<noteq> actor) rs) w w'"
  using assms
proof (induction rs arbitrary: w)
  case (Cons u rs)
  show ?case
  proof (cases "u = actor")
    case False
    obtain n w1 where w1: "NotificationService_create u ty payload w = (Inr n, w1)" "notified ty payload [u] w w1"
      using NotificationService_create_runs Cons.prems by (metis insert_subset list.simps(15))
    then have "faults w1 = []" "set rs \<subseteq> user_ids (tabs (db w1))"
      using Cons.prems by (auto simp: notified_def user_ids_def)
    from Cons.IH [OF this] obtain w2 where
      "for_each rs (\<lambda>u. if u = actor then ret ()
        else seq (NotificationService_create u ty payload) (\<lambda>_. ret ())) w1 = (Inr (), w2)"
      "notified ty payload (filter (\<lambda>u. u \<noteq> actor) rs) w1 w2" by blast
    then show ?thesis using w1 False notified_trans [OF w1(2)] by (auto simp: act_simps)
  qed (use Cons in \<open>auto simp: act_simps\<close>)
qed (simp add: notified_refl)


abbreviation event_facts :: "domain_event list \<Rightarrow> event_seed list" where
  "event_facts es \<equiv> map (\<lambda>e. (de_type e, de_payload e, de_actor_id e)) es"

lemma deliver_runs:
  fixes w :: world and req :: send_message_request
  defines "ids \<equiv> map p_user_id (members (sm_conversation_id req) (tabs (db w)))"
  assumes quiet: "faults w = []" and stored: "m_id m \<in> message_ids (tabs (db w))"
    and users: "set ids \<subseteq> user_ids (tabs (db w))"
  obtains w1 w2 w' where "MessageService_deliver actor req content m w = (Inr m, w')"
    "tabs (db w1) = t_attachments_update (map (link_row (m_id m) actor (sm_attachment_ids req))) (tabs (db w))"
    "outbox w1 = outbox w @ [(ids, kMessageCreated,
       MessageResponse_to_json m (map a_id (attachments_of (m_id m) (tabs (db w1)))))]"
    "tasks w1 = tasks w" "executor_running w1 = executor_running w"
    "notified kNewMessage (JObj [(''conversation_id'', JInt (m_conversation_id m)),
       (''message_id'', JInt (m_id m)), (''sender_id'', JInt actor)]) (filter (\<lambda>u. u \<noteq> actor) ids) w1 w2"
    "db w' = db w2" "outbox w' = outbox w2" "tasks w' = tasks w2"
    "event_facts (bus w') = event_facts (bus w) @
       (if publisher_attached w
        then [MessageSent (m_id m) (m_conversation_id m) actor ids (length content)] else [])"
proof -
  let ?payload = "JObj [(''conversation_id'', JInt (m_conversation_id m)),
       (''message_id'', JInt (m_id m)), (''sender_id'', JInt actor)]"
  define v where "v = w\<lparr>db := (db w)\<lparr>tabs :=
      t_attachments_update (map (link_row (m_id m) actor (sm_attachment_ids req))) (tabs (db w))\<rparr>\<rparr>"
  have same: "members c (tabs (db v)) = members c (tabs (db w))" for c by (simp add: v_def members_def)
  have link: "(if sm_attachment_ids req \<noteq> []
       then seq (AttachmentService_link_to_message actor (sm_attachment_ids req) (m_id m)) (\<lambda>_. ret ())
       else ret ()) w = (Inr (), v)"
  proof (cases "sm_attachment_ids req = []")
    case True
    have "map (link_row (m_id m) actor []) xs = xs" for xs by (induction xs) (auto simp: link_row_def)
    then show ?thesis using True by (simp add: v_def)
  next
    case False
    then show ?thesis
      using PgAttachmentRepository_link_runs [OF quiet stored, of "sm_attachment_ids req" actor]
      by (auto simp: AttachmentService_link_to_message_def v_def act_simps)
  qed
  define w1 where "w1 = v\<lparr>outbox := outbox v @ [(ids, kMessageCreated,
      MessageResponse_to_json m (map a_id (attachments_of (m_id m) (tabs (db v)))))]\<rparr>"
  have w1: "faults w1 = []" "set ids \<subseteq> user_ids (tabs (db w1))"
    using quiet users by (simp_all add: w1_def v_def user_ids_def)
  obtain w2 where w2: "for_each ids (\<lambda>u. if u = actor then ret ()
        else seq (NotificationService_create u kNewMessage ?payload) (\<lambda>_. ret ())) w1 = (Inr (), w2)"
    "notified kNewMessage ?payload (filter (\<lambda>u. u \<noteq> actor) ids) w1 w2"
    using notify_each_runs [OF w1, of actor kNewMessage ?payload] by blast
  obtain w' where w': "publish (MessageSent (m_id m) (m_conversation_id m) actor ids (length content)) w2 = (Inr (), w')"
    "db w' = db w2" "outbox w' = outbox w2" "tasks w' = tasks w2"
    "event_facts (bus w') = event_facts (bus w2) @
       (if publisher_attached w2 then [MessageSent (m_id m) (m_conversation_id m) actor ids (length content)] else [])"
    by (rule run_publish [of "MessageSent (m_id m) (m_conversation_id m) actor ids (length content)" w2]) blast
  have read: "PgConversationRepository_list_participant_ids (sm_conversation_id req) v = (Inr ids, v)"
    "MessageService_to_response m v =
       (Inr (MessageResponse_to_json m (map a_id (attachments_of (m_id m) (tabs (db v))))), v)"
    using quiet
    by (simp_all add: repository_read_defs MessageService_to_response_def ids_def same
        AttachmentService_attachment_ids_for_def PgAttachmentRepository_list_for_message_def act_simps)
       (simp_all add: v_def act_simps)
  have "MessageService_deliver actor req content m w = (Inr m, w')"
    using link read w2(1) w'(1)
    by (simp add: MessageService_deliver_def NotificationDispatcher_new_message_def guarded_def
        run_broadcast catch_apply w1_def [symmetric])
  then show ?thesis
    using that [of w' w1 w2] w2(2) w' by (simp add: w1_def v_def notified_def)
qed


lemma send_runs:
  fixes w :: world and req :: send_message_request and actor :: int
  defines "ids \<equiv> map p_user_id (members (sm_conversation_id req) (tabs (db w)))"
    and "m \<equiv> sent_message actor req (db w)"
  assumes inv: "conv_inv (db w)" and quiet: "faults w = []"
    and mem: "is_member (sm_conversation_id req) actor (tabs (db w))"
    and content: "trim (sm_content req) \<noteq> []" "length (trim (sm_content req)) \<le> 4000"
  obtains w1 w2 w' where "MessageService_send actor req w = (Inr m, w')"
    "tabs (db w1) = t_attachments_update (map (link_row (m_id m) actor (sm_attachment_ids req)))
       (tabs (after_send actor req (db w)))"
    "outbox w1 = outbox w @ [(ids, kMessageCreated,
       MessageResponse_to_json m (map a_id (attachments_of (m_id m) (tabs (db w1)))))]"
    "notified kNewMessage (JObj [(''conversation_id'', JInt (m_conversation_id m)),
       (''message_id'', JInt (m_id m)), (''sender_id'', JInt actor)]) (filter (\<lambda>u. u \<noteq> actor) ids) w1 w2"
    "db w' = db w2" "outbox w' = outbox w2"
    "event_facts (bus w') = event_facts (bus w) @
       (if publisher_attached w
        then [MessageSent (m_id m) (m_conversation_id m) actor ids (length (trim (sm_content req)))] else [])"
proof -
  let ?d = "db w" and ?c = "sm_conversation_id req"
  have ok: "db_ok ?d" using inv by (simp add: conv_inv_def)
  have part: "?c \<in> conversation_ids (tabs ?d)" "actor \<in> user_ids (tabs ?d)" "set ids \<subseteq> user_ids (tabs ?d)"
    using ok mem by (auto simp: db_ok_def participants_ok_def refs_def is_member_iff members_def ids_def)
  define v where "v = w\<lparr>db := after_send actor req ?d\<rparr>"
  have checks: "validate_message_content (sm_content req) = Inr (trim (sm_content req))"
    "require_participant ?c actor w = (Inr (), w)"
    using content quiet mem
    by (simp_all add: validate_message_content_ok require_participant_def repository_read_defs act_simps)
  have create: "PgMessageRepository_create \<lparr>nm_conversation_id = ?c, nm_sender_id = actor,
      nm_content = trim (sm_content req), nm_type = sm_type req\<rparr> w = (Inr m, v)"
    using part quiet
    by (simp add: PgMessageRepository_create_def with_transaction_quiet insert_message_def
        touch_conversation_def act_simps find_conversation_None user_exists_iff Let_def
        sent_message_def after_send_def v_def m_def)
  have members: "map p_user_id (members ?c (tabs (db v))) = ids" by (simp add: v_def after_send_def ids_def)
  have v: "faults v = []" "m_id m \<in> message_ids (tabs (db v))"
    "set (map p_user_id (members ?c (tabs (db v)))) \<subseteq> user_ids (tabs (db v))"
    using quiet part(3) unfolding members
    by (simp_all add: v_def after_send_def message_ids_def user_ids_def m_def)
  show ?thesis
  proof (rule deliver_runs [OF v, of actor "trim (sm_content req)", unfolded members])
    fix w1 w2 w'
    assume "MessageService_deliver actor req (trim (sm_content req)) m v = (Inr m, w')"
    then have "MessageService_send actor req w = (Inr m, w')"
      using checks create by (simp add: MessageService_send_def)
    moreover assume "tabs (db w1) = t_attachments_update (map (link_row (m_id m) actor (sm_attachment_ids req))) (tabs (db v))"
      "outbox w1 = outbox v @ [(ids, kMessageCreated,
         MessageResponse_to_json m (map a_id (attachments_of (m_id m) (tabs (db w1)))))]"
      "notified kNewMessage (JObj [(''conversation_id'', JInt (m_conversation_id m)),
         (''message_id'', JInt (m_id m)), (''sender_id'', JInt actor)]) (filter (\<lambda>u. u \<noteq> actor) ids) w1 w2"
      "db w' = db w2" "outbox w' = outbox w2"
      "event_facts (bus w') = event_facts (bus v) @
         (if publisher_attached v
          then [MessageSent (m_id m) (m_conversation_id m) actor ids (length (trim (sm_content req)))] else [])"
    ultimately show ?thesis using that [of w' w1 w2] by (simp add: v_def)
  qed
qed


definition example_request :: send_message_request where
  "example_request = \<lparr>sm_conversation_id = 7, sm_content = ''  hello '', sm_type = kText, sm_attachment_ids = []\<rparr>"

lemma example_request_facts:
  "conv_inv (db example_world)" "faults example_world = []"
  "is_member (sm_conversation_id example_request) 2 (tabs (db example_world))"
  "trim (sm_content example_request) = ''hello''"
  using example_inv by (simp_all add: example_request_def)
    (simp_all add: example_defs is_member_def trim_def isspace_def)


theorem send_persists_first_witness:
  "\<exists>res w' m. MessageService_send 2 example_request example_world = (res, w') \<and> (\<exists>m. res = Inr m) \<and>
     message_stored m w' \<and> m_content m = ''hello''"
proof -
  obtain w' where run: "MessageService_send 2 example_request example_world =
      (Inr (sent_message 2 example_request (db example_world)), w')"
    by (rule send_runs [OF example_request_facts(1-3)]) (use example_request_facts(4) in auto)
  show ?thesis
    using run send_persists_first [OF example_db_ok run] example_request_facts(4) by auto
qed

end
