(* ===== verification/MessageRules.thy ===== *)
theory MessageRules
  imports MessageService ConversationCreation
begin

text \<open>
  Rules that hold over all operations on messages: who may read, write, edit and delete; what
  deletion means; and that paging with cursors visits every message exactly once.
\<close>


section \<open>Permissions\<close>

lemma refused_not_member:
  assumes "\<not> is_member c u (tabs (db w))"
  shows "refused kNotFound (seq (require_participant c u) k) w"
  unfolding refused_wp wp_seq require_participant_def repository_read_defs
  by (rule wp_read_strict) (use assms in \<open>simp_all add: wp_simps exception_defs\<close>)

lemma require_message_found:
  assumes "find_message i (tabs (db w)) = Some m"
  shows "wp (require_message i) (\<lambda>y w'. y = m \<and> w' = quiet w) (\<lambda>e w'. faults w \<noteq> [] \<and> w' = quiet w) w"
  unfolding require_message_def PgMessageRepository_find_by_id_def wp_seq
  by (rule wp_read_strict) (use assms in \<open>simp_all add: wp_simps\<close>)

lemma refused_quiet:
  "refused ty m (quiet w) \<Longrightarrow> wp m (\<lambda>_ _. False) (\<lambda>e w'. (faults w = [] \<longrightarrow> ex_type e = ty) \<and> untouched w w') (quiet w)"
  by (auto simp: refused_wp elim!: wp_mono simp: untouched_def)

lemma refused_after_message:
  assumes "find_message i (tabs (db w)) = Some m" "refused ty (k m) (quiet w)"
  shows "refused ty (seq (require_message i) k) w"
  unfolding refused_wp wp_seq
  by (rule wp_mono [OF require_message_found [OF assms(1)]]) (use refused_quiet [OF assms(2)] in auto)

lemma send_by_outsider_refused:
  assumes "\<not> is_member (sm_conversation_id req) actor (tabs (db w))"
  shows "refused (if trim (sm_content req) \<noteq> [] \<and> length (trim (sm_content req)) \<le> 4000
    then kNotFound else kValidation) (MessageService_send actor req) w"
proof (cases "validate_message_content (sm_content req)")
  case (Inl e)
  then have "\<not> (trim (sm_content req) \<noteq> [] \<and> length (trim (sm_content req)) \<le> 4000)"
    using validate_message_content_ok [of "sm_content req" "trim (sm_content req)"] by auto
  then show ?thesis
    using Inl validate_message_content_error [OF Inl]
    by (auto simp: MessageService_send_def refused_def act_simps)
next
  case (Inr content)
  then have "trim (sm_content req) \<noteq> [] \<and> length (trim (sm_content req)) \<le> 4000"
    by (auto simp: validate_message_content_ok)
  moreover have "seq (of_result (Inr content)) k = k content" for k :: "string \<Rightarrow> message act"
    by (simp add: fun_eq_iff act_simps)
  ultimately show ?thesis
    using refused_not_member [OF assms] by (simp add: MessageService_send_def Inr)
qed

lemma conversation_hidden:
  assumes out: "\<not> is_member c actor (tabs (db w))"
  shows "refused kNotFound (ConversationService_get actor c) w"
proof (cases "find_conversation c (tabs (db w))")
  case None
  then show ?thesis
    unfolding ConversationService_get_def refused_wp wp_seq require_conversation_def repository_read_defs
    by (intro wp_read_strict) (simp_all add: wp_simps exception_defs)
next
  case (Some x)
  have "refused kNotFound (seq (require_participant c actor) k) (quiet w)" for k :: "unit \<Rightarrow> conversation act"
    by (rule refused_not_member) (use out in simp)
  then show ?thesis
    unfolding ConversationService_get_def refused_wp [of _ _ w] wp_seq [of "require_conversation c"]
    by (intro wp_mono [OF require_conversation_found [OF Some]]) (auto dest: refused_quiet)
qed



text \<open>C14. Only the author edits a message; only the author and the owner of the group delete it.
  Everybody else is refused with an authorisation error and changes nothing.\<close>

theorem message_permissions:
  assumes m: "find_message i (tabs (db w)) = Some m" and no: "m_sender_id m \<noteq> actor"
  shows "refused kAuthorization (MessageService_edit actor i content) w \<and>
    ((\<forall>c. find_conversation (m_conversation_id m) (tabs (db w)) = Some c \<longrightarrow> is_group c \<longrightarrow> c_owner_id c \<noteq> Some actor)
     \<longrightarrow> refused kAuthorization (MessageService_remove actor i) w)"
proof (intro conjI impI)
  have "refused kAuthorization (seq (require (m_sender_id m = actor)
     (AuthorizationException ''Only the author may edit a message'' [])) k) (quiet w)" for k :: "unit \<Rightarrow> message act"
    using no by (simp add: refused_wp wp_simps exception_defs)
  then show "refused kAuthorization (MessageService_edit actor i content) w"
    unfolding MessageService_edit_def by (intro refused_after_message [OF m])
next
  assume other: "\<forall>c. find_conversation (m_conversation_id m) (tabs (db w)) = Some c \<longrightarrow> is_group c \<longrightarrow> c_owner_id c \<noteq> Some actor"
  have "refused kAuthorization (seq (if m_sender_id m = actor then ret False
          else seq (PgConversationRepository_find_by_id (m_conversation_id m)) (\<lambda>conversation.
               seq (require (case conversation of
                       None \<Rightarrow> False
                     | Some c \<Rightarrow> is_group c \<and> c_owner_id c = Some actor)
                      (AuthorizationException ''Not allowed to delete this message'' [])) (\<lambda>_.
               ret True))) k) (quiet w)" for k :: "bool \<Rightarrow> message act"
    unfolding refused_wp wp_seq repository_read_defs
    using no other
    by (auto simp: wp_simps exception_defs split: option.splits intro!: wp_read_strict)
  then show "refused kAuthorization (MessageService_remove actor i) w"
    unfolding MessageService_remove_def by (intro refused_after_message [OF m])
qed


section \<open>Deletion\<close>

lemma find_message_update:
  assumes "\<And>m. m_id (f m) = m_id m"
  shows "find_message i (t_messages_update (update_where P f) t) =
    map_option (\<lambda>m. if P m then f m else m) (find_message i t)"
  unfolding find_message_def by (simp add: find_update_where assms)

lemma update_live_message_runs:
  assumes "faults w = []" "find_message i (tabs (db w)) = Some m" "db_ok (db w)" "\<not> is_deleted m"
  shows "with_transaction (update_live_message i f) w =
    (Inr (f (now (db w)) m), w\<lparr>db := (db w)\<lparr>tabs := t_messages_update
       (update_where (\<lambda>m. m_id m = i \<and> m_deleted_at m = None) (f (now (db w)))) (tabs (db w))\<rparr>\<rparr>)"
proof -
  have "List.find (\<lambda>m. m_id m = i \<and> m_deleted_at m = None) (t_messages (tabs (db w))) = Some m"
    using assms(2,4) by (auto simp: find_message_def is_deleted_def find_Some_iff)
  then show ?thesis
    using assms(1) by (simp add: with_transaction_quiet update_live_message_def act_simps)
qed


lemma deleted_message_refused:
  assumes "faults w = []" "find_message i (tabs (db w)) = Some m" "is_deleted m" "db_ok (db w)"
  shows "refused kNotFound (with_transaction (update_live_message i f)) w"
proof -
  have "List.find (\<lambda>m. m_id m = i \<and> m_deleted_at m = None) (t_messages (tabs (db w))) = None"
  proof (rule ccontr)
    assume "\<not> ?thesis"
    then obtain m' where "m' \<in> set (t_messages (tabs (db w)))" "m_id m' = i" "m_deleted_at m' = None"
      by (auto dest: find_SomeD)
    moreover have "unique m_id (t_messages (tabs (db w)))"
      using assms(4) by (auto simp: db_ok_def messages_ok_def intro: serial_key_unique)
    ultimately show False
      using assms(3) find_message_Some [OF assms(2)] unique_eq by (metis is_deleted_def)
  qed
  then show ?thesis
    using assms(1)
    by (simp add: refused_def with_transaction_quiet update_live_message_def act_simps rollback_def exception_defs)
qed

lemma refused_seq_first: "refused ty m w \<Longrightarrow> refused ty (seq m k) w"
  by (auto simp: refused_def)

lemma deleted_message_stays:
  assumes found: "find_message i (tabs (db w)) = Some m" "is_deleted m" "m_sender_id m = actor"
    and ok: "db_ok (db w)" "faults w = []" and content: "trim content \<noteq> []" "length (trim content) \<le> 4000"
  shows "refused kNotFound (MessageService_remove actor i) w" "refused kNotFound (MessageService_edit actor i content) w"
proof -
  have again: "refused kNotFound (with_transaction (update_live_message i g)) w" for g
    by (rule deleted_message_refused [OF ok(2) found(1,2) ok(1)])
  have w: "quiet w = w" using ok(2) by simp
  show "refused kNotFound (MessageService_remove actor i) w"
    unfolding MessageService_remove_def PgMessageRepository_soft_delete_def
    by (rule refused_after_message [OF found(1)], unfold w)
       (use found refused_seq_first [OF again] in \<open>simp add: refused_def act_simps\<close>)
  show "refused kNotFound (MessageService_edit actor i content) w"
    unfolding MessageService_edit_def PgMessageRepository_update_content_def
    by (rule refused_after_message [OF found(1)], unfold w)
       (use found content validate_message_content_ok [of content "trim content"] refused_seq_first [OF again]
        in \<open>simp add: refused_def act_simps\<close>)
qed

text \<open>C15. Deleting a message is final. The author's deletion marks the row and keeps its content in the
  database, but from then on no response carries the content; all participants are told, with an
  empty content; and editing or deleting the message again is refused as not found.\<close>

theorem message_deletion:
  assumes inv: "conv_inv (db w)" and quiet: "faults w = []"
    and m: "find_message i (tabs (db w)) = Some m" "\<not> is_deleted m" "m_sender_id m = actor"
    and content: "trim content \<noteq> []" "length (trim content) \<le> 4000"
  shows "\<exists>m' w' ids. MessageService_remove actor i w = (Inr m', w') \<and>
    find_message i (tabs (db w')) = Some m' \<and> is_deleted m' \<and> m_content m' = m_content m \<and>
    MessageResponse_content m' = [] \<and>
    outbox w' = outbox w @ [(map p_user_id (members (m_conversation_id m) (tabs (db w))), kMessageDeleted,
      MessageResponse_to_json m' ids)] \<and>
    refused kNotFound (MessageService_edit actor i content) w' \<and>
    refused kNotFound (MessageService_remove actor i) w'"
proof -
  let ?f = "\<lambda>m. m\<lparr>m_deleted_at := Some (now (db w)), m_updated_at := now (db w)\<rparr>"
  let ?ids = "map p_user_id (members (m_conversation_id m) (tabs (db w)))"
  have ok: "db_ok (db w)" using inv by (simp add: conv_inv_def)
  define d where "d = (db w)\<lparr>tabs := t_messages_update
       (update_where (\<lambda>m. m_id m = i \<and> m_deleted_at m = None) ?f) (tabs (db w))\<rparr>"
  have del: "PgMessageRepository_soft_delete i w = (Inr (?f m), w\<lparr>db := d\<rparr>)"
    using update_live_message_runs [OF quiet m(1) ok m(2)]
    by (simp add: PgMessageRepository_soft_delete_def d_def)
  let ?atts = "map a_id (attachments_of (m_id m) (tabs d))"
  define v where "v = w\<lparr>db := d, outbox := outbox w @ [(?ids, kMessageDeleted, MessageResponse_to_json (?f m) ?atts)]\<rparr>"
  obtain w' where w': "publish (MessageDeleted (m_id m) (m_conversation_id m) actor False) v = (Inr (), w')"
    "db w' = db v" "faults w' = faults v" "outbox w' = outbox v"
    by (rule run_publish)
  have run: "MessageService_remove actor i w = (Inr (?f m), w')"
    using quiet m del w'(1)
    by (simp add: MessageService_remove_def require_message_def PgMessageRepository_find_by_id_def
        repository_read_defs MessageService_to_response_def AttachmentService_attachment_ids_for_def
        PgAttachmentRepository_list_for_message_def act_simps v_def d_def)
  have found: "find_message i (tabs (db w')) = Some (?f m)"
    using m w'(2) find_message_Some [OF m(1)] by (simp add: v_def d_def find_message_update is_deleted_def)
  have okw: "db_ok (db w')" "faults w' = []"
    using w' quiet update_messages_db_ok [OF ok, of ?f] by (simp_all add: v_def d_def)
  note stays = deleted_message_stays [OF found _ _ okw content, of actor]
  show ?thesis
    using run found w'(4) stays m(3)
    by (intro exI [of _ "?f m"] exI [of _ w'] exI [of _ ?atts])
       (simp add: v_def is_deleted_def MessageResponse_content_def)
qed


text \<open>The example group with two messages, the first from user 2, the second from user 1.\<close>

definition example_message :: "int \<Rightarrow> int \<Rightarrow> string \<Rightarrow> message" where
  "example_message i u txt =
     \<lparr>m_id = i, m_conversation_id = 7, m_sender_id = u, m_type = kText, m_content = txt,
      m_created_at = 10, m_updated_at = 10, m_edited_at = None, m_deleted_at = None\<rparr>"

definition chat_world :: world where
  "chat_world = example_world\<lparr>db := (db example_world)\<lparr>
     tabs := t_messages_update (\<lambda>_. [example_message 1 2 ''hi'', example_message 2 1 ''hello'']) (tabs (db example_world)),
     seqs := q_messages_update (\<lambda>_. 3) (seqs (db example_world))\<rparr>\<rparr>"

lemma chat_facts:
  "conv_inv (db chat_world)" "faults chat_world = []"
  "find_message 1 (tabs (db chat_world)) = Some (example_message 1 2 ''hi'')"
proof -
  have "db_ok (db chat_world)"
    using example_db_ok
    by (simp add: chat_world_def db_ok_def table_ok_defs ids_defs)
       (simp add: example_defs example_message_def serial_key_def refs_def opt_refs_def unique_def opt_unique_def)
  then show "conv_inv (db chat_world)"
    using example_inv by (simp add: conv_inv_def chat_world_def)
qed (simp_all add: chat_world_def find_message_def example_message_def example_world_def)

theorem message_permissions_witness:
  "refused kAuthorization (MessageService_edit 1 1 ''x'') chat_world \<and>
   refused kAuthorization (MessageService_remove 3 1) chat_world"
proof -
  have "refused kAuthorization (MessageService_edit 1 1 ''x'') chat_world"
    using message_permissions [OF chat_facts(3), of 1 "''x''"] by (simp add: example_message_def)
  moreover have "find_conversation 7 (tabs (db chat_world)) = find_conversation 7 (tabs (db example_world))"
    by (simp add: chat_world_def find_conversation_def)
  then have "refused kAuthorization (MessageService_remove 3 1) chat_world"
    using message_permissions [OF chat_facts(3), of 3] by (simp add: example_message_def example_conversation)
  ultimately show ?thesis by blast
qed

theorem message_deletion_witness:
  "\<exists>m' w'. MessageService_remove 2 1 chat_world = (Inr m', w') \<and> m_content m' = ''hi'' \<and>
     MessageResponse_content m' = [] \<and> refused kNotFound (MessageService_edit 2 1 ''again'') w'"
proof -
  have "trim ''again'' = ''again''" by (simp add: trim_def isspace_def)
  then show ?thesis
    using message_deletion [OF chat_facts(1,2,3), of 2 "''again''"]
    by (auto simp: example_message_def is_deleted_def)
qed


section \<open>Paging through a conversation\<close>

text \<open>How a client reads the history: fetch a page, continue before the last message of the page,
  stop at an empty page.\<close>

fun read_history :: "(string \<Rightarrow> string \<Rightarrow> bool) \<Rightarrow> nat \<Rightarrow> int \<Rightarrow> message_query \<Rightarrow> int \<Rightarrow> int option \<Rightarrow> message list act" where
  "read_history tsmatch 0 actor q k cursor = ret []"
| "read_history tsmatch (Suc n) actor q k cursor =
     seq (MessageService_list tsmatch actor q
            \<lparr>pg_limit = k, pg_offset = 0, pg_before_id = cursor, pg_after_id = None\<rparr>) (\<lambda>page.
     if page = [] then ret []
     else seq (read_history tsmatch n actor q k (Some (m_id (last page)))) (\<lambda>rest.
          ret (page @ rest)))"

text \<open>What the query selects, newest first.\<close>

definition selected :: "(string \<Rightarrow> string \<Rightarrow> bool) \<Rightarrow> message_query \<Rightarrow> tables \<Rightarrow> message list" where
  "selected tsmatch q t = newest_first (filter (message_matches tsmatch
     \<lparr>mf_conversation_id = mq_conversation_id q, mf_sender_id = mq_sender_id q, mf_keyword = mq_keyword q\<rparr>
     default_page) (t_messages t))"

definition before :: "int option \<Rightarrow> message list \<Rightarrow> message list" where
  "before cursor ms = filter (\<lambda>m. case cursor of None \<Rightarrow> True | Some b \<Rightarrow> m_id m < b) ms"

lemma newest_first_filter: "filter P (newest_first ms) = newest_first (filter P ms)"
  by (simp add: newest_first_def filter_sort flip: rev_filter)

lemma page_of_selected:
  assumes "faults w = []" "is_member (mq_conversation_id q) actor (tabs (db w))"
  shows "MessageService_list tsmatch actor q
      \<lparr>pg_limit = k, pg_offset = 0, pg_before_id = cursor, pg_after_id = None\<rparr> w =
    (Inr (take (nat k) (before cursor (selected tsmatch q (tabs (db w))))), w)"
proof -
  let ?f = "\<lparr>mf_conversation_id = mq_conversation_id q, mf_sender_id = mq_sender_id q, mf_keyword = mq_keyword q\<rparr>"
  let ?page = "\<lparr>pg_limit = k, pg_offset = 0, pg_before_id = cursor, pg_after_id = None\<rparr>"
  have "filter (message_matches tsmatch ?f ?page) ms =
      filter (\<lambda>m. case cursor of None \<Rightarrow> True | Some b \<Rightarrow> m_id m < b) (filter (message_matches tsmatch ?f default_page) ms)" for ms
    by (auto simp: message_matches_def default_page_def intro: filter_cong)
  then have "newest_first (filter (message_matches tsmatch ?f ?page) (t_messages (tabs (db w)))) =
      before cursor (selected tsmatch q (tabs (db w)))"
    by (simp only: selected_def before_def newest_first_filter)
  then show ?thesis
    using assms
    by (simp add: MessageService_list_def require_participant_def repository_read_defs
        PgMessageRepository_list_def act_simps limit_offset_def)
qed

text \<open>The selected ids strictly decrease, so the rest of the list after a page is what lies before
  the last id of that page.\<close>

lemma selected_decreasing:
  assumes "db_ok d"
  shows "sorted_wrt (\<lambda>a b. m_id b < m_id a) (selected tsmatch q (tabs d))"
proof -
  let ?ms = "filter (message_matches tsmatch \<lparr>mf_conversation_id = mq_conversation_id q,
      mf_sender_id = mq_sender_id q, mf_keyword = mq_keyword q\<rparr> default_page) (t_messages (tabs d))"
  have "distinct (map m_id ?ms)"
    using assms by (simp add: db_ok_def messages_ok_def serial_key_def distinct_map_filter)
  then have "distinct (map m_id (sort_key m_id ?ms))" by (simp add: distinct_map)
  moreover have "sorted (map m_id (sort_key m_id ?ms))" by simp
  ultimately have "sorted_wrt (<) (map m_id (sort_key m_id ?ms))"
    by (simp add: strict_sorted_iff)
  then show ?thesis
    by (simp add: selected_def newest_first_def sorted_wrt_rev sorted_wrt_map)
qed

lemma before_last:
  assumes "sorted_wrt (\<lambda>a b. m_id b < m_id a) ms" "take k ms \<noteq> []"
  shows "before (Some (m_id (last (take k ms)))) ms = drop k ms"
  using assms
proof (induction ms arbitrary: k)
  case (Cons m ms)
  then obtain j where k: "k = Suc j" by (cases k) auto
  show ?case
  proof (cases "take j ms = []")
    case True
    then have "j = 0 \<or> ms = []" by simp
    moreover have "filter (\<lambda>x. m_id x < m_id m) ms = ms" using Cons.prems(1) by (simp add: filter_id_conv)
    ultimately show ?thesis using k True by (auto simp: before_def)
  next
    case False
    then have "last (take j ms) \<in> set ms" by (meson in_set_takeD last_in_set)
    then have "m_id (last (take j ms)) < m_id m" using Cons.prems(1) by simp
    then show ?thesis using Cons k False by (auto simp: before_def)
  qed
qed simp

lemma before_before:
  assumes "sorted_wrt (\<lambda>a b. m_id b < m_id a) ms" "take k (before cursor ms) \<noteq> []"
  shows "before (Some (m_id (last (take k (before cursor ms))))) ms = drop k (before cursor ms)"
proof -
  have "last (take k (before cursor ms)) \<in> set (before cursor ms)"
    using assms(2) by (meson in_set_takeD last_in_set)
  then have "before (Some (m_id (last (take k (before cursor ms))))) ms =
      before (Some (m_id (last (take k (before cursor ms))))) (before cursor ms)"
    by (auto simp: before_def intro!: filter_cong split: option.splits)
  also have "\<dots> = drop k (before cursor ms)"
    by (rule before_last) (use assms in \<open>simp_all add: before_def sorted_wrt_filter\<close>)
  finally show ?thesis .
qed

lemma read_history_runs:
  assumes "faults w = []" "db_ok (db w)" "is_member (mq_conversation_id q) actor (tabs (db w))" "1 \<le> k"
    and "length (before cursor (selected tsmatch q (tabs (db w)))) < n"
  shows "read_history tsmatch n actor q k cursor w = (Inr (before cursor (selected tsmatch q (tabs (db w)))), w)"
  using assms(5)
proof (induction n arbitrary: cursor)
  case (Suc n)
  let ?ms = "selected tsmatch q (tabs (db w))"
  let ?page = "take (nat k) (before cursor ?ms)"
  note list = page_of_selected [OF assms(1,3), of tsmatch k cursor]
  show ?case
  proof (cases "?page = []")
    case True
    then show ?thesis using list assms(4) by (simp add: act_simps)
  next
    case False
    have next_page: "before (Some (m_id (last ?page))) ?ms = drop (nat k) (before cursor ?ms)"
      by (rule before_before [OF selected_decreasing [OF assms(2)] False])
    have "length (drop (nat k) (before cursor ?ms)) < n"
      using Suc.prems False assms(4) by (cases "before cursor ?ms") auto
    then have "read_history tsmatch n actor q k (Some (m_id (last ?page))) w =
        (Inr (drop (nat k) (before cursor ?ms)), w)"
      using Suc.IH [of "Some (m_id (last ?page))"] next_page by simp
    then show ?thesis using list False by simp
  qed
qed simp

text \<open>C16. Paging through a conversation with the cursor of the last message visits every selected
  message exactly once, newest first, for every page size; and it ends: one more request than
  there are messages is always enough.\<close>

theorem paging_complete:
  assumes "faults w = []" "db_ok (db w)" "is_member (mq_conversation_id q) actor (tabs (db w))" "1 \<le> k"
    and "length (t_messages (tabs (db w))) < n"
  shows "\<exists>ms. read_history tsmatch n actor q k None w = (Inr ms, w) \<and>
    distinct ms \<and> sorted_wrt (\<lambda>a b. m_id b < m_id a) ms \<and>
    set ms = {m \<in> set (t_messages (tabs (db w))). m_conversation_id m = mq_conversation_id q \<and>
      (\<forall>s. mq_sender_id q = Some s \<longrightarrow> m_sender_id m = s) \<and>
      (\<forall>kw. mq_keyword q = Some kw \<longrightarrow> tsmatch (m_content m) kw \<and> \<not> is_deleted m)}"
proof -
  let ?ms = "selected tsmatch q (tabs (db w))"
  have "before None ?ms = ?ms" by (simp add: before_def)
  moreover have "length ?ms \<le> length (t_messages (tabs (db w)))"
    by (simp add: selected_def newest_first_def)
  ultimately have "read_history tsmatch n actor q k None w = (Inr ?ms, w)"
    using read_history_runs [OF assms(1-4), of None tsmatch n] assms(5) by simp
  moreover have "sorted_wrt (\<lambda>a b. m_id b < m_id a) ?ms" by (rule selected_decreasing [OF assms(2)])
  moreover from this have "distinct ?ms" by (induction ?ms) (auto simp: sorted_wrt_iff_nth_less distinct_conv_nth, metis less_irrefl linorder_neqE_nat)
  moreover have "set ?ms = {m \<in> set (t_messages (tabs (db w))). m_conversation_id m = mq_conversation_id q \<and>
      (\<forall>s. mq_sender_id q = Some s \<longrightarrow> m_sender_id m = s) \<and>
      (\<forall>kw. mq_keyword q = Some kw \<longrightarrow> tsmatch (m_content m) kw \<and> \<not> is_deleted m)}"
    by (auto simp: selected_def newest_first_def message_matches_def default_page_def is_deleted_def split: option.splits)
  ultimately show ?thesis by blast
qed


theorem paging_complete_witness:
  "\<exists>ms. read_history (\<lambda>_ _. False) 3 3 \<lparr>mq_conversation_id = 7, mq_sender_id = None, mq_keyword = None\<rparr> 1 None chat_world
      = (Inr ms, chat_world) \<and> m_id ` set ms = {1, 2}"
proof -
  let ?q = "\<lparr>mq_conversation_id = 7, mq_sender_id = None, mq_keyword = None\<rparr>"
  have "is_member (mq_conversation_id ?q) 3 (tabs (db chat_world))"
    by (simp add: chat_world_def) (simp add: example_defs is_member_def)
  moreover have msgs: "t_messages (tabs (db chat_world)) = [example_message 1 2 ''hi'', example_message 2 1 ''hello'']"
    by (simp add: chat_world_def)
  moreover have "db_ok (db chat_world)" using chat_facts(1) by (simp add: conv_inv_def)
  ultimately obtain ms where ms: "read_history (\<lambda>_ _. False) 3 3 ?q 1 None chat_world = (Inr ms, chat_world)"
    "set ms = {m \<in> set (t_messages (tabs (db chat_world))). m_conversation_id m = 7}"
    using paging_complete [OF chat_facts(2), of ?q 3 1 3 "\<lambda>_ _. False"] by auto
  have "set ms = {example_message 1 2 ''hi'', example_message 2 1 ''hello''}"
    unfolding ms(2) msgs by (auto simp: example_message_def)
  then show ?thesis using ms(1) by (auto simp: example_message_def)
qed

end
