(* ===== verification/Receipts.thy ===== *)
theory Receipts
  imports MessageRules
begin

text \<open>
  Read receipts and reactions: \<^verbatim>\<open>PgReadReceiptRepository\<close>, \<^verbatim>\<open>ReadReceiptService\<close>,
  \<^verbatim>\<open>PgReactionRepository\<close> and \<^verbatim>\<open>ReactionService\<close>. Both tables hold one row per message and user,
  written by \<^verbatim>\<open>INSERT ... ON CONFLICT DO UPDATE\<close>.
\<close>


section \<open>Receipts\<close>

definition receipt_key :: "int \<Rightarrow> int \<Rightarrow> read_receipt \<Rightarrow> bool" where
  "receipt_key mid u r \<longleftrightarrow> r_message_id r = mid \<and> r_user_id r = u"

text \<open>\<^verbatim>\<open>CASE WHEN rank(EXCLUDED.state) > rank(read_receipts.state) THEN ... END\<close>.\<close>

definition advance_state :: "receipt_state \<Rightarrow> receipt_state \<Rightarrow> receipt_state" where
  "advance_state incoming stored = (if rank incoming > rank stored then incoming else stored)"

definition upsert_receipt :: "int \<Rightarrow> int \<Rightarrow> receipt_state \<Rightarrow> read_receipt db_act" where
  "upsert_receipt mid u st =
     seq (nextval q_receipts q_receipts_update) (\<lambda>i.
     seq (gets (\<lambda>d. (tabs d, now d))) (\<lambda>(t, ts).
     case List.find (receipt_key mid u) (t_receipts t) of
       Some r \<Rightarrow>
         let f = (\<lambda>r. r\<lparr>r_state := advance_state st (r_state r), r_updated_at := ts\<rparr>) in
         seq (update_tables (t_receipts_update (update_where (receipt_key mid u) f))) (\<lambda>_. ret (f r))
     | None \<Rightarrow>
         if find_message mid t = None \<or> \<not> user_exists u t
         then throw (DbSql (ForeignKeyViolation ''read_receipts''))
         else
           let r = \<lparr>r_id = i, r_message_id = mid, r_user_id = u, r_state = st, r_updated_at = ts\<rparr> in
           seq (update_tables (t_receipts_update (\<lambda>rows. rows @ [r]))) (\<lambda>_. ret r)))"

definition PgReadReceiptRepository_upsert_state :: "int \<Rightarrow> int \<Rightarrow> receipt_state \<Rightarrow> read_receipt act" where
  "PgReadReceiptRepository_upsert_state mid u st = with_transaction (upsert_receipt mid u st)"

definition backlog :: "int \<Rightarrow> int \<Rightarrow> int \<Rightarrow> tables \<Rightarrow> message list" where
  "backlog c u up_to t =
     filter (\<lambda>m. m_conversation_id m = c \<and> m_id m \<le> up_to \<and> m_sender_id m \<noteq> u) (t_messages t)"

text \<open>One row of the \<^verbatim>\<open>INSERT ... SELECT\<close>; the \<^verbatim>\<open>WHERE\<close> of the conflict action leaves rows that are
  already read alone.\<close>

definition mark_row_read :: "int \<Rightarrow> message \<Rightarrow> unit db_act" where
  "mark_row_read u m =
     seq (nextval q_receipts q_receipts_update) (\<lambda>i.
     seq (gets (\<lambda>d. (tabs d, now d))) (\<lambda>(t, ts).
     if list_ex (receipt_key (m_id m) u) (t_receipts t)
     then update_tables (t_receipts_update (update_where
            (\<lambda>r. receipt_key (m_id m) u r \<and> r_state r \<noteq> kRead)
            (\<lambda>r. r\<lparr>r_state := kRead, r_updated_at := ts\<rparr>)))
     else if \<not> user_exists u t then throw (DbSql (ForeignKeyViolation ''read_receipts''))
     else update_tables (t_receipts_update (\<lambda>rows. rows @
            [\<lparr>r_id = i, r_message_id = m_id m, r_user_id = u, r_state = kRead, r_updated_at = ts\<rparr>]))))"

definition PgReadReceiptRepository_mark_conversation_read :: "int \<Rightarrow> int \<Rightarrow> int \<Rightarrow> unit act" where
  "PgReadReceiptRepository_mark_conversation_read c u up_to =
     with_transaction (
       seq (gets (\<lambda>d. backlog c u up_to (tabs d))) (\<lambda>ms.
       for_each ms (mark_row_read u)))"

definition PgReadReceiptRepository_list_for_message :: "int \<Rightarrow> read_receipt list act" where
  "PgReadReceiptRepository_list_for_message mid =
     with_transaction (gets (\<lambda>d. filter (\<lambda>r. r_message_id r = mid) (t_receipts (tabs d))))"

definition ReadReceiptService_mark_delivered :: "int \<Rightarrow> int \<Rightarrow> unit act" where
  "ReadReceiptService_mark_delivered actor_id message_id =
     seq (PgMessageRepository_find_by_id message_id) (\<lambda>message.
     case message of
       None \<Rightarrow> throw (NotFoundException ''Message not found'' [])
     | Some m \<Rightarrow>
         seq (PgConversationRepository_is_participant (m_conversation_id m) actor_id) (\<lambda>yes.
         seq (require yes (NotFoundException ''Conversation not found'' [])) (\<lambda>_.
         seq (PgReadReceiptRepository_upsert_state message_id actor_id kDelivered) (\<lambda>receipt.
         seq (PgConversationRepository_list_participant_ids (m_conversation_id m)) (\<lambda>ids.
         broadcast ids kReceiptUpdate (ReceiptResponse_to_json receipt))))))"

definition ReadReceiptService_mark_read :: "int \<Rightarrow> int \<Rightarrow> int \<Rightarrow> unit act" where
  "ReadReceiptService_mark_read actor_id c up_to =
     seq (PgConversationRepository_is_participant c actor_id) (\<lambda>yes.
     seq (require yes (NotFoundException ''Conversation not found'' [])) (\<lambda>_.
     seq (PgReadReceiptRepository_mark_conversation_read c actor_id up_to) (\<lambda>_.
     seq (PgConversationRepository_update_last_read c actor_id up_to) (\<lambda>_.
     seq (PgConversationRepository_list_participant_ids c) (\<lambda>ids.
     broadcast ids kReadUpdate
       (JObj [(''conversation_id'', JInt c), (''user_id'', JInt actor_id), (''up_to_message_id'', JInt up_to)]))))))"


section \<open>Reactions\<close>

definition reaction_key :: "int \<Rightarrow> int \<Rightarrow> reaction \<Rightarrow> bool" where
  "reaction_key mid u x \<longleftrightarrow> x_message_id x = mid \<and> x_user_id x = u"

definition upsert_reaction :: "int \<Rightarrow> int \<Rightarrow> string \<Rightarrow> reaction db_act" where
  "upsert_reaction mid u emoji =
     seq (nextval q_reactions q_reactions_update) (\<lambda>i.
     seq (check_varchar 16 (Some emoji)) (\<lambda>_.
     seq (gets (\<lambda>d. (tabs d, now d))) (\<lambda>(t, ts).
     case List.find (reaction_key mid u) (t_reactions t) of
       Some x \<Rightarrow>
         let f = (\<lambda>x. x\<lparr>x_emoji := emoji, x_updated_at := ts\<rparr>) in
         seq (update_tables (t_reactions_update (update_where (reaction_key mid u) f))) (\<lambda>_. ret (f x))
     | None \<Rightarrow>
         if find_message mid t = None \<or> \<not> user_exists u t
         then throw (DbSql (ForeignKeyViolation ''message_reactions''))
         else
           let x = \<lparr>x_id = i, x_message_id = mid, x_user_id = u, x_emoji = emoji, x_created_at = ts,
                    x_updated_at = ts\<rparr> in
           seq (update_tables (t_reactions_update (\<lambda>rows. rows @ [x]))) (\<lambda>_. ret x))))"

definition PgReactionRepository_upsert :: "int \<Rightarrow> int \<Rightarrow> string \<Rightarrow> reaction act" where
  "PgReactionRepository_upsert mid u emoji = with_transaction (upsert_reaction mid u emoji)"

definition PgReactionRepository_remove :: "int \<Rightarrow> int \<Rightarrow> bool act" where
  "PgReactionRepository_remove mid u =
     with_transaction (
       seq (gets (\<lambda>d. list_ex (reaction_key mid u) (t_reactions (tabs d)))) (\<lambda>found.
       seq (update_tables (t_reactions_update (filter (\<lambda>x. \<not> reaction_key mid u x)))) (\<lambda>_.
       ret found)))"

definition reactions_of :: "int \<Rightarrow> tables \<Rightarrow> reaction list" where
  "reactions_of mid t = sort_key x_id (filter (\<lambda>x. x_message_id x = mid) (t_reactions t))"

definition PgReactionRepository_list_for_message :: "int \<Rightarrow> reaction list act" where
  "PgReactionRepository_list_for_message mid = with_transaction (gets (\<lambda>d. reactions_of mid (tabs d)))"

definition ReactionService_authorize :: "int \<Rightarrow> int \<Rightarrow> message act" where
  "ReactionService_authorize actor_id message_id =
     seq (PgMessageRepository_find_by_id message_id) (\<lambda>message.
     case message of
       None \<Rightarrow> throw (NotFoundException ''Message not found'' [])
     | Some m \<Rightarrow>
         seq (PgConversationRepository_is_participant (m_conversation_id m) actor_id) (\<lambda>yes.
         seq (require yes (NotFoundException ''Message not found'' [])) (\<lambda>_.
         ret m)))"

definition ReactionService_react :: "int \<Rightarrow> int \<Rightarrow> string \<Rightarrow> reaction act" where
  "ReactionService_react actor_id message_id emoji =
     seq (require (is_allowed_reaction emoji)
            (ValidationException ''Unsupported reaction emoji'' ''field=emoji'')) (\<lambda>_.
     seq (ReactionService_authorize actor_id message_id) (\<lambda>message.
     seq (PgReactionRepository_upsert message_id actor_id emoji) (\<lambda>reaction.
     seq (PgConversationRepository_list_participant_ids (m_conversation_id message)) (\<lambda>ids.
     seq (broadcast ids kReactionAdded_event (ReactionResponse_to_json reaction)) (\<lambda>_.
     seq (NotificationDispatcher_reaction_added (m_sender_id message) message_id actor_id emoji) (\<lambda>_.
     ret reaction))))))"

definition ReactionService_unreact :: "int \<Rightarrow> int \<Rightarrow> unit act" where
  "ReactionService_unreact actor_id message_id =
     seq (ReactionService_authorize actor_id message_id) (\<lambda>message.
     seq (PgReactionRepository_remove message_id actor_id) (\<lambda>removed.
     if removed
     then seq (PgConversationRepository_list_participant_ids (m_conversation_id message)) (\<lambda>ids.
          broadcast ids kReactionRemoved (JObj [(''message_id'', JInt message_id), (''user_id'', JInt actor_id)]))
     else ret ()))"

definition ReactionService_list :: "int \<Rightarrow> int \<Rightarrow> reaction list act" where
  "ReactionService_list actor_id message_id =
     seq (ReactionService_authorize actor_id message_id) (\<lambda>_.
     PgReactionRepository_list_for_message message_id)"


section \<open>Constraints\<close>

lemma grow_receipt_writes [keeps_intros]:
  "keeps seqs_grow (upsert_receipt mid u st)" "keeps seqs_grow (mark_row_read u m)"
  "keeps seqs_grow (upsert_reaction mid u e)"
  unfolding upsert_receipt_def mark_row_read_def upsert_reaction_def Let_def
  by - (intro grow_rules)+

lemma receipt_rows_db_ok:
  "db_ok d \<Longrightarrow> (\<And>r. r_id (f r) = r_id r) \<Longrightarrow> (\<And>r. r_message_id (f r) = r_message_id r) \<Longrightarrow>
     (\<And>r. r_user_id (f r) = r_user_id r) \<Longrightarrow>
   db_ok (d\<lparr>seqs := q_receipts_update (\<lambda>i. i + 1) (seqs d),
            tabs := t_receipts_update (update_where P f) (tabs d)\<rparr>)"
  by (auto simp: db_ok_def table_ok_defs ids_defs intro!: row_intros intro: serial_key_skip)

lemma insert_receipt_db_ok:
  assumes "db_ok d" "r_id r = q_receipts (seqs d)" "r_message_id r \<in> message_ids (tabs d)"
    "r_user_id r \<in> user_ids (tabs d)" "\<not> list_ex (receipt_key (r_message_id r) (r_user_id r)) (t_receipts (tabs d))"
  shows "db_ok (d\<lparr>seqs := q_receipts_update (\<lambda>i. i + 1) (seqs d),
            tabs := t_receipts_update (\<lambda>rows. rows @ [r]) (tabs d)\<rparr>)"
proof -
  have "\<not> list_ex (\<lambda>r'. (r_message_id r', r_user_id r') = (r_message_id r, r_user_id r)) (t_receipts (tabs d))"
    using assms(5) by (auto simp: receipt_key_def list_ex_iff)
  then show ?thesis
    using assms(1-4) by (auto simp: db_ok_def table_ok_defs ids_defs intro!: row_intros)
qed

lemma upsert_receipt_conv_inv:
  assumes "conv_inv d" "upsert_receipt mid u st d = (Inr r, d')"
  shows "conv_inv d'"
proof (cases "List.find (receipt_key mid u) (t_receipts (tabs d))")
  case None
  then have "\<not> list_ex (receipt_key mid u) (t_receipts (tabs d))" by (simp add: find_None_iff list_ex_iff)
  then show ?thesis
    using assms None
    by (auto simp: upsert_receipt_def act_simps Let_def conv_inv_def find_message_None user_exists_iff
        split: if_splits intro!: insert_receipt_db_ok)
next
  case (Some r0)
  then show ?thesis
    using assms by (auto simp: upsert_receipt_def act_simps Let_def conv_inv_def intro!: receipt_rows_db_ok)
qed

lemma mark_row_read_conv_inv:
  assumes "conv_inv d" "m_id m \<in> message_ids (tabs d)" "mark_row_read u m d = (Inr x, d')"
  shows "conv_inv d' \<and> message_ids (tabs d') = message_ids (tabs d)"
  using assms
  by (auto simp: mark_row_read_def act_simps conv_inv_def user_exists_iff message_ids_def split: if_splits
      intro!: insert_receipt_db_ok receipt_rows_db_ok)

lemma PgReadReceiptRepository_inv [keeps_intros]:
  "keeps (inv_rel (\<lambda>w. conv_inv (db w))) (PgReadReceiptRepository_upsert_state mid u st)"
  "keeps (inv_rel (\<lambda>w. conv_inv (db w))) (PgReadReceiptRepository_mark_conversation_read c u n)"
proof -
  show "keeps (inv_rel (\<lambda>w. conv_inv (db w))) (PgReadReceiptRepository_upsert_state mid u st)"
    unfolding PgReadReceiptRepository_upsert_state_def
    by (rule with_transaction_conv_inv) (auto intro: keeps_intros upsert_receipt_conv_inv)
  show "keeps (inv_rel (\<lambda>w. conv_inv (db w))) (PgReadReceiptRepository_mark_conversation_read c u n)"
    unfolding PgReadReceiptRepository_mark_conversation_read_def
  proof (rule with_transaction_conv_inv)
    fix d x d'
    assume inv: "conv_inv d" and "seq (gets (\<lambda>d. backlog c u n (tabs d))) (\<lambda>ms. for_each ms (mark_row_read u)) d = (Inr x, d')"
    then have run: "for_each (backlog c u n (tabs d)) (mark_row_read u) d = (Inr x, d')" by (simp add: act_simps)
    let ?I = "\<lambda>e. conv_inv e \<and> message_ids (tabs e) = message_ids (tabs d)"
    have "?I d'"
    proof (rule for_each_succeeds [OF run])
      fix m e e'
      assume m: "m \<in> set (backlog c u n (tabs d))" and e: "?I e" and step: "mark_row_read u m e = (Inr (), e')"
      have "m_id m \<in> message_ids (tabs e)" using m e by (auto simp: backlog_def message_ids_def)
      then show "?I e'" using mark_row_read_conv_inv [OF _ _ step] e by simp
    qed (use inv in simp)
    then show "conv_inv d'" by simp
  qed (intro grow_rules keeps_intros)
qed

lemma reaction_rows_db_ok:
  "db_ok d \<Longrightarrow> (\<And>r. x_id (f r) = x_id r) \<Longrightarrow> (\<And>r. x_message_id (f r) = x_message_id r) \<Longrightarrow>
     (\<And>r. x_user_id (f r) = x_user_id r) \<Longrightarrow>
   db_ok (d\<lparr>seqs := q_reactions_update (\<lambda>i. i + 1) (seqs d),
            tabs := t_reactions_update (update_where P f) (tabs d)\<rparr>)"
  by (auto simp: db_ok_def table_ok_defs ids_defs intro!: row_intros intro: serial_key_skip)

lemma insert_reaction_db_ok:
  assumes "db_ok d" "x_id r = q_reactions (seqs d)" "x_message_id r \<in> message_ids (tabs d)"
    "x_user_id r \<in> user_ids (tabs d)"
    "\<not> list_ex (\<lambda>r'. (x_message_id r', x_user_id r') = (x_message_id r, x_user_id r)) (t_reactions (tabs d))"
  shows "db_ok (d\<lparr>seqs := q_reactions_update (\<lambda>i. i + 1) (seqs d),
            tabs := t_reactions_update (\<lambda>rows. rows @ [r]) (tabs d)\<rparr>)"
  using assms by (auto simp: db_ok_def table_ok_defs ids_defs intro!: row_intros)

lemma upsert_reaction_db_ok:
  assumes "db_ok d" "upsert_reaction mid u e d = (Inr r, d')"
  shows "db_ok d'"
proof (cases "List.find (reaction_key mid u) (t_reactions (tabs d))")
  case None
  then have "\<not> list_ex (\<lambda>r'. (x_message_id r', x_user_id r') = (mid, u)) (t_reactions (tabs d))"
    by (auto simp: find_None_iff list_ex_iff reaction_key_def)
  then show ?thesis
    using assms None
    by (auto simp: upsert_reaction_def act_simps Let_def check_varchar_def find_message_None user_exists_iff
        split: if_splits intro!: insert_reaction_db_ok)
next
  case (Some r0)
  then show ?thesis
    using assms
    by (auto simp: upsert_reaction_def act_simps Let_def check_varchar_def split: if_splits
        intro!: reaction_rows_db_ok)
qed

lemma upsert_reaction_membership:
  "upsert_reaction mid u e d = (Inr r, d') \<Longrightarrow> membership_ok (tabs d') = membership_ok (tabs d)"
  by (cases "List.find (reaction_key mid u) (t_reactions (tabs d))")
     (auto simp: upsert_reaction_def act_simps Let_def check_varchar_def split: if_splits)

lemma PgReactionRepository_inv [keeps_intros]:
  "keeps (inv_rel (\<lambda>w. conv_inv (db w))) (PgReactionRepository_upsert mid u e)"
  "keeps (inv_rel (\<lambda>w. conv_inv (db w))) (PgReactionRepository_remove mid u)"
proof -
  show "keeps (inv_rel (\<lambda>w. conv_inv (db w))) (PgReactionRepository_upsert mid u e)"
    unfolding PgReactionRepository_upsert_def
    by (rule with_transaction_conv_inv)
       (auto simp: conv_inv_def intro: keeps_intros upsert_reaction_db_ok dest: upsert_reaction_membership)
  show "keeps (inv_rel (\<lambda>w. conv_inv (db w))) (PgReactionRepository_remove mid u)"
    unfolding PgReactionRepository_remove_def
    by (rule with_transaction_conv_inv)
       (auto simp: conv_inv_def db_ok_def table_ok_defs ids_defs intro!: grow_rules row_intros elim!: seq_succeedsE)
qed

lemma receipt_reads_keep [keeps_intros]:
  "keeps (inv_rel (\<lambda>w. I (db w))) (PgReadReceiptRepository_list_for_message mid)"
  "keeps (inv_rel (\<lambda>w. I (db w))) (PgReactionRepository_list_for_message mid)"
  by (simp_all add: PgReadReceiptRepository_list_for_message_def PgReactionRepository_list_for_message_def
      with_transaction_gets)

lemma ReceiptService_inv [keeps_intros]:
  "keeps (inv_rel (\<lambda>w. conv_inv (db w))) (ReadReceiptService_mark_delivered actor i)"
  "keeps (inv_rel (\<lambda>w. conv_inv (db w))) (ReadReceiptService_mark_read actor c n)"
  "keeps (inv_rel (\<lambda>w. conv_inv (db w))) (ReactionService_react actor i e)"
  "keeps (inv_rel (\<lambda>w. conv_inv (db w))) (ReactionService_unreact actor i)"
  "keeps (inv_rel (\<lambda>w. conv_inv (db w))) (ReactionService_list actor i)"
  unfolding ReadReceiptService_mark_delivered_def ReadReceiptService_mark_read_def ReactionService_react_def
    ReactionService_unreact_def ReactionService_list_def ReactionService_authorize_def
  by - (intro inv_step.keeps_rules keeps_intros)+



section \<open>Receipts only advance\<close>

definition receipts_advance :: "tables \<Rightarrow> tables \<Rightarrow> bool" where
  "receipts_advance t t' \<longleftrightarrow>
     (\<forall>r \<in> set (t_receipts t). \<exists>r' \<in> set (t_receipts t'). receipt_key (r_message_id r) (r_user_id r) r' \<and>
        rank (r_state r) \<le> rank (r_state r'))"

lemma receipts_advance_refl: "receipts_advance t t"
  by (auto simp: receipts_advance_def receipt_key_def)

lemma receipts_advance_trans: "receipts_advance t t' \<Longrightarrow> receipts_advance t' t'' \<Longrightarrow> receipts_advance t t''"
  unfolding receipts_advance_def receipt_key_def by (metis order_trans)

interpretation advance_step: step_relation "\<lambda>w w'. receipts_advance (tabs (db w)) (tabs (db w'))"
  by unfold_locales (auto intro: receipts_advance_refl receipts_advance_trans)

lemma with_transaction_advance:
  assumes "\<And>d x d'. fn d = (Inr x, d') \<Longrightarrow> receipts_advance (tabs d) (tabs d')"
  shows "keeps (\<lambda>w w'. receipts_advance (tabs (db w)) (tabs (db w'))) (with_transaction fn)"
proof (rule keepsI)
  fix w show "receipts_advance (tabs (db w)) (tabs (db (final (with_transaction fn) w)))"
    by (cases rule: with_transaction_cases [of fn w])
       (auto simp: rollback_def receipts_advance_refl intro: assms)
qed

lemma receipts_advance_update:
  assumes "\<And>r. r_message_id (f r) = r_message_id r" "\<And>r. r_user_id (f r) = r_user_id r"
    "\<And>r. rank (r_state r) \<le> rank (r_state (f r))"
  shows "receipts_advance t (t_receipts_update (update_where P f) t)"
proof -
  have "\<exists>r' \<in> set (update_where P f rows). receipt_key (r_message_id r) (r_user_id r) r' \<and> rank (r_state r) \<le> rank (r_state r')"
    if "r \<in> set rows" for r rows
  proof (rule bexI)
    show "(if P r then f r else r) \<in> set (update_where P f rows)" using that by (simp only: set_update_where image_eqI)
  qed (use assms in \<open>simp add: receipt_key_def\<close>)
  then show ?thesis by (simp add: receipts_advance_def)
qed

lemma receipts_advance_append: "receipts_advance t (t_receipts_update (\<lambda>rows. rows @ rs) t)"
  by (auto simp: receipts_advance_def receipt_key_def)

lemma receipts_advance_other:
  "t_receipts t' = t_receipts t \<Longrightarrow> receipts_advance t t'"
  by (auto simp: receipts_advance_def receipt_key_def)

lemma advance_state_rank: "rank (advance_state a b) = max (rank a) (rank b)"
  by (simp add: advance_state_def)

lemma upsert_receipt_advances: "upsert_receipt mid u st d = (Inr r, d') \<Longrightarrow> receipts_advance (tabs d) (tabs d')"
  by (cases "List.find (receipt_key mid u) (t_receipts (tabs d))")
     (auto simp: upsert_receipt_def act_simps Let_def advance_state_rank split: if_splits
       intro!: receipts_advance_update receipts_advance_append)

lemma mark_row_read_advances: "mark_row_read u m d = (Inr x, d') \<Longrightarrow> receipts_advance (tabs d) (tabs d')"
  by (auto simp: mark_row_read_def act_simps rank_bounds split: if_splits
       intro!: receipts_advance_update receipts_advance_append)

lemma marks_advance:
  "for_each ms (mark_row_read u) d = (Inr x, d') \<Longrightarrow> receipts_advance (tabs d) (tabs d')"
  by (rule for_each_succeeds [of ms "mark_row_read u" d x d' "\<lambda>e. receipts_advance (tabs d) (tabs e)"])
     (auto intro: receipts_advance_refl receipts_advance_trans mark_row_read_advances)

lemma receipt_writes_advance:
  "keeps (\<lambda>w w'. receipts_advance (tabs (db w)) (tabs (db w'))) (with_transaction (gets f))"
  "keeps (\<lambda>w w'. receipts_advance (tabs (db w)) (tabs (db w'))) (broadcast ids ty data)"
  "keeps (\<lambda>w w'. receipts_advance (tabs (db w)) (tabs (db w'))) (PgReadReceiptRepository_upsert_state mid u st)"
  "keeps (\<lambda>w w'. receipts_advance (tabs (db w)) (tabs (db w'))) (PgReadReceiptRepository_mark_conversation_read c u n)"
  "keeps (\<lambda>w w'. receipts_advance (tabs (db w)) (tabs (db w'))) (PgConversationRepository_update_last_read c u n)"
  unfolding PgReadReceiptRepository_upsert_state_def PgReadReceiptRepository_mark_conversation_read_def
    PgConversationRepository_update_last_read_def
  by (auto intro!: with_transaction_advance receipts_advance_refl
      intro: receipts_advance_other upsert_receipt_advances marks_advance elim!: seq_succeedsE)
     (simp add: keeps_def broadcast_def receipts_advance_refl)

text \<open>A history of receipt requests, from any users, in any order.\<close>

datatype receipt_request = MarkDelivered int int | MarkRead int int int

fun handle_receipt :: "receipt_request \<Rightarrow> unit act" where
  "handle_receipt (MarkDelivered actor mid) = ReadReceiptService_mark_delivered actor mid"
| "handle_receipt (MarkRead actor c n) = ReadReceiptService_mark_read actor c n"

text \<open>Requests are independent: one that fails does not stop the next.\<close>

fun handle_receipts :: "receipt_request list \<Rightarrow> world \<Rightarrow> world" where
  "handle_receipts [] w = w"
| "handle_receipts (r # rs) w = handle_receipts rs (final (handle_receipt r) w)"

lemma handle_receipt_advances:
  "keeps (\<lambda>w w'. receipts_advance (tabs (db w)) (tabs (db w'))) (handle_receipt r)"
  by (cases r)
     (auto simp: ReadReceiptService_mark_delivered_def ReadReceiptService_mark_read_def
        PgMessageRepository_find_by_id_def repository_read_defs
        intro!: advance_step.keeps_rules receipt_writes_advance)

text \<open>C17. A receipt never goes back: through any sequence of delivered and read requests, from any
  users, in any order, and with any database failures in between, every receipt that existed
  keeps its message and user and its state only moves from sent over delivered to read.\<close>

theorem receipts_monotone:
  assumes "r \<in> set (t_receipts (tabs (db w)))"
  shows "\<exists>r' \<in> set (t_receipts (tabs (db (handle_receipts reqs w)))).
    r_message_id r' = r_message_id r \<and> r_user_id r' = r_user_id r \<and> rank (r_state r) \<le> rank (r_state r')"
proof -
  have "receipts_advance (tabs (db w)) (tabs (db (handle_receipts reqs w)))"
  proof (induction reqs arbitrary: w)
    case (Cons q reqs)
    then show ?case
      using handle_receipt_advances [of q] by (auto simp: keeps_def intro: receipts_advance_trans)
  qed (simp add: receipts_advance_refl)
  then show ?thesis using assms by (auto simp: receipts_advance_def receipt_key_def)
qed



section \<open>Marking a conversation read\<close>

definition has_read :: "int \<Rightarrow> int \<Rightarrow> tables \<Rightarrow> bool" where
  "has_read mid u t \<longleftrightarrow> list_ex (\<lambda>r. receipt_key mid u r \<and> r_state r = kRead) (t_receipts t)"

lemma has_read_stays: "receipts_advance t t' \<Longrightarrow> has_read mid u t \<Longrightarrow> has_read mid u t'"
proof -
  assume adv: "receipts_advance t t'" and "has_read mid u t"
  then obtain r where r: "r \<in> set (t_receipts t)" "receipt_key mid u r" "r_state r = kRead"
    by (auto simp: has_read_def list_ex_iff)
  with adv obtain r' where r': "r' \<in> set (t_receipts t')" "receipt_key (r_message_id r) (r_user_id r) r'"
    "rank kRead \<le> rank (r_state r')"
    unfolding receipts_advance_def by metis
  then have "rank (r_state r') = rank kRead" using rank_bounds(2) [of "r_state r'"] by simp
  then have "r_state r' = kRead" unfolding rank_inj .
  then show "has_read mid u t'" using r r' by (auto simp: has_read_def list_ex_iff receipt_key_def)
qed

lemma receipts_replaced: "\<exists>rs. t_receipts_update f t = t_receipts_update (\<lambda>_. rs) t"
  by (cases t) auto

lemma mark_row_read_runs:
  assumes "u \<in> user_ids (tabs d)"
  shows "\<exists>d'. mark_row_read u m d = (Inr (), d') \<and> has_read (m_id m) u (tabs d') \<and> now d' = now d \<and>
    (\<exists>rs. tabs d' = t_receipts_update (\<lambda>_. rs) (tabs d))"
proof (cases "list_ex (receipt_key (m_id m) u) (t_receipts (tabs d))")
  case True
  have "has_read (m_id m) u (t_receipts_update (update_where (\<lambda>r. receipt_key (m_id m) u r \<and> r_state r \<noteq> kRead)
      (\<lambda>r. r\<lparr>r_state := kRead, r_updated_at := ts\<rparr>)) (tabs d))" for ts
  proof -
    obtain r where r: "r \<in> set (t_receipts (tabs d))" "receipt_key (m_id m) u r"
      using True by (auto simp: list_ex_iff)
    let ?r = "if receipt_key (m_id m) u r \<and> r_state r \<noteq> kRead then r\<lparr>r_state := kRead, r_updated_at := ts\<rparr> else r"
    have "?r \<in> set (update_where (\<lambda>r. receipt_key (m_id m) u r \<and> r_state r \<noteq> kRead)
      (\<lambda>r. r\<lparr>r_state := kRead, r_updated_at := ts\<rparr>) (t_receipts (tabs d)))"
      using r(1) by (simp only: set_update_where image_eqI)
    moreover have "receipt_key (m_id m) u ?r \<and> r_state ?r = kRead" using r(2) by (simp add: receipt_key_def)
    moreover have "t_receipts (t_receipts_update f (tabs d)) = f (t_receipts (tabs d))" for f by simp
    ultimately show ?thesis unfolding has_read_def list_ex_iff by (intro bexI [of _ ?r]) simp_all
  qed
  then show ?thesis using True receipts_replaced by (auto simp: mark_row_read_def act_simps)
next
  case False
  then show ?thesis
    using assms receipts_replaced
    by (auto simp: mark_row_read_def act_simps user_exists_iff has_read_def receipt_key_def)
qed

lemma mark_rows_read_run:
  assumes "u \<in> user_ids (tabs d)"
  shows "\<exists>d'. for_each ms (mark_row_read u) d = (Inr (), d') \<and> (\<forall>m \<in> set ms. has_read (m_id m) u (tabs d')) \<and>
    (\<exists>rs. tabs d' = t_receipts_update (\<lambda>_. rs) (tabs d))"
  using assms
proof (induction ms arbitrary: d)
  case Nil
  show ?case by (auto intro: exI [of _ "t_receipts (tabs d)"])
next
  case (Cons m ms)
  obtain d1 rs where d1: "mark_row_read u m d = (Inr (), d1)" "has_read (m_id m) u (tabs d1)"
    "tabs d1 = t_receipts_update (\<lambda>_. rs) (tabs d)"
    using mark_row_read_runs [OF Cons.prems, of m] by blast
  then have "u \<in> user_ids (tabs d1)" using Cons.prems by (simp add: user_ids_def)
  from Cons.IH [OF this] obtain d2 rs' where d2: "for_each ms (mark_row_read u) d1 = (Inr (), d2)"
    "\<forall>m \<in> set ms. has_read (m_id m) u (tabs d2)" "tabs d2 = t_receipts_update (\<lambda>_. rs') (tabs d1)" by blast
  have "has_read (m_id m) u (tabs d2)" using has_read_stays [OF marks_advance [OF d2(1)] d1(2)] .
  moreover have "tabs d2 = t_receipts_update (\<lambda>_. rs') (tabs d)" using d1(3) d2(3) by simp
  ultimately show ?case using d1(1) d2 by auto
qed

text \<open>Marking a conversation read, when nothing fails, leaves nothing of the backlog unread: every
  message up to the given one that somebody else sent has a read receipt of the user, the user's
  read marker moves forward to that message and never back, no other participant row changes, and
  all participants are told.\<close>

theorem mark_read_effect:
  assumes inv: "conv_inv (db w)" and quiet: "faults w = []" and mem: "is_member c actor (tabs (db w))"
  shows "\<exists>w'. ReadReceiptService_mark_read actor c n w = (Inr (), w') \<and>
    (\<forall>m \<in> set (t_messages (tabs (db w))). m_conversation_id m = c \<longrightarrow> m_id m \<le> n \<longrightarrow> m_sender_id m \<noteq> actor \<longrightarrow>
       has_read (m_id m) actor (tabs (db w'))) \<and>
    t_participants (tabs (db w')) = map (\<lambda>p. if p_conversation_id p = c \<and> p_user_id p = actor
       then p\<lparr>p_last_read_message_id := Some (greatest (p_last_read_message_id p) n)\<rparr> else p)
       (t_participants (tabs (db w))) \<and>
    outbox w' = outbox w @ [(map p_user_id (members c (tabs (db w'))), kReadUpdate,
      JObj [(''conversation_id'', JInt c), (''user_id'', JInt actor), (''up_to_message_id'', JInt n)])]"
proof -
  have "actor \<in> user_ids (tabs (db w))"
    using inv mem by (auto simp: conv_inv_def db_ok_def participants_ok_def refs_def is_member_iff members_def)
  then obtain d rs where d: "for_each (backlog c actor n (tabs (db w))) (mark_row_read actor) (db w) = (Inr (), d)"
    "\<forall>m \<in> set (backlog c actor n (tabs (db w))). has_read (m_id m) actor (tabs d)"
    "tabs d = t_receipts_update (\<lambda>_. rs) (tabs (db w))"
    using mark_rows_read_run by blast
  have "PgReadReceiptRepository_mark_conversation_read c actor n w = (Inr (), w\<lparr>db := d\<rparr>)"
    using quiet d(1)
    by (simp add: PgReadReceiptRepository_mark_conversation_read_def with_transaction_quiet act_simps)
  then show ?thesis
    using quiet mem d(2,3)
    by (auto simp: ReadReceiptService_mark_read_def repository_read_defs
        PgConversationRepository_update_last_read_def act_simps backlog_def update_where_def has_read_def)
qed

lemma chat_member: "is_member 7 3 (tabs (db chat_world))"
  by (simp add: chat_world_def) (simp add: example_defs is_member_def)

theorem mark_read_effect_witness:
  "\<exists>w'. ReadReceiptService_mark_read 3 7 2 chat_world = (Inr (), w') \<and> has_read 1 3 (tabs (db w')) \<and>
    has_read 2 3 (tabs (db w'))"
proof -
  have "example_message 1 2 ''hi'' \<in> set (t_messages (tabs (db chat_world)))"
    "example_message 2 1 ''hello'' \<in> set (t_messages (tabs (db chat_world)))" by (simp_all add: chat_world_def)
  then show ?thesis
    using mark_read_effect [OF chat_facts(1,2) chat_member, of 2] by (force simp: example_message_def)
qed

definition delivered_receipt :: read_receipt where
  "delivered_receipt = \<lparr>r_id = 1, r_message_id = 1, r_user_id = 3, r_state = kDelivered, r_updated_at = 0\<rparr>"

definition receipt_world :: world where
  "receipt_world = chat_world\<lparr>db := (db chat_world)\<lparr>
     tabs := t_receipts_update (\<lambda>_. [delivered_receipt]) (tabs (db chat_world))\<rparr>\<rparr>"

theorem receipts_monotone_witness:
  "\<exists>r' \<in> set (t_receipts (tabs (db (handle_receipts [MarkRead 3 7 2, MarkDelivered 3 1] receipt_world)))).
     r_message_id r' = 1 \<and> r_user_id r' = 3 \<and> rank kDelivered \<le> rank (r_state r')"
proof -
  have "delivered_receipt \<in> set (t_receipts (tabs (db receipt_world)))" by (simp add: receipt_world_def)
  from receipts_monotone [OF this, of "[MarkRead 3 7 2, MarkDelivered 3 1]"] show ?thesis
    by (simp add: delivered_receipt_def)
qed


section \<open>One reaction per user and message\<close>

lemma keyed_update:
  assumes "List.find P xs = Some x" "\<And>y. P (f y) = P y" "\<And>a b. a \<in> set xs \<Longrightarrow> b \<in> set xs \<Longrightarrow> P a \<Longrightarrow> P b \<Longrightarrow> a = b" "distinct xs"
  shows "filter P (update_where P f xs) = [f x]" "filter (\<lambda>y. \<not> P y) (update_where P f xs) = filter (\<lambda>y. \<not> P y) xs"
proof -
  have "filter P (update_where P f xs) = map f (filter P xs)"
    using assms(2) by (induction xs) (auto simp: update_where_def)
  moreover have "filter P xs = [x]"
  proof -
    have x: "x \<in> set (filter P xs)" using assms(1) by (auto simp: find_Some_iff)
    moreover have "\<forall>y \<in> set (filter P xs). y = x" using x assms(3) by auto
    moreover have "distinct (filter P xs)" using assms(4) by simp
    ultimately show ?thesis by (cases "filter P xs") (auto, metis list.set_intros(1) neq_Nil_conv)
  qed
  ultimately show "filter P (update_where P f xs) = [f x]" by simp
  show "filter (\<lambda>y. \<not> P y) (update_where P f xs) = filter (\<lambda>y. \<not> P y) xs"
    using assms(2) by (induction xs) (auto simp: update_where_def)
qed

lemma keyed_append:
  assumes "List.find P xs = None" "P x"
  shows "filter P (xs @ [x]) = [x]" "filter (\<lambda>y. \<not> P y) (xs @ [x]) = filter (\<lambda>y. \<not> P y) xs"
  using assms by (auto simp: find_None_iff filter_empty_conv)

lemma reaction_notified:
  assumes "faults w = []" "author \<in> user_ids (tabs (db w))"
  obtains w' where "NotificationDispatcher_reaction_added author mid reactor e w = (Inr (), w')"
    "notified kReactionAdded (JObj [(''message_id'', JInt mid), (''reactor_id'', JInt reactor), (''emoji'', JStr e)])
       (if author = reactor then [] else [author]) w w'"
proof (cases "author = reactor")
  case True
  then show ?thesis
    using that by (simp add: NotificationDispatcher_reaction_added_def guarded_def act_simps notified_refl)
next
  case False
  let ?payload = "JObj [(''message_id'', JInt mid), (''reactor_id'', JInt reactor), (''emoji'', JStr e)]"
  obtain n w' where "NotificationService_create author kReactionAdded ?payload w = (Inr n, w')"
    "notified kReactionAdded ?payload [author] w w'"
    by (rule NotificationService_create_runs [OF assms])
  then show ?thesis
    using False that [of w'] by (simp add: NotificationDispatcher_reaction_added_def guarded_def act_simps)
qed

lemma upsert_reaction_runs:
  assumes ok: "db_ok d" and m: "find_message mid (tabs d) = Some m" and u: "u \<in> user_ids (tabs d)"
    and e: "is_allowed_reaction e"
  obtains x rows seq where "upsert_reaction mid u e d = (Inr x, d\<lparr>seqs := seq, tabs := t_reactions_update (\<lambda>_. rows) (tabs d)\<rparr>)"
    "x_emoji x = e" "x_message_id x = mid" "x_user_id x = u"
    "filter (reaction_key mid u) rows = [x]"
    "filter (\<lambda>y. \<not> reaction_key mid u y) rows = filter (\<lambda>y. \<not> reaction_key mid u y) (t_reactions (tabs d))"
proof -
  let ?P = "reaction_key mid u" and ?xs = "t_reactions (tabs d)"
  have fits: "utf8_length e \<le> 16"
    using e utf8_length_le [of e] by (auto simp: is_allowed_reaction_def kAllowedReactions_def utf8_def)
  have uniq: "distinct ?xs" "\<And>a b. a \<in> set ?xs \<Longrightarrow> b \<in> set ?xs \<Longrightarrow> ?P a \<Longrightarrow> ?P b \<Longrightarrow> a = b"
    using ok by (auto simp: db_ok_def reactions_ok_def unique_def distinct_map reaction_key_def inj_on_def)
  have eq: "t_reactions_update f t = t_reactions_update (\<lambda>_. f (t_reactions t)) t" for f and t :: tables
    by (cases t) simp
  show thesis
  proof (cases "List.find ?P ?xs")
    case None
    then show thesis
      using that [OF _ _ _ _ keyed_append [OF None]] m u fits
      by (simp add: upsert_reaction_def act_simps Let_def check_varchar_def user_exists_iff reaction_key_def eq [of "\<lambda>rows. rows @ _"])
  next
    case (Some x)
    have key: "x_message_id x = mid" "x_user_id x = u" using Some by (auto simp: find_Some_iff reaction_key_def)
    have P: "?P (y\<lparr>x_emoji := e, x_updated_at := now d\<rparr>) = ?P y" for y by (simp add: reaction_key_def)
    show thesis
      using that [OF _ _ _ _ keyed_update [OF Some P uniq(2,1)]] Some fits key
      by (simp add: upsert_reaction_def act_simps Let_def check_varchar_def eq [of "update_where _ _"])
  qed
qed

text \<open>C18. A member's reaction with an allowed emoji, when nothing fails, replaces the member's earlier
  reaction to that message if there was one: afterwards there is exactly one, with the new emoji;
  the reactions of everybody else and to every other message are untouched. All participants
  receive the stored reaction, and the author of the message is notified unless they reacted
  themselves.\<close>

theorem react_replaces:
  assumes inv: "conv_inv (db w)" and quiet: "faults w = []" and m: "find_message mid (tabs (db w)) = Some m"
    and mem: "is_member (m_conversation_id m) actor (tabs (db w))" and e: "is_allowed_reaction e"
  shows "\<exists>x w1 w'. ReactionService_react actor mid e w = (Inr x, w') \<and> x_emoji x = e \<and>
    filter (reaction_key mid actor) (t_reactions (tabs (db w'))) = [x] \<and>
    filter (\<lambda>y. \<not> reaction_key mid actor y) (t_reactions (tabs (db w'))) =
      filter (\<lambda>y. \<not> reaction_key mid actor y) (t_reactions (tabs (db w))) \<and>
    outbox w1 = outbox w @ [(map p_user_id (members (m_conversation_id m) (tabs (db w))), kReactionAdded_event,
      ReactionResponse_to_json x)] \<and>
    notified kReactionAdded (JObj [(''message_id'', JInt mid), (''reactor_id'', JInt actor), (''emoji'', JStr e)])
      (if m_sender_id m = actor then [] else [m_sender_id m]) w1 w'"
proof -
  have ok: "db_ok (db w)" using inv by (simp add: conv_inv_def)
  have users: "actor \<in> user_ids (tabs (db w))" "m_sender_id m \<in> user_ids (tabs (db w))"
    using ok mem m by (auto simp: db_ok_def participants_ok_def messages_ok_def refs_def is_member_iff members_def
        find_message_def find_Some_iff)
  obtain x rows seq where up: "upsert_reaction mid actor e (db w) =
      (Inr x, (db w)\<lparr>seqs := seq, tabs := t_reactions_update (\<lambda>_. rows) (tabs (db w))\<rparr>)"
    and x: "x_emoji x = e" "filter (reaction_key mid actor) rows = [x]"
    "filter (\<lambda>y. \<not> reaction_key mid actor y) rows = filter (\<lambda>y. \<not> reaction_key mid actor y) (t_reactions (tabs (db w)))"
    by (rule upsert_reaction_runs [OF ok m users(1) e]) blast
  define w1 where "w1 = w\<lparr>db := (db w)\<lparr>seqs := seq, tabs := t_reactions_update (\<lambda>_. rows) (tabs (db w))\<rparr>,
     outbox := outbox w @ [(map p_user_id (members (m_conversation_id m) (tabs (db w))), kReactionAdded_event,
       ReactionResponse_to_json x)]\<rparr>"
  have w1: "faults w1 = []" "m_sender_id m \<in> user_ids (tabs (db w1))"
    using quiet users by (simp_all add: w1_def user_ids_def)
  obtain w' where w': "NotificationDispatcher_reaction_added (m_sender_id m) mid actor e w1 = (Inr (), w')"
    "notified kReactionAdded (JObj [(''message_id'', JInt mid), (''reactor_id'', JInt actor), (''emoji'', JStr e)])
      (if m_sender_id m = actor then [] else [m_sender_id m]) w1 w'"
    by (rule reaction_notified [OF w1])
  have "ReactionService_react actor mid e w = (Inr x, w')"
    using quiet m mem e up w'(1)
    by (simp add: ReactionService_react_def ReactionService_authorize_def PgMessageRepository_find_by_id_def
        repository_read_defs PgReactionRepository_upsert_def with_transaction_quiet act_simps w1_def members_other_tables)
  moreover have "t_reactions (tabs (db w')) = rows" using w'(2) by (auto simp: notified_def w1_def)
  moreover have "outbox w1 = outbox w @ [(map p_user_id (members (m_conversation_id m) (tabs (db w))), kReactionAdded_event,
       ReactionResponse_to_json x)]" by (simp add: w1_def)
  ultimately show ?thesis using x w'(2) by blast
qed

theorem react_replaces_witness:
  "\<exists>x w'. ReactionService_react 3 1 (utf8 [240, 159, 145, 141]) chat_world = (Inr x, w') \<and>
     filter (reaction_key 1 3) (t_reactions (tabs (db w'))) = [x] \<and> x_emoji x = utf8 [240, 159, 145, 141]"
proof -
  have "is_member (m_conversation_id (example_message 1 2 ''hi'')) 3 (tabs (db chat_world))"
    using chat_member by (simp add: example_message_def)
  moreover have "is_allowed_reaction (utf8 [240, 159, 145, 141])"
    by (simp add: is_allowed_reaction_def kAllowedReactions_def)
  ultimately show ?thesis
    using react_replaces [OF chat_facts(1-3)] by blast
qed

end
