(* ===== verification/Dispatcher.thy ===== *)
theory Dispatcher
  imports Connections Presence Http MessageRules Receipts
begin

text \<open>
  The WebSocket side of one instance: \<^verbatim>\<open>WebSocketController\<close> (handshake and Crow's callbacks),
  \<^verbatim>\<open>realtime::EventDispatcher\<close> (opening, inbound frames, closing) and \<^verbatim>\<open>HeartbeatMonitor\<close>. The services run
  on the world of the serving thread; what they broadcast goes out through the connection manager. Crow
  runs the callbacks of one socket in order.
\<close>

record rt =
  rt_thread :: traced
  rt_hub :: hub
  rt_presence :: presence_service
  rt_flags :: "feature_flags option"
  rt_publisher :: bool
  rt_steady_ms :: int
  rt_wall_ms :: int
  rt_closing :: "(conn \<times> string) list"

type_synonym 'a rt_act = "(app_exception, rt, 'a) action"

abbreviation rt_world :: "rt \<Rightarrow> world" where
  "rt_world s \<equiv> td_world (rt_thread s)"

definition with_hub :: "(hub \<Rightarrow> hub) \<Rightarrow> rt \<Rightarrow> rt" where
  "with_hub f s = s\<lparr>rt_hub := f (rt_hub s)\<rparr>"

definition send_out :: "(json \<Rightarrow> string) \<Rightarrow> (int list \<times> string \<times> json) list \<Rightarrow> hub \<Rightarrow> hub" where
  "send_out dump events = fold (\<lambda>(ids, type, data). ConnectionManager_publish dump ids type data) events"

text \<open>A service call: its broadcasts are published by this instance's connection manager.\<close>

definition serve :: "(json \<Rightarrow> string) \<Rightarrow> 'a act \<Rightarrow> 'a rt_act" where
  "serve dump m s =
     (let w = rt_world s
      in case m (w\<lparr>outbox := []\<rparr>) of
           (r, w') \<Rightarrow> (r, s\<lparr>rt_thread := (rt_thread s)\<lparr>td_world := w'\<lparr>outbox := outbox w @ outbox w'\<rparr>\<rparr>,
                           rt_hub := send_out dump (outbox w') (rt_hub s)\<rparr>))"

definition ConversationService_conversation_ids :: "int \<Rightarrow> int list act" where
  "ConversationService_conversation_ids user_id = PgConversationRepository_list_conversation_ids user_id"

definition ConversationService_peer_ids :: "int \<Rightarrow> int list act" where
  "ConversationService_peer_ids user_id = PgConversationRepository_list_peer_ids user_id"

definition feature_enabled :: "feature \<Rightarrow> rt \<Rightarrow> bool" where
  "feature_enabled f s = (case rt_flags s of None \<Rightarrow> True | Some flags \<Rightarrow> FeatureFlags_is_enabled f flags)"

definition announce :: "presence_delta option \<Rightarrow> hub \<Rightarrow> hub" where
  "announce d h = (case d of None \<Rightarrow> h | Some d \<Rightarrow> cluster_publish kPresence (PresenceDelta_to_json d) h)"

definition presence_on_connect :: "int \<Rightarrow> bool rt_act" where
  "presence_on_connect user_id s =
     (case PresenceService_on_connect (rt_wall_ms s) user_id (rt_presence s) of
        (became, d, ps) \<Rightarrow> (Inr became, s\<lparr>rt_presence := ps, rt_hub := announce d (rt_hub s)\<rparr>))"

definition presence_on_disconnect :: "int \<Rightarrow> bool rt_act" where
  "presence_on_disconnect user_id s =
     (case PresenceService_on_disconnect (h_now (rt_hub s)) (rt_wall_ms s) user_id (rt_presence s) of
        (became, d, ps) \<Rightarrow> (Inr became, s\<lparr>rt_presence := ps, rt_hub := announce d (rt_hub s)\<rparr>))"

definition publish_domain :: "(json \<Rightarrow> string) \<Rightarrow> event_seed \<Rightarrow> unit rt_act" where
  "publish_domain dump seed s = (if rt_publisher s then serve dump (publish seed) s else (Inr (), s))"

definition presence_json :: "int \<Rightarrow> string \<Rightarrow> json" where
  "presence_json user_id status = JObj [(''user_id'', JInt user_id), (''status'', JStr status)]"


section \<open>Opening\<close>

definition open_side_effects :: "(json \<Rightarrow> string) \<Rightarrow> conn \<Rightarrow> int \<Rightarrow> string \<Rightarrow> unit rt_act" where
  "open_side_effects dump conn user_id username =
     seq (serve dump (ConversationService_conversation_ids user_id)) (\<lambda>ids.
     seq (modify (with_hub (\<lambda>h. h\<lparr>h_rooms := RoomManager_join_many ids conn (h_rooms h)\<rparr>))) (\<lambda>_.
     seq (gets (feature_enabled kPresence_feature)) (\<lambda>on.
     if \<not> on then ret ()
     else seq (presence_on_connect user_id) (\<lambda>became.
       if \<not> became then ret ()
       else seq (serve dump (ConversationService_peer_ids user_id)) (\<lambda>peer_ids.
         seq (modify (with_hub (ConnectionManager_publish dump peer_ids kPresenceUpdate (presence_json user_id ''online'')))) (\<lambda>_.
         seq (gets (\<lambda>s. length (SessionManager_sessions_for_user user_id (h_sessions (rt_hub s))))) (\<lambda>session_count.
         publish_domain dump (UserOnline user_id username session_count))))))))"

definition EventDispatcher_on_open :: "(json \<Rightarrow> string) \<Rightarrow> conn \<Rightarrow> int \<Rightarrow> string \<Rightarrow> version \<Rightarrow> rt \<Rightarrow> rt" where
  "EventDispatcher_on_open dump conn user_id username v s =
     (let s = with_hub (\<lambda>h. snd (register_session conn user_id username v h)) s;
          s = with_hub (\<lambda>h. h\<lparr>h_sessions := SessionManager_touch conn (rt_steady_ms s) (h_sessions h)\<rparr>) s;
          s = snd (catch (open_side_effects dump conn user_id username) (\<lambda>_. ret ()) s)
      in with_hub (send_event dump conn kReady
           (JObj [(''user_id'', JInt user_id), (''username'', JStr username), (''protocol_version'', JInt (to_number v))])
           no_envelope) s)"


section \<open>Inbound frames\<close>

definition ws_require_int :: "json \<Rightarrow> string \<Rightarrow> int result" where
  "ws_require_int data field =
     (case jfind data field of
        Some (JInt i) \<Rightarrow> Inr (get_int64 i)
      | _ \<Rightarrow> Inl (ValidationException (''Missing integer field: '' @ field) []))"

definition handle_send_message :: "(json \<Rightarrow> string) \<Rightarrow> int \<Rightarrow> json \<Rightarrow> unit rt_act" where
  "handle_send_message dump user_id data =
     seq (of_result (SendMessageRequest_from_json data)) (\<lambda>request.
     seq (serve dump (MessageService_send user_id request)) (\<lambda>_. ret ()))"

definition handle_typing :: "(json \<Rightarrow> string) \<Rightarrow> conn \<Rightarrow> int \<Rightarrow> string \<Rightarrow> json \<Rightarrow> bool \<Rightarrow> unit rt_act" where
  "handle_typing dump conn user_id username data starting =
     seq (of_result (ws_require_int data ''conversation_id'')) (\<lambda>conversation_id.
     seq (serve dump (ConversationService_get user_id conversation_id)) (\<lambda>_.
     modify (with_hub (broadcast_to_room dump conversation_id (if starting then kTypingStart else kTypingStop)
       (JObj [(''conversation_id'', JInt conversation_id), (''user_id'', JInt user_id), (''username'', JStr username)])
       conn))))"

definition handle_mark_delivered :: "(json \<Rightarrow> string) \<Rightarrow> int \<Rightarrow> json \<Rightarrow> unit rt_act" where
  "handle_mark_delivered dump user_id data =
     seq (of_result (ws_require_int data ''message_id'')) (\<lambda>message_id.
     serve dump (ReadReceiptService_mark_delivered user_id message_id))"

text \<open>\<^verbatim>\<open>handle_mark_read\<close> reads both fields while evaluating the arguments of one call, whose order C++ leaves open; the
  first one is read first here.\<close>

definition handle_mark_read :: "(json \<Rightarrow> string) \<Rightarrow> int \<Rightarrow> json \<Rightarrow> unit rt_act" where
  "handle_mark_read dump user_id data =
     seq (of_result (ws_require_int data ''conversation_id'')) (\<lambda>conversation_id.
     seq (of_result (ws_require_int data ''up_to_message_id'')) (\<lambda>up_to_message_id.
     serve dump (ReadReceiptService_mark_read user_id conversation_id up_to_message_id)))"

definition ws_send_error :: "(json \<Rightarrow> string) \<Rightarrow> conn \<Rightarrow> string \<Rightarrow> string \<Rightarrow> envelope \<Rightarrow> rt \<Rightarrow> rt" where
  "ws_send_error dump conn code message e =
     with_hub (send_event dump conn kError (JObj [(''code'', JStr code), (''message'', JStr message)]) e)"

definition only_if :: "feature \<Rightarrow> unit rt_act \<Rightarrow> unit rt_act" where
  "only_if f m = seq (gets (feature_enabled f)) (\<lambda>on. if on then m else ret ())"

definition dispatch_frame :: "(json \<Rightarrow> string) \<Rightarrow> ws_session \<Rightarrow> conn \<Rightarrow> inbound_frame \<Rightarrow> unit rt_act" where
  "dispatch_frame dump session conn frame =
     (let user_id = ws_user_id session; payload = if_payload frame; type = if_event frame;
          e = \<lparr>env_request_id = if_request_id frame, env_correlation_id = if_correlation_id frame\<rparr>
      in if type = kClientPing then modify (with_hub (send_event dump conn kPong (JObj []) e))
         else if type = kClientSendMessage then handle_send_message dump user_id payload
         else if type = kClientTypingStart
         then only_if kTyping (handle_typing dump conn user_id (ws_username session) payload True)
         else if type = kClientTypingStop
         then only_if kTyping (handle_typing dump conn user_id (ws_username session) payload False)
         else if type = kClientMarkDelivered then only_if kReadReceipts (handle_mark_delivered dump user_id payload)
         else if type = kClientMarkRead then only_if kReadReceipts (handle_mark_read dump user_id payload)
         else modify (ws_send_error dump conn ''validation_error'' ''Unknown event type'' e))"

text \<open>One span per frame; a failure is recorded on it and reported to the sender.\<close>

definition run_frame :: "(json \<Rightarrow> string) \<Rightarrow> ws_session \<Rightarrow> conn \<Rightarrow> inbound_frame \<Rightarrow> rt \<Rightarrow> rt" where
  "run_frame dump session conn frame s =
     (case ws_scope (if_event frame) (rt_thread s) of (scope, th) \<Rightarrow>
        let span = Span_set_attribute_int ''rtc.user_id'' (ws_user_id session) (sn_span scope);
            span = (if if_request_id frame \<noteq> [] then Span_set_attribute ''rtc.request_id'' (if_request_id frame) span else span);
            (r, s) = dispatch_frame dump session conn frame (s\<lparr>rt_thread := th\<rparr>);
            (span, s) = (case r of
               Inr _ \<Rightarrow> (span, s)
             | Inl ex \<Rightarrow> (Span_record_error (ex_message ex) span,
                         ws_send_error dump conn (code_for (ex_type ex)) (ex_message ex)
                           \<lparr>env_request_id = if_request_id frame, env_correlation_id = if_correlation_id frame\<rparr> s))
        in s\<lparr>rt_thread := ScopedSpan_close (scope\<lparr>sn_span := span\<rparr>) (rt_thread s)\<rparr>)"

definition EventDispatcher_on_message ::
    "(json \<Rightarrow> string) \<Rightarrow> (string \<Rightarrow> json option) \<Rightarrow> conn \<Rightarrow> string \<Rightarrow> rt \<Rightarrow> rt" where
  "EventDispatcher_on_message dump parse conn data s =
     (let s = with_hub (\<lambda>h. h\<lparr>h_sessions := SessionManager_touch conn (rt_steady_ms s) (h_sessions h)\<rparr>) s
      in case SessionManager_get conn (h_sessions (rt_hub s)) of
           None \<Rightarrow> s
         | Some session \<Rightarrow>
             (case protocol_decode parse data of
                None \<Rightarrow> ws_send_error dump conn ''validation_error'' ''Malformed event envelope'' no_envelope s
              | Some frame \<Rightarrow> run_frame dump session conn frame s))"


section \<open>Closing\<close>

definition close_side_effects :: "(json \<Rightarrow> string) \<Rightarrow> ws_session \<Rightarrow> unit rt_act" where
  "close_side_effects dump session =
     seq (gets (feature_enabled kPresence_feature)) (\<lambda>on.
     if \<not> on then ret ()
     else seq (presence_on_disconnect (ws_user_id session)) (\<lambda>became.
       if \<not> became then ret ()
       else seq (serve dump (ConversationService_peer_ids (ws_user_id session))) (\<lambda>peer_ids.
         seq (modify (with_hub (ConnectionManager_publish dump peer_ids kPresenceUpdate
                (presence_json (ws_user_id session) ''offline'')))) (\<lambda>_.
         publish_domain dump (UserOffline (ws_user_id session) (ws_username session))))))"

definition EventDispatcher_on_close :: "(json \<Rightarrow> string) \<Rightarrow> conn \<Rightarrow> rt \<Rightarrow> rt" where
  "EventDispatcher_on_close dump conn s =
     (case unregister_session conn (rt_hub s) of
        (session, h) \<Rightarrow>
          let s = s\<lparr>rt_hub := h\<rparr>
          in case session of
               None \<Rightarrow> s
             | Some session \<Rightarrow> snd (catch (close_side_effects dump session) (\<lambda>_. ret ()) s))"


section \<open>The controller\<close>

definition WebSocketController_authenticate :: "token_service \<Rightarrow> request \<Rightarrow> rt \<Rightarrow> auth_context option \<times> rt" where
  "WebSocketController_authenticate tokens req s =
     (case (case rq_params req ''token'' of Some q \<Rightarrow> Some q | None \<Rightarrow> extract_bearer_token req) of
        None \<Rightarrow> (None, s)
      | Some token \<Rightarrow>
          (case ts_verify tokens token kAccess (rt_world s) of
             (Inl e, w) \<Rightarrow> (None, s\<lparr>rt_thread := (rt_thread s)\<lparr>td_world := w\<rparr>\<rparr>)
           | (Inr claims, w) \<Rightarrow>
               (Some \<lparr>ac_user_id = tk_user_id claims, ac_username = tk_username claims,
                      ac_protocol_version = negotiate (requested_protocol (rq_params req))\<rparr>,
                s\<lparr>rt_thread := (rt_thread s)\<lparr>td_world := w\<rparr>\<rparr>)))"

definition WebSocketController_onopen :: "(json \<Rightarrow> string) \<Rightarrow> conn \<Rightarrow> auth_context option \<Rightarrow> rt \<Rightarrow> rt" where
  "WebSocketController_onopen dump conn ctx s =
     (case ctx of
        None \<Rightarrow> s\<lparr>rt_closing := rt_closing s @ [(conn, ''unauthorized'')]\<rparr>
      | Some c \<Rightarrow> EventDispatcher_on_open dump conn (ac_user_id c) (ac_username c) (ac_protocol_version c) s)"

definition WebSocketController_onmessage ::
    "(json \<Rightarrow> string) \<Rightarrow> (string \<Rightarrow> json option) \<Rightarrow> conn \<Rightarrow> string \<Rightarrow> bool \<Rightarrow> rt \<Rightarrow> rt" where
  "WebSocketController_onmessage dump parse conn data is_binary s =
     (if is_binary then s else EventDispatcher_on_message dump parse conn data s)"

definition WebSocketController_onclose :: "(json \<Rightarrow> string) \<Rightarrow> conn \<Rightarrow> rt \<Rightarrow> rt" where
  "WebSocketController_onclose dump conn s = EventDispatcher_on_close dump conn s"


section \<open>Heartbeats\<close>

text \<open>One pass of \<^verbatim>\<open>HeartbeatMonitor::run\<close> over the sessions.\<close>

definition heartbeat_visit :: "(json \<Rightarrow> string) \<Rightarrow> int \<Rightarrow> int \<Rightarrow> ws_session \<Rightarrow> rt \<Rightarrow> rt" where
  "heartbeat_visit dump timeout_ms clock session s =
     (if clock - ws_last_activity_ms session > timeout_ms
      then if ws_connection session \<noteq> nullptr
           then s\<lparr>rt_closing := rt_closing s @ [(ws_connection session, ''heartbeat timeout'')]\<rparr> else s
      else with_hub (send_event dump (ws_connection session) kClientPing (JObj []) no_envelope) s)"

definition HeartbeatMonitor_sweep :: "(json \<Rightarrow> string) \<Rightarrow> int \<Rightarrow> rt \<Rightarrow> rt" where
  "HeartbeatMonitor_sweep dump timeout_s s =
     fold (heartbeat_visit dump (timeout_s * 1000) (rt_steady_ms s)) (SessionManager_snapshot (h_sessions (rt_hub s))) s"

end
