(* ===== verification/DispatcherRules.thy ===== *)
theory DispatcherRules
  imports Dispatcher
begin

text \<open>
  What the WebSocket side guarantees: the registries always describe exactly the open sockets, an inbound
  frame that fails is answered with one error frame, a message sent over a socket reaches every session of
  every participant, and the heartbeat closes exactly the idle connections.
\<close>


section \<open>Sending leaves the registries alone\<close>

definition hub_core :: "hub \<Rightarrow> session_manager \<times> room_manager \<times> bool \<times> time_point" where
  "hub_core h = (h_sessions h, h_rooms h, h_clustered h, h_now h)"

lemma hub_same_core: "hub_same h h' \<Longrightarrow> hub_core h' = hub_core h"
  by (simp add: hub_same_def hub_core_def)

lemma core_ok: "hub_core h' = hub_core h \<Longrightarrow> hub_ok h' = hub_ok h"
  by (simp add: hub_core_def hub_ok_def)

lemma cluster_publish_core [simp]: "hub_core (cluster_publish c b h) = hub_core h"
  by (simp add: cluster_publish_def hub_core_def)

lemma send_to_sessions_core [simp]: "hub_core (send_to_sessions dump ss type data e x h) = hub_core h"
  by (rule hub_same_core) (rule send_to_sessions_sends)

lemma fold_core: "(\<And>x h. hub_core (f x h) = hub_core h) \<Longrightarrow> hub_core (fold f xs h) = hub_core h"
  by (induction xs arbitrary: h) simp_all

lemma publish_core [simp]: "hub_core (ConnectionManager_publish dump ids type data h) = hub_core h"
  by (simp add: ConnectionManager_publish_def deliver_local_def fold_core)

lemma broadcast_core [simp]: "hub_core (broadcast_to_room dump room type data x h) = hub_core h"
  by (simp add: broadcast_to_room_def deliver_local_to_room_def)

lemma send_event_core [simp]: "hub_core (send_event dump c type data e h) = hub_core h"
  by (simp add: send_event_def hub_encode_def send_raw_def hub_core_def Let_def)

lemma announce_core [simp]: "hub_core (announce d h) = hub_core h"
  by (simp add: announce_def split: option.split)

lemma send_out_core [simp]: "hub_core (send_out dump events h) = hub_core h"
  unfolding send_out_def by (rule fold_core) (simp split: prod.split)

abbreviation rt_core :: "rt \<Rightarrow> session_manager \<times> room_manager \<times> bool \<times> time_point" where
  "rt_core s \<equiv> hub_core (rt_hub s)"

lemma serve_keeps [keeps_intros]: "keeps (same_rel rt_core) (serve dump m)"
  by (rule keepsI) (simp add: same_rel_def serve_def Let_def split: prod.split)

lemma hub_modify_keeps [keeps_intros]:
  "(\<And>h. hub_core (f h) = hub_core h) \<Longrightarrow> keeps (same_rel rt_core) (modify (with_hub f))"
  by (rule keepsI) (simp add: same_rel_def with_hub_def)

lemma presence_keeps [keeps_intros]:
  "keeps (same_rel rt_core) (presence_on_connect u)" "keeps (same_rel rt_core) (presence_on_disconnect u)"
  by (rule keepsI, simp add: same_rel_def presence_on_connect_def presence_on_disconnect_def split: prod.split)+

lemma publish_domain_keeps [keeps_intros]: "keeps (same_rel rt_core) (publish_domain dump seed)"
  using serve_keeps [of dump "publish seed"] by (simp add: keeps_def publish_domain_def same_rel_def)

lemma error_keeps [keeps_intros]: "keeps (same_rel rt_core) (modify (ws_send_error dump c code msg e))"
  unfolding ws_send_error_def by (rule hub_modify_keeps) simp

lemma dispatch_keeps: "keeps (same_rel rt_core) (dispatch_frame dump session conn frame)"
  unfolding dispatch_frame_def handle_send_message_def handle_typing_def handle_mark_delivered_def handle_mark_read_def
    only_if_def Let_def
  by (intro same_step.keeps_rules keeps_intros broadcast_core send_event_core)

lemma close_keeps: "keeps (same_rel rt_core) (catch (close_side_effects dump session) (\<lambda>_. ret ()))"
  unfolding close_side_effects_def
  by (intro same_step.keeps_catch same_step.keeps_rules keeps_intros publish_core)

lemma run_frame_core: "rt_core (run_frame dump session conn frame s) = rt_core s"
proof -
  obtain scope th where ws: "ws_scope (if_event frame) (rt_thread s) = (scope, th)" by fastforce
  obtain r s' where d: "dispatch_frame dump session conn frame (s\<lparr>rt_thread := th\<rparr>) = (r, s')" by fastforce
  have "rt_core s' = rt_core s" using keepsD [OF dispatch_keeps d] by (simp add: same_rel_def)
  then show ?thesis
    by (cases r) (simp_all add: run_frame_def ws d Let_def ws_send_error_def with_hub_def)
qed


section \<open>The registries describe the open sockets\<close>

datatype ws_event = Opened conn auth_context | Arrived conn string bool | Closed conn | Beat int

fun ws_step :: "(json \<Rightarrow> string) \<Rightarrow> (string \<Rightarrow> json option) \<Rightarrow> ws_event \<Rightarrow> rt \<Rightarrow> rt" where
  "ws_step dump parse (Opened c a) s = WebSocketController_onopen dump c (Some a) s"
| "ws_step dump parse (Arrived c data is_binary) s = WebSocketController_onmessage dump parse c data is_binary s"
| "ws_step dump parse (Closed c) s = WebSocketController_onclose dump c s"
| "ws_step dump parse (Beat timeout_s) s = HeartbeatMonitor_sweep dump timeout_s s"

text \<open>The identities of the sockets that are open, as Crow's callbacks tell.\<close>

fun open_sockets :: "ws_event list \<Rightarrow> conn \<Rightarrow> auth_context option" where
  "open_sockets [] = (\<lambda>_. None)"
| "open_sockets (Opened c a # es) = (open_sockets es)(c \<mapsto> a)"
| "open_sockets (Closed c # es) = (open_sockets es)(c := None)"
| "open_sockets (e # es) = open_sockets es"

text \<open>Newest event first: a socket is opened only while it is not open, and is not null.\<close>

fun lawful :: "ws_event list \<Rightarrow> bool" where
  "lawful [] = True"
| "lawful (Opened c a # es) \<longleftrightarrow> c \<noteq> nullptr \<and> open_sockets es c = None \<and> lawful es"
| "lawful (Arrived c data b # es) \<longleftrightarrow> lawful es"
| "lawful (Closed c # es) \<longleftrightarrow> lawful es"
| "lawful (Beat timeout # es) \<longleftrightarrow> lawful es"

fun ws_run :: "(json \<Rightarrow> string) \<Rightarrow> (string \<Rightarrow> json option) \<Rightarrow> ws_event list \<Rightarrow> rt \<Rightarrow> rt" where
  "ws_run dump parse [] s = s"
| "ws_run dump parse (e # es) s = ws_step dump parse e (ws_run dump parse es s)"

definition identity :: "ws_session \<Rightarrow> auth_context" where
  "identity s = \<lparr>ac_user_id = ws_user_id s, ac_username = ws_username s, ac_protocol_version = ws_protocol_version s\<rparr>"

lemma identity_simps [simp]:
  "identity (s\<lparr>ws_last_activity_ms := t\<rparr>) = identity s"
  "identity (fst (SessionManager_add c u n v sm)) = \<lparr>ac_user_id = u, ac_username = n, ac_protocol_version = v\<rparr>"
  by (simp_all add: identity_def SessionManager_add_def Let_def)

lemma open_side_effects_inv:
  assumes "SessionManager_get c sm \<noteq> None"
  shows "keeps (inv_rel (\<lambda>s. hub_ok (rt_hub s) \<and> h_sessions (rt_hub s) = sm))
    (catch (open_side_effects dump c u n) (\<lambda>_. ret ()))"
proof -
  have core: "keeps (inv_rel (\<lambda>s. hub_ok (rt_hub s) \<and> h_sessions (rt_hub s) = sm)) m"
    if "keeps (same_rel rt_core) m" for m :: "'a rt_act"
    using that core_ok by (auto simp: keeps_def inv_rel_def same_rel_def hub_core_def hub_ok_def)
  have join: "keeps (inv_rel (\<lambda>s. hub_ok (rt_hub s) \<and> h_sessions (rt_hub s) = sm))
      (modify (with_hub (\<lambda>h. h\<lparr>h_rooms := RoomManager_join_many ids c (h_rooms h)\<rparr>)))" for ids
    by (rule keepsI) (use assms join_ok in \<open>auto simp: inv_rel_def with_hub_def\<close>)
  show ?thesis
    unfolding open_side_effects_def
    by (intro inv_step.keeps_catch inv_step.keeps_seq inv_step.keeps_if inv_step.keeps_ret inv_step.keeps_gets join
        core keeps_intros publish_core)
qed

lemma on_open_registers:
  assumes "hub_ok (rt_hub s)" "c \<noteq> nullptr" "SessionManager_get c (h_sessions (rt_hub s)) = None"
  shows "hub_ok (rt_hub (EventDispatcher_on_open dump c u n v s)) \<and>
    map_option identity (SessionManager_get k (h_sessions (rt_hub (EventDispatcher_on_open dump c u n v s)))) =
      (if k = c then Some \<lparr>ac_user_id = u, ac_username = n, ac_protocol_version = v\<rparr>
       else map_option identity (SessionManager_get k (h_sessions (rt_hub s))))"
proof -
  define h1 where "h1 = snd (register_session c u n v (rt_hub s))"
  define h2 where "h2 = h1\<lparr>h_sessions := SessionManager_touch c (rt_steady_ms s) (h_sessions h1)\<rparr>"
  have h1: "h_sessions h1 = snd (SessionManager_add c u n v (h_sessions (rt_hub s)))"
    by (simp add: h1_def register_session_def split: prod.split)
  have ok: "hub_ok h2" unfolding h2_def h1_def by (intro touch_ok register_session_ok assms)
  have reg: "SessionManager_get c (h_sessions h2) \<noteq> None" by (simp add: h2_def h1)
  define s3 where "s3 = snd (catch (open_side_effects dump c u n) (\<lambda>_. ret ()) (s\<lparr>rt_hub := h2\<rparr>))"
  have s3: "hub_ok (rt_hub s3)" "h_sessions (rt_hub s3) = h_sessions h2"
    using open_side_effects_inv [OF reg, of dump u n] ok
    by (auto simp: keeps_def inv_rel_def s3_def dest!: spec [of _ "s\<lparr>rt_hub := h2\<rparr>"])
  have final: "rt_core (EventDispatcher_on_open dump c u n v s) = rt_core s3"
    by (simp add: EventDispatcher_on_open_def with_hub_def Let_def h1_def [symmetric] h2_def [symmetric] s3_def [symmetric])
  have "map_option identity (SessionManager_get k (h_sessions h2)) =
      (if k = c then Some \<lparr>ac_user_id = u, ac_username = n, ac_protocol_version = v\<rparr>
       else map_option identity (SessionManager_get k (h_sessions (rt_hub s))))"
    by (cases "SessionManager_get k (h_sessions (rt_hub s))")
       (simp_all add: h2_def h1)
  with s3 core_ok [OF final] final show ?thesis by (simp add: hub_core_def)
qed

lemma on_message_registers:
  assumes "hub_ok (rt_hub s)"
  shows "hub_ok (rt_hub (EventDispatcher_on_message dump parse c data s)) \<and>
    map_option identity (SessionManager_get k (h_sessions (rt_hub (EventDispatcher_on_message dump parse c data s)))) =
      map_option identity (SessionManager_get k (h_sessions (rt_hub s)))"
proof -
  define h1 where "h1 = (rt_hub s)\<lparr>h_sessions := SessionManager_touch c (rt_steady_ms s) (h_sessions (rt_hub s))\<rparr>"
  have ok: "hub_ok h1" unfolding h1_def by (rule touch_ok) (rule assms)
  have same: "map_option identity (SessionManager_get k (h_sessions h1)) =
      map_option identity (SessionManager_get k (h_sessions (rt_hub s)))"
    by (cases "SessionManager_get k (h_sessions (rt_hub s))") (simp_all add: h1_def identity_def)
  have "rt_core (EventDispatcher_on_message dump parse c data s) = hub_core h1"
    by (simp add: EventDispatcher_on_message_def with_hub_def h1_def [symmetric] Let_def run_frame_core ws_send_error_def
        split: option.split)
  with ok same core_ok show ?thesis by (simp add: hub_core_def hub_ok_def)
qed

lemma on_close_registers:
  assumes "hub_ok (rt_hub s)"
  shows "hub_ok (rt_hub (EventDispatcher_on_close dump c s)) \<and>
    map_option identity (SessionManager_get k (h_sessions (rt_hub (EventDispatcher_on_close dump c s)))) =
      (if k = c then None else map_option identity (SessionManager_get k (h_sessions (rt_hub s))))"
proof -
  obtain session h1 where h1: "unregister_session c (rt_hub s) = (session, h1)" by fastforce
  then have ok: "hub_ok h1" using unregister_ok [OF assms, of c] by simp
  have sm: "h_sessions h1 = snd (SessionManager_remove c (h_sessions (rt_hub s)))"
    using h1 by (auto simp: unregister_session_def Let_def split: prod.splits)
  have "rt_core (EventDispatcher_on_close dump c s) = hub_core h1"
    using close_keeps [of dump] by (auto simp: EventDispatcher_on_close_def h1 keeps_def same_rel_def Let_def split: option.split)
  then show ?thesis using ok sm by (simp add: hub_core_def hub_ok_def)
qed

lemma sweep_core: "rt_core (HeartbeatMonitor_sweep dump timeout s) = rt_core s"
proof -
  have "rt_core (fold (heartbeat_visit dump t clock) ss s) = rt_core s" for ss t clock
    by (induction ss arbitrary: s) (simp_all add: heartbeat_visit_def with_hub_def)
  then show ?thesis by (simp add: HeartbeatMonitor_sweep_def)
qed

text \<open>C11. The registries describe exactly the open sockets. After any lawful sequence of handshakes, frames,
  closings and heartbeats, with any database failures and any frame contents, the session table holds
  precisely the sockets that are open, each with the identity and protocol version of its handshake;
  the index by user and the room tables agree with it; and no room lists a socket that is gone.\<close>

theorem registries_consistent:
  assumes "lawful es" and "rt_hub s = fresh_hub clustered"
  shows "map_option identity (SessionManager_get c (h_sessions (rt_hub (ws_run dump parse es s)))) = open_sockets es c \<and>
    hub_ok (rt_hub (ws_run dump parse es s))"
  using assms(1)
proof (induction es arbitrary: c rule: lawful.induct)
  case 1
  have "SessionManager_get c (h_sessions (rt_hub s)) = None"
    by (simp add: assms(2) fresh_hub_def no_sessions_def SessionManager_get_def)
  then show ?case using assms(2) by simp
next
  case (2 c' a es)
  define s' where "s' = ws_run dump parse es s"
  have ok: "hub_ok (rt_hub s')" and reg: "\<And>k. map_option identity (SessionManager_get k (h_sessions (rt_hub s'))) = open_sockets es k"
    using 2 by (simp_all add: s'_def)
  have "SessionManager_get c' (h_sessions (rt_hub s')) = None" using reg [of c'] 2(2) by simp
  then show ?case
    using on_open_registers [OF ok, of c' dump "ac_user_id a" "ac_username a" "ac_protocol_version a" c] 2(2) reg [of c]
    by (simp add: s'_def [symmetric] WebSocketController_onopen_def)
next
  case (3 c' data b es)
  then show ?case
    using on_message_registers [of "ws_run dump parse es s" dump parse c' data c]
    by (simp add: WebSocketController_onmessage_def)
next
  case (4 c' es)
  then show ?case
    using on_close_registers [of "ws_run dump parse es s" dump c' c] by (simp add: WebSocketController_onclose_def)
next
  case (5 timeout es)
  then show ?case
    using sweep_core [of dump timeout "ws_run dump parse es s"] core_ok by (simp add: hub_core_def hub_ok_def)
qed

definition quiet_rt :: rt where
  "quiet_rt = \<lparr>rt_thread = \<lparr>td_world = example_world, td_tracer = Tracer_create \<lparr>to_enabled = False, to_sample_ratio = 0,
       to_max_batch_size = 1, to_max_queue_size = 1\<rparr>, td_current = None, td_wall = 0, td_steady = 0\<rparr>,
     rt_hub = fresh_hub False, rt_presence = nobody_online, rt_flags = None, rt_publisher = False,
     rt_steady_ms = 0, rt_wall_ms = 0, rt_closing = []\<rparr>"

theorem registries_consistent_witness:
  "SessionManager_get 5 (h_sessions (rt_hub (ws_run plain_dump plain_parse
     [Closed 5, Arrived 5 ''x'' False, Opened 5 \<lparr>ac_user_id = 1, ac_username = ''ann'', ac_protocol_version = kV2\<rparr>] quiet_rt))) = None"
proof -
  have "lawful [Closed 5, Arrived 5 ''x'' False, Opened 5 \<lparr>ac_user_id = 1, ac_username = ''ann'', ac_protocol_version = kV2\<rparr>]"
    "rt_hub quiet_rt = fresh_hub False"
    by (simp_all add: nullptr_def quiet_rt_def)
  from registries_consistent [OF this, of 5 plain_dump plain_parse] show ?thesis by simp
qed


section \<open>Errors\<close>

lemma send_event_sent:
  assumes "c \<noteq> nullptr" "SessionManager_get c (h_sessions h) = Some s"
  shows "h_sent (send_event dump c type data e h) =
    h_sent h @ [(c, protocol_encode dump (h_now h) (ws_protocol_version s) type data e)]"
  using assms by (simp add: send_event_def hub_encode_def send_raw_def Let_def)

definition error_frame :: "(json \<Rightarrow> string) \<Rightarrow> hub \<Rightarrow> ws_session \<Rightarrow> string \<Rightarrow> string \<Rightarrow> envelope \<Rightarrow> string" where
  "error_frame dump h session code message e =
     protocol_encode dump (h_now h) (ws_protocol_version session) kError
       (JObj [(''code'', JStr code), (''message'', JStr message)]) e"

lemma ws_send_error_sent:
  assumes "c \<noteq> nullptr" "SessionManager_get c (h_sessions (rt_hub s)) = Some session"
  shows "h_sent (rt_hub (ws_send_error dump c code message e s)) =
    h_sent (rt_hub s) @ [(c, error_frame dump (rt_hub s) session code message e)]"
  using send_event_sent [OF assms] by (simp add: ws_send_error_def with_hub_def error_frame_def)

definition touched :: "conn \<Rightarrow> rt \<Rightarrow> rt" where
  "touched c s = with_hub (\<lambda>h. h\<lparr>h_sessions := SessionManager_touch c (rt_steady_ms s) (h_sessions h)\<rparr>) s"

lemma touched_get:
  assumes "SessionManager_get c (h_sessions (rt_hub s)) = Some session"
  shows "SessionManager_get c (h_sessions (rt_hub (touched c s))) = Some (session\<lparr>ws_last_activity_ms := rt_steady_ms s\<rparr>)"
    "h_sent (rt_hub (touched c s)) = h_sent (rt_hub s)" "h_now (rt_hub (touched c s)) = h_now (rt_hub s)"
    "rt_thread (touched c s) = rt_thread s"
  using assms by (simp_all add: touched_def with_hub_def)

text \<open>The handler of a frame, inside the frame's span.\<close>

definition frame_outcome :: "(json \<Rightarrow> string) \<Rightarrow> ws_session \<Rightarrow> conn \<Rightarrow> inbound_frame \<Rightarrow> rt \<Rightarrow> (app_exception + unit) \<times> rt" where
  "frame_outcome dump session c frame s =
     dispatch_frame dump session c frame (s\<lparr>rt_thread := snd (ws_scope (if_event frame) (rt_thread s))\<rparr>)"

lemma run_frame_sent:
  assumes "c \<noteq> nullptr" "SessionManager_get c (h_sessions (rt_hub s)) = Some session"
    and "frame_outcome dump session c frame s = (r, s')"
  shows "h_sent (rt_hub (run_frame dump session c frame s)) =
    (case r of Inr _ \<Rightarrow> h_sent (rt_hub s')
     | Inl ex \<Rightarrow> h_sent (rt_hub s') @ [(c, error_frame dump (rt_hub s) session (code_for (ex_type ex)) (ex_message ex)
         \<lparr>env_request_id = if_request_id frame, env_correlation_id = if_correlation_id frame\<rparr>)])"
proof -
  obtain scope th where ws: "ws_scope (if_event frame) (rt_thread s) = (scope, th)" by fastforce
  have d: "dispatch_frame dump session c frame (s\<lparr>rt_thread := th\<rparr>) = (r, s')"
    using assms(3) by (simp add: frame_outcome_def ws)
  have core: "rt_core s' = rt_core s" using keepsD [OF dispatch_keeps d] by (simp add: same_rel_def)
  then have get: "SessionManager_get c (h_sessions (rt_hub s')) = Some session" using assms(2) by (simp add: hub_core_def)
  show ?thesis
    using ws_send_error_sent [OF assms(1) get, of dump] core
    by (cases r) (simp_all add: run_frame_def ws d Let_def error_frame_def hub_core_def)
qed


definition one_socket :: "version \<Rightarrow> rt" where
  "one_socket v = quiet_rt\<lparr>rt_hub := snd (register_session 5 2 ''bob'' v (fresh_hub False))\<rparr>"

lemma one_socket_get:
  "SessionManager_get 5 (h_sessions (rt_hub (one_socket v))) =
    Some \<lparr>ws_connection = 5, ws_user_id = 2, ws_username = ''bob'', ws_protocol_version = v, ws_last_activity_ms = 0\<rparr>"
  "h_sent (rt_hub (one_socket v)) = []"
  by (simp_all add: one_socket_def register_session_def fresh_hub_def SessionManager_get_def SessionManager_add_def Let_def)

lemma one_socket_ok: "hub_ok (rt_hub (one_socket v))"
  unfolding one_socket_def
  by (simp, rule register_session_ok [OF fresh_hub_ok]) (simp_all add: nullptr_def fresh_hub_def no_sessions_def SessionManager_get_def)



section \<open>A message sent over a socket\<close>

text \<open>Opening a span draws random ids and touches nothing else of the world.\<close>

lemma generate_hex_token_world: "\<exists>k. snd (generate_hex_token n w) = w\<lparr>drawn := k\<rparr>"
  by (auto simp: generate_hex_token_def)

lemma new_id_world: "\<exists>k. snd (new_trace_id w) = w\<lparr>drawn := k\<rparr>" "\<exists>k. snd (new_span_id w) = w\<lparr>drawn := k\<rparr>"
  by (auto simp: new_trace_id_def new_span_id_def generate_hex_token_def act_simps)

definition same_but_drawn :: "world \<Rightarrow> world \<Rightarrow> bool" where
  "same_but_drawn w w' \<longleftrightarrow> (\<exists>k. w' = w\<lparr>drawn := k\<rparr>)"

lemma same_but_drawn_refl [simp]: "same_but_drawn w w"
  unfolding same_but_drawn_def by (rule exI [of _ "drawn w"]) simp

lemma same_but_drawn_trans: "same_but_drawn w w' \<Longrightarrow> same_but_drawn w' w'' \<Longrightarrow> same_but_drawn w w''"
  by (auto simp: same_but_drawn_def)

lemma same_but_drawn_fields:
  "same_but_drawn w w' \<Longrightarrow> db w' = db w \<and> faults w' = faults w \<and> outbox w' = outbox w"
  by (auto simp: same_but_drawn_def)

lemma draw_id_world:
  assumes "draw_id m t = (i, t')" "\<exists>k. snd (m (td_world t)) = (td_world t)\<lparr>drawn := k\<rparr>"
  shows "same_but_drawn (td_world t) (td_world t')"
  using assms by (auto simp: draw_id_def same_but_drawn_def split: prod.splits)

lemma start_span_world: "same_but_drawn (td_world t) (td_world (snd (Tracer_start_span name kind parent t)))"
proof -
  obtain i t1 where t1: "draw_id new_span_id t = (i, t1)" by fastforce
  obtain j t2 where t2: "draw_id new_trace_id t1 = (j, t2)" by fastforce
  have "same_but_drawn (td_world t) (td_world t1)" "same_but_drawn (td_world t1) (td_world t2)"
    using draw_id_world [OF t1 new_id_world(2)] draw_id_world [OF t2 new_id_world(1)] by auto
  then show ?thesis
    by (auto simp: Tracer_start_span_def t1 t2 Let_def intro: same_but_drawn_trans split: option.splits)
qed

lemma ws_scope_world: "same_but_drawn (td_world t) (td_world (snd (ws_scope ev t)))"
proof -
  obtain sp t1 where "Tracer_start_span (''ws '' @ ev) kServer (td_current t) t = (sp, t1)" by fastforce
  with start_span_world [of t "''ws '' @ ev" kServer "td_current t"] show ?thesis
    by (auto simp: ws_scope_def tagged_scope_def trace_scope_def Tracer_start_child_span_def ScopedSpan_open_def split: prod.splits)
qed

lemma scope_close_world [simp]: "td_world (ScopedSpan_close sc t) = td_world t"
  by (simp add: ScopedSpan_close_def Span_end_def)

lemma run_frame_world:
  assumes "frame_outcome dump session c frame s = (r, s')"
  shows "rt_world (run_frame dump session c frame s) = rt_world s'"
proof -
  obtain scope th where ws: "ws_scope (if_event frame) (rt_thread s) = (scope, th)" by fastforce
  have d: "dispatch_frame dump session c frame (s\<lparr>rt_thread := th\<rparr>) = (r, s')"
    using assms by (simp add: frame_outcome_def ws)
  show ?thesis by (cases r) (simp_all add: run_frame_def ws d Let_def ws_send_error_def with_hub_def)
qed

lemma distinct_second:
  "distinct (map (\<lambda>x. (f x, g x)) xs) \<Longrightarrow> distinct (map g (filter (\<lambda>x. f x = c) xs))"
  by (induction xs) (auto simp: image_iff)

lemma conv_inv_distinct: "conv_inv d \<Longrightarrow> distinct (map p_user_id (members c (tabs d)))"
  by (simp add: conv_inv_def db_ok_def participants_ok_def unique_def members_def distinct_second)

lemma frame_if_core: "hub_core h' = hub_core h \<Longrightarrow> frame_if dump type data P h' k = frame_if dump type data P h k"
  by (simp add: frame_if_def hub_core_def split: option.split)

lemma frame_if_touched:
  "frame_if dump type data (\<lambda>x. P (ws_user_id x)) (rt_hub (touched c s)) k = frame_if dump type data (\<lambda>x. P (ws_user_id x)) (rt_hub s) k"
  by (auto simp: frame_if_def touched_def with_hub_def frame_for_def split: option.splits)

text \<open>Publishing a batch of events sends each listed session one frame per event, in order.\<close>

lemma send_out_sends:
  assumes "hub_ok h" "\<forall>ev \<in> set events. distinct (fst ev)"
  shows "\<exists>new. h_sent (send_out dump events h) = h_sent h @ new \<and>
    (\<forall>k. frames_to k new = concat (map (\<lambda>(ids, type, data). frame_if dump type data (\<lambda>x. ws_user_id x \<in> set ids) h k) events))"
  using assms
proof (induction events arbitrary: h)
  case Nil
  then show ?case by (simp add: send_out_def frames_to_def)
next
  case (Cons ev events)
  obtain ids type data where ev: "ev = (ids, type, data)" by (cases ev)
  define h1 where "h1 = ConnectionManager_publish dump ids type data h"
  have core: "hub_core h1 = hub_core h" by (simp add: h1_def)
  have sent: "h_sent h1 = h_sent h @ user_frames dump ids type data h"
    using deliver_local_sends [OF Cons.prems(1), of dump ids type data]
    by (simp add: h1_def ConnectionManager_publish_def cluster_publish_def)
  have "hub_ok h1" using core_ok [OF core] Cons.prems(1) by simp
  moreover have "\<forall>ev \<in> set events. distinct (fst ev)" using Cons.prems(2) by simp
  ultimately obtain new where new: "h_sent (send_out dump events h1) = h_sent h1 @ new"
    "\<And>k. frames_to k new = concat (map (\<lambda>(ids, type, data). frame_if dump type data (\<lambda>x. ws_user_id x \<in> set ids) h1 k) events)"
    using Cons.IH by blast
  have "distinct ids" using Cons.prems(2) by (simp add: ev)
  note first = user_frames_once [OF Cons.prems(1) this]
  show ?case
  proof (intro exI [of _ "user_frames dump ids type data h @ new"] conjI allI)
    show "h_sent (send_out dump (ev # events) h) = h_sent h @ user_frames dump ids type data h @ new"
      using new(1) sent by (simp add: send_out_def ev h1_def)
    show "frames_to k (user_frames dump ids type data h @ new) =
        concat (map (\<lambda>(ids, type, data). frame_if dump type data (\<lambda>x. ws_user_id x \<in> set ids) h k) (ev # events))" for k
      using first [of k dump type data] new(2) [of k] by (simp add: ev frames_to_def frame_if_core [OF core])
  qed
qed

text \<open>What sending stores and what it hands to the broadcaster, when nothing fails.\<close>

lemma send_publishes:
  assumes inv: "conv_inv (db w)" and quiet: "faults w = []" and empty: "outbox w = []"
    and mem: "is_member (sm_conversation_id req) actor (tabs (db w))"
    and content: "trim (sm_content req) \<noteq> []" "length (trim (sm_content req)) \<le> 4000"
  obtains m attached ns w' where "MessageService_send actor req w = (Inr m, w')"
    and "t_messages (tabs (db w')) = t_messages (tabs (db w)) @ [m]"
    and "m_content m = trim (sm_content req)" "m_sender_id m = actor" "m_conversation_id m = sm_conversation_id req"
    and "map n_user_id ns = filter (\<lambda>u. u \<noteq> actor) (map p_user_id (members (sm_conversation_id req) (tabs (db w))))"
    and "outbox w' = (map p_user_id (members (sm_conversation_id req) (tabs (db w))), kMessageCreated, MessageResponse_to_json m attached) #
      map (\<lambda>n. ([n_user_id n], kNotification, NotificationResponse_to_json n)) ns"
proof -
  let ?ids = "map p_user_id (members (sm_conversation_id req) (tabs (db w)))"
  define m where "m = sent_message actor req (db w)"
  obtain w1 w2 w' where send: "MessageService_send actor req w = (Inr m, w')"
    and w1: "tabs (db w1) = t_attachments_update (map (link_row (m_id m) actor (sm_attachment_ids req))) (tabs (after_send actor req (db w)))"
    "outbox w1 = outbox w @ [(?ids, kMessageCreated, MessageResponse_to_json m (map a_id (attachments_of (m_id m) (tabs (db w1)))))]"
    and w2: "notified kNewMessage (JObj [(''conversation_id'', JInt (m_conversation_id m)),
       (''message_id'', JInt (m_id m)), (''sender_id'', JInt actor)]) (filter (\<lambda>u. u \<noteq> actor) ?ids) w1 w2"
    and w': "db w' = db w2" "outbox w' = outbox w2"
    by (rule send_runs [of w req actor, folded m_def, OF inv quiet mem content])
  obtain ns where ns: "map n_user_id ns = filter (\<lambda>u. u \<noteq> actor) ?ids"
    "tabs (db w2) = t_notifications_update (\<lambda>_. t_notifications (tabs (db w1)) @ ns) (tabs (db w1))"
    "outbox w2 = outbox w1 @ map (\<lambda>n. ([n_user_id n], kNotification, NotificationResponse_to_json n)) ns"
    using w2 by (auto simp: notified_def)
  show thesis
  proof (rule that [OF send _ _ _ _ ns(1)])
    show "t_messages (tabs (db w')) = t_messages (tabs (db w)) @ [m]"
      using w1(1) ns(2) w'(1) by (simp add: after_send_def m_def)
    show "m_content m = trim (sm_content req)" "m_sender_id m = actor" "m_conversation_id m = sm_conversation_id req"
      by (simp_all add: m_def sent_message_def)
    show "outbox w' = (?ids, kMessageCreated, MessageResponse_to_json m (map a_id (attachments_of (m_id m) (tabs (db w1))))) #
        map (\<lambda>n. ([n_user_id n], kNotification, NotificationResponse_to_json n)) ns"
      using w1(2) w'(2) ns(3) empty by simp
  qed
qed

text \<open>The handler of a message frame stores the message and hands its events to the hub.\<close>

lemma message_frame_outcome:
  assumes frame: "if_event frame = kClientSendMessage" "SendMessageRequest_from_json (if_payload frame) = Inr req"
    and inv: "conv_inv (db (rt_world t))" and quiet: "faults (rt_world t) = []"
    and mem: "is_member (sm_conversation_id req) (ws_user_id session) (tabs (db (rt_world t)))"
    and content: "trim (sm_content req) \<noteq> []" "length (trim (sm_content req)) \<le> 4000"
  obtains m attached ns u where "frame_outcome dump session c frame t = (Inr (), u)"
    and "t_messages (tabs (db (rt_world u))) = t_messages (tabs (db (rt_world t))) @ [m]"
    and "m_content m = trim (sm_content req)" "m_sender_id m = ws_user_id session" "m_conversation_id m = sm_conversation_id req"
    and "map n_user_id ns = filter (\<lambda>u. u \<noteq> ws_user_id session)
      (map p_user_id (members (sm_conversation_id req) (tabs (db (rt_world t)))))"
    and "rt_hub u = send_out dump ((map p_user_id (members (sm_conversation_id req) (tabs (db (rt_world t)))),
        kMessageCreated, MessageResponse_to_json m attached) #
      map (\<lambda>n. ([n_user_id n], kNotification, NotificationResponse_to_json n)) ns) (rt_hub t)"
proof -
  let ?actor = "ws_user_id session"
  define th where "th = snd (ws_scope (if_event frame) (rt_thread t))"
  define w0 where "w0 = (td_world th)\<lparr>outbox := []\<rparr>"
  have w0: "db w0 = db (rt_world t)" "faults w0 = []" "outbox w0 = []"
    using same_but_drawn_fields [OF ws_scope_world [of "rt_thread t" "if_event frame"]] quiet by (simp_all add: w0_def th_def)
  show thesis
  proof (rule send_publishes [of w0, unfolded w0(1), OF inv w0(2,3) mem content])
    fix m attached ns w'
    assume send: "MessageService_send ?actor req w0 = (Inr m, w')"
      and stored: "t_messages (tabs (db w')) = t_messages (tabs (db (rt_world t))) @ [m]"
      and m: "m_content m = trim (sm_content req)" "m_sender_id m = ?actor" "m_conversation_id m = sm_conversation_id req"
      and ns: "map n_user_id ns = filter (\<lambda>u. u \<noteq> ?actor) (map p_user_id (members (sm_conversation_id req) (tabs (db (rt_world t)))))"
      and out: "outbox w' = (map p_user_id (members (sm_conversation_id req) (tabs (db (rt_world t)))), kMessageCreated,
          MessageResponse_to_json m attached) # map (\<lambda>n. ([n_user_id n], kNotification, NotificationResponse_to_json n)) ns"
    have "serve dump (MessageService_send ?actor req) (t\<lparr>rt_thread := th\<rparr>) =
        (Inr m, t\<lparr>rt_thread := th\<lparr>td_world := w'\<lparr>outbox := outbox (td_world th) @ outbox w'\<rparr>\<rparr>, rt_hub := send_out dump (outbox w') (rt_hub t)\<rparr>)"
      using send by (simp add: serve_def w0_def [symmetric] Let_def)
    then have run: "frame_outcome dump session c frame t =
        (Inr (), t\<lparr>rt_thread := th\<lparr>td_world := w'\<lparr>outbox := outbox (td_world th) @ outbox w'\<rparr>\<rparr>, rt_hub := send_out dump (outbox w') (rt_hub t)\<rparr>)"
      unfolding frame_outcome_def th_def [symmetric]
      using frame by (simp add: dispatch_frame_def Let_def event_name_defs handle_send_message_def seq_apply)
    show thesis by (rule that [OF run _ m ns]) (simp_all add: stored out)
  qed
qed

text \<open>C3. A message sent over a socket arrives. When a participant's client sends a message with content over an
  open socket and nothing fails, the message is stored with the trimmed content under the sender's name,
  and every live session of every participant of the conversation -- the sender's included -- receives
  exactly one frame with the stored message, in the protocol version of that session; every other
  participant's sessions receive one notification frame besides, and nobody else receives anything.\<close>

theorem socket_message_reaches:
  assumes ok: "hub_ok (rt_hub s)"
    and sock: "c \<noteq> nullptr" "SessionManager_get c (h_sessions (rt_hub s)) = Some session"
    and frame: "protocol_decode parse text = Some frame" "if_event frame = kClientSendMessage"
      "SendMessageRequest_from_json (if_payload frame) = Inr req"
    and inv: "conv_inv (db (rt_world s))" and quiet: "faults (rt_world s) = []"
    and mem: "is_member (sm_conversation_id req) (ws_user_id session) (tabs (db (rt_world s)))"
    and content: "trim (sm_content req) \<noteq> []" "length (trim (sm_content req)) \<le> 4000"
  shows "\<exists>m attached ns new.
    t_messages (tabs (db (rt_world (EventDispatcher_on_message dump parse c text s)))) =
      t_messages (tabs (db (rt_world s))) @ [m] \<and>
    m_content m = trim (sm_content req) \<and> m_sender_id m = ws_user_id session \<and>
    m_conversation_id m = sm_conversation_id req \<and>
    map n_user_id ns = filter (\<lambda>u. u \<noteq> ws_user_id session)
      (map p_user_id (members (sm_conversation_id req) (tabs (db (rt_world s))))) \<and>
    h_sent (rt_hub (EventDispatcher_on_message dump parse c text s)) = h_sent (rt_hub s) @ new \<and>
    (\<forall>k. frames_to k new =
      frame_if dump kMessageCreated (MessageResponse_to_json m attached)
        (\<lambda>x. ws_user_id x \<in> set (map p_user_id (members (sm_conversation_id req) (tabs (db (rt_world s)))))) (rt_hub s) k @
      concat (map (\<lambda>n. frame_if dump kNotification (NotificationResponse_to_json n)
        (\<lambda>x. ws_user_id x = n_user_id n) (rt_hub s) k) ns))"
proof -
  let ?actor = "ws_user_id session" and ?d = "db (rt_world s)" and ?session = "session\<lparr>ws_last_activity_ms := rt_steady_ms s\<rparr>"
  let ?ids = "map p_user_id (members (sm_conversation_id req) (tabs ?d))"
  define t where "t = touched c s"
  note tg = touched_get [OF sock(2), folded t_def]
  have ok_t: "hub_ok (rt_hub t)" unfolding t_def touched_def with_hub_def using touch_ok [OF ok] by simp
  obtain m attached ns u where outcome: "frame_outcome dump ?session c frame t = (Inr (), u)"
    and stored: "t_messages (tabs (db (rt_world u))) = t_messages (tabs ?d) @ [m]"
    and m: "m_content m = trim (sm_content req)" "m_sender_id m = ?actor" "m_conversation_id m = sm_conversation_id req"
    and ns: "map n_user_id ns = filter (\<lambda>u. u \<noteq> ?actor) ?ids"
    and hub: "rt_hub u = send_out dump ((?ids, kMessageCreated, MessageResponse_to_json m attached) #
      map (\<lambda>n. ([n_user_id n], kNotification, NotificationResponse_to_json n)) ns) (rt_hub t)"
    by (rule message_frame_outcome [of frame req t ?session dump c, unfolded tg(4), OF frame(2,3) inv quiet _ content])
       (use mem in simp, rule that, simp_all)
  have run: "EventDispatcher_on_message dump parse c text s = run_frame dump ?session c frame t"
    using tg(1) frame(1) by (simp add: EventDispatcher_on_message_def touched_def [symmetric] t_def [symmetric] Let_def)
  obtain new where new: "h_sent (rt_hub u) = h_sent (rt_hub t) @ new"
    "\<And>k. frames_to k new = frame_if dump kMessageCreated (MessageResponse_to_json m attached) (\<lambda>x. ws_user_id x \<in> set ?ids) (rt_hub t) k @
      concat (map (\<lambda>n. frame_if dump kNotification (NotificationResponse_to_json n) (\<lambda>x. ws_user_id x = n_user_id n) (rt_hub t) k) ns)"
    using send_out_sends [OF ok_t, of "(?ids, kMessageCreated, MessageResponse_to_json m attached) #
      map (\<lambda>n. ([n_user_id n], kNotification, NotificationResponse_to_json n)) ns" dump] conv_inv_distinct [OF inv] by (auto simp: hub o_def)
  have frames: "frame_if dump type data (\<lambda>x. P (ws_user_id x)) (rt_hub t) k = frame_if dump type data (\<lambda>x. P (ws_user_id x)) (rt_hub s) k"
    for type data P k unfolding t_def by (rule frame_if_touched)
  show ?thesis
    using stored m ns new run_frame_sent [OF sock(1) tg(1) outcome] run_frame_world [OF outcome] tg(2)
      frames [where P = "\<lambda>u. u \<in> set ?ids"] frames [where P = "\<lambda>u. u = _"]
    by (intro exI [of _ m] exI [of _ attached] exI [of _ ns] exI [of _ new]) (simp add: run)
qed

definition example_text :: "string \<Rightarrow> json option" where
  "example_text s = Some (JObj [(''type'', JStr ''message.send''),
     (''data'', JObj [(''conversation_id'', JInt 7), (''content'', JStr ''  hello '')])])"

theorem socket_message_reaches_witness:
  "length (frames_to 5 (h_sent (rt_hub (EventDispatcher_on_message plain_dump example_text 5 ''x'' (one_socket kV2))))) = 1"
proof -
  have real: "(5 :: conn) \<noteq> nullptr" by (simp add: nullptr_def)
  have decoded: "protocol_decode example_text ''x'' = Some \<lparr>if_event = kClientSendMessage,
      if_payload = JObj [(''conversation_id'', JInt 7), (''content'', JStr ''  hello '')],
      if_request_id = [], if_correlation_id = [], if_version = kV1\<rparr>" (is "_ = Some ?frame")
    by (simp add: protocol_decode_def example_text_def read_string_def read_object_def event_name_defs)
  have req: "SendMessageRequest_from_json (if_payload ?frame) = Inr example_request"
    by (simp add: SendMessageRequest_from_json_def example_request_def require_string_def require_int_def get_int64_def int64_max_def)
  have world: "rt_world (one_socket kV2) = example_world" by (simp add: one_socket_def quiet_rt_def)
  note facts = example_request_facts [folded world]
  obtain m attached ns new where ids: "map n_user_id ns = filter (\<lambda>u. u \<noteq> 2) (map p_user_id (members 7 (tabs (db example_world))))"
    and sent: "h_sent (rt_hub (EventDispatcher_on_message plain_dump example_text 5 ''x'' (one_socket kV2))) = h_sent (rt_hub (one_socket kV2)) @ new"
    and frames: "\<forall>k. frames_to k new = frame_if plain_dump kMessageCreated (MessageResponse_to_json m attached)
        (\<lambda>x. ws_user_id x \<in> set (map p_user_id (members 7 (tabs (db example_world))))) (rt_hub (one_socket kV2)) k @
      concat (map (\<lambda>n. frame_if plain_dump kNotification (NotificationResponse_to_json n) (\<lambda>x. ws_user_id x = n_user_id n) (rt_hub (one_socket kV2)) k) ns)"
    using socket_message_reaches [OF one_socket_ok real one_socket_get(1) decoded _ req facts(1,2), of plain_dump] facts(3,4)
    by (auto simp: world example_request_def)
  have "n_user_id n \<noteq> 2" if "n \<in> set ns" for n
  proof -
    from that have "n_user_id n \<in> set (map n_user_id ns)" by simp
    then show ?thesis unfolding ids by simp
  qed
  then have "concat (map (\<lambda>n. frame_if plain_dump kNotification (NotificationResponse_to_json n) (\<lambda>x. ws_user_id x = n_user_id n) (rt_hub (one_socket kV2)) 5) ns) = []"
    using one_socket_get(1) [of kV2] by (auto simp: frame_if_def)
  moreover have "2 \<in> set (map p_user_id (members 7 (tabs (db example_world))))"
    by (simp add: example_defs members_def)
  ultimately show ?thesis
    using frames one_socket_get [of kV2] by (simp add: sent frame_if_def)
qed


section \<open>Heartbeats\<close>

definition idle :: "int \<Rightarrow> int \<Rightarrow> ws_session \<Rightarrow> bool" where
  "idle timeout_ms clock x \<longleftrightarrow> clock - ws_last_activity_ms x > timeout_ms"

definition ping_for :: "(json \<Rightarrow> string) \<Rightarrow> time_point \<Rightarrow> ws_session \<Rightarrow> conn \<times> string" where
  "ping_for dump ts x = frame_for dump ts kClientPing (JObj []) no_envelope x"

lemma visits:
  assumes "\<forall>x \<in> set ss. SessionManager_get (ws_connection x) (h_sessions (rt_hub s)) = Some x \<and> ws_connection x \<noteq> nullptr"
  shows "rt_closing (fold (heartbeat_visit dump t clock) ss s) =
      rt_closing s @ map (\<lambda>x. (ws_connection x, ''heartbeat timeout'')) (filter (idle t clock) ss) \<and>
    h_sent (rt_hub (fold (heartbeat_visit dump t clock) ss s)) =
      h_sent (rt_hub s) @ map (ping_for dump (h_now (rt_hub s))) (filter (\<lambda>x. \<not> idle t clock x) ss)"
  using assms
proof (induction ss arbitrary: s)
  case (Cons x ss)
  have core: "rt_core (heartbeat_visit dump t clock x s) = rt_core s" by (simp add: heartbeat_visit_def with_hub_def)
  then have "h_sessions (rt_hub (heartbeat_visit dump t clock x s)) = h_sessions (rt_hub s)"
    "h_now (rt_hub (heartbeat_visit dump t clock x s)) = h_now (rt_hub s)" by (simp_all add: hub_core_def)
  with Cons.IH [of "heartbeat_visit dump t clock x s"] Cons.prems
    send_event_sent [of "ws_connection x" "rt_hub s" x dump kClientPing "JObj []" no_envelope]
  show ?case
    by (simp add: heartbeat_visit_def idle_def with_hub_def ping_for_def frame_for_def)
qed simp

text \<open>C37. One heartbeat pass asks exactly the connections that have been silent for longer than the timeout to
  close, once each, and sends exactly one ping to every other registered session.\<close>

theorem idle_closed:
  assumes "hub_ok (rt_hub s)"
  shows "\<exists>closed pings.
    rt_closing (HeartbeatMonitor_sweep dump timeout_s s) = rt_closing s @ closed \<and> distinct closed \<and>
    set closed = {(c, ''heartbeat timeout'') | c. \<exists>x. SessionManager_get c (h_sessions (rt_hub s)) = Some x \<and>
      rt_steady_ms s - ws_last_activity_ms x > timeout_s * 1000} \<and>
    h_sent (rt_hub (HeartbeatMonitor_sweep dump timeout_s s)) = h_sent (rt_hub s) @ pings \<and>
    (\<forall>c. frames_to c pings =
      frame_if dump kClientPing (JObj []) (\<lambda>x. rt_steady_ms s - ws_last_activity_ms x \<le> timeout_s * 1000) (rt_hub s) c)"
proof -
  let ?sm = "h_sessions (rt_hub s)" and ?t = "timeout_s * 1000" and ?clock = "rt_steady_ms s"
  have sm: "sessions_agree ?sm" "SessionManager_get nullptr ?sm = None" using assms by (simp_all add: hub_ok_def)
  note snap = listed_sessions(2,4) [OF sm(1)]
  have real: "\<forall>x \<in> set (SessionManager_snapshot ?sm). SessionManager_get (ws_connection x) ?sm = Some x \<and> ws_connection x \<noteq> nullptr"
    using sm(2) agree_connection [OF sm(1)] by (fastforce simp: snap)
  note v = visits [OF real, of dump ?t ?clock]
  let ?idle = "filter (idle ?t ?clock) (SessionManager_snapshot ?sm)"
  let ?live = "filter (\<lambda>x. \<not> idle ?t ?clock x) (SessionManager_snapshot ?sm)"
  show ?thesis
  proof (rule exI [of _ "map (\<lambda>x. (ws_connection x, ''heartbeat timeout'')) ?idle"],
      rule exI [of _ "map (ping_for dump (h_now (rt_hub s))) ?live"], intro conjI allI)
    show "rt_closing (HeartbeatMonitor_sweep dump timeout_s s) = rt_closing s @ map (\<lambda>x. (ws_connection x, ''heartbeat timeout'')) ?idle"
      "h_sent (rt_hub (HeartbeatMonitor_sweep dump timeout_s s)) = h_sent (rt_hub s) @ map (ping_for dump (h_now (rt_hub s))) ?live"
      using v by (simp_all add: HeartbeatMonitor_sweep_def)
    have "inj_on (\<lambda>x. (ws_connection x, ''heartbeat timeout'')) (set (SessionManager_snapshot ?sm))"
      using real by (intro inj_onI) (metis option.inject prod.inject)
    then show "distinct (map (\<lambda>x. (ws_connection x, ''heartbeat timeout'')) ?idle)"
      using snap(2) by (simp add: distinct_map inj_on_subset)
    show "set (map (\<lambda>x. (ws_connection x, ''heartbeat timeout'')) ?idle) =
        {(c, ''heartbeat timeout'') | c. \<exists>x. SessionManager_get c ?sm = Some x \<and> ?clock - ws_last_activity_ms x > ?t}"
      using agree_connection [OF sm(1)] real by (fastforce simp: idle_def snap)
    show "frames_to c (map (ping_for dump (h_now (rt_hub s))) ?live) =
        frame_if dump kClientPing (JObj []) (\<lambda>x. ?clock - ws_last_activity_ms x \<le> ?t) (rt_hub s) c" for c
    proof -
      have "frames_to c (map (ping_for dump (h_now (rt_hub s))) ?live) = frame_if dump kClientPing (JObj []) (\<lambda>x. x \<in> set ?live) (rt_hub s) c"
        unfolding ping_for_def by (rule frames_of_sessions [OF assms]) (use snap in auto)
      also have "\<dots> = frame_if dump kClientPing (JObj []) (\<lambda>x. ?clock - ws_last_activity_ms x \<le> ?t) (rt_hub s) c"
        by (auto simp: frame_if_def snap(1) idle_def split: option.split)
      finally show ?thesis .
    qed
  qed
qed

theorem idle_closed_witness:
  "\<exists>closed. rt_closing (HeartbeatMonitor_sweep plain_dump 90 ((one_socket kV1)\<lparr>rt_steady_ms := 90001\<rparr>)) = closed \<and>
     (5, ''heartbeat timeout'') \<in> set closed"
proof -
  let ?s = "(one_socket kV1)\<lparr>rt_steady_ms := 90001\<rparr>"
  have ok: "hub_ok (rt_hub ?s)" using one_socket_ok by simp
  have "rt_closing ?s = []" by (simp add: one_socket_def quiet_rt_def)
  with idle_closed [OF ok, of plain_dump 90] show ?thesis by (auto simp: one_socket_get)
qed

text \<open>When the conversation list cannot be read, the connection is registered but the presence counter is not
  raised, while closing it lowers the counter all the same.\<close>

lemma open_failure_uncounted:
  assumes "fst (ConversationService_conversation_ids user_id ((rt_world s)\<lparr>outbox := []\<rparr>)) = Inl e"
  shows "rt_presence (EventDispatcher_on_open dump c user_id username v s) = rt_presence s"
proof -
  obtain w' where "ConversationService_conversation_ids user_id ((rt_world s)\<lparr>outbox := []\<rparr>) = (Inl e, w')"
    using assms by (cases "ConversationService_conversation_ids user_id ((rt_world s)\<lparr>outbox := []\<rparr>)") auto
  then show ?thesis
    by (simp add: EventDispatcher_on_open_def open_side_effects_def catch_def seq_apply serve_def with_hub_def Let_def)
qed

end
