(* ===== verification/ClusterInvalidation.thy ===== *)
theory ClusterInvalidation
  imports Authorization ClusterBus
begin

text \<open>
  Cache invalidation across instances: \<^verbatim>\<open>realtime/cluster_invalidation.hpp\<close> and the handler that
  \<^verbatim>\<open>Application::wire_cluster_invalidation\<close> registers. A notice is published on the bus by the instance that
  changed the data and applied by every other one.
\<close>

definition ClusterInvalidationPublisher_publish ::
    "(json \<Rightarrow> string) \<Rightarrow> span_context option \<Rightarrow> bool \<Rightarrow> invalidation_event \<Rightarrow> 's cluster_bus \<Rightarrow>
     (string \<times> string) option \<times> 's cluster_bus" where
  "ClusterInvalidationPublisher_publish dump current accepted e =
     RedisClusterBus_publish dump current accepted kCacheInvalidate (InvalidationEvent_to_json e)"

definition on_invalidation :: "(invalidation_event \<Rightarrow> ('s, unit) node_act) \<Rightarrow> 's node handler" where
  "on_invalidation apply_event origin body n =
     (case apply_event (InvalidationEvent_from_json body) n of
        (Inr _, n') \<Rightarrow> (Inr (), n')
      | (Inl e, n') \<Rightarrow> (Inl (ex_message e), n'))"

definition subscribe_to_invalidations ::
    "(invalidation_event \<Rightarrow> ('s, unit) node_act) \<Rightarrow> 's node cluster_bus \<Rightarrow> 's node cluster_bus" where
  "subscribe_to_invalidations apply_event = RedisClusterBus_subscribe kCacheInvalidate (on_invalidation apply_event)"

definition wire_cluster_invalidation :: "'s cache_ops \<Rightarrow> 's node cluster_bus \<Rightarrow> 's node cluster_bus" where
  "wire_cluster_invalidation ops = subscribe_to_invalidations (apply_invalidation ops)"

definition invalidation_bus :: "'s cache_ops \<Rightarrow> string \<Rightarrow> 's node cluster_bus" where
  "invalidation_bus ops node = wire_cluster_invalidation ops (RedisClusterBus_create node)"

lemma invalidation_bus:
  "cb_node_id (invalidation_bus ops node) = node"
  "map_of (cb_handlers (invalidation_bus ops node)) kCacheInvalidate = Some (on_invalidation (apply_invalidation ops))"
  by (simp_all add: invalidation_bus_def wire_cluster_invalidation_def subscribe_to_invalidations_def
      RedisClusterBus_subscribe_def RedisClusterBus_create_def)

lemma invalidation_stamped:
  "InvalidationEvent_from_json (stamped node current (InvalidationEvent_to_json e)) = e"
proof -
  have obj: "is_object (InvalidationEvent_to_json e)" by (simp add: InvalidationEvent_to_json_def)
  have "string_field (stamped node current (InvalidationEvent_to_json e)) k = string_field (InvalidationEvent_to_json e) k"
    if "k \<in> {''scope'', ''key'', ''sub_key''}" for k
    unfolding string_field_def
    by (subst jfind_stamped(2) [OF obj]) (use that in \<open>auto simp: kOriginKey_def kTraceParentKey_def\<close>)
  then have "InvalidationEvent_from_json (stamped node current (InvalidationEvent_to_json e)) =
      InvalidationEvent_from_json (InvalidationEvent_to_json e)"
    by (simp add: InvalidationEvent_from_json_def)
  then show ?thesis by simp
qed

text \<open>A notice published by one instance is applied by another exactly as it was announced.\<close>

lemma notice_delivered:
  assumes json: "\<forall>j. parse (dump j) = Some j" and peers: "a \<noteq> b"
    and sent: "fst (ClusterInvalidationPublisher_publish dump current True e (invalidation_bus ops a)) = Some msg"
  shows "snd (RedisClusterBus_deliver parse msg (invalidation_bus ops b, n)) = final (apply_invalidation ops e) n"
proof -
  define body where "body = stamped a current (InvalidationEvent_to_json e)"
  have msg: "msg = (kCacheInvalidate, dump body)"
    using sent by (simp add: ClusterInvalidationPublisher_publish_def RedisClusterBus_publish_def invalidation_bus(1) body_def Let_def)
  have obj: "is_object (InvalidationEvent_to_json e)" by (simp add: InvalidationEvent_to_json_def)
  note deliver = deliver_stamped [where parse = parse and wire = "dump body" and node = a and current = current, OF _ obj,
      folded body_def, OF spec [OF json, of body]]
  have "snd (on_invalidation (apply_invalidation ops) a body n) = final (apply_invalidation ops e) n"
    by (simp add: on_invalidation_def body_def invalidation_stamped split: prod.split sum.split)
  then show ?thesis unfolding msg using peers by (simp add: deliver invalidation_bus)
qed

text \<open>C23. A suspension takes effect across the fleet with the next request. Once a ban is written, the
  instance that wrote it lets the user pass no more; and any other instance, whatever its cache says,
  agrees as soon as the bus has carried the announced notice to it.\<close>

theorem ban_fleetwide:
  assumes ban: "change_ban InMemoryCacheStore u True reason actor n = (Inr (), n')"
    and ok: "memory_ok (nd_cache n)" "memory_ok (nd_cache m)" and id: "int64_min \<le> u" "u \<le> int64_max"
    and shared: "db (nd_world m) = db (nd_world n')"
    and json: "\<forall>j. parse (dump j) = Some j" and peers: "a \<noteq> b"
    and sent: "fst (ClusterInvalidationPublisher_publish dump current True (last (nd_invalidations n'))
      (invalidation_bus InMemoryCacheStore a)) = Some msg"
  shows "fst (AuthorizationService_require_active InMemoryCacheStore ttl u n') \<noteq> Inr () \<and>
    fst (AuthorizationService_require_active InMemoryCacheStore ttl u
      (snd (RedisClusterBus_deliver parse msg (invalidation_bus InMemoryCacheStore b, m)))) \<noteq> Inr ()"
  using ban_known [OF ban ok id shared, of ttl] unfolding notice_delivered [OF json peers sent] .

theorem ban_fleetwide_witness:
  "\<exists>n' msg. change_ban InMemoryCacheStore 3 True None (Some 1) example_node = (Inr (), n') \<and>
     fst (AuthorizationService_require_active InMemoryCacheStore 30 3
       (snd (RedisClusterBus_deliver plain_parse msg
         (invalidation_bus InMemoryCacheStore ''b'', example_node\<lparr>nd_world := nd_world n'\<rparr>)))) \<noteq> Inr ()"
proof -
  obtain n' where n': "change_ban InMemoryCacheStore 3 True None (Some 1) example_node = (Inr (), n')"
    using example_ban_runs by blast
  let ?m = "example_node\<lparr>nd_world := nd_world n'\<rparr>"
  have ok: "memory_ok (nd_cache example_node)" "memory_ok (nd_cache ?m)" by (simp_all add: example_node_def)
  have id: "int64_min \<le> 3" "(3 :: int) \<le> int64_max" by (simp_all add: int64_min_def int64_max_def)
  obtain msg where msg: "fst (ClusterInvalidationPublisher_publish plain_dump None True (last (nd_invalidations n'))
      (invalidation_bus InMemoryCacheStore ''a'')) = Some msg"
    by (simp add: ClusterInvalidationPublisher_publish_def RedisClusterBus_publish_def Let_def)
  have "db (nd_world ?m) = db (nd_world n')" "\<forall>j. plain_parse (plain_dump j) = Some j" "''a'' \<noteq> ''b''" by simp_all
  from ban_fleetwide [OF n' ok id this msg, of 30] n' show ?thesis by blast
qed

end
