(* ===== verification/AuditLog.thy ===== *)
theory AuditLog
  imports ConversationService
begin

text \<open>
  The audit trail: \<^verbatim>\<open>PgAuditLogRepository\<close>, \<^verbatim>\<open>AuditService\<close> and the \<^verbatim>\<open>AuditLogSubscriber\<close> that feeds it
  from the event bus. Metadata is stored as \<^verbatim>\<open>JSONB\<close> and read back unchanged.
\<close>


section \<open>Repository\<close>

record new_audit_log =
  na_event_id :: string
  na_event_type :: string
  na_actor_id :: "int option"
  na_actor_username :: "string option"
  na_target_type :: "string option"
  na_target_id :: "string option"
  na_ip :: "string option"
  na_user_agent :: "string option"
  na_correlation_id :: "string option"
  na_trace_id :: "string option"
  na_metadata :: json
  na_occurred_at :: time_point

record audit_log_filter =
  lf_actor_id :: "int option"
  lf_event_type :: "string option"
  lf_target_type :: "string option"
  lf_target_id :: "string option"
  lf_correlation_id :: "string option"
  lf_from_epoch :: "int option"
  lf_to_epoch :: "int option"

text \<open>The widths of the columns, from migration 0012.\<close>

definition audit_columns :: "new_audit_log \<Rightarrow> (nat \<times> string option) list" where
  "audit_columns input =
     [(32, Some (na_event_id input)), (64, Some (na_event_type input)), (64, na_actor_username input),
      (32, na_target_type input), (64, na_target_id input), (64, na_ip input), (255, na_user_agent input),
      (64, na_correlation_id input), (32, na_trace_id input)]"

definition check_audit_widths :: "new_audit_log \<Rightarrow> unit db_act" where
  "check_audit_widths input = for_each (audit_columns input) (\<lambda>(width, v). check_varchar width v)"

definition audit_row :: "int \<Rightarrow> time_point \<Rightarrow> new_audit_log \<Rightarrow> audit_log" where
  "audit_row i ts input =
     \<lparr>l_id = i, l_event_id = na_event_id input, l_event_type = na_event_type input,
      l_actor_id = na_actor_id input, l_actor_username = na_actor_username input,
      l_target_type = na_target_type input, l_target_id = na_target_id input, l_ip = na_ip input,
      l_user_agent = na_user_agent input, l_correlation_id = na_correlation_id input,
      l_trace_id = na_trace_id input, l_metadata = na_metadata input,
      l_occurred_at = (if na_occurred_at input = 0 then ts else na_occurred_at input), l_created_at = ts\<rparr>"

definition append_audit :: "new_audit_log \<Rightarrow> bool db_act" where
  "append_audit input =
     seq (nextval q_audit_logs q_audit_logs_update) (\<lambda>i.
     seq (check_audit_widths input) (\<lambda>_.
     seq (gets (\<lambda>d. (tabs d, now d))) (\<lambda>(t, ts).
     if list_ex (\<lambda>l. l_event_id l = na_event_id input) (t_audit_logs t) then ret False
     else if (case na_actor_id input of None \<Rightarrow> False | Some u \<Rightarrow> \<not> user_exists u t)
     then throw (DbSql (ForeignKeyViolation ''audit_logs''))
     else seq (update_tables (t_audit_logs_update (\<lambda>rows. rows @ [audit_row i ts input]))) (\<lambda>_. ret True))))"

definition PgAuditLogRepository_append :: "new_audit_log \<Rightarrow> bool act" where
  "PgAuditLogRepository_append input = with_transaction (append_audit input)"

definition allows :: "'a option \<Rightarrow> ('a \<Rightarrow> bool) \<Rightarrow> bool" where
  "allows criterion P = (case criterion of None \<Rightarrow> True | Some x \<Rightarrow> P x)"

definition audit_matches :: "audit_log_filter \<Rightarrow> audit_log \<Rightarrow> bool" where
  "audit_matches f l \<longleftrightarrow>
     allows (lf_actor_id f) (\<lambda>a. l_actor_id l = Some a) \<and>
     allows (lf_event_type f) (\<lambda>t. l_event_type l = t) \<and>
     allows (lf_target_type f) (\<lambda>t. l_target_type l = Some t) \<and>
     allows (lf_target_id f) (\<lambda>t. l_target_id l = Some t) \<and>
     allows (lf_correlation_id f) (\<lambda>c. l_correlation_id l = Some c) \<and>
     allows (lf_from_epoch f) (\<lambda>t. t \<le> l_occurred_at l) \<and>
     allows (lf_to_epoch f) (\<lambda>t. l_occurred_at l \<le> t)"

definition PgAuditLogRepository_search :: "audit_log_filter \<Rightarrow> pagination \<Rightarrow> audit_log list act" where
  "PgAuditLogRepository_search f page =
     with_transaction (gets (\<lambda>d. limit_offset (pg_limit page) (pg_offset page)
       (rev (sort_key l_occurred_at (sort_key l_id
         (filter (\<lambda>l. audit_matches f l \<and> allows (pg_before_id page) (\<lambda>b. l_id l < b) \<and>
            allows (pg_after_id page) (\<lambda>a. l_id l > a)) (t_audit_logs (tabs d))))))))"

definition PgAuditLogRepository_count :: "audit_log_filter \<Rightarrow> int act" where
  "PgAuditLogRepository_count f =
     with_transaction (gets (\<lambda>d. int (length (filter (audit_matches f) (t_audit_logs (tabs d))))))"

definition PgAuditLogRepository_find_by_id :: "int \<Rightarrow> audit_log option act" where
  "PgAuditLogRepository_find_by_id i =
     with_transaction (gets (\<lambda>d. List.find (\<lambda>l. l_id l = i) (t_audit_logs (tabs d))))"

text \<open>\<^verbatim>\<open>GROUP BY event_type ORDER BY total DESC\<close>; types with equal totals come in no particular order.\<close>

definition histogram :: "string list \<Rightarrow> (string \<times> int) list" where
  "histogram types = rev (sort_key snd (map (\<lambda>t. (t, int (count_list types t))) (remdups types)))"

definition PgAuditLogRepository_counts_by_type :: "audit_log_filter \<Rightarrow> (string \<times> int) list act" where
  "PgAuditLogRepository_counts_by_type f =
     with_transaction (gets (\<lambda>d. histogram (map l_event_type (filter (audit_matches f) (t_audit_logs (tabs d))))))"


section \<open>Service\<close>

definition payload_id :: "json \<Rightarrow> string \<Rightarrow> string option" where
  "payload_id payload key =
     (case jfind payload key of
        Some (JStr s) \<Rightarrow> Some s
      | Some (JInt i) \<Rightarrow> Some (to_string i)
      | _ \<Rightarrow> None)"

definition payload_string :: "json \<Rightarrow> string \<Rightarrow> string option" where
  "payload_string payload key = (case jfind payload key of Some (JStr s) \<Rightarrow> Some s | _ \<Rightarrow> None)"

fun is_auditable :: "event_type \<Rightarrow> bool" where
  "is_auditable EvUserRegistered = True"
| "is_auditable EvUserLoggedIn = True"
| "is_auditable EvUserLoggedOut = True"
| "is_auditable EvPasswordChanged = True"
| "is_auditable EvProfileUpdated = True"
| "is_auditable EvUserRoleChanged = True"
| "is_auditable EvConversationCreated = True"
| "is_auditable EvConversationDeleted = True"
| "is_auditable EvMemberAdded = True"
| "is_auditable EvMemberRemoved = True"
| "is_auditable EvMessageDeleted = True"
| "is_auditable EvAdminAction = True"
| "is_auditable _ = False"

definition target_of :: "domain_event \<Rightarrow> string option \<times> string option" where
  "target_of e =
     (if de_type e \<in> {EvUserRegistered, EvUserLoggedIn, EvUserLoggedOut, EvPasswordChanged, EvProfileUpdated,
                      EvUserRoleChanged}
      then (Some ''user'', payload_id (de_payload e) ''user_id'')
      else if de_type e \<in> {EvConversationCreated, EvConversationDeleted, EvMemberAdded, EvMemberRemoved}
      then (Some ''conversation'', payload_id (de_payload e) ''conversation_id'')
      else if de_type e = EvMessageDeleted
      then (Some ''message'', payload_id (de_payload e) ''message_id'')
      else if de_type e = EvAdminAction
      then (payload_string (de_payload e) ''target_type'', payload_string (de_payload e) ''target_id'')
      else (None, None))"

definition username_of :: "int option \<Rightarrow> string option act" where
  "username_of user_id =
     (case user_id of
        None \<Rightarrow> ret None
      | Some u \<Rightarrow>
          catch (seq (PgUserRepository_find_by_id u) (\<lambda>user. ret (map_option u_username user))) (\<lambda>_. ret None))"

definition non_empty :: "string \<Rightarrow> string option" where
  "non_empty s = (if s = [] then None else Some s)"

definition audit_record_of :: "domain_event \<Rightarrow> string option \<Rightarrow> new_audit_log" where
  "audit_record_of e username =
     \<lparr>na_event_id = de_event_id e, na_event_type = event_type_name (de_type e), na_actor_id = de_actor_id e,
      na_actor_username = username, na_target_type = fst (target_of e), na_target_id = snd (target_of e),
      na_ip = payload_string (de_payload e) ''ip'', na_user_agent = payload_string (de_payload e) ''user_agent'',
      na_correlation_id = non_empty (de_correlation_id e), na_trace_id = non_empty (de_trace_id e),
      na_metadata = de_payload e, na_occurred_at = de_occurred_at e\<rparr>"

definition AuditService_record :: "domain_event \<Rightarrow> bool act" where
  "AuditService_record e =
     (if \<not> is_auditable (de_type e) then ret False
      else
        seq (username_of (de_actor_id e)) (\<lambda>username.
        PgAuditLogRepository_append (audit_record_of e username)))"

definition AuditService_record_admin_action ::
    "int \<Rightarrow> string \<Rightarrow> string \<Rightarrow> string \<Rightarrow> json \<Rightarrow> string option \<Rightarrow> string option \<Rightarrow> bool act" where
  "AuditService_record_admin_action actor_id action target_type target_id details ip user_agent =
     seq (generate_hex_token 12) (\<lambda>event_id.
     seq (username_of (Some actor_id)) (\<lambda>username.
     seq (gets (\<lambda>w. now (db w))) (\<lambda>ts.
     PgAuditLogRepository_append
       \<lparr>na_event_id = event_id, na_event_type = event_type_name EvAdminAction, na_actor_id = Some actor_id,
        na_actor_username = username, na_target_type = Some target_type, na_target_id = Some target_id,
        na_ip = ip, na_user_agent = user_agent, na_correlation_id = None, na_trace_id = None,
        na_metadata = JObj [(''action'', JStr action), (''details'', details)], na_occurred_at = ts\<rparr>)))"

definition AuditService_search :: "audit_log_filter \<Rightarrow> pagination \<Rightarrow> audit_log list act" where
  "AuditService_search = PgAuditLogRepository_search"

definition AuditService_count :: "audit_log_filter \<Rightarrow> int act" where
  "AuditService_count = PgAuditLogRepository_count"

definition AuditService_get :: "int \<Rightarrow> audit_log act" where
  "AuditService_get i =
     seq (PgAuditLogRepository_find_by_id i) (\<lambda>log.
     case log of
       None \<Rightarrow> throw (NotFoundException ''Audit record not found'' (''id='' @ to_string i))
     | Some l \<Rightarrow> ret l)"

definition AuditService_summary :: "audit_log_filter \<Rightarrow> json act" where
  "AuditService_summary f =
     seq (PgAuditLogRepository_counts_by_type f) (\<lambda>counts.
     ret (JObj [(''total'', JInt (sum_list (map snd counts))),
                (''by_event_type'', JArr (map (\<lambda>(t, n). JObj [(''event_type'', JStr t), (''count'', JInt n)]) counts))]))"

definition AuditService_to_json :: "audit_log \<Rightarrow> json" where
  "AuditService_to_json l =
     JObj [(''id'', JInt (l_id l)), (''event_id'', JStr (l_event_id l)), (''event_type'', JStr (l_event_type l)),
           (''metadata'', l_metadata l), (''occurred_at'', JStr (to_iso8601 (l_occurred_at l))),
           (''created_at'', JStr (to_iso8601 (l_created_at l))),
           (''actor_id'', opt_json JInt (l_actor_id l)), (''actor_username'', opt_json JStr (l_actor_username l)),
           (''target_type'', opt_json JStr (l_target_type l)), (''target_id'', opt_json JStr (l_target_id l)),
           (''ip'', opt_json JStr (l_ip l)), (''user_agent'', opt_json JStr (l_user_agent l)),
           (''correlation_id'', opt_json JStr (l_correlation_id l)), (''trace_id'', opt_json JStr (l_trace_id l))]"


section \<open>Subscriber\<close>

definition AuditLogSubscriber_interested_in :: "bool \<Rightarrow> event_type \<Rightarrow> bool" where
  "AuditLogSubscriber_interested_in audit_log_enabled type \<longleftrightarrow> audit_log_enabled \<and> is_auditable type"

definition AuditLogSubscriber_handle :: "domain_event \<Rightarrow> unit act" where
  "AuditLogSubscriber_handle e = seq (AuditService_record e) (\<lambda>_. ret ())"

text \<open>The dispatcher isolates every delivery: one that fails does not stop the next.\<close>

fun deliver_to_audit :: "domain_event list \<Rightarrow> world \<Rightarrow> world" where
  "deliver_to_audit [] w = w"
| "deliver_to_audit (e # es) w = deliver_to_audit es (final (AuditLogSubscriber_handle e) w)"


section \<open>The trail only grows\<close>

lemma check_audit_widths_state: "check_audit_widths input d = (r, d') \<Longrightarrow> d' = d"
proof -
  have "keeps (same_rel (\<lambda>d. d)) (check_audit_widths input)"
    unfolding check_audit_widths_def check_varchar_def
    by (intro same_step.keeps_rules)
  then show "check_audit_widths input d = (r, d') \<Longrightarrow> d' = d" by (auto dest: keepsD simp: same_rel_def)
qed

lemma append_audit_succeeds:
  assumes "append_audit input d = (Inr written, d')"
  shows "(written \<and> tabs d' = t_audit_logs_update (\<lambda>rows. rows @ [audit_row (q_audit_logs (seqs d)) (now d) input]) (tabs d) \<and>
      na_event_id input \<notin> l_event_id ` set (t_audit_logs (tabs d))) \<or>
    (\<not> written \<and> tabs d' = tabs d \<and> na_event_id input \<in> l_event_id ` set (t_audit_logs (tabs d)))"
proof -
  let ?d = "d\<lparr>seqs := q_audit_logs_update (\<lambda>i. i + 1) (seqs d)\<rparr>"
  obtain r d1 where chk: "check_audit_widths input ?d = (r, d1)" by fastforce
  then have d1: "d1 = ?d" by (rule check_audit_widths_state)
  obtain u where "r = Inr u" using assms chk by (cases r) (simp_all add: append_audit_def)
  then show ?thesis
    using assms chk d1
    by (auto simp: append_audit_def list_ex_iff Let_def split: if_splits intro: rev_image_eqI)
qed

lemma insert_audit_db_ok:
  assumes "db_ok d" "l_id l = q_audit_logs (seqs d)" "l_event_id l \<notin> l_event_id ` set (t_audit_logs (tabs d))"
    "\<And>u. l_actor_id l = Some u \<Longrightarrow> u \<in> user_ids (tabs d)"
  shows "db_ok (d\<lparr>seqs := q_audit_logs_update (\<lambda>i. i + 1) (seqs d),
    tabs := t_audit_logs_update (\<lambda>rows. rows @ [l]) (tabs d)\<rparr>)"
proof -
  have "\<not> list_ex (\<lambda>l'. l_event_id l' = l_event_id l) (t_audit_logs (tabs d))"
    using assms(3) by (auto simp: list_ex_iff image_iff)
  then show ?thesis
    using assms(1,2,4) by (auto simp: db_ok_def table_ok_defs ids_defs intro!: row_intros)
qed

lemma append_audit_conv_inv:
  assumes "conv_inv d" "append_audit input d = (Inr written, d')"
  shows "conv_inv d'"
proof -
  let ?d = "d\<lparr>seqs := q_audit_logs_update (\<lambda>i. i + 1) (seqs d)\<rparr>"
  obtain r d1 where chk: "check_audit_widths input ?d = (r, d1)" by fastforce
  then have d1: "d1 = ?d" by (rule check_audit_widths_state)
  obtain u where r: "r = Inr u" using assms chk by (cases r) (simp_all add: append_audit_def)
  have skip: "db_ok ?d" using assms(1)
    by (auto simp: conv_inv_def db_ok_def table_ok_defs ids_defs intro: serial_key_skip)
  show ?thesis
    using assms chk d1 r skip
    by (cases "na_actor_id input")
       (auto simp: append_audit_def list_ex_iff image_iff conv_inv_def audit_row_def user_exists_iff
         split: if_splits intro!: insert_audit_db_ok)
qed

lemma grow_append_audit [keeps_intros]: "keeps seqs_grow (append_audit input)"
  unfolding append_audit_def check_audit_widths_def check_varchar_def by (intro grow_rules)

lemma PgAuditLogRepository_append_inv [keeps_intros]:
  "keeps (inv_rel (\<lambda>w. conv_inv (db w))) (PgAuditLogRepository_append input)"
  unfolding PgAuditLogRepository_append_def
  by (rule with_transaction_conv_inv) (auto intro: keeps_intros append_audit_conv_inv)

lemma username_of_tables: "keeps (same_rel (\<lambda>w. tabs (db w))) (username_of u)"
proof -
  have "keeps (same_rel (\<lambda>w. tabs (db w))) (with_transaction (gets f))" for f
  proof (rule keepsI)
    fix w show "same_rel (\<lambda>w. tabs (db w)) w (final (with_transaction (gets f)) w)"
      by (cases rule: with_transaction_cases [of "gets f" w]) (auto simp: same_rel_def rollback_def)
  qed
  then show ?thesis
    unfolding username_of_def PgUserRepository_find_by_id_def
    by (intro same_step.keeps_rules same_step.keeps_catch)
qed

definition recorded_as :: "domain_event \<Rightarrow> audit_log \<Rightarrow> bool" where
  "recorded_as e l \<longleftrightarrow> is_auditable (de_type e) \<and> l_event_id l = de_event_id e \<and>
     l_event_type l = event_type_name (de_type e) \<and> l_actor_id l = de_actor_id e \<and>
     (l_target_type l, l_target_id l) = target_of e \<and> l_metadata l = de_payload e"

lemma recorded_audit_row: "is_auditable (de_type e) \<Longrightarrow> recorded_as e (audit_row i ts (audit_record_of e username))"
  by (simp add: recorded_as_def audit_row_def audit_record_of_def)

lemma record_step:
  obtains (same) "t_audit_logs (tabs (db (final (AuditLogSubscriber_handle e) w))) = t_audit_logs (tabs (db w))"
  | (grown) l where "t_audit_logs (tabs (db (final (AuditLogSubscriber_handle e) w))) = t_audit_logs (tabs (db w)) @ [l]"
      "recorded_as e l" "de_event_id e \<notin> l_event_id ` set (t_audit_logs (tabs (db w)))"
proof (cases "is_auditable (de_type e)")
  case False
  then show ?thesis using same by (simp add: AuditLogSubscriber_handle_def AuditService_record_def act_simps)
next
  case True
  obtain r w1 where u: "username_of (de_actor_id e) w = (r, w1)" by fastforce
  then have t1: "tabs (db w1) = tabs (db w)" using keepsD [OF username_of_tables u] by (simp add: same_rel_def)
  show ?thesis
  proof (cases r)
    case (Inl ex)
    then show ?thesis using same True u t1 by (simp add: AuditLogSubscriber_handle_def AuditService_record_def act_simps)
  next
    case (Inr name)
    have final: "final (AuditLogSubscriber_handle e) w = final (with_transaction (append_audit (audit_record_of e name))) w1"
      using True u Inr
      by (auto simp: AuditLogSubscriber_handle_def AuditService_record_def PgAuditLogRepository_append_def act_simps
          split: prod.splits sum.splits)
    show ?thesis
    proof (cases rule: with_transaction_cases [of "append_audit (audit_record_of e name)" w1])
      case (commit written d)
      then show ?thesis
        using append_audit_succeeds [OF commit(2)] same grown recorded_audit_row [OF True] final t1
        by (auto simp: audit_record_of_def)
    qed (use same final t1 in \<open>auto simp: rollback_def\<close>)
  qed
qed

text \<open>C29. The trail is append-only and free of duplicates: through any sequence of deliveries - repeated,
  in any order, with any database failures - rows that were there stay as they are, every new row
  records an auditable event of the sequence with its type, actor, target and payload, and no
  event is recorded twice.\<close>

theorem audit_append_only:
  assumes "unique l_event_id (t_audit_logs (tabs (db w)))"
  shows "\<exists>rows. t_audit_logs (tabs (db (deliver_to_audit es w))) = t_audit_logs (tabs (db w)) @ rows \<and>
    distinct (map l_event_id (t_audit_logs (tabs (db w)) @ rows)) \<and> (\<forall>l \<in> set rows. \<exists>e \<in> set es. recorded_as e l)"
  using assms
proof (induction es arbitrary: w)
  case (Cons e es)
  let ?w = "final (AuditLogSubscriber_handle e) w"
  show ?case
  proof (cases rule: record_step [of e w])
    case same
    then have "unique l_event_id (t_audit_logs (tabs (db ?w)))" using Cons.prems by simp
    from Cons.IH [OF this] same show ?thesis by auto
  next
    case (grown l)
    then have "unique l_event_id (t_audit_logs (tabs (db ?w)))"
      using Cons.prems by (auto simp: unique_def recorded_as_def)
    from Cons.IH [OF this] obtain rows where
      "t_audit_logs (tabs (db (deliver_to_audit es ?w))) = t_audit_logs (tabs (db w)) @ l # rows"
      "distinct (map l_event_id (t_audit_logs (tabs (db w)) @ l # rows))" "\<forall>l \<in> set rows. \<exists>e \<in> set es. recorded_as e l"
      using grown by auto
    then show ?thesis using grown(2) by (intro exI [of _ "l # rows"]) auto
  qed
qed (simp add: unique_def)

definition fits :: "nat \<times> string option \<Rightarrow> bool" where
  "fits column = (case column of (width, v) \<Rightarrow> (case v of None \<Rightarrow> True | Some s \<Rightarrow> utf8_length s \<le> width))"

lemma check_columns: "list_all fits cols \<Longrightarrow> for_each cols (\<lambda>(width, v). check_varchar width v) d = (Inr (), d)"
  by (induction cols) (auto simp: fits_def check_varchar_def act_simps split: option.splits)

text \<open>C30. An auditable event that fits its columns, delivered while the database works, is recorded with
  the current name of its actor; delivering it again reports that it was there already and adds
  nothing.\<close>

theorem audit_records_event:
  fixes w :: world and e :: domain_event
  defines "name \<equiv> map_option u_username (Option.bind (de_actor_id e) (\<lambda>u. find_user (\<lambda>r. u_id (ar_user r) = u) (tabs (db w))))"
  assumes quiet: "faults w = []" and aud: "is_auditable (de_type e)"
    and actor: "\<And>u. de_actor_id e = Some u \<Longrightarrow> u \<in> user_ids (tabs (db w))"
    and fit: "list_all fits (audit_columns (audit_record_of e name))"
    and fresh: "de_event_id e \<notin> l_event_id ` set (t_audit_logs (tabs (db w)))"
  shows "\<exists>w' w'' l. AuditService_record e w = (Inr True, w') \<and>
    t_audit_logs (tabs (db w')) = t_audit_logs (tabs (db w)) @ [l] \<and> recorded_as e l \<and> l_actor_username l = name \<and>
    AuditService_record e w' = (Inr False, w'') \<and> tabs (db w'') = tabs (db w')"
proof -
  let ?in = "audit_record_of e name"
  have name: "username_of (de_actor_id e) v = (Inr (map_option u_username
      (Option.bind (de_actor_id e) (\<lambda>u. find_user (\<lambda>r. u_id (ar_user r) = u) (tabs (db v))))), v)" if "faults v = []" for v
    using that by (cases "de_actor_id e") (simp_all add: username_of_def PgUserRepository_find_by_id_def act_simps)
  have widths: "check_audit_widths ?in d = (Inr (), d)" for d
    using check_columns [OF fit] by (simp add: check_audit_widths_def)
  define d where "d = (db w)\<lparr>seqs := q_audit_logs_update (\<lambda>i. i + 1) (seqs (db w)),
    tabs := t_audit_logs_update (\<lambda>rows. rows @ [audit_row (q_audit_logs (seqs (db w))) (now (db w)) ?in]) (tabs (db w))\<rparr>"
  have new: "\<not> list_ex (\<lambda>l. l_event_id l = na_event_id ?in) (t_audit_logs (tabs (db w)))"
    using fresh by (auto simp: list_ex_iff audit_record_of_def image_iff)
  have ref: "\<not> (case na_actor_id ?in of None \<Rightarrow> False | Some u \<Rightarrow> \<not> user_exists u (tabs (db w)))"
    using actor by (simp add: audit_record_of_def user_exists_iff split: option.splits)
  have "append_audit ?in (db w) = (Inr True, d)"
    using new ref widths by (cases "na_actor_id ?in") (simp_all add: append_audit_def act_simps d_def)
  then have first: "AuditService_record e w = (Inr True, w\<lparr>db := d\<rparr>)"
    using aud quiet name [OF quiet]
    by (simp add: AuditService_record_def PgAuditLogRepository_append_def with_transaction_quiet name_def act_simps)
  have same: "find_user P (tabs d) = find_user P (tabs (db w))" for P by (simp add: d_def find_user_def)
  have "append_audit ?in d = (Inr False, d\<lparr>seqs := q_audit_logs_update (\<lambda>i. i + 1) (seqs d)\<rparr>)"
    using widths by (simp add: append_audit_def act_simps d_def audit_row_def)
  then have "AuditService_record e (w\<lparr>db := d\<rparr>) = (Inr False, w\<lparr>db := d\<lparr>seqs := q_audit_logs_update (\<lambda>i. i + 1) (seqs d)\<rparr>\<rparr>)"
    using aud quiet name [of "w\<lparr>db := d\<rparr>"] same
    by (simp add: AuditService_record_def PgAuditLogRepository_append_def with_transaction_quiet name_def act_simps)
  with first show ?thesis
    using recorded_audit_row [OF aud] by (auto simp: d_def audit_row_def audit_record_of_def)
qed

definition example_event :: domain_event where
  "example_event = \<lparr>de_type = EvMemberAdded, de_event_id = ''abc'', de_occurred_at = 1, de_actor_id = Some 1,
     de_correlation_id = [], de_trace_id = [],
     de_payload = JObj [(''conversation_id'', JInt 7), (''member_id'', JInt 3)]\<rparr>"

theorem audit_records_event_witness:
  "\<exists>w' l. AuditService_record example_event example_world = (Inr True, w') \<and>
     t_audit_logs (tabs (db w')) = [l] \<and> recorded_as example_event l"
proof -
  have "list_all fits (audit_columns (audit_record_of example_event (map_option u_username
      (Option.bind (de_actor_id example_event) (\<lambda>u. find_user (\<lambda>r. u_id (ar_user r) = u) (tabs (db example_world)))))))"
    by (simp add: example_event_def example_defs find_user_def audit_columns_def audit_record_of_def fits_def target_of_def
        payload_string_def payload_id_def non_empty_def utf8_length_def to_string_def
        nat_to_string.simps digit_char_def)
  moreover have "\<And>u. de_actor_id example_event = Some u \<Longrightarrow> u \<in> user_ids (tabs (db example_world))"
    by (auto simp: example_event_def example_defs user_ids_def)
  moreover have "t_audit_logs (tabs (db example_world)) = []" "faults example_world = []" "is_auditable (de_type example_event)"
    by (simp_all add: example_defs example_event_def)
  ultimately show ?thesis using audit_records_event [of example_world example_event] by auto
qed

theorem audit_append_only_witness:
  "\<exists>rows. t_audit_logs (tabs (db (deliver_to_audit [example_event, example_event] example_world))) = rows \<and>
     distinct (map l_event_id rows) \<and> list_all (recorded_as example_event) rows"
  using audit_append_only [of example_world "[example_event, example_event]"]
  by (auto simp: unique_def example_defs list_all_iff)

end
