(* ===== verification/Jobs.thy ===== *)
theory Jobs
  imports Tracing "HOL-Library.Multiset"
begin

text \<open>
  The worker pool of \<^verbatim>\<open>jobs/background_executor.cpp\<close> and the maintenance thread of
  \<^verbatim>\<open>jobs/periodic_scheduler.cpp\<close>. The pool is an interleaving of its workers, the threads that submit and
  the thread that stops it: a step is what one thread does while it holds the mutex, or one access to
  the atomic flag or the condition variable. The ghost lists record which jobs were accepted and run.
\<close>

section \<open>Jobs\<close>

text \<open>The thread-local state a job can observe: the current span context and the request id.\<close>

record thread_locals =
  tl_current :: "span_context option"
  tl_request_id :: string

record 's carried =
  jb_parent :: "span_context option"
  jb_request_id :: string
  jb_inner :: "thread_locals \<Rightarrow> 's \<Rightarrow> bool \<times> 's"

definition carry :: "thread_locals \<Rightarrow> (thread_locals \<Rightarrow> 's \<Rightarrow> bool \<times> 's) \<Rightarrow> 's carried" where
  "carry loc task =
     \<lparr>jb_parent = (case tl_current loc of Some c \<Rightarrow> if sc_is_valid c then Some c else None | None \<Rightarrow> None),
      jb_request_id = tl_request_id loc, jb_inner = task\<rparr>"

text \<open>Running a carried job: both scopes are entered, the task runs (\<^term>\<open>False\<close> when it threw), and both are
  left again. The result holds the thread-local state afterwards.\<close>

definition run_job :: "'s carried \<Rightarrow> thread_locals \<Rightarrow> 's \<Rightarrow> bool \<times> thread_locals \<times> 's" where
  "run_job j loc s =
     (let scoped = (case jb_parent j of
            Some c \<Rightarrow> if sc_is_valid c then loc\<lparr>tl_current := Some c\<rparr> else loc
          | None \<Rightarrow> loc);
          (ok, s') = jb_inner j (scoped\<lparr>tl_request_id := jb_request_id j\<rparr>) s
      in (ok, loc, s'))"


section \<open>The pool\<close>

text \<open>A worker is about to take the mutex, has found nothing to do and is about to wait (still holding the
  mutex), is waiting, runs a job, or has returned.\<close>

datatype 's worker = Idle | Tested | Blocked | Busy "'s carried" | Exited

datatype stopper = NotStopping | Stored | Joining | Stopped

record 's pool =
  po_worker_count :: nat
  po_workers :: "'s worker list"
  po_tasks :: "'s carried list"
  po_running :: bool
  po_completed :: "64 word"
  po_failed :: "64 word"
  po_signals :: nat
  po_stop :: stopper
  po_shared :: 's
  po_accepted :: "'s carried list"
  po_done :: "'s carried list"

definition BackgroundExecutor_create :: "nat \<Rightarrow> 's \<Rightarrow> 's pool" where
  "BackgroundExecutor_create n s =
     \<lparr>po_worker_count = (if n = 0 then 1 else n), po_workers = [], po_tasks = [], po_running = False,
      po_completed = 0, po_failed = 0, po_signals = 0, po_stop = NotStopping, po_shared = s,
      po_accepted = [], po_done = []\<rparr>"

definition BackgroundExecutor_start :: "'s pool \<Rightarrow> 's pool" where
  "BackgroundExecutor_start p =
     (if po_running p then p
      else p\<lparr>po_running := True, po_workers := po_workers p @ replicate (po_worker_count p) Idle, po_stop := NotStopping\<rparr>)"

text \<open>The part of \<^verbatim>\<open>submit\<close> under the mutex; the notification that follows is a step of its own.\<close>

definition BackgroundExecutor_submit :: "thread_locals \<Rightarrow> (thread_locals \<Rightarrow> 's \<Rightarrow> bool \<times> 's) \<Rightarrow> 's pool \<Rightarrow> 's pool" where
  "BackgroundExecutor_submit loc task p =
     (if \<not> po_running p then p
      else p\<lparr>po_tasks := po_tasks p @ [carry loc task], po_signals := po_signals p + 1,
             po_accepted := po_accepted p @ [carry loc task]\<rparr>)"

definition BackgroundExecutor_pending :: "'s pool \<Rightarrow> nat" where
  "BackgroundExecutor_pending p = length (po_tasks p)"

definition set_worker :: "nat \<Rightarrow> 's worker \<Rightarrow> 's pool \<Rightarrow> 's pool" where
  "set_worker i x p = p\<lparr>po_workers := (po_workers p)[i := x]\<rparr>"

text \<open>The block of \<^verbatim>\<open>worker_loop\<close> under the mutex, up to waiting, returning or having a task.\<close>

definition worker_take :: "nat \<Rightarrow> 's pool \<Rightarrow> 's pool" where
  "worker_take i p =
     (case po_tasks p of
        j # js \<Rightarrow> set_worker i (Busy j) (p\<lparr>po_tasks := js\<rparr>)
      | [] \<Rightarrow> if po_running p then set_worker i Tested p else set_worker i Exited p)"

definition worker_run :: "nat \<Rightarrow> 's carried \<Rightarrow> thread_locals \<Rightarrow> 's pool \<Rightarrow> 's pool" where
  "worker_run i j loc p =
     (case run_job j loc (po_shared p) of
        (ok, _, s) \<Rightarrow>
          set_worker i Idle (p\<lparr>po_shared := s, po_done := po_done p @ [j],
            po_completed := po_completed p + (if ok then 1 else 0), po_failed := po_failed p + (if ok then 0 else 1)\<rparr>))"

definition wake :: "'s worker \<Rightarrow> 's worker" where
  "wake x = (case x of Blocked \<Rightarrow> Idle | _ \<Rightarrow> x)"

definition stop_store :: "'s pool \<Rightarrow> 's pool" where
  "stop_store p = (if po_running p then p\<lparr>po_running := False, po_stop := Stored\<rparr> else p)"

definition stop_notify :: "'s pool \<Rightarrow> 's pool" where
  "stop_notify p = p\<lparr>po_workers := map wake (po_workers p), po_stop := Joining\<rparr>"

definition stop_join :: "'s pool \<Rightarrow> 's pool" where
  "stop_join p = p\<lparr>po_workers := [], po_stop := Stopped\<rparr>"

definition mutex_free :: "'s pool \<Rightarrow> bool" where
  "mutex_free p \<longleftrightarrow> Tested \<notin> set (po_workers p)"

inductive pool_step :: "'s pool \<Rightarrow> 's pool \<Rightarrow> bool" where
  take: "mutex_free p \<Longrightarrow> i < length (po_workers p) \<Longrightarrow> po_workers p ! i = Idle \<Longrightarrow> pool_step p (worker_take i p)"
| block: "i < length (po_workers p) \<Longrightarrow> po_workers p ! i = Tested \<Longrightarrow> pool_step p (set_worker i Blocked p)"
| run: "i < length (po_workers p) \<Longrightarrow> po_workers p ! i = Busy j \<Longrightarrow> pool_step p (worker_run i j loc p)"
| submit: "mutex_free p \<Longrightarrow> po_running p \<Longrightarrow> pool_step p (BackgroundExecutor_submit loc task p)"
| signal: "po_signals p = Suc n \<Longrightarrow> i < length (po_workers p) \<Longrightarrow> po_workers p ! i = Blocked \<Longrightarrow>
    pool_step p (set_worker i Idle (p\<lparr>po_signals := n\<rparr>))"
| signal_nobody: "po_signals p = Suc n \<Longrightarrow> Blocked \<notin> set (po_workers p) \<Longrightarrow> pool_step p (p\<lparr>po_signals := n\<rparr>)"
| spurious: "i < length (po_workers p) \<Longrightarrow> po_workers p ! i = Blocked \<Longrightarrow> pool_step p (set_worker i Idle p)"
| store: "po_running p \<Longrightarrow> pool_step p (stop_store p)"
| notify: "po_stop p = Stored \<Longrightarrow> pool_step p (stop_notify p)"
| join: "po_stop p = Joining \<Longrightarrow> \<forall>x \<in> set (po_workers p). x = Exited \<Longrightarrow> pool_step p (stop_join p)"

inductive_cases pool_stepE: "pool_step p q"


section \<open>The scheduler\<close>

record 's scheduler =
  sd_tasks :: "(string \<times> ('s \<Rightarrow> bool \<times> 's)) list"
  sd_running :: bool

definition PeriodicScheduler_add :: "string \<Rightarrow> ('s \<Rightarrow> bool \<times> 's) \<Rightarrow> 's scheduler \<Rightarrow> 's scheduler" where
  "PeriodicScheduler_add name task d = d\<lparr>sd_tasks := sd_tasks d @ [(name, task)]\<rparr>"

definition PeriodicScheduler_start :: "'s scheduler \<Rightarrow> 's scheduler" where
  "PeriodicScheduler_start d = d\<lparr>sd_running := True\<rparr>"

definition PeriodicScheduler_stop :: "'s scheduler \<Rightarrow> 's scheduler" where
  "PeriodicScheduler_stop d = d\<lparr>sd_running := False\<rparr>"

text \<open>One wake-up of the thread: every task runs, whatever the ones before it did.\<close>

definition PeriodicScheduler_tick :: "'s scheduler \<Rightarrow> 's \<Rightarrow> 's" where
  "PeriodicScheduler_tick d s = (if sd_running d then fold (\<lambda>(name, task) s. snd (task s)) (sd_tasks d) s else s)"

section \<open>What the pool keeps\<close>

definition job_of :: "'s worker \<Rightarrow> 's carried multiset" where
  "job_of x = (case x of Busy j \<Rightarrow> {#j#} | _ \<Rightarrow> {#})"

definition busy :: "'s worker list \<Rightarrow> 's carried multiset" where
  "busy ws = sum_list (map job_of ws)"

definition pool_inv :: "'s pool \<Rightarrow> bool" where
  "pool_inv p \<longleftrightarrow>
     mset (po_accepted p) = mset (po_tasks p) + mset (po_done p) + busy (po_workers p) \<and>
     of_nat (length (po_done p)) = po_completed p + po_failed p \<and>
     (po_stop p \<noteq> NotStopping \<longrightarrow> \<not> po_running p) \<and>
     (po_stop p = Stopped \<longrightarrow> po_workers p = [] \<and> po_tasks p = []) \<and>
     (po_stop p \<noteq> Stopped \<longrightarrow> po_workers p \<noteq> []) \<and>
     (Exited \<in> set (po_workers p) \<longrightarrow> \<not> po_running p \<and> po_tasks p = [])"

lemma sum_update:
  fixes f :: "'a \<Rightarrow> 'b::comm_monoid_add"
  assumes "i < length ws"
  shows "sum_list (map f (ws[i := x])) + f (ws ! i) = sum_list (map f ws) + f x"
  using assms
proof (induction ws arbitrary: i)
  case (Cons w ws)
  show ?case
  proof (cases i)
    case (Suc k)
    with Cons.IH [of k] Cons.prems show ?thesis by (simp add: ac_simps)
  qed (simp add: ac_simps)
qed simp

lemma busy_update: "i < length ws \<Longrightarrow> busy (ws[i := x]) + job_of (ws ! i) = busy ws + job_of x"
  unfolding busy_def by (rule sum_update)

lemma job_of_simps [simp]:
  "job_of Idle = {#}" "job_of Tested = {#}" "job_of Blocked = {#}" "job_of Exited = {#}" "job_of (Busy j) = {#j#}"
  by (simp_all add: job_of_def)

lemma busy_wake [simp]: "busy (map wake ws) = busy ws"
  by (induction ws) (auto simp: busy_def wake_def split: worker.splits)

lemma wake_Exited [simp]: "wake x = Exited \<longleftrightarrow> x = Exited" "Exited = wake x \<longleftrightarrow> x = Exited"
  by (cases x; simp add: wake_def)+

lemma Exited_update: "Exited \<in> set (ws[i := x]) \<Longrightarrow> x \<noteq> Exited \<Longrightarrow> Exited \<in> set ws"
  using set_update_subset_insert [of ws i x] by auto

lemma busy_replicate [simp]: "busy (replicate n Idle) = {#}"
  by (induction n) (simp_all add: busy_def)

lemma started_inv: "pool_inv (BackgroundExecutor_start (BackgroundExecutor_create n s))"
  by (auto simp: pool_inv_def BackgroundExecutor_start_def BackgroundExecutor_create_def)

lemma take_inv:
  assumes "pool_inv p" "i < length (po_workers p)" "po_workers p ! i = Idle"
  shows "pool_inv (worker_take i p)"
proof (cases "po_tasks p")
  case Nil
  have "busy ((po_workers p)[i := Tested]) = busy (po_workers p)" "busy ((po_workers p)[i := Exited]) = busy (po_workers p)"
    using busy_update [OF assms(2), of Tested] busy_update [OF assms(2), of Exited] assms(3) by simp_all
  with Nil assms show ?thesis
    by (auto simp: pool_inv_def worker_take_def set_worker_def dest: Exited_update)
next
  case (Cons j js)
  have "busy ((po_workers p)[i := Busy j]) = busy (po_workers p) + {#j#}"
    using busy_update [OF assms(2), of "Busy j"] assms(3) by simp
  with Cons assms show ?thesis
    by (auto simp: pool_inv_def worker_take_def set_worker_def dest: Exited_update)
qed

lemma worker_run_inv:
  assumes "pool_inv p" "i < length (po_workers p)" "po_workers p ! i = Busy j"
  shows "pool_inv (worker_run i j loc p)"
proof -
  obtain ok loc' s where r: "run_job j loc (po_shared p) = (ok, loc', s)" by (rule prod_cases3)
  have "busy ((po_workers p)[i := Idle]) + {#j#} = busy (po_workers p)"
    using busy_update [OF assms(2), of Idle] assms(3) by simp
  then have "mset (po_done p) + busy (po_workers p) = add_mset j (mset (po_done p) + busy ((po_workers p)[i := Idle]))"
    by (metis add_mset_add_single union_assoc)
  with assms show ?thesis
    by (auto simp: pool_inv_def worker_run_def set_worker_def r dest: Exited_update)
qed

lemma quiet_update_inv:
  assumes "pool_inv p" "i < length (po_workers p)" "job_of (po_workers p ! i) = {#}" "x = Idle \<or> x = Blocked"
  shows "pool_inv (set_worker i x (p\<lparr>po_signals := k\<rparr>))" "pool_inv (set_worker i x p)"
proof -
  have "busy ((po_workers p)[i := x]) = busy (po_workers p)"
    using busy_update [OF assms(2), of x] assms(3,4) by auto
  with assms show "pool_inv (set_worker i x (p\<lparr>po_signals := k\<rparr>))" "pool_inv (set_worker i x p)"
    by (auto simp: pool_inv_def set_worker_def dest: Exited_update)
qed

lemma pool_step_inv:
  assumes "pool_step p q" "pool_inv p"
  shows "pool_inv q"
  using assms
proof (induction rule: pool_step.induct)
  case (submit p loc task)
  then show ?case by (auto simp: pool_inv_def BackgroundExecutor_submit_def)
next
  case (join p)
  then have "Exited \<in> set (po_workers p)" by (cases "po_workers p") (auto simp: pool_inv_def)
  moreover have "busy (po_workers p) = {#}"
  proof -
    have "busy ws = {#}" if "\<forall>x \<in> set ws. x = Exited" for ws :: "'a worker list"
      using that by (induction ws) (auto simp: busy_def)
    with join.hyps(2) show ?thesis by blast
  qed
  ultimately show ?case using join by (auto simp: pool_inv_def stop_join_def busy_def)
next
  case (notify p)
  then show ?case by (auto simp: pool_inv_def stop_notify_def)
next
  case (take p i)
  then show ?case by (simp add: take_inv)
next
  case (run i p j loc)
  then show ?case by (simp add: worker_run_inv)
next
  case (block i p)
  then show ?case by (simp add: quiet_update_inv)
next
  case (signal p n i)
  then show ?case by (simp add: quiet_update_inv)
next
  case (spurious i p)
  then show ?case by (simp add: quiet_update_inv)
next
  case (signal_nobody p n)
  then show ?case by (simp add: pool_inv_def)
next
  case (store p)
  then show ?case by (auto simp: pool_inv_def stop_store_def)
qed

lemma pool_run_inv: "pool_step\<^sup>*\<^sup>* p q \<Longrightarrow> pool_inv p \<Longrightarrow> pool_inv q"
  by (induction rule: rtranclp_induct) (auto intro: pool_step_inv)


section \<open>Draining\<close>

text \<open>While the pool is being joined and no worker sleeps, every step gets closer to the end.\<close>

definition draining :: "'s pool \<Rightarrow> bool" where
  "draining p \<longleftrightarrow> pool_inv p \<and> po_stop p \<in> {Joining, Stopped} \<and> Tested \<notin> set (po_workers p) \<and> Blocked \<notin> set (po_workers p)"

definition weight :: "'s worker \<Rightarrow> nat" where
  "weight x = (case x of Idle \<Rightarrow> 1 | Busy _ \<Rightarrow> 2 | _ \<Rightarrow> 0)"

definition left_to_do :: "'s pool \<Rightarrow> nat" where
  "left_to_do p = 3 * length (po_tasks p) + sum_list (map weight (po_workers p)) + po_signals p + (if po_stop p = Stopped then 0 else 1)"

lemma not_in_update: "y \<notin> set ws \<Longrightarrow> x \<noteq> y \<Longrightarrow> y \<notin> set (ws[i := x])"
  using set_update_subset_insert [of ws i x] by auto

lemma draining_step:
  assumes "pool_step p q" "draining p"
  shows "draining q \<and> left_to_do q < left_to_do p"
  using assms
proof cases
  case (take i)
  have w: "sum_list (map weight ((po_workers p)[i := x])) + 1 = sum_list (map weight (po_workers p)) + weight x" for x
    using sum_update [OF take(3), of weight x] take(4) by (simp add: weight_def)
  have stopped: "\<not> po_running p" using assms(2) by (auto simp: draining_def pool_inv_def)
  have inv: "pool_inv q" using take take_inv [of p i] assms(2) by (simp add: draining_def)
  show ?thesis
  proof (cases "po_tasks p")
    case Nil
    then show ?thesis
      using take assms(2) inv stopped w [of Exited]
      by (auto simp: draining_def left_to_do_def worker_take_def set_worker_def not_in_update weight_def)
  next
    case (Cons j js)
    then show ?thesis
      using take assms(2) inv w [of "Busy j"]
      by (auto simp: draining_def left_to_do_def worker_take_def set_worker_def not_in_update weight_def)
  qed
next
  case (run i j loc)
  obtain ok loc' s where r: "run_job j loc (po_shared p) = (ok, loc', s)" by (rule prod_cases3)
  have "sum_list (map weight ((po_workers p)[i := Idle])) + 2 = sum_list (map weight (po_workers p)) + 1"
    using sum_update [OF run(2), of weight Idle] run(3) by (simp add: weight_def)
  moreover have "pool_inv q" using run worker_run_inv [of p i j loc] assms(2) by (simp add: draining_def)
  ultimately show ?thesis
    using run assms(2) by (auto simp: draining_def left_to_do_def worker_run_def r set_worker_def not_in_update)
next
  case (signal_nobody n)
  then show ?thesis using assms(2) by (auto simp: draining_def left_to_do_def pool_inv_def)
next
  case join
  then show ?thesis
    using assms pool_step_inv [OF assms(1)] by (auto simp: draining_def left_to_do_def stop_join_def pool_inv_def)
qed (auto simp: draining_def pool_inv_def dest: nth_mem)

text \<open>A pool that is being joined and has not been is never stuck when no worker sleeps.\<close>

lemma draining_progress:
  assumes "draining p" "po_stop p \<noteq> Stopped"
  shows "\<exists>q. pool_step p q"
proof (cases "\<forall>x \<in> set (po_workers p). x = Exited")
  case True
  with assms show ?thesis by (auto simp: draining_def intro: pool_step.join)
next
  case False
  then obtain i where i: "i < length (po_workers p)" "po_workers p ! i \<noteq> Exited" by (auto simp: in_set_conv_nth)
  with assms(1) consider "po_workers p ! i = Idle" | j where "po_workers p ! i = Busy j"
    by (cases "po_workers p ! i") (auto simp: draining_def dest: nth_mem)
  then show ?thesis
  proof cases
    case 1
    have "mutex_free p" using assms(1) by (simp add: draining_def mutex_free_def)
    from pool_step.take [OF this i(1) 1] show ?thesis ..
  next
    case 2
    from pool_step.run [OF i(1) 2] show ?thesis by blast
  qed
qed

text \<open>C24. Stopping the worker pool drains it. However many workers there are and however submissions, workers
  and jobs that throw interleave, once the thread that stops the pool has notified and no worker is
  asleep, only finitely many steps remain, and when none is possible the pool has stopped with an empty
  queue, every job that was accepted having been run exactly once and counted as completed or failed.\<close>

theorem executor_drains:
  assumes "pool_step\<^sup>*\<^sup>* (BackgroundExecutor_start (BackgroundExecutor_create n s)) p" "po_stop p = Joining"
    and "\<forall>x \<in> set (po_workers p). x \<noteq> Tested \<and> x \<noteq> Blocked"
  shows "(\<nexists>run. run 0 = p \<and> (\<forall>i. pool_step (run i) (run (Suc i)))) \<and>
    (\<forall>q. pool_step\<^sup>*\<^sup>* p q \<and> (\<nexists>r. pool_step q r) \<longrightarrow>
      po_stop q = Stopped \<and> BackgroundExecutor_pending q = 0 \<and> mset (po_done q) = mset (po_accepted q) \<and>
      po_completed q + po_failed q = of_nat (length (po_accepted q)))"
proof
  have start: "draining p"
    using assms(2,3) pool_run_inv [OF assms(1) started_inv] by (auto simp: draining_def)
  show "\<nexists>run. run 0 = p \<and> (\<forall>i. pool_step (run i) (run (Suc i)))"
  proof
    assume "\<exists>run. run 0 = p \<and> (\<forall>i. pool_step (run i) (run (Suc i)))"
    then obtain run where run: "run 0 = p" "\<And>i. pool_step (run i) (run (Suc i))" by blast
    have "draining (run i)" for i by (induction i) (use start run draining_step in auto)
    then have "left_to_do (run (Suc i)) < left_to_do (run i)" for i using run(2) draining_step by blast
    then show False using wf_iff_no_infinite_down_chain [THEN iffD1, OF wf_measure [of left_to_do]] by (auto simp: measure_def)
  qed
  show "\<forall>q. pool_step\<^sup>*\<^sup>* p q \<and> (\<nexists>r. pool_step q r) \<longrightarrow>
      po_stop q = Stopped \<and> BackgroundExecutor_pending q = 0 \<and> mset (po_done q) = mset (po_accepted q) \<and>
      po_completed q + po_failed q = of_nat (length (po_accepted q))"
  proof (intro allI impI, elim conjE)
    fix q assume "pool_step\<^sup>*\<^sup>* p q" "\<nexists>r. pool_step q r"
    from this(1) start have q: "draining q" by (induction rule: rtranclp_induct) (use draining_step in auto)
    with \<open>\<nexists>r. pool_step q r\<close> have "po_stop q = Stopped" using draining_progress by blast
    then have "po_tasks q = []" "busy (po_workers q) = {#}" using q by (simp_all add: draining_def pool_inv_def busy_def)
    moreover from this have "mset (po_done q) = mset (po_accepted q)" using q by (simp add: draining_def pool_inv_def)
    moreover from this have "length (po_done q) = length (po_accepted q)" by (metis size_mset)
    ultimately show "po_stop q = Stopped \<and> BackgroundExecutor_pending q = 0 \<and> mset (po_done q) = mset (po_accepted q) \<and>
        po_completed q + po_failed q = of_nat (length (po_accepted q))"
      using q \<open>po_stop q = Stopped\<close> by (simp add: draining_def pool_inv_def BackgroundExecutor_pending_def)
  qed
qed

lemma step_then: "pool_step p q \<Longrightarrow> pool_step\<^sup>*\<^sup>* q r \<Longrightarrow> pool_step\<^sup>*\<^sup>* p r"
  by (rule converse_rtranclp_into_rtranclp)

lemmas pool_defs = BackgroundExecutor_start_def BackgroundExecutor_create_def BackgroundExecutor_submit_def worker_take_def
  set_worker_def stop_store_def stop_notify_def wake_def mutex_free_def

definition example_pool :: "nat pool" where
  "example_pool = stop_notify (stop_store (BackgroundExecutor_submit \<lparr>tl_current = None, tl_request_id = ''r''\<rparr>
     (\<lambda>_ n. (True, n + 1)) (BackgroundExecutor_start (BackgroundExecutor_create 2 0))))"

lemma example_pool_reached: "pool_step\<^sup>*\<^sup>* (BackgroundExecutor_start (BackgroundExecutor_create 2 0)) example_pool"
  unfolding example_pool_def
  by (rule step_then [OF pool_step.submit step_then [OF pool_step.store step_then [OF pool_step.notify rtranclp.rtrancl_refl]]])
     (simp_all add: pool_defs)

theorem executor_drains_witness:
  "BackgroundExecutor_pending example_pool = 1 \<and> (\<nexists>run. run 0 = example_pool \<and> (\<forall>i. pool_step (run i) (run (Suc i))))"
proof -
  have "po_stop example_pool = Joining" "\<forall>x \<in> set (po_workers example_pool). x \<noteq> Tested \<and> x \<noteq> Blocked"
    by (simp_all add: example_pool_def pool_defs)
  from executor_drains [OF example_pool_reached this] show ?thesis
    by (simp add: BackgroundExecutor_pending_def example_pool_def pool_defs)
qed

text \<open>The flag is cleared without the mutex, so a worker that has tested its condition but does not wait yet misses the
  notification: the pool can reach a state in which the thread that stops it waits for a worker that
  only a spurious wake-up would end.\<close>

lemma stop_notification_lost:
  "\<exists>q. pool_step\<^sup>*\<^sup>* (BackgroundExecutor_start (BackgroundExecutor_create 1 s)) q \<and> po_stop q = Joining \<and>
     po_workers q = [Blocked] \<and> po_tasks q = [] \<and> (\<forall>r. pool_step q r \<longrightarrow> r = set_worker 0 Idle q)"
proof -
  define p where "p = BackgroundExecutor_start (BackgroundExecutor_create 1 s)"
  define q where "q = set_worker 0 Blocked (stop_notify (stop_store (worker_take 0 p)))"
  have "pool_step\<^sup>*\<^sup>* p q"
    unfolding q_def
    by (rule step_then [OF pool_step.take step_then [OF pool_step.store step_then [OF pool_step.notify
        step_then [OF pool_step.block rtranclp.rtrancl_refl]]]]) (simp_all add: p_def pool_defs)
  moreover have q: "po_stop q = Joining" "po_workers q = [Blocked]" "po_tasks q = []" "po_running q = False" "po_signals q = 0"
    by (simp_all add: q_def p_def pool_defs)
  moreover have "r = set_worker 0 Idle q" if "pool_step q r" for r
    using that by cases (simp_all add: q)
  ultimately show ?thesis unfolding p_def by blast
qed

text \<open>A job observes the trace context and request id of the thread that submitted it, and leaves those of the worker
  as they were.\<close>

lemma job_sees_submitter:
  assumes "tl_current loc = Some c" "sc_is_valid c"
  shows "run_job (carry loc task) worker_tl s =
    (fst (task (worker_tl\<lparr>tl_current := Some c, tl_request_id := tl_request_id loc\<rparr>) s), worker_tl,
     snd (task (worker_tl\<lparr>tl_current := Some c, tl_request_id := tl_request_id loc\<rparr>) s))"
  using assms by (simp add: run_job_def carry_def Let_def split: prod.split)

text \<open>Every maintenance task runs on every tick, also after one that failed.\<close>

lemma tick_runs_all:
  "sd_running d \<Longrightarrow> PeriodicScheduler_tick (PeriodicScheduler_add name task d) s = snd (task (PeriodicScheduler_tick d s))"
  by (simp add: PeriodicScheduler_tick_def PeriodicScheduler_add_def)

end
