(* ===== verification/EventBus.thy ===== *)
theory EventBus
  imports AuditLog Jobs Settings
begin

text \<open>
  The in-process event bus: \<^verbatim>\<open>events/event_dispatcher.cpp\<close>, \<^verbatim>\<open>events/in_process_event_bus.cpp\<close>,
  \<^verbatim>\<open>events/function_subscriber.hpp\<close> and the subscribers that \<^verbatim>\<open>Application::wire_event_subscribers\<close>
  registers. The state the subscribers work on is shared by all of them.
\<close>

record 's event_subscriber =
  es_address :: nat
  es_name :: string
  es_interested_in :: "event_type \<Rightarrow> 's \<Rightarrow> bool"
  es_handle :: "domain_event \<Rightarrow> (string, 's, unit) action"

record 's event_dispatcher =
  ed_subscribers :: "'s event_subscriber list"
  ed_dispatched :: "64 word"
  ed_failures :: "64 word"

definition no_subscribers :: "'s event_dispatcher" where
  "no_subscribers = \<lparr>ed_subscribers = [], ed_dispatched = 0, ed_failures = 0\<rparr>"

definition EventDispatcher_subscribe :: "'s event_subscriber \<Rightarrow> 's event_dispatcher \<Rightarrow> 's event_dispatcher" where
  "EventDispatcher_subscribe sub d =
     (if es_address sub \<in> set (map es_address (ed_subscribers d)) then d
      else d\<lparr>ed_subscribers := ed_subscribers d @ [sub]\<rparr>)"

text \<open>One subscriber: skipped when not interested; an exception is counted and goes no further.\<close>

definition invoke_subscriber :: "domain_event \<Rightarrow> 's event_subscriber \<Rightarrow> 64 word \<times> 's \<Rightarrow> 64 word \<times> 's" where
  "invoke_subscriber e sub fs = (case fs of (failures, s) \<Rightarrow>
     if \<not> es_interested_in sub (de_type e) s then (failures, s)
     else (case es_handle sub e s of
             (Inr _, s') \<Rightarrow> (failures, s')
           | (Inl _, s') \<Rightarrow> (failures + 1, s')))"

definition EventDispatcher_dispatch :: "domain_event \<Rightarrow> 's event_dispatcher \<times> 's \<Rightarrow> 's event_dispatcher \<times> 's" where
  "EventDispatcher_dispatch e ds = (case ds of (d, s) \<Rightarrow>
     case fold (invoke_subscriber e) (ed_subscribers d) (ed_failures d, s) of
       (failures, s') \<Rightarrow> (d\<lparr>ed_dispatched := ed_dispatched d + 1, ed_failures := failures\<rparr>, s'))"

definition EventDispatcher_subscriber_count :: "'s event_dispatcher \<Rightarrow> nat" where
  "EventDispatcher_subscriber_count d = length (ed_subscribers d)"


section \<open>Subscribers\<close>

definition event_index :: "event_type \<Rightarrow> nat" where
  "event_index t = length (takeWhile (\<lambda>u. u \<noteq> t) all_event_types)"

text \<open>\<^verbatim>\<open>FunctionSubscriber\<close>: the interest is a bit set over the event types.\<close>

definition FunctionSubscriber_interest :: "event_type list \<Rightarrow> bool list" where
  "FunctionSubscriber_interest types =
     fold (\<lambda>t bits. bits[event_index t := True]) types (replicate (length all_event_types) False)"

definition FunctionSubscriber_create ::
    "nat \<Rightarrow> string \<Rightarrow> event_type list \<Rightarrow> (domain_event \<Rightarrow> (string, 's, unit) action) \<Rightarrow> 's event_subscriber" where
  "FunctionSubscriber_create address name types handler =
     \<lparr>es_address = address, es_name = name,
      es_interested_in = (\<lambda>t _. FunctionSubscriber_interest types ! event_index t), es_handle = handler\<rparr>"

definition FunctionSubscriber_create_all ::
    "nat \<Rightarrow> string \<Rightarrow> (domain_event \<Rightarrow> (string, 's, unit) action) \<Rightarrow> 's event_subscriber" where
  "FunctionSubscriber_create_all address name handler =
     \<lparr>es_address = address, es_name = name,
      es_interested_in = (\<lambda>t _. replicate (length all_event_types) True ! event_index t), es_handle = handler\<rparr>"

text \<open>The state of the two subscribers of the application: the feature flags and the world.\<close>

type_synonym bus_state = "feature_flags \<times> world"

definition on_bus_world :: "'a act \<Rightarrow> (string, bus_state, 'a) action" where
  "on_bus_world m s = (case m (snd s) of (Inr x, w) \<Rightarrow> (Inr x, (fst s, w)) | (Inl e, w) \<Rightarrow> (Inl (ex_message e), (fst s, w)))"

definition audit_subscriber :: "bus_state event_subscriber" where
  "audit_subscriber =
     \<lparr>es_address = 1, es_name = ''audit_log'',
      es_interested_in = (\<lambda>t s. AuditLogSubscriber_interested_in (FeatureFlags_is_enabled kAuditLog (fst s)) t),
      es_handle = (\<lambda>e. on_bus_world (AuditLogSubscriber_handle e))\<rparr>"

definition metrics_subscriber :: "bus_state event_subscriber" where
  "metrics_subscriber = FunctionSubscriber_create_all 2 ''metrics'' (\<lambda>e. on_bus_world (
     seq (increment ''rtc_domain_events_total'') (\<lambda>_.
     increment (''rtc_domain_event_'' @ event_type_name (de_type e) @ ''_total''))))"

definition wire_event_subscribers :: "bus_state event_dispatcher \<Rightarrow> bus_state event_dispatcher" where
  "wire_event_subscribers d = EventDispatcher_subscribe metrics_subscriber (EventDispatcher_subscribe audit_subscriber d)"


section \<open>The bus\<close>

record 's event_bus =
  eb_asynchronous :: bool
  eb_published :: "64 word"
  eb_dropped :: "64 word"
  eb_pool :: "('s event_dispatcher \<times> 's) pool"

definition dispatch_task :: "domain_event \<Rightarrow> thread_locals \<Rightarrow> 's event_dispatcher \<times> 's \<Rightarrow> bool \<times> 's event_dispatcher \<times> 's" where
  "dispatch_task e loc ds = (True, EventDispatcher_dispatch e ds)"

definition InProcessEventBus_publish :: "thread_locals \<Rightarrow> domain_event \<Rightarrow> 's event_bus \<Rightarrow> 's event_bus" where
  "InProcessEventBus_publish loc e b =
     (let b = b\<lparr>eb_published := eb_published b + 1\<rparr>
      in if \<not> eb_asynchronous b
         then b\<lparr>eb_pool := (eb_pool b)\<lparr>po_shared := EventDispatcher_dispatch e (po_shared (eb_pool b))\<rparr>\<rparr>
         else b\<lparr>eb_pool := BackgroundExecutor_submit loc (dispatch_task e) (eb_pool b)\<rparr>)"

definition NullEventPublisher_publish :: "domain_event \<Rightarrow> 's event_bus \<Rightarrow> 's event_bus" where
  "NullEventPublisher_publish e b = b"


section \<open>Delivery\<close>

lemma event_index: "event_index t < length all_event_types" "all_event_types ! event_index t = t"
  by (cases t; simp add: event_index_def all_event_types_def)+

lemma event_index_inj: "event_index t = event_index u \<longleftrightarrow> t = u"
  by (metis event_index(2))

lemma interest_iff: "FunctionSubscriber_interest types ! event_index t \<longleftrightarrow> t \<in> set types"
proof -
  have "length bits = length all_event_types \<Longrightarrow>
      fold (\<lambda>t bits. bits[event_index t := True]) types bits ! event_index t \<longleftrightarrow> t \<in> set types \<or> bits ! event_index t" for bits
    by (induction types arbitrary: bits) (auto simp: nth_list_update event_index(1) event_index_inj)
  from this [of "replicate (length all_event_types) False"] show ?thesis
    by (simp add: FunctionSubscriber_interest_def event_index(1))
qed

text \<open>A subscriber is registered at most once, so no event is handled twice by one.\<close>

lemma subscribe_distinct:
  "distinct (map es_address (ed_subscribers d)) \<Longrightarrow> distinct (map es_address (ed_subscribers (EventDispatcher_subscribe sub d)))"
  by (simp add: EventDispatcher_subscribe_def)

lemma subscribe_idempotent:
  "EventDispatcher_subscribe sub (EventDispatcher_subscribe sub d) = EventDispatcher_subscribe sub d"
  by (simp add: EventDispatcher_subscribe_def)

text \<open>The effect of a subscriber does not depend on whether the ones before it threw: the shared state runs
  through the handlers of the interested subscribers in order of registration.\<close>

definition subscriber_effect :: "domain_event \<Rightarrow> 's event_subscriber \<Rightarrow> 's \<Rightarrow> 's" where
  "subscriber_effect e sub s = (if es_interested_in sub (de_type e) s then final (es_handle sub e) s else s)"

lemma invoke_effect: "snd (invoke_subscriber e sub (f, s)) = subscriber_effect e sub s"
  by (simp add: invoke_subscriber_def subscriber_effect_def split: prod.split sum.split)

lemma dispatch_effect:
  "snd (EventDispatcher_dispatch e (d, s)) = fold (subscriber_effect e) (ed_subscribers d) s"
proof -
  have "snd (fold (invoke_subscriber e) subs (f, s)) = fold (subscriber_effect e) subs s" for subs f
  proof (induction subs arbitrary: f s)
    case (Cons sub subs)
    obtain f' where "invoke_subscriber e sub (f, s) = (f', subscriber_effect e sub s)"
      using invoke_effect [of e sub f s] by (cases "invoke_subscriber e sub (f, s)") auto
    with Cons show ?case by simp
  qed simp
  from this [of "ed_subscribers d" "ed_failures d"] show ?thesis
    by (simp add: EventDispatcher_dispatch_def split_beta)
qed

lemma dispatch_counts:
  "ed_dispatched (fst (EventDispatcher_dispatch e (d, s))) = ed_dispatched d + 1"
  "ed_subscribers (fst (EventDispatcher_dispatch e (d, s))) = ed_subscribers d"
  by (simp_all add: EventDispatcher_dispatch_def split: prod.split)

text \<open>When the pool has been stopped, the bus loses the event without counting it as dropped.\<close>

lemma stopped_drop_uncounted:
  assumes "eb_asynchronous b" "\<not> po_running (eb_pool b)"
  shows "InProcessEventBus_publish loc e b = b\<lparr>eb_published := eb_published b + 1\<rparr>"
  using assms by (simp add: InProcessEventBus_publish_def BackgroundExecutor_submit_def)

end
