(* ===== verification/Search.thy ===== *)
theory Search
  imports MessageRules AuditLog Settings
begin

text \<open>
  Full-text search over messages: \<^verbatim>\<open>repositories/pg_message_search_repository.cpp\<close> and
  \<^verbatim>\<open>services/search_service.cpp\<close>. What PostgreSQL computes from a text and a term (the match, the rank,
  the snippet, the trigram similarity) and whether it has the trigram extension are parameters.
\<close>

record text_search =
  tx_matches :: "string \<Rightarrow> string \<Rightarrow> bool"
  tx_rank :: "string \<Rightarrow> string \<Rightarrow> rat"
  tx_headline :: "string \<Rightarrow> string \<Rightarrow> string"
  tx_similarity :: "string \<Rightarrow> string \<Rightarrow> rat"
  tx_has_trgm :: bool

record search_query =
  sq_term :: string
  sq_conversation_id :: "int option"
  sq_sender_id :: "int option"
  sq_from_epoch :: "int option"
  sq_to_epoch :: "int option"
  sq_fuzzy :: bool
  sq_highlight :: bool

record search_hit =
  sh_message :: message
  sh_rank :: rat
  sh_headline :: string
  sh_fuzzy_match :: bool

text \<open>The repository remembers the answer of the probe for the extension.\<close>

record search_state =
  ss_world :: world
  ss_trgm :: "bool option"

type_synonym 'a search_act = "(app_exception, search_state, 'a) action"

definition on_search_world :: "'a act \<Rightarrow> 'a search_act" where
  "on_search_world m s = (case m (ss_world s) of (r, w) \<Rightarrow> (r, s\<lparr>ss_world := w\<rparr>))"

definition kFuzzySimilarityThreshold :: rat where
  "kFuzzySimilarityThreshold = 3 / 10"

text \<open>The join and the filters that both statements share.\<close>

definition visible_to :: "int \<Rightarrow> search_query \<Rightarrow> tables \<Rightarrow> message \<Rightarrow> bool" where
  "visible_to actor q t m \<longleftrightarrow>
     is_member (m_conversation_id m) actor t \<and> m_deleted_at m = None \<and>
     allows (sq_conversation_id q) (\<lambda>c. m_conversation_id m = c) \<and>
     allows (sq_sender_id q) (\<lambda>u. m_sender_id m = u) \<and>
     allows (sq_from_epoch q) (\<lambda>e. e \<le> m_created_at m) \<and>
     allows (sq_to_epoch q) (\<lambda>e. m_created_at m \<le> e)"

text \<open>\<^verbatim>\<open>ORDER BY rank DESC, id DESC\<close>.\<close>

definition best_first :: "search_hit list \<Rightarrow> search_hit list" where
  "best_first hits = rev (sort_key sh_rank (sort_key (\<lambda>h. m_id (sh_message h)) hits))"

definition exact_hits :: "text_search \<Rightarrow> int \<Rightarrow> search_query \<Rightarrow> tables \<Rightarrow> search_hit list" where
  "exact_hits tx actor q t = best_first (map (\<lambda>m.
     \<lparr>sh_message = m, sh_rank = tx_rank tx (m_content m) (sq_term q),
      sh_headline = (if sq_highlight q then tx_headline tx (m_content m) (sq_term q) else []), sh_fuzzy_match = False\<rparr>)
     (filter (\<lambda>m. visible_to actor q t m \<and> tx_matches tx (m_content m) (sq_term q)) (t_messages t)))"

definition fuzzy_hits :: "text_search \<Rightarrow> int \<Rightarrow> search_query \<Rightarrow> tables \<Rightarrow> search_hit list" where
  "fuzzy_hits tx actor q t = best_first (map (\<lambda>m.
     \<lparr>sh_message = m, sh_rank = tx_similarity tx (m_content m) (sq_term q),
      sh_headline = (if sq_highlight q then m_content m else []), sh_fuzzy_match = True\<rparr>)
     (filter (\<lambda>m. visible_to actor q t m \<and> kFuzzySimilarityThreshold \<le> tx_similarity tx (m_content m) (sq_term q)) (t_messages t)))"

definition fuzzy_available :: "text_search \<Rightarrow> bool search_act" where
  "fuzzy_available tx s =
     (case ss_trgm s of
        Some b \<Rightarrow> (Inr b, s)
      | None \<Rightarrow>
          (case on_search_world (with_transaction (gets (\<lambda>_. tx_has_trgm tx))) s of
             (Inr b, s) \<Rightarrow> (Inr b, s\<lparr>ss_trgm := Some b\<rparr>)
           | (Inl e, s) \<Rightarrow> (Inr False, s\<lparr>ss_trgm := Some False\<rparr>)))"

definition search_rows :: "text_search \<Rightarrow> int \<Rightarrow> search_query \<Rightarrow> pagination \<Rightarrow> bool \<Rightarrow> tables \<Rightarrow> search_hit list" where
  "search_rows tx actor q page want_fuzzy t =
     (let hits = limit_offset (pg_limit page) (pg_offset page) (exact_hits tx actor q t)
      in if hits = [] \<and> want_fuzzy
         then limit_offset (pg_limit page) (pg_offset page) (fuzzy_hits tx actor q t) else hits)"

definition PgMessageSearchRepository_search ::
    "text_search \<Rightarrow> int \<Rightarrow> search_query \<Rightarrow> pagination \<Rightarrow> search_hit list search_act" where
  "PgMessageSearchRepository_search tx actor q page =
     seq (if sq_fuzzy q then fuzzy_available tx else ret False) (\<lambda>want_fuzzy.
     on_search_world (with_transaction (gets (\<lambda>d. search_rows tx actor q page want_fuzzy (tabs d)))))"

definition PgMessageSearchRepository_count :: "text_search \<Rightarrow> int \<Rightarrow> search_query \<Rightarrow> int search_act" where
  "PgMessageSearchRepository_count tx actor q =
     on_search_world (with_transaction (gets (\<lambda>d. int (length (exact_hits tx actor q (tabs d))))))"


section \<open>The service\<close>

definition kMinTermLength :: nat where "kMinTermLength = 2"
definition kMaxTermLength :: nat where "kMaxTermLength = 256"

definition blank :: "char \<Rightarrow> bool" where
  "blank c \<longleftrightarrow> c \<in> {CHR '' '', CHR 0x09, CHR 0x0D, CHR 0x0A}"

definition trim_term :: "string \<Rightarrow> string" where
  "trim_term s = rev (dropWhile blank (rev (dropWhile blank s)))"

definition validate_term :: "string \<Rightarrow> string result" where
  "validate_term raw =
     (let needle = trim_term raw
      in if length needle < kMinTermLength
         then Inl (ValidationException (''Search term must be at least '' @ nat_to_string kMinTermLength @ '' characters'') ''field=q'')
         else if length needle > kMaxTermLength
         then Inl (ValidationException (''Search term must be at most '' @ nat_to_string kMaxTermLength @ '' characters'') ''field=q'')
         else Inr needle)"

definition hit_to_json :: "search_hit \<Rightarrow> json" where
  "hit_to_json h =
     JObj [(''message_id'', JInt (m_id (sh_message h))), (''conversation_id'', JInt (m_conversation_id (sh_message h))),
           (''sender_id'', JInt (m_sender_id (sh_message h))), (''content'', JStr (m_content (sh_message h))),
           (''created_at'', JStr (to_iso8601 (m_created_at (sh_message h)))), (''rank'', JFloat (sh_rank h)),
           (''highlight'', JStr (sh_headline h)), (''fuzzy_match'', JBool (sh_fuzzy_match h))]"

definition search_messages ::
    "feature_flags \<Rightarrow> text_search \<Rightarrow> int \<Rightarrow> search_query \<Rightarrow> pagination \<Rightarrow> json search_act" where
  "search_messages flags tx actor q page =
     seq (of_result (FeatureFlags_require kSearch flags)) (\<lambda>_.
     seq (of_result (validate_term (sq_term q))) (\<lambda>needle.
     let q = q\<lparr>sq_term := needle\<rparr> in
     seq (PgMessageSearchRepository_search tx actor q page) (\<lambda>hits.
     seq (PgMessageSearchRepository_count tx actor q) (\<lambda>total.
     seq (fuzzy_available tx) (\<lambda>fuzzy.
     ret (JObj [(''query'', JStr needle), (''total'', JInt total), (''returned'', JInt (int (length hits))),
                (''fuzzy_available'', JBool fuzzy), (''limit'', JInt (pg_limit page)), (''offset'', JInt (pg_offset page)),
                (''results'', JArr (map hit_to_json hits))]))))))"


section \<open>What a search may show\<close>

lemma set_best_first [simp]: "set (best_first hits) = set hits" "length (best_first hits) = length hits"
  by (simp_all add: best_first_def)

lemma hits_visible:
  "h \<in> set (exact_hits tx actor q t) \<Longrightarrow> sh_message h \<in> set (t_messages t) \<and> visible_to actor q t (sh_message h)"
  "h \<in> set (fuzzy_hits tx actor q t) \<Longrightarrow> sh_message h \<in> set (t_messages t) \<and> visible_to actor q t (sh_message h)"
  by (auto simp: exact_hits_def fuzzy_hits_def)

lemma search_rows_visible:
  assumes "h \<in> set (search_rows tx actor q page want_fuzzy t)"
  shows "sh_message h \<in> set (t_messages t) \<and> visible_to actor q t (sh_message h)"
proof -
  have "h \<in> set (exact_hits tx actor q t) \<or> h \<in> set (fuzzy_hits tx actor q t)"
    using assms by (auto simp: search_rows_def Let_def dest: subsetD [OF set_limit_offset] split: if_splits)
  then show ?thesis using hits_visible by blast
qed

lemma search_frame:
  assumes "fuzzy_available tx s = (r, s')"
  shows "\<exists>b. r = Inr b \<and> db (ss_world s') = db (ss_world s)"
  using assms
  by (auto simp: fuzzy_available_def on_search_world_def with_transaction_def Let_def gets_apply
      split: option.splits prod.splits list.splits sum.splits)

lemma read_frame:
  assumes "on_search_world (with_transaction (gets f)) s = (Inr x, s')"
  shows "x = f (db (ss_world s)) \<and> db (ss_world s') = db (ss_world s)"
  using assms with_transaction_read [of "gets f" f "ss_world s" x]
  by (auto simp: on_search_world_def split: prod.splits)

text \<open>A successful search, step by step: the page and the total are read from the same tables.\<close>

lemma search_succeeds:
  assumes "search_messages flags tx actor q page s = (Inr out, s')"
  defines "q' \<equiv> q\<lparr>sq_term := trim_term (sq_term q)\<rparr>"
  obtains fz where "FeatureFlags_is_enabled kSearch flags"
    "2 \<le> length (trim_term (sq_term q))" "length (trim_term (sq_term q)) \<le> 256"
    "jfind out ''results'' = Some (JArr (map hit_to_json (search_rows tx actor q' page fz (tabs (db (ss_world s))))))"
    "jfind out ''total'' = Some (JInt (int (length (exact_hits tx actor q' (tabs (db (ss_world s)))))))"
    "db (ss_world s') = db (ss_world s)"
proof -
  let ?body = "\<lambda>hits total fuzzy. JObj [(''query'', JStr (trim_term (sq_term q))), (''total'', JInt total),
    (''returned'', JInt (int (length hits))), (''fuzzy_available'', JBool fuzzy), (''limit'', JInt (pg_limit page)),
    (''offset'', JInt (pg_offset page)), (''results'', JArr (map hit_to_json hits))]"
  have on: "FeatureFlags_is_enabled kSearch flags"
    and okay: "validate_term (sq_term q) = Inr (trim_term (sq_term q))" "2 \<le> length (trim_term (sq_term q))" "length (trim_term (sq_term q)) \<le> 256"
    using assms(1) by (auto simp: search_messages_def FeatureFlags_require_def validate_term_def kMinTermLength_def kMaxTermLength_def
        seq_apply Let_def split: if_splits)
  obtain fz s1 where s1: "(if sq_fuzzy q then fuzzy_available tx else ret False) s = (Inr fz, s1)" "db (ss_world s1) = db (ss_world s)"
    using search_frame [of tx s] by (cases "sq_fuzzy q"; cases "fuzzy_available tx s") auto
  have "seq (PgMessageSearchRepository_search tx actor q' page) (\<lambda>hits. seq (PgMessageSearchRepository_count tx actor q') (\<lambda>total.
      seq (fuzzy_available tx) (\<lambda>fuzzy. ret (?body hits total fuzzy)))) s = (Inr out, s')"
    using assms(1) on okay by (simp add: search_messages_def FeatureFlags_require_def q'_def seq_apply Let_def)
  then obtain hits s2 total s3 where s2: "PgMessageSearchRepository_search tx actor q' page s = (Inr hits, s2)"
    and s3: "PgMessageSearchRepository_count tx actor q' s2 = (Inr total, s3)"
    and last: "seq (fuzzy_available tx) (\<lambda>fuzzy. ret (?body hits total fuzzy)) s3 = (Inr out, s')"
    by (auto elim!: seq_succeedsE [of "PgMessageSearchRepository_search tx actor q' page"] seq_succeedsE [of "PgMessageSearchRepository_count tx actor q'"])
  have hits: "hits = search_rows tx actor q' page fz (tabs (db (ss_world s)))" "db (ss_world s2) = db (ss_world s)"
    using s2 s1 read_frame [of "\<lambda>d. search_rows tx actor q' page fz (tabs d)" s1 hits s2]
    by (auto simp: PgMessageSearchRepository_search_def q'_def seq_apply)
  have total: "total = int (length (exact_hits tx actor q' (tabs (db (ss_world s)))))" "db (ss_world s3) = db (ss_world s)"
    using read_frame [OF s3 [unfolded PgMessageSearchRepository_count_def]] hits(2) by simp_all
  have "jfind out ''results'' = Some (JArr (map hit_to_json hits))" "jfind out ''total'' = Some (JInt total)"
    "db (ss_world s') = db (ss_world s)"
    using last search_frame [of tx s3] total(2) by (auto elim!: seq_succeedsE)
  then show thesis using that on okay(2,3) unfolding hits(1) total(1) by blast
qed

text \<open>C12. Search shows only what the caller may see. When a search succeeds, the feature is on and the term, stripped of
  blanks, has 2 to 256 characters; every result is a stored message of a conversation the caller
  takes part in, not deleted, and within the requested conversation, sender and period; there are at
  most as many as the page allows; the total is the number of exact matches the caller may see; and
  no table changes.\<close>

theorem search_visible:
  assumes "search_messages flags tx actor q page s = (Inr out, s')"
  shows "\<exists>hits. jfind out ''results'' = Some (JArr (map hit_to_json hits)) \<and>
    FeatureFlags_is_enabled kSearch flags \<and> 2 \<le> length (trim_term (sq_term q)) \<and> length (trim_term (sq_term q)) \<le> 256 \<and>
    (\<forall>h \<in> set hits. sh_message h \<in> set (t_messages (tabs (db (ss_world s)))) \<and>
       is_member (m_conversation_id (sh_message h)) actor (tabs (db (ss_world s))) \<and> m_deleted_at (sh_message h) = None \<and>
       visible_to actor q (tabs (db (ss_world s))) (sh_message h)) \<and>
    length hits \<le> nat (pg_limit page) \<and>
    jfind out ''total'' = Some (JInt (int (length (filter (\<lambda>m. visible_to actor q (tabs (db (ss_world s))) m \<and>
       tx_matches tx (m_content m) (trim_term (sq_term q))) (t_messages (tabs (db (ss_world s)))))))) \<and>
    db (ss_world s') = db (ss_world s)"
proof -
  let ?t = "tabs (db (ss_world s))" and ?q = "q\<lparr>sq_term := trim_term (sq_term q)\<rparr>"
  have vis: "visible_to actor ?q ?t = visible_to actor q ?t" by (simp add: fun_eq_iff visible_to_def)
  obtain fz where fz: "FeatureFlags_is_enabled kSearch flags"
    "2 \<le> length (trim_term (sq_term q))" "length (trim_term (sq_term q)) \<le> 256"
    "jfind out ''results'' = Some (JArr (map hit_to_json (search_rows tx actor ?q page fz ?t)))"
    "jfind out ''total'' = Some (JInt (int (length (exact_hits tx actor ?q ?t))))" "db (ss_world s') = db (ss_world s)"
    by (rule search_succeeds [OF assms])
  moreover have "length (search_rows tx actor ?q page fz ?t) \<le> nat (pg_limit page)"
    by (simp add: search_rows_def Let_def length_limit_offset)
  moreover have "sh_message h \<in> set (t_messages ?t) \<and> visible_to actor q ?t (sh_message h)"
    if "h \<in> set (search_rows tx actor ?q page fz ?t)" for h
    using search_rows_visible [OF that] vis by simp
  ultimately show ?thesis
    by (intro exI [of _ "search_rows tx actor ?q page fz ?t"]) (auto simp: visible_to_def exact_hits_def vis)
qed

definition plain_search :: text_search where
  "plain_search = \<lparr>tx_matches = (=), tx_rank = (\<lambda>_ _. 1), tx_headline = (\<lambda>c _. c), tx_similarity = (\<lambda>_ _. 0), tx_has_trgm = False\<rparr>"

definition example_search :: search_query where
  "example_search = \<lparr>sq_term = '' hi'', sq_conversation_id = None, sq_sender_id = None, sq_from_epoch = None, sq_to_epoch = None,
     sq_fuzzy = True, sq_highlight = True\<rparr>"

theorem search_visible_witness:
  "\<exists>out s'. search_messages (replicate 20 True) plain_search 1 example_search
       \<lparr>pg_limit = 10, pg_offset = 0, pg_before_id = None, pg_after_id = None\<rparr> \<lparr>ss_world = chat_world, ss_trgm = None\<rparr> = (Inr out, s') \<and>
     jfind out ''total'' = Some (JInt 1)"
proof -
  let ?page = "\<lparr>pg_limit = 10, pg_offset = 0, pg_before_id = None, pg_after_id = None\<rparr>"
  let ?s = "\<lparr>ss_world = chat_world, ss_trgm = None\<rparr>"
  have ok: "FeatureFlags_require kSearch (replicate 20 True) = Inr ()" by (simp add: FeatureFlags_require_def FeatureFlags_is_enabled_def)
  have trm: "validate_term (sq_term example_search) = Inr ''hi''"
    by (simp add: validate_term_def trim_term_def blank_def example_search_def kMinTermLength_def kMaxTermLength_def)
  have "\<exists>out s'. search_messages (replicate 20 True) plain_search 1 example_search ?page ?s = (Inr out, s')"
    by (simp add: search_messages_def ok trm seq_apply Let_def PgMessageSearchRepository_search_def PgMessageSearchRepository_count_def
        on_search_world_def fuzzy_available_def with_transaction_def gets_apply chat_facts split: prod.splits)
  then obtain out s' where run: "search_messages (replicate 20 True) plain_search 1 example_search ?page ?s = (Inr out, s')" by blast
  have "jfind out ''total'' = Some (JInt 1)"
    using search_visible [OF run]
    by (auto simp: visible_to_def example_search_def plain_search_def chat_world_def example_defs example_message_def trim_term_def blank_def
        is_member_def allows_def)
  with run show ?thesis by blast
qed

text \<open>The fallback looks at the page, not at the matches: a page behind the last exact match is filled with approximate
  hits, although there are exact ones.\<close>

lemma fuzzy_beyond_last_page:
  assumes "length (exact_hits tx actor q t) \<le> nat (pg_offset page)"
  shows "search_rows tx actor q page True t = limit_offset (pg_limit page) (pg_offset page) (fuzzy_hits tx actor q t)"
  using assms by (simp add: search_rows_def limit_offset_def Let_def)

text \<open>A database error during the first search switches approximate matching off for good.\<close>

lemma probe_failure_sticks:
  assumes "ss_trgm s = None" "faults (ss_world s) = Some e # rest"
  shows "ss_trgm (snd (fuzzy_available tx s)) = Some False"
  using assms by (simp add: fuzzy_available_def on_search_world_def with_transaction_def)

end
