(* ===== verification/Controllers.thy ===== *)
theory Controllers
  imports Http Search Receipts
begin

text \<open>
  The REST controllers under \<^verbatim>\<open>controllers/\<close> (the administrative one has its own theory): every handler as an
  action on the process it runs in, the table of routes \<^verbatim>\<open>RTC_API_ROUTE\<close> registers, and the guard that turns
  what a handler throws into a response. Crow matches a path with the table and parses multipart bodies;
  a request arrives with its route and the parsed parts are an argument.
\<close>


section \<open>The process a handler runs in\<close>

record 's site =
  st_node :: "'s node"
  st_flags :: feature_flags
  st_trgm :: "bool option"
  st_log :: "string list"

type_synonym ('s, 'a) site_act = "(thrown, 's site, 'a) action"

definition as_thrown :: "app_exception + 'a \<Rightarrow> thrown + 'a" where
  "as_thrown r = (case r of Inl e \<Rightarrow> Inl (AppThrown e) | Inr x \<Rightarrow> Inr x)"

definition on_node :: "('s, 'a) node_act \<Rightarrow> ('s, 'a) site_act" where
  "on_node m s = (case m (st_node s) of (r, n) \<Rightarrow> (as_thrown r, s\<lparr>st_node := n\<rparr>))"

definition call :: "'a act \<Rightarrow> ('s, 'a) site_act" where
  "call m = on_node (on_world m)"

definition checked :: "'a result \<Rightarrow> ('s, 'a) site_act" where
  "checked r = of_result (as_thrown r)"

definition on_search :: "'a search_act \<Rightarrow> ('s, 'a) site_act" where
  "on_search m s =
     (case m \<lparr>ss_world = nd_world (st_node s), ss_trgm = st_trgm s\<rparr> of
        (r, t) \<Rightarrow> (as_thrown r, s\<lparr>st_node := (st_node s)\<lparr>nd_world := ss_world t\<rparr>, st_trgm := ss_trgm t\<rparr>))"

text \<open>One result per element, in order; the first failure ends the loop.\<close>

fun collect :: "'a list \<Rightarrow> ('a \<Rightarrow> ('e, 's, 'b) action) \<Rightarrow> ('e, 's, 'b list) action" where
  "collect [] f = ret []"
| "collect (x # xs) f = seq (f x) (\<lambda>y. seq (collect xs f) (\<lambda>ys. ret (y # ys)))"

text \<open>\<^verbatim>\<open>http::run_guarded\<close> around a handler.\<close>

definition guarded_endpoint :: "(json \<Rightarrow> string) \<Rightarrow> ('s, response) site_act \<Rightarrow> 's site \<Rightarrow> response \<times> 's site" where
  "guarded_endpoint dump m s =
     (case m s of (r, s') \<Rightarrow> (case run_guarded dump r of (res, lines) \<Rightarrow> (res, s'\<lparr>st_log := st_log s' @ lines\<rparr>)))"


section \<open>What the controllers are constructed with\<close>

text \<open>A part of a multipart body: its content, the parameters of its \<^verbatim>\<open>Content-Disposition\<close> and its \<^verbatim>\<open>Content-Type\<close>.
  Crow answers a missing part with an empty one and throws on a body it cannot parse.\<close>

record part =
  pt_body :: string
  pt_disposition :: "string \<Rightarrow> string option"
  pt_content_type :: string

record 's services =
  sv_ops :: "'s cache_ops"
  sv_tokens :: token_service
  sv_hasher :: password_hasher
  sv_sha256 :: "string \<Rightarrow> nat list"
  sv_config :: config
  sv_dump :: "json \<Rightarrow> string"
  sv_parse :: "string \<Rightarrow> json option"
  sv_tsmatch :: "string \<Rightarrow> string \<Rightarrow> bool"
  sv_text :: text_search
  sv_images :: image_processor
  sv_multipart :: "request \<Rightarrow> string + (string \<Rightarrow> part)"

definition json_reply :: "'s services \<Rightarrow> int \<Rightarrow> json \<Rightarrow> ('s, response) site_act" where
  "json_reply sv code body = ret (json_response (sv_dump sv) code body)"

definition json_body :: "'s services \<Rightarrow> request \<Rightarrow> ('s, json) site_act" where
  "json_body sv req = checked (parse_json_body (sv_parse sv) req)"

definition token_only :: "'s services \<Rightarrow> request \<Rightarrow> ('s, token_claims) site_act" where
  "token_only sv req = call (AuthMiddleware_authenticate_token_only (sv_tokens sv) req)"

definition signed_in :: "'s services \<Rightarrow> request \<Rightarrow> ('s, token_claims) site_act" where
  "signed_in sv req =
     on_node (AuthMiddleware_authenticate (sv_ops sv) (authz_cache_ttl_seconds (sv_config sv)) (sv_tokens sv) req)"

definition non_empty_string :: "string \<Rightarrow> string option" where
  "non_empty_string value = (if value = [] then None else Some value)"

definition require_string_field :: "json \<Rightarrow> string \<Rightarrow> string result" where
  "require_string_field body field =
     (case jfind body field of
        Some (JStr s) \<Rightarrow> Inr s
      | _ \<Rightarrow> Inl (ValidationException (''Missing string field: '' @ field) (''field='' @ field)))"

definition optional_int_param :: "request \<Rightarrow> string \<Rightarrow> int option result" where
  "optional_int_param req name =
     (case rq_params req name of
        None \<Rightarrow> Inr None
      | Some raw \<Rightarrow>
          (case from_chars_int64 raw of
             Some (v, []) \<Rightarrow> Inr (Some v)
           | _ \<Rightarrow> Inl (ValidationException (''Invalid integer for parameter: '' @ name) (''field='' @ name))))"

definition affirmative :: "string \<Rightarrow> bool" where
  "affirmative raw \<longleftrightarrow> raw = ''1'' \<or> raw = ''true'' \<or> raw = ''yes'' \<or> raw = ''on''"

definition bool_param :: "request \<Rightarrow> string \<Rightarrow> bool \<Rightarrow> bool" where
  "bool_param req name fallback = (case rq_params req name of None \<Rightarrow> fallback | Some raw \<Rightarrow> affirmative raw)"

definition required_string_param :: "request \<Rightarrow> string \<Rightarrow> string result" where
  "required_string_param req name =
     (case rq_params req name of
        None \<Rightarrow> Inl (ValidationException (''Missing required parameter: '' @ name) (''field='' @ name))
      | Some raw \<Rightarrow> Inr raw)"

definition add_field :: "string \<Rightarrow> json \<Rightarrow> json \<Rightarrow> json" where
  "add_field k v j = (case j of JObj kvs \<Rightarrow> JObj (AList.update k v kvs) | _ \<Rightarrow> j)"


section \<open>Authentication\<close>

text \<open>A session is recorded for the tokens just issued and its id is added to the response.\<close>

definition with_session :: "'s services \<Rightarrow> request \<Rightarrow> auth_response \<Rightarrow> ('s, json) site_act" where
  "with_session sv req response =
     seq (call (SessionService_record (sv_sha256 sv) (jwt_refresh_ttl_seconds (sv_config sv)) (u_id (are_user response))
            (tp_refresh_token (are_tokens response)) (non_empty_string (rq_header req ''User-Agent''))
            (non_empty_string (rq_remote_ip req)))) (\<lambda>session_id.
     ret (add_field ''session_id'' (JStr session_id) (AuthResponse_to_json response)))"

definition post_register :: "'s services \<Rightarrow> request \<Rightarrow> ('s, response) site_act" where
  "post_register sv req =
     seq (json_body sv req) (\<lambda>j.
     seq (checked (RegisterRequest_from_json j)) (\<lambda>request.
     seq (call (AuthService_register_user (sv_hasher sv) (sv_tokens sv) request)) (\<lambda>response.
     seq (with_session sv req response) (\<lambda>body.
     seq (call (publish (UserRegistered (u_id (are_user response)) (u_username (are_user response)) (u_email (are_user response))))) (\<lambda>_.
     json_reply sv 201 body)))))"

definition post_login :: "'s services \<Rightarrow> request \<Rightarrow> ('s, response) site_act" where
  "post_login sv req =
     seq (json_body sv req) (\<lambda>j.
     seq (checked (LoginRequest_from_json j)) (\<lambda>request.
     seq (call (AuthService_login (sv_hasher sv) (sv_tokens sv) request)) (\<lambda>response.
     seq (with_session sv req response) (\<lambda>body.
     seq (call (publish (UserLoggedIn (u_id (are_user response)) (u_username (are_user response)) (rq_remote_ip req)
            (rq_header req ''User-Agent'')))) (\<lambda>_.
     json_reply sv 200 body)))))"

definition post_refresh :: "'s services \<Rightarrow> request \<Rightarrow> ('s, response) site_act" where
  "post_refresh sv req =
     seq (json_body sv req) (\<lambda>body.
     seq (checked (require_string_field body ''refresh_token'')) (\<lambda>refresh_token.
     seq (checked (require_string_field body ''session_id'')) (\<lambda>session_id.
     seq (call (SessionService_rotate (sv_sha256 sv) (sv_tokens sv) refresh_token session_id)) (\<lambda>pair.
     json_reply sv 200 (JObj
       [(''access_token'', JStr (tp_access_token pair)), (''refresh_token'', JStr (tp_refresh_token pair)),
        (''token_type'', JStr ''Bearer''), (''access_expires_in'', JInt (tp_access_expires_in pair)),
        (''refresh_expires_in'', JInt (tp_refresh_expires_in pair))])))))"

definition post_logout :: "'s services \<Rightarrow> request \<Rightarrow> ('s, response) site_act" where
  "post_logout sv req =
     seq (token_only sv req) (\<lambda>claims.
     seq (json_body sv req) (\<lambda>body.
     seq (checked (require_string_field body ''session_id'')) (\<lambda>session_id.
     seq (call (SessionService_revoke (tk_user_id claims) session_id)) (\<lambda>revoked.
     seq (if revoked then call (publish (UserLoggedOut (tk_user_id claims) session_id False)) else ret ()) (\<lambda>_.
     json_reply sv 200 (JObj [(''revoked'', JBool revoked)]))))))"

definition post_logout_all :: "'s services \<Rightarrow> request \<Rightarrow> ('s, response) site_act" where
  "post_logout_all sv req =
     seq (token_only sv req) (\<lambda>claims.
     seq (call (SessionService_revoke_all (tk_user_id claims))) (\<lambda>count.
     seq (call (publish (UserLoggedOut (tk_user_id claims) [] True))) (\<lambda>_.
     json_reply sv 200 (JObj [(''revoked'', JInt count)]))))"

definition get_auth_me :: "'s services \<Rightarrow> request \<Rightarrow> ('s, response) site_act" where
  "get_auth_me sv req =
     seq (token_only sv req) (\<lambda>claims.
     seq (call (UserService_get_by_id (tk_user_id claims))) (\<lambda>user.
     json_reply sv 200 (UserResponse_to_json user)))"

section \<open>Sessions and profiles\<close>

definition get_sessions :: "'s services \<Rightarrow> request \<Rightarrow> ('s, response) site_act" where
  "get_sessions sv req =
     seq (signed_in sv req) (\<lambda>claims.
     let current_id = (case rq_params req ''current'' of None \<Rightarrow> [] | Some c \<Rightarrow> c) in
     seq (call (SessionService_list (tk_user_id claims))) (\<lambda>sessions.
     json_reply sv 200 (JObj [(''sessions'', JArr (map (\<lambda>x. SessionResponse_to_json x current_id) sessions))])))"

definition delete_session :: "'s services \<Rightarrow> string \<Rightarrow> request \<Rightarrow> ('s, response) site_act" where
  "delete_session sv i req =
     seq (signed_in sv req) (\<lambda>claims.
     seq (call (SessionService_revoke (tk_user_id claims) i)) (\<lambda>revoked.
     json_reply sv 200 (JObj [(''revoked'', JBool revoked)])))"

definition get_users_me :: "'s services \<Rightarrow> request \<Rightarrow> ('s, response) site_act" where
  "get_users_me sv req =
     seq (signed_in sv req) (\<lambda>claims.
     seq (call (UserService_get_by_id (tk_user_id claims))) (\<lambda>user.
     json_reply sv 200 (UserResponse_to_json user)))"

definition put_users_me :: "'s services \<Rightarrow> request \<Rightarrow> ('s, response) site_act" where
  "put_users_me sv req =
     seq (signed_in sv req) (\<lambda>claims.
     seq (json_body sv req) (\<lambda>j.
     seq (checked (UpdateProfileRequest_from_json j)) (\<lambda>request.
     seq (call (UserService_update_profile (tk_user_id claims) request)) (\<lambda>user.
     json_reply sv 200 (UserResponse_to_json user)))))"

definition get_user :: "'s services \<Rightarrow> int \<Rightarrow> request \<Rightarrow> ('s, response) site_act" where
  "get_user sv i req =
     seq (signed_in sv req) (\<lambda>_.
     seq (call (UserService_get_by_id i)) (\<lambda>user.
     json_reply sv 200 (UserResponse_to_public_json user)))"


section \<open>Conversations\<close>

definition conversation_body :: "conversation \<Rightarrow> ('s, json) site_act" where
  "conversation_body c =
     seq (call (PgConversationRepository_list_participants (c_id c))) (\<lambda>participants.
     ret (ConversationResponse_to_json c participants))"

definition post_conversation :: "'s services \<Rightarrow> request \<Rightarrow> ('s, response) site_act" where
  "post_conversation sv req =
     seq (signed_in sv req) (\<lambda>claims.
     seq (json_body sv req) (\<lambda>j.
     seq (checked (CreateConversationRequest_from_json j)) (\<lambda>request.
     seq (call (ConversationService_create (tk_user_id claims) request)) (\<lambda>c.
     seq (conversation_body c) (\<lambda>body.
     json_reply sv 201 body)))))"

definition get_conversations :: "'s services \<Rightarrow> request \<Rightarrow> ('s, response) site_act" where
  "get_conversations sv req =
     seq (signed_in sv req) (\<lambda>claims.
     seq (checked (Pagination_from_request (rq_params req))) (\<lambda>page.
     seq (call (ConversationService_list (tk_user_id claims) page)) (\<lambda>cs.
     seq (collect cs conversation_body) (\<lambda>items.
     json_reply sv 200 (JObj [(''conversations'', JArr items)])))))"

definition get_conversation :: "'s services \<Rightarrow> int \<Rightarrow> request \<Rightarrow> ('s, response) site_act" where
  "get_conversation sv i req =
     seq (signed_in sv req) (\<lambda>claims.
     seq (call (ConversationService_get (tk_user_id claims) i)) (\<lambda>c.
     seq (conversation_body c) (\<lambda>body.
     json_reply sv 200 body)))"

definition delete_conversation_route :: "'s services \<Rightarrow> int \<Rightarrow> request \<Rightarrow> ('s, response) site_act" where
  "delete_conversation_route sv i req =
     seq (signed_in sv req) (\<lambda>claims.
     seq (call (ConversationService_remove (tk_user_id claims) i)) (\<lambda>_.
     json_reply sv 200 (JObj [(''deleted'', JBool True)])))"

definition patch_conversation_name :: "'s services \<Rightarrow> int \<Rightarrow> request \<Rightarrow> ('s, response) site_act" where
  "patch_conversation_name sv i req =
     seq (signed_in sv req) (\<lambda>claims.
     seq (json_body sv req) (\<lambda>j.
     seq (checked (RenameGroupRequest_from_json j)) (\<lambda>name.
     seq (call (ConversationService_rename_group (tk_user_id claims) i name)) (\<lambda>c.
     seq (conversation_body c) (\<lambda>body.
     json_reply sv 200 body)))))"

definition post_member :: "'s services \<Rightarrow> int \<Rightarrow> request \<Rightarrow> ('s, response) site_act" where
  "post_member sv i req =
     seq (signed_in sv req) (\<lambda>claims.
     seq (json_body sv req) (\<lambda>j.
     seq (checked (AddMemberRequest_from_json j)) (\<lambda>user_id.
     seq (call (ConversationService_add_member (tk_user_id claims) i user_id)) (\<lambda>participant.
     json_reply sv 201 (ParticipantResponse_to_json participant)))))"

definition delete_member :: "'s services \<Rightarrow> int \<Rightarrow> int \<Rightarrow> request \<Rightarrow> ('s, response) site_act" where
  "delete_member sv i user_id req =
     seq (signed_in sv req) (\<lambda>claims.
     seq (call (ConversationService_remove_member (tk_user_id claims) i user_id)) (\<lambda>_.
     json_reply sv 200 (JObj [(''removed'', JBool True)])))"

definition post_leave :: "'s services \<Rightarrow> int \<Rightarrow> request \<Rightarrow> ('s, response) site_act" where
  "post_leave sv i req =
     seq (signed_in sv req) (\<lambda>claims.
     seq (call (ConversationService_leave (tk_user_id claims) i)) (\<lambda>_.
     json_reply sv 200 (JObj [(''left'', JBool True)])))"


section \<open>Messages and reactions\<close>

definition post_message :: "'s services \<Rightarrow> request \<Rightarrow> ('s, response) site_act" where
  "post_message sv req =
     seq (signed_in sv req) (\<lambda>claims.
     seq (json_body sv req) (\<lambda>j.
     seq (checked (SendMessageRequest_from_json j)) (\<lambda>request.
     seq (call (MessageService_send (tk_user_id claims) request)) (\<lambda>m.
     seq (call (MessageService_to_response m)) (\<lambda>body.
     json_reply sv 201 body)))))"

definition get_messages :: "'s services \<Rightarrow> request \<Rightarrow> ('s, response) site_act" where
  "get_messages sv req =
     seq (signed_in sv req) (\<lambda>claims.
     seq (checked (MessageQuery_from_request (rq_params req))) (\<lambda>q.
     seq (checked (Pagination_from_request (rq_params req))) (\<lambda>page.
     seq (call (MessageService_list (sv_tsmatch sv) (tk_user_id claims) q page)) (\<lambda>ms.
     seq (collect ms (\<lambda>m. call (MessageService_to_response m))) (\<lambda>items.
     json_reply sv 200 (JObj [(''messages'', JArr items)]))))))"

definition patch_message :: "'s services \<Rightarrow> int \<Rightarrow> request \<Rightarrow> ('s, response) site_act" where
  "patch_message sv i req =
     seq (signed_in sv req) (\<lambda>claims.
     seq (json_body sv req) (\<lambda>j.
     seq (checked (UpdateMessageRequest_from_json j)) (\<lambda>content.
     seq (call (MessageService_edit (tk_user_id claims) i content)) (\<lambda>m.
     seq (call (MessageService_to_response m)) (\<lambda>body.
     json_reply sv 200 body)))))"

definition delete_message :: "'s services \<Rightarrow> int \<Rightarrow> request \<Rightarrow> ('s, response) site_act" where
  "delete_message sv i req =
     seq (signed_in sv req) (\<lambda>claims.
     seq (call (MessageService_remove (tk_user_id claims) i)) (\<lambda>m.
     seq (call (MessageService_to_response m)) (\<lambda>body.
     json_reply sv 200 body)))"

definition post_reaction :: "'s services \<Rightarrow> int \<Rightarrow> request \<Rightarrow> ('s, response) site_act" where
  "post_reaction sv i req =
     seq (signed_in sv req) (\<lambda>claims.
     seq (json_body sv req) (\<lambda>j.
     seq (checked (ReactionRequest_from_json j)) (\<lambda>emoji.
     seq (call (ReactionService_react (tk_user_id claims) i emoji)) (\<lambda>reaction.
     json_reply sv 201 (ReactionResponse_to_json reaction)))))"

definition delete_reaction :: "'s services \<Rightarrow> int \<Rightarrow> request \<Rightarrow> ('s, response) site_act" where
  "delete_reaction sv i req =
     seq (signed_in sv req) (\<lambda>claims.
     seq (call (ReactionService_unreact (tk_user_id claims) i)) (\<lambda>_.
     json_reply sv 200 (JObj [(''removed'', JBool True)])))"

definition get_reactions :: "'s services \<Rightarrow> int \<Rightarrow> request \<Rightarrow> ('s, response) site_act" where
  "get_reactions sv i req =
     seq (signed_in sv req) (\<lambda>claims.
     seq (call (ReactionService_list (tk_user_id claims) i)) (\<lambda>reactions.
     json_reply sv 200 (JObj [(''reactions'', JArr (map ReactionResponse_to_json reactions))])))"


section \<open>Notifications, search and attachments\<close>

definition get_notifications :: "'s services \<Rightarrow> request \<Rightarrow> ('s, response) site_act" where
  "get_notifications sv req =
     seq (signed_in sv req) (\<lambda>claims.
     seq (checked (Pagination_from_request (rq_params req))) (\<lambda>page.
     let unread_only = (rq_params req ''unread'' = Some ''true'') in
     seq (call (NotificationService_list (tk_user_id claims) page unread_only)) (\<lambda>items.
     seq (call (NotificationService_unread_count (tk_user_id claims))) (\<lambda>count.
     json_reply sv 200 (JObj [(''notifications'', JArr (map NotificationResponse_to_json items)), (''unread_count'', JInt count)])))))"

definition post_notification_read :: "'s services \<Rightarrow> int \<Rightarrow> request \<Rightarrow> ('s, response) site_act" where
  "post_notification_read sv i req =
     seq (signed_in sv req) (\<lambda>claims.
     seq (call (NotificationService_mark_read i (tk_user_id claims))) (\<lambda>marked.
     json_reply sv 200 (JObj [(''read'', JBool marked)])))"

definition post_notifications_read_all :: "'s services \<Rightarrow> request \<Rightarrow> ('s, response) site_act" where
  "post_notifications_read_all sv req =
     seq (signed_in sv req) (\<lambda>claims.
     seq (call (NotificationService_mark_all_read (tk_user_id claims))) (\<lambda>count.
     json_reply sv 200 (JObj [(''marked'', JInt count)])))"

definition delete_notification :: "'s services \<Rightarrow> int \<Rightarrow> request \<Rightarrow> ('s, response) site_act" where
  "delete_notification sv i req =
     seq (signed_in sv req) (\<lambda>claims.
     seq (call (NotificationService_remove i (tk_user_id claims))) (\<lambda>deleted.
     json_reply sv 200 (JObj [(''deleted'', JBool deleted)])))"

definition get_search_messages :: "'s services \<Rightarrow> request \<Rightarrow> ('s, response) site_act" where
  "get_search_messages sv req =
     seq (signed_in sv req) (\<lambda>claims.
     seq (checked (required_string_param req ''q'')) (\<lambda>needle.
     seq (checked (optional_int_param req ''conversation_id'')) (\<lambda>conversation_id.
     seq (checked (optional_int_param req ''sender_id'')) (\<lambda>sender_id.
     seq (checked (optional_int_param req ''from'')) (\<lambda>from_epoch.
     seq (checked (optional_int_param req ''to'')) (\<lambda>to_epoch.
     let q = \<lparr>sq_term = needle, sq_conversation_id = conversation_id, sq_sender_id = sender_id, sq_from_epoch = from_epoch,
              sq_to_epoch = to_epoch, sq_fuzzy = bool_param req ''fuzzy'' True, sq_highlight = bool_param req ''highlight'' True\<rparr> in
     seq (checked (Pagination_from_request (rq_params req))) (\<lambda>page.
     seq (gets st_flags) (\<lambda>flags.
     seq (on_search (search_messages flags (sv_text sv) (tk_user_id claims) q page)) (\<lambda>body.
     json_reply sv 200 body)))))))))"

definition part_filename :: "part \<Rightarrow> string" where
  "part_filename p =
     (case pt_disposition p ''filename'' of
        Some name \<Rightarrow> if name \<noteq> [] then name else ''upload.bin''
      | None \<Rightarrow> ''upload.bin'')"

definition upload_options :: "config \<Rightarrow> attachment_options" where
  "upload_options c = \<lparr>ao_max_upload_bytes = max_upload_bytes c, ao_thumbnail_max_dimension = 256, ao_storage_root = upload_dir c\<rparr>"

definition enforce_upload_limit :: "'s services \<Rightarrow> int \<Rightarrow> ('s, unit) site_act" where
  "enforce_upload_limit sv user_id s =
     (case RateLimiter_enforce (sv_ops sv) (rate_limit_enabled (sv_config sv)) ''upload'' (to_string user_id)
             (rate_limit_upload_max (sv_config sv)) (rate_limit_window_seconds (sv_config sv)) (nd_cache (st_node s)) of
        (r, c) \<Rightarrow> (as_thrown (map_sum (\<lambda>e. e) (\<lambda>_. ()) r), s\<lparr>st_node := (st_node s)\<lparr>nd_cache := c\<rparr>\<rparr>))"

definition post_attachment :: "'s services \<Rightarrow> request \<Rightarrow> ('s, response) site_act" where
  "post_attachment sv req =
     seq (signed_in sv req) (\<lambda>claims.
     seq (enforce_upload_limit sv (tk_user_id claims)) (\<lambda>_.
     seq (of_result (map_sum StdThrown (\<lambda>parts. parts) (sv_multipart sv req))) (\<lambda>parts.
     let file = parts ''file'' in
     seq (require (pt_body file \<noteq> [])
            (AppThrown (ValidationException (''Missing '' @ [char_of (39::nat)] @ ''file'' @ [char_of (39::nat)] @ '' part in multipart upload'') []))) (\<lambda>_.
     seq (call (AttachmentService_upload (sha256_hex (sv_sha256 sv)) (sv_images sv) (upload_options (sv_config sv))
            \<lparr>ui_owner_id = tk_user_id claims, ui_filename = part_filename file, ui_declared_content_type = pt_content_type file,
             ui_bytes = pt_body file\<rparr>)) (\<lambda>attachment.
     json_reply sv 201 (AttachmentResponse_to_json attachment (upload_public_base_url (sv_config sv))))))))"

definition get_attachment :: "'s services \<Rightarrow> int \<Rightarrow> bool \<Rightarrow> request \<Rightarrow> ('s, response) site_act" where
  "get_attachment sv i thumb req =
     seq (signed_in sv req) (\<lambda>claims.
     seq (call (AttachmentService_download (tk_user_id claims) i thumb)) (\<lambda>dl.
     ret (set_header ''Cache-Control'' ''private, max-age=86400''
       (set_header ''Content-Disposition''
          (''inline; filename='' @ [char_of (34::nat)] @ a_original_filename (dl_meta dl) @ [char_of (34::nat)])
         (set_header ''Content-Type'' (dl_content_type dl) \<lparr>resp_code = 200, resp_body = dl_bytes dl, resp_headers = []\<rparr>)))))"

definition delete_attachment :: "'s services \<Rightarrow> int \<Rightarrow> request \<Rightarrow> ('s, response) site_act" where
  "delete_attachment sv i req =
     seq (signed_in sv req) (\<lambda>claims.
     seq (call (AttachmentService_remove (tk_user_id claims) i)) (\<lambda>_.
     json_reply sv 200 (JObj [(''deleted'', JBool True)])))"


section \<open>The routes\<close>

datatype auth_route = AuthRegister | AuthLogin | AuthRefresh | AuthLogout | AuthLogoutAll | AuthMe

datatype account_route = SessionsGet | SessionDelete string | UsersMeGet | UsersMePut | UserGet int

datatype conversation_route = ConversationPost | ConversationsGet | ConversationGet int | ConversationDelete int | ConversationNamePatch int | MemberPost int | MemberDelete int int | LeavePost int

datatype message_route = MessagePost | MessagesGet | MessagePatch int | MessageDelete int | ReactionPost int | ReactionDelete int | ReactionsGet int

datatype notice_route = NotificationsGet | NotificationReadPost int | NotificationsReadAllPost | NotificationDelete int | SearchGet

datatype attachment_route = AttachmentPost | AttachmentGet int | ThumbnailGet int | AttachmentDelete int

datatype api_route =
    AuthRoute auth_route | AccountRoute account_route | ConversationRoute conversation_route | MessageRoute message_route | NoticeRoute notice_route | AttachmentRoute attachment_route

text \<open>Method and path behind the API prefix, as the argument of the macro writes it.\<close>

primrec auth_rule :: "auth_route \<Rightarrow> http_method \<times> string" where
  "auth_rule AuthRegister = (Post, ''/auth/register'')"
| "auth_rule AuthLogin = (Post, ''/auth/login'')"
| "auth_rule AuthRefresh = (Post, ''/auth/refresh'')"
| "auth_rule AuthLogout = (Post, ''/auth/logout'')"
| "auth_rule AuthLogoutAll = (Post, ''/auth/logout-all'')"
| "auth_rule AuthMe = (Get, ''/auth/me'')"

primrec account_rule :: "account_route \<Rightarrow> http_method \<times> string" where
  "account_rule SessionsGet = (Get, ''/sessions'')"
| "account_rule (SessionDelete i) = (Delete, ''/sessions/<string>'')"
| "account_rule UsersMeGet = (Get, ''/users/me'')"
| "account_rule UsersMePut = (Put, ''/users/me'')"
| "account_rule (UserGet i) = (Get, ''/users/<int>'')"

primrec conversation_rule :: "conversation_route \<Rightarrow> http_method \<times> string" where
  "conversation_rule ConversationPost = (Post, ''/conversations'')"
| "conversation_rule ConversationsGet = (Get, ''/conversations'')"
| "conversation_rule (ConversationGet i) = (Get, ''/conversations/<int>'')"
| "conversation_rule (ConversationDelete i) = (Delete, ''/conversations/<int>'')"
| "conversation_rule (ConversationNamePatch i) = (Patch, ''/conversations/<int>/name'')"
| "conversation_rule (MemberPost i) = (Post, ''/conversations/<int>/members'')"
| "conversation_rule (MemberDelete i u) = (Delete, ''/conversations/<int>/members/<int>'')"
| "conversation_rule (LeavePost i) = (Post, ''/conversations/<int>/leave'')"

primrec message_rule :: "message_route \<Rightarrow> http_method \<times> string" where
  "message_rule MessagePost = (Post, ''/messages'')"
| "message_rule MessagesGet = (Get, ''/messages'')"
| "message_rule (MessagePatch i) = (Patch, ''/messages/<int>'')"
| "message_rule (MessageDelete i) = (Delete, ''/messages/<int>'')"
| "message_rule (ReactionPost i) = (Post, ''/messages/<int>/reactions'')"
| "message_rule (ReactionDelete i) = (Delete, ''/messages/<int>/reactions'')"
| "message_rule (ReactionsGet i) = (Get, ''/messages/<int>/reactions'')"

primrec notice_rule :: "notice_route \<Rightarrow> http_method \<times> string" where
  "notice_rule NotificationsGet = (Get, ''/notifications'')"
| "notice_rule (NotificationReadPost i) = (Post, ''/notifications/<int>/read'')"
| "notice_rule NotificationsReadAllPost = (Post, ''/notifications/read-all'')"
| "notice_rule (NotificationDelete i) = (Delete, ''/notifications/<int>'')"
| "notice_rule SearchGet = (Get, ''/search/messages'')"

primrec attachment_rule :: "attachment_route \<Rightarrow> http_method \<times> string" where
  "attachment_rule AttachmentPost = (Post, ''/attachments'')"
| "attachment_rule (AttachmentGet i) = (Get, ''/attachments/<int>'')"
| "attachment_rule (ThumbnailGet i) = (Get, ''/attachments/<int>/thumbnail'')"
| "attachment_rule (AttachmentDelete i) = (Delete, ''/attachments/<int>'')"

primrec api_rule :: "api_route \<Rightarrow> http_method \<times> string" where
  "api_rule (AuthRoute r) = auth_rule r"
| "api_rule (AccountRoute r) = account_rule r"
| "api_rule (ConversationRoute r) = conversation_rule r"
| "api_rule (MessageRoute r) = message_rule r"
| "api_rule (NoticeRoute r) = notice_rule r"
| "api_rule (AttachmentRoute r) = attachment_rule r"

primrec handle_auth :: "'s services \<Rightarrow> auth_route \<Rightarrow> request \<Rightarrow> ('s, response) site_act" where
  "handle_auth sv AuthRegister req = post_register sv req"
| "handle_auth sv AuthLogin req = post_login sv req"
| "handle_auth sv AuthRefresh req = post_refresh sv req"
| "handle_auth sv AuthLogout req = post_logout sv req"
| "handle_auth sv AuthLogoutAll req = post_logout_all sv req"
| "handle_auth sv AuthMe req = get_auth_me sv req"

primrec handle_account :: "'s services \<Rightarrow> account_route \<Rightarrow> request \<Rightarrow> ('s, response) site_act" where
  "handle_account sv SessionsGet req = get_sessions sv req"
| "handle_account sv (SessionDelete i) req = delete_session sv i req"
| "handle_account sv UsersMeGet req = get_users_me sv req"
| "handle_account sv UsersMePut req = put_users_me sv req"
| "handle_account sv (UserGet i) req = get_user sv i req"

primrec handle_conversation :: "'s services \<Rightarrow> conversation_route \<Rightarrow> request \<Rightarrow> ('s, response) site_act" where
  "handle_conversation sv ConversationPost req = post_conversation sv req"
| "handle_conversation sv ConversationsGet req = get_conversations sv req"
| "handle_conversation sv (ConversationGet i) req = get_conversation sv i req"
| "handle_conversation sv (ConversationDelete i) req = delete_conversation_route sv i req"
| "handle_conversation sv (ConversationNamePatch i) req = patch_conversation_name sv i req"
| "handle_conversation sv (MemberPost i) req = post_member sv i req"
| "handle_conversation sv (MemberDelete i u) req = delete_member sv i u req"
| "handle_conversation sv (LeavePost i) req = post_leave sv i req"

primrec handle_message :: "'s services \<Rightarrow> message_route \<Rightarrow> request \<Rightarrow> ('s, response) site_act" where
  "handle_message sv MessagePost req = post_message sv req"
| "handle_message sv MessagesGet req = get_messages sv req"
| "handle_message sv (MessagePatch i) req = patch_message sv i req"
| "handle_message sv (MessageDelete i) req = delete_message sv i req"
| "handle_message sv (ReactionPost i) req = post_reaction sv i req"
| "handle_message sv (ReactionDelete i) req = delete_reaction sv i req"
| "handle_message sv (ReactionsGet i) req = get_reactions sv i req"

primrec handle_notice :: "'s services \<Rightarrow> notice_route \<Rightarrow> request \<Rightarrow> ('s, response) site_act" where
  "handle_notice sv NotificationsGet req = get_notifications sv req"
| "handle_notice sv (NotificationReadPost i) req = post_notification_read sv i req"
| "handle_notice sv NotificationsReadAllPost req = post_notifications_read_all sv req"
| "handle_notice sv (NotificationDelete i) req = delete_notification sv i req"
| "handle_notice sv SearchGet req = get_search_messages sv req"

primrec handle_attachment :: "'s services \<Rightarrow> attachment_route \<Rightarrow> request \<Rightarrow> ('s, response) site_act" where
  "handle_attachment sv AttachmentPost req = post_attachment sv req"
| "handle_attachment sv (AttachmentGet i) req = get_attachment sv i False req"
| "handle_attachment sv (ThumbnailGet i) req = get_attachment sv i True req"
| "handle_attachment sv (AttachmentDelete i) req = delete_attachment sv i req"

primrec handle_api :: "'s services \<Rightarrow> api_route \<Rightarrow> request \<Rightarrow> ('s, response) site_act" where
  "handle_api sv (AuthRoute r) req = handle_auth sv r req"
| "handle_api sv (AccountRoute r) req = handle_account sv r req"
| "handle_api sv (ConversationRoute r) req = handle_conversation sv r req"
| "handle_api sv (MessageRoute r) req = handle_message sv r req"
| "handle_api sv (NoticeRoute r) req = handle_notice sv r req"
| "handle_api sv (AttachmentRoute r) req = handle_attachment sv r req"

text \<open>\<^verbatim>\<open>RTC_API_ROUTE\<close> registers a handler under the plain and the versioned prefix.\<close>

definition api_paths :: "string \<Rightarrow> string list" where
  "api_paths path = [''/api'' @ path, ''/api/v1'' @ path]"

definition serve_api :: "'s services \<Rightarrow> api_route \<Rightarrow> request \<Rightarrow> 's site \<Rightarrow> response \<times> 's site" where
  "serve_api sv r req = guarded_endpoint (sv_dump sv) (handle_api sv r req)"

end
