(* ===== verification/Metrics.thy ===== *)
theory Metrics
  imports Prelude "HOL-Library.Finite_Map" "HOL-Library.Word" "HOL-Library.List_Lexorder" "HOL-Library.Char_ord"
begin

text \<open>
  The metrics registry, \<^verbatim>\<open>metrics/metrics_registry.cpp\<close>: counters, gauges and histograms, and the text
  format that Prometheus reads. A finite double is the rational number it denotes; adding two doubles
  (\<open>add\<close>), dividing (\<open>divide_by\<close>) and printing one (\<open>show\<close>) are those of the platform. Every call
  holds the mutex and is one step.
\<close>

record metric_histogram =
  hg_sum :: rat
  hg_count :: "64 word"
  hg_bounds :: "rat list"
  hg_bucket_counts :: "64 word list"

record 's metrics =
  mt_counters :: "(string, rat) fmap"
  mt_gauges :: "(string, rat) fmap"
  mt_gauge_callbacks :: "(string, 's \<Rightarrow> rat) fmap"
  mt_histograms :: "(string, metric_histogram) fmap"
  mt_start :: rat

definition MetricsRegistry_create :: "rat \<Rightarrow> 's metrics" where
  "MetricsRegistry_create start =
     \<lparr>mt_counters = fmempty, mt_gauges = fmempty, mt_gauge_callbacks = fmempty, mt_histograms = fmempty, mt_start = start\<rparr>"

definition default_buckets :: "rat list" where
  "default_buckets = [5/1000, 1/100, 25/1000, 5/100, 1/10, 25/100, 5/10, 1, 25/10, 5, 10]"

definition empty_histogram :: metric_histogram where
  "empty_histogram = \<lparr>hg_sum = 0, hg_count = 0, hg_bounds = [], hg_bucket_counts = []\<rparr>"

definition histogram_for :: "string \<Rightarrow> 's metrics \<Rightarrow> metric_histogram" where
  "histogram_for name m =
     (let h = (case fmlookup (mt_histograms m) name of Some h \<Rightarrow> h | None \<Rightarrow> empty_histogram)
      in if hg_bounds h = []
         then h\<lparr>hg_bounds := default_buckets, hg_bucket_counts := replicate (length default_buckets) 0\<rparr> else h)"

definition MetricsRegistry_counter :: "string \<Rightarrow> 's metrics \<Rightarrow> rat" where
  "MetricsRegistry_counter name m = (case fmlookup (mt_counters m) name of Some v \<Rightarrow> v | None \<Rightarrow> 0)"

definition MetricsRegistry_increment :: "(rat \<Rightarrow> rat \<Rightarrow> rat) \<Rightarrow> string \<Rightarrow> rat \<Rightarrow> 's metrics \<Rightarrow> 's metrics" where
  "MetricsRegistry_increment add name amount m =
     m\<lparr>mt_counters := fmupd name (add (MetricsRegistry_counter name m) amount) (mt_counters m)\<rparr>"

definition MetricsRegistry_set_gauge :: "string \<Rightarrow> rat \<Rightarrow> 's metrics \<Rightarrow> 's metrics" where
  "MetricsRegistry_set_gauge name v m = m\<lparr>mt_gauges := fmupd name v (mt_gauges m)\<rparr>"

definition MetricsRegistry_register_histogram :: "string \<Rightarrow> rat list \<Rightarrow> 's metrics \<Rightarrow> 's metrics" where
  "MetricsRegistry_register_histogram name buckets m =
     (let bounds = remdups_adj (sort buckets)
      in m\<lparr>mt_histograms := fmupd name
             \<lparr>hg_sum = 0, hg_count = 0, hg_bounds = bounds, hg_bucket_counts = replicate (length bounds) 0\<rparr>
             (mt_histograms m)\<rparr>)"

text \<open>\<^verbatim>\<open>std::lower_bound\<close>: the position of the first bound that is not below the value.\<close>

definition lower_bound :: "rat list \<Rightarrow> rat \<Rightarrow> nat" where
  "lower_bound bounds v = length (takeWhile (\<lambda>b. b < v) bounds)"

definition observe_value :: "(rat \<Rightarrow> rat \<Rightarrow> rat) \<Rightarrow> rat \<Rightarrow> metric_histogram \<Rightarrow> metric_histogram" where
  "observe_value add v h =
     (let h = h\<lparr>hg_sum := add (hg_sum h) v, hg_count := hg_count h + 1\<rparr>;
          i = lower_bound (hg_bounds h) v
      in if i < length (hg_bounds h)
         then h\<lparr>hg_bucket_counts := (hg_bucket_counts h)[i := hg_bucket_counts h ! i + 1]\<rparr> else h)"

definition MetricsRegistry_observe :: "(rat \<Rightarrow> rat \<Rightarrow> rat) \<Rightarrow> string \<Rightarrow> rat \<Rightarrow> 's metrics \<Rightarrow> 's metrics" where
  "MetricsRegistry_observe add name v m =
     m\<lparr>mt_histograms := fmupd name (observe_value add v (histogram_for name m)) (mt_histograms m)\<rparr>"

definition MetricsRegistry_register_gauge_callback :: "string \<Rightarrow> ('s \<Rightarrow> rat) \<Rightarrow> 's metrics \<Rightarrow> 's metrics" where
  "MetricsRegistry_register_gauge_callback name callback m =
     m\<lparr>mt_gauge_callbacks := fmupd name callback (mt_gauge_callbacks m)\<rparr>"

definition MetricsRegistry_uptime_seconds :: "rat \<Rightarrow> 's metrics \<Rightarrow> rat" where
  "MetricsRegistry_uptime_seconds steady m = steady - mt_start m"


section \<open>Rendering\<close>

definition in_order :: "(string, 'v) fmap \<Rightarrow> (string \<times> 'v) list" where
  "in_order m = map (\<lambda>k. (k, the (fmlookup m k))) (sorted_list_of_fset (fmdom m))"

definition newline :: string where
  "newline = [CHR 0x0A]"

definition quote :: string where
  "quote = [CHR 0x22]"

definition simple_lines :: "(rat \<Rightarrow> string) \<Rightarrow> string \<Rightarrow> string \<Rightarrow> rat \<Rightarrow> string" where
  "simple_lines show kind name v =
     ''# TYPE '' @ name @ '' '' @ kind @ newline @ name @ '' '' @ show v @ newline"

text \<open>The cumulative counts of the buckets, in the order of their bounds.\<close>

fun cumulate :: "64 word \<Rightarrow> rat list \<Rightarrow> 64 word list \<Rightarrow> (rat \<times> 64 word) list" where
  "cumulate acc (b # bs) (n # ns) = (b, acc + n) # cumulate (acc + n) bs ns"
| "cumulate acc _ _ = []"

definition cumulative_buckets :: "metric_histogram \<Rightarrow> (rat \<times> 64 word) list" where
  "cumulative_buckets h = cumulate 0 (hg_bounds h) (hg_bucket_counts h)"

definition word_text :: "64 word \<Rightarrow> string" where
  "word_text n = nat_to_string (unat n)"

definition histogram_lines :: "(rat \<Rightarrow> string) \<Rightarrow> (rat \<Rightarrow> 64 word \<Rightarrow> rat) \<Rightarrow> string \<Rightarrow> metric_histogram \<Rightarrow> string" where
  "histogram_lines show divide_by name h =
     ''# TYPE '' @ name @ '' histogram'' @ newline @
     concat (map (\<lambda>(b, n). name @ ''_bucket{le='' @ quote @ show b @ quote @ ''} '' @ word_text n @ newline) (cumulative_buckets h)) @
     name @ ''_bucket{le='' @ quote @ ''+Inf'' @ quote @ ''} '' @ word_text (hg_count h) @ newline @
     name @ ''_sum '' @ show (hg_sum h) @ newline @
     name @ ''_count '' @ word_text (hg_count h) @ newline @
     ''# TYPE '' @ name @ ''_avg gauge'' @ newline @
     name @ ''_avg '' @ show (if hg_count h = 0 then 0 else divide_by (hg_sum h) (hg_count h)) @ newline"

definition render_prometheus :: "(rat \<Rightarrow> string) \<Rightarrow> (rat \<Rightarrow> 64 word \<Rightarrow> rat) \<Rightarrow> 's \<Rightarrow> 's metrics \<Rightarrow> string" where
  "render_prometheus show divide_by s m =
     concat (map (\<lambda>(name, v). simple_lines show ''counter'' name v) (in_order (mt_counters m))) @
     concat (map (\<lambda>(name, v). simple_lines show ''gauge'' name v) (in_order (mt_gauges m))) @
     concat (map (\<lambda>(name, callback). simple_lines show ''gauge'' name (callback s)) (in_order (mt_gauge_callbacks m))) @
     concat (map (\<lambda>(name, h). histogram_lines show divide_by name h) (in_order (mt_histograms m)))"


section \<open>Histograms count what they say\<close>

definition tally :: "rat list \<Rightarrow> rat list \<Rightarrow> nat \<Rightarrow> 64 word" where
  "tally bounds obs i = of_nat (length (filter (\<lambda>v. lower_bound bounds v = i) obs))"

text \<open>The histogram that observing \<open>obs\<close> leaves behind.\<close>

definition counts_of :: "rat list \<Rightarrow> rat list \<Rightarrow> metric_histogram \<Rightarrow> bool" where
  "counts_of bounds obs h \<longleftrightarrow>
     hg_bounds h = bounds \<and> hg_count h = of_nat (length obs) \<and>
     hg_bucket_counts h = map (tally bounds obs) [0..<length bounds]"

lemma observe_counts:
  assumes "counts_of bounds obs h"
  shows "counts_of bounds (obs @ [v]) (observe_value add v h)"
proof -
  let ?i = "lower_bound bounds v"
  have "tally bounds (obs @ [v]) k = tally bounds obs k + (if ?i = k then 1 else 0)" for k
    by (simp add: tally_def)
  then have "map (tally bounds (obs @ [v])) [0..<length bounds] =
      (if ?i < length bounds then (map (tally bounds obs) [0..<length bounds])[?i := tally bounds obs ?i + 1]
       else map (tally bounds obs) [0..<length bounds])"
    by (auto intro!: nth_equalityI simp: nth_list_update)
  with assms show ?thesis by (simp add: counts_of_def observe_value_def Let_def)
qed

lemma lower_bound_le:
  assumes "sorted_wrt (<) bounds" "i < length bounds"
  shows "lower_bound bounds v \<le> i \<longleftrightarrow> v \<le> bounds ! i"
  using assms
proof (induction bounds arbitrary: i)
  case (Cons b bounds)
  show ?case
  proof (cases i)
    case (Suc k)
    with Cons.prems have b: "b < bounds ! k" by simp
    have "v \<le> bounds ! k" if "\<not> b < v" using b that by linarith
    with Suc Cons show ?thesis by (simp add: lower_bound_def)
  qed (auto simp: lower_bound_def)
qed simp

lemma cumulate_nth:
  "length ns = length bs \<Longrightarrow> i < length bs \<Longrightarrow>
    cumulate acc bs ns ! i = (bs ! i, acc + sum_list (take (Suc i) ns)) \<and> length (cumulate acc bs ns) = length bs"
proof (induction acc bs ns arbitrary: i rule: cumulate.induct)
  case (1 acc b bs n ns)
  show ?case
  proof (cases i)
    case 0
    with 1 show ?thesis by (cases "bs = []") auto
  next
    case (Suc k)
    with 1 show ?thesis by (auto simp: add.assoc)
  qed
qed auto

lemma sum_tally:
  "sum_list (map (tally bounds obs) [0..<k]) = of_nat (length (filter (\<lambda>v. lower_bound bounds v < k) obs))"
proof (induction k)
  case (Suc k)
  have "length (filter (\<lambda>v. lower_bound bounds v < Suc k) obs) =
      length (filter (\<lambda>v. lower_bound bounds v < k) obs) + length (filter (\<lambda>v. lower_bound bounds v = k) obs)"
    by (induction obs) (auto simp: less_Suc_eq)
  with Suc show ?case by (simp add: tally_def)
qed simp

lemma cumulative_counts:
  assumes "counts_of bounds obs h" "sorted_wrt (<) bounds"
  shows "cumulative_buckets h = map (\<lambda>b. (b, of_nat (length (filter (\<lambda>v. v \<le> b) obs)))) bounds"
proof (rule nth_equalityI)
  have len: "length (hg_bucket_counts h) = length (hg_bounds h)" and b: "hg_bounds h = bounds"
    using assms(1) by (simp_all add: counts_of_def)
  show same: "length (cumulative_buckets h) = length (map (\<lambda>b. (b, of_nat (length (filter (\<lambda>v. v \<le> b) obs)) :: 64 word)) bounds)"
    using cumulate_nth [OF len, of 0 0] b by (cases bounds) (auto simp: cumulative_buckets_def)
  fix i assume "i < length (cumulative_buckets h)"
  then have i: "i < length bounds" using same by simp
  have "take (Suc i) (hg_bucket_counts h) = map (tally bounds obs) [0..<Suc i]"
    using assms(1) i by (simp add: counts_of_def take_map take_upt del: upt_Suc)
  then have "sum_list (take (Suc i) (hg_bucket_counts h)) = of_nat (length (filter (\<lambda>v. lower_bound bounds v < Suc i) obs))"
    by (simp only: sum_tally)
  moreover have "filter (\<lambda>v. lower_bound bounds v < Suc i) obs = filter (\<lambda>v. v \<le> bounds ! i) obs"
    using lower_bound_le [OF assms(2) i] by (simp add: less_Suc_eq_le)
  ultimately show "cumulative_buckets h ! i = map (\<lambda>b. (b, of_nat (length (filter (\<lambda>v. v \<le> b) obs)))) bounds ! i"
    using cumulate_nth [OF len, of i 0] i by (simp add: cumulative_buckets_def b)
qed

lemma strict_remdups_adj: "sorted xs \<Longrightarrow> sorted_wrt (<) (remdups_adj (xs :: rat list))"
  by (induction xs rule: remdups_adj.induct) (force simp: less_le)+

lemma sorted_buckets: "sorted_wrt (<) (remdups_adj (sort (xs :: rat list)))"
  by (rule strict_remdups_adj) simp

definition observe_all :: "(rat \<Rightarrow> rat \<Rightarrow> rat) \<Rightarrow> string \<Rightarrow> rat list \<Rightarrow> 's metrics \<Rightarrow> 's metrics" where
  "observe_all add name obs m = fold (MetricsRegistry_observe add name) obs m"

text \<open>C40. A histogram reports exactly what was observed. After registering boundaries (in any order and with
  repetitions) and observing any values, the rendered buckets are the distinct boundaries in ascending
  order, each with the number of observations at or below it, and the total is the number of
  observations; registering again starts from zero.\<close>

theorem histogram_counts:
  assumes "buckets \<noteq> []"
  shows "\<exists>h. fmlookup (mt_histograms (observe_all add name obs (MetricsRegistry_register_histogram name buckets m))) name = Some h \<and>
    sorted_wrt (<) (map fst (cumulative_buckets h)) \<and> set (map fst (cumulative_buckets h)) = set buckets \<and>
    (\<forall>b n. (b, n) \<in> set (cumulative_buckets h) \<longrightarrow> n = of_nat (length (filter (\<lambda>v. v \<le> b) obs))) \<and>
    hg_count h = of_nat (length obs)"
proof -
  let ?bounds = "remdups_adj (sort buckets)" and ?m = "MetricsRegistry_register_histogram name buckets m"
  have "set ?bounds = set buckets" by simp
  with assms have ne: "?bounds \<noteq> []" by (metis set_empty)
  have "\<exists>h. fmlookup (mt_histograms (observe_all add name obs ?m)) name = Some h \<and> counts_of ?bounds obs h"
  proof (induction obs rule: rev_induct)
    case Nil
    have "replicate (length ?bounds) 0 = map (tally ?bounds []) [0..<length ?bounds]"
      by (intro nth_equalityI) (simp_all add: tally_def)
    then show ?case
      by (simp add: observe_all_def MetricsRegistry_register_histogram_def counts_of_def Let_def)
  next
    case (snoc v obs)
    then obtain h where h: "fmlookup (mt_histograms (observe_all add name obs ?m)) name = Some h" "counts_of ?bounds obs h" by blast
    then have "histogram_for name (observe_all add name obs ?m) = h"
      using ne by (auto simp: histogram_for_def counts_of_def Let_def)
    with observe_counts [OF h(2)] show ?case by (simp add: observe_all_def MetricsRegistry_observe_def)
  qed
  then obtain h where h: "fmlookup (mt_histograms (observe_all add name obs ?m)) name = Some h" "counts_of ?bounds obs h" by blast
  note c = cumulative_counts [OF h(2) sorted_buckets]
  have keys: "map fst (cumulative_buckets h) = ?bounds" by (simp add: c o_def)
  have "n = of_nat (length (filter (\<lambda>v. v \<le> b) obs))" if "(b, n) \<in> set (cumulative_buckets h)" for b n
    using that by (auto simp: c)
  moreover have "sorted_wrt (<) (map fst (cumulative_buckets h))" "set (map fst (cumulative_buckets h)) = set buckets"
    "hg_count h = of_nat (length obs)"
    unfolding keys using h(2) by (simp_all add: sorted_buckets counts_of_def)
  ultimately show ?thesis using h(1) by blast
qed

theorem histogram_counts_witness:
  "\<exists>h. fmlookup (mt_histograms (observe_all (+) ''size'' [3, 1, 7] (MetricsRegistry_register_histogram ''size'' [5, 2, 5]
      (MetricsRegistry_create 0)))) ''size'' = Some h \<and> hg_count h = 3"
  using histogram_counts [of "[5, 2, 5]" "(+)" "''size''" "[3, 1, 7]" "MetricsRegistry_create 0"] by auto

end
