(* ===== verification/AdminController.thy ===== *)
theory AdminController
  imports Controllers EventBus Metrics Connections
begin

text \<open>
  \<^verbatim>\<open>controllers/admin_controller.cpp\<close>: every administrative handler behind \<^verbatim>\<open>authorize\<close>, and the table of its routes.
  The components the handlers only read (the connection registry, the cluster bus, the event bus with its
  worker pool, the metrics and the statistics of the cache) are arguments.
\<close>

section \<open>Reading requests\<close>

definition optional_bool_param :: "request \<Rightarrow> string \<Rightarrow> bool option" where
  "optional_bool_param req name = map_option affirmative (rq_params req name)"

definition admin_user_to_json :: "admin_user_record \<Rightarrow> json" where
  "admin_user_to_json r =
     JObj [(''id'', JInt (u_id (ar_user r))), (''username'', JStr (u_username (ar_user r))), (''email'', JStr (u_email (ar_user r))),
           (''role'', JStr (role_to_string (ar_role r))), (''banned'', JBool (ar_is_banned r)),
           (''created_at'', JStr (to_iso8601 (u_created_at (ar_user r)))), (''updated_at'', JStr (to_iso8601 (u_updated_at (ar_user r)))),
           (''display_name'', opt_json JStr (u_display_name (ar_user r))),
           (''banned_at'', opt_json (\<lambda>t. JStr (to_iso8601 t)) (ar_banned_at r)),
           (''ban_reason'', opt_json JStr (ar_ban_reason r)), (''banned_by'', opt_json JInt (ar_banned_by r))]"

definition audit_filter_from :: "request \<Rightarrow> ('s, audit_log_filter) site_act" where
  "audit_filter_from req =
     seq (checked (optional_int_param req ''actor_id'')) (\<lambda>actor_id.
     seq (checked (optional_int_param req ''from'')) (\<lambda>from_epoch.
     seq (checked (optional_int_param req ''to'')) (\<lambda>to_epoch.
     ret \<lparr>lf_actor_id = actor_id, lf_event_type = rq_params req ''event_type'', lf_target_type = rq_params req ''target_type'',
          lf_target_id = rq_params req ''target_id'', lf_correlation_id = rq_params req ''correlation_id'',
          lf_from_epoch = from_epoch, lf_to_epoch = to_epoch\<rparr>)))"

definition parse_role_text :: "string \<Rightarrow> role result" where
  "parse_role_text raw =
     (case parse_role raw of
        None \<Rightarrow> Inl (ValidationException (''Unknown role: '' @ raw) ''field=role'')
      | Some ro \<Rightarrow> Inr ro)"

definition user_filter_from :: "request \<Rightarrow> ('s, admin_user_filter) site_act" where
  "user_filter_from req =
     seq (case rq_params req ''role'' of
            None \<Rightarrow> ret None
          | Some raw \<Rightarrow> seq (checked (parse_role_text raw)) (\<lambda>ro. ret (Some ro))) (\<lambda>ro.
     ret \<lparr>af_query = rq_params req ''q'', af_role = ro, af_banned = optional_bool_param req ''banned''\<rparr>)"


section \<open>Authorisation\<close>

abbreviation authz_ttl :: "'s services \<Rightarrow> int" where
  "authz_ttl sv \<equiv> authz_cache_ttl_seconds (sv_config sv)"

definition admin_authorize :: "'s services \<Rightarrow> request \<Rightarrow> permission \<Rightarrow> ('s, int) site_act" where
  "admin_authorize sv req p =
     seq (signed_in sv req) (\<lambda>claims.
     seq (on_node (AuthorizationService_require_permission (sv_ops sv) (authz_ttl sv) (tk_user_id claims) p)) (\<lambda>_.
     ret (tk_user_id claims)))"

definition admin_event :: "int \<Rightarrow> string \<Rightarrow> string \<Rightarrow> string \<Rightarrow> (string \<times> json) list \<Rightarrow> ('s, unit) site_act" where
  "admin_event actor_id action target_type target_id details = call (publish (AdminAction actor_id action target_type target_id (JObj details)))"


section \<open>Users\<close>

definition admin_list_users :: "'s services \<Rightarrow> request \<Rightarrow> ('s, response) site_act" where
  "admin_list_users sv req =
     seq (admin_authorize sv req kManageUsers) (\<lambda>_.
     seq (user_filter_from req) (\<lambda>f.
     seq (checked (Pagination_from_request (rq_params req))) (\<lambda>page.
     seq (call (PgUserAdminRepository_list f page)) (\<lambda>records.
     seq (call (PgUserAdminRepository_count f)) (\<lambda>total.
     json_reply sv 200 (JObj [(''total'', JInt total), (''limit'', JInt (pg_limit page)), (''offset'', JInt (pg_offset page)),
       (''users'', JArr (map admin_user_to_json records))]))))))"

definition admin_get_user :: "'s services \<Rightarrow> int \<Rightarrow> request \<Rightarrow> ('s, response) site_act" where
  "admin_get_user sv user_id req =
     seq (admin_authorize sv req kManageUsers) (\<lambda>_.
     seq (call (PgUserAdminRepository_find user_id)) (\<lambda>found.
     case found of
       None \<Rightarrow> throw (AppThrown (NotFoundException ''User not found'' (''user_id='' @ to_string user_id)))
     | Some r \<Rightarrow> json_reply sv 200 (admin_user_to_json r)))"

definition admin_put_role :: "'s services \<Rightarrow> int \<Rightarrow> request \<Rightarrow> ('s, response) site_act" where
  "admin_put_role sv user_id req =
     seq (admin_authorize sv req kManageRoles) (\<lambda>actor_id.
     seq (json_body sv req) (\<lambda>body.
     seq (checked (require_string_field body ''role'')) (\<lambda>requested.
     seq (checked (parse_role_text requested)) (\<lambda>target_role.
     seq (on_node (AuthorizationService_role_of (sv_ops sv) (authz_ttl sv) actor_id)) (\<lambda>actor_role.
     seq (require (can_assign_role actor_role target_role)
            (AppThrown (AuthorizationException ''Cannot assign a role at or above your own''
               (''actor_role='' @ role_to_string actor_role @ '' target_role='' @ role_to_string target_role)))) (\<lambda>_.
     seq (call (PgUserAdminRepository_set_role user_id target_role)) (\<lambda>previous.
     seq (on_node (AuthorizationService_invalidate (sv_ops sv) user_id)) (\<lambda>_.
     seq (call (publish (UserRoleChanged user_id actor_id (role_to_string previous) (role_to_string target_role)))) (\<lambda>_.
     json_reply sv 200 (JObj [(''user_id'', JInt user_id), (''previous_role'', JStr (role_to_string previous)),
       (''role'', JStr (role_to_string target_role))]))))))))))"

definition ban_reason_of :: "json \<Rightarrow> string option" where
  "ban_reason_of body = (case jfind body ''reason'' of Some (JStr s) \<Rightarrow> Some s | _ \<Rightarrow> None)"

definition admin_post_ban :: "'s services \<Rightarrow> int \<Rightarrow> request \<Rightarrow> ('s, response) site_act" where
  "admin_post_ban sv user_id req =
     seq (admin_authorize sv req kBanUsers) (\<lambda>actor_id.
     seq (require (actor_id \<noteq> user_id) (AppThrown (ValidationException ''You cannot suspend your own account'' []))) (\<lambda>_.
     seq (on_node (AuthorizationService_role_of (sv_ops sv) (authz_ttl sv) actor_id)) (\<lambda>actor_role.
     seq (on_node (AuthorizationService_role_of (sv_ops sv) (authz_ttl sv) user_id)) (\<lambda>target_role.
     seq (require (role_ord target_role < role_ord actor_role)
            (AppThrown (AuthorizationException ''Cannot suspend an account at or above your own role'' []))) (\<lambda>_.
     seq (json_body sv req) (\<lambda>body.
     let reason = ban_reason_of body in
     seq (call (PgUserAdminRepository_set_banned user_id True reason (Some actor_id))) (\<lambda>_.
     seq (on_node (AuthorizationService_invalidate (sv_ops sv) user_id)) (\<lambda>_.
     seq (call (SessionService_revoke_all user_id)) (\<lambda>revoked.
     seq (admin_event actor_id ''user.ban'' ''user'' (to_string user_id)
            [(''reason'', JStr (case reason of None \<Rightarrow> [] | Some r \<Rightarrow> r)), (''sessions_revoked'', JInt revoked)]) (\<lambda>_.
     json_reply sv 200 (JObj [(''user_id'', JInt user_id), (''banned'', JBool True), (''sessions_revoked'', JInt revoked)])))))))))))"

definition admin_post_unban :: "'s services \<Rightarrow> int \<Rightarrow> request \<Rightarrow> ('s, response) site_act" where
  "admin_post_unban sv user_id req =
     seq (admin_authorize sv req kBanUsers) (\<lambda>actor_id.
     seq (call (PgUserAdminRepository_set_banned user_id False None None)) (\<lambda>_.
     seq (on_node (AuthorizationService_invalidate (sv_ops sv) user_id)) (\<lambda>_.
     seq (admin_event actor_id ''user.unban'' ''user'' (to_string user_id) []) (\<lambda>_.
     json_reply sv 200 (JObj [(''user_id'', JInt user_id), (''banned'', JBool False)])))))"

definition admin_session_to_json :: "session \<Rightarrow> json" where
  "admin_session_to_json s =
     JObj [(''id'', JStr (s_id s)), (''created_at'', JStr (to_iso8601 (s_created_at s))),
           (''last_used_at'', JStr (to_iso8601 (s_last_used_at s))), (''expires_at'', JStr (to_iso8601 (s_expires_at s))),
           (''user_agent'', JStr (case s_user_agent s of None \<Rightarrow> [] | Some a \<Rightarrow> a)),
           (''ip'', JStr (case s_ip s of None \<Rightarrow> [] | Some a \<Rightarrow> a))]"

definition admin_get_sessions :: "'s services \<Rightarrow> int \<Rightarrow> request \<Rightarrow> ('s, response) site_act" where
  "admin_get_sessions sv user_id req =
     seq (admin_authorize sv req kViewSessions) (\<lambda>_.
     seq (call (SessionService_list user_id)) (\<lambda>sessions.
     json_reply sv 200 (JObj [(''user_id'', JInt user_id), (''sessions'', JArr (map admin_session_to_json sessions))])))"

definition admin_delete_sessions :: "'s services \<Rightarrow> int \<Rightarrow> request \<Rightarrow> ('s, response) site_act" where
  "admin_delete_sessions sv user_id req =
     seq (admin_authorize sv req kRevokeSessions) (\<lambda>actor_id.
     seq (call (SessionService_revoke_all user_id)) (\<lambda>revoked.
     seq (admin_event actor_id ''session.revoke_all'' ''user'' (to_string user_id) [(''revoked'', JInt revoked)]) (\<lambda>_.
     json_reply sv 200 (JObj [(''user_id'', JInt user_id), (''revoked'', JInt revoked)]))))"

section \<open>Conversations\<close>

definition admin_require_conversation :: "int \<Rightarrow> ('s, conversation) site_act" where
  "admin_require_conversation conversation_id =
     seq (call (PgConversationRepository_find_by_id conversation_id)) (\<lambda>found.
     case found of
       None \<Rightarrow> throw (AppThrown (NotFoundException ''Conversation not found'' (''conversation_id='' @ to_string conversation_id)))
     | Some c \<Rightarrow> ret c)"

definition admin_participant_to_json :: "participant \<Rightarrow> json" where
  "admin_participant_to_json p =
     JObj [(''user_id'', JInt (p_user_id p)), (''role'', JStr (participant_role_to_string (p_role p))),
           (''joined_at'', JStr (to_iso8601 (p_joined_at p)))]"

definition admin_get_conversation :: "'s services \<Rightarrow> int \<Rightarrow> request \<Rightarrow> ('s, response) site_act" where
  "admin_get_conversation sv conversation_id req =
     seq (admin_authorize sv req kViewAnyConversation) (\<lambda>_.
     seq (admin_require_conversation conversation_id) (\<lambda>c.
     seq (call (PgConversationRepository_list_participants conversation_id)) (\<lambda>ps.
     json_reply sv 200 (JObj [(''id'', JInt (c_id c)), (''is_group'', JBool (is_group c)),
       (''name'', JStr (case c_name c of None \<Rightarrow> [] | Some n \<Rightarrow> n)), (''owner_id'', opt_json JInt (c_owner_id c)),
       (''created_at'', JStr (to_iso8601 (c_created_at c))), (''participants'', JArr (map admin_participant_to_json ps))]))))"

definition admin_delete_conversation :: "'s services \<Rightarrow> int \<Rightarrow> request \<Rightarrow> ('s, response) site_act" where
  "admin_delete_conversation sv conversation_id req =
     seq (admin_authorize sv req kManageGroups) (\<lambda>actor_id.
     seq (admin_require_conversation conversation_id) (\<lambda>_.
     seq (call (PgConversationRepository_list_participant_ids conversation_id)) (\<lambda>participants.
     seq (call (PgConversationRepository_remove conversation_id)) (\<lambda>_.
     seq (call (broadcast participants kConversationDeleted (JObj [(''conversation_id'', JInt conversation_id)]))) (\<lambda>_.
     seq (admin_event actor_id ''conversation.delete'' ''conversation'' (to_string conversation_id)
            [(''participant_count'', JInt (int (length participants)))]) (\<lambda>_.
     json_reply sv 200 (JObj [(''conversation_id'', JInt conversation_id), (''deleted'', JBool True)])))))))"


section \<open>Operations\<close>

text \<open>What the operational endpoints show: the connection registry, the cluster bus and whether it spans
  several instances, the cache and the name of its backend, the event bus, the metrics with the time,
  and the version of the build.\<close>

record ('s, 'e, 'm) operations =
  op_hub :: hub
  op_cluster :: "(hub cluster_bus \<times> bool) option"
  op_cache :: "'s cache_service"
  op_backend :: string
  op_bus :: "'e event_bus"
  op_metrics :: "'m metrics"
  op_clock :: rat
  op_version :: string

definition uint_json :: "64 word \<Rightarrow> json" where
  "uint_json n = JInt (uint n)"

definition ws_session_to_json :: "ws_session \<Rightarrow> json" where
  "ws_session_to_json s =
     JObj [(''user_id'', JInt (ws_user_id s)), (''username'', JStr (ws_username s)),
           (''protocol_version'', JInt (to_number (ws_protocol_version s))), (''last_activity_ms'', JInt (ws_last_activity_ms s))]"

definition admin_websockets :: "'s services \<Rightarrow> ('s, 'e, 'm) operations \<Rightarrow> request \<Rightarrow> ('s, response) site_act" where
  "admin_websockets sv ops req =
     seq (admin_authorize sv req kViewSystemMetrics) (\<lambda>_.
     let sessions = SessionManager_snapshot (h_sessions (op_hub ops)); cluster = op_cluster ops in
     json_reply sv 200 (JObj
       [(''node_id'', JStr (case cluster of Some (b, _) \<Rightarrow> cb_node_id b | None \<Rightarrow> ''local'')),
        (''distributed'', JBool (case cluster of Some (_, distributed) \<Rightarrow> distributed | None \<Rightarrow> False)),
        (''cluster_published'', uint_json (case cluster of Some (b, _) \<Rightarrow> cb_published b | None \<Rightarrow> 0)),
        (''cluster_received'', uint_json (case cluster of Some (b, _) \<Rightarrow> cb_received b | None \<Rightarrow> 0)),
        (''connection_count'', JInt (int (SessionManager_session_count (h_sessions (op_hub ops))))),
        (''connections'', JArr (map ws_session_to_json sessions))]))"

definition admin_cache :: "'s services \<Rightarrow> ('s, 'e, 'm) operations \<Rightarrow> request \<Rightarrow> ('s, response) site_act" where
  "admin_cache sv ops req =
     seq (admin_authorize sv req kViewSystemMetrics) (\<lambda>_.
     json_reply sv 200 (JObj
       [(''backend'', JStr (op_backend ops)), (''hits'', JInt (int (cs_hits (op_cache ops)))),
        (''misses'', JInt (int (cs_misses (op_cache ops)))), (''hit_ratio'', JFloat (CacheService_hit_ratio (op_cache ops)))]))"

definition admin_jobs :: "'s services \<Rightarrow> ('s, 'e, 'm) operations \<Rightarrow> request \<Rightarrow> ('s, response) site_act" where
  "admin_jobs sv ops req =
     seq (admin_authorize sv req kViewSystemMetrics) (\<lambda>_.
     let b = op_bus ops; p = eb_pool b; d = fst (po_shared p) in
     json_reply sv 200 (JObj
       [(''workers'', JInt (int (po_worker_count p))), (''pending'', JInt (int (BackgroundExecutor_pending p))),
        (''completed'', uint_json (po_completed p)), (''failed'', uint_json (po_failed p)),
        (''event_bus'', JObj
          [(''asynchronous'', JBool (eb_asynchronous b)), (''subscribers'', JInt (int (EventDispatcher_subscriber_count d))),
           (''published'', uint_json (eb_published b)), (''dropped'', uint_json (eb_dropped b)),
           (''dispatched'', uint_json (ed_dispatched d)), (''handler_failures'', uint_json (ed_failures d))])]))"

definition admin_system :: "'s services \<Rightarrow> ('s, 'e, 'm) operations \<Rightarrow> request \<Rightarrow> ('s, response) site_act" where
  "admin_system sv ops req =
     seq (admin_authorize sv req kViewSystemMetrics) (\<lambda>_.
     seq (call PgUserAdminRepository_counts_by_role) (\<lambda>counts.
     json_reply sv 200 (JObj
       [(''version'', JStr (op_version ops)), (''uptime_seconds'', JFloat (MetricsRegistry_uptime_seconds (op_clock ops) (op_metrics ops))),
        (''http_requests_total'', JFloat (MetricsRegistry_counter ''rtc_http_requests_total'' (op_metrics ops))),
        (''http_4xx_total'', JFloat (MetricsRegistry_counter ''rtc_http_4xx_total'' (op_metrics ops))),
        (''http_5xx_total'', JFloat (MetricsRegistry_counter ''rtc_http_5xx_total'' (op_metrics ops))),
        (''websocket_connections'', JInt (int (SessionManager_session_count (h_sessions (op_hub ops))))),
        (''users_by_role'', JArr (map (\<lambda>(ro, n). JObj [(''role'', JStr (role_to_string ro)), (''count'', JInt n)]) counts))])))"

definition admin_audit_logs :: "'s services \<Rightarrow> request \<Rightarrow> ('s, response) site_act" where
  "admin_audit_logs sv req =
     seq (admin_authorize sv req kViewAuditLogs) (\<lambda>_.
     seq (audit_filter_from req) (\<lambda>f.
     seq (checked (Pagination_from_request (rq_params req))) (\<lambda>page.
     seq (call (AuditService_search f page)) (\<lambda>records.
     seq (call (AuditService_count f)) (\<lambda>total.
     json_reply sv 200 (JObj [(''total'', JInt total), (''limit'', JInt (pg_limit page)), (''offset'', JInt (pg_offset page)),
       (''records'', JArr (map AuditService_to_json records))]))))))"

definition admin_audit_summary :: "'s services \<Rightarrow> request \<Rightarrow> ('s, response) site_act" where
  "admin_audit_summary sv req =
     seq (admin_authorize sv req kViewAuditLogs) (\<lambda>_.
     seq (audit_filter_from req) (\<lambda>f.
     seq (call (AuditService_summary f)) (\<lambda>body.
     json_reply sv 200 body)))"

definition admin_features :: "'s services \<Rightarrow> request \<Rightarrow> ('s, response) site_act" where
  "admin_features sv req =
     seq (admin_authorize sv req kViewSystemMetrics) (\<lambda>_.
     seq (gets st_flags) (\<lambda>flags.
     json_reply sv 200 (JObj [(''features'', FeatureFlags_to_json flags)])))"

definition set_flag :: "feature \<Rightarrow> bool \<Rightarrow> ('s, bool) site_act" where
  "set_flag f enabled s = (case FeatureFlags_set f enabled (st_flags s) of (previous, flags) \<Rightarrow> (Inr previous, s\<lparr>st_flags := flags\<rparr>))"

definition admin_put_feature :: "'s services \<Rightarrow> string \<Rightarrow> request \<Rightarrow> ('s, response) site_act" where
  "admin_put_feature sv name req =
     seq (admin_authorize sv req kManageFeatureFlags) (\<lambda>actor_id.
     case parse_feature name of
       None \<Rightarrow> throw (AppThrown (NotFoundException (''Unknown feature flag: '' @ name) (''feature='' @ name)))
     | Some f \<Rightarrow>
         seq (json_body sv req) (\<lambda>body.
         case jfind body ''enabled'' of
           Some (JBool enabled) \<Rightarrow>
             seq (set_flag f enabled) (\<lambda>previous.
             seq (admin_event actor_id ''feature.toggle'' ''feature'' name [(''previous'', JBool previous), (''enabled'', JBool enabled)]) (\<lambda>_.
             json_reply sv 200 (JObj [(''feature'', JStr name), (''previous'', JBool previous), (''enabled'', JBool enabled)])))
         | _ \<Rightarrow> throw (AppThrown (ValidationException ''Missing boolean field: enabled'' ''field=enabled''))))"


section \<open>The routes\<close>

datatype admin_user_route =
    AdminUsersGet | AdminUserGet int | AdminRolePut int | AdminBanPost int | AdminUnbanPost int | AdminSessionsGet int | AdminSessionsDelete int

datatype admin_group_route = AdminConversationGet int | AdminConversationDelete int

datatype admin_operations_route =
    AdminWebsocketsGet | AdminCacheGet | AdminJobsGet | AdminSystemGet | AdminAuditLogsGet | AdminAuditSummaryGet
  | AdminFeaturesGet | AdminFeaturePut string

datatype admin_route =
    AdminUserRoute admin_user_route | AdminGroupRoute admin_group_route | AdminOperationsRoute admin_operations_route

primrec admin_user_rule :: "admin_user_route \<Rightarrow> http_method \<times> string" where
  "admin_user_rule AdminUsersGet = (Get, ''/admin/users'')"
| "admin_user_rule (AdminUserGet i) = (Get, ''/admin/users/<int>'')"
| "admin_user_rule (AdminRolePut i) = (Put, ''/admin/users/<int>/role'')"
| "admin_user_rule (AdminBanPost i) = (Post, ''/admin/users/<int>/ban'')"
| "admin_user_rule (AdminUnbanPost i) = (Post, ''/admin/users/<int>/unban'')"
| "admin_user_rule (AdminSessionsGet i) = (Get, ''/admin/users/<int>/sessions'')"
| "admin_user_rule (AdminSessionsDelete i) = (Delete, ''/admin/users/<int>/sessions'')"

primrec admin_group_rule :: "admin_group_route \<Rightarrow> http_method \<times> string" where
  "admin_group_rule (AdminConversationGet i) = (Get, ''/admin/conversations/<int>'')"
| "admin_group_rule (AdminConversationDelete i) = (Delete, ''/admin/conversations/<int>'')"

primrec admin_operations_rule :: "admin_operations_route \<Rightarrow> http_method \<times> string" where
  "admin_operations_rule AdminWebsocketsGet = (Get, ''/admin/websockets'')"
| "admin_operations_rule AdminCacheGet = (Get, ''/admin/cache'')"
| "admin_operations_rule AdminJobsGet = (Get, ''/admin/jobs'')"
| "admin_operations_rule AdminSystemGet = (Get, ''/admin/system'')"
| "admin_operations_rule AdminAuditLogsGet = (Get, ''/admin/audit-logs'')"
| "admin_operations_rule AdminAuditSummaryGet = (Get, ''/admin/audit-logs/summary'')"
| "admin_operations_rule AdminFeaturesGet = (Get, ''/admin/features'')"
| "admin_operations_rule (AdminFeaturePut name) = (Put, ''/admin/features/<string>'')"

primrec admin_rule :: "admin_route \<Rightarrow> http_method \<times> string" where
  "admin_rule (AdminUserRoute r) = admin_user_rule r"
| "admin_rule (AdminGroupRoute r) = admin_group_rule r"
| "admin_rule (AdminOperationsRoute r) = admin_operations_rule r"

primrec handle_admin_user :: "'s services \<Rightarrow> admin_user_route \<Rightarrow> request \<Rightarrow> ('s, response) site_act" where
  "handle_admin_user sv AdminUsersGet req = admin_list_users sv req"
| "handle_admin_user sv (AdminUserGet i) req = admin_get_user sv i req"
| "handle_admin_user sv (AdminRolePut i) req = admin_put_role sv i req"
| "handle_admin_user sv (AdminBanPost i) req = admin_post_ban sv i req"
| "handle_admin_user sv (AdminUnbanPost i) req = admin_post_unban sv i req"
| "handle_admin_user sv (AdminSessionsGet i) req = admin_get_sessions sv i req"
| "handle_admin_user sv (AdminSessionsDelete i) req = admin_delete_sessions sv i req"

primrec handle_admin_group :: "'s services \<Rightarrow> admin_group_route \<Rightarrow> request \<Rightarrow> ('s, response) site_act" where
  "handle_admin_group sv (AdminConversationGet i) req = admin_get_conversation sv i req"
| "handle_admin_group sv (AdminConversationDelete i) req = admin_delete_conversation sv i req"

primrec handle_admin_operations ::
    "'s services \<Rightarrow> ('s, 'e, 'm) operations \<Rightarrow> admin_operations_route \<Rightarrow> request \<Rightarrow> ('s, response) site_act" where
  "handle_admin_operations sv ops AdminWebsocketsGet req = admin_websockets sv ops req"
| "handle_admin_operations sv ops AdminCacheGet req = admin_cache sv ops req"
| "handle_admin_operations sv ops AdminJobsGet req = admin_jobs sv ops req"
| "handle_admin_operations sv ops AdminSystemGet req = admin_system sv ops req"
| "handle_admin_operations sv ops AdminAuditLogsGet req = admin_audit_logs sv req"
| "handle_admin_operations sv ops AdminAuditSummaryGet req = admin_audit_summary sv req"
| "handle_admin_operations sv ops AdminFeaturesGet req = admin_features sv req"
| "handle_admin_operations sv ops (AdminFeaturePut name) req = admin_put_feature sv name req"

primrec handle_admin :: "'s services \<Rightarrow> ('s, 'e, 'm) operations \<Rightarrow> admin_route \<Rightarrow> request \<Rightarrow> ('s, response) site_act" where
  "handle_admin sv ops (AdminUserRoute r) req = handle_admin_user sv r req"
| "handle_admin sv ops (AdminGroupRoute r) req = handle_admin_group sv r req"
| "handle_admin sv ops (AdminOperationsRoute r) req = handle_admin_operations sv ops r req"

definition serve_admin :: "'s services \<Rightarrow> ('s, 'e, 'm) operations \<Rightarrow> admin_route \<Rightarrow> request \<Rightarrow> 's site \<Rightarrow> response \<times> 's site" where
  "serve_admin sv ops r req = guarded_endpoint (sv_dump sv) (handle_admin sv ops r req)"

end
