(* ===== verification/SiteRules.thy ===== *)
theory SiteRules
  imports AdminController AccountRules
begin

text \<open>
  What the guards in front of the REST handlers guarantee, whatever the handler behind them: which
  requests get past, and that a refused one changes nothing; and what the two administrative operations on
  accounts do.
\<close>

section \<open>One table of routes\<close>

datatype site_route = Api api_route | Admin admin_route

primrec serve_site ::
    "'s services \<Rightarrow> ('s, 'e, 'm) operations \<Rightarrow> site_route \<Rightarrow> request \<Rightarrow> 's site \<Rightarrow> response \<times> 's site" where
  "serve_site sv ops (Api r) = serve_api sv r"
| "serve_site sv ops (Admin r) = serve_admin sv ops r"

definition is_public :: "site_route \<Rightarrow> bool" where
  "is_public r \<longleftrightarrow> r \<in> {Api (AuthRoute AuthRegister), Api (AuthRoute AuthLogin), Api (AuthRoute AuthRefresh)}"

text \<open>Signing out and reading one's own profile are open to a suspended account.\<close>

definition token_suffices :: "site_route \<Rightarrow> bool" where
  "token_suffices r \<longleftrightarrow> r \<in> {Api (AuthRoute AuthLogout), Api (AuthRoute AuthLogoutAll), Api (AuthRoute AuthMe)}"

primrec user_route_permission :: "admin_user_route \<Rightarrow> permission" where
  "user_route_permission AdminUsersGet = kManageUsers"
| "user_route_permission (AdminUserGet i) = kManageUsers"
| "user_route_permission (AdminRolePut i) = kManageRoles"
| "user_route_permission (AdminBanPost i) = kBanUsers"
| "user_route_permission (AdminUnbanPost i) = kBanUsers"
| "user_route_permission (AdminSessionsGet i) = kViewSessions"
| "user_route_permission (AdminSessionsDelete i) = kRevokeSessions"

primrec group_route_permission :: "admin_group_route \<Rightarrow> permission" where
  "group_route_permission (AdminConversationGet i) = kViewAnyConversation"
| "group_route_permission (AdminConversationDelete i) = kManageGroups"

primrec operations_route_permission :: "admin_operations_route \<Rightarrow> permission" where
  "operations_route_permission AdminWebsocketsGet = kViewSystemMetrics"
| "operations_route_permission AdminCacheGet = kViewSystemMetrics"
| "operations_route_permission AdminJobsGet = kViewSystemMetrics"
| "operations_route_permission AdminSystemGet = kViewSystemMetrics"
| "operations_route_permission AdminAuditLogsGet = kViewAuditLogs"
| "operations_route_permission AdminAuditSummaryGet = kViewAuditLogs"
| "operations_route_permission AdminFeaturesGet = kViewSystemMetrics"
| "operations_route_permission (AdminFeaturePut name) = kManageFeatureFlags"

primrec admin_permission :: "admin_route \<Rightarrow> permission" where
  "admin_permission (AdminUserRoute r) = user_route_permission r"
| "admin_permission (AdminGroupRoute r) = group_route_permission r"
| "admin_permission (AdminOperationsRoute r) = operations_route_permission r"

primrec needed_permission :: "site_route \<Rightarrow> permission option" where
  "needed_permission (Api r) = None"
| "needed_permission (Admin r) = Some (admin_permission r)"


section \<open>Every handler starts with its guard\<close>

lemmas self_service_defs = post_logout_def post_logout_all_def get_auth_me_def

lemmas handler_defs = get_sessions_def delete_session_def get_users_me_def put_users_me_def get_user_def post_conversation_def
  get_conversations_def get_conversation_def delete_conversation_route_def patch_conversation_name_def post_member_def
  delete_member_def post_leave_def post_message_def get_messages_def patch_message_def delete_message_def post_reaction_def
  delete_reaction_def get_reactions_def get_notifications_def post_notification_read_def post_notifications_read_all_def
  delete_notification_def get_search_messages_def post_attachment_def get_attachment_def delete_attachment_def

lemmas admin_defs = admin_list_users_def admin_get_user_def admin_put_role_def admin_post_ban_def admin_post_unban_def
  admin_get_sessions_def admin_delete_sessions_def admin_get_conversation_def admin_delete_conversation_def admin_websockets_def
  admin_cache_def admin_jobs_def admin_system_def admin_audit_logs_def admin_audit_summary_def admin_features_def
  admin_put_feature_def

lemma self_service_shape:
  "token_suffices (Api r) \<Longrightarrow> \<exists>f. handle_api sv r req = seq (token_only sv req) f"
  by (auto simp: token_suffices_def self_service_defs)

lemma api_shape:
  assumes "\<not> is_public (Api r)" "\<not> token_suffices (Api r)"
  shows "\<exists>f. handle_api sv r req = seq (signed_in sv req) f"
proof (cases r)
  case (AuthRoute q)
  then show ?thesis using assms by (cases q) (simp_all add: is_public_def token_suffices_def)
next
  case (AccountRoute q)
  then show ?thesis by (cases q) (auto simp: handler_defs)
next
  case (ConversationRoute q)
  then show ?thesis by (cases q) (auto simp: handler_defs)
next
  case (MessageRoute q)
  then show ?thesis by (cases q) (auto simp: handler_defs)
next
  case (NoticeRoute q)
  then show ?thesis by (cases q) (auto simp: handler_defs)
next
  case (AttachmentRoute q)
  then show ?thesis by (cases q) (auto simp: handler_defs)
qed

lemma admin_shape: "\<exists>f. handle_admin sv ops r req = seq (admin_authorize sv req (admin_permission r)) f"
proof (cases r)
  case (AdminUserRoute q)
  then show ?thesis by (cases q) (auto simp: admin_defs)
next
  case (AdminGroupRoute q)
  then show ?thesis by (cases q) (auto simp: admin_defs)
next
  case (AdminOperationsRoute q)
  then show ?thesis by (cases q) (auto simp: admin_defs)
qed


section \<open>Rules for the layers\<close>

lemma wp_on_node [wp_simps]:
  "wp (on_node m) Q E s = wp m (\<lambda>x n. Q x (s\<lparr>st_node := n\<rparr>)) (\<lambda>e n. E (AppThrown e) (s\<lparr>st_node := n\<rparr>)) (st_node s)"
  by (auto simp: wp_def on_node_def as_thrown_def split: prod.splits sum.splits)

lemma wp_call:
  "wp (call m) Q E s = wp m (\<lambda>x w. Q x (s\<lparr>st_node := (st_node s)\<lparr>nd_world := w\<rparr>\<rparr>))
     (\<lambda>e w. E (AppThrown e) (s\<lparr>st_node := (st_node s)\<lparr>nd_world := w\<rparr>\<rparr>)) (nd_world (st_node s))"
  by (simp add: call_def wp_on_node wp_on_world)

lemma wp_checked [wp_simps]:
  "wp (checked r) Q E s = (case r of Inl e \<Rightarrow> E (AppThrown e) s | Inr x \<Rightarrow> Q x s)"
  by (simp add: checked_def as_thrown_def wp_of_result split: sum.splits)

section \<open>Getting past the guard\<close>

text \<open>A decision leaves the world as it was, up to the faults the database had pending.\<close>

definition world_quiet :: "world \<Rightarrow> world \<Rightarrow> bool" where
  "world_quiet w w' \<longleftrightarrow> (\<exists>fs. w' = w\<lparr>faults := fs\<rparr>)"

definition node_quiet :: "'s node \<Rightarrow> 's node \<Rightarrow> bool" where
  "node_quiet n n' \<longleftrightarrow> world_quiet (nd_world n) (nd_world n') \<and> nd_invalidations n' = nd_invalidations n"

lemma world_quiet_refl [simp]: "world_quiet w w"
  unfolding world_quiet_def by (rule exI [of _ "faults w"]) simp

lemma world_quiet_trans: "world_quiet w w' \<Longrightarrow> world_quiet w' w'' \<Longrightarrow> world_quiet w w''"
  by (auto simp: world_quiet_def)

lemma world_quietD:
  assumes "world_quiet w w'"
  shows "db w' = db w" "stored_role u w' = stored_role u w" "stored_ban u w' = stored_ban u w" "bus w' = bus w" "outbox w' = outbox w"
    "disk w' = disk w" "publisher_attached w' = publisher_attached w" "tasks w' = tasks w"
  using assms by (auto simp: world_quiet_def stored_role_def stored_ban_def)

interpretation node_quiet_step: step_relation node_quiet
  by unfold_locales (auto simp: node_quiet_def intro: world_quiet_trans)

lemma node_quiet_rules:
  "keeps node_quiet (on_world (with_transaction (gets f)))" "keeps node_quiet (on_cache g)"
  "keeps node_quiet (modify (\<lambda>n. n\<lparr>nd_authz_misses := nd_authz_misses n + 1\<rparr>))" "keeps node_quiet count_hit"
proof -
  have "world_quiet w (snd (with_transaction (gets f) w))" for w
    using world_quiet_refl [of w]
    by (auto simp: world_quiet_def with_transaction_def gets_apply split: prod.splits list.splits option.splits)
  then show "keeps node_quiet (on_world (with_transaction (gets f)))"
    by (simp add: keeps_def node_quiet_def on_world_def split_beta)
qed (simp_all add: keeps_def node_quiet_def on_cache_def count_hit_def split_beta)

lemma decisions_quiet:
  "keeps node_quiet (AuthorizationService_role_of ops ttl u)" "keeps node_quiet (AuthorizationService_is_banned ops ttl u)"
  unfolding AuthorizationService_role_of_def AuthorizationService_is_banned_def load_role_def PgUserAdminRepository_find_role_def
    PgUserAdminRepository_is_banned_def
  by (intro node_quiet_step.keeps_rules node_quiet_rules)+

text \<open>The claims a request carries a valid access token for.\<close>

definition caller :: "jwt_library \<Rightarrow> jwt_options \<Rightarrow> request \<Rightarrow> world \<Rightarrow> token_claims option" where
  "caller lib options req w =
     (case extract_bearer_token req of
        None \<Rightarrow> None
      | Some token \<Rightarrow> (case fst (JwtTokenService_verify lib options token kAccess w) of Inl e \<Rightarrow> None | Inr c \<Rightarrow> Some c))"

lemma verify_outcome:
  "wp (AuthMiddleware_authenticate_token_only (JwtTokenService lib options) req)
     (\<lambda>c w'. caller lib options req w = Some c \<and> w' = w)
     (\<lambda>e w'. caller lib options req w = None \<and> ex_type e = kAuthentication \<and> w' = w) w"
  by (auto simp: AuthMiddleware_authenticate_token_only_def caller_def JwtTokenService_def JwtTokenService_verify_def wp_def act_simps
      AuthenticationException_def AppException_def split: option.splits sum.splits dest: claims_of_error)

definition site_quiet :: "'s site \<Rightarrow> 's site \<Rightarrow> bool" where
  "site_quiet s s' \<longleftrightarrow> node_quiet (st_node s) (st_node s') \<and> st_flags s' = st_flags s \<and> st_trgm s' = st_trgm s"

lemma signed_in_gate:
  assumes "mem.coherent (st_node s)" "sv_ops sv = InMemoryCacheStore" "sv_tokens sv = JwtTokenService lib options"
  shows "wp (signed_in sv req)
    (\<lambda>c s'. caller lib options req (nd_world (st_node s)) = Some c \<and> \<not> stored_ban (tk_user_id c) (nd_world (st_node s)) \<and>
       mem.coherent (st_node s') \<and> site_quiet s s')
    (\<lambda>e s'. (\<exists>x. e = AppThrown x \<and> (caller lib options req (nd_world (st_node s)) = None \<longrightarrow> ex_type x = kAuthentication)) \<and>
       site_quiet s s') s"
proof -
  let ?n = "st_node s" and ?w = "nd_world (st_node s)" and ?ttl = "authz_ttl sv"
  have ban: "wp (AuthorizationService_is_banned InMemoryCacheStore ?ttl u)
      (\<lambda>b n'. b = stored_ban u ?w \<and> mem.coherent n' \<and> node_quiet ?n n') (\<lambda>_ n'. node_quiet ?n n') ?n" for u
    using mem.is_banned_coherent [OF assms(1), of ?ttl u] decisions_quiet(2) [of InMemoryCacheStore ?ttl u]
    by (auto simp: wp_def keeps_def split: prod.splits sum.splits) (metis snd_conv)+
  have active: "wp (AuthorizationService_require_active InMemoryCacheStore ?ttl u)
      (\<lambda>_ n'. \<not> stored_ban u ?w \<and> mem.coherent n' \<and> node_quiet ?n n') (\<lambda>_ n'. node_quiet ?n n') ?n" for u
    unfolding AuthorizationService_require_active_def wp_seq by (rule wp_mono [OF ban]) (auto simp: wp_simps)
  have "wp (AuthMiddleware_authenticate InMemoryCacheStore ?ttl (JwtTokenService lib options) req)
     (\<lambda>c n'. caller lib options req ?w = Some c \<and> \<not> stored_ban (tk_user_id c) ?w \<and> mem.coherent n' \<and> node_quiet ?n n')
     (\<lambda>e n'. (caller lib options req ?w = None \<longrightarrow> ex_type e = kAuthentication) \<and> node_quiet ?n n') ?n"
    unfolding AuthMiddleware_authenticate_def wp_seq wp_on_world
  proof (rule wp_mono [OF verify_outcome], goal_cases)
    case (1 c w')
    then have same: "?n\<lparr>nd_world := w'\<rparr> = ?n" by simp
    show ?case unfolding same by (rule wp_mono [OF active]) (use 1 in \<open>auto simp: wp_simps\<close>)
  qed (simp add: node_quiet_def)
  then show ?thesis
    unfolding signed_in_def assms(2,3) wp_on_node by (rule wp_mono) (auto simp: site_quiet_def)
qed

lemma role_of_known:
  assumes "mem.coherent n"
  shows "wp (AuthorizationService_role_of InMemoryCacheStore ttl u)
    (\<lambda>ro n'. ro = stored_role u (nd_world n) \<and> mem.coherent n' \<and> node_quiet n n') (\<lambda>_ n'. node_quiet n n') n"
  using mem.role_of_coherent [OF assms, of ttl u] decisions_quiet(1) [of InMemoryCacheStore ttl u]
  by (auto simp: wp_def keeps_def split: prod.splits sum.splits) (metis snd_conv)+

lemma site_quiet_trans: "site_quiet s s' \<Longrightarrow> site_quiet s' s'' \<Longrightarrow> site_quiet s s''"
  by (auto simp: site_quiet_def node_quiet_def intro: world_quiet_trans)

lemma site_quietD:
  assumes "site_quiet s s'"
  shows "world_quiet (nd_world (st_node s)) (nd_world (st_node s'))" "st_flags s' = st_flags s"
    "nd_invalidations (st_node s') = nd_invalidations (st_node s)"
  using assms by (simp_all add: site_quiet_def node_quiet_def)

lemma admin_gate:
  assumes "mem.coherent (st_node s)" "sv_ops sv = InMemoryCacheStore" "sv_tokens sv = JwtTokenService lib options"
  shows "wp (admin_authorize sv req p)
    (\<lambda>u s'. (\<exists>c. caller lib options req (nd_world (st_node s)) = Some c \<and> tk_user_id c = u) \<and>
       \<not> stored_ban u (nd_world (st_node s)) \<and> has_permission (stored_role u (nd_world (st_node s))) p \<and>
       mem.coherent (st_node s') \<and> site_quiet s s')
    (\<lambda>e s'. (\<exists>x. e = AppThrown x \<and> (caller lib options req (nd_world (st_node s)) = None \<longrightarrow> ex_type x = kAuthentication)) \<and>
       site_quiet s s') s"
  unfolding admin_authorize_def wp_seq
proof (rule wp_mono [OF signed_in_gate [OF assms]], goal_cases)
  case (1 c s')
  then have co: "mem.coherent (st_node s')" and q: "site_quiet s s'" by simp_all
  note known = role_of_known [OF co, of "authz_ttl sv" "tk_user_id c"]
  have trans: "site_quiet s (s'\<lparr>st_node := n\<rparr>)" if "node_quiet (st_node s') n" for n
    by (rule site_quiet_trans [OF q]) (use that in \<open>simp add: site_quiet_def\<close>)
  show ?case
    unfolding wp_on_node AuthorizationService_require_permission_def assms(2) wp_seq
    by (rule wp_mono [OF known])
       (use 1 trans world_quietD(2) [OF site_quietD(1) [OF q], of "tk_user_id c"] in \<open>auto simp: wp_simps\<close>)
qed auto

lemma guarded_refusal:
  assumes "guarded_endpoint dump (seq g f) s = (res, s')" "wp g (\<lambda>x _. P) (\<lambda>e s1. (\<exists>x. e = AppThrown x \<and> R x) \<and> site_quiet s s1) s"
    and "\<And>x. R x \<Longrightarrow> Q (http_status_for (ex_type x))"
  shows "P \<or> (400 \<le> resp_code res \<and> Q (resp_code res) \<and> site_quiet s s')"
proof (cases "g s")
  case (Pair r s1)
  show ?thesis
  proof (cases r)
    case (Inr x)
    then show ?thesis using assms(2) Pair by (simp add: wp_def)
  next
    case (Inl e)
    then obtain x where x: "e = AppThrown x" "R x" "site_quiet s s1" using assms(2) Pair by (auto simp: wp_def)
    have "400 \<le> http_status_for (ex_type x)" using http_status_for_range [of "ex_type x"] by auto
    then show ?thesis
      using assms(1,3) Pair Inl x by (auto simp: guarded_endpoint_def seq_apply build_def site_quiet_def)
  qed
qed


section \<open>Changing roles and suspending\<close>

lemma transaction_frame: "bus (snd (with_transaction m w)) = bus w" "publisher_attached (snd (with_transaction m w)) = publisher_attached w"
  by (auto simp: with_transaction_def Let_def split: prod.splits list.splits option.splits sum.splits db_thrown.splits)

lemma wp_transaction_frame:
  "wp (with_transaction m) (\<lambda>_ w'. bus w' = bus w \<and> publisher_attached w' = publisher_attached w) (\<lambda>_ _. True) w"
  using transaction_frame [of m w] by (cases "with_transaction m w") (auto simp: wp_def split: sum.splits)

lemma admin_writes_frame:
  "wp (PgUserAdminRepository_set_role u ro) (\<lambda>_ w'. bus w' = bus w \<and> publisher_attached w' = publisher_attached w) (\<lambda>_ _. True) w"
  "wp (PgUserAdminRepository_set_banned u banned reason actor) (\<lambda>_ w'. bus w' = bus w \<and> publisher_attached w' = publisher_attached w)
     (\<lambda>_ _. True) w"
  "wp (SessionService_revoke_all u) (\<lambda>_ w'. bus w' = bus w \<and> publisher_attached w' = publisher_attached w) (\<lambda>_ _. True) w"
  unfolding PgUserAdminRepository_set_role_def PgUserAdminRepository_set_banned_def SessionService_revoke_all_def PgSessionRepository_revoke_all_def
  by (rule wp_transaction_frame)+

lemma wp_publish:
  assumes "\<And>w'. db w' = db w \<Longrightarrow> event_facts (bus w') = event_facts (bus w) @ (if publisher_attached w then [seed] else []) \<Longrightarrow> Q () w'"
  shows "wp (publish seed) Q E w"
  by (rule run_publish [of seed w]) (use assms in \<open>simp add: wp_def\<close>)

lemma wp_invalidate:
  assumes "mem.coherent_except u n"
    and "\<And>n'. mem.coherent n' \<Longrightarrow> nd_world n' = nd_world n \<Longrightarrow>
      nd_invalidations n' = nd_invalidations n @ [\<lparr>ie_scope = kAuthorization_scope, ie_key = to_string u, ie_sub_key = []\<rparr>] \<Longrightarrow> Q () n'"
  shows "wp (AuthorizationService_invalidate InMemoryCacheStore u) Q E n"
  using mem.invalidate_runs [OF assms(1)] assms(2) by (auto simp: wp_def)

lemma wp_json_reply [wp_simps]: "wp (json_reply sv code body) Q E s = Q (json_response (sv_dump sv) code body) s"
  by (simp add: json_reply_def wp_simps)

lemma wp_json_body [wp_simps]:
  "wp (json_body sv req) Q E s = (case parse_json_body (sv_parse sv) req of Inl e \<Rightarrow> E (AppThrown e) s | Inr j \<Rightarrow> Q j s)"
  by (simp add: json_body_def wp_simps)

lemma invalidate_then:
  assumes "mem.coherent n" "differs_only u (nd_world n) w'"
    and "\<And>n'. mem.coherent n' \<Longrightarrow> nd_world n' = w' \<Longrightarrow> Q () (s\<lparr>st_node := n'\<rparr>)"
  shows "wp (on_node (AuthorizationService_invalidate InMemoryCacheStore u)) Q E (s\<lparr>st_node := n\<lparr>nd_world := w'\<rparr>\<rparr>)"
  unfolding wp_on_node
  by (rule wp_invalidate) (use mem.coherent_except_change [OF assms(1,2)] assms(3) in auto)

lemma publish_then:
  assumes "mem.coherent (st_node s)"
    and "\<And>w'. mem.coherent ((st_node s)\<lparr>nd_world := w'\<rparr>) \<Longrightarrow> db w' = db (nd_world (st_node s)) \<Longrightarrow>
      event_facts (bus w') = event_facts (bus (nd_world (st_node s))) @ (if publisher_attached (nd_world (st_node s)) then [seed] else []) \<Longrightarrow>
      Q () (s\<lparr>st_node := (st_node s)\<lparr>nd_world := w'\<rparr>\<rparr>)"
  shows "wp (call (publish seed)) Q E s"
  unfolding wp_call
proof (rule wp_publish, rule assms(2))
  fix w' :: world assume "db w' = db (nd_world (st_node s))"
  then have "same_decisions (nd_world (st_node s)) w'" by (simp add: same_decisions_def stored_role_def stored_ban_def)
  then show "mem.coherent ((st_node s)\<lparr>nd_world := w'\<rparr>)" using assms(1) mem.coherent_world by blast
qed auto

text \<open>The part of the role change behind the reading of the request.\<close>

lemma assign_role_rules:
  assumes "mem.coherent (st_node s1)"
  shows "wp (seq (on_node (AuthorizationService_role_of InMemoryCacheStore ttl actor)) (\<lambda>actor_role.
      seq (require (can_assign_role actor_role ro) (f actor_role)) (\<lambda>_.
      seq (call (PgUserAdminRepository_set_role u ro)) (\<lambda>previous.
      seq (on_node (AuthorizationService_invalidate InMemoryCacheStore u)) (\<lambda>_.
      seq (call (publish (UserRoleChanged u actor (role_to_string previous) (role_to_string ro)))) (\<lambda>_.
      json_reply sv 200 (g previous)))))))
    (\<lambda>res s'. resp_code res = 200 \<and> can_assign_role (stored_role actor (nd_world (st_node s1))) ro \<and> stored_role u (nd_world (st_node s')) = ro \<and>
       stored_ban u (nd_world (st_node s')) = stored_ban u (nd_world (st_node s1)) \<and>
       differs_only u (nd_world (st_node s1)) (nd_world (st_node s')) \<and> mem.coherent (st_node s') \<and>
       (\<exists>previous. event_facts (bus (nd_world (st_node s'))) = event_facts (bus (nd_world (st_node s1))) @
          (if publisher_attached (nd_world (st_node s1)) then [UserRoleChanged u actor (role_to_string previous) (role_to_string ro)] else [])))
    (\<lambda>_ s'. same_decisions (nd_world (st_node s1)) (nd_world (st_node s'))) s1"
  unfolding wp_seq wp_on_node [of "AuthorizationService_role_of InMemoryCacheStore ttl actor"]
proof (rule wp_mono [OF role_of_known [OF assms]], goal_cases)
  case (1 ar n)
  then have n: "mem.coherent n" "world_quiet (nd_world (st_node s1)) (nd_world n)" by (simp_all add: node_quiet_def)
  note eqs = world_quietD [OF n(2)]
  have dec: "same_decisions (nd_world (st_node s1)) w \<longleftrightarrow> same_decisions (nd_world n) w"
    "differs_only u (nd_world (st_node s1)) w \<longleftrightarrow> differs_only u (nd_world n) w" for w
    by (simp_all add: same_decisions_def differs_only_def eqs)
  show ?case
  proof (cases "can_assign_role ar ro")
    case False
    then show ?thesis by (simp add: wp_simps dec)
  next
    case True
    show ?thesis
      unfolding wp_require if_P [OF True] wp_call [of "PgUserAdminRepository_set_role u ro"]
    proof (rule wp_mono [OF wp_conj [OF set_role_effect admin_writes_frame(1)]], goal_cases)
      case (1 previous w')
      then have d: "differs_only u (nd_world n) w'" and
        w': "stored_role u w' = ro" "stored_ban u w' = stored_ban u (nd_world n)" "bus w' = bus (nd_world n)"
          "publisher_attached w' = publisher_attached (nd_world n)" by simp_all
      show ?case
        apply simp
        apply (rule invalidate_then [OF n(1) d])
        apply (rule publish_then)
         apply simp
        apply (use True \<open>ar = _ \<and> _\<close> d w' in \<open>auto simp: wp_simps json_response_def dec eqs differs_only_def stored_role_def stored_ban_def\<close>)
        done
    qed (simp add: dec)
  qed
qed (auto simp: node_quiet_def same_decisions_def dest: world_quietD)

lemma revoke_all_rules:
  "wp (SessionService_revoke_all u) (\<lambda>_ w'. (\<forall>ts. active_sessions u ts (tabs (db w')) = []) \<and> same_decisions w w')
     (\<lambda>_ w'. same_decisions w w') w"
proof -
  have none: "filter (\<lambda>s. s_user_id s = u \<longrightarrow> (\<exists>y. s_revoked_at s = Some y)) (active_sessions u ts t) = []" for ts t
    by (auto simp: active_sessions_def filter_empty_conv)
  show ?thesis
    unfolding SessionService_revoke_all_def PgSessionRepository_revoke_all_def
    by (rule wp_transaction)
       (auto simp: revoke_where_def act_simps active_after_revoke none same_decisions_def stored_role_def stored_ban_def find_record_def rollback_def)
qed

text \<open>The part of the suspension behind the checks.\<close>

lemma suspend_rules:
  assumes "mem.coherent (st_node s1)"
  shows "wp (seq (call (PgUserAdminRepository_set_banned u True reason (Some actor))) (\<lambda>_.
      seq (on_node (AuthorizationService_invalidate InMemoryCacheStore u)) (\<lambda>_.
      seq (call (SessionService_revoke_all u)) (\<lambda>revoked.
      seq (admin_event actor ''user.ban'' ''user'' (to_string u) (d revoked)) (\<lambda>_.
      json_reply sv 200 (g revoked))))))
    (\<lambda>res s'. resp_code res = 200 \<and> stored_ban u (nd_world (st_node s')) \<and> stored_role u (nd_world (st_node s')) = stored_role u (nd_world (st_node s1)) \<and>
       differs_only u (nd_world (st_node s1)) (nd_world (st_node s')) \<and> mem.coherent (st_node s') \<and>
       (\<forall>ts. active_sessions u ts (tabs (db (nd_world (st_node s')))) = []) \<and>
       (\<exists>revoked. event_facts (bus (nd_world (st_node s'))) = event_facts (bus (nd_world (st_node s1))) @
          (if publisher_attached (nd_world (st_node s1)) then [AdminAction actor ''user.ban'' ''user'' (to_string u) (JObj (d revoked))] else [])))
    (\<lambda>_ s'. differs_only u (nd_world (st_node s1)) (nd_world (st_node s')) \<and>
       stored_role u (nd_world (st_node s')) = stored_role u (nd_world (st_node s1))) s1"
  unfolding wp_seq wp_call [of "PgUserAdminRepository_set_banned u True reason (Some actor)"]
proof (rule wp_mono [OF wp_conj [OF set_banned_effect admin_writes_frame(2)]], goal_cases)
  case (1 _ w1)
  then have d: "differs_only u (nd_world (st_node s1)) w1" and
    w1: "stored_ban u w1" "stored_role u w1 = stored_role u (nd_world (st_node s1))" "bus w1 = bus (nd_world (st_node s1))"
      "publisher_attached w1 = publisher_attached (nd_world (st_node s1))" by simp_all
  show ?case
  proof (rule invalidate_then [OF assms d], unfold wp_call [of "SessionService_revoke_all u"],
      rule wp_mono [OF wp_conj [OF revoke_all_rules admin_writes_frame(3)]], goal_cases)
    case (1 n revoked w2)
    then have w2: "\<forall>ts. active_sessions u ts (tabs (db w2)) = []" "same_decisions w1 w2" "bus w2 = bus w1"
      "publisher_attached w2 = publisher_attached w1" by simp_all
    have co: "mem.coherent (n\<lparr>nd_world := w2\<rparr>)" using 1 w2(2) mem.coherent_world by blast
    show ?case
      unfolding admin_event_def
      apply (rule publish_then)
       apply (simp add: co)
      apply (use d w1 w2 in \<open>auto simp: wp_simps json_response_def differs_only_def same_decisions_def stored_role_def stored_ban_def\<close>)
      done
  next
    case (2 n e w2)
    then show ?case using d w1 by (simp add: differs_only_def same_decisions_def)
  qed
qed (auto simp: differs_only_def same_decisions_def)

lemma wp_checked_seq:
  "(\<And>x. r = Inr x \<Longrightarrow> wp (f x) Q E s) \<Longrightarrow> (\<And>e. E e s) \<Longrightarrow> wp (seq (checked r) f) Q E s"
  by (simp add: wp_simps split: sum.splits)

lemma site_quiet_decisions: "site_quiet s s' \<Longrightarrow> same_decisions (nd_world (st_node s)) (nd_world (st_node s'))"
  using world_quietD(2,3) [OF site_quietD(1), of s s'] by (simp add: same_decisions_def)

lemma endpoint_outcome:
  assumes "guarded_endpoint dump m s = (res, s')" "wp m Q E s"
  shows "(\<exists>t l. s' = t\<lparr>st_log := l\<rparr> \<and> Q res t) \<or> (400 \<le> resp_code res \<and> (\<exists>e t l. s' = t\<lparr>st_log := l\<rparr> \<and> E e t))"
proof (cases "m s")
  case (Pair r t)
  show ?thesis
  proof (cases r)
    case (Inr x)
    then have "s' = t\<lparr>st_log := st_log t\<rparr>" "Q res t" using assms Pair by (auto simp: guarded_endpoint_def wp_def)
    then show ?thesis by blast
  next
    case (Inl e)
    have "400 \<le> resp_code (fst (run_guarded dump (Inl e)))"
    proof (cases e)
      case (AppThrown x)
      then show ?thesis using http_status_for_range [of "ex_type x"] by (auto simp: build_def)
    qed (simp add: internal_error_response_def build_def)
    then show ?thesis using assms Pair Inl by (auto simp: guarded_endpoint_def wp_def split: prod.splits)
  qed
qed


lemma suspended_refused:
  assumes "mem.coherent n" "stored_ban u (nd_world n)"
  shows "fst (AuthorizationService_require_active InMemoryCacheStore ttl u n) \<noteq> Inr ()"
proof -
  have "wp (AuthorizationService_require_active InMemoryCacheStore ttl u) (\<lambda>_ _. False) (\<lambda>_ _. True) n"
    unfolding AuthorizationService_require_active_def wp_seq
    by (rule wp_mono [OF mem.is_banned_coherent [OF assms(1)]]) (use assms(2) in \<open>auto simp: wp_simps\<close>)
  then show ?thesis by (auto simp: wp_def split: prod.splits sum.splits)
qed

text \<open>The comparison of the two roles, and what follows it.\<close>

lemma compare_then:
  assumes "mem.coherent (st_node s1)" "\<And>s2. mem.coherent (st_node s2) \<Longrightarrow> site_quiet s1 s2 \<Longrightarrow>
      role_ord (stored_role u (nd_world (st_node s1))) < role_ord (stored_role actor (nd_world (st_node s1))) \<Longrightarrow> wp f Q E s2"
    and "\<And>e s2. site_quiet s1 s2 \<Longrightarrow> E e s2"
  shows "wp (seq (on_node (AuthorizationService_role_of InMemoryCacheStore ttl actor)) (\<lambda>actor_role.
      seq (on_node (AuthorizationService_role_of InMemoryCacheStore ttl u)) (\<lambda>target_role.
      seq (require (role_ord target_role < role_ord actor_role) e) (\<lambda>_. f)))) Q E s1"
  unfolding wp_seq wp_on_node [of _ _ _ s1]
proof (rule wp_mono [OF role_of_known [OF assms(1)]], goal_cases)
  case (1 ar n1)
  then have n1: "mem.coherent n1" "node_quiet (st_node s1) n1" by simp_all
  note eqs = world_quietD [OF n1(2) [unfolded node_quiet_def, THEN conjunct1]]
  show ?case
    unfolding wp_on_node
  proof (simp, rule wp_mono [OF role_of_known [OF n1(1)]], goal_cases)
    case (1 tr n2)
    then have "site_quiet s1 (s1\<lparr>st_node := n2\<rparr>)"
      using node_quiet_step.trans [OF n1(2), of n2] by (simp add: site_quiet_def)
    then show ?case using assms(2) [of "s1\<lparr>st_node := n2\<rparr>"] assms(3) 1 \<open>ar = _ \<and> _\<close> eqs by (simp add: wp_simps)
  next
    case (2 e n2)
    then show ?case using node_quiet_step.trans [OF n1(2), of n2] by (intro assms(3)) (simp add: site_quiet_def)
  qed
qed (auto intro: assms(3) simp: site_quiet_def)

text \<open>What the handler leaves behind, on either outcome.\<close>

definition only_banned :: "int \<Rightarrow> world \<Rightarrow> world \<Rightarrow> bool" where
  "only_banned u w w' \<longleftrightarrow> differs_only u w w' \<and> stored_role u w' = stored_role u w"

definition ban_done ::
    "jwt_library \<Rightarrow> jwt_options \<Rightarrow> request \<Rightarrow> int \<Rightarrow> world \<Rightarrow> response \<Rightarrow> memory_store node \<Rightarrow> bool" where
  "ban_done lib options req u w res n \<longleftrightarrow>
     resp_code res = 200 \<and> only_banned u w (nd_world n) \<and> mem.coherent n \<and> stored_ban u (nd_world n) \<and>
     (\<forall>ts. active_sessions u ts (tabs (db (nd_world n))) = []) \<and>
     (\<exists>c details. caller lib options req w = Some c \<and> \<not> stored_ban (tk_user_id c) w \<and> tk_user_id c \<noteq> u \<and>
        has_permission (stored_role (tk_user_id c) w) kBanUsers \<and> role_ord (stored_role u w) < role_ord (stored_role (tk_user_id c) w) \<and>
        event_facts (bus (nd_world n)) = event_facts (bus w) @ (if publisher_attached w
          then [AdminAction (tk_user_id c) ''user.ban'' ''user'' (to_string u) details] else []))"

lemma only_bannedD:
  "only_banned u w w' \<Longrightarrow> stored_role v w' = stored_role v w \<and> (v \<noteq> u \<longrightarrow> stored_ban v w' = stored_ban v w)"
  unfolding only_banned_def differs_only_def by metis

lemma ban_run:
  assumes co: "mem.coherent (st_node s)" and "sv_ops sv = InMemoryCacheStore" "sv_tokens sv = JwtTokenService lib options"
    and "w = nd_world (st_node s)"
  shows "wp (admin_post_ban sv u req) (\<lambda>res s'. ban_done lib options req u w res (st_node s'))
    (\<lambda>_ s'. only_banned u w (nd_world (st_node s'))) s"
proof -
  have quiet: "only_banned u w (nd_world (st_node t))" if "site_quiet s t" for t
    using site_quiet_decisions [OF that] assms(4) by (simp add: only_banned_def same_decisions_def differs_only_def)
  show ?thesis
    unfolding admin_post_ban_def wp_seq [of "admin_authorize sv req kBanUsers"]
  proof (rule wp_mono [OF admin_gate [OF co assms(2,3)]], goal_cases)
    case (1 actor s1)
    then have co1: "mem.coherent (st_node s1)" and q: "site_quiet s s1" by simp_all
    show ?case
      unfolding assms(2) json_body_def Let_def
    proof (intro wp_require_seq compare_then [OF co1] wp_checked_seq, goal_cases)
      case (1 s2 body)
      then have q2: "site_quiet s s2" using site_quiet_trans [OF q] by blast
      note eqs = world_quietD [OF site_quietD(1) [OF q2]] and eqs1 = world_quietD [OF site_quietD(1) [OF q]]
      show ?case
        by (rule wp_mono [OF suspend_rules [OF 1(2)]])
           (use 1 eqs eqs1 \<open>(\<exists>c. _ c) \<and> _\<close> assms(4) in \<open>auto simp: ban_done_def only_banned_def differs_only_def\<close>)
    qed (use quiet site_quiet_trans [OF q] q in auto)
  qed (use quiet in auto)
qed


section \<open>A server to run the rules on\<close>

text \<open>User 1 is a super administrator, and a token is the number of its user.\<close>

definition desk_jwt :: jwt_library where
  "desk_jwt =
     \<lparr>jwt_sign = (\<lambda>_ p. jp_id p),
      jwt_verify = (\<lambda>_ _ ts token. Inr \<lparr>jp_issuer = ''rtc'', jp_subject = Some token, jp_id = [], jp_username = None,
        jp_type = Some (JStr ''access''), jp_issued_at = Some ts, jp_expires_at = Some (ts + 1)\<rparr>),
      jwt_claim_error = ''claim''\<rparr>"

definition desk_config :: config where
  "desk_config =
     \<lparr>chat_port = 8080, db_host = ''db'', db_port = 5432, db_name = ''chat'', db_user = ''chat'', db_password = ''pw'', db_pool_size = 4,
      jwt_secret = ''secret'', jwt_access_ttl_seconds = 900, jwt_refresh_ttl_seconds = 1000, jwt_issuer = ''rtc'',
      ws_heartbeat_interval_seconds = 30, ws_heartbeat_timeout_seconds = 60, redis_enabled = False, redis_url = [],
      cache_user_ttl_seconds = 60, cache_conversation_ttl_seconds = 60, upload_dir = ''uploads'', upload_public_base_url = ''/files'',
      max_upload_bytes = 1000, max_request_bytes = 1000, rate_limit_enabled = True, rate_limit_window_seconds = 60,
      rate_limit_login_max = 5, rate_limit_register_max = 5, rate_limit_message_max = 5, rate_limit_upload_max = 5,
      rate_limit_default_max = 5, cors_allowed_origins = ''*'', worker_threads = 1, maintenance_interval_seconds = 60,
      tracing_enabled = False, tracing_exporter = ''log'', tracing_endpoint = [], tracing_sample_ratio = Number 1, cluster_enabled = False,
      authz_cache_ttl_seconds = 30, log_level = ''info'', log_format = ''text'', app_env = ''development''\<rparr>"

definition desk :: "memory_store services" where
  "desk =
     \<lparr>sv_ops = InMemoryCacheStore, sv_tokens = JwtTokenService desk_jwt token_options, sv_hasher = plain_hasher, sv_sha256 = zero_digest,
      sv_config = desk_config, sv_dump = plain_dump, sv_parse = (\<lambda>_. Some (JObj [(''role'', JStr ''moderator'')])),
      sv_tsmatch = (=), sv_text = plain_search, sv_images = NoopImageProcessor, sv_multipart = (\<lambda>_. Inl ''no parts'')\<rparr>"

definition desk_operations :: "(memory_store, unit, unit) operations" where
  "desk_operations =
     \<lparr>op_hub = fresh_hub False, op_cluster = None,
      op_cache = \<lparr>cs_store = empty_store, cs_hits = 0, cs_misses = 0, cs_published = []\<rparr>, op_backend = ''memory'',
      op_bus = \<lparr>eb_asynchronous = False, eb_published = 0, eb_dropped = 0, eb_pool = BackgroundExecutor_create 1 (no_subscribers, ())\<rparr>,
      op_metrics = MetricsRegistry_create 0, op_clock = 0, op_version = ''1''\<rparr>"

definition desk_world :: world where
  "desk_world = example_world\<lparr>db := (db example_world)\<lparr>tabs :=
     t_users_update (\<lambda>us. map (\<lambda>r. if u_id (ar_user r) = 1 then r\<lparr>ar_role := kSuperAdmin\<rparr> else r) us) example_tables\<rparr>\<rparr>"

definition desk_site :: "memory_store site" where
  "desk_site = \<lparr>st_node = example_node\<lparr>nd_world := desk_world\<rparr>, st_flags = FeatureFlags_create, st_trgm = None, st_log = []\<rparr>"

definition bearer_request :: "string \<Rightarrow> request" where
  "bearer_request token =
     \<lparr>rq_method = Post, rq_url = [], rq_header = (\<lambda>h. if h = ''Authorization'' then ''Bearer '' @ token else []), rq_params = Map.empty,
      rq_body = [], rq_remote_ip = []\<rparr>"

lemma desk_facts:
  "nd_cache (st_node desk_site) = empty_store" "sv_ops desk = InMemoryCacheStore" "sv_tokens desk = JwtTokenService desk_jwt token_options"
  "nd_world (st_node desk_site) = desk_world"
  by (simp_all add: desk_site_def example_node_def desk_def)

lemma desk_roles: "stored_role 1 desk_world = kSuperAdmin" "stored_role 3 desk_world = kUser" "\<not> stored_ban 1 desk_world"
  by (simp_all add: stored_role_def stored_ban_def find_record_def desk_world_def example_defs ar_is_banned_def)

lemma desk_caller:
  "\<exists>c. caller desk_jwt token_options (bearer_request ''3'') desk_world = Some c \<and> tk_user_id c = 3"
  "\<exists>c. caller desk_jwt token_options (bearer_request ''1'') desk_world = Some c \<and> tk_user_id c = 1"
proof -
  have digits: "from_chars_int64 ''3'' = Some (3, [])" "from_chars_int64 ''1'' = Some (1, [])" by code_simp+
  have tab: "char_of (9::nat) = CHR 0x09" by code_simp
  show "\<exists>c. caller desk_jwt token_options (bearer_request ''3'') desk_world = Some c \<and> tk_user_id c = 3"
    "\<exists>c. caller desk_jwt token_options (bearer_request ''1'') desk_world = Some c \<and> tk_user_id c = 1"
    by (simp_all add: caller_def extract_bearer_token_def bearer_request_def ltrim_def kBearerPrefix_def JwtTokenService_verify_def
        desk_jwt_def claims_of_def parse_subject_def digits tab act_simps Let_def)
qed




end
