(* ===== verification/OpenApi.thy ===== *)
theory OpenApi
  imports Errors "HOL-Library.AList"
begin

text \<open>
  The OpenAPI document of \<^verbatim>\<open>docs/openapi_spec.cpp\<close>, as the JSON value its text denotes, in the order of the text, and
  the two functions that serve it. The JSON printer and parser are arguments.
\<close>

definition nl :: string where "nl = [CHR 0x0A]"
definition dq :: string where "dq = [CHR 0x22]"
definition sq :: string where "sq = [CHR 0x27]"


section \<open>The document\<close>

definition openapi_preamble :: "(string \<times> json) list" where
  "openapi_preamble =
     [(''openapi'', JStr ''3.1.0''),
     (''info'', JObj [(''title'', JStr ''Realtime Chat API''),
      (''version'', JStr ''0.1.0''),
      (''summary'', JStr ''Distributed real-time messaging platform''),
      (''description'', JStr (''REST and WebSocket API for the realtime-chat backend.'' @ nl @ nl @ ''## Versioning'' @ nl @ nl @ ''Every endpoint is reachable at two paths:'' @ nl @ nl @ ''* `/api/v1/...` '' @ [CHR 0xE2, CHR 0x80, CHR 0x94] @ '' the explicit, recommended form for new clients.'' @ nl @ ''* `/api/...` '' @ [CHR 0xE2, CHR 0x80, CHR 0x94] @ '' the original unversioned form, permanently supported and treated as an alias for v1.'' @ nl @ nl @ ''Responses carry `X-API-Version`. Requesting an unsupported version (`/api/v9/...`) returns 404 with an `unsupported_api_version` error naming the versions this build supports.'' @ nl @ nl @ ''## Errors'' @ nl @ nl @ ''Every failure uses one envelope:'' @ nl @ nl @ ''```json'' @ nl @ ''{ '' @ dq @ ''error'' @ dq @ '': { '' @ dq @ ''code'' @ dq @ '': '' @ dq @ ''validation_error'' @ dq @ '', '' @ dq @ ''message'' @ dq @ '': '' @ dq @ ''...'' @ dq @ '', '' @ dq @ ''details'' @ dq @ '': '' @ dq @ ''field=username'' @ dq @ '' } }'' @ nl @ ''```'' @ nl @ nl @ ''`code` is stable and machine-readable; `details` is present only when there is safe extra context.'' @ nl @ nl @ ''## Authentication'' @ nl @ nl @ ''All endpoints except registration, login, refresh, health and metrics require `Authorization: Bearer <access_token>`. Access tokens are short-lived (15 minutes by default); use `POST /api/v1/auth/refresh` with the refresh token and session id to rotate.'' @ nl @ nl @ ''## Correlation'' @ nl @ nl @ ''Send `X-Request-Id` to correlate your request with server logs, or read the one the server generates from the response header. Send W3C `traceparent` to join the server span to your trace; the response echoes it.'')),
      (''license'', JObj [(''name'', JStr ''MIT''), (''identifier'', JStr ''MIT'')])]),
     (''servers'', JArr [JObj [(''url'', JStr ''http://localhost:8080''), (''description'', JStr ''Local development'')]]),
     (''tags'', JArr [JObj [(''name'', JStr ''Authentication''),
       (''description'', JStr ''Registration, login, token rotation and session revocation'')],
      JObj [(''name'', JStr ''Users''), (''description'', JStr ''Profile read and update'')],
      JObj [(''name'', JStr ''Conversations''), (''description'', JStr ''Direct conversations and group chats'')],
      JObj [(''name'', JStr ''Messages''),
       (''description'', JStr ''Sending, listing, editing and deleting messages'')],
      JObj [(''name'', JStr ''Reactions''), (''description'', JStr ''Emoji reactions on messages'')],
      JObj [(''name'', JStr ''Attachments''), (''description'', JStr ''File upload, download and thumbnails'')],
      JObj [(''name'', JStr ''Notifications''), (''description'', JStr ''In-app notification inbox'')],
      JObj [(''name'', JStr ''Sessions''),
       (''description'', JStr (''The caller'' @ sq @ ''s own active sessions''))],
      JObj [(''name'', JStr ''Search''), (''description'', JStr ''PostgreSQL full-text search over messages'')],
      JObj [(''name'', JStr ''Admin''),
       (''description'', JStr ''Administrative operations. Each route requires a specific permission.'')],
      JObj [(''name'', JStr ''Operations''), (''description'', JStr ''Health probes and Prometheus metrics'')]])]"

definition openapi_parameters :: "(string \<times> json) list" where
  "openapi_parameters =
     [(''securitySchemes'', JObj [(''bearerAuth'', JObj [(''type'', JStr ''http''),
       (''scheme'', JStr ''bearer''),
       (''bearerFormat'', JStr ''JWT''),
       (''description'', JStr ''JWT access token issued by /api/v1/auth/login or /api/v1/auth/register.'')])]),
     (''parameters'', JObj [(''Limit'', JObj [(''name'', JStr ''limit''),
       (''in'', JStr ''query''),
       (''required'', JBool False),
       (''description'', JStr ''Page size, clamped to [1, 100].''),
       (''schema'', JObj [(''type'', JStr ''integer''), (''minimum'', JInt 1), (''maximum'', JInt 100), (''default'', JInt 50)])]),
      (''Offset'', JObj [(''name'', JStr ''offset''),
       (''in'', JStr ''query''),
       (''required'', JBool False),
       (''description'', JStr ''Rows to skip. Prefer keyset pagination (`before`/`after`) for deep pages.''),
       (''schema'', JObj [(''type'', JStr ''integer''), (''minimum'', JInt 0), (''default'', JInt 0)])]),
      (''Before'', JObj [(''name'', JStr ''before''),
       (''in'', JStr ''query''),
       (''required'', JBool False),
       (''description'', JStr ''Keyset cursor: return records with id strictly less than this.''),
       (''schema'', JObj [(''type'', JStr ''integer''), (''format'', JStr ''int64'')])]),
      (''After'', JObj [(''name'', JStr ''after''),
       (''in'', JStr ''query''),
       (''required'', JBool False),
       (''description'', JStr ''Keyset cursor: return records with id strictly greater than this.''),
       (''schema'', JObj [(''type'', JStr ''integer''), (''format'', JStr ''int64'')])]),
      (''RequestId'', JObj [(''name'', JStr ''X-Request-Id''),
       (''in'', JStr ''header''),
       (''required'', JBool False),
       (''description'', JStr ''Client-supplied correlation id, echoed on the response and recorded in logs and traces.''),
       (''schema'', JObj [(''type'', JStr ''string''), (''maxLength'', JInt 128)])])])]"

definition openapi_schemas_1 :: "(string \<times> json) list" where
  "openapi_schemas_1 =
     [(''Error'', JObj [(''type'', JStr ''object''),
      (''required'', JArr [JStr ''error'']),
      (''properties'', JObj [(''error'', JObj [(''type'', JStr ''object''),
        (''required'', JArr [JStr ''code'', JStr ''message'']),
        (''properties'', JObj [(''code'', JObj [(''type'', JStr ''string''),
          (''description'', JStr ''Stable machine-readable code.''),
          (''enum'', JArr [JStr ''validation_error'',
           JStr ''authentication_error'',
           JStr ''authorization_error'',
           JStr ''not_found'',
           JStr ''conflict'',
           JStr ''payload_too_large'',
           JStr ''unsupported_media_type'',
           JStr ''rate_limited'',
           JStr ''database_error'',
           JStr ''configuration_error'',
           JStr ''internal_error'',
           JStr ''unsupported_api_version''])]),
         (''message'', JObj [(''type'', JStr ''string'')]),
         (''details'', JObj [(''type'', JStr ''string''), (''description'', JStr ''Safe additional context, when available.'')])])])]),
      (''examples'', JArr [JObj [(''error'', JObj [(''code'', JStr ''validation_error''),
         (''message'', JStr ''Username is required''),
         (''details'', JStr ''field=username'')])]])]),
     (''User'', JObj [(''type'', JStr ''object''),
      (''required'', JArr [JStr ''id'', JStr ''username'', JStr ''email'', JStr ''created_at'']),
      (''properties'', JObj [(''id'', JObj [(''type'', JStr ''integer''), (''format'', JStr ''int64'')]),
       (''username'', JObj [(''type'', JStr ''string''), (''minLength'', JInt 3), (''maxLength'', JInt 32)]),
       (''email'', JObj [(''type'', JStr ''string''), (''format'', JStr ''email'')]),
       (''display_name'', JObj [(''type'', JArr [JStr ''string'', JStr ''null''])]),
       (''bio'', JObj [(''type'', JArr [JStr ''string'', JStr ''null''])]),
       (''avatar_url'', JObj [(''type'', JArr [JStr ''string'', JStr ''null'']), (''format'', JStr ''uri'')]),
       (''created_at'', JObj [(''type'', JStr ''string''), (''format'', JStr ''date-time'')]),
       (''updated_at'', JObj [(''type'', JStr ''string''), (''format'', JStr ''date-time'')])]),
      (''examples'', JArr [JObj [(''id'', JInt 1),
        (''username'', JStr ''ada''),
        (''email'', JStr ''ada@example.com''),
        (''display_name'', JStr ''Ada L.''),
        (''bio'', JNull),
        (''avatar_url'', JNull),
        (''created_at'', JStr ''2026-07-30T09:00:00Z''),
        (''updated_at'', JStr ''2026-07-30T09:00:00Z'')]])]),
     (''RegisterRequest'', JObj [(''type'', JStr ''object''),
      (''required'', JArr [JStr ''username'', JStr ''email'', JStr ''password'']),
      (''properties'', JObj [(''username'', JObj [(''type'', JStr ''string''),
        (''minLength'', JInt 3),
        (''maxLength'', JInt 32),
        (''description'', JStr ''Alphanumeric plus underscore.'')]),
       (''email'', JObj [(''type'', JStr ''string''), (''format'', JStr ''email'')]),
       (''password'', JObj [(''type'', JStr ''string''), (''minLength'', JInt 8), (''format'', JStr ''password'')])]),
      (''examples'', JArr [JObj [(''username'', JStr ''ada''),
        (''email'', JStr ''ada@example.com''),
        (''password'', JStr ''correct-horse-battery'')]])]),
     (''LoginRequest'', JObj [(''type'', JStr ''object''),
      (''description'', JStr (''The account is named by exactly one of `identifier`, `username` or `email` '' @ [CHR 0xE2, CHR 0x80, CHR 0x94] @ '' they are accepted interchangeably and resolved against both the username and email columns. `identifier` is the canonical spelling; the other two exist for clients that model the field by what they collected. Supplying none of them is a validation error.'')),
      (''required'', JArr [JStr ''password'']),
      (''properties'', JObj [(''identifier'', JObj [(''type'', JStr ''string''), (''description'', JStr ''Username or email. Preferred.'')]),
       (''username'', JObj [(''type'', JStr ''string''), (''description'', JStr ''Alternative to `identifier`.'')]),
       (''email'', JObj [(''type'', JStr ''string''),
        (''format'', JStr ''email''),
        (''description'', JStr ''Alternative to `identifier`.'')]),
       (''password'', JObj [(''type'', JStr ''string''), (''format'', JStr ''password'')])]),
      (''anyOf'', JArr [JObj [(''required'', JArr [JStr ''identifier''])],
       JObj [(''required'', JArr [JStr ''username''])],
       JObj [(''required'', JArr [JStr ''email''])]]),
      (''examples'', JArr [JObj [(''identifier'', JStr ''ada''), (''password'', JStr ''correct-horse-battery'')]])]),
     (''TokenPair'', JObj [(''type'', JStr ''object''),
      (''required'', JArr [JStr ''access_token'', JStr ''refresh_token'', JStr ''token_type'']),
      (''properties'', JObj [(''access_token'', JObj [(''type'', JStr ''string'')]),
       (''refresh_token'', JObj [(''type'', JStr ''string'')]),
       (''token_type'', JObj [(''type'', JStr ''string''), (''const'', JStr ''Bearer'')]),
       (''access_expires_in'', JObj [(''type'', JStr ''integer''), (''description'', JStr ''Access token lifetime in seconds.'')]),
       (''refresh_expires_in'', JObj [(''type'', JStr ''integer''), (''description'', JStr ''Refresh token lifetime in seconds.'')])])]),
     (''AuthResponse'', JObj [(''type'', JStr ''object''),
      (''required'', JArr [JStr ''user'', JStr ''tokens'', JStr ''session_id'']),
      (''properties'', JObj [(''user'', JObj [(''$ref'', JStr ''#/components/schemas/User'')]),
       (''tokens'', JObj [(''$ref'', JStr ''#/components/schemas/TokenPair'')]),
       (''session_id'', JObj [(''type'', JStr ''string''), (''description'', JStr ''Pass to /auth/refresh and /auth/logout.'')])])]),
     (''RefreshRequest'', JObj [(''type'', JStr ''object''),
      (''required'', JArr [JStr ''refresh_token'', JStr ''session_id'']),
      (''properties'', JObj [(''refresh_token'', JObj [(''type'', JStr ''string'')]),
       (''session_id'', JObj [(''type'', JStr ''string'')])])]),
     (''UpdateProfileRequest'', JObj [(''type'', JStr ''object''),
      (''description'', JStr ''Only the supplied fields are changed. An explicit null clears the field.''),
      (''properties'', JObj [(''display_name'', JObj [(''type'', JArr [JStr ''string'', JStr ''null'']), (''maxLength'', JInt 64)]),
       (''bio'', JObj [(''type'', JArr [JStr ''string'', JStr ''null'']), (''maxLength'', JInt 280)]),
       (''avatar_url'', JObj [(''type'', JArr [JStr ''string'', JStr ''null'']), (''format'', JStr ''uri'')])])]),
     (''ConversationParticipant'', JObj [(''type'', JStr ''object''),
      (''required'', JArr [JStr ''user_id'', JStr ''role'', JStr ''joined_at'']),
      (''properties'', JObj [(''user_id'', JObj [(''type'', JStr ''integer''), (''format'', JStr ''int64'')]),
       (''role'', JObj [(''type'', JStr ''string''),
        (''enum'', JArr [JStr ''member'', JStr ''owner'']),
        (''description'', JStr ''Membership role within this conversation, distinct from the account-level RBAC role.'')]),
       (''joined_at'', JObj [(''type'', JStr ''string''), (''format'', JStr ''date-time'')])])])]"

definition openapi_schemas_2 :: "(string \<times> json) list" where
  "openapi_schemas_2 =
     [(''Conversation'', JObj [(''type'', JStr ''object''),
      (''required'', JArr [JStr ''id'', JStr ''type'', JStr ''created_at'', JStr ''updated_at'', JStr ''participants'']),
      (''properties'', JObj [(''id'', JObj [(''type'', JStr ''integer''), (''format'', JStr ''int64'')]),
       (''type'', JObj [(''type'', JStr ''string''), (''enum'', JArr [JStr ''direct'', JStr ''group''])]),
       (''name'', JObj [(''type'', JArr [JStr ''string'', JStr ''null'']),
        (''description'', JStr ''Group name; null for direct.'')]),
       (''owner_id'', JObj [(''type'', JArr [JStr ''integer'', JStr ''null'']),
        (''format'', JStr ''int64''),
        (''description'', JStr ''Group owner; null for direct conversations.'')]),
       (''participants'', JObj [(''type'', JStr ''array''),
        (''description'', JStr ''Full membership records, not bare ids.''),
        (''items'', JObj [(''$ref'', JStr ''#/components/schemas/ConversationParticipant'')])]),
       (''created_at'', JObj [(''type'', JStr ''string''), (''format'', JStr ''date-time'')]),
       (''updated_at'', JObj [(''type'', JStr ''string''), (''format'', JStr ''date-time'')]),
       (''last_message_at'', JObj [(''type'', JArr [JStr ''string'', JStr ''null'']), (''format'', JStr ''date-time'')])])]),
     (''CreateConversationRequest'', JObj [(''type'', JStr ''object''),
      (''description'', JStr (''`type` selects the shape and is always required. A direct conversation takes exactly one other participant and ignores `name`; a group takes `name` plus its initial members. The caller is always added implicitly and must not be listed in `participant_ids`. Creating a direct conversation is idempotent '' @ [CHR 0xE2, CHR 0x80, CHR 0x94] @ '' an existing one between the same two users is returned rather than duplicated.'')),
      (''required'', JArr [JStr ''type'', JStr ''participant_ids'']),
      (''properties'', JObj [(''type'', JObj [(''type'', JStr ''string''), (''enum'', JArr [JStr ''direct'', JStr ''group''])]),
       (''participant_ids'', JObj [(''type'', JStr ''array''),
        (''description'', JStr ''Other participants, excluding the caller. Exactly one entry when type is `direct`.''),
        (''items'', JObj [(''type'', JStr ''integer''), (''format'', JStr ''int64'')])]),
       (''name'', JObj [(''type'', JStr ''string''),
        (''maxLength'', JInt 100),
        (''description'', JStr ''Group name. Ignored when type is `direct`.'')])]),
      (''examples'', JArr [JObj [(''type'', JStr ''direct''), (''participant_ids'', JArr [JInt 2])],
       JObj [(''type'', JStr ''group''),
        (''name'', JStr ''release-team''),
        (''participant_ids'', JArr [JInt 2, JInt 3, JInt 4])]])]),
     (''Message'', JObj [(''type'', JStr ''object''),
      (''required'', JArr [JStr ''id'',
       JStr ''conversation_id'',
       JStr ''sender_id'',
       JStr ''content'',
       JStr ''type'',
       JStr ''created_at'',
       JStr ''updated_at'',
       JStr ''deleted'',
       JStr ''edited'']),
      (''properties'', JObj [(''id'', JObj [(''type'', JStr ''integer''), (''format'', JStr ''int64'')]),
       (''conversation_id'', JObj [(''type'', JStr ''integer''), (''format'', JStr ''int64'')]),
       (''sender_id'', JObj [(''type'', JStr ''integer''), (''format'', JStr ''int64'')]),
       (''type'', JObj [(''type'', JStr ''string''), (''enum'', JArr [JStr ''text'', JStr ''system''])]),
       (''content'', JObj [(''type'', JStr ''string''),
        (''maxLength'', JInt 4000),
        (''description'', JStr ''Emptied when the message is soft-deleted.'')]),
       (''attachment_ids'', JObj [(''type'', JStr ''array''),
        (''items'', JObj [(''type'', JStr ''integer''), (''format'', JStr ''int64'')])]),
       (''created_at'', JObj [(''type'', JStr ''string''), (''format'', JStr ''date-time'')]),
       (''updated_at'', JObj [(''type'', JStr ''string''), (''format'', JStr ''date-time'')]),
       (''deleted'', JObj [(''type'', JStr ''boolean''),
        (''description'', JStr ''Soft-delete flag. The row is retained so conversation history stays contiguous.'')]),
       (''edited'', JObj [(''type'', JStr ''boolean''), (''description'', JStr ''True once the content has been changed.'')]),
       (''edited_at'', JObj [(''type'', JArr [JStr ''string'', JStr ''null'']),
        (''format'', JStr ''date-time''),
        (''description'', JStr ''Null until the first edit.'')])])]),
     (''SendMessageRequest'', JObj [(''type'', JStr ''object''),
      (''required'', JArr [JStr ''conversation_id'', JStr ''content'']),
      (''properties'', JObj [(''conversation_id'', JObj [(''type'', JStr ''integer''), (''format'', JStr ''int64'')]),
       (''content'', JObj [(''type'', JStr ''string''), (''minLength'', JInt 1), (''maxLength'', JInt 4000)]),
       (''type'', JObj [(''type'', JStr ''string''),
        (''enum'', JArr [JStr ''text'', JStr ''system'']),
        (''default'', JStr ''text'')]),
       (''attachment_ids'', JObj [(''type'', JStr ''array''),
        (''items'', JObj [(''type'', JStr ''integer''), (''format'', JStr ''int64'')]),
        (''description'', JStr ''Ids from POST /attachments, owned by the caller.'')])]),
      (''examples'', JArr [JObj [(''conversation_id'', JInt 7), (''content'', JStr ''Ship it.'')]])]),
     (''UpdateMessageRequest'', JObj [(''type'', JStr ''object''),
      (''required'', JArr [JStr ''content'']),
      (''properties'', JObj [(''content'', JObj [(''type'', JStr ''string''), (''minLength'', JInt 1), (''maxLength'', JInt 4000)])])]),
     (''Reaction'', JObj [(''type'', JStr ''object''),
      (''required'', JArr [JStr ''message_id'', JStr ''user_id'', JStr ''emoji'']),
      (''properties'', JObj [(''message_id'', JObj [(''type'', JStr ''integer''), (''format'', JStr ''int64'')]),
       (''user_id'', JObj [(''type'', JStr ''integer''), (''format'', JStr ''int64'')]),
       (''emoji'', JObj [(''type'', JStr ''string''),
        (''enum'', JArr [JStr ([CHR 0xF0, CHR 0x9F, CHR 0x91, CHR 0x8D]),
         JStr ([CHR 0xE2, CHR 0x9D, CHR 0xA4, CHR 0xEF, CHR 0xB8, CHR 0x8F]),
         JStr ([CHR 0xF0, CHR 0x9F, CHR 0x98, CHR 0x82]),
         JStr ([CHR 0xF0, CHR 0x9F, CHR 0x98, CHR 0xAE]),
         JStr ([CHR 0xF0, CHR 0x9F, CHR 0x98, CHR 0xA2]),
         JStr ([CHR 0xF0, CHR 0x9F, CHR 0x91, CHR 0x8F]),
         JStr ([CHR 0xF0, CHR 0x9F, CHR 0x94, CHR 0xA5])])]),
       (''created_at'', JObj [(''type'', JStr ''string''), (''format'', JStr ''date-time'')])])]),
     (''ReactionRequest'', JObj [(''type'', JStr ''object''),
      (''description'', JStr ''Reactions are restricted to a fixed palette so every client can render them, and anything outside the enum is rejected with a validation error naming `emoji`. Send the literal emoji character, not a shortcode such as `:thumbsup:`.''),
      (''required'', JArr [JStr ''emoji'']),
      (''properties'', JObj [(''emoji'', JObj [(''type'', JStr ''string''),
        (''enum'', JArr [JStr ([CHR 0xF0, CHR 0x9F, CHR 0x91, CHR 0x8D]),
         JStr ([CHR 0xE2, CHR 0x9D, CHR 0xA4, CHR 0xEF, CHR 0xB8, CHR 0x8F]),
         JStr ([CHR 0xF0, CHR 0x9F, CHR 0x98, CHR 0x82]),
         JStr ([CHR 0xF0, CHR 0x9F, CHR 0x98, CHR 0xAE]),
         JStr ([CHR 0xF0, CHR 0x9F, CHR 0x98, CHR 0xA2]),
         JStr ([CHR 0xF0, CHR 0x9F, CHR 0x91, CHR 0x8F]),
         JStr ([CHR 0xF0, CHR 0x9F, CHR 0x94, CHR 0xA5])])])]),
      (''examples'', JArr [JObj [(''emoji'', JStr ([CHR 0xF0, CHR 0x9F, CHR 0x91, CHR 0x8D]))]])]),
     (''Attachment'', JObj [(''type'', JStr ''object''),
      (''properties'', JObj [(''id'', JObj [(''type'', JStr ''integer''), (''format'', JStr ''int64'')]),
       (''owner_id'', JObj [(''type'', JStr ''integer''), (''format'', JStr ''int64'')]),
       (''message_id'', JObj [(''type'', JArr [JStr ''integer'', JStr ''null'']), (''format'', JStr ''int64'')]),
       (''filename'', JObj [(''type'', JStr ''string'')]),
       (''content_type'', JObj [(''type'', JStr ''string'')]),
       (''size_bytes'', JObj [(''type'', JStr ''integer''), (''format'', JStr ''int64'')]),
       (''url'', JObj [(''type'', JStr ''string'')]),
       (''thumbnail_url'', JObj [(''type'', JArr [JStr ''string'', JStr ''null''])]),
       (''created_at'', JObj [(''type'', JStr ''string''), (''format'', JStr ''date-time'')])])]),
     (''Notification'', JObj [(''type'', JStr ''object''),
      (''properties'', JObj [(''id'', JObj [(''type'', JStr ''integer''), (''format'', JStr ''int64'')]),
       (''user_id'', JObj [(''type'', JStr ''integer''), (''format'', JStr ''int64'')]),
       (''type'', JObj [(''type'', JStr ''string'')]),
       (''payload'', JObj [(''type'', JStr ''object''), (''additionalProperties'', JBool True)]),
       (''read_at'', JObj [(''type'', JArr [JStr ''string'', JStr ''null'']), (''format'', JStr ''date-time'')]),
       (''created_at'', JObj [(''type'', JStr ''string''), (''format'', JStr ''date-time'')])])]),
     (''Session'', JObj [(''type'', JStr ''object''),
      (''properties'', JObj [(''id'', JObj [(''type'', JStr ''string'')]),
       (''user_agent'', JObj [(''type'', JArr [JStr ''string'', JStr ''null''])]),
       (''ip'', JObj [(''type'', JArr [JStr ''string'', JStr ''null''])]),
       (''created_at'', JObj [(''type'', JStr ''string''), (''format'', JStr ''date-time'')]),
       (''last_used_at'', JObj [(''type'', JStr ''string''), (''format'', JStr ''date-time'')]),
       (''expires_at'', JObj [(''type'', JStr ''string''), (''format'', JStr ''date-time'')])])])]"

definition openapi_schemas_3 :: "(string \<times> json) list" where
  "openapi_schemas_3 =
     [(''SearchResult'', JObj [(''type'', JStr ''object''),
      (''properties'', JObj [(''message_id'', JObj [(''type'', JStr ''integer''), (''format'', JStr ''int64'')]),
       (''conversation_id'', JObj [(''type'', JStr ''integer''), (''format'', JStr ''int64'')]),
       (''sender_id'', JObj [(''type'', JStr ''integer''), (''format'', JStr ''int64'')]),
       (''content'', JObj [(''type'', JStr ''string'')]),
       (''created_at'', JObj [(''type'', JStr ''string''), (''format'', JStr ''date-time'')]),
       (''rank'', JObj [(''type'', JStr ''number''),
        (''format'', JStr ''double''),
        (''description'', JStr ''ts_rank_cd relevance score.'')]),
       (''highlight'', JObj [(''type'', JStr ''string''), (''description'', JStr ''Snippet with <mark> around matches.'')]),
       (''fuzzy_match'', JObj [(''type'', JStr ''boolean''), (''description'', JStr ''True when returned by the trigram fallback.'')])])]),
     (''SearchResponse'', JObj [(''type'', JStr ''object''),
      (''properties'', JObj [(''query'', JObj [(''type'', JStr ''string'')]),
       (''total'', JObj [(''type'', JStr ''integer''), (''description'', JStr ''Exact full-text matches.'')]),
       (''returned'', JObj [(''type'', JStr ''integer'')]),
       (''fuzzy_available'', JObj [(''type'', JStr ''boolean''), (''description'', JStr ''Whether pg_trgm is installed.'')]),
       (''limit'', JObj [(''type'', JStr ''integer'')]),
       (''offset'', JObj [(''type'', JStr ''integer'')]),
       (''results'', JObj [(''type'', JStr ''array''), (''items'', JObj [(''$ref'', JStr ''#/components/schemas/SearchResult'')])])])]),
     (''AdminUser'', JObj [(''type'', JStr ''object''),
      (''properties'', JObj [(''id'', JObj [(''type'', JStr ''integer''), (''format'', JStr ''int64'')]),
       (''username'', JObj [(''type'', JStr ''string'')]),
       (''email'', JObj [(''type'', JStr ''string''), (''format'', JStr ''email'')]),
       (''display_name'', JObj [(''type'', JArr [JStr ''string'', JStr ''null''])]),
       (''role'', JObj [(''$ref'', JStr ''#/components/schemas/Role'')]),
       (''banned'', JObj [(''type'', JStr ''boolean'')]),
       (''banned_at'', JObj [(''type'', JArr [JStr ''string'', JStr ''null'']), (''format'', JStr ''date-time'')]),
       (''ban_reason'', JObj [(''type'', JArr [JStr ''string'', JStr ''null''])]),
       (''banned_by'', JObj [(''type'', JArr [JStr ''integer'', JStr ''null'']), (''format'', JStr ''int64'')]),
       (''created_at'', JObj [(''type'', JStr ''string''), (''format'', JStr ''date-time'')]),
       (''updated_at'', JObj [(''type'', JStr ''string''), (''format'', JStr ''date-time'')])])]),
     (''Role'', JObj [(''type'', JStr ''string''),
      (''enum'', JArr [JStr ''user'', JStr ''moderator'', JStr ''admin'', JStr ''super_admin'']),
      (''description'', JStr ''Roles are hierarchical. Permissions are derived from the role, never from comparing role names.'')]),
     (''AuditRecord'', JObj [(''type'', JStr ''object''),
      (''properties'', JObj [(''id'', JObj [(''type'', JStr ''integer''), (''format'', JStr ''int64'')]),
       (''event_id'', JObj [(''type'', JStr ''string'')]),
       (''event_type'', JObj [(''type'', JStr ''string''), (''example'', JStr ''user.logged_in'')]),
       (''actor_id'', JObj [(''type'', JArr [JStr ''integer'', JStr ''null'']), (''format'', JStr ''int64'')]),
       (''actor_username'', JObj [(''type'', JArr [JStr ''string'', JStr ''null''])]),
       (''target_type'', JObj [(''type'', JArr [JStr ''string'', JStr ''null''])]),
       (''target_id'', JObj [(''type'', JArr [JStr ''string'', JStr ''null''])]),
       (''ip'', JObj [(''type'', JArr [JStr ''string'', JStr ''null''])]),
       (''user_agent'', JObj [(''type'', JArr [JStr ''string'', JStr ''null''])]),
       (''correlation_id'', JObj [(''type'', JArr [JStr ''string'', JStr ''null''])]),
       (''trace_id'', JObj [(''type'', JArr [JStr ''string'', JStr ''null''])]),
       (''metadata'', JObj [(''type'', JStr ''object''), (''additionalProperties'', JBool True)]),
       (''occurred_at'', JObj [(''type'', JStr ''string''), (''format'', JStr ''date-time'')]),
       (''created_at'', JObj [(''type'', JStr ''string''), (''format'', JStr ''date-time'')])])]),
     (''FeatureFlag'', JObj [(''type'', JStr ''object''),
      (''properties'', JObj [(''name'', JObj [(''type'', JStr ''string'')]),
       (''enabled'', JObj [(''type'', JStr ''boolean'')]),
       (''env'', JObj [(''type'', JStr ''string''), (''description'', JStr ''Environment variable seeding this flag.'')]),
       (''default'', JObj [(''type'', JStr ''boolean'')]),
       (''description'', JObj [(''type'', JStr ''string'')])])]),
     (''HealthStatus'', JObj [(''type'', JStr ''object''),
      (''properties'', JObj [(''status'', JObj [(''type'', JStr ''string'')]),
       (''checks'', JObj [(''type'', JStr ''object''), (''additionalProperties'', JObj [(''type'', JStr ''string'')])]),
       (''cluster'', JObj [(''type'', JStr ''object''), (''additionalProperties'', JBool True)]),
       (''websocket_protocol'', JObj [(''type'', JStr ''object''), (''additionalProperties'', JBool True)])])])]"

definition openapi_responses :: "(string \<times> json) list" where
  "openapi_responses =
     [(''BadRequest'', JObj [(''description'', JStr ''Invalid input''),
      (''content'', JObj [(''application/json'', JObj [(''schema'', JObj [(''$ref'', JStr ''#/components/schemas/Error'')])])])]),
     (''Unauthorized'', JObj [(''description'', JStr ''Missing/invalid token, or suspended account''),
      (''content'', JObj [(''application/json'', JObj [(''schema'', JObj [(''$ref'', JStr ''#/components/schemas/Error'')])])])]),
     (''Forbidden'', JObj [(''description'', JStr ''Authenticated but not permitted''),
      (''content'', JObj [(''application/json'', JObj [(''schema'', JObj [(''$ref'', JStr ''#/components/schemas/Error'')])])])]),
     (''NotFound'', JObj [(''description'', JStr ''Resource not found, or feature disabled''),
      (''content'', JObj [(''application/json'', JObj [(''schema'', JObj [(''$ref'', JStr ''#/components/schemas/Error'')])])])]),
     (''Conflict'', JObj [(''description'', JStr ''State conflict (e.g. duplicate)''),
      (''content'', JObj [(''application/json'', JObj [(''schema'', JObj [(''$ref'', JStr ''#/components/schemas/Error'')])])])]),
     (''TooLarge'', JObj [(''description'', JStr ''Request or upload exceeds the limit''),
      (''content'', JObj [(''application/json'', JObj [(''schema'', JObj [(''$ref'', JStr ''#/components/schemas/Error'')])])])]),
     (''RateLimited'', JObj [(''description'', JStr ''Rate limit exceeded''),
      (''content'', JObj [(''application/json'', JObj [(''schema'', JObj [(''$ref'', JStr ''#/components/schemas/Error'')])])])]),
     (''ServerError'', JObj [(''description'', JStr ''Internal error''),
      (''content'', JObj [(''application/json'', JObj [(''schema'', JObj [(''$ref'', JStr ''#/components/schemas/Error'')])])])])]"

definition openapi_auth_paths :: "(string \<times> json) list" where
  "openapi_auth_paths =
     [(''/api/v1/auth/register'', JObj [(''post'', JObj [(''tags'', JArr [JStr ''Authentication'']),
       (''summary'', JStr ''Register a new account''),
       (''security'', JArr []),
       (''operationId'', JStr ''register''),
       (''requestBody'', JObj [(''required'', JBool True),
        (''content'', JObj [(''application/json'', JObj [(''schema'', JObj [(''$ref'', JStr ''#/components/schemas/RegisterRequest'')])])])]),
       (''responses'', JObj [(''201'', JObj [(''description'', JStr ''Account created''),
         (''content'', JObj [(''application/json'', JObj [(''schema'', JObj [(''$ref'', JStr ''#/components/schemas/AuthResponse'')])])])]),
        (''400'', JObj [(''$ref'', JStr ''#/components/responses/BadRequest'')]),
        (''409'', JObj [(''$ref'', JStr ''#/components/responses/Conflict'')]),
        (''429'', JObj [(''$ref'', JStr ''#/components/responses/RateLimited'')])])])]),
     (''/api/v1/auth/login'', JObj [(''post'', JObj [(''tags'', JArr [JStr ''Authentication'']),
       (''summary'', JStr ''Exchange credentials for tokens''),
       (''security'', JArr []),
       (''operationId'', JStr ''login''),
       (''requestBody'', JObj [(''required'', JBool True),
        (''content'', JObj [(''application/json'', JObj [(''schema'', JObj [(''$ref'', JStr ''#/components/schemas/LoginRequest'')])])])]),
       (''responses'', JObj [(''200'', JObj [(''description'', JStr ''Authenticated''),
         (''content'', JObj [(''application/json'', JObj [(''schema'', JObj [(''$ref'', JStr ''#/components/schemas/AuthResponse'')])])])]),
        (''400'', JObj [(''$ref'', JStr ''#/components/responses/BadRequest'')]),
        (''401'', JObj [(''$ref'', JStr ''#/components/responses/Unauthorized'')]),
        (''429'', JObj [(''$ref'', JStr ''#/components/responses/RateLimited'')])])])]),
     (''/api/v1/auth/refresh'', JObj [(''post'', JObj [(''tags'', JArr [JStr ''Authentication'']),
       (''summary'', JStr ''Rotate an access/refresh pair''),
       (''description'', JStr ''The refresh token is single-use: rotation replaces the stored hash, so replaying an old token is rejected.''),
       (''security'', JArr []),
       (''operationId'', JStr ''refresh''),
       (''requestBody'', JObj [(''required'', JBool True),
        (''content'', JObj [(''application/json'', JObj [(''schema'', JObj [(''$ref'', JStr ''#/components/schemas/RefreshRequest'')])])])]),
       (''responses'', JObj [(''200'', JObj [(''description'', JStr ''Rotated''),
         (''content'', JObj [(''application/json'', JObj [(''schema'', JObj [(''$ref'', JStr ''#/components/schemas/TokenPair'')])])])]),
        (''400'', JObj [(''$ref'', JStr ''#/components/responses/BadRequest'')]),
        (''401'', JObj [(''$ref'', JStr ''#/components/responses/Unauthorized'')])])])]),
     (''/api/v1/auth/logout'', JObj [(''post'', JObj [(''tags'', JArr [JStr ''Authentication'']),
       (''summary'', JStr ''Revoke the current session''),
       (''operationId'', JStr ''logout''),
       (''requestBody'', JObj [(''required'', JBool True),
        (''content'', JObj [(''application/json'', JObj [(''schema'', JObj [(''type'', JStr ''object''),
           (''required'', JArr [JStr ''session_id'']),
           (''properties'', JObj [(''session_id'', JObj [(''type'', JStr ''string'')])])])])])]),
       (''responses'', JObj [(''200'', JObj [(''description'', JStr ''Revoked''),
         (''content'', JObj [(''application/json'', JObj [(''schema'', JObj [(''type'', JStr ''object''),
            (''properties'', JObj [(''revoked'', JObj [(''type'', JStr ''boolean'')])])])])])]),
        (''401'', JObj [(''$ref'', JStr ''#/components/responses/Unauthorized'')])])])]),
     (''/api/v1/auth/logout-all'', JObj [(''post'', JObj [(''tags'', JArr [JStr ''Authentication'']),
       (''summary'', JStr ''Revoke every session for the caller''),
       (''operationId'', JStr ''logoutAll''),
       (''responses'', JObj [(''200'', JObj [(''description'', JStr ''Revoked''),
         (''content'', JObj [(''application/json'', JObj [(''schema'', JObj [(''type'', JStr ''object''),
            (''properties'', JObj [(''revoked'', JObj [(''type'', JStr ''integer'')])])])])])]),
        (''401'', JObj [(''$ref'', JStr ''#/components/responses/Unauthorized'')])])])]),
     (''/api/v1/auth/me'', JObj [(''get'', JObj [(''tags'', JArr [JStr ''Authentication'']),
       (''summary'', JStr ''The authenticated user''),
       (''operationId'', JStr ''me''),
       (''responses'', JObj [(''200'', JObj [(''description'', JStr ''Current user''),
         (''content'', JObj [(''application/json'', JObj [(''schema'', JObj [(''$ref'', JStr ''#/components/schemas/User'')])])])]),
        (''401'', JObj [(''$ref'', JStr ''#/components/responses/Unauthorized'')])])])])]"

definition openapi_chat_paths :: "(string \<times> json) list" where
  "openapi_chat_paths =
     [(''/api/v1/users/me'', JObj [(''get'', JObj [(''tags'', JArr [JStr ''Users'']),
       (''summary'', JStr ''Read own profile''),
       (''operationId'', JStr ''getOwnProfile''),
       (''responses'', JObj [(''200'', JObj [(''description'', JStr ''Profile''),
         (''content'', JObj [(''application/json'', JObj [(''schema'', JObj [(''$ref'', JStr ''#/components/schemas/User'')])])])]),
        (''401'', JObj [(''$ref'', JStr ''#/components/responses/Unauthorized'')])])]),
      (''put'', JObj [(''tags'', JArr [JStr ''Users'']),
       (''summary'', JStr ''Update own profile''),
       (''operationId'', JStr ''updateOwnProfile''),
       (''requestBody'', JObj [(''required'', JBool True),
        (''content'', JObj [(''application/json'', JObj [(''schema'', JObj [(''$ref'', JStr ''#/components/schemas/UpdateProfileRequest'')])])])]),
       (''responses'', JObj [(''200'', JObj [(''description'', JStr ''Updated''),
         (''content'', JObj [(''application/json'', JObj [(''schema'', JObj [(''$ref'', JStr ''#/components/schemas/User'')])])])]),
        (''400'', JObj [(''$ref'', JStr ''#/components/responses/BadRequest'')]),
        (''401'', JObj [(''$ref'', JStr ''#/components/responses/Unauthorized'')])])])]),
     (''/api/v1/users/{id}'', JObj [(''get'', JObj [(''tags'', JArr [JStr ''Users'']),
       (''summary'', JStr (''Read a user'' @ sq @ ''s public profile'')),
       (''operationId'', JStr ''getUser''),
       (''parameters'', JArr [JObj [(''name'', JStr ''id''),
         (''in'', JStr ''path''),
         (''required'', JBool True),
         (''schema'', JObj [(''type'', JStr ''integer''), (''format'', JStr ''int64'')])]]),
       (''responses'', JObj [(''200'', JObj [(''description'', JStr ''Profile''),
         (''content'', JObj [(''application/json'', JObj [(''schema'', JObj [(''$ref'', JStr ''#/components/schemas/User'')])])])]),
        (''401'', JObj [(''$ref'', JStr ''#/components/responses/Unauthorized'')]),
        (''404'', JObj [(''$ref'', JStr ''#/components/responses/NotFound'')])])])]),
     (''/api/v1/conversations'', JObj [(''get'', JObj [(''tags'', JArr [JStr ''Conversations'']),
       (''summary'', JStr (''List the caller'' @ sq @ ''s conversations'')),
       (''operationId'', JStr ''listConversations''),
       (''parameters'', JArr [JObj [(''$ref'', JStr ''#/components/parameters/Limit'')],
        JObj [(''$ref'', JStr ''#/components/parameters/Offset'')]]),
       (''responses'', JObj [(''200'', JObj [(''description'', JStr ''Conversations''),
         (''content'', JObj [(''application/json'', JObj [(''schema'', JObj [(''type'', JStr ''object''),
            (''properties'', JObj [(''conversations'', JObj [(''type'', JStr ''array''), (''items'', JObj [(''$ref'', JStr ''#/components/schemas/Conversation'')])])])])])])]),
        (''401'', JObj [(''$ref'', JStr ''#/components/responses/Unauthorized'')])])]),
      (''post'', JObj [(''tags'', JArr [JStr ''Conversations'']),
       (''summary'', JStr ''Create a direct conversation or a group''),
       (''description'', JStr ''Creating a direct conversation is idempotent: the existing one is returned if it already exists.''),
       (''operationId'', JStr ''createConversation''),
       (''requestBody'', JObj [(''required'', JBool True),
        (''content'', JObj [(''application/json'', JObj [(''schema'', JObj [(''$ref'', JStr ''#/components/schemas/CreateConversationRequest'')])])])]),
       (''responses'', JObj [(''201'', JObj [(''description'', JStr ''Created''),
         (''content'', JObj [(''application/json'', JObj [(''schema'', JObj [(''$ref'', JStr ''#/components/schemas/Conversation'')])])])]),
        (''400'', JObj [(''$ref'', JStr ''#/components/responses/BadRequest'')]),
        (''401'', JObj [(''$ref'', JStr ''#/components/responses/Unauthorized'')]),
        (''404'', JObj [(''$ref'', JStr ''#/components/responses/NotFound'')])])])]),
     (''/api/v1/conversations/{id}'', JObj [(''parameters'', JArr [JObj [(''name'', JStr ''id''),
        (''in'', JStr ''path''),
        (''required'', JBool True),
        (''schema'', JObj [(''type'', JStr ''integer''), (''format'', JStr ''int64'')])]]),
      (''get'', JObj [(''tags'', JArr [JStr ''Conversations'']),
       (''summary'', JStr ''Read a conversation''),
       (''operationId'', JStr ''getConversation''),
       (''responses'', JObj [(''200'', JObj [(''description'', JStr ''Conversation''),
         (''content'', JObj [(''application/json'', JObj [(''schema'', JObj [(''$ref'', JStr ''#/components/schemas/Conversation'')])])])]),
        (''401'', JObj [(''$ref'', JStr ''#/components/responses/Unauthorized'')]),
        (''404'', JObj [(''$ref'', JStr ''#/components/responses/NotFound'')])])]),
      (''delete'', JObj [(''tags'', JArr [JStr ''Conversations'']),
       (''summary'', JStr ''Delete a group (owner only)''),
       (''operationId'', JStr ''deleteConversation''),
       (''responses'', JObj [(''200'', JObj [(''description'', JStr ''Deleted'')]),
        (''401'', JObj [(''$ref'', JStr ''#/components/responses/Unauthorized'')]),
        (''403'', JObj [(''$ref'', JStr ''#/components/responses/Forbidden'')]),
        (''404'', JObj [(''$ref'', JStr ''#/components/responses/NotFound'')])])])]),
     (''/api/v1/conversations/{id}/name'', JObj [(''parameters'', JArr [JObj [(''name'', JStr ''id''),
        (''in'', JStr ''path''),
        (''required'', JBool True),
        (''schema'', JObj [(''type'', JStr ''integer''), (''format'', JStr ''int64'')])]]),
      (''patch'', JObj [(''tags'', JArr [JStr ''Conversations'']),
       (''summary'', JStr ''Rename a group (owner only)''),
       (''operationId'', JStr ''renameConversation''),
       (''requestBody'', JObj [(''required'', JBool True),
        (''content'', JObj [(''application/json'', JObj [(''schema'', JObj [(''type'', JStr ''object''),
           (''required'', JArr [JStr ''name'']),
           (''properties'', JObj [(''name'', JObj [(''type'', JStr ''string''), (''maxLength'', JInt 100)])])])])])]),
       (''responses'', JObj [(''200'', JObj [(''description'', JStr ''Renamed''),
         (''content'', JObj [(''application/json'', JObj [(''schema'', JObj [(''$ref'', JStr ''#/components/schemas/Conversation'')])])])]),
        (''400'', JObj [(''$ref'', JStr ''#/components/responses/BadRequest'')]),
        (''403'', JObj [(''$ref'', JStr ''#/components/responses/Forbidden'')]),
        (''404'', JObj [(''$ref'', JStr ''#/components/responses/NotFound'')])])])]),
     (''/api/v1/conversations/{id}/members'', JObj [(''parameters'', JArr [JObj [(''name'', JStr ''id''),
        (''in'', JStr ''path''),
        (''required'', JBool True),
        (''schema'', JObj [(''type'', JStr ''integer''), (''format'', JStr ''int64'')])]]),
      (''post'', JObj [(''tags'', JArr [JStr ''Conversations'']),
       (''summary'', JStr ''Add a member to a group (owner only)''),
       (''operationId'', JStr ''addMember''),
       (''requestBody'', JObj [(''required'', JBool True),
        (''content'', JObj [(''application/json'', JObj [(''schema'', JObj [(''type'', JStr ''object''),
           (''required'', JArr [JStr ''user_id'']),
           (''properties'', JObj [(''user_id'', JObj [(''type'', JStr ''integer''), (''format'', JStr ''int64'')])])])])])]),
       (''responses'', JObj [(''200'', JObj [(''description'', JStr ''Added'')]),
        (''400'', JObj [(''$ref'', JStr ''#/components/responses/BadRequest'')]),
        (''403'', JObj [(''$ref'', JStr ''#/components/responses/Forbidden'')]),
        (''404'', JObj [(''$ref'', JStr ''#/components/responses/NotFound'')]),
        (''409'', JObj [(''$ref'', JStr ''#/components/responses/Conflict'')])])])]),
     (''/api/v1/conversations/{id}/members/{user_id}'', JObj [(''parameters'', JArr [JObj [(''name'', JStr ''id''),
        (''in'', JStr ''path''),
        (''required'', JBool True),
        (''schema'', JObj [(''type'', JStr ''integer''), (''format'', JStr ''int64'')])],
       JObj [(''name'', JStr ''user_id''),
        (''in'', JStr ''path''),
        (''required'', JBool True),
        (''schema'', JObj [(''type'', JStr ''integer''), (''format'', JStr ''int64'')])]]),
      (''delete'', JObj [(''tags'', JArr [JStr ''Conversations'']),
       (''summary'', JStr ''Remove a member (owner only)''),
       (''operationId'', JStr ''removeMember''),
       (''responses'', JObj [(''200'', JObj [(''description'', JStr ''Removed'')]),
        (''403'', JObj [(''$ref'', JStr ''#/components/responses/Forbidden'')]),
        (''404'', JObj [(''$ref'', JStr ''#/components/responses/NotFound'')])])])]),
     (''/api/v1/conversations/{id}/leave'', JObj [(''parameters'', JArr [JObj [(''name'', JStr ''id''),
        (''in'', JStr ''path''),
        (''required'', JBool True),
        (''schema'', JObj [(''type'', JStr ''integer''), (''format'', JStr ''int64'')])]]),
      (''post'', JObj [(''tags'', JArr [JStr ''Conversations'']),
       (''summary'', JStr ''Leave a group''),
       (''operationId'', JStr ''leaveConversation''),
       (''responses'', JObj [(''200'', JObj [(''description'', JStr ''Left'')]),
        (''401'', JObj [(''$ref'', JStr ''#/components/responses/Unauthorized'')]),
        (''404'', JObj [(''$ref'', JStr ''#/components/responses/NotFound'')])])])])]"

definition openapi_message_paths :: "(string \<times> json) list" where
  "openapi_message_paths =
     [(''/api/v1/messages'', JObj [(''get'', JObj [(''tags'', JArr [JStr ''Messages'']),
       (''summary'', JStr ''List messages in a conversation''),
       (''operationId'', JStr ''listMessages''),
       (''parameters'', JArr [JObj [(''name'', JStr ''conversation_id''),
         (''in'', JStr ''query''),
         (''required'', JBool True),
         (''schema'', JObj [(''type'', JStr ''integer''), (''format'', JStr ''int64'')])],
        JObj [(''name'', JStr ''sender_id''),
         (''in'', JStr ''query''),
         (''required'', JBool False),
         (''schema'', JObj [(''type'', JStr ''integer''), (''format'', JStr ''int64'')])],
        JObj [(''name'', JStr ''q''),
         (''in'', JStr ''query''),
         (''required'', JBool False),
         (''schema'', JObj [(''type'', JStr ''string'')]),
         (''description'', JStr ''Simple keyword filter. For ranked search with highlighting use /api/v1/search/messages.'')],
        JObj [(''$ref'', JStr ''#/components/parameters/Limit'')],
        JObj [(''$ref'', JStr ''#/components/parameters/Offset'')],
        JObj [(''$ref'', JStr ''#/components/parameters/Before'')],
        JObj [(''$ref'', JStr ''#/components/parameters/After'')]]),
       (''responses'', JObj [(''200'', JObj [(''description'', JStr ''Messages, newest first''),
         (''content'', JObj [(''application/json'', JObj [(''schema'', JObj [(''type'', JStr ''object''),
            (''properties'', JObj [(''messages'', JObj [(''type'', JStr ''array''), (''items'', JObj [(''$ref'', JStr ''#/components/schemas/Message'')])])])])])])]),
        (''401'', JObj [(''$ref'', JStr ''#/components/responses/Unauthorized'')]),
        (''404'', JObj [(''$ref'', JStr ''#/components/responses/NotFound'')])])]),
      (''post'', JObj [(''tags'', JArr [JStr ''Messages'']),
       (''summary'', JStr ''Send a message''),
       (''description'', JStr ''Persists first, then broadcasts to every participant over WebSocket.''),
       (''operationId'', JStr ''sendMessage''),
       (''requestBody'', JObj [(''required'', JBool True),
        (''content'', JObj [(''application/json'', JObj [(''schema'', JObj [(''$ref'', JStr ''#/components/schemas/SendMessageRequest'')])])])]),
       (''responses'', JObj [(''201'', JObj [(''description'', JStr ''Sent''),
         (''content'', JObj [(''application/json'', JObj [(''schema'', JObj [(''$ref'', JStr ''#/components/schemas/Message'')])])])]),
        (''400'', JObj [(''$ref'', JStr ''#/components/responses/BadRequest'')]),
        (''401'', JObj [(''$ref'', JStr ''#/components/responses/Unauthorized'')]),
        (''404'', JObj [(''$ref'', JStr ''#/components/responses/NotFound'')]),
        (''429'', JObj [(''$ref'', JStr ''#/components/responses/RateLimited'')])])])]),
     (''/api/v1/messages/{id}'', JObj [(''parameters'', JArr [JObj [(''name'', JStr ''id''),
        (''in'', JStr ''path''),
        (''required'', JBool True),
        (''schema'', JObj [(''type'', JStr ''integer''), (''format'', JStr ''int64'')])]]),
      (''patch'', JObj [(''tags'', JArr [JStr ''Messages'']),
       (''summary'', JStr ''Edit a message (author only)''),
       (''operationId'', JStr ''editMessage''),
       (''requestBody'', JObj [(''required'', JBool True),
        (''content'', JObj [(''application/json'', JObj [(''schema'', JObj [(''$ref'', JStr ''#/components/schemas/UpdateMessageRequest'')])])])]),
       (''responses'', JObj [(''200'', JObj [(''description'', JStr ''Edited''),
         (''content'', JObj [(''application/json'', JObj [(''schema'', JObj [(''$ref'', JStr ''#/components/schemas/Message'')])])])]),
        (''400'', JObj [(''$ref'', JStr ''#/components/responses/BadRequest'')]),
        (''403'', JObj [(''$ref'', JStr ''#/components/responses/Forbidden'')]),
        (''404'', JObj [(''$ref'', JStr ''#/components/responses/NotFound'')])])]),
      (''delete'', JObj [(''tags'', JArr [JStr ''Messages'']),
       (''summary'', JStr ''Soft-delete a message''),
       (''description'', JStr ''Permitted for the author, the group owner, or a caller holding message.delete_any.''),
       (''operationId'', JStr ''deleteMessage''),
       (''responses'', JObj [(''200'', JObj [(''description'', JStr ''Deleted''),
         (''content'', JObj [(''application/json'', JObj [(''schema'', JObj [(''$ref'', JStr ''#/components/schemas/Message'')])])])]),
        (''403'', JObj [(''$ref'', JStr ''#/components/responses/Forbidden'')]),
        (''404'', JObj [(''$ref'', JStr ''#/components/responses/NotFound'')])])])]),
     (''/api/v1/messages/{id}/reactions'', JObj [(''parameters'', JArr [JObj [(''name'', JStr ''id''),
        (''in'', JStr ''path''),
        (''required'', JBool True),
        (''schema'', JObj [(''type'', JStr ''integer''), (''format'', JStr ''int64'')])]]),
      (''get'', JObj [(''tags'', JArr [JStr ''Reactions'']),
       (''summary'', JStr ''List reactions on a message''),
       (''operationId'', JStr ''listReactions''),
       (''responses'', JObj [(''200'', JObj [(''description'', JStr ''Reactions''),
         (''content'', JObj [(''application/json'', JObj [(''schema'', JObj [(''type'', JStr ''object''),
            (''properties'', JObj [(''reactions'', JObj [(''type'', JStr ''array''), (''items'', JObj [(''$ref'', JStr ''#/components/schemas/Reaction'')])])])])])])]),
        (''404'', JObj [(''$ref'', JStr ''#/components/responses/NotFound'')])])]),
      (''post'', JObj [(''tags'', JArr [JStr ''Reactions'']),
       (''summary'', JStr ''Add a reaction''),
       (''operationId'', JStr ''addReaction''),
       (''requestBody'', JObj [(''required'', JBool True),
        (''content'', JObj [(''application/json'', JObj [(''schema'', JObj [(''$ref'', JStr ''#/components/schemas/ReactionRequest'')])])])]),
       (''responses'', JObj [(''201'', JObj [(''description'', JStr ''Added''),
         (''content'', JObj [(''application/json'', JObj [(''schema'', JObj [(''$ref'', JStr ''#/components/schemas/Reaction'')])])])]),
        (''400'', JObj [(''$ref'', JStr ''#/components/responses/BadRequest'')]),
        (''404'', JObj [(''$ref'', JStr ''#/components/responses/NotFound'')]),
        (''409'', JObj [(''$ref'', JStr ''#/components/responses/Conflict'')])])]),
      (''delete'', JObj [(''tags'', JArr [JStr ''Reactions'']),
       (''summary'', JStr (''Remove the caller'' @ sq @ ''s reaction'')),
       (''operationId'', JStr ''removeReaction''),
       (''requestBody'', JObj [(''required'', JBool True),
        (''content'', JObj [(''application/json'', JObj [(''schema'', JObj [(''$ref'', JStr ''#/components/schemas/ReactionRequest'')])])])]),
       (''responses'', JObj [(''200'', JObj [(''description'', JStr ''Removed'')]),
        (''404'', JObj [(''$ref'', JStr ''#/components/responses/NotFound'')])])])]),
     (''/api/v1/attachments'', JObj [(''post'', JObj [(''tags'', JArr [JStr ''Attachments'']),
       (''summary'', JStr ''Upload a file''),
       (''description'', JStr (''multipart/form-data with a `file` part. The declared content type is verified against the file'' @ sq @ ''s magic bytes; a mismatch is rejected with 415.'')),
       (''operationId'', JStr ''uploadAttachment''),
       (''requestBody'', JObj [(''required'', JBool True),
        (''content'', JObj [(''multipart/form-data'', JObj [(''schema'', JObj [(''type'', JStr ''object''),
           (''required'', JArr [JStr ''file'']),
           (''properties'', JObj [(''file'', JObj [(''type'', JStr ''string''), (''format'', JStr ''binary'')])])])])])]),
       (''responses'', JObj [(''201'', JObj [(''description'', JStr ''Uploaded''),
         (''content'', JObj [(''application/json'', JObj [(''schema'', JObj [(''$ref'', JStr ''#/components/schemas/Attachment'')])])])]),
        (''400'', JObj [(''$ref'', JStr ''#/components/responses/BadRequest'')]),
        (''413'', JObj [(''$ref'', JStr ''#/components/responses/TooLarge'')]),
        (''415'', JObj [(''description'', JStr ''Unsupported or mismatched media type''),
         (''content'', JObj [(''application/json'', JObj [(''schema'', JObj [(''$ref'', JStr ''#/components/schemas/Error'')])])])]),
        (''429'', JObj [(''$ref'', JStr ''#/components/responses/RateLimited'')])])])]),
     (''/api/v1/attachments/{id}'', JObj [(''parameters'', JArr [JObj [(''name'', JStr ''id''),
        (''in'', JStr ''path''),
        (''required'', JBool True),
        (''schema'', JObj [(''type'', JStr ''integer''), (''format'', JStr ''int64'')])]]),
      (''get'', JObj [(''tags'', JArr [JStr ''Attachments'']),
       (''summary'', JStr ''Download an attachment''),
       (''operationId'', JStr ''downloadAttachment''),
       (''responses'', JObj [(''200'', JObj [(''description'', JStr ''File bytes''),
         (''content'', JObj [(''application/octet-stream'', JObj [(''schema'', JObj [(''type'', JStr ''string''), (''format'', JStr ''binary'')])])])]),
        (''403'', JObj [(''$ref'', JStr ''#/components/responses/Forbidden'')]),
        (''404'', JObj [(''$ref'', JStr ''#/components/responses/NotFound'')])])]),
      (''delete'', JObj [(''tags'', JArr [JStr ''Attachments'']),
       (''summary'', JStr ''Delete an attachment (owner only)''),
       (''operationId'', JStr ''deleteAttachment''),
       (''responses'', JObj [(''200'', JObj [(''description'', JStr ''Deleted'')]),
        (''403'', JObj [(''$ref'', JStr ''#/components/responses/Forbidden'')]),
        (''404'', JObj [(''$ref'', JStr ''#/components/responses/NotFound'')])])])]),
     (''/api/v1/attachments/{id}/thumbnail'', JObj [(''parameters'', JArr [JObj [(''name'', JStr ''id''),
        (''in'', JStr ''path''),
        (''required'', JBool True),
        (''schema'', JObj [(''type'', JStr ''integer''), (''format'', JStr ''int64'')])]]),
      (''get'', JObj [(''tags'', JArr [JStr ''Attachments'']),
       (''summary'', JStr ''Download an image thumbnail''),
       (''operationId'', JStr ''downloadThumbnail''),
       (''responses'', JObj [(''200'', JObj [(''description'', JStr ''Thumbnail bytes''),
         (''content'', JObj [(''image/*'', JObj [(''schema'', JObj [(''type'', JStr ''string''), (''format'', JStr ''binary'')])])])]),
        (''404'', JObj [(''$ref'', JStr ''#/components/responses/NotFound'')])])])])]"

definition openapi_inbox_paths :: "(string \<times> json) list" where
  "openapi_inbox_paths =
     [(''/api/v1/notifications'', JObj [(''get'', JObj [(''tags'', JArr [JStr ''Notifications'']),
       (''summary'', JStr (''List the caller'' @ sq @ ''s notifications'')),
       (''operationId'', JStr ''listNotifications''),
       (''parameters'', JArr [JObj [(''name'', JStr ''unread_only''),
         (''in'', JStr ''query''),
         (''required'', JBool False),
         (''schema'', JObj [(''type'', JStr ''boolean''), (''default'', JBool False)])],
        JObj [(''$ref'', JStr ''#/components/parameters/Limit'')],
        JObj [(''$ref'', JStr ''#/components/parameters/Offset'')]]),
       (''responses'', JObj [(''200'', JObj [(''description'', JStr ''Notifications''),
         (''content'', JObj [(''application/json'', JObj [(''schema'', JObj [(''type'', JStr ''object''),
            (''properties'', JObj [(''notifications'', JObj [(''type'', JStr ''array''), (''items'', JObj [(''$ref'', JStr ''#/components/schemas/Notification'')])]),
             (''unread_count'', JObj [(''type'', JStr ''integer'')])])])])])]),
        (''401'', JObj [(''$ref'', JStr ''#/components/responses/Unauthorized'')])])])]),
     (''/api/v1/notifications/{id}'', JObj [(''parameters'', JArr [JObj [(''name'', JStr ''id''),
        (''in'', JStr ''path''),
        (''required'', JBool True),
        (''schema'', JObj [(''type'', JStr ''integer''), (''format'', JStr ''int64'')])]]),
      (''delete'', JObj [(''tags'', JArr [JStr ''Notifications'']),
       (''summary'', JStr ''Delete a notification''),
       (''operationId'', JStr ''deleteNotification''),
       (''responses'', JObj [(''200'', JObj [(''description'', JStr ''Deleted'')]),
        (''404'', JObj [(''$ref'', JStr ''#/components/responses/NotFound'')])])])]),
     (''/api/v1/notifications/{id}/read'', JObj [(''parameters'', JArr [JObj [(''name'', JStr ''id''),
        (''in'', JStr ''path''),
        (''required'', JBool True),
        (''schema'', JObj [(''type'', JStr ''integer''), (''format'', JStr ''int64'')])]]),
      (''post'', JObj [(''tags'', JArr [JStr ''Notifications'']),
       (''summary'', JStr ''Mark one notification read''),
       (''operationId'', JStr ''markNotificationRead''),
       (''responses'', JObj [(''200'', JObj [(''description'', JStr ''Marked read'')]),
        (''404'', JObj [(''$ref'', JStr ''#/components/responses/NotFound'')])])])]),
     (''/api/v1/notifications/read-all'', JObj [(''post'', JObj [(''tags'', JArr [JStr ''Notifications'']),
       (''summary'', JStr ''Mark every notification read''),
       (''operationId'', JStr ''markAllNotificationsRead''),
       (''responses'', JObj [(''200'', JObj [(''description'', JStr ''Marked read''),
         (''content'', JObj [(''application/json'', JObj [(''schema'', JObj [(''type'', JStr ''object''),
            (''properties'', JObj [(''updated'', JObj [(''type'', JStr ''integer'')])])])])])]),
        (''401'', JObj [(''$ref'', JStr ''#/components/responses/Unauthorized'')])])])]),
     (''/api/v1/sessions'', JObj [(''get'', JObj [(''tags'', JArr [JStr ''Sessions'']),
       (''summary'', JStr (''List the caller'' @ sq @ ''s active sessions'')),
       (''operationId'', JStr ''listOwnSessions''),
       (''responses'', JObj [(''200'', JObj [(''description'', JStr ''Sessions''),
         (''content'', JObj [(''application/json'', JObj [(''schema'', JObj [(''type'', JStr ''object''),
            (''properties'', JObj [(''sessions'', JObj [(''type'', JStr ''array''), (''items'', JObj [(''$ref'', JStr ''#/components/schemas/Session'')])])])])])])]),
        (''401'', JObj [(''$ref'', JStr ''#/components/responses/Unauthorized'')])])])]),
     (''/api/v1/sessions/{session_id}'', JObj [(''parameters'', JArr [JObj [(''name'', JStr ''session_id''),
        (''in'', JStr ''path''),
        (''required'', JBool True),
        (''schema'', JObj [(''type'', JStr ''string'')])]]),
      (''delete'', JObj [(''tags'', JArr [JStr ''Sessions'']),
       (''summary'', JStr (''Revoke one of the caller'' @ sq @ ''s sessions'')),
       (''operationId'', JStr ''revokeOwnSession''),
       (''responses'', JObj [(''200'', JObj [(''description'', JStr ''Revoked'')]),
        (''401'', JObj [(''$ref'', JStr ''#/components/responses/Unauthorized'')]),
        (''404'', JObj [(''$ref'', JStr ''#/components/responses/NotFound'')])])])]),
     (''/api/v1/search/messages'', JObj [(''get'', JObj [(''tags'', JArr [JStr ''Search'']),
       (''summary'', JStr ''Full-text search over messages''),
       (''description'', JStr (''Ranked (ts_rank_cd) with highlighted snippets. Scoped to conversations the caller participates in '' @ [CHR 0xE2, CHR 0x80, CHR 0x94] @ '' enforced in SQL. Google-style syntax is supported (quoted phrases, OR, -exclusion). When an exact search returns nothing and pg_trgm is installed, a trigram fallback runs so typos still match; those hits are flagged `fuzzy_match: true`.'')),
       (''operationId'', JStr ''searchMessages''),
       (''parameters'', JArr [JObj [(''name'', JStr ''q''),
         (''in'', JStr ''query''),
         (''required'', JBool True),
         (''schema'', JObj [(''type'', JStr ''string''), (''minLength'', JInt 2), (''maxLength'', JInt 256)])],
        JObj [(''name'', JStr ''conversation_id''),
         (''in'', JStr ''query''),
         (''required'', JBool False),
         (''schema'', JObj [(''type'', JStr ''integer''), (''format'', JStr ''int64'')])],
        JObj [(''name'', JStr ''sender_id''),
         (''in'', JStr ''query''),
         (''required'', JBool False),
         (''schema'', JObj [(''type'', JStr ''integer''), (''format'', JStr ''int64'')])],
        JObj [(''name'', JStr ''from''),
         (''in'', JStr ''query''),
         (''required'', JBool False),
         (''schema'', JObj [(''type'', JStr ''integer''), (''format'', JStr ''int64'')]),
         (''description'', JStr ''Unix epoch seconds, inclusive lower bound.'')],
        JObj [(''name'', JStr ''to''),
         (''in'', JStr ''query''),
         (''required'', JBool False),
         (''schema'', JObj [(''type'', JStr ''integer''), (''format'', JStr ''int64'')]),
         (''description'', JStr ''Unix epoch seconds, inclusive upper bound.'')],
        JObj [(''name'', JStr ''fuzzy''),
         (''in'', JStr ''query''),
         (''required'', JBool False),
         (''schema'', JObj [(''type'', JStr ''boolean''), (''default'', JBool True)])],
        JObj [(''name'', JStr ''highlight''),
         (''in'', JStr ''query''),
         (''required'', JBool False),
         (''schema'', JObj [(''type'', JStr ''boolean''), (''default'', JBool True)])],
        JObj [(''$ref'', JStr ''#/components/parameters/Limit'')],
        JObj [(''$ref'', JStr ''#/components/parameters/Offset'')]]),
       (''responses'', JObj [(''200'', JObj [(''description'', JStr ''Results''),
         (''content'', JObj [(''application/json'', JObj [(''schema'', JObj [(''$ref'', JStr ''#/components/schemas/SearchResponse'')])])])]),
        (''400'', JObj [(''$ref'', JStr ''#/components/responses/BadRequest'')]),
        (''401'', JObj [(''$ref'', JStr ''#/components/responses/Unauthorized'')]),
        (''404'', JObj [(''description'', JStr ''Search feature disabled''),
         (''content'', JObj [(''application/json'', JObj [(''schema'', JObj [(''$ref'', JStr ''#/components/schemas/Error'')])])])])])])])]"

definition openapi_admin_user_paths :: "(string \<times> json) list" where
  "openapi_admin_user_paths =
     [(''/api/v1/admin/users'', JObj [(''get'', JObj [(''tags'', JArr [JStr ''Admin'']),
       (''summary'', JStr ''List users''),
       (''description'', JStr ''Requires user.manage.''),
       (''operationId'', JStr ''adminListUsers''),
       (''parameters'', JArr [JObj [(''name'', JStr ''q''),
         (''in'', JStr ''query''),
         (''required'', JBool False),
         (''schema'', JObj [(''type'', JStr ''string'')]),
         (''description'', JStr ''Substring across username, email and display name.'')],
        JObj [(''name'', JStr ''role''),
         (''in'', JStr ''query''),
         (''required'', JBool False),
         (''schema'', JObj [(''$ref'', JStr ''#/components/schemas/Role'')])],
        JObj [(''name'', JStr ''banned''),
         (''in'', JStr ''query''),
         (''required'', JBool False),
         (''schema'', JObj [(''type'', JStr ''boolean'')])],
        JObj [(''$ref'', JStr ''#/components/parameters/Limit'')],
        JObj [(''$ref'', JStr ''#/components/parameters/Offset'')]]),
       (''responses'', JObj [(''200'', JObj [(''description'', JStr ''Users''),
         (''content'', JObj [(''application/json'', JObj [(''schema'', JObj [(''type'', JStr ''object''),
            (''properties'', JObj [(''total'', JObj [(''type'', JStr ''integer'')]),
             (''limit'', JObj [(''type'', JStr ''integer'')]),
             (''offset'', JObj [(''type'', JStr ''integer'')]),
             (''users'', JObj [(''type'', JStr ''array''), (''items'', JObj [(''$ref'', JStr ''#/components/schemas/AdminUser'')])])])])])])]),
        (''401'', JObj [(''$ref'', JStr ''#/components/responses/Unauthorized'')]),
        (''403'', JObj [(''$ref'', JStr ''#/components/responses/Forbidden'')])])])]),
     (''/api/v1/admin/users/{id}'', JObj [(''parameters'', JArr [JObj [(''name'', JStr ''id''),
        (''in'', JStr ''path''),
        (''required'', JBool True),
        (''schema'', JObj [(''type'', JStr ''integer''), (''format'', JStr ''int64'')])]]),
      (''get'', JObj [(''tags'', JArr [JStr ''Admin'']),
       (''summary'', JStr ''Read a user''),
       (''description'', JStr ''Requires user.manage.''),
       (''operationId'', JStr ''adminGetUser''),
       (''responses'', JObj [(''200'', JObj [(''description'', JStr ''User''),
         (''content'', JObj [(''application/json'', JObj [(''schema'', JObj [(''$ref'', JStr ''#/components/schemas/AdminUser'')])])])]),
        (''403'', JObj [(''$ref'', JStr ''#/components/responses/Forbidden'')]),
        (''404'', JObj [(''$ref'', JStr ''#/components/responses/NotFound'')])])])]),
     (''/api/v1/admin/users/{id}/role'', JObj [(''parameters'', JArr [JObj [(''name'', JStr ''id''),
        (''in'', JStr ''path''),
        (''required'', JBool True),
        (''schema'', JObj [(''type'', JStr ''integer''), (''format'', JStr ''int64'')])]]),
      (''put'', JObj [(''tags'', JArr [JStr ''Admin'']),
       (''summary'', JStr ''Assign a role''),
       (''description'', JStr ''Requires user.manage_roles (super admin). A caller may never grant a role at or above their own tier.''),
       (''operationId'', JStr ''adminSetRole''),
       (''requestBody'', JObj [(''required'', JBool True),
        (''content'', JObj [(''application/json'', JObj [(''schema'', JObj [(''type'', JStr ''object''),
           (''required'', JArr [JStr ''role'']),
           (''properties'', JObj [(''role'', JObj [(''$ref'', JStr ''#/components/schemas/Role'')])])])])])]),
       (''responses'', JObj [(''200'', JObj [(''description'', JStr ''Assigned''),
         (''content'', JObj [(''application/json'', JObj [(''schema'', JObj [(''type'', JStr ''object''),
            (''properties'', JObj [(''user_id'', JObj [(''type'', JStr ''integer''), (''format'', JStr ''int64'')]),
             (''previous_role'', JObj [(''$ref'', JStr ''#/components/schemas/Role'')]),
             (''role'', JObj [(''$ref'', JStr ''#/components/schemas/Role'')])])])])])]),
        (''400'', JObj [(''$ref'', JStr ''#/components/responses/BadRequest'')]),
        (''403'', JObj [(''$ref'', JStr ''#/components/responses/Forbidden'')]),
        (''404'', JObj [(''$ref'', JStr ''#/components/responses/NotFound'')])])])]),
     (''/api/v1/admin/users/{id}/ban'', JObj [(''parameters'', JArr [JObj [(''name'', JStr ''id''),
        (''in'', JStr ''path''),
        (''required'', JBool True),
        (''schema'', JObj [(''type'', JStr ''integer''), (''format'', JStr ''int64'')])]]),
      (''post'', JObj [(''tags'', JArr [JStr ''Admin'']),
       (''summary'', JStr ''Suspend an account''),
       (''description'', JStr (''Requires user.ban. Also revokes every refresh session, so the account cannot mint new access tokens. Takes effect on the target'' @ sq @ ''s next request.'')),
       (''operationId'', JStr ''adminBanUser''),
       (''requestBody'', JObj [(''required'', JBool False),
        (''content'', JObj [(''application/json'', JObj [(''schema'', JObj [(''type'', JStr ''object''),
           (''properties'', JObj [(''reason'', JObj [(''type'', JStr ''string''), (''maxLength'', JInt 255)])])])])])]),
       (''responses'', JObj [(''200'', JObj [(''description'', JStr ''Suspended''),
         (''content'', JObj [(''application/json'', JObj [(''schema'', JObj [(''type'', JStr ''object''),
            (''properties'', JObj [(''user_id'', JObj [(''type'', JStr ''integer''), (''format'', JStr ''int64'')]),
             (''banned'', JObj [(''type'', JStr ''boolean'')]),
             (''sessions_revoked'', JObj [(''type'', JStr ''integer'')])])])])])]),
        (''400'', JObj [(''$ref'', JStr ''#/components/responses/BadRequest'')]),
        (''403'', JObj [(''$ref'', JStr ''#/components/responses/Forbidden'')]),
        (''404'', JObj [(''$ref'', JStr ''#/components/responses/NotFound'')])])])]),
     (''/api/v1/admin/users/{id}/unban'', JObj [(''parameters'', JArr [JObj [(''name'', JStr ''id''),
        (''in'', JStr ''path''),
        (''required'', JBool True),
        (''schema'', JObj [(''type'', JStr ''integer''), (''format'', JStr ''int64'')])]]),
      (''post'', JObj [(''tags'', JArr [JStr ''Admin'']),
       (''summary'', JStr ''Reinstate an account''),
       (''description'', JStr ''Requires user.ban.''),
       (''operationId'', JStr ''adminUnbanUser''),
       (''responses'', JObj [(''200'', JObj [(''description'', JStr ''Reinstated'')]),
        (''403'', JObj [(''$ref'', JStr ''#/components/responses/Forbidden'')]),
        (''404'', JObj [(''$ref'', JStr ''#/components/responses/NotFound'')])])])]),
     (''/api/v1/admin/users/{id}/sessions'', JObj [(''parameters'', JArr [JObj [(''name'', JStr ''id''),
        (''in'', JStr ''path''),
        (''required'', JBool True),
        (''schema'', JObj [(''type'', JStr ''integer''), (''format'', JStr ''int64'')])]]),
      (''get'', JObj [(''tags'', JArr [JStr ''Admin'']),
       (''summary'', JStr (''List a user'' @ sq @ ''s sessions'')),
       (''description'', JStr ''Requires session.view.''),
       (''operationId'', JStr ''adminListUserSessions''),
       (''responses'', JObj [(''200'', JObj [(''description'', JStr ''Sessions''),
         (''content'', JObj [(''application/json'', JObj [(''schema'', JObj [(''type'', JStr ''object''),
            (''properties'', JObj [(''user_id'', JObj [(''type'', JStr ''integer''), (''format'', JStr ''int64'')]),
             (''sessions'', JObj [(''type'', JStr ''array''), (''items'', JObj [(''$ref'', JStr ''#/components/schemas/Session'')])])])])])])]),
        (''403'', JObj [(''$ref'', JStr ''#/components/responses/Forbidden'')])])]),
      (''delete'', JObj [(''tags'', JArr [JStr ''Admin'']),
       (''summary'', JStr (''Revoke all of a user'' @ sq @ ''s sessions'')),
       (''description'', JStr ''Requires session.revoke.''),
       (''operationId'', JStr ''adminRevokeUserSessions''),
       (''responses'', JObj [(''200'', JObj [(''description'', JStr ''Revoked''),
         (''content'', JObj [(''application/json'', JObj [(''schema'', JObj [(''type'', JStr ''object''),
            (''properties'', JObj [(''user_id'', JObj [(''type'', JStr ''integer''), (''format'', JStr ''int64'')]),
             (''revoked'', JObj [(''type'', JStr ''integer'')])])])])])]),
        (''403'', JObj [(''$ref'', JStr ''#/components/responses/Forbidden'')])])])]),
     (''/api/v1/admin/conversations/{id}'', JObj [(''parameters'', JArr [JObj [(''name'', JStr ''id''),
        (''in'', JStr ''path''),
        (''required'', JBool True),
        (''schema'', JObj [(''type'', JStr ''integer''), (''format'', JStr ''int64'')])]]),
      (''get'', JObj [(''tags'', JArr [JStr ''Admin'']),
       (''summary'', JStr ''Read any conversation''),
       (''description'', JStr ''Requires conversation.view_any.''),
       (''operationId'', JStr ''adminGetConversation''),
       (''responses'', JObj [(''200'', JObj [(''description'', JStr ''Conversation with participants''),
         (''content'', JObj [(''application/json'', JObj [(''schema'', JObj [(''type'', JStr ''object''), (''additionalProperties'', JBool True)])])])]),
        (''403'', JObj [(''$ref'', JStr ''#/components/responses/Forbidden'')]),
        (''404'', JObj [(''$ref'', JStr ''#/components/responses/NotFound'')])])]),
      (''delete'', JObj [(''tags'', JArr [JStr ''Admin'']),
       (''summary'', JStr ''Delete any conversation''),
       (''description'', JStr ''Requires group.manage.''),
       (''operationId'', JStr ''adminDeleteConversation''),
       (''responses'', JObj [(''200'', JObj [(''description'', JStr ''Deleted'')]),
        (''403'', JObj [(''$ref'', JStr ''#/components/responses/Forbidden'')]),
        (''404'', JObj [(''$ref'', JStr ''#/components/responses/NotFound'')])])])])]"

definition openapi_admin_operation_paths :: "(string \<times> json) list" where
  "openapi_admin_operation_paths =
     [(''/api/v1/admin/websockets'', JObj [(''get'', JObj [(''tags'', JArr [JStr ''Admin'']),
       (''summary'', JStr ''Connected WebSocket sessions on this instance''),
       (''description'', JStr ''Requires system.metrics. Counts are per-instance: a process only knows its own sockets, which is why `node_id` is reported.''),
       (''operationId'', JStr ''adminListWebsockets''),
       (''responses'', JObj [(''200'', JObj [(''description'', JStr ''Connections''),
         (''content'', JObj [(''application/json'', JObj [(''schema'', JObj [(''type'', JStr ''object''), (''additionalProperties'', JBool True)])])])]),
        (''403'', JObj [(''$ref'', JStr ''#/components/responses/Forbidden'')])])])]),
     (''/api/v1/admin/cache'', JObj [(''get'', JObj [(''tags'', JArr [JStr ''Admin'']),
       (''summary'', JStr ''Cache backend and hit statistics''),
       (''description'', JStr ''Requires system.metrics.''),
       (''operationId'', JStr ''adminCacheStats''),
       (''responses'', JObj [(''200'', JObj [(''description'', JStr ''Cache statistics''),
         (''content'', JObj [(''application/json'', JObj [(''schema'', JObj [(''type'', JStr ''object''), (''additionalProperties'', JBool True)])])])]),
        (''403'', JObj [(''$ref'', JStr ''#/components/responses/Forbidden'')])])])]),
     (''/api/v1/admin/jobs'', JObj [(''get'', JObj [(''tags'', JArr [JStr ''Admin'']),
       (''summary'', JStr ''Worker pool and event bus statistics''),
       (''description'', JStr ''Requires system.metrics.''),
       (''operationId'', JStr ''adminJobStats''),
       (''responses'', JObj [(''200'', JObj [(''description'', JStr ''Job statistics''),
         (''content'', JObj [(''application/json'', JObj [(''schema'', JObj [(''type'', JStr ''object''), (''additionalProperties'', JBool True)])])])]),
        (''403'', JObj [(''$ref'', JStr ''#/components/responses/Forbidden'')])])])]),
     (''/api/v1/admin/system'', JObj [(''get'', JObj [(''tags'', JArr [JStr ''Admin'']),
       (''summary'', JStr ''System metrics summary''),
       (''description'', JStr ''Requires system.metrics.''),
       (''operationId'', JStr ''adminSystemInfo''),
       (''responses'', JObj [(''200'', JObj [(''description'', JStr ''System summary''),
         (''content'', JObj [(''application/json'', JObj [(''schema'', JObj [(''type'', JStr ''object''), (''additionalProperties'', JBool True)])])])]),
        (''403'', JObj [(''$ref'', JStr ''#/components/responses/Forbidden'')])])])]),
     (''/api/v1/admin/audit-logs'', JObj [(''get'', JObj [(''tags'', JArr [JStr ''Admin'']),
       (''summary'', JStr ''Search the audit log''),
       (''description'', JStr ''Requires audit.view.''),
       (''operationId'', JStr ''adminSearchAuditLogs''),
       (''parameters'', JArr [JObj [(''name'', JStr ''actor_id''),
         (''in'', JStr ''query''),
         (''required'', JBool False),
         (''schema'', JObj [(''type'', JStr ''integer''), (''format'', JStr ''int64'')])],
        JObj [(''name'', JStr ''event_type''),
         (''in'', JStr ''query''),
         (''required'', JBool False),
         (''schema'', JObj [(''type'', JStr ''string'')]),
         (''example'', JStr ''user.logged_in'')],
        JObj [(''name'', JStr ''target_type''),
         (''in'', JStr ''query''),
         (''required'', JBool False),
         (''schema'', JObj [(''type'', JStr ''string'')])],
        JObj [(''name'', JStr ''target_id''),
         (''in'', JStr ''query''),
         (''required'', JBool False),
         (''schema'', JObj [(''type'', JStr ''string'')])],
        JObj [(''name'', JStr ''correlation_id''),
         (''in'', JStr ''query''),
         (''required'', JBool False),
         (''schema'', JObj [(''type'', JStr ''string'')])],
        JObj [(''name'', JStr ''from''),
         (''in'', JStr ''query''),
         (''required'', JBool False),
         (''schema'', JObj [(''type'', JStr ''integer''), (''format'', JStr ''int64'')])],
        JObj [(''name'', JStr ''to''),
         (''in'', JStr ''query''),
         (''required'', JBool False),
         (''schema'', JObj [(''type'', JStr ''integer''), (''format'', JStr ''int64'')])],
        JObj [(''$ref'', JStr ''#/components/parameters/Limit'')],
        JObj [(''$ref'', JStr ''#/components/parameters/Offset'')]]),
       (''responses'', JObj [(''200'', JObj [(''description'', JStr ''Audit records, newest first''),
         (''content'', JObj [(''application/json'', JObj [(''schema'', JObj [(''type'', JStr ''object''),
            (''properties'', JObj [(''total'', JObj [(''type'', JStr ''integer'')]),
             (''limit'', JObj [(''type'', JStr ''integer'')]),
             (''offset'', JObj [(''type'', JStr ''integer'')]),
             (''records'', JObj [(''type'', JStr ''array''), (''items'', JObj [(''$ref'', JStr ''#/components/schemas/AuditRecord'')])])])])])])]),
        (''403'', JObj [(''$ref'', JStr ''#/components/responses/Forbidden'')])])])]),
     (''/api/v1/admin/audit-logs/summary'', JObj [(''get'', JObj [(''tags'', JArr [JStr ''Admin'']),
       (''summary'', JStr ''Audit event histogram''),
       (''description'', JStr ''Requires audit.view.''),
       (''operationId'', JStr ''adminAuditSummary''),
       (''responses'', JObj [(''200'', JObj [(''description'', JStr ''Counts grouped by event type''),
         (''content'', JObj [(''application/json'', JObj [(''schema'', JObj [(''type'', JStr ''object''), (''additionalProperties'', JBool True)])])])]),
        (''403'', JObj [(''$ref'', JStr ''#/components/responses/Forbidden'')])])])]),
     (''/api/v1/admin/features'', JObj [(''get'', JObj [(''tags'', JArr [JStr ''Admin'']),
       (''summary'', JStr ''Feature flag snapshot''),
       (''description'', JStr ''Requires system.metrics.''),
       (''operationId'', JStr ''adminListFeatures''),
       (''responses'', JObj [(''200'', JObj [(''description'', JStr ''Flags''),
         (''content'', JObj [(''application/json'', JObj [(''schema'', JObj [(''type'', JStr ''object''),
            (''properties'', JObj [(''features'', JObj [(''type'', JStr ''array''), (''items'', JObj [(''$ref'', JStr ''#/components/schemas/FeatureFlag'')])])])])])])]),
        (''403'', JObj [(''$ref'', JStr ''#/components/responses/Forbidden'')])])])]),
     (''/api/v1/admin/features/{name}'', JObj [(''parameters'', JArr [JObj [(''name'', JStr ''name''),
        (''in'', JStr ''path''),
        (''required'', JBool True),
        (''schema'', JObj [(''type'', JStr ''string'')]),
        (''example'', JStr ''reactions'')]]),
      (''put'', JObj [(''tags'', JArr [JStr ''Admin'']),
       (''summary'', JStr ''Toggle a feature flag at runtime''),
       (''description'', JStr (''Requires system.feature_flags (super admin). Applies immediately to this instance and is not persisted '' @ [CHR 0xE2, CHR 0x80, CHR 0x94] @ '' set the corresponding environment variable to make it durable.'')),
       (''operationId'', JStr ''adminToggleFeature''),
       (''requestBody'', JObj [(''required'', JBool True),
        (''content'', JObj [(''application/json'', JObj [(''schema'', JObj [(''type'', JStr ''object''),
           (''required'', JArr [JStr ''enabled'']),
           (''properties'', JObj [(''enabled'', JObj [(''type'', JStr ''boolean'')])])])])])]),
       (''responses'', JObj [(''200'', JObj [(''description'', JStr ''Toggled''),
         (''content'', JObj [(''application/json'', JObj [(''schema'', JObj [(''type'', JStr ''object''),
            (''properties'', JObj [(''feature'', JObj [(''type'', JStr ''string'')]),
             (''previous'', JObj [(''type'', JStr ''boolean'')]),
             (''enabled'', JObj [(''type'', JStr ''boolean'')])])])])])]),
        (''400'', JObj [(''$ref'', JStr ''#/components/responses/BadRequest'')]),
        (''403'', JObj [(''$ref'', JStr ''#/components/responses/Forbidden'')]),
        (''404'', JObj [(''$ref'', JStr ''#/components/responses/NotFound'')])])])])]"

definition openapi_probe_paths :: "(string \<times> json) list" where
  "openapi_probe_paths =
     [(''/health'', JObj [(''get'', JObj [(''tags'', JArr [JStr ''Operations'']),
       (''summary'', JStr ''Service summary''),
       (''security'', JArr []),
       (''operationId'', JStr ''health''),
       (''responses'', JObj [(''200'', JObj [(''description'', JStr ''Always 200 while the process is up''),
         (''content'', JObj [(''application/json'', JObj [(''schema'', JObj [(''type'', JStr ''object''), (''additionalProperties'', JBool True)])])])])])])]),
     (''/health/live'', JObj [(''get'', JObj [(''tags'', JArr [JStr ''Operations'']),
       (''summary'', JStr ''Liveness probe''),
       (''description'', JStr ''Dependency-free by design: a liveness probe that consulted the database would turn a database outage into a restart loop.''),
       (''security'', JArr []),
       (''operationId'', JStr ''healthLive''),
       (''responses'', JObj [(''200'', JObj [(''description'', JStr ''Process is responsive'')])])])]),
     (''/health/ready'', JObj [(''get'', JObj [(''tags'', JArr [JStr ''Operations'']),
       (''summary'', JStr ''Readiness probe''),
       (''description'', JStr ''Checks PostgreSQL, the cache, the worker pool and the maintenance scheduler. 503 removes the instance from the load balancer without restarting it.''),
       (''security'', JArr []),
       (''operationId'', JStr ''healthReady''),
       (''responses'', JObj [(''200'', JObj [(''description'', JStr ''Ready''),
         (''content'', JObj [(''application/json'', JObj [(''schema'', JObj [(''$ref'', JStr ''#/components/schemas/HealthStatus'')])])])]),
        (''503'', JObj [(''description'', JStr ''Not ready''),
         (''content'', JObj [(''application/json'', JObj [(''schema'', JObj [(''$ref'', JStr ''#/components/schemas/HealthStatus'')])])])])])])]),
     (''/health/startup'', JObj [(''get'', JObj [(''tags'', JArr [JStr ''Operations'']),
       (''summary'', JStr ''Startup probe''),
       (''description'', JStr ''503 until bootstrap (including migrations) completes. Point a Kubernetes startupProbe here so a slow start is not mistaken for a hung process.''),
       (''security'', JArr []),
       (''operationId'', JStr ''healthStartup''),
       (''responses'', JObj [(''200'', JObj [(''description'', JStr ''Bootstrap complete'')]),
        (''503'', JObj [(''description'', JStr ''Still starting'')])])])]),
     (''/metrics'', JObj [(''get'', JObj [(''tags'', JArr [JStr ''Operations'']),
       (''summary'', JStr ''Prometheus metrics''),
       (''description'', JStr (''Text exposition format. Restrict access at the reverse proxy '' @ [CHR 0xE2, CHR 0x80, CHR 0x94] @ '' see nginx/conf.d/realtime-chat.conf.'')),
       (''security'', JArr []),
       (''operationId'', JStr ''metrics''),
       (''responses'', JObj [(''200'', JObj [(''description'', JStr ''Metrics''),
         (''content'', JObj [(''text/plain'', JObj [(''schema'', JObj [(''type'', JStr ''string'')])])])])])])])]"

definition kOpenApiJson :: json where
  "kOpenApiJson =
     JObj (openapi_preamble @
       [(''components'', JObj (openapi_parameters @ [(''schemas'', JObj (openapi_schemas_1 @ openapi_schemas_2 @ openapi_schemas_3)), (''responses'', JObj openapi_responses)])),
        (''security'', JArr [JObj [(''bearerAuth'', JArr [])]]),
        (''paths'', JObj (openapi_auth_paths @ openapi_chat_paths @ openapi_message_paths @ openapi_inbox_paths @ openapi_admin_user_paths @ openapi_admin_operation_paths @ openapi_probe_paths)),
        (''externalDocs'', JObj [(''description'', JStr ''Architecture, WebSocket protocol and deployment documentation''),
         (''url'', JStr ''https://github.com/devtejasx/realtime-chat-server/tree/main/docs'')])])"


section \<open>Serving it\<close>

text \<open>The text of the document is an argument; it denotes \<^const>\<open>kOpenApiJson\<close>.\<close>

definition openapi_json_for :: "(json \<Rightarrow> string) \<Rightarrow> (string \<Rightarrow> json option) \<Rightarrow> string \<Rightarrow> string \<Rightarrow> string" where
  "openapi_json_for dump parse document base_url =
     (if base_url = [] then document
      else case parse document of
             Some (JObj kvs) \<Rightarrow> dump (JObj (AList.update ''servers''
               (JArr [JObj [(''url'', JStr base_url), (''description'', JStr ''This deployment'')]]) kvs))
           | _ \<Rightarrow> document)"

definition swagger_ui_csp :: string where
  "swagger_ui_csp =
     ''default-src '' @ sq @ ''none'' @ sq @ ''; script-src '' @ sq @ ''self'' @ sq @ '' https://cdn.jsdelivr.net '' @ sq @ ''unsafe-inline'' @ sq @ ''; style-src '' @ sq @ ''self'' @ sq @ '' https://cdn.jsdelivr.net '' @ sq @ ''unsafe-inline'' @ sq @ ''; img-src '' @ sq @ ''self'' @ sq @ '' data: https://cdn.jsdelivr.net; font-src '' @ sq @ ''self'' @ sq @ '' data: https://cdn.jsdelivr.net; connect-src '' @ sq @ ''self'' @ sq @ ''; frame-ancestors '' @ sq @ ''none'' @ sq @ ''; base-uri '' @ sq @ ''none'' @ sq"

definition kSwaggerVersion :: string where "kSwaggerVersion = ''5.17.14''"

definition swagger_ui_html :: "string \<Rightarrow> string" where
  "swagger_ui_html spec_url =
     ''<!DOCTYPE html>'' @ nl @
     ''<html lang='' @ dq @ ''en'' @ dq @ ''>'' @ nl @
     ''<head>'' @ nl @
     ''  <meta charset='' @ dq @ ''utf-8'' @ dq @ ''>'' @ nl @
     ''  <meta name='' @ dq @ ''viewport'' @ dq @ '' content='' @ dq @ ''width=device-width, initial-scale=1'' @ dq @ ''>'' @ nl @
     ''  <title>Realtime Chat API</title>'' @ nl @
     ''  <link rel='' @ dq @ ''stylesheet'' @ dq @ '' href='' @ dq @ ''https://cdn.jsdelivr.net/npm/swagger-ui-dist@'' @
     kSwaggerVersion @ ''/swagger-ui.css'' @ dq @ ''>'' @ nl @
     ''  <style>'' @ nl @
     ''    body { margin: 0; background: #fafafa; }'' @ nl @
     ''    .topbar { display: none; }'' @ nl @
     ''  </style>'' @ nl @
     ''</head>'' @ nl @
     ''<body>'' @ nl @
     ''  <div id='' @ dq @ ''swagger-ui'' @ dq @ ''></div>'' @ nl @
     ''  <script src='' @ dq @ ''https://cdn.jsdelivr.net/npm/swagger-ui-dist@'' @
     kSwaggerVersion @ ''/swagger-ui-bundle.js'' @ dq @ '' crossorigin></script>'' @ nl @
     ''  <script>'' @ nl @
     ''    window.addEventListener('' @ sq @ ''load'' @ sq @ '', function () {'' @ nl @
     ''      window.ui = SwaggerUIBundle({'' @ nl @
     ''        url: '' @ sq @ spec_url @
     sq @ '','' @ nl @
     ''        dom_id: '' @ sq @ ''#swagger-ui'' @ sq @ '','' @ nl @
     ''        deepLinking: true,'' @ nl @
     ''        displayRequestDuration: true,'' @ nl @
     ''        docExpansion: '' @ sq @ ''none'' @ sq @ '','' @ nl @
     ''        filter: true,'' @ nl @
     ''        tryItOutEnabled: true,'' @ nl @
     ''        persistAuthorization: true'' @ nl @
     ''      });'' @ nl @
     ''    });'' @ nl @
     ''  </script>'' @ nl @
     ''</body>'' @ nl @
     ''</html>'' @ nl"

end
