(* ===== verification/Endpoints.thy ===== *)
theory Endpoints
  imports AdminController OpenApi
begin

text \<open>
  The endpoints outside the API: health probes, metrics, documentation and the answer to unknown paths of a
  supported version (\<^verbatim>\<open>health_controller.cpp\<close>, \<^verbatim>\<open>metrics_controller.cpp\<close>, \<^verbatim>\<open>docs_controller.cpp\<close>,
  \<^verbatim>\<open>api_fallback_controller.cpp\<close>).
\<close>

section \<open>Health\<close>

record check_result =
  ck_healthy :: bool
  ck_detail :: string

record ('s, 'p, 't) health_controller =
  hc_pool :: bool
  hc_cache :: "'s cache_ops option"
  hc_executor :: "'p pool option"
  hc_scheduler :: "'t scheduler option"
  hc_cluster :: "(string \<times> bool) option"
  hc_started :: bool

definition mark_started :: "('s, 'p, 't) health_controller \<Rightarrow> ('s, 'p, 't) health_controller" where
  "mark_started hc = hc\<lparr>hc_started := True\<rparr>"

text \<open>The probe of the database is an empty transaction.\<close>

definition database_check :: "('s, 'p, 't) health_controller \<Rightarrow> world \<Rightarrow> check_result \<times> world" where
  "database_check hc w =
     (if \<not> hc_pool hc then (\<lparr>ck_healthy = True, ck_detail = ''not_configured''\<rparr>, w)
      else case with_transaction (ret ()) w of
             (Inr _, w) \<Rightarrow> (\<lparr>ck_healthy = True, ck_detail = ''up''\<rparr>, w)
           | (Inl _, w) \<Rightarrow> (\<lparr>ck_healthy = False, ck_detail = ''down''\<rparr>, w))"

definition cache_check :: "('s, 'p, 't) health_controller \<Rightarrow> 's \<Rightarrow> check_result \<times> 's" where
  "cache_check hc c =
     (case hc_cache hc of
        None \<Rightarrow> (\<lparr>ck_healthy = True, ck_detail = ''not_configured''\<rparr>, c)
      | Some ops \<Rightarrow>
          (case co_get ops ''health:ready'' (co_set ops ''health:ready'' ''1'' 5 c) of
             (Some _, c) \<Rightarrow> (\<lparr>ck_healthy = True, ck_detail = ''up''\<rparr>, c)
           | (None, c) \<Rightarrow> (\<lparr>ck_healthy = False, ck_detail = ''read_failed''\<rparr>, c)))"

definition worker_check :: "('s, 'p, 't) health_controller \<Rightarrow> check_result" where
  "worker_check hc =
     (case hc_executor hc of
        None \<Rightarrow> \<lparr>ck_healthy = True, ck_detail = ''not_configured''\<rparr>
      | Some p \<Rightarrow>
          if \<not> po_running p then \<lparr>ck_healthy = False, ck_detail = ''stopped''\<rparr>
          else if po_worker_count p = 0 then \<lparr>ck_healthy = False, ck_detail = ''no_workers''\<rparr>
          else \<lparr>ck_healthy = True, ck_detail = ''up''\<rparr>)"

definition scheduler_check :: "('s, 'p, 't) health_controller \<Rightarrow> check_result" where
  "scheduler_check hc =
     (case hc_scheduler hc of
        None \<Rightarrow> \<lparr>ck_healthy = True, ck_detail = ''not_configured''\<rparr>
      | Some d \<Rightarrow> if sd_running d then \<lparr>ck_healthy = True, ck_detail = ''up''\<rparr> else \<lparr>ck_healthy = False, ck_detail = ''stopped''\<rparr>)"

definition get_health :: "(json \<Rightarrow> string) \<Rightarrow> string \<Rightarrow> config \<Rightarrow> response" where
  "get_health dump version c =
     json_response dump 200 (JObj [(''status'', JStr ''ok''), (''service'', JStr ''realtime-chat''), (''version'', JStr version),
       (''environment'', JStr (app_env c))])"

definition get_health_live :: "(json \<Rightarrow> string) \<Rightarrow> response" where
  "get_health_live dump = json_response dump 200 (JObj [(''status'', JStr ''alive'')])"

definition get_health_startup :: "(json \<Rightarrow> string) \<Rightarrow> ('s, 'p, 't) health_controller \<Rightarrow> response" where
  "get_health_startup dump hc =
     json_response dump (if hc_started hc then 200 else 503) (JObj [(''status'', JStr (if hc_started hc then ''started'' else ''starting''))])"

definition get_health_ready ::
    "(json \<Rightarrow> string) \<Rightarrow> ('s, 'p, 't) health_controller \<Rightarrow> world \<times> 's \<Rightarrow> response \<times> world \<times> 's" where
  "get_health_ready dump hc s =
     (case s of (w, c) \<Rightarrow>
      case database_check hc w of (database, w) \<Rightarrow>
      case cache_check hc c of (cache, c) \<Rightarrow>
        let workers = worker_check hc; scheduler = scheduler_check hc; started = hc_started hc;
            ready = (started \<and> ck_healthy database \<and> ck_healthy cache \<and> ck_healthy workers \<and> ck_healthy scheduler);
            checks = JObj [(''database'', JStr (ck_detail database)), (''cache'', JStr (ck_detail cache)),
              (''workers'', JStr (ck_detail workers)), (''scheduler'', JStr (ck_detail scheduler)),
              (''bootstrap'', JStr (if started then ''complete'' else ''pending''))];
            cluster = (case hc_cluster hc of None \<Rightarrow> []
              | Some (node, distributed) \<Rightarrow> [(''cluster'', JObj [(''node_id'', JStr node), (''distributed'', JBool distributed)])])
        in (json_response dump (if ready then 200 else 503)
              (JObj ([(''status'', JStr (if ready then ''ready'' else ''not_ready'')), (''checks'', checks)] @ cluster @
                 [(''websocket_protocol'', JObj [(''default'', JInt (to_number kDefaultVersion)), (''current'', JInt (to_number kCurrentVersion))])])),
            w, c))"


section \<open>Metrics\<close>

definition get_metrics :: "(rat \<Rightarrow> string) \<Rightarrow> (rat \<Rightarrow> 64 word \<Rightarrow> rat) \<Rightarrow> 's \<Rightarrow> 's metrics \<Rightarrow> response" where
  "get_metrics show_double divide_by s m =
     set_header ''Content-Type'' ''text/plain; version=0.0.4'' \<lparr>resp_code = 200, resp_body = render_prometheus show_double divide_by s m, resp_headers = []\<rparr>"


section \<open>Unknown paths\<close>

definition not_found_for :: "(json \<Rightarrow> string) \<Rightarrow> string \<Rightarrow> response" where
  "not_found_for dump path =
     (set_header ''Content-Type'' ''application/json'' \<lparr>resp_code = http_status_for kNotFound, resp_body = [], resp_headers = []\<rparr>)
       \<lparr>resp_body := dump (make_error_body ''not_found'' (''No such endpoint: '' @ path) (''supported='' @ supported_api_versions_label))\<rparr>"


section \<open>Documentation\<close>

definition docs_enabled :: "environ \<Rightarrow> bool" where
  "docs_enabled env = (let raw = get_env_or env ''RTC_DOCS_ENABLED'' ''true'' in \<not> (raw = ''0'' \<or> raw = ''false'' \<or> raw = ''no'' \<or> raw = ''off''))"

definition docs_not_found :: "(json \<Rightarrow> string) \<Rightarrow> response" where
  "docs_not_found dump =
     set_header ''Content-Type'' ''application/json''
       \<lparr>resp_code = 404, resp_body = dump (make_error_body ''not_found'' ''Documentation endpoints are disabled'' []), resp_headers = []\<rparr>"

definition request_origin :: "request \<Rightarrow> string" where
  "request_origin req =
     (let scheme = (if rq_header req ''X-Forwarded-Proto'' = [] then ''http'' else rq_header req ''X-Forwarded-Proto'');
          host = (if rq_header req ''X-Forwarded-Host'' = [] then rq_header req ''Host'' else rq_header req ''X-Forwarded-Host'')
      in if host = [] then [] else scheme @ ''://'' @ host)"

definition serve_spec :: "(json \<Rightarrow> string) \<Rightarrow> (string \<Rightarrow> json option) \<Rightarrow> string \<Rightarrow> bool \<Rightarrow> request \<Rightarrow> response" where
  "serve_spec dump parse document enabled req =
     (if \<not> enabled then docs_not_found dump
      else set_header kApiVersionHeader (api_version_label kCurrentApiVersion)
        (set_header ''Cache-Control'' ''public, max-age=300''
          (set_header ''Content-Type'' ''application/json''
            \<lparr>resp_code = 200, resp_body = openapi_json_for dump parse document (request_origin req), resp_headers = []\<rparr>)))"

definition get_docs :: "(json \<Rightarrow> string) \<Rightarrow> bool \<Rightarrow> response" where
  "get_docs dump enabled =
     (if \<not> enabled then docs_not_found dump
      else set_header ''X-RTC-CSP-Override'' swagger_ui_csp
        (set_header ''Content-Type'' ''text/html; charset=utf-8''
          \<lparr>resp_code = 200, resp_body = swagger_ui_html ''/openapi.json'', resp_headers = []\<rparr>))"

section \<open>What the probes promise\<close>

text \<open>The instance is ready exactly when it has started and every dependency it was given answers; being alive
  and having started depend on none of them.\<close>

lemma ready_iff:
  "resp_code (fst (get_health_ready dump hc (w, c))) = (if hc_started hc \<and>
     (hc_pool hc \<longrightarrow> (\<exists>w'. with_transaction (ret ()) w = (Inr (), w'))) \<and>
     (\<forall>ops. hc_cache hc = Some ops \<longrightarrow> fst (co_get ops ''health:ready'' (co_set ops ''health:ready'' ''1'' 5 c)) \<noteq> None) \<and>
     (\<forall>p. hc_executor hc = Some p \<longrightarrow> po_running p \<and> 0 < po_worker_count p) \<and>
     (\<forall>d. hc_scheduler hc = Some d \<longrightarrow> sd_running d) then 200 else 503)"
proof -
  have "ck_healthy (fst (database_check hc w)) \<longleftrightarrow> (hc_pool hc \<longrightarrow> (\<exists>w'. with_transaction (ret ()) w = (Inr (), w')))"
    by (cases "with_transaction (ret ()) w" rule: prod.exhaust) (auto simp: database_check_def split: sum.splits)
  moreover have "ck_healthy (fst (cache_check hc c)) \<longleftrightarrow>
      (\<forall>ops. hc_cache hc = Some ops \<longrightarrow> fst (co_get ops ''health:ready'' (co_set ops ''health:ready'' ''1'' 5 c)) \<noteq> None)"
    by (auto simp: cache_check_def split: option.splits prod.splits)
  moreover have "ck_healthy (worker_check hc) \<longleftrightarrow> (\<forall>p. hc_executor hc = Some p \<longrightarrow> po_running p \<and> 0 < po_worker_count p)"
    "ck_healthy (scheduler_check hc) \<longleftrightarrow> (\<forall>d. hc_scheduler hc = Some d \<longrightarrow> sd_running d)"
    by (auto simp: worker_check_def scheduler_check_def split: option.splits)
  ultimately show ?thesis
    unfolding get_health_ready_def by (simp add: split_beta Let_def json_response_def)
qed

lemma memory_cache_healthy: "memory_ok c \<Longrightarrow> hc_cache hc = Some InMemoryCacheStore \<Longrightarrow> ck_healthy (fst (cache_check hc c))"
  by (auto simp: cache_check_def mem.laws spec_set_def spec_get_def split: prod.splits option.splits dest: arg_cong [of _ _ fst])

text \<open>The documentation page gets the content policy it asks for, and the request for it does not leave the server.\<close>

lemma docs_policy:
  "get_header ''Content-Security-Policy'' (SecurityMiddleware_after origins (get_docs dump True)) = swagger_ui_csp"
  "get_header kCspOverrideHeader (SecurityMiddleware_after origins (get_docs dump True)) = []"
proof -
  have "swagger_ui_csp \<noteq> []" by (simp add: swagger_ui_csp_def)
  then show "get_header ''Content-Security-Policy'' (SecurityMiddleware_after origins (get_docs dump True)) = swagger_ui_csp"
    "get_header kCspOverrideHeader (SecurityMiddleware_after origins (get_docs dump True)) = []"
    by (simp_all add: SecurityMiddleware_after_def get_docs_def apply_cors_def kCspOverrideHeader_def Let_def)
qed

end
