(* ===== verification/RouteDocs.thy ===== *)
theory RouteDocs
  imports SiteRules Endpoints
begin

text \<open>
  The published API document against the routes the controllers register: the same operations, and the same
  ones without authentication.
\<close>

section \<open>What the document lists\<close>

fun doc_method :: "http_method \<Rightarrow> string" where
  "doc_method Get = ''get''"
| "doc_method Post = ''post''"
| "doc_method Put = ''put''"
| "doc_method Patch = ''patch''"
| "doc_method Delete = ''delete''"
| "doc_method Head = ''head''"
| "doc_method Options = ''options''"

text \<open>A path with the names and types of its parameters erased.\<close>

fun path_shape :: "bool \<Rightarrow> string \<Rightarrow> string" where
  "path_shape inside [] = []"
| "path_shape False (c # cs) = (if c = CHR ''{'' \<or> c = CHR ''<'' then CHR ''*'' # path_shape True cs else c # path_shape False cs)"
| "path_shape True (c # cs) = path_shape (\<not> (c = CHR ''}'' \<or> c = CHR ''>'')) cs"

type_synonym operation_entry = "string \<times> string \<times> bool"

text \<open>The document requires a bearer token everywhere, unless an operation sets its own empty list.\<close>

definition object_fields :: "json \<Rightarrow> (string \<times> json) list" where
  "object_fields j = (case j of JObj kvs \<Rightarrow> kvs | _ \<Rightarrow> [])"

definition path_operations :: "string \<times> json \<Rightarrow> operation_entry list" where
  "path_operations entry = (case entry of (path, item) \<Rightarrow>
     map (\<lambda>(k, operation). (k, path_shape False path, jfind operation ''security'' \<noteq> Some (JArr [])))
       (filter (\<lambda>(k, _). k \<noteq> ''parameters'') (object_fields item)))"

definition documented_operations :: "json \<Rightarrow> operation_entry list" where
  "documented_operations doc =
     concat (map path_operations (case jfind doc ''paths'' of Some paths \<Rightarrow> object_fields paths | None \<Rightarrow> []))"


section \<open>What the controllers register\<close>

primrec site_rule :: "site_route \<Rightarrow> http_method \<times> string" where
  "site_rule (Api r) = api_rule r"
| "site_rule (Admin r) = admin_rule r"

definition route_entry :: "site_route \<Rightarrow> operation_entry" where
  "route_entry r = (doc_method (fst (site_rule r)), path_shape False (api_paths (snd (site_rule r)) ! 1), \<not> is_public r)"

text \<open>The routes outside the API prefix, which need no token.\<close>

definition probe_entries :: "operation_entry list" where
  "probe_entries = map (\<lambda>path. (''get'', path, False)) [''/health'', ''/health/live'', ''/health/ready'', ''/health/startup'', ''/metrics'']"

text \<open>In the order of the document.\<close>

definition every_route :: "site_route list" where
  "every_route =
     map (Api \<circ> AuthRoute) [AuthRegister, AuthLogin, AuthRefresh, AuthLogout, AuthLogoutAll, AuthMe] @
     map (Api \<circ> AccountRoute) [UsersMeGet, UsersMePut, UserGet 0] @
     map (Api \<circ> ConversationRoute) [ConversationsGet, ConversationPost, ConversationGet 0, ConversationDelete 0,
       ConversationNamePatch 0, MemberPost 0, MemberDelete 0 0, LeavePost 0] @
     map (Api \<circ> MessageRoute) [MessagesGet, MessagePost, MessagePatch 0, MessageDelete 0, ReactionsGet 0, ReactionPost 0,
       ReactionDelete 0] @
     map (Api \<circ> AttachmentRoute) [AttachmentPost, AttachmentGet 0, AttachmentDelete 0, ThumbnailGet 0] @
     map (Api \<circ> NoticeRoute) [NotificationsGet, NotificationDelete 0, NotificationReadPost 0, NotificationsReadAllPost] @
     map (Api \<circ> AccountRoute) [SessionsGet, SessionDelete []] @
     map (Api \<circ> NoticeRoute) [SearchGet] @
     map (Admin \<circ> AdminUserRoute) [AdminUsersGet, AdminUserGet 0, AdminRolePut 0, AdminBanPost 0, AdminUnbanPost 0,
       AdminSessionsGet 0, AdminSessionsDelete 0] @
     map (Admin \<circ> AdminGroupRoute) [AdminConversationGet 0, AdminConversationDelete 0] @
     map (Admin \<circ> AdminOperationsRoute) [AdminWebsocketsGet, AdminCacheGet, AdminJobsGet, AdminSystemGet, AdminAuditLogsGet,
       AdminAuditSummaryGet, AdminFeaturesGet, AdminFeaturePut []]"

lemma every_route_complete: "route_entry r \<in> route_entry ` set every_route"
proof (cases r)
  case (Api q)
  show ?thesis
  proof (cases q)
    case (AuthRoute x)
    then show ?thesis using Api by (cases x) (simp_all add: every_route_def)
  next
    case (AccountRoute x)
    then show ?thesis using Api by (cases x) (simp_all add: every_route_def route_entry_def is_public_def)
  next
    case (ConversationRoute x)
    then show ?thesis using Api by (cases x) (simp_all add: every_route_def route_entry_def is_public_def)
  next
    case (MessageRoute x)
    then show ?thesis using Api by (cases x) (simp_all add: every_route_def route_entry_def is_public_def)
  next
    case (NoticeRoute x)
    then show ?thesis using Api by (cases x) (simp_all add: every_route_def route_entry_def is_public_def)
  next
    case (AttachmentRoute x)
    then show ?thesis using Api by (cases x) (simp_all add: every_route_def route_entry_def is_public_def)
  qed
next
  case (Admin q)
  show ?thesis
  proof (cases q)
    case (AdminUserRoute x)
    then show ?thesis using Admin by (cases x) (simp_all add: every_route_def route_entry_def is_public_def)
  next
    case (AdminGroupRoute x)
    then show ?thesis using Admin by (cases x) (simp_all add: every_route_def route_entry_def is_public_def)
  next
    case (AdminOperationsRoute x)
    then show ?thesis using Admin by (cases x) (simp_all add: every_route_def route_entry_def is_public_def)
  qed
qed

lemma document_lists: "documented_operations kOpenApiJson = map route_entry every_route @ probe_entries"
  by code_simp


end
