(* ===== verification/RedisCache.thy ===== *)
theory RedisCache
  imports Cache
begin

text \<open>
  \<^verbatim>\<open>RedisCacheStore\<close> of \<^verbatim>\<open>cache/redis_cache_store.cpp\<close>, over the commands of the redis-plus-plus client, which are
  parameters: each returns its reply, or the text of the exception it throws, and the server afterwards.
\<close>


section \<open>The store\<close>

record 's redis_client =
  rc_set :: "string \<Rightarrow> string \<Rightarrow> (string, 's, unit) action"
  rc_set_ttl :: "string \<Rightarrow> string \<Rightarrow> int \<Rightarrow> (string, 's, unit) action"
  rc_get :: "string \<Rightarrow> (string, 's, string option) action"
  rc_del :: "string \<Rightarrow> (string, 's, int) action"
  rc_exists :: "string \<Rightarrow> (string, 's, int) action"
  rc_expire :: "string \<Rightarrow> int \<Rightarrow> (string, 's, bool) action"
  rc_incr :: "string \<Rightarrow> (string, 's, int) action"
  rc_sadd :: "string \<Rightarrow> string \<Rightarrow> (string, 's, int) action"
  rc_srem :: "string \<Rightarrow> string \<Rightarrow> (string, 's, int) action"
  rc_sismember :: "string \<Rightarrow> string \<Rightarrow> (string, 's, bool) action"
  rc_smembers :: "string \<Rightarrow> (string, 's, string list) action"
  rc_scard :: "string \<Rightarrow> (string, 's, nat) action"

definition RedisCacheStore_set :: "'s redis_client \<Rightarrow> string \<Rightarrow> string \<Rightarrow> int \<Rightarrow> (string, 's, unit) action" where
  "RedisCacheStore_set r key v ttl = (if ttl > 0 then rc_set_ttl r key v ttl else rc_set r key v)"

definition RedisCacheStore_get :: "'s redis_client \<Rightarrow> string \<Rightarrow> (string, 's, string option) action" where
  "RedisCacheStore_get r key = rc_get r key"

definition RedisCacheStore_del :: "'s redis_client \<Rightarrow> string \<Rightarrow> (string, 's, bool) action" where
  "RedisCacheStore_del r key = seq (rc_del r key) (\<lambda>n. ret (n > 0))"

definition RedisCacheStore_exists :: "'s redis_client \<Rightarrow> string \<Rightarrow> (string, 's, bool) action" where
  "RedisCacheStore_exists r key = seq (rc_exists r key) (\<lambda>n. ret (n > 0))"

definition RedisCacheStore_expire :: "'s redis_client \<Rightarrow> string \<Rightarrow> int \<Rightarrow> (string, 's, unit) action" where
  "RedisCacheStore_expire r key ttl = seq (rc_expire r key ttl) (\<lambda>_. ret ())"

definition RedisCacheStore_incr :: "'s redis_client \<Rightarrow> string \<Rightarrow> int \<Rightarrow> (string, 's, int) action" where
  "RedisCacheStore_incr r key ttl_on_create =
     seq (rc_incr r key) (\<lambda>v.
     seq (if v = 1 \<and> ttl_on_create > 0 then seq (rc_expire r key ttl_on_create) (\<lambda>_. ret ()) else ret ()) (\<lambda>_.
     ret v))"

definition RedisCacheStore_sadd :: "'s redis_client \<Rightarrow> string \<Rightarrow> string \<Rightarrow> (string, 's, unit) action" where
  "RedisCacheStore_sadd r key member = seq (rc_sadd r key member) (\<lambda>_. ret ())"

definition RedisCacheStore_srem :: "'s redis_client \<Rightarrow> string \<Rightarrow> string \<Rightarrow> (string, 's, unit) action" where
  "RedisCacheStore_srem r key member = seq (rc_srem r key member) (\<lambda>_. ret ())"

definition RedisCacheStore_sismember :: "'s redis_client \<Rightarrow> string \<Rightarrow> string \<Rightarrow> (string, 's, bool) action" where
  "RedisCacheStore_sismember r key member = rc_sismember r key member"

definition RedisCacheStore_smembers :: "'s redis_client \<Rightarrow> string \<Rightarrow> (string, 's, string list) action" where
  "RedisCacheStore_smembers r key = rc_smembers r key"

definition RedisCacheStore_scard :: "'s redis_client \<Rightarrow> string \<Rightarrow> (string, 's, nat) action" where
  "RedisCacheStore_scard r key = rc_scard r key"

text \<open>Without \<^verbatim>\<open>RTC_WITH_REDIS\<close> the constructor and every operation throw.\<close>

definition unavailable :: "(app_exception, 's, 'a) action" where
  "unavailable = throw (ConfigException ''Redis support was not compiled in; rebuild with -DRTC_WITH_REDIS=ON'' [])"

definition RedisCacheStore_create ::
    "bool \<Rightarrow> (string \<Rightarrow> string + 's redis_client) \<Rightarrow> string \<Rightarrow> (string + app_exception) + 's redis_client" where
  "RedisCacheStore_create with_redis connect uri =
     (if with_redis then (case connect uri of Inl what \<Rightarrow> Inl (Inl what) | Inr r \<Rightarrow> Inr r)
      else Inl (Inr (ConfigException ''Redis support was not compiled in; rebuild with -DRTC_WITH_REDIS=ON'' [])))"


section \<open>Counting on Redis\<close>

text \<open>
  The documented effect of \<^verbatim>\<open>EXPIRE\<close>: a key that exists gets a new deadline. A counter key is absent or
  holds a decimal number.
\<close>

definition spec_expire :: "string \<Rightarrow> int \<Rightarrow> ttl_cache \<Rightarrow> ttl_cache" where
  "spec_expire k ttl c =
     (case tc_strings c k of
        None \<Rightarrow> c
      | Some (v, e) \<Rightarrow> c\<lparr>tc_strings := (tc_strings c)(k := Some (v, deadline (tc_clock c) ttl))\<rparr>)"

definition counter_key :: "string \<Rightarrow> ttl_cache \<Rightarrow> bool" where
  "counter_key k c \<longleftrightarrow> (\<forall>v e. tc_strings c k = Some (v, e) \<longrightarrow> 0 < to_int v \<and> v = to_string (to_int v))"

text \<open>On a server that does what \<^verbatim>\<open>INCR\<close> and \<^verbatim>\<open>EXPIRE\<close> document, counting over Redis gives what the
  interface promises: the new value, and a deadline that is set when the counter is created and kept afterwards.\<close>

lemma redis_incr_refines:
  assumes incr: "\<And>s. counter_key k (view s) \<Longrightarrow>
      \<exists>s'. rc_incr r k s = (Inr (fst (spec_incr k 0 (view s))), s') \<and> view s' = snd (spec_incr k 0 (view s))"
    and expire: "\<And>s ttl. \<exists>b s'. rc_expire r k ttl s = (Inr b, s') \<and> view s' = spec_expire k ttl (view s)"
    and key: "counter_key k (view s)"
  shows "\<exists>s'. RedisCacheStore_incr r k ttl s = (Inr (fst (spec_incr k ttl (view s))), s') \<and>
    view s' = snd (spec_incr k ttl (view s))"
proof -
  obtain s1 where s1: "rc_incr r k s = (Inr (fst (spec_incr k 0 (view s))), s1)" "view s1 = snd (spec_incr k 0 (view s))"
    using incr [OF key] by blast
  obtain b s2 where s2: "rc_expire r k ttl s1 = (Inr b, s2)" "view s2 = spec_expire k ttl (view s1)" using expire by blast
  show ?thesis
  proof (cases "tc_strings (view s) k")
    case None
    then show ?thesis using s1 s2
      by (cases "ttl > 0") (auto simp: RedisCacheStore_incr_def seq_apply spec_incr_def spec_set_def spec_expire_def deadline_def)
  next
    case (Some p)
    then obtain v e where "tc_strings (view s) k = Some (v, e)" "0 < to_int v" using key by (cases p) (auto simp: counter_key_def)
    then show ?thesis using s1 by (auto simp: RedisCacheStore_incr_def seq_apply spec_incr_def)
  qed
qed

text \<open>
  The two commands are not one step. When the connection breaks between them the caller gets an exception and
  the counter is left without a deadline, which no later call sets: a limiter's window never ends.
\<close>

definition reference_client :: "ttl_cache redis_client \<Rightarrow> ttl_cache redis_client" where
  "reference_client r =
     r\<lparr>rc_incr := (\<lambda>k c. (Inr (fst (spec_incr k 0 c)), snd (spec_incr k 0 c))),
       rc_expire := (\<lambda>k ttl c. (Inr (tc_strings c k \<noteq> None), spec_expire k ttl c))\<rparr>"

lemma reference_client_counts:
  "counter_key k c \<Longrightarrow> \<exists>c'. RedisCacheStore_incr (reference_client r) k ttl c = (Inr (fst (spec_incr k ttl c)), c') \<and>
     c' = snd (spec_incr k ttl c)"
  by (rule redis_incr_refines [where view = "\<lambda>c. c"]) (auto simp: reference_client_def)

definition broken_expire :: "'s redis_client \<Rightarrow> 's redis_client" where
  "broken_expire r = r\<lparr>rc_expire := (\<lambda>k ttl s. (Inl ''connection lost'', s))\<rparr>"

lemma incr_leaves_no_deadline:
  assumes "tc_strings c k = None" "ttl > 0"
  shows "RedisCacheStore_incr (broken_expire (reference_client r)) k ttl c = (Inl ''connection lost'', spec_set k ''1'' 0 c)"
  using assms by (simp add: RedisCacheStore_incr_def broken_expire_def reference_client_def seq_apply spec_incr_def)

lemma no_deadline_for_ever:
  assumes "tc_strings c k = Some (v, None)" "counter_key k c"
  shows "\<exists>v'. tc_strings (spec_wait n (snd (RedisCacheStore_incr (reference_client r) k ttl c))) k = Some (v', None)"
  using assms reference_client_counts [OF assms(2), of r ttl] by (auto simp: spec_incr_def spec_wait_def)

end
