(* ===== verification/Migrations.thy ===== *)
theory Migrations
  imports Storage "HOL-Library.List_Lexorder" "HOL-Library.Char_ord"
begin

text \<open>
  The migration runner, \<^verbatim>\<open>database/migration_runner.cpp\<close>. What a script does to the schema is the
  parameter \<open>exec\<close>; every transaction may fail (the next element of \<open>mg_faults\<close>), and then nothing of it
  remains. \<open>mg_applied\<close> is the bookkeeping table, \<^term>\<open>None\<close> before it exists.
\<close>

record dir_entry =
  de_filename :: string
  de_regular :: bool
  de_content :: "string option"

datatype migration_error = AppError app_exception | SqlError string

record 'd migration_db =
  mg_schema :: 'd
  mg_applied :: "string list option"
  mg_faults :: "string option list"

type_synonym ('d, 'a) mig = "(migration_error, 'd migration_db, 'a) action"

definition mig_transaction :: "('d migration_db \<Rightarrow> string + 'a \<times> 'd migration_db) \<Rightarrow> ('d, 'a) mig" where
  "mig_transaction body s =
     (let s' = s\<lparr>mg_faults := tl (mg_faults s)\<rparr>
      in case mg_faults s of
           Some what # _ \<Rightarrow> (Inl (SqlError what), s')
         | _ \<Rightarrow> (case body s' of Inl what \<Rightarrow> (Inl (SqlError what), s') | Inr (x, t) \<Rightarrow> (Inr x, t)))"

definition read_file :: "dir_entry \<Rightarrow> ('d, string) mig" where
  "read_file f =
     (case de_content f of
        Some text \<Rightarrow> ret text
      | None \<Rightarrow> throw (AppError (DatabaseException ''Cannot open migration file'' (de_filename f))))"

definition ensure_bookkeeping_table :: "('d, unit) mig" where
  "ensure_bookkeeping_table =
     mig_transaction (\<lambda>s. Inr ((), s\<lparr>mg_applied := Some (case mg_applied s of Some vs \<Rightarrow> vs | None \<Rightarrow> [])\<rparr>))"

definition applied_versions :: "'d migration_db \<Rightarrow> string list" where
  "applied_versions s = (case mg_applied s of Some vs \<Rightarrow> vs | None \<Rightarrow> [])"

definition is_applied :: "string \<Rightarrow> ('d, bool) mig" where
  "is_applied version =
     mig_transaction (\<lambda>s. case mg_applied s of
        None \<Rightarrow> Inl ''relation schema_migrations does not exist''
      | Some vs \<Rightarrow> Inr (version \<in> set vs, s))"

definition apply_migration :: "(string \<Rightarrow> 'd \<Rightarrow> string + 'd) \<Rightarrow> string \<Rightarrow> string \<Rightarrow> ('d, unit) mig" where
  "apply_migration exec version sql =
     mig_transaction (\<lambda>s. case exec sql (mg_schema s) of
        Inl what \<Rightarrow> Inl what
      | Inr d \<Rightarrow>
          (case mg_applied s of
             None \<Rightarrow> Inl ''relation schema_migrations does not exist''
           | Some vs \<Rightarrow>
               if version \<in> set vs then Inl ''duplicate key value violates unique constraint''
               else Inr ((), s\<lparr>mg_schema := d, mg_applied := Some (vs @ [version])\<rparr>)))"

definition path_stem :: "string \<Rightarrow> string" where
  "path_stem name = take (length name - length (path_extension name)) name"

definition migration_files :: "dir_entry list \<Rightarrow> dir_entry list" where
  "migration_files entries =
     sort_key de_filename (filter (\<lambda>f. de_regular f \<and> path_extension (de_filename f) = ''.sql'') entries)"

fun run_files :: "(string \<Rightarrow> 'd \<Rightarrow> string + 'd) \<Rightarrow> dir_entry list \<Rightarrow> nat \<Rightarrow> ('d, nat) mig" where
  "run_files exec [] n = ret n"
| "run_files exec (f # fs) n =
     (let version = path_stem (de_filename f)
      in seq (is_applied version) (\<lambda>done.
         if done then run_files exec fs n
         else seq (catch (seq (read_file f) (apply_migration exec version)) (\<lambda>e.
                case e of
                  AppError _ \<Rightarrow> throw e
                | SqlError what \<Rightarrow> throw (AppError (DatabaseException (''Migration failed: '' @ version) what)))) (\<lambda>_.
              run_files exec fs (n + 1))))"

text \<open>\<open>dir\<close> is \<^term>\<open>None\<close> when the path is missing or no directory.\<close>

definition MigrationRunner_run ::
    "(string \<Rightarrow> 'd \<Rightarrow> string + 'd) \<Rightarrow> string \<Rightarrow> dir_entry list option \<Rightarrow> ('d, nat) mig" where
  "MigrationRunner_run exec path dir =
     (case dir of
        None \<Rightarrow> throw (AppError (DatabaseException ''Migrations directory not found'' path))
      | Some entries \<Rightarrow> seq ensure_bookkeeping_table (\<lambda>_. run_files exec (migration_files entries) 0))"


section \<open>What a run does\<close>

text \<open>The scripts still to run, in order, and the effect of running them.\<close>

definition pending_migrations :: "dir_entry list \<Rightarrow> string list \<Rightarrow> dir_entry list" where
  "pending_migrations entries vs = filter (\<lambda>f. path_stem (de_filename f) \<notin> set vs) (migration_files entries)"

fun exec_all :: "(string \<Rightarrow> 'd \<Rightarrow> string + 'd) \<Rightarrow> dir_entry list \<Rightarrow> 'd \<Rightarrow> 'd option" where
  "exec_all exec [] d = Some d"
| "exec_all exec (f # fs) d =
     (case de_content f of
        None \<Rightarrow> None
      | Some text \<Rightarrow> (case exec text d of Inl _ \<Rightarrow> None | Inr d' \<Rightarrow> exec_all exec fs d'))"

text \<open>\<open>t\<close> is what running the scripts \<open>fs\<close> on \<open>s\<close> gives.\<close>

definition migrated :: "(string \<Rightarrow> 'd \<Rightarrow> string + 'd) \<Rightarrow> dir_entry list \<Rightarrow> 'd migration_db \<Rightarrow> 'd migration_db \<Rightarrow> bool" where
  "migrated exec fs s t \<longleftrightarrow>
     exec_all exec fs (mg_schema s) = Some (mg_schema t) \<and>
     applied_versions t = applied_versions s @ map (\<lambda>f. path_stem (de_filename f)) fs"

lemma is_applied_cases:
  assumes "mg_applied s = Some vs"
  shows "\<exists>r. is_applied v s = (r, s\<lparr>mg_faults := tl (mg_faults s)\<rparr>) \<and> (r = Inr (v \<in> set vs) \<or> (\<exists>e. r = Inl e))"
  using assms by (auto simp: is_applied_def mig_transaction_def Let_def split: list.split option.split)

lemma apply_cases:
  fixes s :: "'d migration_db"
  assumes "mg_applied s = Some vs" "v \<notin> set vs"
  defines "s' \<equiv> s\<lparr>mg_faults := tl (mg_faults s)\<rparr>"
  shows "(\<exists>e. apply_migration exec v sql s = (Inl e, s')) \<or>
    (\<exists>d. exec sql (mg_schema s) = Inr d \<and> apply_migration exec v sql s = (Inr (), s'\<lparr>mg_schema := d, mg_applied := Some (vs @ [v])\<rparr>))"
  using assms by (auto simp: apply_migration_def mig_transaction_def Let_def split: list.split option.split sum.split)

abbreviation version_of :: "dir_entry \<Rightarrow> string" where
  "version_of f \<equiv> path_stem (de_filename f)"

lemma migrated_same:
  "mg_schema s' = mg_schema s \<Longrightarrow> mg_applied s' = mg_applied s \<Longrightarrow> migrated exec fs s' t = migrated exec fs s t"
  "mg_schema t = mg_schema s \<Longrightarrow> mg_applied t = mg_applied s \<Longrightarrow> migrated exec [] s t"
  by (simp_all add: migrated_def applied_versions_def)

text \<open>One file: skipped, failed with nothing changed, or run and recorded.\<close>

lemma run_file_cases:
  assumes "mg_applied s = Some vs"
  obtains (stop) e t where "run_files exec (f # fs) n s = (Inl e, t)" "mg_schema t = mg_schema s" "mg_applied t = Some vs"
  | (skip) s' where "version_of f \<in> set vs" "run_files exec (f # fs) n s = run_files exec fs n s'"
      "mg_schema s' = mg_schema s" "mg_applied s' = Some vs"
  | (ran) s' where "version_of f \<notin> set vs" "run_files exec (f # fs) n s = run_files exec fs (n + 1) s'"
      "migrated exec [f] s s'" "mg_applied s' = Some (vs @ [version_of f])"
proof -
  let ?s = "s\<lparr>mg_faults := tl (mg_faults s)\<rparr>"
  obtain r where r: "is_applied (version_of f) s = (r, ?s)" "r = Inr (version_of f \<in> set vs) \<or> (\<exists>e. r = Inl e)"
    using is_applied_cases [OF assms] by blast
  have vs: "mg_applied ?s = Some vs" using assms by simp
  show thesis
  proof (cases "r = Inr (version_of f \<in> set vs)")
    case False
    with r obtain e where "run_files exec (f # fs) n s = (Inl e, ?s)" by (auto simp: seq_apply Let_def)
    from stop [OF this] vs show thesis by simp
  next
    case known: True
    show thesis
    proof (cases "version_of f \<in> set vs")
      case True
      with known r(1) vs show thesis by (intro skip [of ?s]) (simp_all add: seq_apply Let_def)
    next
      case new: False
      show thesis
      proof (cases "de_content f")
        case None
        with new known r(1) vs show thesis
          by (intro stop [of _ ?s]) (simp_all add: seq_apply catch_apply read_file_def Let_def)
      next
        case (Some sql)
        let ?t = "?s\<lparr>mg_faults := tl (mg_faults ?s)\<rparr>"
        from apply_cases [OF vs new, of exec sql] show thesis
        proof (elim disjE exE conjE)
          fix e assume a: "apply_migration exec (version_of f) sql ?s = (Inl e, ?t)"
          then have "\<exists>e'. run_files exec (f # fs) n s = (Inl e', ?t)"
            using Some new known r(1)
            by (cases e) (simp_all add: seq_apply catch_apply read_file_def Let_def)
          then obtain e' where "run_files exec (f # fs) n s = (Inl e', ?t)" ..
          from stop [OF this] vs show thesis by simp
        next
          fix d assume a: "exec sql (mg_schema ?s) = Inr d"
            "apply_migration exec (version_of f) sql ?s = (Inr (), ?t\<lparr>mg_schema := d, mg_applied := Some (vs @ [version_of f])\<rparr>)"
          then show thesis
            using Some new known r(1) assms
            by (intro ran [of "?t\<lparr>mg_schema := d, mg_applied := Some (vs @ [version_of f])\<rparr>"])
               (simp_all add: seq_apply catch_apply read_file_def Let_def migrated_def applied_versions_def)
        qed
      qed
    qed
  qed
qed

lemma migrated_Cons:
  assumes "migrated exec [f] s s'" "migrated exec fs s' t"
  shows "migrated exec (f # fs) s t"
  using assms by (auto simp: migrated_def split: option.splits sum.splits)

lemma run_files_runs:
  assumes "mg_applied s = Some vs" "distinct (map version_of fs)" "run_files exec fs n s = (r, t)"
  shows "\<exists>k. migrated exec (take k (filter (\<lambda>f. version_of f \<notin> set vs) fs)) s t \<and> mg_applied t \<noteq> None \<and>
    (\<forall>m. r = Inr m \<longrightarrow> length (filter (\<lambda>f. version_of f \<notin> set vs) fs) \<le> k \<and> m = n + length (filter (\<lambda>f. version_of f \<notin> set vs) fs))"
  using assms
proof (induction fs arbitrary: s vs n)
  case Nil
  then show ?case by (auto simp: migrated_same(2))
next
  case (Cons f fs)
  from Cons.prems(1) show ?case
  proof (cases rule: run_file_cases [of _ _ exec f fs n])
    case (stop e u)
    with Cons.prems have "migrated exec (take 0 (filter (\<lambda>f. version_of f \<notin> set vs) (f # fs))) s t \<and> mg_applied t \<noteq> None \<and> (\<forall>m. r \<noteq> Inr m)"
      by (auto simp: migrated_same(2))
    then show ?thesis by blast
  next
    case (skip s')
    with Cons.prems have "run_files exec fs n s' = (r, t)" "distinct (map version_of fs)" by simp_all
    from Cons.IH [OF skip(4) this(2,1)] skip migrated_same(1) [of s' s exec _ t] Cons.prems(1) show ?thesis by simp
  next
    case (ran s')
    with Cons.prems have run: "run_files exec fs (n + 1) s' = (r, t)" "distinct (map version_of fs)" by simp_all
    have same: "filter (\<lambda>g. version_of g \<notin> set (vs @ [version_of f])) fs = filter (\<lambda>g. version_of g \<notin> set vs) fs"
      using Cons.prems(2) by (intro filter_cong) (force simp: image_iff)+
    from Cons.IH [OF ran(4) run(2,1), unfolded same] obtain k where
      k: "migrated exec (take k (filter (\<lambda>f. version_of f \<notin> set vs) fs)) s' t" "mg_applied t \<noteq> None"
        "\<forall>m. r = Inr m \<longrightarrow> length (filter (\<lambda>f. version_of f \<notin> set vs) fs) \<le> k \<and> m = n + 1 + length (filter (\<lambda>f. version_of f \<notin> set vs) fs)"
      by blast
    with migrated_Cons [OF ran(3) k(1)] ran(1) show ?thesis by (intro exI [of _ "Suc k"]) simp
  qed
qed

lemma stem_extension:
  assumes "CHR ''/'' \<notin> set name" "path_extension name \<noteq> []"
  shows "path_stem name @ path_extension name = name"
proof -
  have whole: "after_last (CHR ''/'') name = name"
  proof -
    have all: "takeWhile (\<lambda>x. x \<noteq> CHR ''/'') (rev name) = rev name" using assms(1) by (auto simp: takeWhile_eq_all_conv)
    show ?thesis unfolding after_last_def all by simp
  qed
  have dot: "CHR ''.'' \<in> set name" and ext: "path_extension name = CHR ''.'' # after_last (CHR ''.'') name"
    using assms(2) by (auto simp: path_extension_def whole Let_def split: if_splits)
  have "\<exists>p. name = p @ CHR ''.'' # after_last (CHR ''.'') name"
  proof -
    have "rev name = takeWhile (\<lambda>x. x \<noteq> CHR ''.'') (rev name) @ dropWhile (\<lambda>x. x \<noteq> CHR ''.'') (rev name)" by simp
    moreover have "dropWhile (\<lambda>x. x \<noteq> CHR ''.'') (rev name) \<noteq> []" using dot by (auto simp: dropWhile_eq_Nil_conv)
    moreover from this have "hd (dropWhile (\<lambda>x. x \<noteq> CHR ''.'') (rev name)) = CHR ''.''" using hd_dropWhile by blast
    ultimately obtain q where "rev name = takeWhile (\<lambda>x. x \<noteq> CHR ''.'') (rev name) @ CHR ''.'' # q" by (metis list.exhaust_sel)
    then have "name = rev q @ CHR ''.'' # after_last (CHR ''.'') name"
      unfolding after_last_def by (metis append_assoc append_Cons append_Nil rev.simps(2) rev_append rev_rev_ident)
    then show ?thesis ..
  qed
  then obtain p where "name = p @ path_extension name" unfolding ext by blast
  then show ?thesis unfolding path_stem_def by (metis append_take_drop_id append_eq_conv_conj length_append add_diff_cancel_right')
qed

lemma distinct_versions:
  assumes "distinct (map de_filename entries)" "\<forall>f \<in> set entries. CHR ''/'' \<notin> set (de_filename f)"
  shows "distinct (map version_of (migration_files entries))"
proof -
  have set: "set (migration_files entries) = {f \<in> set entries. de_regular f \<and> path_extension (de_filename f) = ''.sql''}"
    by (auto simp: migration_files_def)
  have "distinct (map de_filename (filter P entries))" for P
    using assms(1) by (rule distinct_map_filter)
  then have names: "distinct (map de_filename (migration_files entries))"
    unfolding migration_files_def by (simp add: distinct_map)
  have "inj_on version_of (set (migration_files entries))"
  proof (rule inj_onI)
    fix f g assume fg: "f \<in> set (migration_files entries)" "g \<in> set (migration_files entries)" "version_of f = version_of g"
    then have "version_of f @ ''.sql'' = de_filename f" "version_of g @ ''.sql'' = de_filename g"
      using stem_extension [of "de_filename f"] stem_extension [of "de_filename g"] assms(2) by (auto simp: set)
    with fg show "f = g" using names by (metis distinct_map inj_onD)
  qed
  then show ?thesis using names by (simp add: distinct_map)
qed

lemma filter_beyond:
  "distinct (map f xs) \<Longrightarrow> filter (\<lambda>x. f x \<notin> f ` set (take k xs)) xs = drop k xs"
proof (induction xs arbitrary: k)
  case (Cons x xs)
  show ?case
  proof (cases k)
    case (Suc j)
    have "filter (\<lambda>y. f y \<notin> f ` set (x # take j xs)) xs = filter (\<lambda>y. f y \<notin> f ` set (take j xs)) xs"
      using Cons.prems by (intro filter_cong) (auto simp: image_iff)
    with Suc Cons show ?thesis by simp
  qed simp
qed simp

lemma run_migrates:
  assumes "distinct (map version_of (migration_files entries))"
    and "MigrationRunner_run exec path (Some entries) s = (r, t)"
  defines "pend \<equiv> pending_migrations entries (applied_versions s)"
  shows "\<exists>k. migrated exec (take k pend) s t \<and> (\<forall>m. r = Inr m \<longrightarrow> length pend \<le> k \<and> m = length pend)"
proof (cases "fst (ensure_bookkeeping_table s)")
  case (Inl e)
  then have "mg_schema t = mg_schema s" "mg_applied t = mg_applied s" "r = Inl e"
    using assms(2) by (auto simp: MigrationRunner_run_def ensure_bookkeeping_table_def mig_transaction_def seq_apply Let_def
        split: list.splits option.splits)
  then have "migrated exec (take 0 pend) s t \<and> (\<forall>m. r \<noteq> Inr m)" by (simp add: migrated_same(2))
  then show ?thesis by blast
next
  case (Inr u)
  then obtain s1 where s1: "ensure_bookkeeping_table s = (Inr (), s1)" by (cases "ensure_bookkeeping_table s") auto
  then have tab: "mg_applied s1 = Some (applied_versions s)" "mg_schema s1 = mg_schema s"
    by (auto simp: ensure_bookkeeping_table_def mig_transaction_def applied_versions_def Let_def split: list.splits option.splits)
  have "run_files exec (migration_files entries) 0 s1 = (r, t)"
    using assms(2) s1 by (simp add: MigrationRunner_run_def seq_apply)
  from run_files_runs [OF tab(1) assms(1) this] have "\<exists>k. migrated exec (take k pend) s1 t \<and>
      (\<forall>m. r = Inr m \<longrightarrow> length pend \<le> k \<and> m = length pend)"
    by (auto simp: pending_migrations_def pend_def)
  then show ?thesis using tab by (simp add: migrated_def applied_versions_def)
qed

lemma pending_after:
  assumes "distinct (map version_of (migration_files entries))"
    and "migrated exec (take k (pending_migrations entries (applied_versions s))) s t"
  shows "pending_migrations entries (applied_versions t) = drop k (pending_migrations entries (applied_versions s))"
proof -
  let ?pend = "pending_migrations entries (applied_versions s)"
  have vs: "applied_versions t = applied_versions s @ map version_of (take k ?pend)" using assms(2) by (simp add: migrated_def)
  have "distinct (map version_of ?pend)"
    using assms(1) unfolding pending_migrations_def by (rule distinct_map_filter)
  then have "filter (\<lambda>f. version_of f \<notin> version_of ` set (take k ?pend)) ?pend = drop k ?pend" by (rule filter_beyond)
  moreover have "pending_migrations entries (applied_versions t) = filter (\<lambda>f. version_of f \<notin> version_of ` set (take k ?pend)) ?pend"
    unfolding vs by (simp add: pending_migrations_def conj_commute)
  ultimately show ?thesis by simp
qed

text \<open>C33. Migrations run in order, each at most once, and a failed run can be resumed. Whatever fails and wherever, the
  scripts that have run are a prefix of those that were pending, ordered by file name; each has taken
  effect completely and is recorded, no other has left a trace; what is pending afterwards is exactly
  the rest. A run that succeeds has run all of them and returns their number, so the next run does
  nothing.\<close>

theorem migrations_resume:
  assumes "distinct (map de_filename entries)" "\<forall>f \<in> set entries. CHR ''/'' \<notin> set (de_filename f)"
    and "MigrationRunner_run exec path (Some entries) s = (r, t)"
  shows "\<exists>k. sorted (map de_filename (pending_migrations entries (applied_versions s))) \<and>
    migrated exec (take k (pending_migrations entries (applied_versions s))) s t \<and>
    pending_migrations entries (applied_versions t) = drop k (pending_migrations entries (applied_versions s)) \<and>
    (\<forall>m. r = Inr m \<longrightarrow> pending_migrations entries (applied_versions t) = [] \<and>
      m = length (pending_migrations entries (applied_versions s)))"
proof -
  note dist = distinct_versions [OF assms(1,2)]
  have "sorted (map de_filename (pending_migrations entries (applied_versions s)))"
    unfolding pending_migrations_def migration_files_def by (simp add: sorted_filter)
  moreover obtain k where "migrated exec (take k (pending_migrations entries (applied_versions s))) s t"
    "\<forall>m. r = Inr m \<longrightarrow> length (pending_migrations entries (applied_versions s)) \<le> k \<and>
      m = length (pending_migrations entries (applied_versions s))"
    using run_migrates [OF dist assms(3)] by blast
  moreover note pending_after [OF dist this(1)]
  ultimately show ?thesis by (intro exI [of _ k]) auto
qed

definition example_dir :: "dir_entry list" where
  "example_dir =
     [\<lparr>de_filename = ''0002_b.sql'', de_regular = True, de_content = Some ''b''\<rparr>,
      \<lparr>de_filename = ''0001_a.sql'', de_regular = True, de_content = Some ''a''\<rparr>]"

theorem migrations_resume_witness:
  "\<exists>r t. MigrationRunner_run (\<lambda>sql d. Inr (d @ sql)) ''migrations'' (Some example_dir)
      \<lparr>mg_schema = [], mg_applied = None, mg_faults = [None, None, None, None, Some ''lost'']\<rparr> = (r, t) \<and>
     (\<exists>k. pending_migrations example_dir (applied_versions t) = drop k (pending_migrations example_dir []))"
proof -
  let ?s = "\<lparr>mg_schema = [], mg_applied = None, mg_faults = [None, None, None, None, Some ''lost'']\<rparr>"
  obtain r t where run: "MigrationRunner_run (\<lambda>sql d. Inr (d @ sql)) ''migrations'' (Some example_dir) ?s = (r, t)" by fastforce
  have "distinct (map de_filename example_dir)" "\<forall>f \<in> set example_dir. CHR ''/'' \<notin> set (de_filename f)"
    by (simp_all add: example_dir_def)
  from migrations_resume [OF this run] run show ?thesis by (auto simp: applied_versions_def)
qed

end
