(* ===== verification/ConnectionPool.thy ===== *)
theory ConnectionPool
  imports World
begin

text \<open>
  The pool of database connections, \<^verbatim>\<open>database/connection_pool.cpp\<close>. A connection is a handle; whether it is
  still open, and what happens when a new one is opened, is up to the server. A call that would wait on
  the condition variable has the result \<^term>\<open>None\<close>.
\<close>

type_synonym handle = nat

datatype connect_outcome = Opened handle | OpenedClosed | ConnectThrew string

record connection_pool =
  cp_size :: nat
  cp_idle :: "handle list"
  cp_shutting_down :: bool

definition make_connection :: "connect_outcome \<Rightarrow> handle result" where
  "make_connection out =
     (case out of
        Opened h \<Rightarrow> Inr h
      | OpenedClosed \<Rightarrow> Inl (DatabaseException ''Database connection is not open'' [])
      | ConnectThrew what \<Rightarrow> Inl (DatabaseException ''Failed to open database connection'' what))"

text \<open>The constructor opens every connection; the first failure aborts it.\<close>

fun fill_pool :: "connect_outcome list \<Rightarrow> connection_pool \<Rightarrow> connection_pool result" where
  "fill_pool [] p = Inr p"
| "fill_pool (out # outs) p =
     (case make_connection out of
        Inl e \<Rightarrow> Inl e
      | Inr h \<Rightarrow> fill_pool outs (p\<lparr>cp_idle := cp_idle p @ [h]\<rparr>))"

definition ConnectionPool_create :: "nat \<Rightarrow> (nat \<Rightarrow> connect_outcome) \<Rightarrow> connection_pool result" where
  "ConnectionPool_create n outs =
     (let sz = (if n = 0 then 1 else n)
      in fill_pool (map outs [0..<sz]) \<lparr>cp_size = sz, cp_idle = [], cp_shutting_down = False\<rparr>)"

definition ConnectionPool_destroy :: "connection_pool \<Rightarrow> connection_pool" where
  "ConnectionPool_destroy p = p\<lparr>cp_shutting_down := True, cp_idle := []\<rparr>"

definition ConnectionPool_acquire ::
    "(handle \<Rightarrow> bool) \<Rightarrow> connect_outcome \<Rightarrow> connection_pool \<Rightarrow> (handle result \<times> connection_pool) option" where
  "ConnectionPool_acquire is_open out p =
     (if cp_shutting_down p then Some (Inl (DatabaseException ''Connection pool is shutting down'' []), p)
      else (case cp_idle p of
              [] \<Rightarrow> None
            | h # hs \<Rightarrow> Some (if is_open h then Inr h else make_connection out, p\<lparr>cp_idle := hs\<rparr>)))"

definition ConnectionPool_release :: "handle \<Rightarrow> connection_pool \<Rightarrow> connection_pool" where
  "ConnectionPool_release h p = (if cp_shutting_down p then p else p\<lparr>cp_idle := cp_idle p @ [h]\<rparr>)"

definition ConnectionPool_idle_count :: "connection_pool \<Rightarrow> nat" where
  "ConnectionPool_idle_count p = length (cp_idle p)"

text \<open>A lease; a moved-from one has neither pool nor connection.\<close>

record lease =
  ls_attached :: bool
  ls_conn :: "handle option"

definition return_to_pool :: "lease \<times> connection_pool \<Rightarrow> lease \<times> connection_pool" where
  "return_to_pool lp = (case lp of (l, p) \<Rightarrow>
     (\<lparr>ls_attached = False, ls_conn = None\<rparr>,
      case ls_conn l of Some h \<Rightarrow> if ls_attached l then ConnectionPool_release h p else p | None \<Rightarrow> p))"

definition PooledConnection_move_assign :: "lease \<Rightarrow> lease \<Rightarrow> connection_pool \<Rightarrow> lease \<times> lease \<times> connection_pool" where
  "PooledConnection_move_assign target source p =
     (case return_to_pool (target, p) of
        (_, p) \<Rightarrow> (source, \<lparr>ls_attached = False, ls_conn = None\<rparr>, p))"


section \<open>Clients of the pool\<close>

text \<open>The pool with the handles that are out on lease, as its clients use it: a lease is destroyed once.\<close>

record pool_state =
  ps_pool :: connection_pool
  ps_leased :: "handle list"
  ps_made :: "handle set"

inductive lease_step :: "pool_state \<Rightarrow> pool_state \<Rightarrow> bool" where
  acquired: "ConnectionPool_acquire is_open out (ps_pool s) = Some (Inr h, p) \<Longrightarrow>
    (\<forall>n. out = Opened n \<longrightarrow> n \<notin> ps_made s) \<Longrightarrow>
    lease_step s (s\<lparr>ps_pool := p, ps_leased := ps_leased s @ [h], ps_made := insert h (ps_made s)\<rparr>)"
| failed: "ConnectionPool_acquire is_open out (ps_pool s) = Some (Inl e, p) \<Longrightarrow> lease_step s (s\<lparr>ps_pool := p\<rparr>)"
| returned: "ps_leased s = hs @ h # hs' \<Longrightarrow>
    lease_step s (s\<lparr>ps_pool := snd (return_to_pool (\<lparr>ls_attached = True, ls_conn = Some h\<rparr>, ps_pool s)),
                    ps_leased := hs @ hs'\<rparr>)"
| destroyed: "lease_step s (s\<lparr>ps_pool := ConnectionPool_destroy (ps_pool s)\<rparr>)"

definition connections :: "pool_state \<Rightarrow> handle list" where
  "connections s = cp_idle (ps_pool s) @ ps_leased s"

definition pool_ok :: "pool_state \<Rightarrow> bool" where
  "pool_ok s \<longleftrightarrow> distinct (connections s) \<and> set (connections s) \<subseteq> ps_made s"

definition opened :: "connection_pool \<Rightarrow> pool_state" where
  "opened p = \<lparr>ps_pool = p, ps_leased = [], ps_made = set (cp_idle p)\<rparr>"

lemma fill_pool_idle:
  "fill_pool outs p = Inr q \<Longrightarrow> \<exists>hs. outs = map Opened hs \<and> q = p\<lparr>cp_idle := cp_idle p @ hs\<rparr>"
proof (induction outs arbitrary: p)
  case (Cons out outs)
  then obtain h where h: "out = Opened h" "fill_pool outs (p\<lparr>cp_idle := cp_idle p @ [h]\<rparr>) = Inr q"
    by (cases out) (auto simp: make_connection_def)
  from Cons.IH [OF h(2)] obtain hs where "outs = map Opened hs" "q = p\<lparr>cp_idle := cp_idle p @ h # hs\<rparr>" by auto
  with h(1) show ?case by (intro exI [of _ "h # hs"]) simp
qed simp

lemma lease_step_ok:
  assumes "lease_step s s'" "pool_ok s"
  shows "pool_ok s' \<and> length (connections s') \<le> length (connections s)"
  using assms
proof (induction rule: lease_step.induct)
  case (acquired is_open out s h p)
  then obtain x hs where idle: "cp_idle (ps_pool s) = x # hs" "p = (ps_pool s)\<lparr>cp_idle := hs\<rparr>"
    and h: "h = x \<or> out = Opened h"
    by (auto simp: ConnectionPool_acquire_def make_connection_def split: if_splits list.splits connect_outcome.splits)
  with acquired.hyps(2) acquired.prems have "h = x \<or> h \<notin> ps_made s" by auto
  with idle acquired.prems show ?case by (auto simp: pool_ok_def connections_def)
next
  case (failed is_open out s e p)
  then show ?case
    by (auto simp: ConnectionPool_acquire_def pool_ok_def connections_def split: if_splits list.splits)
next
  case (returned s hs h hs')
  then show ?case by (auto simp: return_to_pool_def ConnectionPool_release_def pool_ok_def connections_def)
next
  case (destroyed s)
  then show ?case by (auto simp: ConnectionPool_destroy_def pool_ok_def connections_def)
qed

text \<open>C34. The pool never hands out one connection twice and never holds more than it was made with: after any
  sequence of acquisitions (with dead connections replaced, or the replacement failing), returns and
  shutdown, the connections that are idle or on lease are pairwise distinct, so nobody else holds a
  leased one, and they are at most as many as the configured size.\<close>

theorem pool_bounded:
  assumes "ConnectionPool_create n outs = Inr p" "distinct (map outs [0..<max 1 n])"
    and "lease_step\<^sup>*\<^sup>* (opened p) s"
  shows "distinct (cp_idle (ps_pool s) @ ps_leased s) \<and>
    ConnectionPool_idle_count (ps_pool s) + length (ps_leased s) \<le> max 1 n"
proof -
  have n: "(if n = 0 then 1 else n) = max 1 n" by simp
  obtain hs where hs: "map outs [0..<max 1 n] = map Opened hs" "cp_idle p = hs"
    using assms(1) fill_pool_idle [of "map outs [0..<max 1 n]"] unfolding ConnectionPool_create_def n
    by (force simp: Let_def)
  then have len: "length hs = max 1 n" by (metis length_map length_upt minus_nat.diff_0)
  have "distinct hs" using assms(2) unfolding hs(1) by (simp add: distinct_map)
  then have "pool_ok (opened p)" by (simp add: pool_ok_def opened_def connections_def hs(2))
  with assms(3) have "pool_ok s \<and> length (connections s) \<le> length (connections (opened p))"
    by (induction rule: rtranclp_induct) (auto dest: lease_step_ok)
  with len hs(2) show ?thesis by (simp add: pool_ok_def connections_def opened_def ConnectionPool_idle_count_def)
qed

theorem pool_bounded_witness:
  "\<exists>p s. ConnectionPool_create 2 Opened = Inr p \<and> lease_step (opened p) s \<and> ps_leased s = [0] \<and>
     ConnectionPool_idle_count (ps_pool s) + length (ps_leased s) \<le> 2"
proof -
  let ?p = "\<lparr>cp_size = 2, cp_idle = [0, 1], cp_shutting_down = False\<rparr>"
  let ?s = "(opened ?p)\<lparr>ps_pool := ?p\<lparr>cp_idle := [1]\<rparr>, ps_leased := [0], ps_made := insert 0 (ps_made (opened ?p))\<rparr>"
  have p: "ConnectionPool_create 2 Opened = Inr ?p" "distinct (map Opened [0..<max 1 2])"
    by (simp_all add: ConnectionPool_create_def make_connection_def upt_rec numeral_2_eq_2)
  have "ConnectionPool_acquire (\<lambda>_. True) OpenedClosed (ps_pool (opened ?p)) = Some (Inr 0, ?p\<lparr>cp_idle := [1]\<rparr>)"
    by (simp add: ConnectionPool_acquire_def opened_def)
  from lease_step.acquired [OF this] have step: "lease_step (opened ?p) ?s" by (simp add: opened_def)
  have "ConnectionPool_idle_count (ps_pool ?s) + length (ps_leased ?s) \<le> 2"
    using pool_bounded [OF p r_into_rtranclp [where r = lease_step, OF step]] by simp
  moreover have "ps_leased ?s = [0]" by simp
  ultimately show ?thesis using p(1) step by blast
qed

text \<open>A replacement that fails loses its place in the pool for good: the connection was taken out before, and nothing
  puts one back. After as many failures as there are connections every later call waits for ever,
  although nothing is on lease.\<close>

lemma failed_replacement_leaks:
  assumes "\<not> cp_shutting_down p"
  shows "lease_step\<^sup>*\<^sup>* (opened p) ((opened p)\<lparr>ps_pool := p\<lparr>cp_idle := []\<rparr>\<rparr>) \<and>
    ConnectionPool_acquire is_open out (p\<lparr>cp_idle := []\<rparr>) = None"
proof
  have "lease_step\<^sup>*\<^sup>* (s\<lparr>ps_pool := p\<lparr>cp_idle := hs\<rparr>\<rparr>) (s\<lparr>ps_pool := p\<lparr>cp_idle := []\<rparr>\<rparr>)" for hs and s :: pool_state
  proof (induction hs)
    case (Cons h hs)
    have "ConnectionPool_acquire (\<lambda>_. False) OpenedClosed (ps_pool (s\<lparr>ps_pool := p\<lparr>cp_idle := h # hs\<rparr>\<rparr>)) =
        Some (Inl (DatabaseException ''Database connection is not open'' []), p\<lparr>cp_idle := hs\<rparr>)"
      using assms by (simp add: ConnectionPool_acquire_def make_connection_def)
    from lease_step.failed [OF this] Cons show ?case by (simp add: converse_rtranclp_into_rtranclp)
  qed simp
  from this [of "cp_idle p" "opened p"] show "lease_step\<^sup>*\<^sup>* (opened p) ((opened p)\<lparr>ps_pool := p\<lparr>cp_idle := []\<rparr>\<rparr>)"
    by (simp add: opened_def)
  show "ConnectionPool_acquire is_open out (p\<lparr>cp_idle := []\<rparr>) = None"
    using assms by (simp add: ConnectionPool_acquire_def)
qed

end
