(* ===== verification/Logging.thy ===== *)
theory Logging
  imports Jobs Settings
begin

text \<open>
  The correlation of log lines: the request id of a thread (\<^verbatim>\<open>logging/log_context.cpp\<close>) and the fields the formatter adds
  to every line (\<^verbatim>\<open>logging/logger.cpp\<close>). Expanding a pattern is the work of the logging library: an expansion gets the
  pattern and, for each flag the formatter registers, what the flag writes.
\<close>

section \<open>The request id of a thread\<close>

definition current_request_id :: "thread_locals \<Rightarrow> string" where
  "current_request_id loc = tl_request_id loc"

definition set_request_id :: "string \<Rightarrow> thread_locals \<Rightarrow> thread_locals" where
  "set_request_id i loc = loc\<lparr>tl_request_id := i\<rparr>"

definition clear_request_id :: "thread_locals \<Rightarrow> thread_locals" where
  "clear_request_id loc = loc\<lparr>tl_request_id := []\<rparr>"

text \<open>The guard keeps the value it replaces.\<close>

definition RequestIdScope_enter :: "string \<Rightarrow> thread_locals \<Rightarrow> string \<times> thread_locals" where
  "RequestIdScope_enter i loc = (tl_request_id loc, loc\<lparr>tl_request_id := i\<rparr>)"

definition RequestIdScope_leave :: "string \<Rightarrow> thread_locals \<Rightarrow> thread_locals" where
  "RequestIdScope_leave previous loc = loc\<lparr>tl_request_id := previous\<rparr>"

definition in_request_scope :: "string \<Rightarrow> (thread_locals \<Rightarrow> 'a \<times> thread_locals) \<Rightarrow> thread_locals \<Rightarrow> 'a \<times> thread_locals" where
  "in_request_scope i body loc =
     (case RequestIdScope_enter i loc of (previous, loc) \<Rightarrow>
      case body loc of (x, loc) \<Rightarrow> (x, RequestIdScope_leave previous loc))"


section \<open>The formatter\<close>

definition bracketed :: "bool \<Rightarrow> string \<Rightarrow> string" where
  "bracketed b text = (if b then '' ['' @ text @ '']'' else text)"

definition TraceIdFlag_format :: "bool \<Rightarrow> thread_locals \<Rightarrow> string" where
  "TraceIdFlag_format brackets loc =
     (case tl_current loc of
        None \<Rightarrow> []
      | Some c \<Rightarrow> if sc_is_valid c then bracketed brackets (sc_trace_id c) else [])"

definition SpanIdFlag_format :: "thread_locals \<Rightarrow> string" where
  "SpanIdFlag_format loc =
     (case tl_current loc of
        None \<Rightarrow> []
      | Some c \<Rightarrow> if sc_is_valid c then sc_span_id c else [])"

definition RequestIdFlag_format :: "bool \<Rightarrow> thread_locals \<Rightarrow> string" where
  "RequestIdFlag_format brackets loc =
     (let request_id = current_request_id loc in if request_id = [] then [] else bracketed brackets request_id)"

definition kTextPattern :: string where
  "kTextPattern = ''%Y-%m-%d %H:%M:%S.%e [%^%l%$] [tid %t] %n:%~%* %v''"

definition kJsonPattern :: string where
  "kJsonPattern =
     (let q = [CHR 0x22] in
      ''{'' @ q @ ''time'' @ q @ '':'' @ q @ ''%Y-%m-%dT%H:%M:%S.%e%z'' @ q @ '','' @ q @ ''level'' @ q @ '':'' @ q @ ''%l'' @ q @ '','' @
      q @ ''thread'' @ q @ '':%t,'' @ q @ ''logger'' @ q @ '':'' @ q @ ''%n'' @ q @ '','' @
      q @ ''trace_id'' @ q @ '':'' @ q @ ''%*'' @ q @ '','' @ q @ ''span_id'' @ q @ '':'' @ q @ ''%&'' @ q @ '','' @
      q @ ''request_id'' @ q @ '':'' @ q @ ''%~'' @ q @ '','' @ q @ ''message'' @ q @ '':'' @ q @ ''%v'' @ q @ ''}'')"

record formatter =
  fm_pattern :: string
  fm_flags :: "(char \<times> (thread_locals \<Rightarrow> string)) list"

definition make_formatter :: "bool \<Rightarrow> formatter" where
  "make_formatter as_json =
     \<lparr>fm_pattern = (if as_json then kJsonPattern else kTextPattern),
      fm_flags = [(CHR ''*'', TraceIdFlag_format (\<not> as_json)), (CHR ''&'', SpanIdFlag_format), (CHR ''~'', RequestIdFlag_format (\<not> as_json))]\<rparr>"


section \<open>Levels\<close>

datatype log_severity = LevelTrace | LevelDebug | LevelInfo | LevelWarn | LevelErr | LevelCritical | LevelOff

definition parse_level :: "string \<Rightarrow> log_severity" where
  "parse_level level =
     (let normalized = map tolower level
      in if normalized = ''trace'' then LevelTrace
         else if normalized = ''debug'' then LevelDebug
         else if normalized = ''info'' then LevelInfo
         else if normalized = ''warn'' \<or> normalized = ''warning'' then LevelWarn
         else if normalized = ''error'' \<or> normalized = ''err'' then LevelErr
         else if normalized = ''critical'' \<or> normalized = ''crit'' then LevelCritical
         else if normalized = ''off'' then LevelOff
         else LevelInfo)"

record logger =
  lg_formatter :: formatter
  lg_level :: log_severity
  lg_flush_on :: log_severity

definition init_logging :: "string \<Rightarrow> string \<Rightarrow> logger" where
  "init_logging level format =
     \<lparr>lg_formatter = make_formatter (map tolower format = ''json''), lg_level = parse_level level, lg_flush_on = LevelWarn\<rparr>"


section \<open>What a line says\<close>

definition json_flag :: "char \<Rightarrow> thread_locals \<Rightarrow> string" where
  "json_flag c loc = (case map_of (fm_flags (make_formatter True)) c of None \<Rightarrow> [] | Some f \<Rightarrow> f loc)"

text \<open>A scope leaves the thread's request id as it found it, whatever happens inside, nested scopes included; and a
  line written inside carries the id of the innermost scope.\<close>

lemma scope_restores: "tl_request_id (snd (in_request_scope i body loc)) = tl_request_id loc"
  by (simp add: in_request_scope_def RequestIdScope_enter_def RequestIdScope_leave_def split_beta)

lemma scope_labels:
  "fst (in_request_scope i (\<lambda>loc. (json_flag (CHR ''~'') loc, loc)) loc) = i"
  "fst (in_request_scope i (in_request_scope j (\<lambda>loc. (json_flag (CHR ''~'') loc, loc))) loc) = j"
  by (simp_all add: in_request_scope_def RequestIdScope_enter_def json_flag_def make_formatter_def RequestIdFlag_format_def
      current_request_id_def bracketed_def Let_def)

text \<open>The line of a deferred job carries the ids of the request that submitted it, not those of the worker thread.\<close>

lemma job_line_correlated:
  assumes "tl_current loc = Some c" "sc_is_valid c"
  shows "fst (run_job (carry loc (\<lambda>l s. (True, map (\<lambda>f. json_flag f l) [CHR ''*'', CHR ''&'', CHR ''~'']))) worker s)"
    and "snd (snd (run_job (carry loc (\<lambda>l s. (True, map (\<lambda>f. json_flag f l) [CHR ''*'', CHR ''&'', CHR ''~'']))) worker s)) =
      [sc_trace_id c, sc_span_id c, tl_request_id loc]"
  using assms
  by (simp_all add: run_job_def carry_def json_flag_def make_formatter_def TraceIdFlag_format_def SpanIdFlag_format_def
      RequestIdFlag_format_def current_request_id_def bracketed_def Let_def)

text \<open>Unknown level names mean \<^verbatim>\<open>info\<close>, and case does not matter.\<close>

lemma parse_level_case: "parse_level (map tolower level) = parse_level level"
proof -
  have "tolower (tolower c) = tolower c" for c by (metis tolower_def tolower_not_upper)
  then show ?thesis by (simp add: parse_level_def comp_def)
qed

end
