(* ===== verification/Startup.thy ===== *)
theory Startup
  imports RedisCache Migrations ConnectionPool Logging
begin

text \<open>
  How the process starts: the entry point \<^verbatim>\<open>main.cpp\<close> with its exit codes, the migrate-only mode, and the choices
  \<^verbatim>\<open>application.cpp\<close> makes between the back ends of cache, tracing and bus.
\<close>


section \<open>Choosing back ends\<close>

datatype 's cache_backend = RedisBackend "'s redis_client" | MemoryBackend

text \<open>\<open>available\<close> is whether Redis support was compiled in; \<open>connect\<close> is the client's constructor.\<close>

definition make_cache_store ::
    "bool \<Rightarrow> (string \<Rightarrow> string + 's redis_client) \<Rightarrow> config \<Rightarrow> 's cache_backend" where
  "make_cache_store available connect cfg =
     (if redis_enabled cfg \<and> available
      then (case RedisCacheStore_create available connect (redis_url cfg) of Inr r \<Rightarrow> RedisBackend r | Inl _ \<Rightarrow> MemoryBackend)
      else MemoryBackend)"

datatype exporter_choice = LoggingSpanExporter | OtlpHttpSpanExporter string trace_wire_format int

definition make_span_exporter :: "(string \<Rightarrow> trace_wire_format \<Rightarrow> bool) \<Rightarrow> config \<Rightarrow> exporter_choice" where
  "make_span_exporter constructs cfg =
     (if tracing_exporter cfg = ''logging'' then LoggingSpanExporter
      else let format = parse_wire_format (tracing_exporter cfg)
           in if constructs (tracing_endpoint cfg) format then OtlpHttpSpanExporter (tracing_endpoint cfg) format 3000
              else LoggingSpanExporter)"

datatype bus_choice = RedisBus string string | NullBus string

definition make_cluster_bus :: "bool \<Rightarrow> (string \<Rightarrow> bool) \<Rightarrow> config \<Rightarrow> string \<Rightarrow> bus_choice" where
  "make_cluster_bus available connects cfg node_id =
     (if cluster_enabled cfg \<and> available \<and> connects (redis_url cfg) then RedisBus (redis_url cfg) node_id
      else NullBus node_id)"

text \<open>Telemetry, cache and bus never keep the process from starting: with a failing constructor the local choice
  is made. A bus is used only with a configuration that has Redis.\<close>

lemma backend_fallback:
  "(\<And>uri. \<exists>what. connect uri = Inl what) \<Longrightarrow> make_cache_store available connect cfg = MemoryBackend"
  "make_span_exporter (\<lambda>_ _. False) cfg = LoggingSpanExporter"
  "make_cluster_bus available (\<lambda>_. False) cfg node_id = NullBus node_id"
proof -
  assume "\<And>uri. \<exists>what. connect uri = Inl what"
  then obtain what where "connect (redis_url cfg) = Inl what" by blast
  then show "make_cache_store available connect cfg = MemoryBackend"
    by (simp add: make_cache_store_def RedisCacheStore_create_def)
qed (simp_all add: make_span_exporter_def make_cluster_bus_def Let_def)


section \<open>The process\<close>

datatype fatal = FatalApp app_exception | FatalStd string

definition run_migrations ::
    "(string \<Rightarrow> 'd \<Rightarrow> string + 'd) \<Rightarrow> (string \<Rightarrow> dir_entry list option) \<Rightarrow> string \<Rightarrow> (fatal, 'd migration_db, unit) action" where
  "run_migrations exec listing migrations_dir s =
     (case MigrationRunner_run exec migrations_dir (listing migrations_dir) s of
        (Inr _, t) \<Rightarrow> (Inr (), t)
      | (Inl (AppError e), t) \<Rightarrow> (Inl (FatalApp e), t)
      | (Inl (SqlError what), t) \<Rightarrow> (Inl (FatalStd what), t))"

definition Application_migrate ::
    "(string \<Rightarrow> 'd \<Rightarrow> string + 'd) \<Rightarrow> (string \<Rightarrow> dir_entry list option) \<Rightarrow> (nat \<Rightarrow> connect_outcome) \<Rightarrow> environ \<Rightarrow> config \<Rightarrow>
       (fatal, 'd migration_db, int) action" where
  "Application_migrate exec listing outs env cfg =
     seq (case ConnectionPool_create (nat (db_pool_size cfg)) outs of Inl e \<Rightarrow> throw (FatalApp e) | Inr pool \<Rightarrow> ret pool) (\<lambda>_.
     seq (run_migrations exec listing (get_env_or env ''MIGRATIONS_DIR'' ''migrations'')) (\<lambda>_.
     ret 0))"

definition migrate_only :: "string list \<Rightarrow> environ \<Rightarrow> bool" where
  "migrate_only argv env \<longleftrightarrow>
     (length argv > 1 \<and> argv ! 1 = ''--migrate'') \<or> get_env_or env ''RTC_MIGRATE_ONLY'' ''0'' = ''1''"

fun exit_code :: "fatal \<Rightarrow> int" where
  "exit_code (FatalApp e) = (if ex_type e = kConfiguration then 78 else 1)"
| "exit_code (FatalStd what) = 1"

text \<open>\<open>serve\<close> is \<^verbatim>\<open>Application::run\<close>.\<close>

definition main_process ::
    "(string \<Rightarrow> double \<times> string) \<Rightarrow> (string \<Rightarrow> 'd \<Rightarrow> string + 'd) \<Rightarrow> (string \<Rightarrow> dir_entry list option) \<Rightarrow> (nat \<Rightarrow> connect_outcome) \<Rightarrow>
       (config \<Rightarrow> (fatal, 'd migration_db, int) action) \<Rightarrow> string list \<Rightarrow> environ \<Rightarrow> 'd migration_db \<Rightarrow> int \<times> 'd migration_db" where
  "main_process strtod exec listing outs serve argv env s =
     (case Config_load_from_env strtod env of
        Inl e \<Rightarrow> (exit_code (FatalApp e), s)
      | Inr cfg \<Rightarrow>
          (case (if migrate_only argv env then Application_migrate exec listing outs env cfg else serve cfg) s of
             (Inl f, t) \<Rightarrow> (exit_code f, t)
           | (Inr n, t) \<Rightarrow> (n, t)))"

lemma load_refused: "Config_load_from_env strtod env = Inl e \<Longrightarrow> ex_type e = kConfiguration"
  using config_loads [of strtod env] by (simp add: configured_def)

lemma pool_error: "ConnectionPool_create n outs = Inl e \<Longrightarrow> ex_type e = kDatabase"
proof -
  have "fill_pool os p = Inl e \<Longrightarrow> ex_type e = kDatabase" for os p
    by (induction os arbitrary: p)
       (auto simp: make_connection_def DatabaseException_def AppException_def split: connect_outcome.splits sum.splits)
  then show "ConnectionPool_create n outs = Inl e \<Longrightarrow> ex_type e = kDatabase" by (auto simp: ConnectionPool_create_def Let_def)
qed

lemma run_files_error: "run_files exec fs n s = (Inl (AppError e), t) \<Longrightarrow> ex_type e = kDatabase"
proof (induction fs arbitrary: n s)
  case (Cons f fs)
  obtain r u where app: "is_applied (path_stem (de_filename f)) s = (r, u)" by fastforce
  have no_app: "r \<noteq> Inl (AppError e)" using app
    by (auto simp: is_applied_def mig_transaction_def Let_def split: list.splits option.splits)
  obtain r' u' where step: "seq (read_file f) (apply_migration exec (path_stem (de_filename f))) u = (r', u')" by fastforce
  have db: "ex_type e' = kDatabase" if "r' = Inl (AppError e')" for e'
    using step that by (auto simp: read_file_def apply_migration_def mig_transaction_def seq_apply ret_def throw_def exception_defs Let_def
        split: option.splits sum.splits list.splits if_splits)
  show ?case
  proof (cases r)
    case (Inl e0)
    with Cons.prems app no_app show ?thesis by (simp add: seq_apply Let_def)
  next
    case (Inr b)
    with Cons app step db show ?thesis
      by (cases b; cases r'; force simp: seq_apply catch_apply Let_def throw_def exception_defs split: migration_error.splits)
  qed
qed (simp add: ret_def)

lemma runner_error:
  "MigrationRunner_run exec path dir s = (Inl (AppError e), t) \<Longrightarrow> ex_type e = kDatabase"
  by (cases dir; cases "ensure_bookkeeping_table s")
     (auto simp: MigrationRunner_run_def ensure_bookkeeping_table_def mig_transaction_def seq_apply throw_def exception_defs Let_def
       split: sum.splits list.splits option.splits dest: run_files_error)

text \<open>
  What a deployment learns from the exit code of the migrate-only mode. 0: every pending script has run completely and is recorded.
  78: the configuration is bad and the database was not touched, and a bad configuration gives nothing else. 1: any other failure.
  In every case the scripts that have run are a prefix of those that were pending, so the deployment can be repeated.
\<close>

lemma migrate_exit:
  assumes "migrate_only argv env" "listing (get_env_or env ''MIGRATIONS_DIR'' ''migrations'') = Some entries"
    and "distinct (map de_filename entries)" "\<forall>f \<in> set entries. CHR ''/'' \<notin> set (de_filename f)"
    and "main_process strtod exec listing outs serve argv env s = (code, t)"
  defines "pend \<equiv> pending_migrations entries (applied_versions s)"
  shows "code \<in> {0, 1, 78}"
    and "\<exists>k. migrated exec (take k pend) s t \<and> (code = 0 \<longrightarrow> length pend \<le> k)"
    and "code = 0 \<Longrightarrow> pending_migrations entries (applied_versions t) = []"
    and "code = 78 \<longleftrightarrow> (\<exists>e. Config_load_from_env strtod env = Inl e)"
    and "code = 78 \<Longrightarrow> t = s"
proof -
  note dist = distinct_versions [OF assms(3,4)]
  have same: "\<exists>k. migrated exec (take k pend) s s" by (rule exI [of _ 0]) (simp add: migrated_same(2))
  have all: "code \<in> {0, 1, 78} \<and> (\<exists>k. migrated exec (take k pend) s t \<and> (code = 0 \<longrightarrow> length pend \<le> k)) \<and>
    (code = 78 \<longleftrightarrow> (\<exists>e. Config_load_from_env strtod env = Inl e)) \<and> (code = 78 \<longrightarrow> t = s)"
  proof (cases "Config_load_from_env strtod env")
    case (Inl e)
    with assms(5) load_refused [OF Inl] have "code = 78" "t = s" by (simp_all add: main_process_def)
    with same Inl show ?thesis by auto
  next
    case cfg: (Inr cfg)
    show ?thesis
    proof (cases "ConnectionPool_create (nat (db_pool_size cfg)) outs")
      case (Inl e)
      with assms(1,5) cfg pool_error [OF Inl] have "code = 1" "t = s"
        by (simp_all add: main_process_def Application_migrate_def seq_apply throw_def)
      with same cfg show ?thesis by auto
    next
      case (Inr pool)
      obtain r u where run: "MigrationRunner_run exec (get_env_or env ''MIGRATIONS_DIR'' ''migrations'') (Some entries) s = (r, u)" by fastforce
      have kind: "ex_type e \<noteq> kConfiguration" if "r = Inl (AppError e)" for e
        using runner_error [of exec _ _ s e u] run that by fastforce
      have "t = u" "code = (case r of Inr _ \<Rightarrow> 0 | Inl _ \<Rightarrow> 1)"
        using assms(1,2,5) cfg Inr run kind
        by (auto simp: main_process_def Application_migrate_def run_migrations_def seq_apply ret_def split: sum.splits migration_error.splits)
      with run_migrates [OF dist run] cfg show ?thesis unfolding pend_def by (cases r) auto
    qed
  qed
  then show "code \<in> {0, 1, 78}" "\<exists>k. migrated exec (take k pend) s t \<and> (code = 0 \<longrightarrow> length pend \<le> k)"
    "code = 78 \<longleftrightarrow> (\<exists>e. Config_load_from_env strtod env = Inl e)" "code = 78 \<Longrightarrow> t = s" by blast+
  show "pending_migrations entries (applied_versions t) = []" if "code = 0"
  proof -
    from all that obtain k where "migrated exec (take k pend) s t" "length pend \<le> k" by auto
    then show ?thesis using pending_after [OF dist, of exec k s t] unfolding pend_def by simp
  qed
qed

end
