(* ===== verification/Spec2Isabelle.thy ===== *)
theory Spec2Isabelle
  imports ConversationCreation AccountRules DispatcherRules ClusterInvalidation EventBus RouteDocs Startup
begin

text \<open>
  Verification library of the realtime chat server: a C++ service with a REST interface, a WebSocket
  interface, a PostgreSQL database, an optional Redis for caching and for the bus between instances, and
  background workers. Paths below are relative to \<^verbatim>\<open>src/\<close>; \<^verbatim>\<open>rtc/\<close> is \<^verbatim>\<open>include/rtc/\<close> and the
  matching directory of \<^verbatim>\<open>src/\<close>.

  \<^bold>\<open>How the parts interact.\<close> An HTTP request passes the middlewares, reaches the handler of its route,
  which authenticates and authorises it, checks the shape of the body, and calls one service operation. A service
  runs its repositories' transactions, then tells clients (the broadcaster), the event bus (domain events) and the
  notification dispatcher. The broadcaster is the connection manager: it sends frames to the sockets of this
  instance and hands the event to the cluster bus, which the other instances deliver to theirs. An inbound
  WebSocket frame takes the same path from the event dispatcher to the services. The event bus feeds the audit log
  and the metrics; the executor runs asynchronous subscribers, push notifications and image processing.

  \<^bold>\<open>How it is modelled.\<close> An operation is an \<open>action\<close>: a function from the state to an
  exception or a result, and the new state (\<^verbatim>\<open>Prelude\<close>). \<^verbatim>\<open>World\<close> has the state the
  services see: the tables and sequences of the database, the clock, the random engine, the environment's faults (a
  list of which of the coming transactions fail, and how), and what has been sent to clients, bus and push
  queue. A transaction that throws leaves the tables as they were. A \<open>node\<close> (\<^verbatim>\<open>Authorization\<close>)
  adds the cache of one instance, a \<open>site\<close> (\<^verbatim>\<open>Controllers\<close>) the feature flags and the search
  repository's memory. Threads are interleavings of steps, one per critical section (\<^verbatim>\<open>Jobs\<close>,
  \<^verbatim>\<open>Presence\<close>, \<^verbatim>\<open>ClusterBus\<close>). Integers are unbounded with the C++ range written out where it is
  reached (\<^verbatim>\<open>from_chars\<close>, sequence values, timestamps), role masks are 32-bit words.

  \<^bold>\<open>Foundations.\<close>
  \<^item> \<^verbatim>\<open>Prelude\<close>: actions and combinators, the relations kept by actions (locale
    \<open>step_relation\<close>), the weakest-precondition calculus, C character classes, numbers, lists.
  \<^item> \<^verbatim>\<open>Errors\<close>: \<^verbatim>\<open>rtc/errors\<close>, \<^verbatim>\<open>rtc/http/guard.hpp\<close>, \<^verbatim>\<open>response.hpp\<close>: JSON values,
    \<^verbatim>\<open>AppException\<close> and its subclasses, \<^verbatim>\<open>ErrorMapper\<close>, \<^verbatim>\<open>run_guarded\<close>.
  \<^item> \<^verbatim>\<open>Roles\<close>: \<^verbatim>\<open>rtc/security/role.hpp\<close>. \<^verbatim>\<open>Calendar\<close>: \<^verbatim>\<open>rtc/utils/time\<close>, with the
    proof that the civil-date conversions are inverse. \<^verbatim>\<open>Models\<close>: \<^verbatim>\<open>rtc/models\<close>.
    \<^verbatim>\<open>Validation\<close>: \<^verbatim>\<open>rtc/validation\<close>. \<^verbatim>\<open>Dto\<close>: \<^verbatim>\<open>rtc/dto\<close>.
    \<^verbatim>\<open>Events\<close>: \<^verbatim>\<open>rtc/events/domain_event\<close>, \<^verbatim>\<open>event_types.hpp\<close>, \<^verbatim>\<open>rtc/realtime/events.hpp\<close>.
  \<^item> \<^verbatim>\<open>World\<close>: \<^verbatim>\<open>rtc/database/base_repository.hpp\<close> (\<^verbatim>\<open>with_transaction\<close>), \<^verbatim>\<open>utils/random.hpp\<close>.
    \<^verbatim>\<open>Schema\<close>: the keys, unique indexes and references of \<^verbatim>\<open>migrations/*.sql\<close> as the invariant
    \<open>db_ok\<close>, which every write keeps.
  \<^item> \<^verbatim>\<open>Settings\<close>: \<^verbatim>\<open>utils/env.hpp\<close>, \<^verbatim>\<open>Config\<close>, \<^verbatim>\<open>FeatureFlags\<close>; a loaded configuration is in range.
  \<^item> \<^verbatim>\<open>Tracing\<close>: \<^verbatim>\<open>rtc/tracing\<close>; trace context round trip, no span lost uncounted.
    \<^verbatim>\<open>Logging\<close>: \<^verbatim>\<open>rtc/logging\<close>; scopes restore, deferred jobs keep the ids of their request.

  \<^bold>\<open>Repositories and services.\<close>
  \<^item> \<^verbatim>\<open>Users\<close>, \<^verbatim>\<open>ConversationRepository\<close>, \<^verbatim>\<open>Notifications\<close>, \<^verbatim>\<open>ConversationService\<close>,
    \<^verbatim>\<open>ConversationCreation\<close>: \<^verbatim>\<open>pg_user*\<close>, \<^verbatim>\<open>pg_conversation*\<close>, \<^verbatim>\<open>pg_notification*\<close> and their
    services. One direct conversation per pair, ownership rules, hand-over when the owner leaves.
  \<^item> \<^verbatim>\<open>MessageRepository\<close>, \<^verbatim>\<open>MessageService\<close>, \<^verbatim>\<open>MessageRules\<close>, \<^verbatim>\<open>Receipts\<close> (receipts and
    reactions), \<^verbatim>\<open>Search\<close>: a message is stored before it is delivered, what sending delivers, who may
    read, edit and delete, paging visits everything once, receipts only advance, search shows only what the
    caller may see.
  \<^item> \<^verbatim>\<open>Storage\<close>, \<^verbatim>\<open>Attachments\<close>: \<^verbatim>\<open>rtc/storage\<close>, \<^verbatim>\<open>rtc/media/mime\<close>, \<^verbatim>\<open>AttachmentService\<close>;
    confinement of uploads and the upload/download round trip.
  \<^item> \<^verbatim>\<open>Accounts\<close>, \<^verbatim>\<open>AccountRules\<close>: \<^verbatim>\<open>rtc/security\<close>, sessions, \<^verbatim>\<open>AuthService\<close>,
    \<^verbatim>\<open>UserService\<close>; a refresh token works once, rotation can go on, who registers can log in.
  \<^item> \<^verbatim>\<open>Cache\<close> (\<^verbatim>\<open>rtc/cache/in_memory_cache_store\<close>) refines the abstract cache of the locale
    \<open>cache_store\<close>; \<^verbatim>\<open>CacheClients\<close> (\<^verbatim>\<open>RateLimiter\<close>, \<^verbatim>\<open>PresenceCache\<close>, \<^verbatim>\<open>CacheService\<close>) and
    \<^verbatim>\<open>Authorization\<close> are proved over that locale, and their properties are the facts of its
    interpretation on the in-memory store. Decisions are never stale on the node that makes the changes.
    \<^verbatim>\<open>RedisCache\<close> (\<^verbatim>\<open>rtc/cache/redis_cache_store\<close>): counting over the documented commands, and that it is
    not atomic. It is no second interpretation: a Redis key has one type, and every command can throw.
  \<^item> \<^verbatim>\<open>AuditLog\<close>: repository, service and subscriber; append-only, no duplicates.

  \<^bold>\<open>Realtime.\<close>
  \<^item> \<^verbatim>\<open>Registries\<close> (\<^verbatim>\<open>SessionManager\<close>, \<^verbatim>\<open>RoomManager\<close>) refines relations between connections, users
    and rooms; \<^verbatim>\<open>Protocol\<close>, \<^verbatim>\<open>ClusterBus\<close>, \<^verbatim>\<open>Connections\<close> (\<^verbatim>\<open>ConnectionManager\<close>):
    exactly one frame per recipient, on one instance and across the cluster.
  \<^item> \<^verbatim>\<open>Presence\<close>: whenever nothing is under way, all instances agree on who is online.
  \<^item> \<^verbatim>\<open>Dispatcher\<close>, \<^verbatim>\<open>DispatcherRules\<close>: \<^verbatim>\<open>WebSocketController\<close>, \<^verbatim>\<open>EventDispatcher\<close>,
    \<^verbatim>\<open>HeartbeatMonitor\<close>; the registries describe exactly the open sockets, every failing frame is answered, a
    message sent over a socket reaches every session of every participant.
  \<^item> \<^verbatim>\<open>ClusterInvalidation\<close>: a suspension takes effect on every instance the notice has reached.

  \<^bold>\<open>HTTP.\<close>
  \<^item> \<^verbatim>\<open>Http\<close>: the middlewares around a handler. \<^verbatim>\<open>Controllers\<close>, \<^verbatim>\<open>AdminController\<close>: every
    handler of \<^verbatim>\<open>rtc/controllers\<close>, with one datatype of routes per controller and the guard of each.
    \<^verbatim>\<open>SiteRules\<close>: every route passes its guard first; role changes and suspensions end to end.
  \<^item> \<^verbatim>\<open>OpenApi\<close>, \<^verbatim>\<open>Endpoints\<close>, \<^verbatim>\<open>RouteDocs\<close>: the published document, the probes, metrics,
    documentation and fallback endpoints; document and routes agree.

  \<^bold>\<open>Infrastructure.\<close> \<^verbatim>\<open>Jobs\<close> (\<^verbatim>\<open>rtc/jobs\<close>: stopping drains), \<^verbatim>\<open>EventBus\<close>
  (\<^verbatim>\<open>rtc/events\<close>), \<^verbatim>\<open>ConnectionPool\<close> and \<^verbatim>\<open>Migrations\<close> (\<^verbatim>\<open>rtc/database\<close>),
  \<^verbatim>\<open>Metrics\<close> (\<^verbatim>\<open>rtc/metrics\<close>: buckets count exactly what was observed), \<^verbatim>\<open>Startup\<close>
  (\<^verbatim>\<open>main.cpp\<close>, \<^verbatim>\<open>application.cpp\<close>: back ends, the migrate-only mode and what its exit code says).

  \<^bold>\<open>Faults, bounds and fuel.\<close> Safety properties hold for every list of faults; properties that say an
  operation succeeds assume the list is empty or name the coming entries. No definition has an artificial bound on
  its data. Every loop of the source is a total function; the reconnecting subscriber of the bus recurses over the
  events the Redis client reports. Paging is a recursion over a number of requests, and its theorem
  shows that one more than there are messages is enough. That stopping the executor ends is proved for the states
  in which no worker missed the notification; that one can miss it is the lemma \<open>stop_notification_lost\<close>.

  \<^bold>\<open>Parameters.\<close> Third-party code is an argument of the definitions that use it: bcrypt, JWT signing,
  SHA-256, the image processor, JSON printing and parsing, full-text matching and ranking of PostgreSQL, the
  execution of a migration script, opening a connection, the Redis commands, sending an HTTP request, printing of floating
  point numbers. What a property needs of them is a hypothesis of its own (the hasher accepts what it hashed, two
  tokens have different digests), and its witness instantiates them.

  \<^bold>\<open>Not modelled.\<close>
  \<^item> The construction of the object graph, signal handling, and starting and stopping the server in
    \<^verbatim>\<open>application.cpp\<close>, and the heartbeat's thread: they start threads and sockets and have no values to
    state a property about; the choice of back ends, the migrate-only mode, the exit codes, the wiring of the
    subscribers and of the invalidation handler are modelled.
  \<^item> Crow's routing and multipart parsing: a route is given with its arguments. spdlog's expansion of
    patterns and its sinks; the logging span exporter only writes log lines.
  \<^item> CHECK constraints other than those the validators enforce, plain indexes and the text-search column
    of the schema; isolation anomalies inside one transaction (a transaction is one step, races are between
    transactions).
\<close>

end
